(* ===== verification/Prelude.thy ===== *)
theory Prelude
  imports Main "HOL-Library.Word"
begin

text \<open>
  Shared vocabulary of the development: the machine integer types of the simulator
  (\<open>reg_t\<close> and the fixed-width types of \<open><cstdint>\<close>), the C shift operators on them,
  the field macros \<open>get_field\<close> and \<open>set_field\<close> of \<open>riscv/decode.h\<close> with their algebra,
  the state-and-exception computations in which the handlers are written, and the
  \<open>named_theorems\<close> collections the component proofs simplify with.
\<close>

unbundle bit_operations_syntax

named_theorems monad_simps "unfolding rules of the state-and-exception combinators"
named_theorems csr_simps "read-over-write rules of the hart state"
named_theorems const_simps "values of the architectural constants"

subsection \<open>Machine integers\<close>

type_synonym reg_t = "64 word"
type_synonym u32 = "32 word"
type_synonym u16 = "16 word"
type_synonym u8 = "8 word"

abbreviation shl :: "'a::len word \<Rightarrow> nat \<Rightarrow> 'a word" where
  "shl x n \<equiv> push_bit n x"

abbreviation shr :: "'a::len word \<Rightarrow> nat \<Rightarrow> 'a word" where
  "shr x n \<equiv> drop_bit n x"

abbreviation sar :: "'a::len word \<Rightarrow> nat \<Rightarrow> 'a word" where
  "sar x n \<equiv> signed_drop_bit n x"

lemma unat_lt_64 [simp]: "unat (x :: 64 word) < 18446744073709551616"
  using unsigned_less [of x, where ?'a = nat] by simp

lemma unat_lt_32 [simp]: "unat (x :: 32 word) < 4294967296"
  using unsigned_less [of x, where ?'a = nat] by simp

lemma word_nonzero_bit:
  fixes w :: "'a::len word"
  assumes "w \<noteq> 0"
  obtains n where "bit w n" "n < LENGTH('a)"
proof -
  from assms have "\<exists>n. bit w n" by (auto simp: bit_eq_iff)
  then show thesis using that by (auto dest: bit_imp_le_length)
qed

lemma word_disj_bits:
  "(a::'a::len word) AND b = 0 \<longleftrightarrow> (\<forall>n<LENGTH('a). \<not> (bit a n \<and> bit b n))"
  by (auto simp: bit_eq_iff bit_simps)

subsection \<open>Register fields\<close>

definition get_field :: "'a::len word \<Rightarrow> 'a word \<Rightarrow> 'a word" where
  "get_field reg msk = (reg AND msk) div (msk AND NOT (shl msk 1))"

definition set_field :: "'a::len word \<Rightarrow> 'a word \<Rightarrow> 'a word \<Rightarrow> 'a word" where
  "set_field reg msk val =
     (reg AND NOT msk) OR ((val * (msk AND NOT (shl msk 1))) AND msk)"

text \<open>
  Every mask the code passes to these macros is a contiguous run of ones:
  \<open>field_mask k n\<close> has \<open>n\<close> ones from bit \<open>k\<close> up.
\<close>

definition field_mask :: "nat \<Rightarrow> nat \<Rightarrow> 'a::len word" where
  "field_mask k n = shl (mask n) k"

lemma bit_field_mask [simp]:
  "bit (field_mask k n :: 'a::len word) i \<longleftrightarrow> k \<le> i \<and> i < k + n \<and> i < LENGTH('a)"
  by (auto simp: field_mask_def bit_simps)

lemma field_mask_lsb:
  assumes "0 < n" "k < LENGTH('a)"
  shows "(field_mask k n :: 'a::len word) AND NOT (shl (field_mask k n) 1) = 2 ^ k"
proof (rule bit_word_eqI)
  fix i assume "i < LENGTH('a)"
  then show "bit ((field_mask k n :: 'a word) AND NOT (shl (field_mask k n) 1)) i
      \<longleftrightarrow> bit (2 ^ k :: 'a word) i"
    using assms
    by (auto simp only: bit_and_iff bit_not_iff bit_push_bit_iff bit_field_mask bit_exp_iff
        possible_bit_word)
qed

lemma get_field_contiguous:
  assumes "0 < n" "k < LENGTH('a)"
  shows "get_field (r :: 'a::len word) (field_mask k n) = take_bit n (shr r k)"
proof -
  have "get_field r (field_mask k n) = shr (r AND field_mask k n) k"
    using field_mask_lsb [OF assms]
    by (simp only: get_field_def drop_bit_eq_div)
  also have "\<dots> = take_bit n (shr r k)"
    by (rule bit_word_eqI) (auto simp: bit_simps dest: bit_imp_le_length)
  finally show ?thesis .
qed

lemma set_field_contiguous:
  assumes "0 < n" "k < LENGTH('a)"
  shows "set_field (r :: 'a::len word) (field_mask k n) v =
    (r AND NOT (field_mask k n)) OR (shl v k AND field_mask k n)"
  using field_mask_lsb [OF assms]
  by (simp only: set_field_def push_bit_eq_mult)

lemma bit_set_field:
  assumes "0 < n" "k < LENGTH('a)"
  shows "bit (set_field (r :: 'a::len word) (field_mask k n) v) i \<longleftrightarrow>
    (if k \<le> i \<and> i < k + n then i < LENGTH('a) \<and> bit v (i - k) else bit r i)"
  by (auto simp: set_field_contiguous assms bit_simps dest: bit_imp_le_length)

lemma get_set_field:
  assumes "0 < n" "k + n \<le> LENGTH('a)"
  shows "get_field (set_field (r :: 'a::len word) (field_mask k n) v) (field_mask k n)
    = take_bit n v"
proof -
  have k: "k < LENGTH('a)" using assms by simp
  show ?thesis
    by (rule bit_word_eqI)
       (use assms k in \<open>auto simp: get_field_contiguous bit_simps bit_set_field\<close>)
qed

lemma get_set_field_other:
  assumes "0 < n" "k < LENGTH('a)" "0 < n'" "k' < LENGTH('a)"
    and disj: "k + n \<le> k' \<or> k' + n' \<le> k"
  shows "get_field (set_field (r :: 'a::len word) (field_mask k n) v) (field_mask k' n')
    = get_field r (field_mask k' n')"
  by (rule bit_word_eqI)
     (use assms in \<open>auto simp: get_field_contiguous bit_simps bit_set_field\<close>)

lemma set_field_and_other:
  assumes "m AND x = 0"
  shows "set_field r m v AND x = r AND x"
proof -
  have "NOT m AND x = x" using assms by (auto simp: bit_eq_iff bit_simps)
  moreover have "(w AND m) AND x = 0" for w using assms by (simp add: and.assoc)
  ultimately show ?thesis
    by (simp add: set_field_def bit.conj_disj_distrib2 and.assoc)
qed

subsection \<open>State-and-exception computations\<close>

text \<open>
  A C++ member function that may throw is a function from the state to a result and the
  state it leaves behind: the effects made before a \<open>throw\<close> stay, as they do in the code.
\<close>

type_synonym ('s, 'e, 'a) comp = "'s \<Rightarrow> ('e + 'a) \<times> 's"

definition return :: "'a \<Rightarrow> ('s, 'e, 'a) comp" where
  "return x s = (Inr x, s)"

definition throw :: "'e \<Rightarrow> ('s, 'e, 'a) comp" where
  "throw e s = (Inl e, s)"

definition bindE :: "('s, 'e, 'a) comp \<Rightarrow> ('a \<Rightarrow> ('s, 'e, 'b) comp) \<Rightarrow> ('s, 'e, 'b) comp" where
  "bindE m f s = (case m s of (Inl e, s') \<Rightarrow> (Inl e, s') | (Inr x, s') \<Rightarrow> f x s')"

definition gets :: "('s \<Rightarrow> 'a) \<Rightarrow> ('s, 'e, 'a) comp" where
  "gets f s = (Inr (f s), s)"

definition modify :: "('s \<Rightarrow> 's) \<Rightarrow> ('s, 'e, unit) comp" where
  "modify f s = (Inr (), f s)"

definition catchE :: "('s, 'e, 'a) comp \<Rightarrow> ('e \<Rightarrow> ('s, 'e, 'a) comp) \<Rightarrow> ('s, 'e, 'a) comp" where
  "catchE m h s = (case m s of (Inl e, s') \<Rightarrow> h e s' | (Inr x, s') \<Rightarrow> (Inr x, s'))"

definition whenE :: "bool \<Rightarrow> ('s, 'e, unit) comp \<Rightarrow> ('s, 'e, unit) comp" where
  "whenE b m = (if b then m else return ())"

declare return_def [monad_simps] throw_def [monad_simps] bindE_def [monad_simps]
  gets_def [monad_simps] modify_def [monad_simps] catchE_def [monad_simps]
  whenE_def [monad_simps]

lemma bindE_assoc: "bindE (bindE m f) g = bindE m (\<lambda>x. bindE (f x) g)"
  by (rule ext) (auto simp: bindE_def split: prod.splits sum.splits)

lemma bindE_return [simp]: "bindE (return x) f = f x" "bindE m return = m"
  by (rule ext; auto simp: bindE_def return_def split: prod.splits sum.splits)+

lemma bindE_Inr:
  "bindE m f s = (Inr y, t) \<longleftrightarrow> (\<exists>x s'. m s = (Inr x, s') \<and> f x s' = (Inr y, t))"
  by (auto simp: bindE_def split: prod.splits sum.splits)

lemma bindE_Inl:
  "bindE m f s = (Inl e, t) \<longleftrightarrow>
     m s = (Inl e, t) \<or> (\<exists>x s'. m s = (Inr x, s') \<and> f x s' = (Inl e, t))"
  by (auto simp: bindE_def split: prod.splits sum.splits)


lemma unat_shr: "unat (shr (w :: 'a::len word) k) = unat w div 2 ^ k"
  by (simp only: unat_drop_bit_eq drop_bit_eq_div [where ?'a = nat])

lemma unat_shl: "unat (shl (w :: 'a::len word) k) = unat w * 2 ^ k mod 2 ^ LENGTH('a)"
  by (simp only: unsigned_push_bit_eq push_bit_eq_mult [where ?'a = nat] take_bit_eq_mod [where ?'a = nat])

lemma bit_nonzero: "bit (w :: 'a::len word) n \<Longrightarrow> w \<noteq> 0"
  by auto

subsection \<open>Invariants and sticky registers of a step relation\<close>

text \<open>
  \<open>preserved\<close> is the contract of an invariant, \<open>sticky\<close> the contract of a lock: while \<open>armed\<close>
  holds a step changes neither \<open>armed\<close> nor what \<open>view\<close> shows. Components discharge the
  one-step laws; what holds for ever after is proved here once.
\<close>

locale preserved =
  fixes step :: "'s \<Rightarrow> 's \<Rightarrow> bool" and inv :: "'s \<Rightarrow> bool"
  assumes preserve: "step s t \<Longrightarrow> inv s \<Longrightarrow> inv t"
begin

lemma forever: "step\<^sup>*\<^sup>* s t \<Longrightarrow> inv s \<Longrightarrow> inv t"
  by (induction rule: rtranclp_induct) (auto intro: preserve)

end

locale sticky = preserved step armed
  for step :: "'s \<Rightarrow> 's \<Rightarrow> bool" and armed :: "'s \<Rightarrow> bool" +
  fixes view :: "'s \<Rightarrow> 'v"
  assumes view_step: "step s t \<Longrightarrow> armed s \<Longrightarrow> view t = view s"
begin

lemma view_forever: "step\<^sup>*\<^sup>* s t \<Longrightarrow> armed s \<Longrightarrow> view t = view s"
  by (induction rule: rtranclp_induct) (auto dest: forever view_step)

end

end
