(* ===== verification/Arith.thy ===== *)
theory Arith
  imports Prelude
begin

text \<open>
  The arithmetic helpers of \<open>riscv/arith.h\<close>: high halves of 64-bit products computed from
  32-bit limbs, branch-free saturating addition and subtraction at every width, bit-field
  extraction, leading and trailing bit counts by binary search, and the crossbar
  permutation. Signed C values are words read by \<open>sint\<close>; an \<open>assert\<close> that fails is
  \<open>None\<close>.
\<close>

subsection \<open>High halves of products\<close>

definition mulhu :: "reg_t \<Rightarrow> reg_t \<Rightarrow> reg_t" where
  "mulhu a b = (
     let a0 = ucast (ucast a :: u32) :: reg_t; a1 = shr a 32;
         b0 = ucast (ucast b :: u32) :: reg_t; b1 = shr b 32;
         t = a1 * b0 + shr (a0 * b0) 32;
         y1 = ucast t :: u32;
         y2 = ucast (shr t 32) :: u32;
         t = a0 * b1 + ucast y1;
         t = a1 * b1 + ucast y2 + shr t 32;
         y2 = ucast t :: u32;
         y3 = ucast (shr t 32) :: u32
     in shl (ucast y3) 32 OR ucast y2)"

definition mulh :: "reg_t \<Rightarrow> reg_t \<Rightarrow> reg_t" where
  "mulh a b = (
     let negate = ((a <s 0) \<noteq> (b <s 0));
         res = mulhu (if a <s 0 then - a else a) (if b <s 0 then - b else b)
     in if negate then NOT res + of_bool (a * b = 0) else res)"

definition mulhsu :: "reg_t \<Rightarrow> reg_t \<Rightarrow> reg_t" where
  "mulhsu a b = (
     let negate = (a <s 0);
         res = mulhu (if a <s 0 then - a else a) b
     in if negate then NOT res + of_bool (a * b = 0) else res)"

subsection \<open>Saturating arithmetic\<close>

text \<open>The templates are instantiated at widths 8 to 64; the model is polymorphic in the width.\<close>

definition sat_add :: "'a::len word \<Rightarrow> 'a word \<Rightarrow> 'a word \<times> bool" where
  "sat_add x y = (
     let sh = LENGTH('a) - 1;
         res = x + y;
         ux = shr x sh + (shl 1 sh - 1)
     in if \<not> (((ux XOR y) OR NOT (y XOR res)) <s 0) then (ux, True) else (res, False))"

definition sat_add3 :: "'a::len word \<Rightarrow> 'a word \<Rightarrow> 'a word \<Rightarrow> 'a word \<times> bool" where
  "sat_add3 x y z = (
     let (a, b) = (if ((y XOR z) AND (x XOR z)) <s 0 then (z, y) else (y, z));
         (res, sat1) = sat_add x a;
         (res, sat2) = sat_add res b
     in (res, sat1 \<or> sat2))"

definition sat_sub :: "'a::len word \<Rightarrow> 'a word \<Rightarrow> 'a word \<times> bool" where
  "sat_sub x y = (
     let sh = LENGTH('a) - 1;
         res = x - y;
         ux = shr x sh + (shl 1 sh - 1)
     in if ((ux XOR y) AND (ux XOR res)) <s 0 then (ux, True) else (res, False))"

definition sat_addu :: "'a::len word \<Rightarrow> 'a word \<Rightarrow> 'a word \<times> bool" where
  "sat_addu x y = (
     let res = x + y; sat = res < x
     in (res OR - of_bool (res < x), sat))"

definition sat_subu :: "'a::len word \<Rightarrow> 'a word \<Rightarrow> 'a word \<times> bool" where
  "sat_subu x y = (
     let res = x - y; sat = (\<not> res \<le> x)
     in (res AND - of_bool (res \<le> x), sat))"

subsection \<open>Bit fields and bit counts\<close>

definition extract64 :: "reg_t \<Rightarrow> int \<Rightarrow> int \<Rightarrow> reg_t option" where
  "extract64 val pos len =
     (if 0 \<le> pos \<and> 0 < len \<and> len \<le> 64 - pos
      then Some (shr val (nat pos) AND shr (NOT 0) (nat (64 - len))) else None)"

definition make_mask64 :: "int \<Rightarrow> int \<Rightarrow> reg_t option" where
  "make_mask64 pos len =
     (if 0 \<le> pos \<and> 0 < len \<and> pos < 64 \<and> len \<le> 64
      then Some (shl (shr (- 1) (nat (64 - len))) (nat pos)) else None)"

definition popcount :: "reg_t \<Rightarrow> nat" where
  "popcount val = (
     let val = (val AND 0x5555555555555555) + (shr val 1 AND 0x5555555555555555);
         val = (val AND 0x3333333333333333) + (shr val 2 AND 0x3333333333333333);
         val = (val AND 0x0f0f0f0f0f0f0f0f) + (shr val 4 AND 0x0f0f0f0f0f0f0f0f);
         val = (val AND 0x00ff00ff00ff00ff) + (shr val 8 AND 0x00ff00ff00ff00ff);
         val = (val AND 0x0000ffff0000ffff) + (shr val 16 AND 0x0000ffff0000ffff);
         val = (val AND 0x00000000ffffffff) + (shr val 32 AND 0x00000000ffffffff)
     in unat val)"

definition ctz_step :: "nat \<Rightarrow> reg_t \<times> nat \<Rightarrow> reg_t \<times> nat" where
  "ctz_step s = (\<lambda>(val, res).
     if shl val (64 - s) = 0 then (shr val s, res + s) else (val, res))"

definition ctz :: "reg_t \<Rightarrow> nat" where
  "ctz val = (if val = 0 then 0
     else snd (ctz_step 1 (ctz_step 2 (ctz_step 4 (ctz_step 8
            (ctz_step 16 (ctz_step 32 (val, 0))))))))"

definition clz_step :: "nat \<Rightarrow> reg_t \<times> nat \<Rightarrow> reg_t \<times> nat" where
  "clz_step s = (\<lambda>(val, res).
     if shr val (64 - s) = 0 then (shl val s, res + s) else (val, res))"

definition clz :: "reg_t \<Rightarrow> nat" where
  "clz val = (if val = 0 then 0
     else snd (clz_step 1 (clz_step 2 (clz_step 4 (clz_step 8
            (clz_step 16 (clz_step 32 (val, 0))))))))"

function cto_loop :: "reg_t \<Rightarrow> nat \<Rightarrow> nat" where
  "cto_loop val res =
     (if val AND 1 = 1 then cto_loop (shr val 1) (res + 1) else res)"
  by pat_completeness auto
termination cto_loop
proof (relation "measure (\<lambda>(val, res). unat val)")
  fix val :: reg_t and res :: nat
  assume "val AND 1 = 1"
  then have "val \<noteq> 0" by auto
  then show "((shr val 1, res + 1), val, res) \<in> measure (\<lambda>(val, res). unat val)"
    using unat_gt_0 [of val] by (simp add: drop_bit_eq_div unat_div)
qed auto

declare cto_loop.simps [simp del]

text \<open>
  \<open>xperm\<close> asserts \<open>sz_log2 <= 6\<close>; with \<open>sz_log2 = 6\<close> the shift \<open>1LL << 64\<close> that makes the mask
  is undefined in C++, so the model has a value for field sizes up to 32 bits, the sizes
  the instructions use.
\<close>

function xperm_loop :: "reg_t \<Rightarrow> reg_t \<Rightarrow> nat \<Rightarrow> nat \<Rightarrow> nat \<Rightarrow> reg_t \<Rightarrow> reg_t" where
  "xperm_loop rs1 rs2 sz_log2 len i r =
     (let sz = 2 ^ sz_log2; msk = shl 1 sz - 1 in
      if i < len then
        (let pos = shl (shr rs2 i AND msk) sz_log2 in
         xperm_loop rs1 rs2 sz_log2 len (i + sz)
           (if unat pos < len then r OR shl (shr rs1 (unat pos) AND msk) i else r))
      else r)"
  by pat_completeness auto
termination
  by (relation "measure (\<lambda>(rs1, rs2, sz_log2, len, i, r). len - i)")
     (auto intro: diff_less_mono2)

definition xperm :: "reg_t \<Rightarrow> reg_t \<Rightarrow> nat \<Rightarrow> nat \<Rightarrow> reg_t option" where
  "xperm rs1 rs2 sz_log2 len =
     (if sz_log2 \<le> 5 \<and> len \<le> 64 then Some (xperm_loop rs1 rs2 sz_log2 len 0 0) else None)"

definition cto :: "reg_t \<Rightarrow> nat" where
  "cto val = cto_loop val 0"

definition log2 :: "reg_t \<Rightarrow> nat" where
  "log2 val = (if val = 0 then 0 else 63 - clz val)"


lemma high_product_limbs:
  fixes a0 a1 b0 b1 N :: nat
  assumes "0 < N"
  shows "((a1 * N + a0) * (b1 * N + b0)) div (N * N) =
    a1 * b1 + (a1 * b0 + a0 * b0 div N) div N
     + (a0 * b1 + (a1 * b0 + a0 * b0 div N) mod N) div N"
proof -
  define q r where qr: "q = a0 * b0 div N" "r = a0 * b0 mod N"
  define u v where uv: "u = (a1 * b0 + q) div N" "v = (a1 * b0 + q) mod N"
  define w x where wx: "w = (a0 * b1 + v) div N" "x = (a0 * b1 + v) mod N"
  have e: "a0 * b0 = q * N + r" "a1 * b0 + q = u * N + v" "a0 * b1 + v = w * N + x"
    by (simp_all add: qr uv wx)
  have "(a1 * N + a0) * (b1 * N + b0) = a1 * b1 * (N * N) + (a1 * b0 + a0 * b1) * N + a0 * b0"
    by (simp add: algebra_simps)
  also have "\<dots> = a1 * b1 * (N * N) + ((a1 * b0 + q) + a0 * b1) * N + r"
    by (simp add: e(1) algebra_simps)
  also have "\<dots> = (a1 * b1 + u) * (N * N) + (a0 * b1 + v) * N + r"
    unfolding e(2) by (simp add: algebra_simps)
  also have "\<dots> = (x * N + r) + (a1 * b1 + u + w) * (N * N)"
    unfolding e(3) by (simp add: algebra_simps)
  finally have eq: "(a1 * N + a0) * (b1 * N + b0) = (x * N + r) + (a1 * b1 + u + w) * (N * N)" .
  have "(x + 1) * N \<le> N * N" using assms by (intro mult_le_mono1) (simp add: wx Suc_le_eq)
  moreover have "r < N" using assms by (simp add: qr)
  ultimately have "x * N + r < N * N" by (simp add: algebra_simps)
  then show ?thesis using assms by (simp add: eq uv wx qr)
qed

lemma prod_limbs_bound:
  fixes x y c :: nat
  assumes "x < 4294967296" "y < 4294967296" "c < 4294967296" "d < 4294967296"
  shows "x * y + c + d < 18446744073709551616"
proof -
  have "x * y \<le> 4294967295 * 4294967295" using assms by (intro mult_le_mono) auto
  then show ?thesis using assms by simp
qed

lemma unat_mulhu: "unat (mulhu a b) = unat a * unat b div 2 ^ 64"
proof -
  let ?N = "4294967296 :: nat"
  define A0 A1 B0 B1 where defs: "A0 = unat a mod ?N" "A1 = unat a div ?N"
    "B0 = unat b mod ?N" "B1 = unat b div ?N"
  have bnd: "A0 < ?N" "B0 < ?N" "A1 < ?N" "B1 < ?N"
    using unat_lt_64 [of a] unat_lt_64 [of b] by (simp_all add: defs less_mult_imp_div_less)
  define t1 where "t1 = A1 * B0 + A0 * B0 div ?N"
  define t2 where "t2 = A0 * B1 + t1 mod ?N"
  define t3 where "t3 = A1 * B1 + t1 div ?N + t2 div ?N"
  have q: "A0 * B0 div ?N < ?N"
    using prod_limbs_bound [of A0 B0 0 0] bnd by (simp add: less_mult_imp_div_less)
  have l1: "t1 < 18446744073709551616"
    using prod_limbs_bound [of A1 B0 "A0 * B0 div ?N" 0] bnd q by (simp add: t1_def)
  have l2: "t2 < 18446744073709551616"
    using prod_limbs_bound [of A0 B1 "t1 mod ?N" 0] bnd by (simp add: t2_def)
  have l3: "t3 < 18446744073709551616"
    using prod_limbs_bound [of A1 B1 "t1 div ?N" "t2 div ?N"] bnd l1 l2
    by (simp add: t3_def less_mult_imp_div_less)
  define a0 a1 b0 b1 :: reg_t where w: "a0 = ucast (ucast a :: u32)" "a1 = shr a 32"
    "b0 = ucast (ucast b :: u32)" "b1 = shr b 32"
  have u: "unat a0 = A0" "unat a1 = A1" "unat b0 = B0" "unat b1 = B1"
    by (simp_all add: w defs unsigned_ucast_eq take_bit_eq_mod unsigned_drop_bit_eq drop_bit_eq_div unat_div unat_mod)
  define T1 where "T1 = a1 * b0 + shr (a0 * b0) 32"
  have T1: "unat T1 = t1"
    using l1 q prod_limbs_bound [of A0 B0 0 0] prod_limbs_bound [of A1 B0 0 0] bnd
    by (simp add: T1_def t1_def unat_word_ariths unsigned_drop_bit_eq drop_bit_eq_div u)
  define T2 where "T2 = a0 * b1 + ucast (ucast T1 :: u32)"
  have T2: "unat T2 = t2"
    using l2 prod_limbs_bound [of A0 B1 0 0] bnd
    by (simp add: T2_def t2_def unat_word_ariths unsigned_ucast_eq take_bit_eq_mod u T1)
  define T3 where "T3 = a1 * b1 + ucast (ucast (shr T1 32) :: u32) + shr T2 32"
  have T3: "unat T3 = t3"
    using l3 l1 l2 prod_limbs_bound [of A1 B1 0 0] prod_limbs_bound [of A1 B1 "t1 div ?N" 0] bnd
    by (simp add: T3_def t3_def unat_word_ariths unsigned_ucast_eq take_bit_eq_mod u T1 T2
        unsigned_drop_bit_eq drop_bit_eq_div less_mult_imp_div_less)
  have "mulhu a b = shl (ucast (ucast (shr T3 32) :: u32)) 32 OR ucast (ucast T3 :: u32)"
    by (simp add: mulhu_def Let_def T1_def T2_def T3_def w)
  also have "\<dots> = T3" by (rule bit_word_eqI) (auto simp: bit_simps)
  finally have "unat (mulhu a b) = t3" by (simp add: T3)
  also have "\<dots> = ((A1 * ?N + A0) * (B1 * ?N + B0)) div (?N * ?N)"
    unfolding t3_def t2_def t1_def by (rule high_product_limbs [symmetric]) simp
  finally show ?thesis by (simp add: defs)
qed

lemma sless_0_iff: "(w :: 'a::len word) <s 0 \<longleftrightarrow> bit w (LENGTH('a) - 1)"
  by (simp add: word_sless_alt bit_last_iff)

lemma uint_abs_word:
  fixes a :: reg_t
  shows "uint (if a <s 0 then - a else a) = \<bar>sint a\<bar>"
proof -
  have r: "- (2 ^ 63) \<le> sint a" "sint a < 2 ^ 63"
    using sint_greater_eq [of a] sint_less [of a] by simp_all
  have m: "- a = word_of_int (- sint a)" "a = word_of_int (sint a)" by simp_all
  show ?thesis
  proof (cases "a <s 0")
    case True
    then have n: "sint a < 0" by (simp add: word_sless_alt)
    have "uint (- a) = take_bit 64 (- sint a)" by (subst m(1)) (simp only: uint_word_of_int_eq len_bit0 len_num1, simp)
    with True n r show ?thesis by (simp add: take_bit_int_eq_self)
  next
    case False
    then have n: "0 \<le> sint a" by (simp add: word_sless_alt)
    have "uint a = take_bit 64 (sint a)" by (subst m(2)) (simp only: uint_word_of_int_eq, simp)
    with False n r show ?thesis by (simp add: take_bit_int_eq_self)
  qed
qed

lemma uint_mulhu: "uint (mulhu a b) = uint a * uint b div 2 ^ 64"
  using arg_cong [OF unat_mulhu [of a b], of int] by (simp add: zdiv_int flip: uint_nat)

lemma neg_div_2p64:
  "word_of_int (- P div 2 ^ 64) = NOT (word_of_int (P div 2 ^ 64)) + of_bool ((word_of_int P :: reg_t) = 0)"
proof -
  have "(word_of_int P :: reg_t) = 0 \<longleftrightarrow> P mod 2 ^ 64 = 0"
    by (simp add: word_of_int_eq_0_iff dvd_eq_mod_eq_0)
  then show ?thesis
    by (simp add: zdiv_zminus1_eq_if not_eq_complement)
qed

lemma mulh_eq: "mulh a b = word_of_int (sint a * sint b div 2 ^ 64)"
proof -
  let ?P = "\<bar>sint a\<bar> * \<bar>sint b\<bar>"
  let ?m = "mulhu (if a <s 0 then - a else a) (if b <s 0 then - b else b)"
  have m: "?m = word_of_int (?P div 2 ^ 64)"
    by (metis uint_mulhu uint_abs_word word_of_int_uint)
  have s: "a <s 0 \<longleftrightarrow> sint a < 0" "b <s 0 \<longleftrightarrow> sint b < 0"
    by (simp_all add: word_sless_alt)
  have ab: "a * b = word_of_int (sint a * sint b)" by simp
  show ?thesis
  proof (cases "(a <s 0) = (b <s 0)")
    case True
    then have "?P = sint a * sint b" by (auto simp: s abs_if)
    with True show ?thesis unfolding mulh_def Let_def m by simp
  next
    case False
    then have P: "sint a * sint b = - ?P" by (auto simp: s abs_if)
    then have "a * b = 0 \<longleftrightarrow> (word_of_int ?P :: reg_t) = 0" unfolding ab by simp
    with False show ?thesis
      unfolding mulh_def Let_def m P by (simp only: neg_div_2p64 if_True not_False_eq_True)
  qed
qed

lemma mulhsu_eq: "mulhsu a b = word_of_int (sint a * uint b div 2 ^ 64)"
proof -
  let ?P = "\<bar>sint a\<bar> * uint b"
  let ?m = "mulhu (if a <s 0 then - a else a) b"
  have m: "?m = word_of_int (?P div 2 ^ 64)"
    by (metis uint_mulhu uint_abs_word word_of_int_uint)
  have s: "a <s 0 \<longleftrightarrow> sint a < 0" by (simp add: word_sless_alt)
  have ab: "a * b = word_of_int (sint a * uint b)" by simp
  show ?thesis
  proof (cases "a <s 0")
    case False
    then have "\<bar>sint a\<bar> = sint a" by (simp add: s)
    with False show ?thesis unfolding mulhsu_def Let_def m by simp
  next
    case True
    then have P: "sint a * uint b = - ?P" by (auto simp: s abs_if)
    then have "a * b = 0 \<longleftrightarrow> (word_of_int ?P :: reg_t) = 0" unfolding ab by simp
    with True show ?thesis
      unfolding mulhsu_def Let_def m P by (simp only: neg_div_2p64 if_True)
  qed
qed

subsection \<open>Saturation\<close>

definition smax :: "'a::len itself \<Rightarrow> int" where
  "smax T = 2 ^ (LENGTH('a) - 1) - 1"

definition smin :: "'a::len itself \<Rightarrow> int" where
  "smin T = - (2 ^ (LENGTH('a) - 1))"

definition clamp_signed :: "'a::len itself \<Rightarrow> int \<Rightarrow> int" where
  "clamp_signed T k = max (smin T) (min (smax T) k)"

definition fits_signed :: "'a::len itself \<Rightarrow> int \<Rightarrow> bool" where
  "fits_signed T k \<longleftrightarrow> smin T \<le> k \<and> k \<le> smax T"

lemma sint_fits: "fits_signed TYPE('a::len) (sint (w :: 'a word))"
  using sint_greater_eq [of w] sint_less [of w] by (simp add: fits_signed_def smin_def smax_def)

lemma signed_take_bit_wrap:
  assumes "- 3 * 2 ^ n \<le> k" "k < 3 * 2 ^ n"
  shows "signed_take_bit n (k :: int) =
    (if k < - (2 ^ n) then k + 2 ^ Suc n else if 2 ^ n \<le> k then k - 2 ^ Suc n else k)"
proof -
  have "(k + 2 ^ n) mod (2 ^ Suc n) =
      (if k < - (2 ^ n) then k + 2 ^ n + 2 ^ Suc n else if 2 ^ n \<le> k then k + 2 ^ n - 2 ^ Suc n
       else k + 2 ^ n)"
  proof -
    have "(k + 2 ^ n + 2 ^ Suc n) mod 2 ^ Suc n = k + 2 ^ n + 2 ^ Suc n" if "k < - (2 ^ n)"
      using that assms by (intro mod_pos_pos_trivial) auto
    moreover have "(k + 2 ^ n - 2 ^ Suc n) mod 2 ^ Suc n = k + 2 ^ n - 2 ^ Suc n" if "2 ^ n \<le> k"
      using that assms by (intro mod_pos_pos_trivial) auto
    moreover have "(k + 2 ^ n) mod 2 ^ Suc n = k + 2 ^ n" if "\<not> k < - (2 ^ n)" "\<not> 2 ^ n \<le> k"
      using that by (intro mod_pos_pos_trivial) auto
    ultimately show ?thesis by (metis minus_mod_self2 mod_add_self2)
  qed
  then show ?thesis by (simp add: signed_take_bit_eq_take_bit_shift take_bit_eq_mod)
qed

lemma sint_wrap:
  fixes k :: int
  assumes "3 * smin TYPE('a::len) \<le> k" "k < - (3 * smin TYPE('a))"
  shows "sint (word_of_int k :: 'a word) =
    (if k < smin TYPE('a) then k - 2 * smin TYPE('a)
     else if smax TYPE('a) < k then k + 2 * smin TYPE('a) else k)"
proof -
  have "sint (word_of_int k :: 'a word) = signed_take_bit (LENGTH('a) - 1) k"
    by (simp add: sint_sbintrunc')
  then show ?thesis
    using assms signed_take_bit_wrap [of "LENGTH('a) - 1" k] power_Suc [of "2 :: int" "LENGTH('a) - 1"]
    by (auto simp: smin_def smax_def)
qed

lemma sat_bound_word:
  fixes x :: "'a::len word"
  shows "sint (shr x (LENGTH('a) - 1) + (shl 1 (LENGTH('a) - 1) - 1)) =
    (if x <s 0 then smin TYPE('a) else smax TYPE('a))"
proof -
  have top: "bit x (LENGTH('a) - 1 + n) \<longleftrightarrow> n = 0 \<and> bit x (LENGTH('a) - 1)" for n
    using bit_imp_le_length [of x "LENGTH('a) - 1 + n"] by (cases n) auto
  have h: "shr x (LENGTH('a) - 1) = of_bool (x <s 0)"
    unfolding sless_0_iff
    by (rule bit_word_eqI) (simp only: bit_drop_bit_eq comp_def top, auto simp: bit_simps)
  have e: "shr x (LENGTH('a) - 1) + (shl 1 (LENGTH('a) - 1) - 1)
    = word_of_int (of_bool (x <s 0) + smax TYPE('a))"
    by (simp add: h [simplified] smax_def push_bit_eq_mult)
  have "(1 :: int) \<le> 2 ^ (LENGTH('a) - Suc 0)" by simp
  then show ?thesis unfolding e
    by (subst sint_wrap) (auto simp: smin_def smax_def simp del: one_le_power)
qed

lemma sat_add_correct:
  fixes x y :: "'a::len word"
  shows "sint (fst (sat_add x y)) = clamp_signed TYPE('a) (sint x + sint y)"
    and "snd (sat_add x y) \<longleftrightarrow> \<not> fits_signed TYPE('a) (sint x + sint y)"
proof -
  let ?b = "shr x (LENGTH('a) - 1) + (shl 1 (LENGTH('a) - 1) - 1)"
  have r: "smin TYPE('a) \<le> sint x" "sint x \<le> smax TYPE('a)"
          "smin TYPE('a) \<le> sint y" "sint y \<le> smax TYPE('a)"
    using sint_fits [of x] sint_fits [of y] by (simp_all add: fits_signed_def)
  have mm: "smax TYPE('a) = - smin TYPE('a) - 1" "smin TYPE('a) < 0"
    by (simp_all add: smin_def smax_def)
  have xy: "x + y = word_of_int (sint x + sint y)" by simp
  have res: "sint (x + y) = (if sint x + sint y < smin TYPE('a) then sint x + sint y - 2 * smin TYPE('a)
     else if smax TYPE('a) < sint x + sint y then sint x + sint y + 2 * smin TYPE('a)
     else sint x + sint y)"
    unfolding xy by (rule sint_wrap) (use r mm in linarith)+
  have bs: "?b <s 0 \<longleftrightarrow> x <s 0"
    using sat_bound_word [of x] mm by (auto simp: word_sless_alt)
  have c: "(((?b XOR y) OR NOT (y XOR (x + y))) <s 0) \<longleftrightarrow>
     ((x <s 0) \<noteq> (y <s 0)) \<or> ((y <s 0) = ((x + y) <s 0))"
    using bs by (auto simp: sless_0_iff bit_simps)
  have neg: "x <s 0 \<longleftrightarrow> sint x < 0" "y <s 0 \<longleftrightarrow> sint y < 0" "(x + y) <s 0 \<longleftrightarrow> sint (x + y) < 0"
    by (simp_all add: word_sless_alt)
  show "sint (fst (sat_add x y)) = clamp_signed TYPE('a) (sint x + sint y)"
    using r mm unfolding sat_add_def Let_def c neg
    by (auto simp: sat_bound_word [simplified] neg res clamp_signed_def split: if_splits)
  show "snd (sat_add x y) \<longleftrightarrow> \<not> fits_signed TYPE('a) (sint x + sint y)"
    using r mm unfolding sat_add_def Let_def c neg
    by (auto simp: neg res fits_signed_def split: if_splits)
qed

lemma sat_sub_correct:
  fixes x y :: "'a::len word"
  shows "sint (fst (sat_sub x y)) = clamp_signed TYPE('a) (sint x - sint y)"
    and "snd (sat_sub x y) \<longleftrightarrow> \<not> fits_signed TYPE('a) (sint x - sint y)"
proof -
  let ?b = "shr x (LENGTH('a) - 1) + (shl 1 (LENGTH('a) - 1) - 1)"
  have r: "smin TYPE('a) \<le> sint x" "sint x \<le> smax TYPE('a)"
          "smin TYPE('a) \<le> sint y" "sint y \<le> smax TYPE('a)"
    using sint_fits [of x] sint_fits [of y] by (simp_all add: fits_signed_def)
  have mm: "smax TYPE('a) = - smin TYPE('a) - 1" "smin TYPE('a) < 0"
    by (simp_all add: smin_def smax_def)
  have xy: "x - y = word_of_int (sint x - sint y)" by simp
  have res: "sint (x - y) = (if sint x - sint y < smin TYPE('a) then sint x - sint y - 2 * smin TYPE('a)
     else if smax TYPE('a) < sint x - sint y then sint x - sint y + 2 * smin TYPE('a)
     else sint x - sint y)"
    unfolding xy by (rule sint_wrap) (use r mm in linarith)+
  have bs: "?b <s 0 \<longleftrightarrow> x <s 0"
    using sat_bound_word [of x] mm by (auto simp: word_sless_alt)
  have c: "(((?b XOR y) AND (?b XOR (x - y))) <s 0) \<longleftrightarrow>
     ((x <s 0) \<noteq> (y <s 0)) \<and> ((x <s 0) \<noteq> ((x - y) <s 0))"
    using bs by (auto simp: sless_0_iff bit_simps)
  have neg: "x <s 0 \<longleftrightarrow> sint x < 0" "y <s 0 \<longleftrightarrow> sint y < 0" "(x - y) <s 0 \<longleftrightarrow> sint (x - y) < 0"
    by (simp_all add: word_sless_alt)
  show "sint (fst (sat_sub x y)) = clamp_signed TYPE('a) (sint x - sint y)"
    using r mm unfolding sat_sub_def Let_def c neg
    by (auto simp: sat_bound_word [simplified] neg res clamp_signed_def split: if_splits)
  show "snd (sat_sub x y) \<longleftrightarrow> \<not> fits_signed TYPE('a) (sint x - sint y)"
    using r mm unfolding sat_sub_def Let_def c neg
    by (auto simp: neg res fits_signed_def split: if_splits)
qed

lemma sat_add3_correct:
  fixes x y z :: "'a::len word"
  shows "sint (fst (sat_add3 x y z)) = clamp_signed TYPE('a) (sint x + sint y + sint z)"
    and "snd (sat_add3 x y z) \<longleftrightarrow> \<not> fits_signed TYPE('a) (sint x + sint y + sint z)"
proof -
  have r: "smin TYPE('a) \<le> sint x" "sint x \<le> smax TYPE('a)"
          "smin TYPE('a) \<le> sint y" "sint y \<le> smax TYPE('a)"
          "smin TYPE('a) \<le> sint z" "sint z \<le> smax TYPE('a)"
    using sint_fits [of x] sint_fits [of y] sint_fits [of z] by (simp_all add: fits_signed_def)
  have mm: "smax TYPE('a) = - smin TYPE('a) - 1" "smin TYPE('a) < 0"
    by (simp_all add: smin_def smax_def)
  have c: "((y XOR z) AND (x XOR z)) <s 0 \<longleftrightarrow>
     ((sint y < 0) \<noteq> (sint z < 0)) \<and> ((sint x < 0) \<noteq> (sint z < 0))"
  proof -
    have "((y XOR z) AND (x XOR z)) <s 0 \<longleftrightarrow> ((y <s 0) \<noteq> (z <s 0)) \<and> ((x <s 0) \<noteq> (z <s 0))"
      by (auto simp: sless_0_iff bit_simps)
    then show ?thesis by (simp only: word_sless_alt sint_0)
  qed
  show "sint (fst (sat_add3 x y z)) = clamp_signed TYPE('a) (sint x + sint y + sint z)"
    using r mm unfolding sat_add3_def Let_def c
    by (auto simp: split_beta sat_add_correct clamp_signed_def split: if_splits)
  show "snd (sat_add3 x y z) \<longleftrightarrow> \<not> fits_signed TYPE('a) (sint x + sint y + sint z)"
    using r mm unfolding sat_add3_def Let_def c
    by (auto simp: split_beta sat_add_correct clamp_signed_def fits_signed_def split: if_splits)
qed

lemma sat_addu_correct:
  fixes x y :: "'a::len word"
  shows "uint (fst (sat_addu x y)) = min (2 ^ LENGTH('a) - 1) (uint x + uint y)"
    and "snd (sat_addu x y) \<longleftrightarrow> 2 ^ LENGTH('a) \<le> uint x + uint y"
proof -
  have u: "uint (x + y) = (if uint x + uint y < 2 ^ LENGTH('a) then uint x + uint y
      else uint x + uint y - 2 ^ LENGTH('a))"
    using uint_plus_if' [of x y] by (simp add: linorder_not_less)
  have lt: "x + y < x \<longleftrightarrow> 2 ^ LENGTH('a) \<le> uint x + uint y"
    using uint_lt2p [of x] uint_lt2p [of y] by (auto simp: word_less_def u)
  show "snd (sat_addu x y) \<longleftrightarrow> 2 ^ LENGTH('a) \<le> uint x + uint y"
    by (simp add: sat_addu_def lt)
  show "uint (fst (sat_addu x y)) = min (2 ^ LENGTH('a) - 1) (uint x + uint y)"
    by (simp add: sat_addu_def lt u unsigned_minus_1_eq_mask mask_eq_exp_minus_1)
qed

lemma sat_subu_correct:
  fixes x y :: "'a::len word"
  shows "uint (fst (sat_subu x y)) = max 0 (uint x - uint y)"
    and "snd (sat_subu x y) \<longleftrightarrow> uint x < uint y"
proof -
  have u: "uint (x - y) = (if uint y \<le> uint x then uint x - uint y
      else uint x - uint y + 2 ^ LENGTH('a))"
    using uint_sub_if' [of x y] by simp
  have le: "x - y \<le> x \<longleftrightarrow> uint y \<le> uint x"
    unfolding word_le_def u by (simp add: not_le split: if_split)
  show "snd (sat_subu x y) \<longleftrightarrow> uint x < uint y"
    by (auto simp: sat_subu_def le)
  show "uint (fst (sat_subu x y)) = max 0 (uint x - uint y)"
    by (simp add: sat_subu_def le u)
qed

subsection \<open>Bit counts\<close>

text \<open>One halving of the binary search: what is left of the word after \<open>res\<close> skipped zeros.\<close>

definition ctz_inv :: "reg_t \<Rightarrow> nat \<Rightarrow> reg_t \<times> nat \<Rightarrow> bool" where
  "ctz_inv v s p \<longleftrightarrow> fst p = shr v (snd p) \<and> (\<forall>i < snd p. \<not> bit v i)
     \<and> (\<exists>i < s. bit (fst p) i)"

lemma ctz_step_inv:
  assumes "ctz_inv v (2 * s) p" "s \<le> 64"
  shows "ctz_inv v s (ctz_step s p)"
proof -
  obtain w r where p: "p = (w, r)" by force
  have z: "shl w (64 - s) = 0 \<longleftrightarrow> (\<forall>i < s. \<not> bit w i)"
  proof
    assume a: "shl w (64 - s) = 0"
    show "\<forall>i < s. \<not> bit w i"
    proof (intro allI impI)
      fix i assume "i < s"
      moreover have "\<not> bit (shl w (64 - s)) (i + (64 - s))" using a by simp
      ultimately show "\<not> bit w i" using \<open>s \<le> 64\<close> by (simp add: bit_simps)
    qed
  next
    assume "\<forall>i < s. \<not> bit w i"
    then show "shl w (64 - s) = 0" using \<open>s \<le> 64\<close>
      by (intro bit_word_eqI) (auto simp: bit_simps)
  qed
  show ?thesis
  proof (cases "shl w (64 - s) = 0")
    case False
    then have "ctz_step s p = p" by (simp add: ctz_step_def p)
    moreover have "\<exists>i < s. bit (fst p) i" using False unfolding z by (simp add: p)
    ultimately show ?thesis using assms by (auto simp: ctz_inv_def)
  next
    case True
    from assms obtain i where i: "i < 2 * s" "bit w i" and w: "w = shr v r"
      and low: "\<forall>i<r. \<not> bit v i" by (auto simp: ctz_inv_def p)
    from True i have "s \<le> i" unfolding z by (meson not_le)
    then have a: "bit (shr w s) (i - s)" "i - s < s" using i by (auto simp: bit_simps)
    have b: "\<not> bit v j" if "j < r + s" for j
    proof (cases "j < r")
      case False
      then have "\<not> bit w (j - r)" using True that unfolding z by (simp add: less_diff_conv2)
      with False show ?thesis by (simp add: w bit_simps)
    qed (use low in blast)
    have c: "shr w s = shr v (r + s)" by (simp add: w drop_bit_drop_bit add.commute [of r])
    have "ctz_step s p = (shr v (r + s), r + s)" using True by (simp add: ctz_step_def p c)
    then show ?thesis using a b unfolding ctz_inv_def c by (auto intro!: exI [of _ "i - s"])
  qed
qed

lemma ctz_spec:
  assumes "v \<noteq> 0"
  shows "bit v (ctz v)" "\<And>i. i < ctz v \<Longrightarrow> \<not> bit v i" "ctz v < 64"
proof -
  obtain n where "bit v n" "n < 64" using word_nonzero_bit [OF assms] by auto
  then have "ctz_inv v (2 * 32) (v, 0)" by (auto simp: ctz_inv_def)
  from ctz_step_inv [OF this] have "ctz_inv v (2 * 16) (ctz_step 32 (v, 0))" by simp
  from ctz_step_inv [OF this] have "ctz_inv v (2 * 8) (ctz_step 16 (ctz_step 32 (v, 0)))" by simp
  from ctz_step_inv [OF this] have "ctz_inv v (2 * 4) (ctz_step 8 (ctz_step 16 (ctz_step 32 (v, 0))))" by simp
  from ctz_step_inv [OF this] have "ctz_inv v (2 * 2) (ctz_step 4 (ctz_step 8 (ctz_step 16 (ctz_step 32 (v, 0)))))" by simp
  from ctz_step_inv [OF this] have "ctz_inv v (2 * 1) (ctz_step 2 (ctz_step 4 (ctz_step 8 (ctz_step 16 (ctz_step 32 (v, 0))))))" by simp
  from ctz_step_inv [OF this] have
    "ctz_inv v 1 (ctz_step 1 (ctz_step 2 (ctz_step 4 (ctz_step 8 (ctz_step 16 (ctz_step 32 (v, 0)))))))" by simp
  then show b: "bit v (ctz v)" and "\<And>i. i < ctz v \<Longrightarrow> \<not> bit v i"
    using assms by (auto simp: ctz_inv_def ctz_def bit_simps)
  from bit_imp_le_length [OF b] show "ctz v < 64" by simp
qed

definition clz_inv :: "reg_t \<Rightarrow> nat \<Rightarrow> reg_t \<times> nat \<Rightarrow> bool" where
  "clz_inv v s p \<longleftrightarrow> fst p = shl v (snd p) \<and> (\<forall>i < snd p. \<not> bit v (63 - i)) \<and> snd p \<le> 64 - s
     \<and> (\<exists>i < s. bit (fst p) (63 - i))"

lemma clz_step_inv:
  assumes "clz_inv v (2 * s) p" "2 * s \<le> 64"
  shows "clz_inv v s (clz_step s p)"
proof -
  obtain w r where p: "p = (w, r)" by force
  have z: "shr w (64 - s) = 0 \<longleftrightarrow> (\<forall>i < s. \<not> bit w (63 - i))"
  proof
    assume a: "shr w (64 - s) = 0"
    show "\<forall>i < s. \<not> bit w (63 - i)"
    proof (intro allI impI)
      fix i assume i: "i < s"
      moreover have "\<not> bit (shr w (64 - s)) (s - Suc i)" using a by simp
      moreover have "64 - s + (s - Suc i) = 63 - i" using i assms(2) by arith
      ultimately show "\<not> bit w (63 - i)" by (simp add: bit_simps)
    qed
  next
    assume a: "\<forall>i < s. \<not> bit w (63 - i)"
    show "shr w (64 - s) = 0"
    proof (rule bit_word_eqI)
      fix n :: nat assume "n < LENGTH(64)"
      show "bit (shr w (64 - s)) n \<longleftrightarrow> bit (0 :: reg_t) n"
      proof (cases "n < s")
        case True
        with a [rule_format, of "s - Suc n"] assms(2) show ?thesis
          by (simp add: bit_simps algebra_simps)
      next
        case False
        then show ?thesis using bit_imp_le_length [of w "64 - s + n"] assms(2)
          by (auto simp: bit_simps)
      qed
    qed
  qed
  show ?thesis
  proof (cases "shr w (64 - s) = 0")
    case False
    then have "clz_step s p = p" by (simp add: clz_step_def p)
    moreover have "\<exists>i < s. bit (fst p) (63 - i)" using False unfolding z by (simp add: p)
    ultimately show ?thesis using assms by (auto simp: clz_inv_def)
  next
    case True
    from assms obtain i where i: "i < 2 * s" "bit w (63 - i)" and w: "w = shl v r"
      and high: "\<forall>i<r. \<not> bit v (63 - i)" and r: "r \<le> 64 - 2 * s" by (auto simp: clz_inv_def p)
    from True i have "s \<le> i" unfolding z by (meson not_le)
    then have a: "bit (shl w s) (63 - (i - s))" "i - s < s" using i assms(2)
      by (auto simp: bit_simps)
    have b: "\<not> bit v (63 - j)" if "j < r + s" for j
    proof (cases "j < r")
      case False
      have "j - r < s" using False that by simp
      then have "\<not> bit w (63 - (j - r))" using True unfolding z by blast
      with False that r assms(2) show ?thesis by (auto simp: w bit_simps)
    qed (use high in blast)
    have c: "shl w s = shl v (r + s)" by (simp add: w push_bit_push_bit add.commute [of r])
    have "clz_step s p = (shl v (r + s), r + s)" using True by (simp add: clz_step_def p c)
    then show ?thesis using a b r assms(2) unfolding clz_inv_def c
      by (auto intro!: exI [of _ "i - s"])
  qed
qed

lemma clz_spec:
  assumes "v \<noteq> 0"
  shows "bit v (63 - clz v)" "\<And>i. 63 - clz v < i \<Longrightarrow> \<not> bit v i" "clz v < 64"
proof -
  obtain n where n: "bit v n" "n < 64" using word_nonzero_bit [OF assms] by auto
  then have "clz_inv v (2 * 32) (v, 0)" by (auto simp: clz_inv_def intro!: exI [of _ "63 - n"])
  from clz_step_inv [OF this] have "clz_inv v (2 * 16) (clz_step 32 (v, 0))" by simp
  from clz_step_inv [OF this] have "clz_inv v (2 * 8) (clz_step 16 (clz_step 32 (v, 0)))" by simp
  from clz_step_inv [OF this] have "clz_inv v (2 * 4) (clz_step 8 (clz_step 16 (clz_step 32 (v, 0))))" by simp
  from clz_step_inv [OF this] have "clz_inv v (2 * 2) (clz_step 4 (clz_step 8 (clz_step 16 (clz_step 32 (v, 0)))))" by simp
  from clz_step_inv [OF this] have "clz_inv v (2 * 1) (clz_step 2 (clz_step 4 (clz_step 8 (clz_step 16 (clz_step 32 (v, 0))))))" by simp
  from clz_step_inv [OF this] have
    "clz_inv v 1 (clz_step 1 (clz_step 2 (clz_step 4 (clz_step 8 (clz_step 16 (clz_step 32 (v, 0)))))))" by simp
  then have i: "shl v (clz v) = fst (clz_step 1 (clz_step 2 (clz_step 4 (clz_step 8 (clz_step 16 (clz_step 32 (v, 0)))))))"
    and h: "\<forall>i<clz v. \<not> bit v (63 - i)" and c: "clz v \<le> 63" and t: "bit (shl v (clz v)) 63"
    using assms by (auto simp: clz_inv_def clz_def)
  from t show b: "bit v (63 - clz v)" by (simp add: bit_simps)
  from c show "clz v < 64" by simp
  fix i assume l: "63 - clz v < i"
  show "\<not> bit v i"
  proof (cases "i < 64")
    case True
    with l h [rule_format, of "63 - i"] show ?thesis by (simp add: algebra_simps)
  next
    case False
    then show ?thesis using bit_imp_le_length [of v i] by auto
  qed
qed

lemma cto_loop_spec:
  "res \<le> cto_loop v res \<and> (\<forall>i<cto_loop v res - res. bit v i) \<and> \<not> bit v (cto_loop v res - res)"
proof (induction v res rule: cto_loop.induct)
  case (1 val res)
  have o: "val AND 1 = 1 \<longleftrightarrow> bit val 0" by (simp add: bit_0 and_one_eq odd_iff_mod_2_eq_one)
  show ?case
  proof (cases "bit val 0")
    case False
    then show ?thesis by (subst (1 2 3) cto_loop.simps) (simp add: o)
  next
    case True
    let ?c = "cto_loop (shr val 1) (res + 1)"
    have eq: "cto_loop val res = ?c" using True by (subst cto_loop.simps) (simp add: o)
    from 1 True have ih: "res + 1 \<le> ?c" "\<forall>i<?c - (res + 1). bit (shr val 1) i"
        "\<not> bit (shr val 1) (?c - (res + 1))" by (simp_all add: o)
    have "bit val i" if "i < ?c - res" for i
      using ih(2) [rule_format, of "i - 1"] True that by (cases i) (auto simp: bit_simps simp flip: bit_Suc)
    moreover have "\<not> bit val (?c - res)"
      using ih(1,3) by (simp add: bit_drop_bit_eq Suc_diff_Suc Suc_le_eq)
    ultimately show ?thesis using ih(1) by (simp add: eq)
  qed
qed

lemma cto_spec: "(\<forall>i<cto v. bit v i) \<and> \<not> bit v (cto v)"
  using cto_loop_spec [of 0 v] by (simp add: cto_def)

subsection \<open>The arithmetic helpers are exact\<close>

lemma fits_sint_of_int:
  "fits_signed TYPE('a::len) k \<Longrightarrow> sint (word_of_int k :: 'a word) = k"
  by (simp add: sint_sbintrunc' fits_signed_def smin_def smax_def signed_take_bit_int_eq_self)

text \<open>C36: the 32-bit limb code for the high half of a product returns bits 64 to 127 of the exact
  product for all operands, in the unsigned, the signed and the mixed variant.\<close>

theorem high_products_exact:
  "uint (mulhu a b) = uint a * uint b div 2 ^ 64 \<and>
   sint (mulh a b) = sint a * sint b div 2 ^ 64 \<and>
   sint (mulhsu a b) = sint a * uint b div 2 ^ 64"
proof -
  have a: "- (2 ^ 63) \<le> sint a" "sint a < 2 ^ 63" and b: "- (2 ^ 63) \<le> sint b" "sint b < 2 ^ 63"
    and u: "0 \<le> uint b" "uint b < 2 ^ 64"
    using sint_greater_eq [of a] sint_less [of a] sint_greater_eq [of b] sint_less [of b]
      uint_bounded [of b] by simp_all
  have "\<bar>sint a * sint b\<bar> \<le> 2 ^ 63 * 2 ^ 63"
    unfolding abs_mult using a b by (intro mult_mono) auto
  then have ss: "fits_signed TYPE(64) (sint a * sint b div 2 ^ 64)"
    by (auto simp: fits_signed_def smin_def smax_def)
  have "\<bar>sint a * uint b\<bar> \<le> 2 ^ 63 * 2 ^ 64"
    unfolding abs_mult using a u by (intro mult_mono) auto
  then have "- (2 ^ 127) \<le> sint a * uint b" "sint a * uint b \<le> 2 ^ 127" by auto
  moreover have "sint a * uint b < 2 ^ 127"
  proof (cases "uint b = 0")
    case False
    with u have "0 < uint b" by (metis order_le_less)
    then have "sint a * uint b < 2 ^ 63 * uint b" using a by (intro mult_strict_right_mono) auto
    also have "\<dots> \<le> 2 ^ 63 * 2 ^ 64" using u by simp
    finally show ?thesis by simp
  qed simp
  ultimately have su: "fits_signed TYPE(64) (sint a * uint b div 2 ^ 64)"
    by (auto simp: fits_signed_def smin_def smax_def)
  show ?thesis
    using ss su by (simp add: uint_mulhu mulh_eq mulhsu_eq fits_sint_of_int)
qed

text \<open>C37: at every width the saturating additions and subtractions return the exact result
  clamped to the range of the type, and report saturation exactly when the exact result is
  outside that range; the three-operand sum clamps the sum of all three, not a partial sum.\<close>

theorem saturating_exact:
  fixes x y z :: "'a::len word"
  shows "sint (fst (sat_add x y)) = clamp_signed TYPE('a) (sint x + sint y) \<and>
    (snd (sat_add x y) \<longleftrightarrow> \<not> fits_signed TYPE('a) (sint x + sint y)) \<and>
    sint (fst (sat_add3 x y z)) = clamp_signed TYPE('a) (sint x + sint y + sint z) \<and>
    (snd (sat_add3 x y z) \<longleftrightarrow> \<not> fits_signed TYPE('a) (sint x + sint y + sint z)) \<and>
    sint (fst (sat_sub x y)) = clamp_signed TYPE('a) (sint x - sint y) \<and>
    (snd (sat_sub x y) \<longleftrightarrow> \<not> fits_signed TYPE('a) (sint x - sint y)) \<and>
    uint (fst (sat_addu x y)) = min (2 ^ LENGTH('a) - 1) (uint x + uint y) \<and>
    (snd (sat_addu x y) \<longleftrightarrow> 2 ^ LENGTH('a) \<le> uint x + uint y) \<and>
    uint (fst (sat_subu x y)) = max 0 (uint x - uint y) \<and>
    (snd (sat_subu x y) \<longleftrightarrow> uint x < uint y)"
  by (intro conjI sat_add_correct sat_add3_correct sat_sub_correct sat_addu_correct sat_subu_correct)

text \<open>The binary searches for zero bits find the lowest and the highest set bit of every
  non-zero word, and counting trailing ones stops at the lowest clear bit.\<close>

theorem bit_scans_exact:
  assumes "v \<noteq> 0"
  shows "bit v (ctz v) \<and> v AND mask (ctz v) = 0 \<and>
    bit v (63 - clz v) \<and> shr v (64 - clz v) = 0 \<and> clz v < 64 \<and>
    log2 v = 63 - clz v \<and>
    v AND mask (cto v) = mask (cto v) \<and> \<not> bit v (cto v)"
proof -
  have "v AND mask (ctz v) = 0"
    using ctz_spec(2) [OF assms] by (auto simp: bit_eq_iff bit_simps)
  moreover have "shr v (64 - clz v) = 0"
    using clz_spec(2,3) [OF assms] by (auto simp: bit_eq_iff bit_simps)
  moreover have "v AND mask (cto v) = mask (cto v)"
    using cto_spec [of v] by (auto simp: bit_eq_iff bit_simps)
  ultimately show ?thesis
    using ctz_spec [OF assms] clz_spec [OF assms] cto_spec [of v] assms
    by (simp add: log2_def)
qed

theorem bit_scans_exact_witness:
  "(40 :: reg_t) \<noteq> 0 \<and> bit (40 :: reg_t) (ctz 40) \<and> 40 AND mask (ctz 40) = (0 :: reg_t)"
  using bit_scans_exact [of 40] by simp

end
