(* ===== verification/Decode.thy ===== *)
theory Decode
  imports Prelude
begin

text \<open>
  \<open>riscv/decode.h\<close>: the instruction word \<open>insn_t\<close> with its field and immediate
  extractors, the instruction length rule, the \<open>cm.push\<close>/\<open>cm.pop\<close> register list and stack
  adjustment, and the register file \<open>regfile_t\<close>. The private accessors \<open>x\<close>, \<open>xs\<close> and
  \<open>imm_sign\<close> come first, because the extractors are written with them.
\<close>

subsection \<open>Instruction words\<close>

type_synonym insn_t = "64 word"

definition insn_length :: "insn_t \<Rightarrow> nat" where
  "insn_length x =
     (if x AND 0x03 < 0x03 then 2
      else if x AND 0x1f < 0x1f then 4
      else if x AND 0x3f < 0x3f then 6
      else 8)"

definition x_bits :: "insn_t \<Rightarrow> nat \<Rightarrow> nat \<Rightarrow> 64 word" where
  "x_bits b lo len = shr b lo AND (shl 1 len - 1)"

definition xs_bits :: "insn_t \<Rightarrow> nat \<Rightarrow> nat \<Rightarrow> 64 word" where
  "xs_bits b lo len = sar (shl b (64 - lo - len)) (64 - len)"

definition imm_sign :: "insn_t \<Rightarrow> 64 word" where
  "imm_sign b = xs_bits b 31 1"

definition i_imm :: "insn_t \<Rightarrow> 64 word" where
  "i_imm b = xs_bits b 20 12"

definition shamt :: "insn_t \<Rightarrow> 64 word" where
  "shamt b = x_bits b 20 6"

definition s_imm :: "insn_t \<Rightarrow> 64 word" where
  "s_imm b = x_bits b 7 5 + shl (xs_bits b 25 7) 5"

definition sb_imm :: "insn_t \<Rightarrow> 64 word" where
  "sb_imm b = shl (x_bits b 8 4) 1 + shl (x_bits b 25 6) 5 + shl (x_bits b 7 1) 11
     + shl (imm_sign b) 12"

definition u_imm :: "insn_t \<Rightarrow> 64 word" where
  "u_imm b = shl (xs_bits b 12 20) 12"

definition uj_imm :: "insn_t \<Rightarrow> 64 word" where
  "uj_imm b = shl (x_bits b 21 10) 1 + shl (x_bits b 20 1) 11 + shl (x_bits b 12 8) 12
     + shl (imm_sign b) 20"

definition rd :: "insn_t \<Rightarrow> nat" where
  "rd b = unat (x_bits b 7 5)"

definition rs1 :: "insn_t \<Rightarrow> nat" where
  "rs1 b = unat (x_bits b 15 5)"

definition rs2 :: "insn_t \<Rightarrow> nat" where
  "rs2 b = unat (x_bits b 20 5)"

definition rs3 :: "insn_t \<Rightarrow> nat" where
  "rs3 b = unat (x_bits b 27 5)"

definition rm :: "insn_t \<Rightarrow> nat" where
  "rm b = unat (x_bits b 12 3)"

definition csr_field :: "insn_t \<Rightarrow> nat" where
  "csr_field b = unat (x_bits b 20 12)"

definition bs_field :: "insn_t \<Rightarrow> nat" where
  "bs_field b = unat (x_bits b 30 2)"

definition rcon :: "insn_t \<Rightarrow> nat" where
  "rcon b = unat (x_bits b 20 4)"

subsection \<open>Compressed immediates\<close>

definition rvc_imm :: "insn_t \<Rightarrow> 64 word" where
  "rvc_imm b = x_bits b 2 5 + shl (xs_bits b 12 1) 5"

definition rvc_zimm :: "insn_t \<Rightarrow> 64 word" where
  "rvc_zimm b = x_bits b 2 5 + shl (x_bits b 12 1) 5"

definition rvc_addi4spn_imm :: "insn_t \<Rightarrow> 64 word" where
  "rvc_addi4spn_imm b = shl (x_bits b 6 1) 2 + shl (x_bits b 5 1) 3 + shl (x_bits b 11 2) 4
     + shl (x_bits b 7 4) 6"

definition rvc_addi16sp_imm :: "insn_t \<Rightarrow> 64 word" where
  "rvc_addi16sp_imm b = shl (x_bits b 6 1) 4 + shl (x_bits b 2 1) 5 + shl (x_bits b 5 1) 6
     + shl (x_bits b 3 2) 7 + shl (xs_bits b 12 1) 9"

definition rvc_lwsp_imm :: "insn_t \<Rightarrow> 64 word" where
  "rvc_lwsp_imm b = shl (x_bits b 4 3) 2 + shl (x_bits b 12 1) 5 + shl (x_bits b 2 2) 6"

definition rvc_ldsp_imm :: "insn_t \<Rightarrow> 64 word" where
  "rvc_ldsp_imm b = shl (x_bits b 5 2) 3 + shl (x_bits b 12 1) 5 + shl (x_bits b 2 3) 6"

definition rvc_swsp_imm :: "insn_t \<Rightarrow> 64 word" where
  "rvc_swsp_imm b = shl (x_bits b 9 4) 2 + shl (x_bits b 7 2) 6"

definition rvc_sdsp_imm :: "insn_t \<Rightarrow> 64 word" where
  "rvc_sdsp_imm b = shl (x_bits b 10 3) 3 + shl (x_bits b 7 3) 6"

definition rvc_lw_imm :: "insn_t \<Rightarrow> 64 word" where
  "rvc_lw_imm b = shl (x_bits b 6 1) 2 + shl (x_bits b 10 3) 3 + shl (x_bits b 5 1) 6"

definition rvc_ld_imm :: "insn_t \<Rightarrow> 64 word" where
  "rvc_ld_imm b = shl (x_bits b 10 3) 3 + shl (x_bits b 5 2) 6"

definition rvc_j_imm :: "insn_t \<Rightarrow> 64 word" where
  "rvc_j_imm b = shl (x_bits b 3 3) 1 + shl (x_bits b 11 1) 4 + shl (x_bits b 2 1) 5
     + shl (x_bits b 7 1) 6 + shl (x_bits b 6 1) 7 + shl (x_bits b 9 2) 8
     + shl (x_bits b 8 1) 10 + shl (xs_bits b 12 1) 11"

definition rvc_b_imm :: "insn_t \<Rightarrow> 64 word" where
  "rvc_b_imm b = shl (x_bits b 3 2) 1 + shl (x_bits b 10 2) 3 + shl (x_bits b 2 1) 5
     + shl (x_bits b 5 2) 6 + shl (xs_bits b 12 1) 8"

definition rvc_rs2 :: "insn_t \<Rightarrow> nat" where
  "rvc_rs2 b = unat (x_bits b 2 5)"

definition rvc_rs1s :: "insn_t \<Rightarrow> nat" where
  "rvc_rs1s b = 8 + unat (x_bits b 7 3)"

definition rvc_rs2s :: "insn_t \<Rightarrow> nat" where
  "rvc_rs2s b = 8 + unat (x_bits b 2 3)"

definition rvc_lbimm :: "insn_t \<Rightarrow> 64 word" where
  "rvc_lbimm b = shl (x_bits b 5 1) 1 + x_bits b 6 1"

definition rvc_lhimm :: "insn_t \<Rightarrow> 64 word" where
  "rvc_lhimm b = shl (x_bits b 5 1) 1"

definition rvc_rlist :: "insn_t \<Rightarrow> nat" where
  "rvc_rlist b = unat (x_bits b 4 4)"

definition rvc_spimm :: "insn_t \<Rightarrow> 64 word" where
  "rvc_spimm b = shl (x_bits b 2 2) 4"

subsection \<open>Register lists of the push and pop instructions\<close>

definition Sn :: "nat \<Rightarrow> nat" where
  "Sn n = (if n < 2 then 8 + n else 16 + n)"

fun zcmp_regmask_loop :: "nat list \<Rightarrow> u32 \<Rightarrow> u32" where
  "zcmp_regmask_loop [] msk = msk"
| "zcmp_regmask_loop (i # is) msk = zcmp_regmask_loop is (msk OR shl 1 (Sn (i - 5)))"

definition zcmp_regmask :: "insn_t \<Rightarrow> reg_t" where
  "zcmp_regmask b = (
     let rlist = rvc_rlist b;
         msk = (if 4 \<le> rlist then shl 1 1 else 0);
         msk = zcmp_regmask_loop [5..<Suc rlist] msk;
         msk = (if rlist = 15 then msk OR shl 1 (Sn 11) else msk)
     in ucast msk)"

text \<open>
  The \<open>switch\<close> of \<open>zcmp_stack_adjustment\<close> falls through: a list length enters at its label and
  collects every adjustment below it.
\<close>

definition zcmp_stack_base :: "nat \<Rightarrow> nat \<Rightarrow> reg_t" where
  "zcmp_stack_base rlist xlen = (
     let c15 = (if rlist = 15 then 16 else 0);
         c14 = (if rlist \<in> {14, 15} \<and> xlen = 64 then 16 else 0);
         c12 = (if rlist \<in> {12..15} then 16 else 0);
         c10 = (if rlist \<in> {10..15} \<and> xlen = 64 then 16 else 0);
         c8 = (if rlist \<in> {8..15} then 16 else 0);
         c6 = (if rlist \<in> {6..15} \<and> xlen = 64 then 16 else 0);
         c4 = (if rlist \<in> {4..15} then 16 else 0)
     in c15 + c14 + c12 + c10 + c8 + c6 + c4)"

definition zcmp_stack_adjustment :: "insn_t \<Rightarrow> nat \<Rightarrow> reg_t" where
  "zcmp_stack_adjustment b xlen = zcmp_stack_base (rvc_rlist b) xlen + rvc_spimm b"

subsection \<open>Register files\<close>

text \<open>
  \<open>regfile_t<T, N, zero_reg>\<close>: the indices the instructions form have five bits, so an access is
  always inside the array.
\<close>

type_synonym 't regfile = "nat \<Rightarrow> 't"

definition regfile_write :: "bool \<Rightarrow> 't regfile \<Rightarrow> nat \<Rightarrow> 't \<Rightarrow> 't regfile" where
  "regfile_write zero_reg data i value = (if \<not> zero_reg \<or> i \<noteq> 0 then data(i := value) else data)"

definition regfile_read :: "'t regfile \<Rightarrow> nat \<Rightarrow> 't" where
  "regfile_read data i = data i"

definition regfile_reset :: "('t::zero) regfile" where
  "regfile_reset = (\<lambda>_. 0)"


subsection \<open>The extractors, bit by bit\<close>

lemma bit_x_bits:
  assumes "len < 64"
  shows "bit (x_bits b lo len) n \<longleftrightarrow> n < len \<and> bit b (lo + n)"
proof -
  have "(shl 1 len - 1 :: 64 word) = mask len"
    by (simp add: mask_eq_exp_minus_1 push_bit_eq_mult)
  then show ?thesis using assms
    by (auto simp: x_bits_def bit_simps simp del: push_bit_of_1)
qed

lemma bit_xs_bits:
  assumes "0 < len" "lo + len \<le> 64"
  shows "bit (xs_bits b lo len) n \<longleftrightarrow>
    n < 64 \<and> bit b (if n < len then lo + n else lo + len - 1)"
proof (cases "n < 64")
  case True
  have e: "64 - (64 - len) = len" using assms by simp
  have "bit (xs_bits b lo len) n \<longleftrightarrow>
      bit (shl b (64 - lo - len)) (if len \<le> n then 63 else 64 - len + n)"
    using True by (simp add: xs_bits_def bit_signed_drop_bit_iff e)
  also have "\<dots> \<longleftrightarrow> bit b (if n < len then lo + n else lo + len - 1)"
    using assms True by (auto simp: bit_push_bit_iff add.commute [of n])
  finally show ?thesis using True by simp
next
  case False
  then show ?thesis using bit_imp_le_length [of "xs_bits b lo len" n] by auto
qed

lemma unat_x_bits_less: "len < 64 \<Longrightarrow> unat (x_bits b lo len) < 2 ^ len"
proof -
  assume "len < 64"
  then have "x_bits b lo len = take_bit len (x_bits b lo len)"
    by (intro bit_word_eqI) (auto simp: bit_x_bits bit_simps)
  then have "unat (x_bits b lo len) = take_bit len (unat (x_bits b lo len))"
    by (metis unsigned_take_bit_eq)
  then show ?thesis by (metis take_bit_nat_less_exp)
qed

definition disjoint_bits :: "'a::len word \<Rightarrow> 'a word \<Rightarrow> bool" where
  "disjoint_bits a b \<longleftrightarrow> (\<forall>n<LENGTH('a). \<not> (bit a n \<and> bit b n))"

lemma bit_sum_disjoint:
  fixes ws :: "'a::len word list"
  assumes "sorted_wrt disjoint_bits ws"
  shows "bit (sum_list ws) n \<longleftrightarrow> (\<exists>w\<in>set ws. bit w n)"
  using assms
proof (induction ws arbitrary: n)
  case (Cons a ws)
  then have ih: "\<And>n. bit (sum_list ws) n \<longleftrightarrow> (\<exists>w\<in>set ws. bit w n)" by simp
  have "a + sum_list ws = a OR sum_list ws"
    using Cons.prems ih by (intro disjunctive_add) (auto simp: disjoint_bits_def dest: bit_imp_le_length)
  then show ?case by (simp add: bit_or_iff ih)
qed simp

lemma bit_shl_x_bits:
  assumes "numeral m < (64 :: nat)" "k + numeral m \<le> 64"
  shows "bit (shl (x_bits b lo (numeral m)) k) n \<longleftrightarrow>
    k \<le> n \<and> n < k + numeral m \<and> bit b (lo + (n - k))"
  using assms by (auto simp: bit_push_bit_iff bit_x_bits)

lemma bit_shl_x_bits_1:
  assumes "k < 64"
  shows "bit (shl (x_bits b lo 1) k) n \<longleftrightarrow> n = k \<and> bit b lo"
  using assms by (auto simp: bit_push_bit_iff bit_x_bits)

lemma bit_shl_xs_bits:
  assumes "lo + numeral m \<le> 64"
  shows "bit (shl (xs_bits b lo (numeral m)) k) n \<longleftrightarrow>
    k \<le> n \<and> n < 64 \<and> bit b (if n < k + numeral m then lo + (n - k) else lo + numeral m - 1)"
  using assms by (auto simp: bit_push_bit_iff bit_xs_bits)

lemma bit_shl_xs_bits_1:
  assumes "lo < 64"
  shows "bit (shl (xs_bits b lo 1) k) n \<longleftrightarrow> k \<le> n \<and> n < 64 \<and> bit b lo"
  using assms by (auto simp: bit_push_bit_iff bit_xs_bits)

text \<open>
  An immediate is a sum of fields that do not overlap; the lemma reads its bits off the list
  of fields. The scattered bits of every format follow by listing its fields.
\<close>

lemma bits_of_fields:
  fixes v :: "'a::len word"
  assumes "sorted_wrt disjoint_bits ws" "v = sum_list ws"
  shows "bit v n \<longleftrightarrow> (\<exists>w\<in>set ws. bit w n)"
  using assms by (simp add: bit_sum_disjoint)

lemmas field_bits = disjoint_bits_def bit_shl_x_bits bit_shl_xs_bits
  bit_shl_x_bits_1 bit_shl_xs_bits_1 bit_x_bits bit_xs_bits

declare push_bit_Suc [simp del] One_nat_def [simp del]

lemma i_imm_bits: "bit (i_imm b) n \<longleftrightarrow> n < 64 \<and> bit b (if n < 12 then 20 + n else 31)"
  by (simp add: i_imm_def bit_xs_bits)

lemma u_imm_bits: "bit (u_imm b) n \<longleftrightarrow> 12 \<le> n \<and> n < 64 \<and> bit b (if n < 32 then n else 31)"
  by (auto simp: u_imm_def bit_shl_xs_bits)

lemma s_imm_bits: "bit (s_imm b) n \<longleftrightarrow> (n < 5 \<and> bit b (7 + n)) \<or>
     (5 \<le> n \<and> n < 64 \<and> bit b (if n < 12 then 25 + (n - 5) else 31))"
  by (subst bits_of_fields [where ws = "[x_bits b 7 5,
       shl (xs_bits b 25 7) 5]"])
     (simp_all add: field_bits s_imm_def imm_sign_def add.assoc)

lemma sb_imm_bits: "bit (sb_imm b) n \<longleftrightarrow> (1 \<le> n \<and> n < 5 \<and> bit b (8 + (n - 1))) \<or>
     (5 \<le> n \<and> n < 11 \<and> bit b (25 + (n - 5))) \<or>
     (n = 11 \<and> bit b 7) \<or>
     (12 \<le> n \<and> n < 64 \<and> bit b 31)"
  by (subst bits_of_fields [where ws = "[shl (x_bits b 8 4) 1,
       shl (x_bits b 25 6) 5,
       shl (x_bits b 7 1) 11,
       shl (xs_bits b 31 1) 12]"])
     (simp_all add: field_bits sb_imm_def imm_sign_def add.assoc)

lemma uj_imm_bits: "bit (uj_imm b) n \<longleftrightarrow> (1 \<le> n \<and> n < 11 \<and> bit b (21 + (n - 1))) \<or>
     (n = 11 \<and> bit b 20) \<or>
     (12 \<le> n \<and> n < 20 \<and> bit b (12 + (n - 12))) \<or>
     (20 \<le> n \<and> n < 64 \<and> bit b 31)"
  by (subst bits_of_fields [where ws = "[shl (x_bits b 21 10) 1,
       shl (x_bits b 20 1) 11,
       shl (x_bits b 12 8) 12,
       shl (xs_bits b 31 1) 20]"])
     (simp_all add: field_bits uj_imm_def imm_sign_def add.assoc)

lemma rvc_imm_bits: "bit (rvc_imm b) n \<longleftrightarrow> (n < 5 \<and> bit b (2 + n)) \<or>
     (5 \<le> n \<and> n < 64 \<and> bit b 12)"
  by (subst bits_of_fields [where ws = "[x_bits b 2 5,
       shl (xs_bits b 12 1) 5]"])
     (simp_all add: field_bits rvc_imm_def imm_sign_def add.assoc)

lemma rvc_addi4spn_imm_bits: "bit (rvc_addi4spn_imm b) n \<longleftrightarrow> (n = 2 \<and> bit b 6) \<or>
     (n = 3 \<and> bit b 5) \<or>
     (4 \<le> n \<and> n < 6 \<and> bit b (11 + (n - 4))) \<or>
     (6 \<le> n \<and> n < 10 \<and> bit b (7 + (n - 6)))"
  by (subst bits_of_fields [where ws = "[shl (x_bits b 6 1) 2,
       shl (x_bits b 5 1) 3,
       shl (x_bits b 11 2) 4,
       shl (x_bits b 7 4) 6]"])
     (simp_all add: field_bits rvc_addi4spn_imm_def imm_sign_def add.assoc)

lemma rvc_addi16sp_imm_bits: "bit (rvc_addi16sp_imm b) n \<longleftrightarrow> (n = 4 \<and> bit b 6) \<or>
     (n = 5 \<and> bit b 2) \<or>
     (n = 6 \<and> bit b 5) \<or>
     (7 \<le> n \<and> n < 9 \<and> bit b (3 + (n - 7))) \<or>
     (9 \<le> n \<and> n < 64 \<and> bit b 12)"
  by (subst bits_of_fields [where ws = "[shl (x_bits b 6 1) 4,
       shl (x_bits b 2 1) 5,
       shl (x_bits b 5 1) 6,
       shl (x_bits b 3 2) 7,
       shl (xs_bits b 12 1) 9]"])
     (simp_all add: field_bits rvc_addi16sp_imm_def imm_sign_def add.assoc)

lemma rvc_lwsp_imm_bits: "bit (rvc_lwsp_imm b) n \<longleftrightarrow> (2 \<le> n \<and> n < 5 \<and> bit b (4 + (n - 2))) \<or>
     (n = 5 \<and> bit b 12) \<or>
     (6 \<le> n \<and> n < 8 \<and> bit b (2 + (n - 6)))"
  by (subst bits_of_fields [where ws = "[shl (x_bits b 4 3) 2,
       shl (x_bits b 12 1) 5,
       shl (x_bits b 2 2) 6]"])
     (simp_all add: field_bits rvc_lwsp_imm_def imm_sign_def add.assoc)

lemma rvc_ldsp_imm_bits: "bit (rvc_ldsp_imm b) n \<longleftrightarrow> (3 \<le> n \<and> n < 5 \<and> bit b (5 + (n - 3))) \<or>
     (n = 5 \<and> bit b 12) \<or>
     (6 \<le> n \<and> n < 9 \<and> bit b (2 + (n - 6)))"
  by (subst bits_of_fields [where ws = "[shl (x_bits b 5 2) 3,
       shl (x_bits b 12 1) 5,
       shl (x_bits b 2 3) 6]"])
     (simp_all add: field_bits rvc_ldsp_imm_def imm_sign_def add.assoc)

lemma rvc_j_imm_bits: "bit (rvc_j_imm b) n \<longleftrightarrow> (1 \<le> n \<and> n < 4 \<and> bit b (3 + (n - 1))) \<or>
     (n = 4 \<and> bit b 11) \<or>
     (n = 5 \<and> bit b 2) \<or>
     (n = 6 \<and> bit b 7) \<or>
     (n = 7 \<and> bit b 6) \<or>
     (8 \<le> n \<and> n < 10 \<and> bit b (9 + (n - 8))) \<or>
     (n = 10 \<and> bit b 8) \<or>
     (11 \<le> n \<and> n < 64 \<and> bit b 12)"
  by (subst bits_of_fields [where ws = "[shl (x_bits b 3 3) 1,
       shl (x_bits b 11 1) 4,
       shl (x_bits b 2 1) 5,
       shl (x_bits b 7 1) 6,
       shl (x_bits b 6 1) 7,
       shl (x_bits b 9 2) 8,
       shl (x_bits b 8 1) 10,
       shl (xs_bits b 12 1) 11]"])
     (simp_all add: field_bits rvc_j_imm_def imm_sign_def add.assoc)

lemma rvc_b_imm_bits: "bit (rvc_b_imm b) n \<longleftrightarrow> (1 \<le> n \<and> n < 3 \<and> bit b (3 + (n - 1))) \<or>
     (3 \<le> n \<and> n < 5 \<and> bit b (10 + (n - 3))) \<or>
     (n = 5 \<and> bit b 2) \<or>
     (6 \<le> n \<and> n < 8 \<and> bit b (5 + (n - 6))) \<or>
     (8 \<le> n \<and> n < 64 \<and> bit b 12)"
  by (subst bits_of_fields [where ws = "[shl (x_bits b 3 2) 1,
       shl (x_bits b 10 2) 3,
       shl (x_bits b 2 1) 5,
       shl (x_bits b 5 2) 6,
       shl (xs_bits b 12 1) 8]"])
     (simp_all add: field_bits rvc_b_imm_def imm_sign_def add.assoc)

declare push_bit_Suc [simp] One_nat_def [simp]


subsection \<open>The push and pop frame\<close>

definition saved_regs :: "reg_t \<Rightarrow> nat list" where
  "saved_regs m = filter (bit m) [0..<32]"

lemma rlist_values:
  assumes "4 \<le> rvc_rlist b"
  shows "rvc_rlist b = 4 \<or> rvc_rlist b = 5 \<or> rvc_rlist b = 6 \<or> rvc_rlist b = 7
    \<or> rvc_rlist b = 8 \<or> rvc_rlist b = 9 \<or> rvc_rlist b = 10 \<or> rvc_rlist b = 11
    \<or> rvc_rlist b = 12 \<or> rvc_rlist b = 13 \<or> rvc_rlist b = 14 \<or> rvc_rlist b = 15"
proof -
  have "rvc_rlist b < 16"
    using unat_x_bits_less [of 4 b 4] by (simp add: rvc_rlist_def)
  with assms show ?thesis by presburger
qed

lemma saved_regs_of_rlist:
  assumes "4 \<le> rvc_rlist b"
  shows "saved_regs (zcmp_regmask b) =
    1 # take (if rvc_rlist b = 15 then 12 else rvc_rlist b - 4) ([8, 9] @ [18..<28])"
  using rlist_values [OF assms]
  by (elim disjE) (simp_all add: saved_regs_def zcmp_regmask_def Let_def Sn_def upt_rec)



text \<open>The immediates of the 32-bit formats are exactly the bit scatter of the ISA manual,
  sign extended to 64 bits from instruction bit 31; branch and jump offsets are even.\<close>

theorem immediates_scatter:
  "(bit (i_imm b) n \<longleftrightarrow> n < 64 \<and> bit b (if n < 11 then 20 + n else 31)) \<and>
   (bit (s_imm b) n \<longleftrightarrow> n < 64 \<and> bit b (if n < 5 then 7 + n else if n < 11 then 20 + n else 31)) \<and>
   (bit (sb_imm b) n \<longleftrightarrow> 0 < n \<and> n < 64 \<and>
     bit b (if n < 5 then 7 + n else if n < 11 then 20 + n else if n = 11 then 7 else 31)) \<and>
   (bit (u_imm b) n \<longleftrightarrow> 12 \<le> n \<and> n < 64 \<and> bit b (if n < 32 then n else 31)) \<and>
   (bit (uj_imm b) n \<longleftrightarrow> 0 < n \<and> n < 64 \<and>
     bit b (if n < 11 then 20 + n else if n = 11 then 20 else if n < 20 then n else 31))"
proof (intro conjI)
  show "bit (i_imm b) n \<longleftrightarrow> n < 64 \<and> bit b (if n < 11 then 20 + n else 31)"
    by (cases "n = 11") (auto simp: i_imm_bits)
  show "bit (s_imm b) n \<longleftrightarrow> n < 64 \<and> bit b (if n < 5 then 7 + n else if n < 11 then 20 + n else 31)"
    by (cases "n < 5"; cases "n < 11"; cases "n = 11") (auto simp: s_imm_bits)
  show "bit (u_imm b) n \<longleftrightarrow> 12 \<le> n \<and> n < 64 \<and> bit b (if n < 32 then n else 31)"
    by (rule u_imm_bits)
  show "bit (sb_imm b) n \<longleftrightarrow> 0 < n \<and> n < 64 \<and>
     bit b (if n < 5 then 7 + n else if n < 11 then 20 + n else if n = 11 then 7 else 31)"
    by (cases "n = 0"; cases "n < 5"; cases "n < 11"; cases "n = 11") (auto simp: sb_imm_bits)
  show "bit (uj_imm b) n \<longleftrightarrow> 0 < n \<and> n < 64 \<and>
     bit b (if n < 11 then 20 + n else if n = 11 then 20 else if n < 20 then n else 31)"
    by (cases "n = 0"; cases "n < 11"; cases "n = 11"; cases "n < 20") (auto simp: uj_imm_bits)
qed
end
