(* ===== verification/Encoding.thy ===== *)
theory Encoding
  imports Prelude
begin

text \<open>
  The constants of \<open>riscv/encoding.h\<close> the modelled code uses, and the extension numbers of
  \<open>isa_extension_t\<close> (\<open>riscv/isa_parser.h\<close>). They are abbreviations: a mask or a CSR number is
  its numeral, so the simplifier decides whether two masks overlap or two registers differ.
\<close>

subsection \<open>Status register fields\<close>

abbreviation (input) MSTATUS_SIE :: "reg_t" where "MSTATUS_SIE \<equiv> 2"
abbreviation (input) MSTATUS_MIE :: "reg_t" where "MSTATUS_MIE \<equiv> 8"
abbreviation (input) MSTATUS_SPIE :: "reg_t" where "MSTATUS_SPIE \<equiv> 0x20"
abbreviation (input) MSTATUS_UBE :: "reg_t" where "MSTATUS_UBE \<equiv> 0x40"
abbreviation (input) MSTATUS_MPIE :: "reg_t" where "MSTATUS_MPIE \<equiv> 0x80"
abbreviation (input) MSTATUS_SPP :: "reg_t" where "MSTATUS_SPP \<equiv> 0x100"
abbreviation (input) MSTATUS_VS :: "reg_t" where "MSTATUS_VS \<equiv> 0x600"
abbreviation (input) MSTATUS_MPP :: "reg_t" where "MSTATUS_MPP \<equiv> 0x1800"
abbreviation (input) MSTATUS_FS :: "reg_t" where "MSTATUS_FS \<equiv> 0x6000"
abbreviation (input) MSTATUS_XS :: "reg_t" where "MSTATUS_XS \<equiv> 0x18000"
abbreviation (input) MSTATUS_MPRV :: "reg_t" where "MSTATUS_MPRV \<equiv> 0x20000"
abbreviation (input) MSTATUS_SUM :: "reg_t" where "MSTATUS_SUM \<equiv> 0x40000"
abbreviation (input) MSTATUS_MXR :: "reg_t" where "MSTATUS_MXR \<equiv> 0x80000"
abbreviation (input) MSTATUS_TVM :: "reg_t" where "MSTATUS_TVM \<equiv> 0x100000"
abbreviation (input) MSTATUS_TW :: "reg_t" where "MSTATUS_TW \<equiv> 0x200000"
abbreviation (input) MSTATUS_TSR :: "reg_t" where "MSTATUS_TSR \<equiv> 0x400000"
abbreviation (input) MSTATUS_UXL :: "reg_t" where "MSTATUS_UXL \<equiv> 0x300000000"
abbreviation (input) MSTATUS_SXL :: "reg_t" where "MSTATUS_SXL \<equiv> 0xc00000000"
abbreviation (input) MSTATUS_SBE :: "reg_t" where "MSTATUS_SBE \<equiv> 0x1000000000"
abbreviation (input) MSTATUS_MBE :: "reg_t" where "MSTATUS_MBE \<equiv> 0x2000000000"
abbreviation (input) MSTATUS_GVA :: "reg_t" where "MSTATUS_GVA \<equiv> 0x4000000000"
abbreviation (input) MSTATUS_MPV :: "reg_t" where "MSTATUS_MPV \<equiv> 0x8000000000"
abbreviation (input) SSTATUS_SIE :: "reg_t" where "SSTATUS_SIE \<equiv> 2"
abbreviation (input) SSTATUS_SPIE :: "reg_t" where "SSTATUS_SPIE \<equiv> 0x20"
abbreviation (input) SSTATUS_UBE :: "reg_t" where "SSTATUS_UBE \<equiv> 0x40"
abbreviation (input) SSTATUS_SPP :: "reg_t" where "SSTATUS_SPP \<equiv> 0x100"
abbreviation (input) SSTATUS_VS :: "reg_t" where "SSTATUS_VS \<equiv> 0x600"
abbreviation (input) SSTATUS_FS :: "reg_t" where "SSTATUS_FS \<equiv> 0x6000"
abbreviation (input) SSTATUS_XS :: "reg_t" where "SSTATUS_XS \<equiv> 0x18000"
abbreviation (input) SSTATUS_SUM :: "reg_t" where "SSTATUS_SUM \<equiv> 0x40000"
abbreviation (input) SSTATUS_MXR :: "reg_t" where "SSTATUS_MXR \<equiv> 0x80000"
abbreviation (input) SSTATUS32_SD :: "reg_t" where "SSTATUS32_SD \<equiv> 0x80000000"
abbreviation (input) SSTATUS_UXL :: "reg_t" where "SSTATUS_UXL \<equiv> 0x300000000"
abbreviation (input) SSTATUS64_SD :: "reg_t" where "SSTATUS64_SD \<equiv> 0x8000000000000000"
abbreviation (input) HSTATUS_VSXL :: "reg_t" where "HSTATUS_VSXL \<equiv> 0x300000000"
abbreviation (input) HSTATUS_VTSR :: "reg_t" where "HSTATUS_VTSR \<equiv> 0x400000"
abbreviation (input) HSTATUS_VTW :: "reg_t" where "HSTATUS_VTW \<equiv> 0x200000"
abbreviation (input) HSTATUS_VTVM :: "reg_t" where "HSTATUS_VTVM \<equiv> 0x100000"
abbreviation (input) HSTATUS_HU :: "reg_t" where "HSTATUS_HU \<equiv> 0x200"
abbreviation (input) HSTATUS_SPVP :: "reg_t" where "HSTATUS_SPVP \<equiv> 0x100"
abbreviation (input) HSTATUS_SPV :: "reg_t" where "HSTATUS_SPV \<equiv> 0x80"
abbreviation (input) HSTATUS_GVA :: "reg_t" where "HSTATUS_GVA \<equiv> 0x40"
abbreviation (input) MNSTATUS_NMIE :: "reg_t" where "MNSTATUS_NMIE \<equiv> 8"
abbreviation (input) MNSTATUS_MNPP :: "reg_t" where "MNSTATUS_MNPP \<equiv> 0x1800"
abbreviation (input) MNSTATUS_MNPV :: "reg_t" where "MNSTATUS_MNPV \<equiv> 0x80"

subsection \<open>Debug control and status\<close>

abbreviation (input) DCSR_XDEBUGVER :: "u32" where "DCSR_XDEBUGVER \<equiv> 0xc0000000"
abbreviation (input) DCSR_EBREAKM :: "u32" where "DCSR_EBREAKM \<equiv> 0x8000"
abbreviation (input) DCSR_EBREAKH :: "u32" where "DCSR_EBREAKH \<equiv> 0x4000"
abbreviation (input) DCSR_EBREAKS :: "u32" where "DCSR_EBREAKS \<equiv> 0x2000"
abbreviation (input) DCSR_EBREAKU :: "u32" where "DCSR_EBREAKU \<equiv> 0x1000"
abbreviation (input) DCSR_STOPCYCLE :: "u32" where "DCSR_STOPCYCLE \<equiv> 0x400"
abbreviation (input) DCSR_STOPTIME :: "u32" where "DCSR_STOPTIME \<equiv> 0x200"
abbreviation (input) DCSR_CAUSE :: "u32" where "DCSR_CAUSE \<equiv> 0x1c0"
abbreviation (input) DCSR_HALT :: "u32" where "DCSR_HALT \<equiv> 8"
abbreviation (input) DCSR_STEP :: "u32" where "DCSR_STEP \<equiv> 4"
abbreviation (input) DCSR_PRV :: "u32" where "DCSR_PRV \<equiv> 3"

subsection \<open>Debug entry causes\<close>

abbreviation (input) DCSR_CAUSE_NONE :: "u8" where "DCSR_CAUSE_NONE \<equiv> 0"
abbreviation (input) DCSR_CAUSE_SWBP :: "u8" where "DCSR_CAUSE_SWBP \<equiv> 1"
abbreviation (input) DCSR_CAUSE_HWBP :: "u8" where "DCSR_CAUSE_HWBP \<equiv> 2"
abbreviation (input) DCSR_CAUSE_DEBUGINT :: "u8" where "DCSR_CAUSE_DEBUGINT \<equiv> 3"
abbreviation (input) DCSR_CAUSE_STEP :: "u8" where "DCSR_CAUSE_STEP \<equiv> 4"
abbreviation (input) DCSR_CAUSE_HALT :: "u8" where "DCSR_CAUSE_HALT \<equiv> 5"
abbreviation (input) DCSR_CAUSE_GROUP :: "u8" where "DCSR_CAUSE_GROUP \<equiv> 6"

subsection \<open>Interrupt numbers\<close>

abbreviation (input) IRQ_S_SOFT :: "nat" where "IRQ_S_SOFT \<equiv> 1"
abbreviation (input) IRQ_VS_SOFT :: "nat" where "IRQ_VS_SOFT \<equiv> 2"
abbreviation (input) IRQ_M_SOFT :: "nat" where "IRQ_M_SOFT \<equiv> 3"
abbreviation (input) IRQ_S_TIMER :: "nat" where "IRQ_S_TIMER \<equiv> 5"
abbreviation (input) IRQ_VS_TIMER :: "nat" where "IRQ_VS_TIMER \<equiv> 6"
abbreviation (input) IRQ_M_TIMER :: "nat" where "IRQ_M_TIMER \<equiv> 7"
abbreviation (input) IRQ_S_EXT :: "nat" where "IRQ_S_EXT \<equiv> 9"
abbreviation (input) IRQ_VS_EXT :: "nat" where "IRQ_VS_EXT \<equiv> 10"
abbreviation (input) IRQ_M_EXT :: "nat" where "IRQ_M_EXT \<equiv> 11"
abbreviation (input) IRQ_S_GEXT :: "nat" where "IRQ_S_GEXT \<equiv> 12"
abbreviation (input) IRQ_COP :: "nat" where "IRQ_COP \<equiv> 12"
abbreviation (input) IRQ_LCOF :: "nat" where "IRQ_LCOF \<equiv> 13"

subsection \<open>Interrupt pending bits\<close>

abbreviation (input) MIP_SSIP :: "reg_t" where "MIP_SSIP \<equiv> 2"
abbreviation (input) MIP_VSSIP :: "reg_t" where "MIP_VSSIP \<equiv> 4"
abbreviation (input) MIP_MSIP :: "reg_t" where "MIP_MSIP \<equiv> 8"
abbreviation (input) MIP_STIP :: "reg_t" where "MIP_STIP \<equiv> 0x20"
abbreviation (input) MIP_VSTIP :: "reg_t" where "MIP_VSTIP \<equiv> 0x40"
abbreviation (input) MIP_MTIP :: "reg_t" where "MIP_MTIP \<equiv> 0x80"
abbreviation (input) MIP_SEIP :: "reg_t" where "MIP_SEIP \<equiv> 0x200"
abbreviation (input) MIP_VSEIP :: "reg_t" where "MIP_VSEIP \<equiv> 0x400"
abbreviation (input) MIP_MEIP :: "reg_t" where "MIP_MEIP \<equiv> 0x800"
abbreviation (input) MIP_SGEIP :: "reg_t" where "MIP_SGEIP \<equiv> 0x1000"
abbreviation (input) MIP_LCOFIP :: "reg_t" where "MIP_LCOFIP \<equiv> 0x2000"
abbreviation (input) MIP_S_MASK :: "reg_t" where "MIP_S_MASK \<equiv> 0x222"
abbreviation (input) MIP_VS_MASK :: "reg_t" where "MIP_VS_MASK \<equiv> 0x444"
abbreviation (input) MIP_HS_MASK :: "reg_t" where "MIP_HS_MASK \<equiv> 0x1444"
abbreviation (input) MIDELEG_FORCED_MASK :: "reg_t" where "MIDELEG_FORCED_MASK \<equiv> 0x1444"

subsection \<open>Environment configuration and counters\<close>

abbreviation (input) MENVCFG_CBIE :: "reg_t" where "MENVCFG_CBIE \<equiv> 0x30"
abbreviation (input) MENVCFG_CBCFE :: "reg_t" where "MENVCFG_CBCFE \<equiv> 0x40"
abbreviation (input) MENVCFG_CBZE :: "reg_t" where "MENVCFG_CBZE \<equiv> 0x80"
abbreviation (input) MENVCFG_HADE :: "reg_t" where "MENVCFG_HADE \<equiv> 0x2000000000000000"
abbreviation (input) MENVCFG_PBMTE :: "reg_t" where "MENVCFG_PBMTE \<equiv> 0x4000000000000000"
abbreviation (input) MENVCFG_STCE :: "reg_t" where "MENVCFG_STCE \<equiv> 0x8000000000000000"
abbreviation (input) HENVCFG_CBIE :: "reg_t" where "HENVCFG_CBIE \<equiv> 0x30"
abbreviation (input) HENVCFG_CBCFE :: "reg_t" where "HENVCFG_CBCFE \<equiv> 0x40"
abbreviation (input) HENVCFG_CBZE :: "reg_t" where "HENVCFG_CBZE \<equiv> 0x80"
abbreviation (input) HENVCFG_HADE :: "reg_t" where "HENVCFG_HADE \<equiv> 0x2000000000000000"
abbreviation (input) HENVCFG_PBMTE :: "reg_t" where "HENVCFG_PBMTE \<equiv> 0x4000000000000000"
abbreviation (input) HENVCFG_STCE :: "reg_t" where "HENVCFG_STCE \<equiv> 0x8000000000000000"
abbreviation (input) SENVCFG_CBIE :: "reg_t" where "SENVCFG_CBIE \<equiv> 0x30"
abbreviation (input) SENVCFG_CBCFE :: "reg_t" where "SENVCFG_CBCFE \<equiv> 0x40"
abbreviation (input) SENVCFG_CBZE :: "reg_t" where "SENVCFG_CBZE \<equiv> 0x80"
abbreviation (input) MSTATEEN0_CS :: "reg_t" where "MSTATEEN0_CS \<equiv> 1"
abbreviation (input) MSTATEEN0_FCSR :: "reg_t" where "MSTATEEN0_FCSR \<equiv> 2"
abbreviation (input) MSTATEEN0_JVT :: "reg_t" where "MSTATEEN0_JVT \<equiv> 4"
abbreviation (input) MSTATEEN0_HENVCFG :: "reg_t" where "MSTATEEN0_HENVCFG \<equiv> 0x4000000000000000"
abbreviation (input) MSTATEEN_HSTATEEN :: "reg_t" where "MSTATEEN_HSTATEEN \<equiv> 0x8000000000000000"
abbreviation (input) HSTATEEN0_FCSR :: "reg_t" where "HSTATEEN0_FCSR \<equiv> 2"
abbreviation (input) HSTATEEN0_SENVCFG :: "reg_t" where "HSTATEEN0_SENVCFG \<equiv> 0x4000000000000000"
abbreviation (input) HSTATEEN_SSTATEEN :: "reg_t" where "HSTATEEN_SSTATEEN \<equiv> 0x8000000000000000"
abbreviation (input) SSTATEEN0_CS :: "reg_t" where "SSTATEEN0_CS \<equiv> 1"
abbreviation (input) SSTATEEN0_FCSR :: "reg_t" where "SSTATEEN0_FCSR \<equiv> 2"
abbreviation (input) SSTATEEN0_JVT :: "reg_t" where "SSTATEEN0_JVT \<equiv> 4"
abbreviation (input) MHPMEVENT_VUINH :: "reg_t" where "MHPMEVENT_VUINH \<equiv> 0x400000000000000"
abbreviation (input) MHPMEVENT_VSINH :: "reg_t" where "MHPMEVENT_VSINH \<equiv> 0x800000000000000"
abbreviation (input) MHPMEVENT_UINH :: "reg_t" where "MHPMEVENT_UINH \<equiv> 0x1000000000000000"
abbreviation (input) MHPMEVENT_SINH :: "reg_t" where "MHPMEVENT_SINH \<equiv> 0x2000000000000000"
abbreviation (input) MHPMEVENT_MINH :: "reg_t" where "MHPMEVENT_MINH \<equiv> 0x4000000000000000"
abbreviation (input) MHPMEVENT_OF :: "reg_t" where "MHPMEVENT_OF \<equiv> 0x8000000000000000"
abbreviation (input) MSECCFG_MML :: "reg_t" where "MSECCFG_MML \<equiv> 1"
abbreviation (input) MSECCFG_MMWP :: "reg_t" where "MSECCFG_MMWP \<equiv> 2"
abbreviation (input) MSECCFG_RLB :: "reg_t" where "MSECCFG_RLB \<equiv> 4"

subsection \<open>Privilege levels\<close>

abbreviation (input) PRV_U :: "reg_t" where "PRV_U \<equiv> 0"
abbreviation (input) PRV_S :: "reg_t" where "PRV_S \<equiv> 1"
abbreviation (input) PRV_M :: "reg_t" where "PRV_M \<equiv> 3"
abbreviation (input) PRV_HS :: "reg_t" where "PRV_HS \<equiv> 2"

subsection \<open>Address translation registers\<close>

abbreviation (input) SATP32_MODE :: "reg_t" where "SATP32_MODE \<equiv> 0x80000000"
abbreviation (input) SATP32_ASID :: "reg_t" where "SATP32_ASID \<equiv> 0x7fc00000"
abbreviation (input) SATP32_PPN :: "reg_t" where "SATP32_PPN \<equiv> 0x3fffff"
abbreviation (input) SATP64_MODE :: "reg_t" where "SATP64_MODE \<equiv> 0xf000000000000000"
abbreviation (input) SATP64_ASID :: "reg_t" where "SATP64_ASID \<equiv> 0xffff00000000000"
abbreviation (input) SATP64_PPN :: "reg_t" where "SATP64_PPN \<equiv> 0xfffffffffff"
abbreviation (input) SATP_MODE_OFF :: "reg_t" where "SATP_MODE_OFF \<equiv> 0"
abbreviation (input) SATP_MODE_SV32 :: "reg_t" where "SATP_MODE_SV32 \<equiv> 1"
abbreviation (input) SATP_MODE_SV39 :: "reg_t" where "SATP_MODE_SV39 \<equiv> 8"
abbreviation (input) SATP_MODE_SV48 :: "reg_t" where "SATP_MODE_SV48 \<equiv> 9"
abbreviation (input) SATP_MODE_SV57 :: "reg_t" where "SATP_MODE_SV57 \<equiv> 10"
abbreviation (input) SATP_MODE_SV64 :: "reg_t" where "SATP_MODE_SV64 \<equiv> 11"
abbreviation (input) HGATP32_MODE :: "reg_t" where "HGATP32_MODE \<equiv> 0x80000000"
abbreviation (input) HGATP32_VMID :: "reg_t" where "HGATP32_VMID \<equiv> 0x1fc00000"
abbreviation (input) HGATP32_PPN :: "reg_t" where "HGATP32_PPN \<equiv> 0x3fffff"
abbreviation (input) HGATP64_MODE :: "reg_t" where "HGATP64_MODE \<equiv> 0xf000000000000000"
abbreviation (input) HGATP64_VMID :: "reg_t" where "HGATP64_VMID \<equiv> 0x3fff00000000000"
abbreviation (input) HGATP64_PPN :: "reg_t" where "HGATP64_PPN \<equiv> 0xfffffffffff"
abbreviation (input) HGATP_MODE_OFF :: "reg_t" where "HGATP_MODE_OFF \<equiv> 0"
abbreviation (input) HGATP_MODE_SV32X4 :: "reg_t" where "HGATP_MODE_SV32X4 \<equiv> 1"
abbreviation (input) HGATP_MODE_SV39X4 :: "reg_t" where "HGATP_MODE_SV39X4 \<equiv> 8"
abbreviation (input) HGATP_MODE_SV48X4 :: "reg_t" where "HGATP_MODE_SV48X4 \<equiv> 9"
abbreviation (input) HGATP_MODE_SV57X4 :: "reg_t" where "HGATP_MODE_SV57X4 \<equiv> 10"

subsection \<open>Physical memory protection\<close>

abbreviation (input) PMP_R :: "u8" where "PMP_R \<equiv> 1"
abbreviation (input) PMP_W :: "u8" where "PMP_W \<equiv> 2"
abbreviation (input) PMP_X :: "u8" where "PMP_X \<equiv> 4"
abbreviation (input) PMP_A :: "u8" where "PMP_A \<equiv> 0x18"
abbreviation (input) PMP_L :: "u8" where "PMP_L \<equiv> 0x80"
abbreviation (input) PMP_TOR :: "u8" where "PMP_TOR \<equiv> 8"
abbreviation (input) PMP_NA4 :: "u8" where "PMP_NA4 \<equiv> 0x10"
abbreviation (input) PMP_NAPOT :: "u8" where "PMP_NAPOT \<equiv> 0x18"

subsection \<open>Physical memory protection granularity\<close>

abbreviation (input) PMP_SHIFT :: "nat" where "PMP_SHIFT \<equiv> 2"

subsection \<open>Page table entries\<close>

abbreviation (input) PTE_V :: "reg_t" where "PTE_V \<equiv> 1"
abbreviation (input) PTE_R :: "reg_t" where "PTE_R \<equiv> 2"
abbreviation (input) PTE_W :: "reg_t" where "PTE_W \<equiv> 4"
abbreviation (input) PTE_X :: "reg_t" where "PTE_X \<equiv> 8"
abbreviation (input) PTE_U :: "reg_t" where "PTE_U \<equiv> 0x10"
abbreviation (input) PTE_A :: "reg_t" where "PTE_A \<equiv> 0x40"
abbreviation (input) PTE_D :: "reg_t" where "PTE_D \<equiv> 0x80"
abbreviation (input) PTE_RSVD :: "reg_t" where "PTE_RSVD \<equiv> 0x1fc0000000000000"
abbreviation (input) PTE_PBMT :: "reg_t" where "PTE_PBMT \<equiv> 0x6000000000000000"
abbreviation (input) PTE_N :: "reg_t" where "PTE_N \<equiv> 0x8000000000000000"
abbreviation (input) PTE_ATTR :: "reg_t" where "PTE_ATTR \<equiv> 0xffc0000000000000"

subsection \<open>Page table entry shift\<close>

abbreviation (input) PTE_PPN_SHIFT :: "nat" where "PTE_PPN_SHIFT \<equiv> 10"

subsection \<open>Exception causes\<close>

abbreviation (input) CAUSE_MISALIGNED_FETCH :: "reg_t" where "CAUSE_MISALIGNED_FETCH \<equiv> 0"
abbreviation (input) CAUSE_FETCH_ACCESS :: "reg_t" where "CAUSE_FETCH_ACCESS \<equiv> 1"
abbreviation (input) CAUSE_ILLEGAL_INSTRUCTION :: "reg_t" where "CAUSE_ILLEGAL_INSTRUCTION \<equiv> 2"
abbreviation (input) CAUSE_BREAKPOINT :: "reg_t" where "CAUSE_BREAKPOINT \<equiv> 3"
abbreviation (input) CAUSE_MISALIGNED_LOAD :: "reg_t" where "CAUSE_MISALIGNED_LOAD \<equiv> 4"
abbreviation (input) CAUSE_LOAD_ACCESS :: "reg_t" where "CAUSE_LOAD_ACCESS \<equiv> 5"
abbreviation (input) CAUSE_MISALIGNED_STORE :: "reg_t" where "CAUSE_MISALIGNED_STORE \<equiv> 6"
abbreviation (input) CAUSE_STORE_ACCESS :: "reg_t" where "CAUSE_STORE_ACCESS \<equiv> 7"
abbreviation (input) CAUSE_USER_ECALL :: "reg_t" where "CAUSE_USER_ECALL \<equiv> 8"
abbreviation (input) CAUSE_SUPERVISOR_ECALL :: "reg_t" where "CAUSE_SUPERVISOR_ECALL \<equiv> 9"
abbreviation (input) CAUSE_VIRTUAL_SUPERVISOR_ECALL :: "reg_t" where "CAUSE_VIRTUAL_SUPERVISOR_ECALL \<equiv> 10"
abbreviation (input) CAUSE_MACHINE_ECALL :: "reg_t" where "CAUSE_MACHINE_ECALL \<equiv> 11"
abbreviation (input) CAUSE_FETCH_PAGE_FAULT :: "reg_t" where "CAUSE_FETCH_PAGE_FAULT \<equiv> 12"
abbreviation (input) CAUSE_LOAD_PAGE_FAULT :: "reg_t" where "CAUSE_LOAD_PAGE_FAULT \<equiv> 13"
abbreviation (input) CAUSE_STORE_PAGE_FAULT :: "reg_t" where "CAUSE_STORE_PAGE_FAULT \<equiv> 15"
abbreviation (input) CAUSE_FETCH_GUEST_PAGE_FAULT :: "reg_t" where "CAUSE_FETCH_GUEST_PAGE_FAULT \<equiv> 0x14"
abbreviation (input) CAUSE_LOAD_GUEST_PAGE_FAULT :: "reg_t" where "CAUSE_LOAD_GUEST_PAGE_FAULT \<equiv> 0x15"
abbreviation (input) CAUSE_VIRTUAL_INSTRUCTION :: "reg_t" where "CAUSE_VIRTUAL_INSTRUCTION \<equiv> 0x16"
abbreviation (input) CAUSE_STORE_GUEST_PAGE_FAULT :: "reg_t" where "CAUSE_STORE_GUEST_PAGE_FAULT \<equiv> 0x17"

subsection \<open>Match control\<close>

abbreviation (input) MCONTROL_SELECT :: "reg_t" where "MCONTROL_SELECT \<equiv> 0x80000"
abbreviation (input) MCONTROL_TIMING :: "reg_t" where "MCONTROL_TIMING \<equiv> 0x40000"
abbreviation (input) MCONTROL_ACTION :: "reg_t" where "MCONTROL_ACTION \<equiv> 0x3f000"
abbreviation (input) MCONTROL_CHAIN :: "reg_t" where "MCONTROL_CHAIN \<equiv> 0x800"
abbreviation (input) MCONTROL_MATCH :: "reg_t" where "MCONTROL_MATCH \<equiv> 0x780"
abbreviation (input) MCONTROL_M :: "reg_t" where "MCONTROL_M \<equiv> 0x40"
abbreviation (input) MCONTROL_S :: "reg_t" where "MCONTROL_S \<equiv> 0x10"
abbreviation (input) MCONTROL_U :: "reg_t" where "MCONTROL_U \<equiv> 8"
abbreviation (input) MCONTROL_EXECUTE :: "reg_t" where "MCONTROL_EXECUTE \<equiv> 4"
abbreviation (input) MCONTROL_STORE :: "reg_t" where "MCONTROL_STORE \<equiv> 2"
abbreviation (input) MCONTROL_LOAD :: "reg_t" where "MCONTROL_LOAD \<equiv> 1"

subsection \<open>CSR numbers\<close>

abbreviation (input) CSR_FFLAGS :: "nat" where "CSR_FFLAGS \<equiv> 1"
abbreviation (input) CSR_FRM :: "nat" where "CSR_FRM \<equiv> 2"
abbreviation (input) CSR_FCSR :: "nat" where "CSR_FCSR \<equiv> 3"
abbreviation (input) CSR_JVT :: "nat" where "CSR_JVT \<equiv> 0x17"
abbreviation (input) CSR_CYCLE :: "nat" where "CSR_CYCLE \<equiv> 0xc00"
abbreviation (input) CSR_TIME :: "nat" where "CSR_TIME \<equiv> 0xc01"
abbreviation (input) CSR_INSTRET :: "nat" where "CSR_INSTRET \<equiv> 0xc02"
abbreviation (input) CSR_SSTATUS :: "nat" where "CSR_SSTATUS \<equiv> 0x100"
abbreviation (input) CSR_SIE :: "nat" where "CSR_SIE \<equiv> 0x104"
abbreviation (input) CSR_STVEC :: "nat" where "CSR_STVEC \<equiv> 0x105"
abbreviation (input) CSR_SCOUNTEREN :: "nat" where "CSR_SCOUNTEREN \<equiv> 0x106"
abbreviation (input) CSR_SENVCFG :: "nat" where "CSR_SENVCFG \<equiv> 0x10a"
abbreviation (input) CSR_SSTATEEN0 :: "nat" where "CSR_SSTATEEN0 \<equiv> 0x10c"
abbreviation (input) CSR_SSCRATCH :: "nat" where "CSR_SSCRATCH \<equiv> 0x140"
abbreviation (input) CSR_SEPC :: "nat" where "CSR_SEPC \<equiv> 0x141"
abbreviation (input) CSR_SCAUSE :: "nat" where "CSR_SCAUSE \<equiv> 0x142"
abbreviation (input) CSR_STVAL :: "nat" where "CSR_STVAL \<equiv> 0x143"
abbreviation (input) CSR_SIP :: "nat" where "CSR_SIP \<equiv> 0x144"
abbreviation (input) CSR_STIMECMP :: "nat" where "CSR_STIMECMP \<equiv> 0x14d"
abbreviation (input) CSR_SATP :: "nat" where "CSR_SATP \<equiv> 0x180"
abbreviation (input) CSR_SCONTEXT :: "nat" where "CSR_SCONTEXT \<equiv> 0x5a8"
abbreviation (input) CSR_VSSTATUS :: "nat" where "CSR_VSSTATUS \<equiv> 0x200"
abbreviation (input) CSR_VSIE :: "nat" where "CSR_VSIE \<equiv> 0x204"
abbreviation (input) CSR_VSTVEC :: "nat" where "CSR_VSTVEC \<equiv> 0x205"
abbreviation (input) CSR_VSSCRATCH :: "nat" where "CSR_VSSCRATCH \<equiv> 0x240"
abbreviation (input) CSR_VSEPC :: "nat" where "CSR_VSEPC \<equiv> 0x241"
abbreviation (input) CSR_VSCAUSE :: "nat" where "CSR_VSCAUSE \<equiv> 0x242"
abbreviation (input) CSR_VSTVAL :: "nat" where "CSR_VSTVAL \<equiv> 0x243"
abbreviation (input) CSR_VSIP :: "nat" where "CSR_VSIP \<equiv> 0x244"
abbreviation (input) CSR_VSTIMECMP :: "nat" where "CSR_VSTIMECMP \<equiv> 0x24d"
abbreviation (input) CSR_VSATP :: "nat" where "CSR_VSATP \<equiv> 0x280"
abbreviation (input) CSR_HSTATUS :: "nat" where "CSR_HSTATUS \<equiv> 0x600"
abbreviation (input) CSR_HEDELEG :: "nat" where "CSR_HEDELEG \<equiv> 0x602"
abbreviation (input) CSR_HIDELEG :: "nat" where "CSR_HIDELEG \<equiv> 0x603"
abbreviation (input) CSR_HIE :: "nat" where "CSR_HIE \<equiv> 0x604"
abbreviation (input) CSR_HTIMEDELTA :: "nat" where "CSR_HTIMEDELTA \<equiv> 0x605"
abbreviation (input) CSR_HCOUNTEREN :: "nat" where "CSR_HCOUNTEREN \<equiv> 0x606"
abbreviation (input) CSR_HGEIE :: "nat" where "CSR_HGEIE \<equiv> 0x607"
abbreviation (input) CSR_HENVCFG :: "nat" where "CSR_HENVCFG \<equiv> 0x60a"
abbreviation (input) CSR_HSTATEEN0 :: "nat" where "CSR_HSTATEEN0 \<equiv> 0x60c"
abbreviation (input) CSR_HTVAL :: "nat" where "CSR_HTVAL \<equiv> 0x643"
abbreviation (input) CSR_HIP :: "nat" where "CSR_HIP \<equiv> 0x644"
abbreviation (input) CSR_HVIP :: "nat" where "CSR_HVIP \<equiv> 0x645"
abbreviation (input) CSR_HTINST :: "nat" where "CSR_HTINST \<equiv> 0x64a"
abbreviation (input) CSR_HGATP :: "nat" where "CSR_HGATP \<equiv> 0x680"
abbreviation (input) CSR_HCONTEXT :: "nat" where "CSR_HCONTEXT \<equiv> 0x6a8"
abbreviation (input) CSR_HGEIP :: "nat" where "CSR_HGEIP \<equiv> 0xe12"
abbreviation (input) CSR_SCOUNTOVF :: "nat" where "CSR_SCOUNTOVF \<equiv> 0xda0"
abbreviation (input) CSR_MSTATUS :: "nat" where "CSR_MSTATUS \<equiv> 0x300"
abbreviation (input) CSR_MISA :: "nat" where "CSR_MISA \<equiv> 0x301"
abbreviation (input) CSR_MEDELEG :: "nat" where "CSR_MEDELEG \<equiv> 0x302"
abbreviation (input) CSR_MIDELEG :: "nat" where "CSR_MIDELEG \<equiv> 0x303"
abbreviation (input) CSR_MIE :: "nat" where "CSR_MIE \<equiv> 0x304"
abbreviation (input) CSR_MTVEC :: "nat" where "CSR_MTVEC \<equiv> 0x305"
abbreviation (input) CSR_MCOUNTEREN :: "nat" where "CSR_MCOUNTEREN \<equiv> 0x306"
abbreviation (input) CSR_MENVCFG :: "nat" where "CSR_MENVCFG \<equiv> 0x30a"
abbreviation (input) CSR_MSTATEEN0 :: "nat" where "CSR_MSTATEEN0 \<equiv> 0x30c"
abbreviation (input) CSR_MCOUNTINHIBIT :: "nat" where "CSR_MCOUNTINHIBIT \<equiv> 0x320"
abbreviation (input) CSR_MSCRATCH :: "nat" where "CSR_MSCRATCH \<equiv> 0x340"
abbreviation (input) CSR_MEPC :: "nat" where "CSR_MEPC \<equiv> 0x341"
abbreviation (input) CSR_MCAUSE :: "nat" where "CSR_MCAUSE \<equiv> 0x342"
abbreviation (input) CSR_MTVAL :: "nat" where "CSR_MTVAL \<equiv> 0x343"
abbreviation (input) CSR_MIP :: "nat" where "CSR_MIP \<equiv> 0x344"
abbreviation (input) CSR_MTINST :: "nat" where "CSR_MTINST \<equiv> 0x34a"
abbreviation (input) CSR_MTVAL2 :: "nat" where "CSR_MTVAL2 \<equiv> 0x34b"
abbreviation (input) CSR_PMPCFG0 :: "nat" where "CSR_PMPCFG0 \<equiv> 0x3a0"
abbreviation (input) CSR_PMPADDR0 :: "nat" where "CSR_PMPADDR0 \<equiv> 0x3b0"
abbreviation (input) CSR_MSECCFG :: "nat" where "CSR_MSECCFG \<equiv> 0x747"
abbreviation (input) CSR_TSELECT :: "nat" where "CSR_TSELECT \<equiv> 0x7a0"
abbreviation (input) CSR_TDATA1 :: "nat" where "CSR_TDATA1 \<equiv> 0x7a1"
abbreviation (input) CSR_TDATA2 :: "nat" where "CSR_TDATA2 \<equiv> 0x7a2"
abbreviation (input) CSR_TDATA3 :: "nat" where "CSR_TDATA3 \<equiv> 0x7a3"
abbreviation (input) CSR_TINFO :: "nat" where "CSR_TINFO \<equiv> 0x7a4"
abbreviation (input) CSR_MCONTEXT :: "nat" where "CSR_MCONTEXT \<equiv> 0x7a8"
abbreviation (input) CSR_DCSR :: "nat" where "CSR_DCSR \<equiv> 0x7b0"
abbreviation (input) CSR_DPC :: "nat" where "CSR_DPC \<equiv> 0x7b1"
abbreviation (input) CSR_DSCRATCH0 :: "nat" where "CSR_DSCRATCH0 \<equiv> 0x7b2"
abbreviation (input) CSR_DSCRATCH1 :: "nat" where "CSR_DSCRATCH1 \<equiv> 0x7b3"
abbreviation (input) CSR_MCYCLE :: "nat" where "CSR_MCYCLE \<equiv> 0xb00"
abbreviation (input) CSR_MINSTRET :: "nat" where "CSR_MINSTRET \<equiv> 0xb02"
abbreviation (input) CSR_MHPMCOUNTER3 :: "nat" where "CSR_MHPMCOUNTER3 \<equiv> 0xb03"
abbreviation (input) CSR_MHPMEVENT3 :: "nat" where "CSR_MHPMEVENT3 \<equiv> 0x323"
abbreviation (input) CSR_HPMCOUNTER3 :: "nat" where "CSR_HPMCOUNTER3 \<equiv> 0xc03"
abbreviation (input) CSR_MVENDORID :: "nat" where "CSR_MVENDORID \<equiv> 0xf11"
abbreviation (input) CSR_MARCHID :: "nat" where "CSR_MARCHID \<equiv> 0xf12"
abbreviation (input) CSR_MIMPID :: "nat" where "CSR_MIMPID \<equiv> 0xf13"
abbreviation (input) CSR_MHARTID :: "nat" where "CSR_MHARTID \<equiv> 0xf14"
abbreviation (input) CSR_MCONFIGPTR :: "nat" where "CSR_MCONFIGPTR \<equiv> 0xf15"
abbreviation (input) CSR_HTIMEDELTAH :: "nat" where "CSR_HTIMEDELTAH \<equiv> 0x615"
abbreviation (input) CSR_STIMECMPH :: "nat" where "CSR_STIMECMPH \<equiv> 0x15d"
abbreviation (input) CSR_VSTIMECMPH :: "nat" where "CSR_VSTIMECMPH \<equiv> 0x25d"
abbreviation (input) CSR_HENVCFGH :: "nat" where "CSR_HENVCFGH \<equiv> 0x61a"
abbreviation (input) CSR_HSTATEEN0H :: "nat" where "CSR_HSTATEEN0H \<equiv> 0x61c"
abbreviation (input) CSR_CYCLEH :: "nat" where "CSR_CYCLEH \<equiv> 0xc80"
abbreviation (input) CSR_TIMEH :: "nat" where "CSR_TIMEH \<equiv> 0xc81"
abbreviation (input) CSR_INSTRETH :: "nat" where "CSR_INSTRETH \<equiv> 0xc82"
abbreviation (input) CSR_HPMCOUNTER3H :: "nat" where "CSR_HPMCOUNTER3H \<equiv> 0xc83"
abbreviation (input) CSR_MSTATUSH :: "nat" where "CSR_MSTATUSH \<equiv> 0x310"
abbreviation (input) CSR_MENVCFGH :: "nat" where "CSR_MENVCFGH \<equiv> 0x31a"
abbreviation (input) CSR_MSTATEEN0H :: "nat" where "CSR_MSTATEEN0H \<equiv> 0x31c"
abbreviation (input) CSR_MHPMEVENT3H :: "nat" where "CSR_MHPMEVENT3H \<equiv> 0x723"
abbreviation (input) CSR_MCYCLEH :: "nat" where "CSR_MCYCLEH \<equiv> 0xb80"
abbreviation (input) CSR_MINSTRETH :: "nat" where "CSR_MINSTRETH \<equiv> 0xb82"
abbreviation (input) CSR_MHPMCOUNTER3H :: "nat" where "CSR_MHPMCOUNTER3H \<equiv> 0xb83"
abbreviation (input) CSR_MNSCRATCH :: "nat" where "CSR_MNSCRATCH \<equiv> 0x740"
abbreviation (input) CSR_MNEPC :: "nat" where "CSR_MNEPC \<equiv> 0x741"
abbreviation (input) CSR_MNCAUSE :: "nat" where "CSR_MNCAUSE \<equiv> 0x742"
abbreviation (input) CSR_MNSTATUS :: "nat" where "CSR_MNSTATUS \<equiv> 0x744"
abbreviation (input) CSR_SEED :: "nat" where "CSR_SEED \<equiv> 0x15"
abbreviation (input) CSR_VSTART :: "nat" where "CSR_VSTART \<equiv> 8"
abbreviation (input) CSR_VXSAT :: "nat" where "CSR_VXSAT \<equiv> 9"
abbreviation (input) CSR_VXRM :: "nat" where "CSR_VXRM \<equiv> 10"
abbreviation (input) CSR_VCSR :: "nat" where "CSR_VCSR \<equiv> 15"
abbreviation (input) CSR_VL :: "nat" where "CSR_VL \<equiv> 0xc20"
abbreviation (input) CSR_VTYPE :: "nat" where "CSR_VTYPE \<equiv> 0xc21"
abbreviation (input) CSR_VLENB :: "nat" where "CSR_VLENB \<equiv> 0xc22"

subsection \<open>Extensions\<close>

abbreviation (input) EXT_ZFH :: nat where "EXT_ZFH \<equiv> 91"
abbreviation (input) EXT_ZFHMIN :: nat where "EXT_ZFHMIN \<equiv> 92"
abbreviation (input) EXT_ZBA :: nat where "EXT_ZBA \<equiv> 93"
abbreviation (input) EXT_ZBB :: nat where "EXT_ZBB \<equiv> 94"
abbreviation (input) EXT_ZBC :: nat where "EXT_ZBC \<equiv> 95"
abbreviation (input) EXT_ZBS :: nat where "EXT_ZBS \<equiv> 96"
abbreviation (input) EXT_ZBKB :: nat where "EXT_ZBKB \<equiv> 97"
abbreviation (input) EXT_ZBKC :: nat where "EXT_ZBKC \<equiv> 98"
abbreviation (input) EXT_ZBKX :: nat where "EXT_ZBKX \<equiv> 99"
abbreviation (input) EXT_ZCA :: nat where "EXT_ZCA \<equiv> 100"
abbreviation (input) EXT_ZCB :: nat where "EXT_ZCB \<equiv> 101"
abbreviation (input) EXT_ZCD :: nat where "EXT_ZCD \<equiv> 102"
abbreviation (input) EXT_ZCF :: nat where "EXT_ZCF \<equiv> 103"
abbreviation (input) EXT_ZCMP :: nat where "EXT_ZCMP \<equiv> 104"
abbreviation (input) EXT_ZCMT :: nat where "EXT_ZCMT \<equiv> 105"
abbreviation (input) EXT_ZKND :: nat where "EXT_ZKND \<equiv> 106"
abbreviation (input) EXT_ZKNE :: nat where "EXT_ZKNE \<equiv> 107"
abbreviation (input) EXT_ZKNH :: nat where "EXT_ZKNH \<equiv> 108"
abbreviation (input) EXT_ZKSED :: nat where "EXT_ZKSED \<equiv> 109"
abbreviation (input) EXT_ZKSH :: nat where "EXT_ZKSH \<equiv> 110"
abbreviation (input) EXT_ZKR :: nat where "EXT_ZKR \<equiv> 111"
abbreviation (input) EXT_ZMMUL :: nat where "EXT_ZMMUL \<equiv> 112"
abbreviation (input) EXT_ZBPBO :: nat where "EXT_ZBPBO \<equiv> 113"
abbreviation (input) EXT_ZPN :: nat where "EXT_ZPN \<equiv> 114"
abbreviation (input) EXT_ZPSFOPERAND :: nat where "EXT_ZPSFOPERAND \<equiv> 115"
abbreviation (input) EXT_ZVFH :: nat where "EXT_ZVFH \<equiv> 116"
abbreviation (input) EXT_ZVFHMIN :: nat where "EXT_ZVFHMIN \<equiv> 117"
abbreviation (input) EXT_SMEPMP :: nat where "EXT_SMEPMP \<equiv> 118"
abbreviation (input) EXT_SMSTATEEN :: nat where "EXT_SMSTATEEN \<equiv> 119"
abbreviation (input) EXT_SMRNMI :: nat where "EXT_SMRNMI \<equiv> 120"
abbreviation (input) EXT_SSCOFPMF :: nat where "EXT_SSCOFPMF \<equiv> 121"
abbreviation (input) EXT_SVADU :: nat where "EXT_SVADU \<equiv> 122"
abbreviation (input) EXT_SVNAPOT :: nat where "EXT_SVNAPOT \<equiv> 123"
abbreviation (input) EXT_SVPBMT :: nat where "EXT_SVPBMT \<equiv> 124"
abbreviation (input) EXT_SVINVAL :: nat where "EXT_SVINVAL \<equiv> 125"
abbreviation (input) EXT_ZDINX :: nat where "EXT_ZDINX \<equiv> 126"
abbreviation (input) EXT_ZFA :: nat where "EXT_ZFA \<equiv> 127"
abbreviation (input) EXT_ZFINX :: nat where "EXT_ZFINX \<equiv> 128"
abbreviation (input) EXT_ZHINX :: nat where "EXT_ZHINX \<equiv> 129"
abbreviation (input) EXT_ZHINXMIN :: nat where "EXT_ZHINXMIN \<equiv> 130"
abbreviation (input) EXT_ZICBOM :: nat where "EXT_ZICBOM \<equiv> 131"
abbreviation (input) EXT_ZICBOZ :: nat where "EXT_ZICBOZ \<equiv> 132"
abbreviation (input) EXT_ZICNTR :: nat where "EXT_ZICNTR \<equiv> 133"
abbreviation (input) EXT_ZICOND :: nat where "EXT_ZICOND \<equiv> 134"
abbreviation (input) EXT_ZIHPM :: nat where "EXT_ZIHPM \<equiv> 135"
abbreviation (input) EXT_XZBP :: nat where "EXT_XZBP \<equiv> 136"
abbreviation (input) EXT_XZBS :: nat where "EXT_XZBS \<equiv> 137"
abbreviation (input) EXT_XZBE :: nat where "EXT_XZBE \<equiv> 138"
abbreviation (input) EXT_XZBF :: nat where "EXT_XZBF \<equiv> 139"
abbreviation (input) EXT_XZBC :: nat where "EXT_XZBC \<equiv> 140"
abbreviation (input) EXT_XZBM :: nat where "EXT_XZBM \<equiv> 141"
abbreviation (input) EXT_XZBR :: nat where "EXT_XZBR \<equiv> 142"
abbreviation (input) EXT_XZBT :: nat where "EXT_XZBT \<equiv> 143"
abbreviation (input) EXT_SSTC :: nat where "EXT_SSTC \<equiv> 144"
abbreviation (input) NUM_ISA_EXTENSIONS :: nat where "NUM_ISA_EXTENSIONS \<equiv> 145"

text \<open>Single-letter extensions are their ASCII codes.\<close>

abbreviation ISA_A :: nat where "ISA_A \<equiv> 65"
abbreviation ISA_C :: nat where "ISA_C \<equiv> 67"
abbreviation ISA_D :: nat where "ISA_D \<equiv> 68"
abbreviation ISA_E :: nat where "ISA_E \<equiv> 69"
abbreviation ISA_F :: nat where "ISA_F \<equiv> 70"
abbreviation ISA_H :: nat where "ISA_H \<equiv> 72"
abbreviation ISA_M :: nat where "ISA_M \<equiv> 77"
abbreviation ISA_Q :: nat where "ISA_Q \<equiv> 81"
abbreviation ISA_S :: nat where "ISA_S \<equiv> 83"
abbreviation ISA_U :: nat where "ISA_U \<equiv> 85"
abbreviation ISA_V :: nat where "ISA_V \<equiv> 86"

text \<open>\<open>isa_extension_t\<close>'s companion, the implementation features that are not extensions.\<close>

abbreviation (input) IMPL_MMU_SV32 :: nat where "IMPL_MMU_SV32 \<equiv> 0"
abbreviation (input) IMPL_MMU_SV39 :: nat where "IMPL_MMU_SV39 \<equiv> 1"
abbreviation (input) IMPL_MMU_SV48 :: nat where "IMPL_MMU_SV48 \<equiv> 2"
abbreviation (input) IMPL_MMU_SV57 :: nat where "IMPL_MMU_SV57 \<equiv> 3"
abbreviation (input) IMPL_MMU_SBARE :: nat where "IMPL_MMU_SBARE \<equiv> 4"
abbreviation (input) IMPL_MMU :: nat where "IMPL_MMU \<equiv> 5"
abbreviation (input) IMPL_MMU_VMID :: nat where "IMPL_MMU_VMID \<equiv> 6"
abbreviation (input) IMPL_MMU_ASID :: nat where "IMPL_MMU_ASID \<equiv> 7"

subsection \<open>Trigger registers\<close>

abbreviation (input) CSR_TDATA1_TYPE :: "nat \<Rightarrow> reg_t" where "CSR_TDATA1_TYPE xlen \<equiv> shl 0xf (xlen - 4)"
abbreviation (input) CSR_TDATA1_DMODE :: "nat \<Rightarrow> reg_t" where "CSR_TDATA1_DMODE xlen \<equiv> shl 1 (xlen - 5)"
abbreviation (input) CSR_MCONTROL_TYPE :: "nat \<Rightarrow> reg_t" where "CSR_MCONTROL_TYPE xlen \<equiv> shl 0xf (xlen - 4)"
abbreviation (input) CSR_MCONTROL_DMODE :: "nat \<Rightarrow> reg_t" where "CSR_MCONTROL_DMODE xlen \<equiv> shl 1 (xlen - 5)"
abbreviation (input) CSR_MCONTROL6_TYPE :: "nat \<Rightarrow> reg_t" where "CSR_MCONTROL6_TYPE xlen \<equiv> shl 0xf (xlen - 4)"
abbreviation (input) CSR_MCONTROL6_DMODE :: "nat \<Rightarrow> reg_t" where "CSR_MCONTROL6_DMODE xlen \<equiv> shl 1 (xlen - 5)"
abbreviation (input) CSR_ICOUNT_TYPE :: "nat \<Rightarrow> reg_t" where "CSR_ICOUNT_TYPE xlen \<equiv> shl 0xf (xlen - 4)"
abbreviation (input) CSR_ICOUNT_DMODE :: "nat \<Rightarrow> reg_t" where "CSR_ICOUNT_DMODE xlen \<equiv> shl 1 (xlen - 5)"
abbreviation (input) CSR_ITRIGGER_TYPE :: "nat \<Rightarrow> reg_t" where "CSR_ITRIGGER_TYPE xlen \<equiv> shl 0xf (xlen - 4)"
abbreviation (input) CSR_ITRIGGER_DMODE :: "nat \<Rightarrow> reg_t" where "CSR_ITRIGGER_DMODE xlen \<equiv> shl 1 (xlen - 5)"
abbreviation (input) CSR_ITRIGGER_HIT :: "nat \<Rightarrow> reg_t" where "CSR_ITRIGGER_HIT xlen \<equiv> shl 1 (xlen - 6)"
abbreviation (input) CSR_ETRIGGER_TYPE :: "nat \<Rightarrow> reg_t" where "CSR_ETRIGGER_TYPE xlen \<equiv> shl 0xf (xlen - 4)"
abbreviation (input) CSR_ETRIGGER_DMODE :: "nat \<Rightarrow> reg_t" where "CSR_ETRIGGER_DMODE xlen \<equiv> shl 1 (xlen - 5)"
abbreviation (input) CSR_ETRIGGER_HIT :: "nat \<Rightarrow> reg_t" where "CSR_ETRIGGER_HIT xlen \<equiv> shl 1 (xlen - 6)"
abbreviation (input) CSR_MCONTROL_HIT :: reg_t where "CSR_MCONTROL_HIT \<equiv> 0x100000"
abbreviation (input) CSR_MCONTROL_S :: reg_t where "CSR_MCONTROL_S \<equiv> 0x10"
abbreviation (input) CSR_MCONTROL_U :: reg_t where "CSR_MCONTROL_U \<equiv> 8"
abbreviation (input) CSR_MCONTROL6_VS :: reg_t where "CSR_MCONTROL6_VS \<equiv> 0x1000000"
abbreviation (input) CSR_MCONTROL6_VU :: reg_t where "CSR_MCONTROL6_VU \<equiv> 0x800000"
abbreviation (input) CSR_MCONTROL6_HIT :: reg_t where "CSR_MCONTROL6_HIT \<equiv> 0x400000"
abbreviation (input) CSR_MCONTROL6_SELECT :: reg_t where "CSR_MCONTROL6_SELECT \<equiv> 0x200000"
abbreviation (input) CSR_MCONTROL6_TIMING :: reg_t where "CSR_MCONTROL6_TIMING \<equiv> 0x100000"
abbreviation (input) CSR_MCONTROL6_ACTION :: reg_t where "CSR_MCONTROL6_ACTION \<equiv> 0xf000"
abbreviation (input) CSR_MCONTROL6_CHAIN :: reg_t where "CSR_MCONTROL6_CHAIN \<equiv> 0x800"
abbreviation (input) CSR_MCONTROL6_MATCH :: reg_t where "CSR_MCONTROL6_MATCH \<equiv> 0x780"
abbreviation (input) CSR_MCONTROL6_M :: reg_t where "CSR_MCONTROL6_M \<equiv> 0x40"
abbreviation (input) CSR_MCONTROL6_S :: reg_t where "CSR_MCONTROL6_S \<equiv> 0x10"
abbreviation (input) CSR_MCONTROL6_U :: reg_t where "CSR_MCONTROL6_U \<equiv> 8"
abbreviation (input) CSR_MCONTROL6_EXECUTE :: reg_t where "CSR_MCONTROL6_EXECUTE \<equiv> 4"
abbreviation (input) CSR_MCONTROL6_STORE :: reg_t where "CSR_MCONTROL6_STORE \<equiv> 2"
abbreviation (input) CSR_MCONTROL6_LOAD :: reg_t where "CSR_MCONTROL6_LOAD \<equiv> 1"
abbreviation (input) CSR_ICOUNT_VS :: reg_t where "CSR_ICOUNT_VS \<equiv> 0x4000000"
abbreviation (input) CSR_ICOUNT_VU :: reg_t where "CSR_ICOUNT_VU \<equiv> 0x2000000"
abbreviation (input) CSR_ICOUNT_HIT :: reg_t where "CSR_ICOUNT_HIT \<equiv> 0x1000000"
abbreviation (input) CSR_ICOUNT_COUNT :: reg_t where "CSR_ICOUNT_COUNT \<equiv> 0xfffc00"
abbreviation (input) CSR_ICOUNT_M :: reg_t where "CSR_ICOUNT_M \<equiv> 0x200"
abbreviation (input) CSR_ICOUNT_PENDING :: reg_t where "CSR_ICOUNT_PENDING \<equiv> 0x100"
abbreviation (input) CSR_ICOUNT_S :: reg_t where "CSR_ICOUNT_S \<equiv> 0x80"
abbreviation (input) CSR_ICOUNT_U :: reg_t where "CSR_ICOUNT_U \<equiv> 0x40"
abbreviation (input) CSR_ICOUNT_ACTION :: reg_t where "CSR_ICOUNT_ACTION \<equiv> 0x3f"
abbreviation (input) CSR_ITRIGGER_VS :: reg_t where "CSR_ITRIGGER_VS \<equiv> 0x1000"
abbreviation (input) CSR_ITRIGGER_VU :: reg_t where "CSR_ITRIGGER_VU \<equiv> 0x800"
abbreviation (input) CSR_ITRIGGER_NMI :: reg_t where "CSR_ITRIGGER_NMI \<equiv> 0x400"
abbreviation (input) CSR_ITRIGGER_M :: reg_t where "CSR_ITRIGGER_M \<equiv> 0x200"
abbreviation (input) CSR_ITRIGGER_S :: reg_t where "CSR_ITRIGGER_S \<equiv> 0x80"
abbreviation (input) CSR_ITRIGGER_U :: reg_t where "CSR_ITRIGGER_U \<equiv> 0x40"
abbreviation (input) CSR_ITRIGGER_ACTION :: reg_t where "CSR_ITRIGGER_ACTION \<equiv> 0x3f"
abbreviation (input) CSR_ETRIGGER_VS :: reg_t where "CSR_ETRIGGER_VS \<equiv> 0x1000"
abbreviation (input) CSR_ETRIGGER_VU :: reg_t where "CSR_ETRIGGER_VU \<equiv> 0x800"
abbreviation (input) CSR_ETRIGGER_M :: reg_t where "CSR_ETRIGGER_M \<equiv> 0x200"
abbreviation (input) CSR_ETRIGGER_S :: reg_t where "CSR_ETRIGGER_S \<equiv> 0x80"
abbreviation (input) CSR_ETRIGGER_U :: reg_t where "CSR_ETRIGGER_U \<equiv> 0x40"
abbreviation (input) CSR_ETRIGGER_ACTION :: reg_t where "CSR_ETRIGGER_ACTION \<equiv> 0x3f"
abbreviation (input) CSR_TEXTRA32_MHVALUE :: reg_t where "CSR_TEXTRA32_MHVALUE \<equiv> 0xfc000000"
abbreviation (input) CSR_TEXTRA32_MHSELECT :: reg_t where "CSR_TEXTRA32_MHSELECT \<equiv> 0x3800000"
abbreviation (input) CSR_TEXTRA32_SBYTEMASK :: reg_t where "CSR_TEXTRA32_SBYTEMASK \<equiv> 0xc0000"
abbreviation (input) CSR_TEXTRA32_SVALUE :: reg_t where "CSR_TEXTRA32_SVALUE \<equiv> 0x3fffc"
abbreviation (input) CSR_TEXTRA32_SSELECT :: reg_t where "CSR_TEXTRA32_SSELECT \<equiv> 3"
abbreviation (input) CSR_TEXTRA64_MHVALUE :: reg_t where "CSR_TEXTRA64_MHVALUE \<equiv> 0xfff8000000000000"
abbreviation (input) CSR_TEXTRA64_MHSELECT :: reg_t where "CSR_TEXTRA64_MHSELECT \<equiv> 0x7000000000000"
abbreviation (input) CSR_TEXTRA64_SBYTEMASK :: reg_t where "CSR_TEXTRA64_SBYTEMASK \<equiv> 0x1f000000000"
abbreviation (input) CSR_TEXTRA64_SVALUE :: reg_t where "CSR_TEXTRA64_SVALUE \<equiv> 0xffffffffc"
abbreviation (input) CSR_TEXTRA64_SSELECT :: reg_t where "CSR_TEXTRA64_SSELECT \<equiv> 3"
abbreviation (input) CSR_TDATA1_TYPE_MCONTROL :: nat where "CSR_TDATA1_TYPE_MCONTROL \<equiv> 2"
abbreviation (input) CSR_TDATA1_TYPE_ICOUNT :: nat where "CSR_TDATA1_TYPE_ICOUNT \<equiv> 3"
abbreviation (input) CSR_TDATA1_TYPE_ITRIGGER :: nat where "CSR_TDATA1_TYPE_ITRIGGER \<equiv> 4"
abbreviation (input) CSR_TDATA1_TYPE_ETRIGGER :: nat where "CSR_TDATA1_TYPE_ETRIGGER \<equiv> 5"
abbreviation (input) CSR_TDATA1_TYPE_MCONTROL6 :: nat where "CSR_TDATA1_TYPE_MCONTROL6 \<equiv> 6"
abbreviation (input) CSR_TDATA1_TYPE_DISABLED :: nat where "CSR_TDATA1_TYPE_DISABLED \<equiv> 15"
abbreviation (input) CSR_TEXTRA32_MHVALUE_LENGTH :: nat where "CSR_TEXTRA32_MHVALUE_LENGTH \<equiv> 6"
abbreviation (input) CSR_TEXTRA32_SVALUE_LENGTH :: nat where "CSR_TEXTRA32_SVALUE_LENGTH \<equiv> 16"
abbreviation (input) CSR_TEXTRA64_MHVALUE_LENGTH :: nat where "CSR_TEXTRA64_MHVALUE_LENGTH \<equiv> 13"
abbreviation (input) CSR_TEXTRA64_SVALUE_LENGTH :: nat where "CSR_TEXTRA64_SVALUE_LENGTH \<equiv> 34"
abbreviation (input) CSR_TEXTRA64_SBYTEMASK_LENGTH :: nat where "CSR_TEXTRA64_SBYTEMASK_LENGTH \<equiv> 5"
abbreviation (input) MCONTROL_TYPE :: "nat \<Rightarrow> reg_t" where "MCONTROL_TYPE xlen \<equiv> shl 0xf (xlen - 4)"
abbreviation (input) MCONTROL_DMODE :: "nat \<Rightarrow> reg_t" where "MCONTROL_DMODE xlen \<equiv> shl 1 (xlen - 5)"
abbreviation (input) MCONTROL_MASKMAX :: "nat \<Rightarrow> reg_t" where "MCONTROL_MASKMAX xlen \<equiv> shl 0x3f (xlen - 11)"

end
