(* ===== verification/Traps.thy ===== *)
theory Traps
  imports Encoding
begin

text \<open>
  The exceptions a hart can raise (\<open>riscv/trap.h\<close>, \<open>riscv/triggers.h\<close>) and the access types of
  \<open>riscv/memtracer.h\<close>. The three constructors of \<open>trap_t\<close> are the three C++ base classes; each
  \<open>DECLARE_*TRAP\<close> line is a definition that builds the class with its fixed cause. \<open>exn\<close> is what
  a \<open>throw\<close> (or a failed assertion, \<open>Abort\<close>) can carry out of a handler.
\<close>

subsection \<open>Traps\<close>

datatype trap_t =
    Plain_trap (trap_which: reg_t)
  | Insn_trap (trap_which: reg_t) bool reg_t
  | Mem_trap (trap_which: reg_t) bool reg_t reg_t reg_t

definition cause :: "trap_t \<Rightarrow> reg_t" where
  "cause t = trap_which t"

fun has_gva :: "trap_t \<Rightarrow> bool" where
  "has_gva (Plain_trap c) = False"
| "has_gva (Insn_trap c gva tval) = gva"
| "has_gva (Mem_trap c gva tval tval2 tinst) = gva"

fun has_tval :: "trap_t \<Rightarrow> bool" where
  "has_tval (Plain_trap c) = False"
| "has_tval (Insn_trap c gva tval) = True"
| "has_tval (Mem_trap c gva tval tval2 tinst) = True"

fun get_tval :: "trap_t \<Rightarrow> reg_t" where
  "get_tval (Plain_trap c) = 0"
| "get_tval (Insn_trap c gva tval) = tval"
| "get_tval (Mem_trap c gva tval tval2 tinst) = tval"

fun has_tval2 :: "trap_t \<Rightarrow> bool" where
  "has_tval2 (Mem_trap c gva tval tval2 tinst) = True"
| "has_tval2 _ = False"

fun get_tval2 :: "trap_t \<Rightarrow> reg_t" where
  "get_tval2 (Mem_trap c gva tval tval2 tinst) = tval2"
| "get_tval2 _ = 0"

fun has_tinst :: "trap_t \<Rightarrow> bool" where
  "has_tinst (Mem_trap c gva tval tval2 tinst) = True"
| "has_tinst _ = False"

fun get_tinst :: "trap_t \<Rightarrow> reg_t" where
  "get_tinst (Mem_trap c gva tval tval2 tinst) = tinst"
| "get_tinst _ = 0"

definition trap_instruction_address_misaligned :: "bool \<Rightarrow> reg_t \<Rightarrow> reg_t \<Rightarrow> reg_t \<Rightarrow> trap_t" where
  "trap_instruction_address_misaligned = Mem_trap CAUSE_MISALIGNED_FETCH"
definition trap_instruction_access_fault :: "bool \<Rightarrow> reg_t \<Rightarrow> reg_t \<Rightarrow> reg_t \<Rightarrow> trap_t" where
  "trap_instruction_access_fault = Mem_trap CAUSE_FETCH_ACCESS"
definition trap_illegal_instruction :: "reg_t \<Rightarrow> trap_t" where
  "trap_illegal_instruction = Insn_trap CAUSE_ILLEGAL_INSTRUCTION False"
definition trap_breakpoint :: "bool \<Rightarrow> reg_t \<Rightarrow> trap_t" where
  "trap_breakpoint = Insn_trap CAUSE_BREAKPOINT"
definition trap_load_address_misaligned :: "bool \<Rightarrow> reg_t \<Rightarrow> reg_t \<Rightarrow> reg_t \<Rightarrow> trap_t" where
  "trap_load_address_misaligned = Mem_trap CAUSE_MISALIGNED_LOAD"
definition trap_store_address_misaligned :: "bool \<Rightarrow> reg_t \<Rightarrow> reg_t \<Rightarrow> reg_t \<Rightarrow> trap_t" where
  "trap_store_address_misaligned = Mem_trap CAUSE_MISALIGNED_STORE"
definition trap_load_access_fault :: "bool \<Rightarrow> reg_t \<Rightarrow> reg_t \<Rightarrow> reg_t \<Rightarrow> trap_t" where
  "trap_load_access_fault = Mem_trap CAUSE_LOAD_ACCESS"
definition trap_store_access_fault :: "bool \<Rightarrow> reg_t \<Rightarrow> reg_t \<Rightarrow> reg_t \<Rightarrow> trap_t" where
  "trap_store_access_fault = Mem_trap CAUSE_STORE_ACCESS"
definition trap_user_ecall :: trap_t where
  "trap_user_ecall = Plain_trap CAUSE_USER_ECALL"
definition trap_supervisor_ecall :: trap_t where
  "trap_supervisor_ecall = Plain_trap CAUSE_SUPERVISOR_ECALL"
definition trap_virtual_supervisor_ecall :: trap_t where
  "trap_virtual_supervisor_ecall = Plain_trap CAUSE_VIRTUAL_SUPERVISOR_ECALL"
definition trap_machine_ecall :: trap_t where
  "trap_machine_ecall = Plain_trap CAUSE_MACHINE_ECALL"
definition trap_instruction_page_fault :: "bool \<Rightarrow> reg_t \<Rightarrow> reg_t \<Rightarrow> reg_t \<Rightarrow> trap_t" where
  "trap_instruction_page_fault = Mem_trap CAUSE_FETCH_PAGE_FAULT"
definition trap_load_page_fault :: "bool \<Rightarrow> reg_t \<Rightarrow> reg_t \<Rightarrow> reg_t \<Rightarrow> trap_t" where
  "trap_load_page_fault = Mem_trap CAUSE_LOAD_PAGE_FAULT"
definition trap_store_page_fault :: "bool \<Rightarrow> reg_t \<Rightarrow> reg_t \<Rightarrow> reg_t \<Rightarrow> trap_t" where
  "trap_store_page_fault = Mem_trap CAUSE_STORE_PAGE_FAULT"
definition trap_instruction_guest_page_fault :: "reg_t \<Rightarrow> reg_t \<Rightarrow> reg_t \<Rightarrow> trap_t" where
  "trap_instruction_guest_page_fault = Mem_trap CAUSE_FETCH_GUEST_PAGE_FAULT True"
definition trap_load_guest_page_fault :: "reg_t \<Rightarrow> reg_t \<Rightarrow> reg_t \<Rightarrow> trap_t" where
  "trap_load_guest_page_fault = Mem_trap CAUSE_LOAD_GUEST_PAGE_FAULT True"
definition trap_virtual_instruction :: "reg_t \<Rightarrow> trap_t" where
  "trap_virtual_instruction = Insn_trap CAUSE_VIRTUAL_INSTRUCTION False"
definition trap_store_guest_page_fault :: "reg_t \<Rightarrow> reg_t \<Rightarrow> reg_t \<Rightarrow> trap_t" where
  "trap_store_guest_page_fault = Mem_trap CAUSE_STORE_GUEST_PAGE_FAULT True"

lemmas trap_defs =
  cause_def trap_instruction_address_misaligned_def trap_instruction_access_fault_def
  trap_illegal_instruction_def trap_breakpoint_def trap_load_address_misaligned_def
  trap_store_address_misaligned_def trap_load_access_fault_def trap_store_access_fault_def
  trap_user_ecall_def trap_supervisor_ecall_def trap_virtual_supervisor_ecall_def
  trap_machine_ecall_def trap_instruction_page_fault_def trap_load_page_fault_def
  trap_store_page_fault_def trap_instruction_guest_page_fault_def
  trap_load_guest_page_fault_def trap_virtual_instruction_def trap_store_guest_page_fault_def

subsection \<open>Accesses and trigger matches\<close>

datatype access_type = LOAD | STORE | FETCH

datatype operation_t = OPERATION_EXECUTE | OPERATION_STORE | OPERATION_LOAD

datatype timing_t = TIMING_BEFORE | TIMING_AFTER

text \<open>The actions are numbers in the code, compared with \<open><\<close>: 0 to \<open>ACTION_MAXVAL\<close> = 4.\<close>

datatype action_t =
    ACTION_DEBUG_EXCEPTION
  | ACTION_DEBUG_MODE
  | ACTION_TRACE_START
  | ACTION_TRACE_STOP
  | ACTION_TRACE_EMIT

fun action_num :: "action_t \<Rightarrow> nat" where
  "action_num ACTION_DEBUG_EXCEPTION = 0"
| "action_num ACTION_DEBUG_MODE = 1"
| "action_num ACTION_TRACE_START = 2"
| "action_num ACTION_TRACE_STOP = 3"
| "action_num ACTION_TRACE_EMIT = 4"

instantiation action_t :: linorder
begin

definition less_eq_action_t :: "action_t \<Rightarrow> action_t \<Rightarrow> bool" where
  "less_eq_action_t a b \<longleftrightarrow> action_num a \<le> action_num b"

definition less_action_t :: "action_t \<Rightarrow> action_t \<Rightarrow> bool" where
  "less_action_t a b \<longleftrightarrow> action_num a < action_num b"

instance
proof
  fix a b :: action_t
  assume "a \<le> b" "b \<le> a"
  then show "a = b"
    by (cases a; cases b) (simp_all add: less_eq_action_t_def)
qed (auto simp: less_eq_action_t_def less_action_t_def)

end

record match_result_t =
  mr_timing :: timing_t
  mr_action :: action_t

record matched_t =
  mt_operation :: operation_t
  mt_address :: reg_t
  mt_action :: action_t

datatype exn =
    Trap trap_t
  | Trap_debug_mode
  | Trigger_matched matched_t
  | Wait_for_interrupt
  | Abort

end
