(* ===== verification/PMP.thy ===== *)
theory PMP
  imports Traps Arith
begin

text \<open>
  Physical memory protection: the \<open>pmpaddr\<close>, \<open>pmpcfg\<close> and \<open>mseccfg\<close> registers of
  \<open>riscv/csrs.cc\<close> and the checks \<open>mmu_t::pmp_ok\<close> and \<open>mmu_t::pmp_homogeneous\<close> of
  \<open>riscv/mmu.cc\<close>. The state is the part of \<open>state_t\<close> and \<open>processor_t\<close> these functions touch;
  a register write returns whether it succeeded and whether it flushed the TLB. The lemmas show
  that a page the code calls homogeneous can be cached, that the check agrees with a byte-wise
  reading of the entries, and that locked entries stay as they are.
\<close>

subsection \<open>State\<close>

record pmp_state =
  pmp_val :: "nat \<Rightarrow> reg_t"
  pmp_cfg :: "nat \<Rightarrow> u8"
  mseccfg_val :: reg_t
  n_pmp :: nat
  lg_pmp_granularity :: nat

abbreviation (input) max_pmp :: nat where "max_pmp \<equiv> 64"
abbreviation MAX_PADDR_BITS :: nat where "MAX_PADDR_BITS \<equiv> 56"

definition pmp_reset :: "nat \<Rightarrow> nat \<Rightarrow> pmp_state" where
  "pmp_reset n lg = \<lparr>pmp_val = (\<lambda>_. 0), pmp_cfg = (\<lambda>_. 0), mseccfg_val = 0,
     n_pmp = n, lg_pmp_granularity = lg\<rparr>"

definition set_pmp_num :: "nat \<Rightarrow> pmp_state \<Rightarrow> pmp_state option" where
  "set_pmp_num n p = (if n > max_pmp then None else Some (p\<lparr>n_pmp := n\<rparr>))"

definition set_pmp_granularity :: "reg_t \<Rightarrow> pmp_state \<Rightarrow> pmp_state option" where
  "set_pmp_granularity gran p =
     (if gran < 2 ^ PMP_SHIFT \<or> gran AND (gran - 1) \<noteq> 0 then None
      else Some (p\<lparr>lg_pmp_granularity := ctz gran\<rparr>))"

definition pmp_tor_mask :: "pmp_state \<Rightarrow> reg_t" where
  "pmp_tor_mask p = - shl 1 (lg_pmp_granularity p - PMP_SHIFT)"

subsection \<open>The security configuration register\<close>

definition get_mml :: "pmp_state \<Rightarrow> bool" where
  "get_mml p \<longleftrightarrow> mseccfg_val p AND MSECCFG_MML \<noteq> 0"

definition get_mmwp :: "pmp_state \<Rightarrow> bool" where
  "get_mmwp p \<longleftrightarrow> mseccfg_val p AND MSECCFG_MMWP \<noteq> 0"

definition get_rlb :: "pmp_state \<Rightarrow> bool" where
  "get_rlb p \<longleftrightarrow> mseccfg_val p AND MSECCFG_RLB \<noteq> 0"

definition is_locked :: "pmp_state \<Rightarrow> nat \<Rightarrow> bool" where
  "is_locked p i \<longleftrightarrow> pmp_cfg p i AND PMP_L \<noteq> 0"

type_synonym 's pmp_write = "bool \<times> bool \<times> 's"

definition mseccfg_unlogged_write :: "reg_t \<Rightarrow> pmp_state \<Rightarrow> pmp_state pmp_write" where
  "mseccfg_unlogged_write v p =
     (if n_pmp p = 0 then (False, False, p)
      else
        let pmplock_recorded = list_ex (is_locked p) [0..<n_pmp p];
            new_val = mseccfg_val p;
            new_val = (if \<not> (pmplock_recorded \<and> mseccfg_val p AND MSECCFG_RLB = 0)
                       then (new_val AND NOT MSECCFG_RLB) OR (v AND MSECCFG_RLB) else new_val);
            new_val = new_val OR (v AND MSECCFG_MMWP);
            new_val = new_val OR (v AND MSECCFG_MML)
        in (True, True, p\<lparr>mseccfg_val := new_val\<rparr>))"

subsection \<open>Address registers\<close>

definition pmpaddr_read :: "nat \<Rightarrow> pmp_state \<Rightarrow> reg_t" where
  "pmpaddr_read i p =
     (if pmp_cfg p i AND PMP_A \<ge> PMP_NAPOT then pmp_val p i OR shr (NOT (pmp_tor_mask p)) 1
      else pmp_val p i AND pmp_tor_mask p)"

definition next_locked_and_tor :: "nat \<Rightarrow> pmp_state \<Rightarrow> bool" where
  "next_locked_and_tor i p =
     (if i + 1 \<ge> max_pmp then False
      else
        let lock_bypass = get_rlb p;
            next_locked = (\<not> lock_bypass \<and> pmp_cfg p (i + 1) AND PMP_L \<noteq> 0);
            next_tor = (pmp_cfg p (i + 1) AND PMP_A = PMP_TOR)
        in next_locked \<and> next_tor)"

definition pmpaddr_unlogged_write :: "nat \<Rightarrow> reg_t \<Rightarrow> pmp_state \<Rightarrow> pmp_state pmp_write" where
  "pmpaddr_unlogged_write i v p =
     (if n_pmp p = 0 then (False, False, p)
      else
        let lock_bypass = get_rlb p;
            locked = (\<not> lock_bypass \<and> pmp_cfg p i AND PMP_L \<noteq> 0)
        in if i < n_pmp p \<and> \<not> locked \<and> \<not> next_locked_and_tor i p
           then (True, True,
             p\<lparr>pmp_val := (pmp_val p)(i := v AND (shl 1 (MAX_PADDR_BITS - PMP_SHIFT) - 1))\<rparr>)
           else (False, False, p))"

definition tor_paddr :: "nat \<Rightarrow> pmp_state \<Rightarrow> reg_t" where
  "tor_paddr i p = shl (pmp_val p i AND pmp_tor_mask p) PMP_SHIFT"

definition tor_base_paddr :: "nat \<Rightarrow> pmp_state \<Rightarrow> reg_t" where
  "tor_base_paddr i p = (if i = 0 then 0 else tor_paddr (i - 1) p)"

definition napot_mask :: "nat \<Rightarrow> pmp_state \<Rightarrow> reg_t" where
  "napot_mask i p = (
     let is_na4 = (pmp_cfg p i AND PMP_A = PMP_NA4);
         msk = shl (pmp_val p i) 1 OR of_bool (\<not> is_na4) OR NOT (pmp_tor_mask p)
     in shl (NOT (msk AND NOT (msk + 1))) PMP_SHIFT)"

definition match4 :: "nat \<Rightarrow> reg_t \<Rightarrow> pmp_state \<Rightarrow> bool" where
  "match4 i addr p =
     (if pmp_cfg p i AND PMP_A = 0 then False
      else if pmp_cfg p i AND PMP_A = PMP_TOR
        then tor_base_paddr i p \<le> addr \<and> addr < tor_paddr i p
      else (addr XOR tor_paddr i p) AND napot_mask i p = 0)"

text \<open>\<open>None\<close> is the \<open>abort\<close> of a range that is not naturally aligned.\<close>

definition subset_match :: "nat \<Rightarrow> reg_t \<Rightarrow> reg_t \<Rightarrow> pmp_state \<Rightarrow> bool option" where
  "subset_match i addr len p =
     (if (addr OR len) AND (len - 1) \<noteq> 0 then None
      else
        let base = tor_base_paddr i p;
            tor = tor_paddr i p
        in if pmp_cfg p i AND PMP_A = 0 then Some False
        else
          let is_tor = (pmp_cfg p i AND PMP_A = PMP_TOR);
              begins_after_lower = (addr \<ge> base);
              begins_after_upper = (addr \<ge> tor);
              ends_before_lower = (addr AND - len < base AND - len);
              ends_before_upper = (addr AND - len < tor AND - len);
              tor_homogeneous = (ends_before_lower \<or> begins_after_upper \<or>
                (begins_after_lower \<and> ends_before_upper));
              mask_homogeneous = (NOT (shl (napot_mask i p) 1) AND len \<noteq> 0);
              napot_homogeneous = (mask_homogeneous \<or> (addr XOR tor) div len \<noteq> 0)
          in Some (\<not> (if is_tor then tor_homogeneous else napot_homogeneous)))"

definition access_ok :: "nat \<Rightarrow> access_type \<Rightarrow> reg_t \<Rightarrow> pmp_state \<Rightarrow> bool" where
  "access_ok i ty mode p = (
     let cfgx = pmp_cfg p i AND PMP_X \<noteq> 0;
         cfgw = pmp_cfg p i AND PMP_W \<noteq> 0;
         cfgr = pmp_cfg p i AND PMP_R \<noteq> 0;
         cfgl = pmp_cfg p i AND PMP_L \<noteq> 0;
         prvm = (mode = PRV_M);
         typer = (ty = LOAD);
         typex = (ty = FETCH);
         typew = (ty = STORE);
         normal_rwx = (typer \<and> cfgr \<or> typew \<and> cfgw \<or> typex \<and> cfgx)
     in if get_mml p then
          if cfgx \<and> cfgw \<and> cfgr \<and> cfgl then typer
          else
            let mml_shared_region = (\<not> cfgr \<and> cfgw);
                mml_chk_normal = (prvm = cfgl \<and> normal_rwx);
                mml_chk_shared =
                  (\<not> cfgl \<and> cfgx \<and> (typer \<or> typew) \<or>
                   \<not> cfgl \<and> \<not> cfgx \<and> (typer \<or> typew \<and> prvm) \<or>
                   cfgl \<and> typex \<or>
                   cfgl \<and> typer \<and> cfgx \<and> prvm)
            in if mml_shared_region then mml_chk_shared else mml_chk_normal
        else
          let m_bypass = (prvm \<and> \<not> cfgl)
          in m_bypass \<or> normal_rwx)"

subsection \<open>Configuration registers\<close>

fun pmpcfg_read_loop :: "nat list \<Rightarrow> nat \<Rightarrow> pmp_state \<Rightarrow> reg_t \<Rightarrow> reg_t" where
  "pmpcfg_read_loop [] i0 p cfg_res = cfg_res"
| "pmpcfg_read_loop (i # is) i0 p cfg_res =
     (if i < max_pmp
      then pmpcfg_read_loop is i0 p (cfg_res OR shl (ucast (pmp_cfg p i)) (8 * (i - i0)))
      else cfg_res)"

definition pmpcfg_read :: "nat \<Rightarrow> nat \<Rightarrow> pmp_state \<Rightarrow> reg_t" where
  "pmpcfg_read address xlen p = (
     let i0 = (address - CSR_PMPCFG0) * 4
     in pmpcfg_read_loop [i0..<i0 + xlen div 8] i0 p 0)"

definition pmpcfg_legal :: "u8 \<Rightarrow> pmp_state \<Rightarrow> u8" where
  "pmpcfg_legal byte p = (
     let cfg = byte AND (PMP_R OR PMP_W OR PMP_X OR PMP_A OR PMP_L);
         cfg = (if \<not> get_mml p
                then cfg AND (NOT PMP_W OR (if cfg AND PMP_R \<noteq> 0 then PMP_W else 0)) else cfg)
     in if lg_pmp_granularity p \<noteq> PMP_SHIFT \<and> cfg AND PMP_A = PMP_NA4 then cfg OR PMP_NAPOT
        else cfg)"

definition pmpcfg_write_entry :: "nat \<Rightarrow> u8 \<Rightarrow> pmp_state \<Rightarrow> pmp_state" where
  "pmpcfg_write_entry i byte p = (
     let rlb = get_rlb p;
         mml = get_mml p;
         locked = (pmp_cfg p i AND PMP_L \<noteq> 0)
     in if rlb \<or> \<not> locked then
          let cfg = pmpcfg_legal byte p;
              cfgx = cfg AND PMP_X \<noteq> 0;
              cfgw = cfg AND PMP_W \<noteq> 0;
              cfgr = cfg AND PMP_R \<noteq> 0
          in if rlb \<or> \<not> (mml \<and> cfg AND PMP_L \<noteq> 0 \<and> \<not> (cfgx \<and> cfgw \<and> cfgr) \<and>
                 (cfgx \<or> cfgw \<and> \<not> cfgr))
             then p\<lparr>pmp_cfg := (pmp_cfg p)(i := cfg)\<rparr>
             else p
        else p)"

fun pmpcfg_write_loop :: "nat list \<Rightarrow> nat \<Rightarrow> reg_t \<Rightarrow> bool \<Rightarrow> pmp_state \<Rightarrow> bool \<times> pmp_state" where
  "pmpcfg_write_loop [] i0 v success p = (success, p)"
| "pmpcfg_write_loop (i # is) i0 v success p =
     (if i < n_pmp p
      then pmpcfg_write_loop is i0 v True
             (pmpcfg_write_entry i (ucast (shr v (8 * (i - i0)))) p)
      else pmpcfg_write_loop is i0 v success p)"

definition pmpcfg_unlogged_write :: "nat \<Rightarrow> nat \<Rightarrow> reg_t \<Rightarrow> pmp_state \<Rightarrow> pmp_state pmp_write" where
  "pmpcfg_unlogged_write address xlen v p =
     (if n_pmp p = 0 then (False, False, p)
      else
        let i0 = (address - CSR_PMPCFG0) * 4;
            (write_success, p') = pmpcfg_write_loop [i0..<i0 + xlen div 8] i0 v False p
        in (write_success, True, p'))"

subsection \<open>The checks of the memory management unit\<close>

text \<open>The sectors of an access: \<open>addr + offset\<close> for the offsets 0, 4, 8, ... below \<open>len\<close>.\<close>

definition pmp_sectors :: "reg_t \<Rightarrow> nat \<Rightarrow> reg_t list" where
  "pmp_sectors addr len =
     map (\<lambda>k. addr + of_nat (k * 2 ^ PMP_SHIFT)) [0..<(len + (2 ^ PMP_SHIFT - 1)) div 2 ^ PMP_SHIFT]"

fun pmp_ok_loop :: "nat list \<Rightarrow> reg_t list \<Rightarrow> access_type \<Rightarrow> reg_t \<Rightarrow> pmp_state \<Rightarrow> bool" where
  "pmp_ok_loop [] sectors ty mode p =
     (mode = PRV_M \<and> \<not> get_mmwp p \<and> (\<not> get_mml p \<or> ty = LOAD \<or> ty = STORE))"
| "pmp_ok_loop (i # is) sectors ty mode p =
     (let any_match = list_ex (\<lambda>a. match4 i a p) sectors;
          all_match = list_all (\<lambda>a. match4 i a p) sectors
      in if any_match then (if \<not> all_match then False else access_ok i ty mode p)
         else pmp_ok_loop is sectors ty mode p)"

definition pmp_ok :: "reg_t \<Rightarrow> nat \<Rightarrow> access_type \<Rightarrow> reg_t \<Rightarrow> pmp_state \<Rightarrow> bool" where
  "pmp_ok addr len ty mode p =
     (if n_pmp p = 0 then True
      else pmp_ok_loop [0..<n_pmp p] (pmp_sectors addr len) ty mode p)"

fun pmp_homogeneous_loop :: "nat list \<Rightarrow> reg_t \<Rightarrow> reg_t \<Rightarrow> pmp_state \<Rightarrow> bool option" where
  "pmp_homogeneous_loop [] addr len p = Some True"
| "pmp_homogeneous_loop (i # is) addr len p =
     (case subset_match i addr len p of
        None \<Rightarrow> None
      | Some True \<Rightarrow> Some False
      | Some False \<Rightarrow> pmp_homogeneous_loop is addr len p)"

definition pmp_homogeneous :: "reg_t \<Rightarrow> reg_t \<Rightarrow> pmp_state \<Rightarrow> bool option" where
  "pmp_homogeneous addr len p =
     (if (addr OR len) AND (len - 1) \<noteq> 0 then None
      else pmp_homogeneous_loop [0..<n_pmp p] addr len p)"

subsection \<open>Homogeneous pages\<close>

lemma trailing_ones_bits:
  fixes w :: "'a::len word"
  shows "bit (w AND NOT (w + 1)) n \<longleftrightarrow> n < LENGTH('a) \<and> (\<forall>i\<le>n. bit w i)"
proof (cases "w = - 1")
  case True
  then show ?thesis by (auto simp: bit_simps)
next
  case False
  then obtain k where "\<not> bit w k" "k < LENGTH('a)"
    by (metis bit_word_eqI bit_minus_1_iff possible_bit_word)
  define c where "c = (LEAST k. \<not> bit w k)"
  have c: "\<not> bit w c" "\<And>i. i < c \<Longrightarrow> bit w i" 
    unfolding c_def using \<open>\<not> bit w k\<close> by (rule LeastI, blast dest: not_less_Least)
  have cl: "c < LENGTH('a)" using \<open>\<not> bit w k\<close> \<open>k < LENGTH('a)\<close> unfolding c_def
    by (meson Least_le order_le_less_trans)
  let ?h = "w AND NOT (mask (Suc c))"
  have "w = ?h OR mask c"
    by (rule bit_word_eqI) (use c in \<open>auto simp: bit_simps not_less_eq less_Suc_eq\<close>)
  also have "\<dots> = ?h + mask c"
    by (rule disjunctive_add [symmetric]) (auto simp: bit_simps)
  finally have "w + 1 = ?h + 2 ^ c" by (simp add: mask_eq_exp_minus_1 algebra_simps)
  also have "\<dots> = ?h OR 2 ^ c"
    by (rule disjunctive_add) (auto simp: bit_simps)
  finally have w1: "w + 1 = ?h OR 2 ^ c" .
  show ?thesis
    unfolding w1 using c cl
    by (auto simp: bit_simps not_less_eq dest: bit_imp_le_length intro: leI)
qed

lemma bit_napot_mask:
  "bit (napot_mask i p) n \<longleftrightarrow> 2 \<le> n \<and> n < 64 \<and>
     (\<exists>j\<le>n - 2. \<not> bit (shl (pmp_val p i) 1 OR of_bool (pmp_cfg p i AND PMP_A \<noteq> PMP_NA4)
        OR NOT (pmp_tor_mask p)) j)"
  unfolding napot_mask_def Let_def bit_push_bit_iff bit_not_iff trailing_ones_bits
  by (auto simp: possible_bit_word)

lemma napot_mask_up: "bit (napot_mask i p) j \<Longrightarrow> j \<le> k \<Longrightarrow> k < 64 \<Longrightarrow> bit (napot_mask i p) k"
  unfolding bit_napot_mask by (meson diff_le_mono le_trans)

lemma clear_low_less_iff:
  fixes a b :: "'a::len word"
  shows "(a AND - (2 ^ k) < b AND - (2 ^ k)) \<longleftrightarrow> unat (shr a k) < unat (shr b k)"
proof -
  have p: "unat (w AND - (2 ^ k)) = 2 ^ k * unat (shr w k)" for w :: "'a word"
  proof -
    have "w AND - (2 ^ k) = push_bit k (shr w k)"
      by (rule bit_word_eqI) (auto simp: bit_simps minus_exp_eq_not_mask)
    moreover have "2 ^ k * (unat w div 2 ^ k) < 2 ^ LENGTH('a)"
      using unsigned_less [of w] times_div_less_eq_dividend [of "2 ^ k" "unat w"]
      by (metis le_less_trans)
    ultimately show ?thesis
      by (simp only: unat_shl unat_shr) (simp add: mult.commute)
  qed
  show ?thesis unfolding word_less_nat_alt p by simp
qed

lemma page_bounds:
  fixes x :: "'a::len word"
  assumes "unat (shr x k) = q"
  shows "q * 2 ^ k \<le> unat x \<and> unat x < (q + 1) * 2 ^ k"
  using assms unfolding unat_shr by (auto simp: dividend_less_div_times)

lemma tor_page:
  fixes lo hi base x :: "'a::len word"
  assumes al: "base AND mask k = 0" and x: "shr x k = shr base k"
    and h: "base AND - (2 ^ k) < lo AND - (2 ^ k) \<or> hi \<le> base \<or>
       (lo \<le> base \<and> base AND - (2 ^ k) < hi AND - (2 ^ k))"
  shows "(lo \<le> x \<and> x < hi) \<longleftrightarrow> (lo \<le> base \<and> base < hi)"
proof -
  let ?p = "\<lambda>w :: 'a word. unat (shr w k)"
  have "unat base mod 2 ^ k = 0"
    using arg_cong [OF al, of unat]
    by (simp add: unsigned_take_bit_eq flip: take_bit_eq_mask take_bit_eq_mod)
  then have b: "unat base = ?p base * 2 ^ k"
    unfolding unat_shr by (metis add.right_neutral div_mult_mod_eq)
  have bx: "?p base * 2 ^ k \<le> unat x" "unat x < (?p base + 1) * 2 ^ k"
    using page_bounds [OF arg_cong [OF x, of unat]] by auto
  have less: "?p w < ?p v \<Longrightarrow> (?p w + 1) * 2 ^ k \<le> unat v" for w v
    using page_bounds [of k v, OF refl] by (metis Suc_eq_plus1 Suc_leI le_trans mult_le_mono1)
  show ?thesis
    using h [unfolded clear_low_less_iff] b bx less [of base lo] less [of base hi]
    unfolding word_le_nat_alt word_less_nat_alt by auto
qed

lemma same_page_bits: "shr x k = shr y k \<Longrightarrow> k \<le> n \<Longrightarrow> bit (x :: 'a::len word) n = bit y n"
  by (drule arg_cong [of _ _ "\<lambda>w. bit w (n - k)"]) (simp add: bit_drop_bit_eq)

lemma not_and_exp_eq_0: "bit (w :: 'a::len word) k \<Longrightarrow> NOT w AND 2 ^ k = 0"
  by (rule bit_word_eqI) (auto simp: bit_simps)

lemma napot_page:
  fixes x t m base :: reg_t
  assumes k: "k < 64" and x: "shr x k = shr base k"
    and up: "\<And>i j. bit m i \<Longrightarrow> i \<le> j \<Longrightarrow> j < 64 \<Longrightarrow> bit m j"
    and h: "NOT (shl m 1) AND 2 ^ k \<noteq> 0 \<or> (base XOR t) div 2 ^ k \<noteq> 0"
  shows "(x XOR t) AND m = 0 \<longleftrightarrow> (base XOR t) AND m = 0"
proof (cases "k = 0 \<or> \<not> bit m (k - 1)")
  case True
  then have low: "\<not> bit m n" if "n < k" for n
  proof -
    have "n \<le> k - 1" "k - 1 < 64" using that k by auto
    then show ?thesis using up [of n "k - 1"] True that by blast
  qed
  have "bit ((x XOR t) AND m) n \<longleftrightarrow> bit ((base XOR t) AND m) n" for n
    using same_page_bits [OF x, of n] low [of n] by (cases "n < k") (auto simp: bit_simps)
  then show ?thesis by (metis bit_eq_iff)
next
  case False
  then have "bit (shl m 1) k"
    using k by (simp only: bit_push_bit_iff possible_bit_word) simp
  then have "NOT (shl m 1) AND 2 ^ k = 0" by (rule not_and_exp_eq_0)
  with h have "shr (base XOR t) k \<noteq> 0" by (simp only: drop_bit_eq_div) simp
  then obtain n where n: "bit (base XOR t) (k + n)"
    by (rule word_nonzero_bit) (metis bit_drop_bit_eq comp_apply)
  then have "k + n < 64" by (auto dest: bit_imp_le_length)
  then have m: "bit m (k + n)" using False up [of "k - 1" "k + n"] by auto
  have "bit x (k + n) = bit base (k + n)" using same_page_bits [OF x] by simp
  with n m have "bit ((x XOR t) AND m) (k + n)" "bit ((base XOR t) AND m) (k + n)"
    by (auto simp: bit_simps)
  then show ?thesis by (simp only: bit_nonzero)
qed

lemma match4_page:
  assumes s: "subset_match i base (2 ^ k) p = Some False" and k: "k < 64"
    and x: "shr x k = shr base k"
  shows "match4 i x p = match4 i base p"
proof -
  have "(base OR 2 ^ k) AND mask k = 0"
    using s by (auto simp: subset_match_def mask_eq_exp_minus_1 split: if_splits)
  then have al: "base AND mask k = 0"
    by (auto simp: bit_eq_iff bit_simps)
  have h: "if pmp_cfg p i AND PMP_A = PMP_TOR
      then base AND - (2 ^ k) < tor_base_paddr i p AND - (2 ^ k) \<or> tor_paddr i p \<le> base \<or>
        (tor_base_paddr i p \<le> base \<and> base AND - (2 ^ k) < tor_paddr i p AND - (2 ^ k))
      else NOT (shl (napot_mask i p) 1) AND 2 ^ k \<noteq> 0 \<or> (base XOR tor_paddr i p) div 2 ^ k \<noteq> 0"
    if "pmp_cfg p i AND PMP_A \<noteq> 0"
    using s that unfolding subset_match_def Let_def by (auto split: if_splits)
  show ?thesis
  proof (cases "pmp_cfg p i AND PMP_A = 0")
    case False
    note h = h [OF this]
    show ?thesis
    proof (cases "pmp_cfg p i AND PMP_A = PMP_TOR")
      case True
      with h show ?thesis
        using tor_page [OF al x] by (simp add: match4_def)
    next
      case no_tor: False
      with h have "NOT (shl (napot_mask i p) 1) AND 2 ^ k \<noteq> 0 \<or>
          (base XOR tor_paddr i p) div 2 ^ k \<noteq> 0" by simp
      from napot_page [OF k x napot_mask_up this] False no_tor
      show ?thesis by (simp add: match4_def)
    qed
  qed (simp add: match4_def)
qed

lemma shr_add_same:
  fixes a :: "'a::len word"
  assumes k: "k \<le> LENGTH('a)" and d: "unat a mod 2 ^ k + d < 2 ^ k"
  shows "shr (a + of_nat d) k = shr a k" "unat (a + of_nat d) = unat a + d"
proof -
  have "unat a div 2 ^ k < 2 ^ (LENGTH('a) - k)"
    using unsigned_less [of a, where ?'a = nat] k
    by (metis less_mult_imp_div_less le_add_diff_inverse2 power_add)
  then have "(unat a div 2 ^ k + 1) * 2 ^ k \<le> 2 ^ (LENGTH('a) - k) * 2 ^ k"
    by (intro mult_le_mono1) simp
  then have "(unat a div 2 ^ k + 1) * 2 ^ k \<le> 2 ^ LENGTH('a)"
    using k by (simp flip: power_add)
  moreover have "unat a + d = unat a div 2 ^ k * 2 ^ k + (unat a mod 2 ^ k + d)"
    by (metis add.assoc div_mult_mod_eq)
  ultimately have "unat a + d < 2 ^ LENGTH('a)" using d by simp
  then show u: "unat (a + of_nat d) = unat a + d"
    by (simp add: unat_word_ariths unsigned_of_nat take_bit_eq_mod mod_add_right_eq)
  have "(unat a + d) div 2 ^ k = unat a div 2 ^ k"
    using d by (subst div_add1_eq) (auto simp: div_less)
  then show "shr (a + of_nat d) k = shr a k"
    by (intro word_unat_eq_iff [THEN iffD2]) (simp only: unat_shr u)
qed

lemma match4_sector:
  assumes x: "shr x 2 = shr y 2"
  shows "match4 i x p = match4 i y p"
proof -
  have m: "NOT (shl (napot_mask i p) 1) AND 2 ^ 2 \<noteq> 0"
  proof -
    have "bit (NOT (shl (napot_mask i p) 1) AND 2 ^ 2) 2"
      by (simp only: bit_and_iff bit_not_iff bit_push_bit_iff bit_exp_iff possible_bit_word
          bit_napot_mask) simp
    then show ?thesis by (rule bit_nonzero)
  qed
  have t: "tor_paddr j p \<le> x \<longleftrightarrow> tor_paddr j p \<le> y" for j
  proof -
    have "4 dvd unat (tor_paddr j p)"
      unfolding tor_paddr_def unat_shl by (intro dvd_mod) simp_all
    then obtain q where q: "unat (tor_paddr j p) = q * 4"
      by (metis dvd_div_mult_self)
    have "unat x div 4 = unat y div 4"
      using arg_cong [OF x, of unat] unfolding unat_shr by simp
    then show ?thesis
      unfolding word_le_nat_alt q by (simp flip: less_eq_div_iff_mult_less_eq)
  qed
  have l: "tor_base_paddr i p \<le> x \<longleftrightarrow> tor_base_paddr i p \<le> y"
    using t by (simp add: tor_base_paddr_def)
  have u: "x < tor_paddr i p \<longleftrightarrow> y < tor_paddr i p"
    using t [of i] by (simp add: not_le [symmetric])
  show ?thesis
    using l u napot_page [OF _ x napot_mask_up disjI1 [OF m]]
    by (auto simp: match4_def)
qed

lemma pmp_homogeneous_entries:
  "pmp_homogeneous_loop is addr len p = Some True \<Longrightarrow> i \<in> set is \<Longrightarrow>
     subset_match i addr len p = Some False"
  by (induction "is") (auto split: option.splits bool.splits)

lemma pmp_ok_loop_cong:
  assumes "\<And>i. i \<in> set is \<Longrightarrow> (\<forall>a\<in>set S. match4 i a p = match4 i b p)" "S \<noteq> []"
  shows "pmp_ok_loop is S ty mode p = pmp_ok_loop is [b] ty mode p"
  using assms
proof (induction "is")
  case (Cons i "is")
  from Cons.prems(2) obtain a0 where "a0 \<in> set S" by (cases S) auto
  with Cons.prems(1) [of i]
  have "list_ex (\<lambda>a. match4 i a p) S = match4 i b p" "list_all (\<lambda>a. match4 i a p) S = match4 i b p"
    by (auto simp: list_ex_iff list_all_iff)
  with Cons show ?case by simp
qed simp

lemma pmp_sectors_one: "0 < len \<Longrightarrow> len \<le> 4 \<Longrightarrow> pmp_sectors a len = [a]"
proof -
  assume "0 < len" "len \<le> 4"
  then have "(len + 3) div 4 = Suc 0" by presburger
  then show ?thesis by (simp add: pmp_sectors_def)
qed

lemma pmp_ok_page:
  assumes h: "pmp_homogeneous base (2 ^ k) p = Some True" and k: "2 \<le> k" "k < 64"
    and a: "shr addr k = shr base k" "0 < len" "unat addr mod 2 ^ k + len \<le> 2 ^ k"
  shows "pmp_ok addr len ty mode p = pmp_ok base 1 ty mode p"
proof -
  have e: "match4 i x p = match4 i base p" if "i < n_pmp p" "shr x k = shr base k" for i x
    using h that k by (intro match4_page [of i base k])
      (auto simp: pmp_homogeneous_def pmp_homogeneous_entries split: if_splits)
  have s: "shr x k = shr base k" if x: "x \<in> set (pmp_sectors addr len)" for x
  proof -
    obtain j where j: "x = addr + of_nat (j * 4)" "j < (len + 3) div 4"
    proof -
      have "x \<in> (\<lambda>k. addr + of_nat (k * 4)) ` {0..<(len + 3) div 4}"
        using x by (simp add: pmp_sectors_def)
      then show ?thesis by (elim imageE) (rule that, simp_all)
    qed
    then have "j * 4 < len" by presburger
    then show ?thesis using shr_add_same(1) [of k addr "j * 4"] j a k by simp
  qed
  have "pmp_sectors addr len \<noteq> []"
  proof -
    have "0 < (len + 3) div 4" using \<open>0 < len\<close> by (simp add: div_greater_zero_iff)
    then show ?thesis by (simp add: pmp_sectors_def)
  qed
  then have "pmp_ok_loop [0..<n_pmp p] (pmp_sectors addr len) ty mode p =
      pmp_ok_loop [0..<n_pmp p] [base] ty mode p"
    by (intro pmp_ok_loop_cong ballI e s) (simp_all only: set_upt atLeastLessThan_iff not_False_eq_True)
  then show ?thesis
    using pmp_sectors_one [of 1 base] by (simp add: pmp_ok_def)
qed

subsection \<open>The byte-wise reading of the entries\<close>

text \<open>The abstract check: the lowest-numbered entry that covers a byte decides it.\<close>

definition pmp_entry :: "reg_t \<Rightarrow> pmp_state \<Rightarrow> nat option" where
  "pmp_entry a p = find (\<lambda>i. match4 i a p) [0..<n_pmp p]"

definition entry_allows :: "nat option \<Rightarrow> access_type \<Rightarrow> reg_t \<Rightarrow> pmp_state \<Rightarrow> bool" where
  "entry_allows e ty mode p = (case e of
     None \<Rightarrow> n_pmp p = 0 \<or> mode = PRV_M \<and> \<not> get_mmwp p \<and> (\<not> get_mml p \<or> ty \<noteq> FETCH)
   | Some i \<Rightarrow> access_ok i ty mode p)"

lemma pmp_ok_loop_find:
  assumes "S \<noteq> []"
  shows "pmp_ok_loop is S ty mode p \<longleftrightarrow>
    (\<exists>e. (\<forall>a\<in>set S. find (\<lambda>i. match4 i a p) is = e) \<and>
      (case e of None \<Rightarrow> mode = PRV_M \<and> \<not> get_mmwp p \<and> (\<not> get_mml p \<or> ty \<noteq> FETCH)
        | Some i \<Rightarrow> access_ok i ty mode p))"
proof (induction "is")
  case Nil
  then show ?case using assms by (cases ty) auto
next
  case (Cons i "is")
  obtain a0 where a0: "a0 \<in> set S" using assms by (cases S) auto
  consider "\<forall>a\<in>set S. match4 i a p" | "\<forall>a\<in>set S. \<not> match4 i a p"
    | a b where "a \<in> set S" "match4 i a p" "b \<in> set S" "\<not> match4 i b p" by blast
  then show ?case
  proof cases
    case 1
    with a0 show ?thesis by (auto simp: list_ex_iff list_all_iff)
  next
    case 2
    with a0 Cons show ?thesis by (auto simp: list_ex_iff)
  next
    case 3
    then have "find (\<lambda>i. match4 i a p) (i # is) = Some i"
      "find (\<lambda>i. match4 i b p) (i # is) \<noteq> Some i" by (auto simp: find_Some_iff)
    with 3 show ?thesis by (auto simp: list_ex_iff list_all_iff)
  qed
qed

lemma match4_entry: "shr x 2 = shr y 2 \<Longrightarrow> pmp_entry x p = pmp_entry y p"
  using match4_sector [of x y _ p] by (simp add: pmp_entry_def)

lemma sector_of_byte:
  assumes al: "unat addr mod 4 = 0 \<or> unat addr mod 4 + len \<le> 4" and b: "b < len"
  shows "shr (addr + of_nat b) 2 = shr ((addr :: reg_t) + of_nat (b div 4 * 4)) 2"
proof -
  let ?a = "addr + of_nat (b div 4 * 4)"
  have "unat ?a mod 4 + b mod 4 < 4"
  proof (cases "unat addr mod 4 = 0")
    case True
    have "unat ?a mod 4 = (unat addr + b div 4 * 4) mod 4"
      by (simp add: unat_word_ariths unsigned_of_nat take_bit_eq_mod mod_mod_cancel mod_add_right_eq
        del: of_nat_mult)
    also have "\<dots> = 0" using True by presburger
    finally show ?thesis by simp
  next
    case False
    with al b have "b < 4" "unat addr mod 4 + b < 4" by auto
    then show ?thesis by simp
  qed
  then have "shr (?a + of_nat (b mod 4)) 2 = shr ?a 2"
    using shr_add_same(1) [of 2 ?a "b mod 4"] by simp
  moreover have "?a + of_nat (b mod 4) = addr + of_nat b"
    by (metis add.assoc div_mult_mod_eq of_nat_add)
  ultimately show ?thesis by (simp only: )
qed

lemma pmp_ok_bytewise:
  assumes len: "0 < len" and al: "unat addr mod 4 = 0 \<or> unat addr mod 4 + len \<le> 4"
  shows "pmp_ok addr len ty mode p \<longleftrightarrow>
    (\<exists>e. (\<forall>b<len. pmp_entry (addr + of_nat b) p = e) \<and> entry_allows e ty mode p)"
proof (cases "n_pmp p = 0")
  case True
  then show ?thesis
    by (simp add: pmp_ok_def pmp_entry_def entry_allows_def exI [of _ None])
next
  case False
  let ?S = "pmp_sectors addr len"
  have S: "set ?S = (\<lambda>k. addr + of_nat (k * 4)) ` {0..<(len + 3) div 4}"
    by (simp add: pmp_sectors_def)
  have ne: "?S \<noteq> []"
  proof -
    have "0 < (len + 3) div 4" using len by (simp add: div_greater_zero_iff)
    then show ?thesis by (simp add: pmp_sectors_def)
  qed
  have "(\<forall>a\<in>set ?S. pmp_entry a p = e) \<longleftrightarrow> (\<forall>b<len. pmp_entry (addr + of_nat b) p = e)" for e
  proof
    assume a: "\<forall>a\<in>set ?S. pmp_entry a p = e"
    show "\<forall>b<len. pmp_entry (addr + of_nat b) p = e"
    proof (intro allI impI)
      fix b assume b: "b < len"
      then have "b div 4 < (len + 3) div 4" by presburger
      then have "addr + of_nat (b div 4 * 4) \<in> set ?S" unfolding S by (intro imageI) simp
      with a match4_entry [OF sector_of_byte [OF al b]] show "pmp_entry (addr + of_nat b) p = e"
        by metis
    qed
  next
    assume b: "\<forall>b<len. pmp_entry (addr + of_nat b) p = e"
    show "\<forall>a\<in>set ?S. pmp_entry a p = e"
    proof
      fix a assume "a \<in> set ?S"
      then obtain k where "a = addr + of_nat (k * 4)" "k < (len + 3) div 4"
        unfolding S by (elim imageE) simp
      moreover from this(2) have "k * 4 < len" by presburger
      ultimately show "pmp_entry a p = e" using b by blast
    qed
  qed
  with False show ?thesis
    by (simp add: pmp_ok_def pmp_ok_loop_find [OF ne] entry_allows_def pmp_entry_def
        split: option.split cong: conj_cong)
qed

subsection \<open>Register writes\<close>

text \<open>A step of the protection unit is one CSR write by the program.\<close>

inductive pmp_step :: "pmp_state \<Rightarrow> pmp_state \<Rightarrow> bool" where
  addr: "pmp_step p (snd (snd (pmpaddr_unlogged_write i v p)))"
| cfg: "pmp_step p (snd (snd (pmpcfg_unlogged_write a xlen v p)))"
| sec: "pmp_step p (snd (snd (mseccfg_unlogged_write v p)))"

inductive_cases pmp_stepE: "pmp_step p q"

definition pmp_static :: "pmp_state \<Rightarrow> pmp_state \<Rightarrow> bool" where
  "pmp_static p q \<longleftrightarrow> n_pmp q = n_pmp p \<and> lg_pmp_granularity q = lg_pmp_granularity p"

text \<open>What a locked entry protects, with the lock bypass off: its configuration, its address, and
  the address below it when it is a top-of-range entry.\<close>

definition entry_locked :: "nat \<Rightarrow> pmp_state \<Rightarrow> bool" where
  "entry_locked i p \<longleftrightarrow> i < n_pmp p \<and> n_pmp p \<le> max_pmp \<and> is_locked p i \<and> \<not> get_rlb p"

definition entry_view :: "nat \<Rightarrow> pmp_state \<Rightarrow> u8 \<times> reg_t \<times> reg_t option \<times> nat" where
  "entry_view i p = (pmp_cfg p i, pmp_val p i,
     (if 0 < i \<and> pmp_cfg p i AND PMP_A = PMP_TOR then Some (pmp_val p (i - 1)) else None),
     lg_pmp_granularity p)"

lemma pmpcfg_write_entry_simps [simp]:
  "n_pmp (pmpcfg_write_entry i b p) = n_pmp p"
  "lg_pmp_granularity (pmpcfg_write_entry i b p) = lg_pmp_granularity p"
  "mseccfg_val (pmpcfg_write_entry i b p) = mseccfg_val p"
  "pmp_val (pmpcfg_write_entry i b p) = pmp_val p"
  "j \<noteq> i \<Longrightarrow> pmp_cfg (pmpcfg_write_entry i b p) j = pmp_cfg p j"
  by (simp_all add: pmpcfg_write_entry_def Let_def)

lemma get_bits_cong:
  "mseccfg_val q = mseccfg_val p \<Longrightarrow> get_mml q = get_mml p \<and> get_mmwp q = get_mmwp p \<and> get_rlb q = get_rlb p"
  by (simp add: get_mml_def get_mmwp_def get_rlb_def)

lemma pmpcfg_write_entry_locked:
  "is_locked p j \<Longrightarrow> \<not> get_rlb p \<Longrightarrow> pmp_cfg (pmpcfg_write_entry i b p) j = pmp_cfg p j"
  by (cases "i = j") (simp_all add: pmpcfg_write_entry_def Let_def is_locked_def)

lemma pmpcfg_write_loop_frame:
  "n_pmp (snd (pmpcfg_write_loop is i0 v ok p)) = n_pmp p \<and>
   lg_pmp_granularity (snd (pmpcfg_write_loop is i0 v ok p)) = lg_pmp_granularity p \<and>
   mseccfg_val (snd (pmpcfg_write_loop is i0 v ok p)) = mseccfg_val p \<and>
   pmp_val (snd (pmpcfg_write_loop is i0 v ok p)) = pmp_val p"
  by (induction "is" i0 v ok p rule: pmpcfg_write_loop.induct) simp_all

lemma pmpcfg_write_loop_locked:
  "is_locked p j \<Longrightarrow> \<not> get_rlb p \<Longrightarrow> pmp_cfg (snd (pmpcfg_write_loop is i0 v ok p)) j = pmp_cfg p j"
proof (induction "is" i0 v ok p rule: pmpcfg_write_loop.induct)
  case (2 i "is" i0 v ok p)
  let ?q = "pmpcfg_write_entry i (ucast (shr v (8 * (i - i0)))) p"
  have "pmp_cfg ?q j = pmp_cfg p j" using 2 by (simp add: pmpcfg_write_entry_locked)
  moreover from this have "is_locked ?q j" "\<not> get_rlb ?q"
    using 2 get_bits_cong [of ?q p] by (simp_all add: is_locked_def)
  ultimately show ?case using 2 by simp
qed simp

lemma pmpcfg_unlogged_write_snd:
  "snd (snd (pmpcfg_unlogged_write a xlen v p)) =
    (if n_pmp p = 0 then p
     else snd (pmpcfg_write_loop [(a - CSR_PMPCFG0) * 4..<(a - CSR_PMPCFG0) * 4 + xlen div 8]
       ((a - CSR_PMPCFG0) * 4) v False p))"
  by (simp add: pmpcfg_unlogged_write_def Let_def case_prod_beta)

lemma pmp_step_static: "pmp_step p q \<Longrightarrow> pmp_static p q"
  by (elim pmp_stepE)
     (auto simp: pmp_static_def pmpaddr_unlogged_write_def pmpcfg_unlogged_write_snd
        mseccfg_unlogged_write_def Let_def pmpcfg_write_loop_frame)

lemma mseccfg_bits:
  "get_rlb (p\<lparr>mseccfg_val := v\<rparr>) \<longleftrightarrow> bit v 2"
  "get_mml (p\<lparr>mseccfg_val := v\<rparr>) \<longleftrightarrow> bit v 0"
  "get_mmwp (p\<lparr>mseccfg_val := v\<rparr>) \<longleftrightarrow> bit v 1"
  "get_rlb p \<longleftrightarrow> bit (mseccfg_val p) 2"
  "get_mml p \<longleftrightarrow> bit (mseccfg_val p) 0"
  "get_mmwp p \<longleftrightarrow> bit (mseccfg_val p) 1"
proof -
  have b: "v AND 4 \<noteq> 0 \<longleftrightarrow> bit v 2" "v AND 1 \<noteq> 0 \<longleftrightarrow> bit v 0" "v AND 2 \<noteq> 0 \<longleftrightarrow> bit v 1" for v :: reg_t
    using and_exp_eq_0_iff_not_bit [of v 2] and_exp_eq_0_iff_not_bit [of v 0]
      and_exp_eq_0_iff_not_bit [of v 1] by simp_all
  show "get_rlb (p\<lparr>mseccfg_val := v\<rparr>) \<longleftrightarrow> bit v 2"
  "get_mml (p\<lparr>mseccfg_val := v\<rparr>) \<longleftrightarrow> bit v 0"
  "get_mmwp (p\<lparr>mseccfg_val := v\<rparr>) \<longleftrightarrow> bit v 1"
  "get_rlb p \<longleftrightarrow> bit (mseccfg_val p) 2"
  "get_mml p \<longleftrightarrow> bit (mseccfg_val p) 0"
  "get_mmwp p \<longleftrightarrow> bit (mseccfg_val p) 1"
    unfolding get_rlb_def get_mml_def get_mmwp_def b by simp_all
qed

lemma mseccfg_write_bits:
  "get_mml (snd (snd (mseccfg_unlogged_write v p))) \<longleftrightarrow> get_mml p \<or> (n_pmp p \<noteq> 0 \<and> bit v 0)"
  "get_mmwp (snd (snd (mseccfg_unlogged_write v p))) \<longleftrightarrow> get_mmwp p \<or> (n_pmp p \<noteq> 0 \<and> bit v 1)"
  "get_rlb (snd (snd (mseccfg_unlogged_write v p))) \<longleftrightarrow>
    (if n_pmp p = 0 \<or> (\<not> get_rlb p \<and> (\<exists>i<n_pmp p. is_locked p i)) then get_rlb p else bit v 2)"
proof -
  have r: "mseccfg_val p AND MSECCFG_RLB = 0 \<longleftrightarrow> \<not> bit (mseccfg_val p) 2"
    using mseccfg_bits(4) [of p] by (auto simp: get_rlb_def)
  have b: "bit (MSECCFG_RLB) n \<longleftrightarrow> n = 2" "bit (MSECCFG_MMWP) n \<longleftrightarrow> n = 1" "bit (MSECCFG_MML) n \<longleftrightarrow> n = 0" for n
    using bit_exp_iff [where ?'a = "64 word", of 2 n] bit_exp_iff [where ?'a = "64 word", of 1 n]
      bit_exp_iff [where ?'a = "64 word", of 0 n] by (auto simp: possible_bit_word)
  show "get_mml (snd (snd (mseccfg_unlogged_write v p))) \<longleftrightarrow> get_mml p \<or> (n_pmp p \<noteq> 0 \<and> bit v 0)"
   "get_mmwp (snd (snd (mseccfg_unlogged_write v p))) \<longleftrightarrow> get_mmwp p \<or> (n_pmp p \<noteq> 0 \<and> bit v 1)"
   "get_rlb (snd (snd (mseccfg_unlogged_write v p))) \<longleftrightarrow>
    (if n_pmp p = 0 \<or> (\<not> get_rlb p \<and> (\<exists>i<n_pmp p. is_locked p i)) then get_rlb p else bit v 2)"
    unfolding mseccfg_unlogged_write_def Let_def
    by (auto simp: mseccfg_bits r bit_or_iff bit_and_iff bit_not_iff b list_ex_iff possible_bit_word)
qed

lemma pmp_step_locked:
  assumes st: "pmp_step p q" and lk: "entry_locked i p"
  shows "entry_locked i q \<and> entry_view i q = entry_view i p"
  using st
proof (elim pmp_stepE, goal_cases)
  case (1 j v)
  from lk have l: "i < n_pmp p" "n_pmp p \<le> 64" "pmp_cfg p i AND PMP_L \<noteq> 0" "\<not> get_rlb p"
    by (auto simp: entry_locked_def is_locked_def)
  have cfg: "pmp_cfg q = pmp_cfg p" "mseccfg_val q = mseccfg_val p" "n_pmp q = n_pmp p"
    "lg_pmp_granularity q = lg_pmp_granularity p"
    by (auto simp: 1 pmpaddr_unlogged_write_def Let_def)
  have v: "pmp_val q i = pmp_val p i"
    using l by (auto simp: 1 pmpaddr_unlogged_write_def Let_def)
  have w: "pmp_val q (i - 1) = pmp_val p (i - 1)" if "0 < i" "pmp_cfg p i AND PMP_A = PMP_TOR"
  proof (cases "j = i - 1")
    case True
    then have "next_locked_and_tor j p"
      using l that by (simp add: next_locked_and_tor_def)
    then show ?thesis by (simp add: 1 pmpaddr_unlogged_write_def)
  qed (auto simp: 1 pmpaddr_unlogged_write_def Let_def)
  show ?thesis
    using lk v w cfg get_bits_cong [of q p] by (simp add: entry_locked_def entry_view_def is_locked_def)
next
  case (2 a xlen v)
  then show ?thesis
    using lk pmpcfg_write_loop_locked [of p i] get_bits_cong [of q p]
    by (auto simp: entry_locked_def entry_view_def is_locked_def pmpcfg_unlogged_write_snd
        pmpcfg_write_loop_frame)
next
  case (3 v)
  have f: "pmp_cfg q = pmp_cfg p" "pmp_val q = pmp_val p" "n_pmp q = n_pmp p"
    "lg_pmp_granularity q = lg_pmp_granularity p"
    by (auto simp: 3 mseccfg_unlogged_write_def Let_def)
  have "\<not> get_rlb q"
    using lk by (auto simp: 3 mseccfg_write_bits entry_locked_def)
  then show ?thesis using lk f by (simp add: entry_locked_def entry_view_def is_locked_def)
qed

lemma pmp_step_mseccfg:
  "pmp_step p q \<Longrightarrow> get_mml p \<Longrightarrow> get_mml q"
  "pmp_step p q \<Longrightarrow> get_mmwp p \<Longrightarrow> get_mmwp q"
proof -
  assume "pmp_step p q"
  then have "(get_mml p \<longrightarrow> get_mml q) \<and> (get_mmwp p \<longrightarrow> get_mmwp q)"
  proof (elim pmp_stepE, goal_cases)
    case (1 i v)
    then have "mseccfg_val q = mseccfg_val p" by (simp add: pmpaddr_unlogged_write_def Let_def)
    then show ?case using get_bits_cong by blast
  next
    case (2 a xlen v)
    then have "mseccfg_val q = mseccfg_val p"
      by (simp add: pmpcfg_unlogged_write_snd pmpcfg_write_loop_frame)
    then show ?case using get_bits_cong by blast
  qed (simp add: mseccfg_write_bits)
  then show "get_mml p \<Longrightarrow> get_mml q" "get_mmwp p \<Longrightarrow> get_mmwp q" by simp_all
qed

interpretation entry_lock: sticky pmp_step "entry_locked i" "entry_view i" for i
  by unfold_locales (auto dest: pmp_step_locked)

interpretation mml_lock: preserved pmp_step get_mml
  by unfold_locales (rule pmp_step_mseccfg)

interpretation mmwp_lock: preserved pmp_step get_mmwp
  by unfold_locales (rule pmp_step_mseccfg)

text \<open>The entry holds a legal value: no reserved bits, an address within the physical address
  space, no 4-byte region under a coarser granularity, and no write-only region without MML.\<close>

definition pmp_wf :: "pmp_state \<Rightarrow> bool" where
  "pmp_wf p \<longleftrightarrow> n_pmp p \<le> max_pmp \<and> PMP_SHIFT \<le> lg_pmp_granularity p \<and>
     (\<forall>i. pmp_val p i AND NOT (mask 54) = 0 \<and> pmp_cfg p i AND 0x60 = 0 \<and>
        (lg_pmp_granularity p \<noteq> PMP_SHIFT \<longrightarrow> pmp_cfg p i AND PMP_A \<noteq> PMP_NA4) \<and>
        (pmp_cfg p i AND PMP_W \<noteq> 0 \<and> pmp_cfg p i AND PMP_R = 0 \<longrightarrow> get_mml p) \<and>
        (n_pmp p \<le> i \<longrightarrow> pmp_val p i = 0 \<and> pmp_cfg p i = 0))"

lemma u8_eq_bits:
  "(v :: u8) = w \<longleftrightarrow> bit v 0 = bit w 0 \<and> bit v 1 = bit w 1 \<and> bit v 2 = bit w 2 \<and> bit v 3 = bit w 3 \<and>
     bit v 4 = bit w 4 \<and> bit v 5 = bit w 5 \<and> bit v 6 = bit w 6 \<and> bit v 7 = bit w 7"
proof -
  have "(\<forall>n<8::nat. P n) \<longleftrightarrow> P 0 \<and> P 1 \<and> P 2 \<and> P 3 \<and> P 4 \<and> P 5 \<and> P 6 \<and> P 7" for P
    by (simp add: eval_nat_numeral All_less_Suc)
       (auto simp: eval_nat_numeral)
  moreover have "v = w \<longleftrightarrow> (\<forall>n<8. bit v n = bit w n)"
    by (auto intro!: bit_word_eqI)
  ultimately show ?thesis by simp
qed

lemma cfg_masks:
  fixes w :: u8
  shows "w AND PMP_R = 0 \<longleftrightarrow> \<not> bit w 0" "w AND PMP_W = 0 \<longleftrightarrow> \<not> bit w 1"
    "w AND PMP_X = 0 \<longleftrightarrow> \<not> bit w 2" "w AND PMP_L = 0 \<longleftrightarrow> \<not> bit w 7"
    "w AND PMP_A = PMP_NA4 \<longleftrightarrow> bit w 4 \<and> \<not> bit w 3" "w AND 0x60 = 0 \<longleftrightarrow> \<not> bit w 5 \<and> \<not> bit w 6"
    "w AND PMP_A = PMP_TOR \<longleftrightarrow> \<not> bit w 4 \<and> bit w 3" "w AND PMP_A = 0 \<longleftrightarrow> \<not> bit w 4 \<and> \<not> bit w 3"
  by (auto simp: u8_eq_bits bit_and_iff)

lemma bit_pmpcfg_legal:
  "bit (pmpcfg_legal b p) n \<longleftrightarrow>
    bit b n \<and> n \<in> {0, 2, 3, 4, 7} \<or> n = 1 \<and> bit b 1 \<and> (get_mml p \<or> bit b 0) \<or>
    n = 3 \<and> bit b 4 \<and> lg_pmp_granularity p \<noteq> PMP_SHIFT"
proof (cases "n < 8")
  case True
  then have "n \<in> {0,1,2,3,4,5,6,7}" by auto
  then show ?thesis
    by (elim insertE emptyE; simp add: pmpcfg_legal_def Let_def cfg_masks bit_and_iff bit_or_iff bit_not_iff; blast)
qed (auto dest: bit_imp_le_length)

lemma pmpcfg_write_entry_wf:
  assumes "pmp_wf p" "i < n_pmp p"
  shows "pmp_wf (pmpcfg_write_entry i b p)"
proof -
  let ?q = "pmpcfg_write_entry i b p"
  have m: "get_mml ?q = get_mml p" using get_bits_cong [of ?q p] by simp
  have c: "pmp_cfg ?q j = pmp_cfg p j \<or> pmp_cfg ?q j = pmpcfg_legal b p" for j
    by (cases "j = i") (auto simp: pmpcfg_write_entry_def Let_def)
  have "pmp_cfg ?q j AND 0x60 = 0 \<and>
      (lg_pmp_granularity p \<noteq> PMP_SHIFT \<longrightarrow> pmp_cfg ?q j AND PMP_A \<noteq> PMP_NA4) \<and>
      (pmp_cfg ?q j AND PMP_W \<noteq> 0 \<and> pmp_cfg ?q j AND PMP_R = 0 \<longrightarrow> get_mml p)" for j
    using c [of j] assms(1) unfolding pmp_wf_def cfg_masks
    by (elim disjE) (auto simp: bit_pmpcfg_legal)
  then show ?thesis
    using assms by (auto simp: pmp_wf_def m)
qed

lemma pmpcfg_write_loop_wf:
  "pmp_wf p \<Longrightarrow> pmp_wf (snd (pmpcfg_write_loop is i0 v ok p))"
  by (induction "is" i0 v ok p rule: pmpcfg_write_loop.induct) (simp_all add: pmpcfg_write_entry_wf)

lemma pmp_step_wf: "pmp_step p q \<Longrightarrow> pmp_wf p \<Longrightarrow> pmp_wf q"
proof (elim pmp_stepE, goal_cases)
  case (1 i v)
  have "(v AND (shl 1 54 - 1)) AND NOT (mask 54) = (0 :: reg_t)"
  proof -
    have e: "shl 1 54 - 1 = (mask 54 :: reg_t)" by (simp add: mask_eq_exp_minus_1)
    show ?thesis unfolding e by (rule bit_word_eqI) (auto simp: bit_simps)
  qed
  with 1 show ?case
    by (auto simp: pmpaddr_unlogged_write_def Let_def pmp_wf_def mseccfg_bits)
next
  case (2 a xlen v)
  then show ?case by (simp add: pmpcfg_unlogged_write_snd pmpcfg_write_loop_wf)
next
  case (3 v)
  then have "get_mml q \<or> \<not> get_mml p" by (auto simp: mseccfg_write_bits)
  moreover have "pmp_cfg q = pmp_cfg p" "pmp_val q = pmp_val p" "n_pmp q = n_pmp p"
    "lg_pmp_granularity q = lg_pmp_granularity p"
    by (auto simp: 3 mseccfg_unlogged_write_def Let_def)
  ultimately show ?case using 3(1) by (auto simp: pmp_wf_def)
qed

interpretation wf: preserved pmp_step pmp_wf
  by unfold_locales (rule pmp_step_wf)

lemma pmp_reset_wf: "n \<le> max_pmp \<Longrightarrow> PMP_SHIFT \<le> lg \<Longrightarrow> pmp_wf (pmp_reset n lg)"
  by (simp add: pmp_wf_def pmp_reset_def)

subsection \<open>Main results\<close>

text \<open>C18: when \<open>pmp_homogeneous\<close> accepts a page, every access inside that page, of any size
  and alignment, gets the same verdict from \<open>pmp_ok\<close>, so a translation of the page may be kept in
  the TLB without checking the protection entries again.\<close>

theorem homogeneous_page_uniform:
  assumes "pmp_homogeneous base 4096 p = Some True"
    and "shr a 12 = shr base 12" "0 < len" "unat a mod 4096 + len \<le> 4096"
    and "shr a' 12 = shr base 12" "0 < len'" "unat a' mod 4096 + len' \<le> 4096"
  shows "pmp_ok a len ty mode p = pmp_ok a' len' ty mode p"
  using pmp_ok_page [of base 12 p a len ty mode] pmp_ok_page [of base 12 p a' len' ty mode] assms
  by simp

definition pmp_demo :: pmp_state where
  "pmp_demo = \<lparr>pmp_val = (\<lambda>i. if i = 0 then 0x800 else 0), pmp_cfg = (\<lambda>i. if i = 0 then 0x8b else 0),
     mseccfg_val = 0, n_pmp = 16, lg_pmp_granularity = 2\<rparr>"

theorem homogeneous_page_uniform_witness:
  "pmp_homogeneous 0x1000 4096 pmp_demo = Some True \<and>
   pmp_ok 0x1004 8 LOAD PRV_U pmp_demo = pmp_ok 0x1ffc 4 LOAD PRV_U pmp_demo"
proof -
  have h: "pmp_homogeneous 0x1000 4096 pmp_demo = Some True"
    by (simp add: pmp_homogeneous_def pmp_demo_def upt_rec subset_match_def Let_def tor_paddr_def
        tor_base_paddr_def pmp_tor_mask_def)
  show ?thesis
    using h homogeneous_page_uniform [OF h, of "0x1004" 8 "0x1ffc" 4 LOAD PRV_U]
    by (simp add: drop_bit_eq_div)
qed

text \<open>C3: for an access whose sectors are 4-byte aligned the check is the byte-wise reading of the
  privileged specification: it succeeds exactly when one entry is the lowest-numbered match of
  every byte and allows the access, or no entry matches any byte and the default does.\<close>

theorem pmp_ok_refines_bytes:
  assumes "0 < len" "unat addr mod 4 = 0 \<or> unat addr mod 4 + len \<le> 4"
  shows "pmp_ok addr len ty mode p \<longleftrightarrow>
    (\<exists>e. (\<forall>b<len. pmp_entry (addr + of_nat b) p = e) \<and> entry_allows e ty mode p)"
  using pmp_ok_bytewise [OF assms] .

theorem pmp_ok_refines_bytes_witness:
  "pmp_ok 0x1ffc 8 LOAD PRV_U pmp_demo \<longleftrightarrow>
    (\<exists>e. (\<forall>b<8. pmp_entry (0x1ffc + of_nat b) pmp_demo = e) \<and> entry_allows e LOAD PRV_U pmp_demo)"
  by (rule pmp_ok_refines_bytes) simp_all

text \<open>C17: once an entry is locked and the rule-lock bypass is off, no sequence of CSR writes changes
  its configuration, its address, the lower bound it takes from its neighbour or the lock itself.\<close>

theorem locked_entry_permanent:
  assumes "pmp_step\<^sup>*\<^sup>* p q" "entry_locked i p"
  shows "entry_locked i q \<and> pmp_cfg q i = pmp_cfg p i \<and> pmp_val q i = pmp_val p i \<and>
    tor_paddr i q = tor_paddr i p \<and> napot_mask i q = napot_mask i p \<and>
    match4 i a q = match4 i a p"
proof -
  have v: "entry_view i q = entry_view i p" and l: "entry_locked i q"
    using entry_lock.view_forever entry_lock.forever assms by blast+
  then have eq: "pmp_cfg q i = pmp_cfg p i" "pmp_val q i = pmp_val p i"
      "lg_pmp_granularity q = lg_pmp_granularity p"
      "0 < i \<and> pmp_cfg p i AND PMP_A = PMP_TOR \<longrightarrow> pmp_val q (i - 1) = pmp_val p (i - 1)"
    by (auto simp: entry_view_def split: if_splits)
  then have "tor_paddr i q = tor_paddr i p" "napot_mask i q = napot_mask i p"
    by (simp_all add: tor_paddr_def napot_mask_def pmp_tor_mask_def)
  moreover have "tor_base_paddr i q = tor_base_paddr i p" if "pmp_cfg p i AND PMP_A = PMP_TOR"
    using eq that by (auto simp: tor_base_paddr_def tor_paddr_def pmp_tor_mask_def)
  ultimately show ?thesis using eq l by (simp add: match4_def)
qed

theorem locked_entry_permanent_witness:
  "pmp_cfg (snd (snd (pmpcfg_unlogged_write CSR_PMPCFG0 64 0x1f1f pmp_demo))) 0 = 0x8b"
proof -
  let ?q = "snd (snd (pmpcfg_unlogged_write CSR_PMPCFG0 64 0x1f1f pmp_demo))"
  have "pmp_step\<^sup>*\<^sup>* pmp_demo ?q" by (rule r_into_rtranclp, rule cfg)
  moreover have "entry_locked 0 pmp_demo"
    by (simp add: entry_locked_def pmp_demo_def is_locked_def get_rlb_def)
  ultimately have "pmp_cfg ?q 0 = pmp_cfg pmp_demo 0"
    using locked_entry_permanent [of pmp_demo ?q 0] by blast
  moreover have "pmp_cfg pmp_demo 0 = 0x8b" by (simp add: pmp_demo_def)
  ultimately show ?thesis by (simp only:)
qed

text \<open>From reset on, every sequence of CSR writes keeps the protection registers legal, and
  the lockdown and whitelist policy bits of \<open>mseccfg\<close> are never cleared once set.\<close>

theorem pmp_writes_legal:
  assumes "n \<le> max_pmp" "PMP_SHIFT \<le> lg" "pmp_step\<^sup>*\<^sup>* (pmp_reset n lg) p" "pmp_step\<^sup>*\<^sup>* p q"
  shows "pmp_wf q \<and> (get_mml p \<longrightarrow> get_mml q) \<and> (get_mmwp p \<longrightarrow> get_mmwp q)"
proof -
  have "pmp_wf p" by (rule wf.forever [OF assms(3)]) (rule pmp_reset_wf [OF assms(1,2)])
  then have "pmp_wf q" by (rule wf.forever [OF assms(4)])
  then show ?thesis
    using mml_lock.forever [OF assms(4)] mmwp_lock.forever [OF assms(4)] by simp
qed

theorem pmp_writes_legal_witness:
  "get_mml (snd (snd (mseccfg_unlogged_write 0
     (snd (snd (mseccfg_unlogged_write 1 (pmp_reset 16 2)))))))"
proof -
  let ?p = "snd (snd (mseccfg_unlogged_write 1 (pmp_reset 16 2)))"
  have "pmp_step\<^sup>*\<^sup>* (pmp_reset 16 2) ?p" "pmp_step\<^sup>*\<^sup>* ?p (snd (snd (mseccfg_unlogged_write 0 ?p)))"
    by (rule r_into_rtranclp, rule sec)+
  from pmp_writes_legal [OF _ _ this]
  have "get_mml ?p \<longrightarrow> get_mml (snd (snd (mseccfg_unlogged_write 0 ?p)))" by simp
  moreover have "get_mml ?p" by (simp add: mseccfg_write_bits(1) pmp_reset_def)
  ultimately show ?thesis by blast
qed

text \<open>An access that is not aligned to a 4-byte sector is only checked at \<open>addr\<close>,
  \<open>addr + 4\<close>, ...: a 4-byte user load at \<open>0x0ffe\<close> passes although the load of its last byte at
  \<open>0x1001\<close> alone is refused.\<close>

theorem misaligned_pmp_gap:
  "\<exists>p. pmp_wf p \<and> pmp_ok 0x0ffe 4 LOAD PRV_U p \<and> \<not> pmp_ok 0x1001 1 LOAD PRV_U p"
proof -
  let ?p = "\<lparr>pmp_val = (\<lambda>i. if i = 0 then 0x400 else 0), pmp_cfg = (\<lambda>i. if i = 0 then 0x09 else 0),
     mseccfg_val = 0, n_pmp = 1, lg_pmp_granularity = 2\<rparr>"
  have "pmp_wf ?p" by (simp add: pmp_wf_def mask_eq_exp_minus_1)
  moreover have "pmp_ok 0x0ffe 4 LOAD PRV_U ?p"
    by (simp add: pmp_ok_def pmp_sectors_def match4_def tor_base_paddr_def tor_paddr_def
        pmp_tor_mask_def access_ok_def get_mml_def)
  moreover have "\<not> pmp_ok 0x1001 1 LOAD PRV_U ?p"
    by (simp add: pmp_ok_def pmp_sectors_def match4_def tor_base_paddr_def tor_paddr_def
        pmp_tor_mask_def get_mml_def)
  ultimately show ?thesis by blast
qed

end
