(* ===== verification/Triggers.thy ===== *)
theory Triggers
  imports Traps Arith
begin

text \<open>
  The trigger module (\<open>riscv/triggers.h\<close>, \<open>riscv/triggers.cc\<close>): the six kinds of trigger, their
  \<open>tdata\<close> registers, and the matching of memory accesses, instruction counts and traps. What the
  code reads from the processor while it does so is the record \<open>trig_env\<close>. \<open>None\<close> stands for a
  failed assertion or a shift the C++ standard leaves undefined.
\<close>

subsection \<open>State\<close>

datatype match_t = MATCH_EQUAL | MATCH_NAPOT | MATCH_GE | MATCH_LT | MATCH_MASK_LOW | MATCH_MASK_HIGH

datatype mhselect_mode_t = MHSELECT_MODE_IGNORE | MHSELECT_MODE_MCONTEXT | MHSELECT_MODE_VMID

record mcontrol =
  mc_dmode :: bool
  mc_action :: action_t
  mc_hit :: bool
  mc_select :: bool
  mc_timing :: bool
  mc_chain :: bool
  mc_match :: match_t
  mc_execute :: bool
  mc_store :: bool
  mc_load :: bool

record icount =
  ic_dmode :: bool
  ic_hit :: bool
  ic_count :: u32
  ic_count_read_value :: u32
  ic_pending :: bool
  ic_pending_read_value :: bool
  ic_action :: action_t

record trap_common =
  tc_dmode :: bool
  tc_hit :: bool
  tc_action :: action_t

datatype trigger_kind =
    Disabled_trigger bool
  | Mcontrol mcontrol
  | Mcontrol6 mcontrol
  | Icount icount
  | Itrigger trap_common bool
  | Etrigger trap_common

record trigger =
  tdata2 :: reg_t
  tg_vs :: bool
  tg_vu :: bool
  tg_m :: bool
  tg_s :: bool
  tg_u :: bool
  sselect :: nat
  svalue :: u32
  sbytemask :: u32
  mhselect :: u32
  mhvalue :: u32
  kind :: trigger_kind

record trig_env =
  te_xlen :: nat
  te_const_xlen :: nat
  te_S :: bool
  te_U :: bool
  te_H :: bool
  te_debug_mode :: bool
  te_prv :: reg_t
  te_v :: bool
  te_scontext :: reg_t
  te_satp :: reg_t
  te_mcontext :: reg_t
  te_hgatp :: reg_t

abbreviation flag :: "reg_t \<Rightarrow> reg_t \<Rightarrow> bool" where
  "flag val msk \<equiv> get_field val msk \<noteq> 0"

definition blank_mcontrol :: mcontrol where
  "blank_mcontrol = \<lparr>mc_dmode = False, mc_action = ACTION_DEBUG_EXCEPTION, mc_hit = False,
     mc_select = False, mc_timing = False, mc_chain = False, mc_match = MATCH_EQUAL,
     mc_execute = False, mc_store = False, mc_load = False\<rparr>"

definition blank_icount :: icount where
  "blank_icount = \<lparr>ic_dmode = False, ic_hit = False, ic_count = 1, ic_count_read_value = 1,
     ic_pending = False, ic_pending_read_value = False, ic_action = ACTION_DEBUG_EXCEPTION\<rparr>"

definition blank_trap_common :: trap_common where
  "blank_trap_common = \<lparr>tc_dmode = False, tc_hit = False, tc_action = ACTION_DEBUG_EXCEPTION\<rparr>"

definition new_trigger :: "trigger_kind \<Rightarrow> trigger" where
  "new_trigger k = \<lparr>tdata2 = 0, tg_vs = False, tg_vu = False, tg_m = False, tg_s = False,
     tg_u = False, sselect = 0, svalue = 0, sbytemask = 0, mhselect = 0, mhvalue = 0, kind = k\<rparr>"

subsection \<open>Attributes\<close>

fun get_dmode_kind :: "trigger_kind \<Rightarrow> bool" where
  "get_dmode_kind (Disabled_trigger d) = d"
| "get_dmode_kind (Mcontrol c) = mc_dmode c"
| "get_dmode_kind (Mcontrol6 c) = mc_dmode c"
| "get_dmode_kind (Icount c) = ic_dmode c"
| "get_dmode_kind (Itrigger c nmi) = tc_dmode c"
| "get_dmode_kind (Etrigger c) = tc_dmode c"

definition get_dmode :: "trigger \<Rightarrow> bool" where
  "get_dmode t = get_dmode_kind (kind t)"

fun mcontrol_part :: "trigger_kind \<Rightarrow> mcontrol option" where
  "mcontrol_part (Mcontrol c) = Some c"
| "mcontrol_part (Mcontrol6 c) = Some c"
| "mcontrol_part _ = None"

definition mc_get :: "(mcontrol \<Rightarrow> bool) \<Rightarrow> trigger \<Rightarrow> bool" where
  "mc_get f t = (case mcontrol_part (kind t) of Some c \<Rightarrow> f c | None \<Rightarrow> False)"

definition get_chain :: "trigger \<Rightarrow> bool" where "get_chain = mc_get mc_chain"
definition get_execute :: "trigger \<Rightarrow> bool" where "get_execute = mc_get mc_execute"
definition get_store :: "trigger \<Rightarrow> bool" where "get_store = mc_get mc_store"
definition get_load :: "trigger \<Rightarrow> bool" where "get_load = mc_get mc_load"

fun icount_check_needed_kind :: "trigger_kind \<Rightarrow> bool" where
  "icount_check_needed_kind (Icount c) = (ic_count c > 0 \<or> ic_pending c)"
| "icount_check_needed_kind _ = False"

definition icount_check_needed :: "trigger \<Rightarrow> bool" where
  "icount_check_needed t = icount_check_needed_kind (kind t)"

subsection \<open>Register fields of every trigger\<close>

definition tdata2_read :: "trigger \<Rightarrow> reg_t" where "tdata2_read t = tdata2 t"
definition tdata2_write :: "reg_t \<Rightarrow> trigger \<Rightarrow> trigger" where "tdata2_write v t = t\<lparr>tdata2 := v\<rparr>"

fun action_of_num :: "nat \<Rightarrow> action_t" where
  "action_of_num n = (if n = 1 then ACTION_DEBUG_MODE else if n = 2 then ACTION_TRACE_START
     else if n = 3 then ACTION_TRACE_STOP else if n = 4 then ACTION_TRACE_EMIT
     else ACTION_DEBUG_EXCEPTION)"

definition legalize_action :: "reg_t \<Rightarrow> reg_t \<Rightarrow> reg_t \<Rightarrow> action_t" where
  "legalize_action val action_mask dmode_mask = (
     let act = get_field val action_mask
     in if act > 4 \<or> (act = 1 \<and> get_field val dmode_mask = 0) then ACTION_DEBUG_EXCEPTION
        else action_of_num (unat act))"

definition mh_table :: "u32 \<Rightarrow> u32 \<times> mhselect_mode_t \<times> bool option" where
  "mh_table legal =
     (if legal = 1 then (1, MHSELECT_MODE_MCONTEXT, Some True)
      else if legal = 2 then (2, MHSELECT_MODE_VMID, Some True)
      else if legal = 4 then (4, MHSELECT_MODE_MCONTEXT, Some False)
      else if legal = 5 then (5, MHSELECT_MODE_MCONTEXT, Some True)
      else if legal = 6 then (6, MHSELECT_MODE_VMID, Some True)
      else (0, MHSELECT_MODE_IGNORE, None))"

definition interpret_mhselect :: "bool \<Rightarrow> trigger \<Rightarrow> (u32 \<times> mhselect_mode_t \<times> bool option) option" where
  "interpret_mhselect h_enabled t =
     (if mhselect t < 8 then
        (let legal = (if h_enabled then [0, 1, 2, 0, 4, 5, 6, 4] ! unat (mhselect t)
                      else [0, 0, 0, 0, 4, 4, 4, 4] ! unat (mhselect t))
         in Some (mh_table legal))
      else None)"

definition compare_val :: "u32 \<times> mhselect_mode_t \<times> bool option \<Rightarrow> u32 \<Rightarrow> u32 option" where
  "compare_val i mhv = (case i of (sel, mode, shift) \<Rightarrow>
     (case shift of None \<Rightarrow> None
      | Some True \<Rightarrow> Some (shl mhv 1 OR shr sel 2)
      | Some False \<Rightarrow> Some mhv))"

definition TEXTRA_MHVALUE :: "nat \<Rightarrow> reg_t" where
  "TEXTRA_MHVALUE xlen = (if xlen = 32 then CSR_TEXTRA32_MHVALUE else CSR_TEXTRA64_MHVALUE)"
definition TEXTRA_MHSELECT :: "nat \<Rightarrow> reg_t" where
  "TEXTRA_MHSELECT xlen = (if xlen = 32 then CSR_TEXTRA32_MHSELECT else CSR_TEXTRA64_MHSELECT)"
definition TEXTRA_SBYTEMASK :: "nat \<Rightarrow> reg_t" where
  "TEXTRA_SBYTEMASK xlen = (if xlen = 32 then CSR_TEXTRA32_SBYTEMASK else CSR_TEXTRA64_SBYTEMASK)"
definition TEXTRA_SVALUE :: "nat \<Rightarrow> reg_t" where
  "TEXTRA_SVALUE xlen = (if xlen = 32 then CSR_TEXTRA32_SVALUE else CSR_TEXTRA64_SVALUE)"
definition TEXTRA_SSELECT :: "nat \<Rightarrow> reg_t" where
  "TEXTRA_SSELECT xlen = (if xlen = 32 then CSR_TEXTRA32_SSELECT else CSR_TEXTRA64_SSELECT)"

definition tdata3_read :: "trig_env \<Rightarrow> trigger \<Rightarrow> reg_t option" where
  "tdata3_read e t = (case interpret_mhselect (te_H e) t of None \<Rightarrow> None
   | Some (sel, mode, shift) \<Rightarrow>
       let xlen = te_xlen e;
           v = set_field 0 (TEXTRA_MHVALUE xlen) (ucast (mhvalue t));
           v = set_field v (TEXTRA_MHSELECT xlen) (ucast sel);
           v = set_field v (TEXTRA_SBYTEMASK xlen) (ucast (sbytemask t));
           v = set_field v (TEXTRA_SVALUE xlen) (ucast (svalue t));
           v = set_field v (TEXTRA_SSELECT xlen) (of_nat (sselect t))
       in Some v)"

definition tdata3_write :: "trig_env \<Rightarrow> reg_t \<Rightarrow> trigger \<Rightarrow> trigger" where
  "tdata3_write e val t = (
     let xlen = te_xlen e
     in t\<lparr>mhvalue := ucast (get_field val (TEXTRA_MHVALUE xlen)),
          mhselect := ucast (get_field val (TEXTRA_MHSELECT xlen)),
          sbytemask := ucast (get_field val (TEXTRA_SBYTEMASK xlen)),
          svalue := (if te_S e then ucast (get_field val (TEXTRA_SVALUE xlen)) else 0),
          sselect := (if te_S e \<and> get_field val (TEXTRA_SSELECT xlen) \<le> 2
                      then unat (get_field val (TEXTRA_SSELECT xlen)) else 0)\<rparr>)"

subsection \<open>Reading and writing tdata1\<close>

definition num_of_match :: "match_t \<Rightarrow> reg_t" where
  "num_of_match m = (case m of MATCH_EQUAL \<Rightarrow> 0 | MATCH_NAPOT \<Rightarrow> 1 | MATCH_GE \<Rightarrow> 2 | MATCH_LT \<Rightarrow> 3
     | MATCH_MASK_LOW \<Rightarrow> 4 | MATCH_MASK_HIGH \<Rightarrow> 5)"

definition legalize_match :: "reg_t \<Rightarrow> match_t" where
  "legalize_match val = (if val = 1 then MATCH_NAPOT else if val = 2 then MATCH_GE
     else if val = 3 then MATCH_LT else if val = 4 then MATCH_MASK_LOW
     else if val = 5 then MATCH_MASK_HIGH else MATCH_EQUAL)"

definition legalize_timing :: "reg_t \<Rightarrow> reg_t \<Rightarrow> reg_t \<Rightarrow> reg_t \<Rightarrow> reg_t \<Rightarrow> bool" where
  "legalize_timing val timing_mask select_mask execute_mask load_mask =
     (if flag val select_mask \<and> flag val load_mask then True
      else if flag val execute_mask then False
      else flag val timing_mask)"

definition bool_field :: "bool \<Rightarrow> reg_t" where "bool_field b = of_bool b"

definition disabled_tdata1_read :: "trig_env \<Rightarrow> bool \<Rightarrow> reg_t" where
  "disabled_tdata1_read e d = (
     let xlen = te_xlen e;
         v = set_field 0 (CSR_TDATA1_TYPE xlen) (of_nat CSR_TDATA1_TYPE_DISABLED)
     in set_field v (CSR_TDATA1_DMODE xlen) (bool_field d))"

definition disabled_tdata1_write :: "trig_env \<Rightarrow> reg_t \<Rightarrow> trigger \<Rightarrow> trigger" where
  "disabled_tdata1_write e val t = t\<lparr>kind := Disabled_trigger (flag val (CSR_TDATA1_DMODE (te_xlen e)))\<rparr>"

definition mcontrol_tdata1_read :: "trig_env \<Rightarrow> trigger \<Rightarrow> mcontrol \<Rightarrow> reg_t" where
  "mcontrol_tdata1_read e t c = (
     let xlen = te_xlen e;
         v = set_field 0 (MCONTROL_TYPE xlen) (of_nat CSR_TDATA1_TYPE_MCONTROL);
         v = set_field v (CSR_MCONTROL_DMODE xlen) (bool_field (mc_dmode c));
         v = set_field v (MCONTROL_MASKMAX xlen) 0;
         v = set_field v CSR_MCONTROL_HIT (bool_field (mc_hit c));
         v = set_field v MCONTROL_SELECT (bool_field (mc_select c));
         v = set_field v MCONTROL_TIMING (bool_field (mc_timing c));
         v = set_field v MCONTROL_ACTION (of_nat (action_num (mc_action c)));
         v = set_field v MCONTROL_CHAIN (bool_field (mc_chain c));
         v = set_field v MCONTROL_MATCH (num_of_match (mc_match c));
         v = set_field v MCONTROL_M (bool_field (tg_m t));
         v = set_field v MCONTROL_S (bool_field (tg_s t));
         v = set_field v MCONTROL_U (bool_field (tg_u t));
         v = set_field v MCONTROL_EXECUTE (bool_field (mc_execute c));
         v = set_field v MCONTROL_STORE (bool_field (mc_store c))
     in set_field v MCONTROL_LOAD (bool_field (mc_load c)))"

definition mcontrol_tdata1_write :: "trig_env \<Rightarrow> reg_t \<Rightarrow> bool \<Rightarrow> trigger \<Rightarrow> trigger option" where
  "mcontrol_tdata1_write e val allow_chain t = (
     let xlen = te_xlen e in
     if get_field val (CSR_MCONTROL_TYPE xlen) \<noteq> of_nat CSR_TDATA1_TYPE_MCONTROL then None
     else Some (t\<lparr>
       kind := Mcontrol \<lparr>
         mc_dmode = flag val (CSR_MCONTROL_DMODE xlen),
         mc_action = legalize_action val MCONTROL_ACTION (CSR_MCONTROL_DMODE xlen),
         mc_hit = flag val CSR_MCONTROL_HIT,
         mc_select = flag val MCONTROL_SELECT,
         mc_timing = legalize_timing val MCONTROL_TIMING MCONTROL_SELECT MCONTROL_EXECUTE MCONTROL_LOAD,
         mc_chain = (allow_chain \<and> flag val MCONTROL_CHAIN),
         mc_match = legalize_match (get_field val MCONTROL_MATCH),
         mc_execute = flag val MCONTROL_EXECUTE,
         mc_store = flag val MCONTROL_STORE,
         mc_load = flag val MCONTROL_LOAD\<rparr>,
       tg_m := flag val MCONTROL_M,
       tg_s := (te_S e \<and> flag val CSR_MCONTROL_S),
       tg_u := (te_U e \<and> flag val CSR_MCONTROL_U)\<rparr>))"

definition mcontrol6_tdata1_read :: "trig_env \<Rightarrow> trigger \<Rightarrow> mcontrol \<Rightarrow> reg_t" where
  "mcontrol6_tdata1_read e t c = (
     let xlen = te_const_xlen e;
         v = set_field 0 (CSR_MCONTROL6_TYPE xlen) (of_nat CSR_TDATA1_TYPE_MCONTROL6);
         v = set_field v (CSR_MCONTROL6_DMODE xlen) (bool_field (mc_dmode c));
         v = set_field v CSR_MCONTROL6_VS (bool_field (te_H e \<and> tg_vs t));
         v = set_field v CSR_MCONTROL6_VU (bool_field (te_H e \<and> tg_vu t));
         v = set_field v CSR_MCONTROL6_HIT (bool_field (mc_hit c));
         v = set_field v CSR_MCONTROL6_SELECT (bool_field (mc_select c));
         v = set_field v CSR_MCONTROL6_TIMING (bool_field (mc_timing c));
         v = set_field v CSR_MCONTROL6_ACTION (of_nat (action_num (mc_action c)));
         v = set_field v CSR_MCONTROL6_CHAIN (bool_field (mc_chain c));
         v = set_field v CSR_MCONTROL6_MATCH (num_of_match (mc_match c));
         v = set_field v CSR_MCONTROL6_M (bool_field (tg_m t));
         v = set_field v CSR_MCONTROL6_S (bool_field (tg_s t));
         v = set_field v CSR_MCONTROL6_U (bool_field (tg_u t));
         v = set_field v CSR_MCONTROL6_EXECUTE (bool_field (mc_execute c));
         v = set_field v CSR_MCONTROL6_STORE (bool_field (mc_store c))
     in set_field v CSR_MCONTROL6_LOAD (bool_field (mc_load c)))"

definition mcontrol6_tdata1_write :: "trig_env \<Rightarrow> reg_t \<Rightarrow> bool \<Rightarrow> trigger \<Rightarrow> trigger option" where
  "mcontrol6_tdata1_write e val allow_chain t = (
     let xlen = te_const_xlen e in
     if get_field val (CSR_MCONTROL6_TYPE xlen) \<noteq> of_nat CSR_TDATA1_TYPE_MCONTROL6 then None
     else Some (t\<lparr>
       kind := Mcontrol6 \<lparr>
         mc_dmode = flag val (CSR_MCONTROL6_DMODE xlen),
         mc_action = legalize_action val CSR_MCONTROL6_ACTION (CSR_MCONTROL6_DMODE xlen),
         mc_hit = flag val CSR_MCONTROL6_HIT,
         mc_select = flag val CSR_MCONTROL6_SELECT,
         mc_timing = legalize_timing val CSR_MCONTROL6_TIMING CSR_MCONTROL6_SELECT
                       CSR_MCONTROL6_EXECUTE CSR_MCONTROL6_LOAD,
         mc_chain = (allow_chain \<and> flag val CSR_MCONTROL6_CHAIN),
         mc_match = legalize_match (get_field val CSR_MCONTROL6_MATCH),
         mc_execute = flag val CSR_MCONTROL6_EXECUTE,
         mc_store = flag val CSR_MCONTROL6_STORE,
         mc_load = flag val CSR_MCONTROL6_LOAD\<rparr>,
       tg_vs := flag val CSR_MCONTROL6_VS,
       tg_vu := flag val CSR_MCONTROL6_VU,
       tg_m := flag val CSR_MCONTROL6_M,
       tg_s := (te_S e \<and> flag val CSR_MCONTROL6_S),
       tg_u := (te_U e \<and> flag val CSR_MCONTROL6_U)\<rparr>))"

definition icount_tdata1_read :: "trig_env \<Rightarrow> trigger \<Rightarrow> icount \<Rightarrow> reg_t" where
  "icount_tdata1_read e t c = (
     let xlen = te_xlen e;
         v = set_field 0 (CSR_ICOUNT_TYPE xlen) (of_nat CSR_TDATA1_TYPE_ICOUNT);
         v = set_field v (CSR_ICOUNT_DMODE xlen) (bool_field (ic_dmode c));
         v = set_field v CSR_ICOUNT_VS (bool_field (te_H e \<and> tg_vs t));
         v = set_field v CSR_ICOUNT_VU (bool_field (te_H e \<and> tg_vu t));
         v = set_field v CSR_ICOUNT_HIT (bool_field (ic_hit c));
         v = set_field v CSR_ICOUNT_COUNT (ucast (ic_count_read_value c));
         v = set_field v CSR_ICOUNT_M (bool_field (tg_m t));
         v = set_field v CSR_ICOUNT_PENDING (bool_field (ic_pending_read_value c));
         v = set_field v CSR_ICOUNT_S (bool_field (tg_s t));
         v = set_field v CSR_ICOUNT_U (bool_field (tg_u t))
     in set_field v CSR_ICOUNT_ACTION (of_nat (action_num (ic_action c))))"

definition icount_tdata1_write :: "trig_env \<Rightarrow> reg_t \<Rightarrow> trigger \<Rightarrow> trigger option" where
  "icount_tdata1_write e val t = (
     let xlen = te_xlen e in
     if get_field val (CSR_ICOUNT_TYPE xlen) \<noteq> of_nat CSR_TDATA1_TYPE_ICOUNT then None
     else Some (t\<lparr>
       kind := Icount \<lparr>
         ic_dmode = (te_debug_mode e \<and> flag val (CSR_ICOUNT_DMODE xlen)),
         ic_hit = flag val CSR_ICOUNT_HIT,
         ic_count = ucast (get_field val CSR_ICOUNT_COUNT),
         ic_count_read_value = ucast (get_field val CSR_ICOUNT_COUNT),
         ic_pending = flag val CSR_ICOUNT_PENDING,
         ic_pending_read_value = flag val CSR_ICOUNT_PENDING,
         ic_action = legalize_action val CSR_ICOUNT_ACTION (CSR_ICOUNT_DMODE xlen)\<rparr>,
       tg_vs := flag val CSR_ICOUNT_VS,
       tg_vu := flag val CSR_ICOUNT_VU,
       tg_m := flag val CSR_ICOUNT_M,
       tg_s := (te_S e \<and> flag val CSR_ICOUNT_S),
       tg_u := (te_U e \<and> flag val CSR_ICOUNT_U)\<rparr>))"

definition itrigger_tdata1_read :: "trig_env \<Rightarrow> trigger \<Rightarrow> trap_common \<Rightarrow> bool \<Rightarrow> reg_t" where
  "itrigger_tdata1_read e t c nmi = (
     let xlen = te_xlen e;
         v = set_field 0 (CSR_ITRIGGER_TYPE xlen) (of_nat CSR_TDATA1_TYPE_ITRIGGER);
         v = set_field v (CSR_ITRIGGER_DMODE xlen) (bool_field (tc_dmode c));
         v = set_field v (CSR_ITRIGGER_HIT xlen) (bool_field (tc_hit c));
         v = set_field v CSR_ITRIGGER_VS (bool_field (te_H e \<and> tg_vs t));
         v = set_field v CSR_ITRIGGER_VU (bool_field (te_H e \<and> tg_vu t));
         v = set_field v CSR_ITRIGGER_NMI (bool_field nmi);
         v = set_field v CSR_ITRIGGER_M (bool_field (tg_m t));
         v = set_field v CSR_ITRIGGER_S (bool_field (tg_s t));
         v = set_field v CSR_ITRIGGER_U (bool_field (tg_u t))
     in set_field v CSR_ITRIGGER_ACTION (of_nat (action_num (tc_action c))))"

definition itrigger_tdata1_write :: "trig_env \<Rightarrow> reg_t \<Rightarrow> trigger \<Rightarrow> trigger option" where
  "itrigger_tdata1_write e val t = (
     let xlen = te_xlen e in
     if get_field val (CSR_ITRIGGER_TYPE xlen) \<noteq> of_nat CSR_TDATA1_TYPE_ITRIGGER then None
     else Some (t\<lparr>
       kind := Itrigger \<lparr>
         tc_dmode = flag val (CSR_ITRIGGER_DMODE xlen),
         tc_hit = flag val (CSR_ITRIGGER_HIT xlen),
         tc_action = legalize_action val CSR_ITRIGGER_ACTION (CSR_ITRIGGER_DMODE xlen)\<rparr>
         (flag val CSR_ITRIGGER_NMI),
       tg_vs := flag val CSR_ITRIGGER_VS,
       tg_vu := flag val CSR_ITRIGGER_VU,
       tg_m := flag val CSR_ITRIGGER_M,
       tg_s := (te_S e \<and> flag val CSR_ITRIGGER_S),
       tg_u := (te_U e \<and> flag val CSR_ITRIGGER_U)\<rparr>))"

definition etrigger_tdata1_read :: "trig_env \<Rightarrow> trigger \<Rightarrow> trap_common \<Rightarrow> reg_t" where
  "etrigger_tdata1_read e t c = (
     let xlen = te_xlen e;
         v = set_field 0 (CSR_ETRIGGER_TYPE xlen) (of_nat CSR_TDATA1_TYPE_ETRIGGER);
         v = set_field v (CSR_ETRIGGER_DMODE xlen) (bool_field (tc_dmode c));
         v = set_field v (CSR_ETRIGGER_HIT xlen) (bool_field (tc_hit c));
         v = set_field v CSR_ETRIGGER_VS (bool_field (te_H e \<and> tg_vs t));
         v = set_field v CSR_ETRIGGER_VU (bool_field (te_H e \<and> tg_vu t));
         v = set_field v CSR_ETRIGGER_M (bool_field (tg_m t));
         v = set_field v CSR_ETRIGGER_S (bool_field (tg_s t));
         v = set_field v CSR_ETRIGGER_U (bool_field (tg_u t))
     in set_field v CSR_ETRIGGER_ACTION (of_nat (action_num (tc_action c))))"

definition etrigger_tdata1_write :: "trig_env \<Rightarrow> reg_t \<Rightarrow> trigger \<Rightarrow> trigger option" where
  "etrigger_tdata1_write e val t = (
     let xlen = te_xlen e in
     if get_field val (CSR_ETRIGGER_TYPE xlen) \<noteq> of_nat CSR_TDATA1_TYPE_ETRIGGER then None
     else Some (t\<lparr>
       kind := Etrigger \<lparr>
         tc_dmode = flag val (CSR_ETRIGGER_DMODE xlen),
         tc_hit = flag val (CSR_ETRIGGER_HIT xlen),
         tc_action = legalize_action val CSR_ETRIGGER_ACTION (CSR_ETRIGGER_DMODE xlen)\<rparr>,
       tg_vs := flag val CSR_ETRIGGER_VS,
       tg_vu := flag val CSR_ETRIGGER_VU,
       tg_m := flag val CSR_ETRIGGER_M,
       tg_s := (te_S e \<and> flag val CSR_ETRIGGER_S),
       tg_u := (te_U e \<and> flag val CSR_ETRIGGER_U)\<rparr>))"

fun tdata1_read_kind :: "trig_env \<Rightarrow> trigger \<Rightarrow> trigger_kind \<Rightarrow> reg_t" where
  "tdata1_read_kind e t (Disabled_trigger d) = disabled_tdata1_read e d"
| "tdata1_read_kind e t (Mcontrol c) = mcontrol_tdata1_read e t c"
| "tdata1_read_kind e t (Mcontrol6 c) = mcontrol6_tdata1_read e t c"
| "tdata1_read_kind e t (Icount c) = icount_tdata1_read e t c"
| "tdata1_read_kind e t (Itrigger c nmi) = itrigger_tdata1_read e t c nmi"
| "tdata1_read_kind e t (Etrigger c) = etrigger_tdata1_read e t c"

definition tdata1_read :: "trig_env \<Rightarrow> trigger \<Rightarrow> reg_t" where
  "tdata1_read e t = tdata1_read_kind e t (kind t)"

fun tdata1_write_kind :: "trig_env \<Rightarrow> reg_t \<Rightarrow> bool \<Rightarrow> trigger \<Rightarrow> trigger_kind \<Rightarrow> trigger option" where
  "tdata1_write_kind e val ac t (Disabled_trigger d) = Some (disabled_tdata1_write e val t)"
| "tdata1_write_kind e val ac t (Mcontrol c) = mcontrol_tdata1_write e val ac t"
| "tdata1_write_kind e val ac t (Mcontrol6 c) = mcontrol6_tdata1_write e val ac t"
| "tdata1_write_kind e val ac t (Icount c) = icount_tdata1_write e val t"
| "tdata1_write_kind e val ac t (Itrigger c nmi) = itrigger_tdata1_write e val t"
| "tdata1_write_kind e val ac t (Etrigger c) = etrigger_tdata1_write e val t"

definition tdata1_write :: "trig_env \<Rightarrow> reg_t \<Rightarrow> bool \<Rightarrow> trigger \<Rightarrow> trigger option" where
  "tdata1_write e val allow_chain t = tdata1_write_kind e val allow_chain t (kind t)"

subsection \<open>Matching\<close>

definition mode_match :: "trig_env \<Rightarrow> trigger \<Rightarrow> bool option" where
  "mode_match e t =
     (if te_prv e = PRV_M then Some (tg_m t)
      else if te_prv e = PRV_S then Some (if te_v e then tg_vs t else tg_s t)
      else if te_prv e = PRV_U then Some (if te_v e then tg_vu t else tg_u t)
      else None)"

text \<open>\<open>0xff << (i * 8)\<close> is an \<open>int\<close>: sign extended for \<open>i = 3\<close> and undefined for \<open>i = 4\<close>.\<close>

fun sbytemask_loop :: "nat list \<Rightarrow> u32 \<Rightarrow> reg_t \<Rightarrow> reg_t option" where
  "sbytemask_loop [] sbm msk = Some msk"
| "sbytemask_loop (i # is) sbm msk =
     (if sbm AND shl 1 i \<noteq> 0
      then (if i \<ge> 4 then None else sbytemask_loop is sbm (msk AND scast (shl (0xff :: u32) (i * 8))))
      else sbytemask_loop is sbm msk)"

definition SATP_ASID :: "nat \<Rightarrow> reg_t" where
  "SATP_ASID xlen = (if xlen = 32 then SATP32_ASID else SATP64_ASID)"
definition HGATP_VMID :: "nat \<Rightarrow> reg_t" where
  "HGATP_VMID xlen = (if xlen = 32 then HGATP32_VMID else HGATP64_VMID)"
definition ASIDMAX :: "nat \<Rightarrow> nat" where "ASIDMAX xlen = (if xlen = 32 then 9 else 16)"
definition VMIDMAX :: "nat \<Rightarrow> nat" where "VMIDMAX xlen = (if xlen = 32 then 7 else 14)"

definition smatch :: "trig_env \<Rightarrow> trigger \<Rightarrow> bool option" where
  "smatch e t = (
     let xlen = te_xlen e in
     if sselect t > 2 then None
     else if sselect t = 1 then
       (let msk = shl 1 (if xlen = 32 then CSR_TEXTRA32_SVALUE_LENGTH else CSR_TEXTRA64_SVALUE_LENGTH) - 1
        in case sbytemask_loop [0..<CSR_TEXTRA64_SBYTEMASK_LENGTH] (sbytemask t) msk of
             None \<Rightarrow> None
           | Some msk \<Rightarrow> Some (te_scontext e AND msk = ucast (svalue t) AND msk))
     else if sselect t = 2 then
       Some (get_field (te_satp e) (SATP_ASID xlen) = ucast (svalue t) AND (shl 1 (ASIDMAX xlen) - 1))
     else Some True)"

definition mhmatch :: "trig_env \<Rightarrow> trigger \<Rightarrow> bool option" where
  "mhmatch e t = (
     let xlen = te_xlen e in
     case interpret_mhselect (te_H e) t of None \<Rightarrow> None
     | Some i \<Rightarrow>
       (case fst (snd i) of
          MHSELECT_MODE_IGNORE \<Rightarrow> Some True
        | MHSELECT_MODE_MCONTEXT \<Rightarrow>
            (let msk = shl 1 ((if xlen = 32 then CSR_TEXTRA32_MHVALUE_LENGTH
                              else CSR_TEXTRA64_MHVALUE_LENGTH) + 1) - 1
             in map_option (\<lambda>c. te_mcontext e AND msk = ucast c) (compare_val i (mhvalue t)))
        | MHSELECT_MODE_VMID \<Rightarrow>
            map_option (\<lambda>c. get_field (te_hgatp e) (HGATP_VMID xlen) =
              ucast c AND (shl 1 (VMIDMAX xlen) - 1)) (compare_val i (mhvalue t))))"

definition textra_match :: "trig_env \<Rightarrow> trigger \<Rightarrow> bool option" where
  "textra_match e t = (case smatch e t of None \<Rightarrow> None
     | Some False \<Rightarrow> Some False
     | Some True \<Rightarrow> mhmatch e t)"

definition common_match :: "trig_env \<Rightarrow> trigger \<Rightarrow> bool option" where
  "common_match e t = (case mode_match e t of None \<Rightarrow> None
     | Some False \<Rightarrow> Some False
     | Some True \<Rightarrow> textra_match e t)"

text \<open>\<open>(1 << (cto(tdata2)+1)) - 1\<close> is computed in \<open>int\<close>: undefined from 31 trailing ones on.\<close>

definition mc_simple_match :: "match_t \<Rightarrow> nat \<Rightarrow> reg_t \<Rightarrow> reg_t \<Rightarrow> bool option" where
  "mc_simple_match m xlen t2 val = (case m of
     MATCH_EQUAL \<Rightarrow> Some (val = t2)
   | MATCH_NAPOT \<Rightarrow>
       (if cto t2 + 1 \<ge> 31 then None
        else let msk = NOT (shl 1 (cto t2 + 1) - 1) in Some (val AND msk = t2 AND msk))
   | MATCH_GE \<Rightarrow> Some (val \<ge> t2)
   | MATCH_LT \<Rightarrow> Some (val < t2)
   | MATCH_MASK_LOW \<Rightarrow> (let msk = shr t2 (xlen div 2) in Some (val AND msk = t2 AND msk))
   | MATCH_MASK_HIGH \<Rightarrow>
       (let msk = shr t2 (xlen div 2) in Some (shr val (xlen div 2) AND msk = t2 AND msk)))"

definition mc_detect :: "trig_env \<Rightarrow> operation_t \<Rightarrow> reg_t \<Rightarrow> reg_t option \<Rightarrow> trigger \<Rightarrow> mcontrol
    \<Rightarrow> (match_result_t option \<times> mcontrol) option" where
  "mc_detect e operation address data t c =
     (if (operation = OPERATION_EXECUTE \<and> \<not> mc_execute c) \<or>
         (operation = OPERATION_STORE \<and> \<not> mc_store c) \<or>
         (operation = OPERATION_LOAD \<and> \<not> mc_load c)
      then Some (None, c)
      else case common_match e t of None \<Rightarrow> None
      | Some False \<Rightarrow> Some (None, c)
      | Some True \<Rightarrow>
        (case (if mc_select c then data else Some address) of None \<Rightarrow> Some (None, c)
         | Some v \<Rightarrow>
           let v = (if te_xlen e = 32 then v AND 0xffffffff else v) in
           (case mc_simple_match (mc_match c) (te_xlen e) (tdata2 t) v of None \<Rightarrow> None
            | Some False \<Rightarrow> Some (None, c)
            | Some True \<Rightarrow> Some (Some \<lparr>mr_timing = (if mc_timing c then TIMING_AFTER else TIMING_BEFORE),
                                      mr_action = mc_action c\<rparr>, c\<lparr>mc_hit := True\<rparr>))))"

fun detect_memory_kind :: "trig_env \<Rightarrow> operation_t \<Rightarrow> reg_t \<Rightarrow> reg_t option \<Rightarrow> trigger \<Rightarrow> trigger_kind
    \<Rightarrow> (match_result_t option \<times> trigger_kind) option" where
  "detect_memory_kind e op a d t (Mcontrol c) = map_option (apsnd Mcontrol) (mc_detect e op a d t c)"
| "detect_memory_kind e op a d t (Mcontrol6 c) = map_option (apsnd Mcontrol6) (mc_detect e op a d t c)"
| "detect_memory_kind e op a d t k = Some (None, k)"

definition detect_memory_access :: "trig_env \<Rightarrow> operation_t \<Rightarrow> reg_t \<Rightarrow> reg_t option \<Rightarrow> trigger
    \<Rightarrow> (match_result_t option \<times> trigger) option" where
  "detect_memory_access e op a d t =
     map_option (apsnd (\<lambda>k. t\<lparr>kind := k\<rparr>)) (detect_memory_kind e op a d t (kind t))"

definition icount_detect :: "trig_env \<Rightarrow> trigger \<Rightarrow> icount \<Rightarrow> (match_result_t option \<times> icount) option" where
  "icount_detect e t c = (case common_match e t of None \<Rightarrow> None
     | Some False \<Rightarrow> Some (None, c)
     | Some True \<Rightarrow>
       let (ret, c) = (if ic_pending c
             then (Some \<lparr>mr_timing = TIMING_BEFORE, mr_action = ic_action c\<rparr>,
                   c\<lparr>ic_pending := False, ic_hit := True\<rparr>)
             else (None, c))
       in if ic_count c \<ge> 1
          then Some (ret, (if ic_count c = 1 then c\<lparr>ic_pending := True\<rparr> else c)\<lparr>ic_count := ic_count c - 1\<rparr>)
          else Some (ret, c))"

fun detect_icount_kind :: "trig_env \<Rightarrow> trigger \<Rightarrow> trigger_kind \<Rightarrow> (match_result_t option \<times> trigger_kind) option" where
  "detect_icount_kind e t (Icount c) = map_option (apsnd Icount) (icount_detect e t c)"
| "detect_icount_kind e t k = Some (None, k)"

fun stash_kind :: "trigger_kind \<Rightarrow> trigger_kind" where
  "stash_kind (Icount c) = Icount (c\<lparr>ic_count_read_value := ic_count c, ic_pending_read_value := ic_pending c\<rparr>)"
| "stash_kind k = k"

definition stash_read_values :: "trigger \<Rightarrow> trigger" where
  "stash_read_values t = t\<lparr>kind := stash_kind (kind t)\<rparr>"

definition itrigger_simple_match :: "reg_t \<Rightarrow> bool \<Rightarrow> bool \<Rightarrow> nat \<Rightarrow> bool" where
  "itrigger_simple_match t2 nmi interrupt b \<longleftrightarrow>
     interrupt \<and> ((b = 0 \<and> nmi) \<or> shr t2 b AND 1 \<noteq> 0)"

definition etrigger_simple_match :: "reg_t \<Rightarrow> bool \<Rightarrow> nat \<Rightarrow> bool" where
  "etrigger_simple_match t2 interrupt b \<longleftrightarrow> \<not> interrupt \<and> shr t2 b AND 1 \<noteq> 0"

definition trap_detect :: "trig_env \<Rightarrow> trap_t \<Rightarrow> trigger \<Rightarrow> (bool \<Rightarrow> nat \<Rightarrow> bool) \<Rightarrow> trap_common
    \<Rightarrow> (match_result_t option \<times> trap_common) option" where
  "trap_detect e tr t simple_match c = (case common_match e t of None \<Rightarrow> None
     | Some False \<Rightarrow> Some (None, c)
     | Some True \<Rightarrow>
       let top = shl 1 (te_xlen e - 1);
           interrupt = (cause tr AND top \<noteq> 0);
           b = unat (cause tr AND NOT top)
       in if b \<ge> te_xlen e then None
          else if simple_match interrupt b
            then Some (Some \<lparr>mr_timing = TIMING_AFTER, mr_action = tc_action c\<rparr>, c\<lparr>tc_hit := True\<rparr>)
          else Some (None, c))"

fun detect_trap_kind :: "trig_env \<Rightarrow> trap_t \<Rightarrow> trigger \<Rightarrow> trigger_kind \<Rightarrow> (match_result_t option \<times> trigger_kind) option" where
  "detect_trap_kind e tr t (Itrigger c nmi) =
     map_option (apsnd (\<lambda>c. Itrigger c nmi)) (trap_detect e tr t (itrigger_simple_match (tdata2 t) nmi) c)"
| "detect_trap_kind e tr t (Etrigger c) =
     map_option (apsnd Etrigger) (trap_detect e tr t (etrigger_simple_match (tdata2 t)) c)"
| "detect_trap_kind e tr t k = Some (None, k)"

subsection \<open>The module\<close>

type_synonym trigger_module = "trigger list"

definition module_init :: "nat \<Rightarrow> trigger_module" where
  "module_init count = replicate count (new_trigger (Disabled_trigger False))"

definition kind_of_type :: "nat \<Rightarrow> trigger_kind" where
  "kind_of_type ty =
     (if ty = CSR_TDATA1_TYPE_MCONTROL then Mcontrol blank_mcontrol
      else if ty = CSR_TDATA1_TYPE_ICOUNT then Icount blank_icount
      else if ty = CSR_TDATA1_TYPE_ITRIGGER then Itrigger blank_trap_common False
      else if ty = CSR_TDATA1_TYPE_ETRIGGER then Etrigger blank_trap_common
      else if ty = CSR_TDATA1_TYPE_MCONTROL6 then Mcontrol6 blank_mcontrol
      else Disabled_trigger False)"

definition module_tdata1_read :: "trig_env \<Rightarrow> nat \<Rightarrow> trigger_module \<Rightarrow> reg_t option" where
  "module_tdata1_read e index ts = (if index < length ts then Some (tdata1_read e (ts ! index)) else None)"

text \<open>The result is whether the write took effect (the caller then recomputes the check flags).\<close>

definition module_tdata1_write :: "trig_env \<Rightarrow> nat \<Rightarrow> reg_t \<Rightarrow> trigger_module \<Rightarrow> (bool \<times> trigger_module) option" where
  "module_tdata1_write e index val ts =
     (if index \<ge> length ts then None
      else if get_dmode (ts ! index) \<and> \<not> te_debug_mode e then Some (False, ts)
      else
        let xlen = te_xlen e;
            allow_chain = (\<not> (index + 1 < length ts \<and> get_dmode (ts ! (index + 1)) \<and>
                              \<not> flag val (CSR_TDATA1_DMODE xlen)));
            v1 = (if \<not> te_debug_mode e then set_field val (CSR_TDATA1_DMODE xlen) 0 else val)
        in if index > 0 \<and> \<not> get_dmode (ts ! (index - 1)) \<and> get_chain (ts ! (index - 1)) \<and>
              flag v1 (CSR_TDATA1_DMODE xlen)
           then Some (False, ts)
           else
             let ty = unat (get_field val (CSR_TDATA1_TYPE xlen));
                 t2 = tdata2_read (ts ! index)
             in case tdata3_read e (ts ! index) of None \<Rightarrow> None
                | Some t3 \<Rightarrow>
                  (case tdata1_write e v1 allow_chain (new_trigger (kind_of_type ty)) of None \<Rightarrow> None
                   | Some t \<Rightarrow> Some (True, ts[index := tdata3_write e t3 (tdata2_write t2 t)])))"

definition module_tdata2_write :: "trig_env \<Rightarrow> nat \<Rightarrow> reg_t \<Rightarrow> trigger_module \<Rightarrow> (bool \<times> trigger_module) option" where
  "module_tdata2_write e index val ts =
     (if index \<ge> length ts then None
      else if get_dmode (ts ! index) \<and> \<not> te_debug_mode e then Some (False, ts)
      else Some (True, ts[index := tdata2_write val (ts ! index)]))"

definition module_tdata3_write :: "trig_env \<Rightarrow> nat \<Rightarrow> reg_t \<Rightarrow> trigger_module \<Rightarrow> (bool \<times> trigger_module) option" where
  "module_tdata3_write e index val ts =
     (if index \<ge> length ts then None
      else if get_dmode (ts ! index) \<and> \<not> te_debug_mode e then Some (False, ts)
      else Some (True, ts[index := tdata3_write e val (ts ! index)]))"

definition better :: "match_result_t option \<Rightarrow> match_result_t option \<Rightarrow> match_result_t option" where
  "better ret result = (case result of None \<Rightarrow> ret
     | Some r \<Rightarrow> (case ret of None \<Rightarrow> Some r
                 | Some q \<Rightarrow> if mr_action q < mr_action r then Some r else Some q))"

fun memory_loop :: "trig_env \<Rightarrow> operation_t \<Rightarrow> reg_t \<Rightarrow> reg_t option \<Rightarrow> bool \<Rightarrow> match_result_t option
    \<Rightarrow> trigger_module \<Rightarrow> (match_result_t option \<times> trigger_module) option" where
  "memory_loop e op a d chain_ok ret [] = Some (ret, [])"
| "memory_loop e op a d chain_ok ret (t # ts) =
     (if \<not> chain_ok then
        map_option (apsnd ((#) t)) (memory_loop e op a d (\<not> get_chain t) ret ts)
      else case detect_memory_access e op a d t of None \<Rightarrow> None
        | Some (result, t') \<Rightarrow>
          (let ret' = (if get_chain t then ret else better ret result);
               chain_ok' = (result \<noteq> None \<or> \<not> get_chain t)
           in map_option (apsnd ((#) t')) (memory_loop e op a d chain_ok' ret' ts)))"

definition module_detect_memory :: "trig_env \<Rightarrow> operation_t \<Rightarrow> reg_t \<Rightarrow> reg_t option \<Rightarrow> trigger_module
    \<Rightarrow> (match_result_t option \<times> trigger_module) option" where
  "module_detect_memory e op a d ts =
     (if te_debug_mode e then Some (None, ts) else memory_loop e op a d True None ts)"

fun simple_loop :: "(trigger \<Rightarrow> trigger_kind \<Rightarrow> (match_result_t option \<times> trigger_kind) option)
    \<Rightarrow> match_result_t option \<Rightarrow> trigger_module \<Rightarrow> (match_result_t option \<times> trigger_module) option" where
  "simple_loop f ret [] = Some (ret, [])"
| "simple_loop f ret (t # ts) = (case f t (kind t) of None \<Rightarrow> None
     | Some (result, k) \<Rightarrow>
         map_option (apsnd ((#) (t\<lparr>kind := k\<rparr>))) (simple_loop f (better ret result) ts))"

definition module_detect_icount :: "trig_env \<Rightarrow> trigger_module \<Rightarrow> (match_result_t option \<times> trigger_module) option" where
  "module_detect_icount e ts = (
     let ts = map stash_read_values ts
     in if te_debug_mode e then Some (None, ts) else simple_loop (detect_icount_kind e) None ts)"

definition module_detect_trap :: "trig_env \<Rightarrow> trap_t \<Rightarrow> trigger_module \<Rightarrow> (match_result_t option \<times> trigger_module) option" where
  "module_detect_trap e tr ts =
     (if te_debug_mode e then Some (None, ts) else simple_loop (detect_trap_kind e tr) None ts)"

definition tinfo_read :: reg_t where
  "tinfo_read = shl 1 CSR_TDATA1_TYPE_MCONTROL OR shl 1 CSR_TDATA1_TYPE_ICOUNT OR
     shl 1 CSR_TDATA1_TYPE_ITRIGGER OR shl 1 CSR_TDATA1_TYPE_ETRIGGER OR
     shl 1 CSR_TDATA1_TYPE_MCONTROL6 OR shl 1 CSR_TDATA1_TYPE_DISABLED"

subsection \<open>Chains\<close>

text \<open>A chain is a maximal run of triggers with \<open>chain\<close> set and the trigger that ends it.\<close>

fun chains :: "trigger list \<Rightarrow> trigger list list" where
  "chains [] = []"
| "chains (t # ts) =
     (if get_chain t then (case chains ts of [] \<Rightarrow> [[t]] | c # cs \<Rightarrow> (t # c) # cs)
      else [t] # chains ts)"

definition trigger_result :: "trig_env \<Rightarrow> operation_t \<Rightarrow> reg_t \<Rightarrow> reg_t option \<Rightarrow> trigger \<Rightarrow> match_result_t option" where
  "trigger_result e op a d t = (case detect_memory_access e op a d t of None \<Rightarrow> None | Some (r, t') \<Rightarrow> r)"

definition chain_result :: "trig_env \<Rightarrow> operation_t \<Rightarrow> reg_t \<Rightarrow> reg_t option \<Rightarrow> trigger list \<Rightarrow> match_result_t option" where
  "chain_result e op a d c =
     (if c \<noteq> [] \<and> \<not> get_chain (last c) \<and> (\<forall>t\<in>set c. trigger_result e op a d t \<noteq> None)
      then trigger_result e op a d (last c) else None)"

lemma better_None [simp]: "better r None = r"
  by (simp add: better_def)

lemma chains_ne: "c \<in> set (chains ts) \<Longrightarrow> c \<noteq> []"
  by (induction ts arbitrary: c) (auto split: if_splits list.splits)

lemma memory_loop_chains:
  assumes "\<forall>t\<in>set ts. detect_memory_access e op a d t \<noteq> None"
  shows "\<exists>ts'. memory_loop e op a d ok ret ts = Some (foldl better ret
    (map (chain_result e op a d) (if ok then chains ts else tl (chains ts))), ts')"
  using assms
proof (induction ts arbitrary: ok ret)
  case (Cons t ts)
  have IH: "\<exists>ts'. memory_loop e op a d ok ret ts = Some (foldl better ret
    (map (chain_result e op a d) (if ok then chains ts else tl (chains ts))), ts')" for ok ret
    using Cons by simp
  obtain r t' where dt: "detect_memory_access e op a d t = Some (r, t')"
    using Cons.prems by auto
  then have r: "trigger_result e op a d t = r" by (simp add: trigger_result_def)
  show ?case
  proof (cases ok)
    case False
    then show ?thesis
      using IH [of True ret] IH [of False ret] by (auto split: list.splits)
  next
    case True
    show ?thesis
    proof (cases "get_chain t")
      case False
      then have "chain_result e op a d [t] = r" by (simp add: chain_result_def r)
      then show ?thesis
        using IH [of True "better ret r"] dt True False by (auto simp: Let_def)
    next
      case ch: True
      show ?thesis
      proof (cases "chains ts")
        case Nil
        then show ?thesis
          using IH [of "r \<noteq> None" ret] dt True ch by (auto simp: Let_def chain_result_def)
      next
        case (Cons c cs)
        then have "c \<noteq> []" using chains_ne [of c ts] by simp
        then have "chain_result e op a d (t # c) = (if r = None then None else chain_result e op a d c)"
          by (auto simp: chain_result_def r)
        then show ?thesis
          using IH [of "r \<noteq> None" ret] dt True ch Cons by (auto simp: Let_def)
      qed
    qed
  qed
qed simp

subsection \<open>Debug-mode ownership\<close>

lemma field_masks_xlen:
  "xlen \<in> {32, 64} \<Longrightarrow> CSR_TDATA1_DMODE xlen = field_mask (xlen - 5) 1"
  by (auto simp: field_mask_def)

lemma dmode_cleared:
  "xlen \<in> {32, 64} \<Longrightarrow> flag (set_field v (CSR_TDATA1_DMODE xlen) 0) (CSR_TDATA1_DMODE xlen) = False"
  by (subst (1 2) field_masks_xlen) (auto simp: get_set_field simp del: push_bit_of_1)

lemma tdata1_write_dmode:
  assumes "tdata1_write e v ac (new_trigger k) = Some t" "te_const_xlen e = te_xlen e"
  shows "get_dmode t \<longleftrightarrow> flag v (CSR_TDATA1_DMODE (te_xlen e)) \<and> ((\<exists>c. k = Icount c) \<longrightarrow> te_debug_mode e)"
    and "get_chain t \<Longrightarrow> ac"
  using assms
  by (cases k; auto simp: tdata1_write_def new_trigger_def get_dmode_def get_chain_def mc_get_def Let_def
      disabled_tdata1_write_def mcontrol_tdata1_write_def mcontrol6_tdata1_write_def
      icount_tdata1_write_def itrigger_tdata1_write_def etrigger_tdata1_write_def split: if_splits)+


lemma tdata_write_simps [simp]:
  "kind (tdata2_write v t) = kind t" "kind (tdata3_write e v t) = kind t"
  by (simp_all add: tdata2_write_def tdata3_write_def Let_def)

lemma attrs_of_kind [simp]:
  "get_dmode (tdata2_write v t) = get_dmode t" "get_dmode (tdata3_write e v t) = get_dmode t"
  "get_chain (tdata2_write v t) = get_chain t" "get_chain (tdata3_write e v t) = get_chain t"
  by (simp_all add: get_dmode_def get_chain_def mc_get_def)

text \<open>The writes software can make, under a fixed view of the hart.\<close>

inductive trig_step :: "trig_env \<Rightarrow> trigger_module \<Rightarrow> trigger_module \<Rightarrow> bool" for e where
  tdata1: "module_tdata1_write e i v ts = Some (ok, ts') \<Longrightarrow> trig_step e ts ts'"
| tdata2: "module_tdata2_write e i v ts = Some (ok, ts') \<Longrightarrow> trig_step e ts ts'"
| tdata3: "module_tdata3_write e i v ts = Some (ok, ts') \<Longrightarrow> trig_step e ts ts'"

inductive_cases trig_stepE: "trig_step e ts ts'"

definition effective_value :: "trig_env \<Rightarrow> reg_t \<Rightarrow> reg_t" where
  "effective_value e v =
     (if te_debug_mode e then v else set_field v (CSR_TDATA1_DMODE (te_xlen e)) 0)"

lemma module_tdata1_writeE:
  assumes w: "module_tdata1_write e i v ts = Some (ok, ts')"
  obtains (ignored) "ts' = ts" "\<not> ok"
  | (written) t0 t3 k ac where
      "ts' = ts[i := tdata3_write e t3 (tdata2_write (tdata2_read (ts ! i)) t0)]" "ok"
      "i < length ts" "\<not> get_dmode (ts ! i) \<or> te_debug_mode e"
      "tdata1_write e (effective_value e v) ac (new_trigger k) = Some t0"
      "ac = (\<not> (i + 1 < length ts \<and> get_dmode (ts ! (i + 1)) \<and> \<not> flag v (CSR_TDATA1_DMODE (te_xlen e))))"
      "\<not> (i > 0 \<and> \<not> get_dmode (ts ! (i - 1)) \<and> get_chain (ts ! (i - 1)) \<and>
         flag (effective_value e v) (CSR_TDATA1_DMODE (te_xlen e)))"
proof -
  have len: "i < length ts" using w by (auto simp: module_tdata1_write_def split: if_splits)
  define ac where "ac = (\<not> (i + 1 < length ts \<and> get_dmode (ts ! (i + 1)) \<and> \<not> flag v (CSR_TDATA1_DMODE (te_xlen e))))"
  define k where "k = kind_of_type (unat (get_field v (CSR_TDATA1_TYPE (te_xlen e))))"
  have ev: "(if \<not> te_debug_mode e then set_field v (CSR_TDATA1_DMODE (te_xlen e)) 0 else v) = effective_value e v"
    by (simp add: effective_value_def)
  note w = w [unfolded module_tdata1_write_def Let_def ev, folded ac_def k_def]
  show thesis
  proof (cases "get_dmode (ts ! i) \<and> \<not> te_debug_mode e \<or>
      (i > 0 \<and> \<not> get_dmode (ts ! (i - 1)) \<and> get_chain (ts ! (i - 1)) \<and>
         flag (effective_value e v) (CSR_TDATA1_DMODE (te_xlen e)))")
    case True
    then show thesis using w len ignored by (auto split: if_splits)
  next
    case False
    with w len obtain t3 t0 where "tdata3_read e (ts ! i) = Some t3"
        "tdata1_write e (effective_value e v) ac (new_trigger k) = Some t0"
        "ts' = ts[i := tdata3_write e t3 (tdata2_write (tdata2_read (ts ! i)) t0)]" "ok"
      by (auto split: option.splits)
    with False len show thesis by (intro written [of t3 t0 ac k]) (auto simp: ac_def)
  qed
qed

lemma trig_step_frame:
  assumes "trig_step e ts ts'"
  shows "length ts' = length ts \<and>
    (\<forall>i. get_dmode (ts ! i) \<and> \<not> te_debug_mode e \<longrightarrow> i < length ts \<longrightarrow> ts' ! i = ts ! i)"
  using assms
proof (cases rule: trig_step.cases)
  case (tdata1 i v ok)
  from this(1) show ?thesis
    by (cases rule: module_tdata1_writeE) (auto simp: nth_list_update)
next
  case (tdata2 i v ok)
  then show ?thesis by (auto simp: module_tdata2_write_def nth_list_update split: if_splits)
next
  case (tdata3 i v ok)
  then show ?thesis by (auto simp: module_tdata3_write_def nth_list_update split: if_splits)
qed

text \<open>Outside debug mode no write makes a trigger the debugger's.\<close>

lemma trig_step_no_new_dmode:
  assumes st: "trig_step e ts ts'" and e: "te_xlen e \<in> {32, 64}" "te_const_xlen e = te_xlen e"
    and nd: "\<not> te_debug_mode e" and i: "i < length ts"
  shows "get_dmode (ts' ! i) = get_dmode (ts ! i)"
  using st
proof (cases rule: trig_step.cases)
  case (tdata1 j v ok)
  from this(1) show ?thesis
  proof (cases rule: module_tdata1_writeE)
    case (written t0 t3 k ac)
    have "\<not> get_dmode t0"
      using tdata1_write_dmode(1) [OF written(5) e(2)] dmode_cleared [OF e(1)] nd
      by (simp add: effective_value_def)
    with written nd i show ?thesis by (auto simp: nth_list_update)
  qed simp
next
  case (tdata2 j v ok)
  then show ?thesis using i by (auto simp: module_tdata2_write_def nth_list_update split: if_splits)
next
  case (tdata3 j v ok)
  then show ?thesis using i by (auto simp: module_tdata3_write_def nth_list_update split: if_splits)
qed

definition chain_rule :: "trigger_module \<Rightarrow> bool" where
  "chain_rule ts \<longleftrightarrow> (\<forall>i. i + 1 < length ts \<and> get_dmode (ts ! (i + 1)) \<and> get_chain (ts ! i)
     \<longrightarrow> get_dmode (ts ! i))"

lemma chain_rule_update:
  assumes "chain_rule ts" "i < length ts"
    and "get_chain t \<Longrightarrow> \<not> get_dmode t \<Longrightarrow> \<not> (i + 1 < length ts \<and> get_dmode (ts ! (i + 1)))"
    and "get_dmode t \<Longrightarrow> 0 < i \<Longrightarrow> get_chain (ts ! (i - 1)) \<Longrightarrow> get_dmode (ts ! (i - 1))"
  shows "chain_rule (ts[i := t])"
  unfolding chain_rule_def
proof (intro allI impI)
  fix j
  assume h: "j + 1 < length (ts[i := t]) \<and> get_dmode (ts[i := t] ! (j + 1)) \<and> get_chain (ts[i := t] ! j)"
  show "get_dmode (ts[i := t] ! j)"
  proof (cases "j = i")
    case True
    then show ?thesis using h assms by (auto simp: nth_list_update)
  next
    case False
    show ?thesis
    proof (cases "j + 1 = i")
      case True
      then show ?thesis using h assms False by (auto simp: nth_list_update)
    next
      case False2: False
      then show ?thesis using h assms(1) False by (auto simp: chain_rule_def)
    qed
  qed
qed

lemma chain_rule_same:
  assumes "get_dmode t = get_dmode (ts ! i)" "get_chain t = get_chain (ts ! i)"
  shows "chain_rule (ts[i := t]) = chain_rule ts"
proof -
  have "get_dmode (ts[i := t] ! j) = get_dmode (ts ! j)" "get_chain (ts[i := t] ! j) = get_chain (ts ! j)" for j
    using assms by (cases "j = i \<and> i < length ts"; auto simp: nth_list_update list_update_beyond)+
  then show ?thesis by (simp add: chain_rule_def)
qed

lemma trig_step_chain_rule:
  assumes st: "trig_step e ts ts'" and e: "te_const_xlen e = te_xlen e"
    and d: "te_debug_mode e" and r: "chain_rule ts"
  shows "chain_rule ts'"
  using st
proof (cases rule: trig_step.cases)
  case (tdata1 i v ok)
  from this(1) show ?thesis
  proof (cases rule: module_tdata1_writeE)
    case (written t0 t3 k ac)
    note w = tdata1_write_dmode [OF written(5) e]
    have ev: "effective_value e v = v" using d by (simp add: effective_value_def)
    show ?thesis
      unfolding written(1)
    proof (rule chain_rule_update [OF r written(3)])
      let ?t = "tdata3_write e t3 (tdata2_write (tdata2_read (ts ! i)) t0)"
      assume c: "get_chain ?t" "\<not> get_dmode ?t"
      then have "ac" "\<not> flag v (CSR_TDATA1_DMODE (te_xlen e))" using w d ev by auto
      then show "\<not> (i + 1 < length ts \<and> get_dmode (ts ! (i + 1)))" using written(6) by auto
    next
      let ?t = "tdata3_write e t3 (tdata2_write (tdata2_read (ts ! i)) t0)"
      assume c: "get_dmode ?t" "0 < i" "get_chain (ts ! (i - 1))"
      then have "flag v (CSR_TDATA1_DMODE (te_xlen e))" using w d ev by auto
      then show "get_dmode (ts ! (i - 1))" using written(7) c ev by auto
    qed
  qed (use r in simp)
next
  case (tdata2 i v ok)
  then show ?thesis using r
    by (auto simp: module_tdata2_write_def chain_rule_same split: if_splits)
next
  case (tdata3 i v ok)
  then show ?thesis using r
    by (auto simp: module_tdata3_write_def chain_rule_same split: if_splits)
qed

interpretation dmode_lock: sticky "trig_step e"
  "\<lambda>ts. \<not> te_debug_mode e \<and> i < length ts \<and> get_dmode (ts ! i)" "\<lambda>ts. ts ! i" for e i
  by unfold_locales (auto dest: trig_step_frame)

interpretation chain_order: preserved "trig_step e"
  "\<lambda>ts. te_debug_mode e \<and> te_const_xlen e = te_xlen e \<and> chain_rule ts" for e
  by unfold_locales (auto dest: trig_step_chain_rule)

subsection \<open>Main results\<close>

text \<open>C19: whatever chains the triggers form, a memory access is answered with the best action over
  the complete chains all of whose triggers match it; partial matches never fire.\<close>

theorem memory_match_by_chains:
  assumes "\<not> te_debug_mode e" "\<forall>t\<in>set ts. detect_memory_access e op a d t \<noteq> None"
  shows "map_option fst (module_detect_memory e op a d ts) =
    Some (foldl better None (map (chain_result e op a d) (chains ts)))"
  using memory_loop_chains [OF assms(2), of True None] assms(1)
  by (auto simp: module_detect_memory_def)

definition trig_demo_env :: trig_env where
  "trig_demo_env = \<lparr>te_xlen = 64, te_const_xlen = 64, te_S = True, te_U = True, te_H = False,
     te_debug_mode = False, te_prv = PRV_M, te_v = False, te_scontext = 0, te_satp = 0,
     te_mcontext = 0, te_hgatp = 0\<rparr>"

definition trig_demo :: "reg_t \<Rightarrow> bool \<Rightarrow> trigger" where
  "trig_demo a ch = (new_trigger (Mcontrol (blank_mcontrol\<lparr>mc_load := True, mc_chain := ch\<rparr>)))
     \<lparr>tg_m := True, tdata2 := a\<rparr>"

lemma trig_demo_detect:
  "detect_memory_access trig_demo_env OPERATION_LOAD a None (trig_demo b ch) =
    (if a = b then Some (Some \<lparr>mr_timing = TIMING_BEFORE, mr_action = ACTION_DEBUG_EXCEPTION\<rparr>,
       (trig_demo b ch)\<lparr>kind := Mcontrol (blank_mcontrol\<lparr>mc_load := True, mc_chain := ch, mc_hit := True\<rparr>)\<rparr>)
     else Some (None, trig_demo b ch))"
  by (simp add: detect_memory_access_def trig_demo_def trig_demo_env_def new_trigger_def
      blank_mcontrol_def mc_detect_def common_match_def mode_match_def textra_match_def smatch_def
      mhmatch_def interpret_mhselect_def mh_table_def mc_simple_match_def Let_def)

lemma trig_demo_chain [simp]: "get_chain (trig_demo a ch) = ch"
  by (simp add: get_chain_def mc_get_def trig_demo_def new_trigger_def)

theorem memory_match_by_chains_witness:
  "map_option fst (module_detect_memory trig_demo_env OPERATION_LOAD 8 None
     [trig_demo 8 True, trig_demo 16 False]) = Some None"
proof -
  have "\<forall>t\<in>set [trig_demo 8 True, trig_demo 16 False].
      detect_memory_access trig_demo_env OPERATION_LOAD 8 None t \<noteq> None"
    by (simp add: trig_demo_detect)
  from memory_match_by_chains [OF _ this] show ?thesis
    by (simp add: chain_result_def trigger_result_def trig_demo_detect)
      (simp add: trig_demo_env_def)
qed

text \<open>C20: outside debug mode no sequence of \<open>tdata\<close> writes changes a trigger that belongs to the
  debugger, and none hands a trigger over to the debugger.\<close>

theorem debugger_triggers_protected:
  assumes "(trig_step e)\<^sup>*\<^sup>* ts ts'" "\<not> te_debug_mode e" "i < length ts" "get_dmode (ts ! i)"
  shows "ts' ! i = ts ! i"
  using dmode_lock.view_forever [OF assms(1)] assms(2-4) by blast

theorem debugger_triggers_protected_witness:
  "\<exists>ts'. trig_step trig_demo_env [new_trigger (Disabled_trigger True)] ts' \<and>
     ts' ! 0 = new_trigger (Disabled_trigger True)"
proof -
  let ?ts = "[new_trigger (Disabled_trigger True)]"
  have "module_tdata2_write trig_demo_env 0 5 ?ts = Some (False, ?ts)"
    by (simp add: module_tdata2_write_def get_dmode_def new_trigger_def trig_demo_env_def)
  then have s: "trig_step trig_demo_env ?ts ?ts" by (rule trig_step.tdata2)
  have "?ts ! 0 = ?ts ! 0"
    by (rule debugger_triggers_protected [where e = trig_demo_env and ts = ?ts, OF r_into_rtranclp, OF s])
      (simp_all add: trig_demo_env_def get_dmode_def new_trigger_def)
  with s show ?thesis by auto
qed

text \<open>In debug mode every sequence of \<open>tdata\<close> writes keeps the rule that a trigger which
  chains into a debugger trigger is itself a debugger trigger.\<close>

theorem debug_writes_keep_chain_rule:
  assumes "(trig_step e)\<^sup>*\<^sup>* (module_init n) ts" "te_debug_mode e" "te_const_xlen e = te_xlen e"
  shows "chain_rule ts"
proof -
  have "chain_rule (module_init n)"
    by (simp add: chain_rule_def module_init_def get_dmode_def get_chain_def mc_get_def new_trigger_def)
  then show ?thesis using chain_order.forever [OF assms(1)] assms(2,3) by blast
qed

theorem debug_writes_keep_chain_rule_witness:
  "chain_rule (module_init 4)"
  by (rule debug_writes_keep_chain_rule [of "trig_demo_env\<lparr>te_debug_mode := True\<rparr>" 4])
     (simp_all add: trig_demo_env_def)

text \<open>Outside debug mode the rule can be broken: the write masks the \<open>dmode\<close> bit of the value
  but decides from the unmasked value whether \<open>chain\<close> may be set.\<close>

theorem chain_rule_broken_outside_debug:
  "\<exists>ts ts'. chain_rule ts \<and> trig_step trig_demo_env ts ts' \<and> \<not> chain_rule ts'"
proof -
  let ?ts = "[new_trigger (Disabled_trigger False), new_trigger (Disabled_trigger True)]"
  let ?v = "0x2800000000000800 :: reg_t"
  obtain ok ts' where w: "module_tdata1_write trig_demo_env 0 ?v ?ts = Some (ok, ts')"
    and c: "get_chain (ts' ! 0)" "\<not> get_dmode (ts' ! 0)" "get_dmode (ts' ! 1)" "length ts' = 2"
    by (simp add: module_tdata1_write_def trig_demo_env_def new_trigger_def get_dmode_def
        get_field_def set_field_def kind_of_type_def tdata3_read_def interpret_mhselect_def mh_table_def
        tdata1_write_def mcontrol_tdata1_write_def get_chain_def mc_get_def Let_def
        tdata2_write_def tdata3_write_def blank_mcontrol_def)
  have "chain_rule ?ts"
    by (simp add: chain_rule_def get_dmode_def get_chain_def mc_get_def new_trigger_def nth_Cons split: nat.splits)
  moreover have "\<not> chain_rule ts'"
    using c by (auto simp: chain_rule_def intro!: exI [of _ 0])
  ultimately show ?thesis using trig_step.tdata1 [OF w] by blast
qed

text \<open>
  \<open>sbytemask\<close> is documented to make the comparison ignore the bytes whose bit is set; the code
  keeps exactly those bytes instead, so a value that differs in the ignored byte fails to match
  and one that differs elsewhere matches.
\<close>

lemma sbytemask_inverted:
  assumes "sselect t = 1" "svalue t = 0x1234" "sbytemask t = 1" "te_xlen e = 64"
  shows "te_scontext e = 0x1299 \<Longrightarrow> smatch e t = Some False"
    and "te_scontext e = 0x5634 \<Longrightarrow> smatch e t = Some True"
  using assms by (simp_all add: smatch_def Let_def upt_rec)

end
