(* ===== verification/State.thy ===== *)
theory State
  imports PMP Triggers Decode
begin

text \<open>
  The state of a hart: \<open>state_t\<close> and \<open>processor_t\<close> of \<open>riscv/processor.h\<close> with the caches of
  \<open>mmu_t\<close> (\<open>riscv/mmu.h\<close>). Every CSR object that stores a value of its own stores it in
  \<open>csrv\<close> under a key; \<open>csrmap\<close> maps a CSR number to the object that serves it, and the datatype
  \<open>csr\<close> has one constructor per class of \<open>riscv/csrs.h\<close>, with the constructor arguments that
  tell its instances apart. The commit log, the histogram and the disassembler are not modelled.
\<close>

subsection \<open>CSR objects\<close>

datatype mask_mode_t = NONE | MIDELEG | HIDELEG

record generic_int_accessor =
  read_mask :: reg_t
  ip_write_mask :: reg_t
  ie_write_mask :: reg_t
  mask_mode :: mask_mode_t
  shiftamt :: nat

datatype (plugins only: size) csr =
    Basic_csr nat
  | Pmpaddr_csr nat
  | Pmpcfg_csr nat
  | Mseccfg_csr
  | Virtualized_csr csr csr
  | Epc_csr nat
  | Tvec_csr nat
  | Cause_csr nat
  | Vsstatus_csr
  | Mstatus_csr
  | Sstatus_proxy_csr
  | Sstatus_csr
  | Mnstatus_csr
  | Rv32_low_csr nat csr
  | Rv32_high_csr nat csr
  | Misa_csr
  | Mip_csr
  | Mie_csr
  | Mip_proxy_csr nat generic_int_accessor
  | Mie_proxy_csr nat generic_int_accessor
  | Mideleg_csr
  | Medeleg_csr
  | Masked_csr nat reg_t
  | Henvcfg_csr reg_t
  | Base_atp_csr nat
  | Satp_csr
  | Virtualized_satp_csr
  | Wide_counter_csr nat
  | Time_counter_csr
  | Proxy_csr nat csr
  | Const_csr nat reg_t
  | Counter_proxy_csr nat csr
  | Mevent_csr nat
  | Hypervisor_csr nat
  | Hideleg_csr
  | Hgatp_csr
  | Tselect_csr
  | Tdata1_csr
  | Tdata2_csr
  | Tdata3_csr
  | Tinfo_csr
  | Debug_mode_csr nat
  | Dpc_csr
  | Dcsr_csr
  | Float_csr nat reg_t
  | Composite_csr nat csr csr nat
  | Seed_csr
  | Vector_csr nat reg_t
  | Vxsat_csr
  | Hstateen_csr reg_t nat
  | Sstateen_csr reg_t nat
  | Senvcfg_csr reg_t
  | Stimecmp_csr nat reg_t
  | Virtualized_stimecmp_csr
  | Scountovf_csr
  | Jvt_csr

subsection \<open>The caches of the memory management unit\<close>

abbreviation (input) PGSHIFT :: nat where "PGSHIFT \<equiv> 12"
abbreviation (input) PGSIZE :: reg_t where "PGSIZE \<equiv> 4096"
abbreviation (input) TLB_ENTRIES :: nat where "TLB_ENTRIES \<equiv> 256"
abbreviation (input) ICACHE_ENTRIES :: nat where "ICACHE_ENTRIES \<equiv> 1024"
abbreviation (input) TLB_CHECK_TRIGGERS :: reg_t where "TLB_CHECK_TRIGGERS \<equiv> 0x8000000000000000"

text \<open>A host pointer points into the page of guest memory at a physical address, or at the
  scratch word that holds an instruction fetched through a device.\<close>

datatype host_ptr = Host_mem reg_t | Host_fetch_temp reg_t

record tlb_entry =
  host_offset :: host_ptr
  target_offset :: reg_t

record icache_entry =
  ic_tag :: reg_t
  ic_next :: nat
  ic_insn :: insn_t

record mmu_state =
  tlb_insn_tag :: "nat \<Rightarrow> reg_t"
  tlb_load_tag :: "nat \<Rightarrow> reg_t"
  tlb_store_tag :: "nat \<Rightarrow> reg_t"
  tlb_data :: "nat \<Rightarrow> tlb_entry"
  icache :: "nat \<Rightarrow> icache_entry"
  load_reservation_address :: reg_t
  fetch_temp :: u16
  check_triggers_fetch :: bool
  check_triggers_load :: bool
  check_triggers_store :: bool
  matched_trigger :: "matched_t option"

definition flush_icache :: "mmu_state \<Rightarrow> mmu_state" where
  "flush_icache m = m\<lparr>icache := (\<lambda>i. (icache m i)\<lparr>ic_tag := - 1\<rparr>)\<rparr>"

definition flush_tlb :: "mmu_state \<Rightarrow> mmu_state" where
  "flush_tlb m = flush_icache (m\<lparr>tlb_insn_tag := (\<lambda>_. - 1), tlb_load_tag := (\<lambda>_. - 1),
     tlb_store_tag := (\<lambda>_. - 1)\<rparr>)"

definition yield_load_reservation :: "mmu_state \<Rightarrow> mmu_state" where
  "yield_load_reservation m = m\<lparr>load_reservation_address := - 1\<rparr>"

definition mmu_init :: mmu_state where
  "mmu_init = \<lparr>tlb_insn_tag = (\<lambda>_. - 1), tlb_load_tag = (\<lambda>_. - 1), tlb_store_tag = (\<lambda>_. - 1),
     tlb_data = (\<lambda>_. \<lparr>host_offset = Host_mem 0, target_offset = 0\<rparr>),
     icache = (\<lambda>_. \<lparr>ic_tag = - 1, ic_next = 0, ic_insn = 0\<rparr>), load_reservation_address = - 1, fetch_temp = 0,
     check_triggers_fetch = False, check_triggers_load = False, check_triggers_store = False,
     matched_trigger = None\<rparr>"

subsection \<open>The hart\<close>

record hart_cfg =
  max_xlen :: nat
  max_isa :: reg_t
  isa_ext :: "nat \<Rightarrow> bool"
  impl_table :: "nat \<Rightarrow> bool"
  custom_extensions :: bool
  hart_id :: u32
  cfg_misaligned :: bool
  trigger_count :: nat
  cfg_vlen :: nat

record dcsr_state =
  dcsr_prv :: u8
  dcsr_step :: bool
  ebreakm :: bool
  ebreakh :: bool
  ebreaks :: bool
  ebreaku :: bool
  dcsr_halt :: bool
  dcsr_cause :: u8

datatype step_state = STEP_NONE | STEP_STEPPING | STEP_STEPPED

datatype halt_request_t = HR_NONE | HR_REGULAR | HR_GROUP

record hart =
  cfg :: hart_cfg
  h_xlen :: nat
  h_pc :: reg_t
  XPR :: "reg_t regfile"
  FPR :: "(reg_t \<times> reg_t) regfile"
  csrmap :: "nat \<Rightarrow> csr option"
  csrv :: "nat \<Rightarrow> reg_t"
  h_prv :: reg_t
  h_v :: bool
  pmp :: pmp_state
  tm :: trigger_module
  dcsr :: dcsr_state
  mmu :: mmu_state
  extension_enable_table :: "nat \<Rightarrow> bool"
  sstatus_write_mask :: reg_t
  has_page :: bool
  debug_mode :: bool
  single_step :: step_state
  serialized :: bool
  in_wfi :: bool
  halt_request :: halt_request_t
  check_triggers_icount :: bool
  es_random :: u16

definition isa_extension_enabled :: "hart_cfg \<Rightarrow> nat \<Rightarrow> bool" where
  "isa_extension_enabled c ext = isa_ext c ext"

definition misa_extension_enabled :: "nat \<Rightarrow> hart \<Rightarrow> bool" where
  "misa_extension_enabled ext h \<longleftrightarrow> shr (csrv h CSR_MISA) (ext - ISA_A) AND 1 \<noteq> 0"

definition extension_enabled :: "nat \<Rightarrow> hart \<Rightarrow> bool" where
  "extension_enabled ext h =
     (if 65 \<le> ext \<and> ext \<le> 90 then misa_extension_enabled ext h
      else extension_enable_table h ext)"

definition supports_impl :: "nat \<Rightarrow> hart \<Rightarrow> bool" where
  "supports_impl i h = impl_table (cfg h) i"

definition any_custom_extensions :: "hart \<Rightarrow> bool" where
  "any_custom_extensions h = custom_extensions (cfg h)"

definition set_extension_enable :: "nat \<Rightarrow> bool \<Rightarrow> hart \<Rightarrow> hart" where
  "set_extension_enable ext enable h = h\<lparr>extension_enable_table :=
     (extension_enable_table h)(ext := enable \<and> isa_extension_enabled (cfg h) ext)\<rparr>"

definition pc_alignment_mask :: "hart \<Rightarrow> reg_t" where
  "pc_alignment_mask h = (
     let ialign = (if extension_enabled EXT_ZCA h then 16 else 32 :: nat)
     in NOT (if ialign = 16 then 0 else 2))"

definition check_pc_alignment :: "reg_t \<Rightarrow> (hart, exn, unit) comp" where
  "check_pc_alignment pc h =
     (if pc AND NOT (pc_alignment_mask h) \<noteq> 0
      then (Inl (Trap (trap_instruction_address_misaligned (h_v h) pc 0 0)), h)
      else (Inr (), h))"

definition hart_flush_tlb :: "hart \<Rightarrow> hart" where
  "hart_flush_tlb h = h\<lparr>mmu := flush_tlb (mmu h)\<rparr>"

definition write_csrv :: "nat \<Rightarrow> reg_t \<Rightarrow> hart \<Rightarrow> hart" where
  "write_csrv a v h = h\<lparr>csrv := (csrv h)(a := v)\<rparr>"

definition set_mmu_capability :: "nat \<Rightarrow> (nat \<Rightarrow> bool) \<Rightarrow> (nat \<Rightarrow> bool)" where
  "set_mmu_capability cap t =
     (if cap = IMPL_MMU_SV32 then t(IMPL_MMU_SV32 := True, IMPL_MMU := True)
      else if cap = IMPL_MMU_SV57 then
        t(IMPL_MMU_SV57 := True, IMPL_MMU_SV48 := True, IMPL_MMU_SV39 := True, IMPL_MMU := True)
      else if cap = IMPL_MMU_SV48 then
        t(IMPL_MMU_SV48 := True, IMPL_MMU_SV39 := True, IMPL_MMU := True)
      else if cap = IMPL_MMU_SV39 then t(IMPL_MMU_SV39 := True, IMPL_MMU := True)
      else t(IMPL_MMU_SV32 := False, IMPL_MMU_SV39 := False, IMPL_MMU_SV48 := False,
             IMPL_MMU_SV57 := False, IMPL_MMU := False))"

definition trigger_updated :: "trigger_module \<Rightarrow> hart \<Rightarrow> hart" where
  "trigger_updated ts h = (
     let h = hart_flush_tlb h
     in h\<lparr>mmu := (mmu h)\<lparr>check_triggers_fetch := list_ex get_execute ts,
            check_triggers_load := list_ex get_load ts,
            check_triggers_store := list_ex get_store ts\<rparr>,
          check_triggers_icount := list_ex icount_check_needed ts\<rparr>)"

subsection \<open>A concrete hart\<close>

text \<open>An RV64IMAFDC hart with supervisor, user and hypervisor modes, before its first reset: the
  hart the evaluations of the development start from.\<close>

definition demo_cfg :: hart_cfg where
  "demo_cfg = \<lparr>max_xlen = 64, max_isa = 0x80000000001411AD, isa_ext = (\<lambda>e. e = EXT_ZCA),
     impl_table = set_mmu_capability IMPL_MMU_SV48 (\<lambda>_. False), custom_extensions = False, hart_id = 0,
     cfg_misaligned = True, trigger_count = 4, cfg_vlen = 128\<rparr>"

definition demo_hart :: hart where
  "demo_hart = \<lparr>cfg = demo_cfg, h_xlen = 64, h_pc = 0x1000, XPR = regfile_reset, FPR = (\<lambda>_. (0, 0)), csrmap = (\<lambda>_. None),
     csrv = (\<lambda>_. 0), h_prv = PRV_M, h_v = False, pmp = pmp_reset 0 2, tm = module_init 4,
     dcsr = \<lparr>dcsr_prv = 0, dcsr_step = False, ebreakm = False, ebreakh = False, ebreaks = False,
       ebreaku = False, dcsr_halt = False, dcsr_cause = 0\<rparr>,
     mmu = mmu_init, extension_enable_table = (\<lambda>e. e = EXT_ZCA), sstatus_write_mask = 0, has_page = False,
     debug_mode = False, single_step = STEP_NONE, serialized = False, in_wfi = False,
     halt_request = HR_NONE, check_triggers_icount = False, es_random = 0\<rparr>"

end
