(* ===== verification/CSR.thy ===== *)
theory CSR
  imports State
begin

text \<open>
  The control and status registers of \<open>riscv/csrs.cc\<close>: for each class what it reads, what it
  writes and whom it lets in, and \<open>state_t::reset\<close>, \<open>get_csr\<close> and \<open>put_csr\<close> of
  \<open>riscv/processor.cc\<close>. Reads are functions of the hart; a write returns the new hart and whether
  the object itself was written, \<open>None\<close> where the code aborts.
\<close>

subsection \<open>Views of the status registers\<close>

definition sstatus_read_mask :: "hart \<Rightarrow> reg_t" where
  "sstatus_read_mask h = sstatus_write_mask h OR SSTATUS_UBE OR SSTATUS_UXL OR
     (if h_xlen h = 32 then SSTATUS32_SD else SSTATUS64_SD)"

definition mstatus_read :: "hart \<Rightarrow> reg_t" where
  "mstatus_read h = csrv h CSR_MSTATUS"

definition vsstatus_read :: "hart \<Rightarrow> reg_t" where
  "vsstatus_read h = csrv h CSR_VSSTATUS"

definition sstatus_proxy_read :: "hart \<Rightarrow> reg_t" where
  "sstatus_proxy_read h = mstatus_read h AND sstatus_read_mask h"

definition sstatus_readvirt :: "bool \<Rightarrow> hart \<Rightarrow> reg_t" where
  "sstatus_readvirt virt h = (if virt then vsstatus_read h else sstatus_proxy_read h)"

definition sstatus_read :: "hart \<Rightarrow> reg_t" where
  "sstatus_read h = sstatus_readvirt (h_v h) h"

definition field_exists :: "reg_t \<Rightarrow> hart \<Rightarrow> bool" where
  "field_exists which h \<longleftrightarrow> sstatus_write_mask h AND which \<noteq> 0"

definition sstatus_enabled :: "reg_t \<Rightarrow> hart \<Rightarrow> bool" where
  "sstatus_enabled which h \<longleftrightarrow>
     (sstatus_proxy_read h AND which \<noteq> 0 \<and> (\<not> h_v h \<or> vsstatus_read h AND which \<noteq> 0))
     \<or> \<not> field_exists which h"

definition compute_sstatus_write_mask :: "bool \<Rightarrow> hart \<Rightarrow> reg_t" where
  "compute_sstatus_write_mask hp h = (
     let has_fs = ((extension_enabled ISA_S h \<or> extension_enabled ISA_F h \<or> extension_enabled ISA_V h)
                   \<and> \<not> extension_enabled EXT_ZFINX h);
         has_vs = extension_enabled ISA_V h
     in (if extension_enabled ISA_S h then SSTATUS_SIE OR SSTATUS_SPIE OR SSTATUS_SPP else 0)
        OR (if hp then SSTATUS_SUM OR SSTATUS_MXR else 0)
        OR (if has_fs then SSTATUS_FS else 0)
        OR (if any_custom_extensions h then SSTATUS_XS else 0)
        OR (if has_vs then SSTATUS_VS else 0))"

definition adjust_sd :: "reg_t \<Rightarrow> hart \<Rightarrow> reg_t" where
  "adjust_sd val h = (
     let sd_bit = (if h_xlen h = 64 then SSTATUS64_SD else SSTATUS32_SD)
     in if val AND SSTATUS_FS = SSTATUS_FS \<or> val AND SSTATUS_VS = SSTATUS_VS \<or>
           val AND SSTATUS_XS = SSTATUS_XS
        then val OR sd_bit else val AND NOT sd_bit)"

definition maybe_flush_tlb :: "reg_t \<Rightarrow> reg_t \<Rightarrow> hart \<Rightarrow> hart" where
  "maybe_flush_tlb newval oldval h =
     (if (newval XOR oldval) AND (MSTATUS_MPP OR MSTATUS_MPRV OR
           (if has_page h then MSTATUS_MXR OR MSTATUS_SUM else 0)) \<noteq> 0
      then hart_flush_tlb h else h)"

definition xlen_to_uxl :: "nat \<Rightarrow> reg_t option" where
  "xlen_to_uxl xlen = (if xlen = 32 then Some 1 else if xlen = 64 then Some 2 else None)"

definition legalize_privilege :: "reg_t \<Rightarrow> hart \<Rightarrow> reg_t option" where
  "legalize_privilege prv h =
     (if prv > PRV_M then None
      else if \<not> extension_enabled ISA_U h then Some PRV_M
      else if prv = PRV_HS \<or> (prv = PRV_S \<and> \<not> extension_enabled ISA_S h) then Some PRV_U
      else Some prv)"

definition pmp_lift :: "pmp_state pmp_write \<Rightarrow> hart \<Rightarrow> (bool \<times> hart) option" where
  "pmp_lift r h = (case r of (success, flush, p) \<Rightarrow>
     let h = h\<lparr>pmp := p\<rparr> in Some (success, if flush then hart_flush_tlb h else h))"

subsection \<open>Writing the status registers\<close>

definition vsstatus_unlogged_write :: "reg_t \<Rightarrow> hart \<Rightarrow> bool \<times> hart" where
  "vsstatus_unlogged_write val h = (
     let newval = (vsstatus_read h AND NOT (sstatus_write_mask h)) OR (val AND sstatus_write_mask h);
         h = (if h_v h then maybe_flush_tlb newval (vsstatus_read h) h else h)
     in (True, write_csrv CSR_VSSTATUS (adjust_sd newval h) h))"

definition mstatus_mask :: "hart \<Rightarrow> reg_t" where
  "mstatus_mask h = sstatus_write_mask h
     OR MSTATUS_MIE OR MSTATUS_MPIE
     OR (if extension_enabled ISA_U h then MSTATUS_MPRV else 0)
     OR MSTATUS_MPP OR MSTATUS_TW
     OR (if extension_enabled ISA_S h then MSTATUS_TSR else 0)
     OR (if has_page h then MSTATUS_TVM else 0)
     OR (if extension_enabled ISA_H h then MSTATUS_GVA else 0)
     OR (if extension_enabled ISA_H h then MSTATUS_MPV else 0)"

definition mstatus_unlogged_write :: "reg_t \<Rightarrow> hart \<Rightarrow> (bool \<times> hart) option" where
  "mstatus_unlogged_write val h =
     (case legalize_privilege (get_field val MSTATUS_MPP) h of None \<Rightarrow> None
      | Some requested_mpp \<Rightarrow>
          let adjusted_val = set_field val MSTATUS_MPP requested_mpp;
              new_mstatus = (mstatus_read h AND NOT (mstatus_mask h)) OR (adjusted_val AND mstatus_mask h);
              h = maybe_flush_tlb new_mstatus (mstatus_read h) h
          in Some (True, write_csrv CSR_MSTATUS (adjust_sd new_mstatus h) h))"

definition sstatus_proxy_unlogged_write :: "reg_t \<Rightarrow> hart \<Rightarrow> (bool \<times> hart) option" where
  "sstatus_proxy_unlogged_write val h =
     (if sstatus_write_mask h AND 0xffffffff \<noteq> sstatus_write_mask h then None
      else
        let new_mstatus = (mstatus_read h AND NOT (sstatus_write_mask h)) OR (val AND sstatus_write_mask h)
        in map_option (\<lambda>(_, h). (False, h)) (mstatus_unlogged_write new_mstatus h))"

definition sstatus_unlogged_write :: "reg_t \<Rightarrow> hart \<Rightarrow> (bool \<times> hart) option" where
  "sstatus_unlogged_write val h =
     (if h_v h then Some (False, snd (vsstatus_unlogged_write val h))
      else map_option (\<lambda>(_, h). (False, h)) (sstatus_proxy_unlogged_write val h))"

definition sstatus_dirty :: "reg_t \<Rightarrow> hart \<Rightarrow> hart option" where
  "sstatus_dirty dirties h =
     (if sstatus_proxy_read h AND dirties = dirties \<and>
         (\<not> h_v h \<or> vsstatus_read h AND dirties = dirties) then Some h
      else if \<not> sstatus_enabled dirties h then None
      else case sstatus_proxy_unlogged_write (sstatus_proxy_read h OR dirties) h of None \<Rightarrow> None
        | Some (_, h) \<Rightarrow>
            Some (if h_v h then snd (vsstatus_unlogged_write (vsstatus_read h OR dirties) h) else h))"

definition mnstatus_unlogged_write :: "reg_t \<Rightarrow> hart \<Rightarrow> (bool \<times> hart) option" where
  "mnstatus_unlogged_write val h = (
     let old = csrv h CSR_MNSTATUS;
         msk = (NOT old AND MNSTATUS_NMIE) OR (if extension_enabled ISA_H h then MNSTATUS_MNPV else 0)
               OR MNSTATUS_MNPP
     in case legalize_privilege (get_field val MNSTATUS_MNPP) h of None \<Rightarrow> None
        | Some requested_mnpp \<Rightarrow>
            let adjusted_val = set_field val MNSTATUS_MNPP requested_mnpp
            in Some (True, write_csrv CSR_MNSTATUS ((old AND NOT msk) OR (adjusted_val AND msk)) h))"

subsection \<open>Interrupt pending and enable registers\<close>

definition mip_read :: "hart \<Rightarrow> reg_t" where "mip_read h = csrv h CSR_MIP"
definition mie_read :: "hart \<Rightarrow> reg_t" where "mie_read h = csrv h CSR_MIE"

definition write_with_mask :: "nat \<Rightarrow> reg_t \<Rightarrow> reg_t \<Rightarrow> hart \<Rightarrow> hart" where
  "write_with_mask a msk val h = write_csrv a ((csrv h a AND NOT msk) OR (val AND msk)) h"

definition backdoor_write_with_mask :: "reg_t \<Rightarrow> reg_t \<Rightarrow> hart \<Rightarrow> hart" where
  "backdoor_write_with_mask msk val h =
     write_csrv CSR_MIP ((csrv h CSR_MIP AND NOT msk) OR (val AND msk)) h"

definition mip_write_mask :: "hart \<Rightarrow> reg_t" where
  "mip_write_mask h = (
     let supervisor_ints = (if extension_enabled ISA_S h
           then MIP_SSIP OR (if csrv h CSR_MENVCFG AND MENVCFG_STCE \<noteq> 0 then 0 else MIP_STIP) OR MIP_SEIP
           else 0);
         lscof_int = (if extension_enabled EXT_SSCOFPMF h then MIP_LCOFIP else 0);
         vssip_int = (if extension_enabled ISA_H h then MIP_VSSIP else 0);
         hypervisor_ints = (if extension_enabled ISA_H h then MIP_HS_MASK else 0)
     in (supervisor_ints OR hypervisor_ints OR lscof_int) AND
        (MIP_SEIP OR MIP_SSIP OR MIP_STIP OR MIP_LCOFIP OR vssip_int))"

definition mie_write_mask :: "hart \<Rightarrow> reg_t" where
  "mie_write_mask h = (
     let supervisor_ints = (if extension_enabled ISA_S h then MIP_SSIP OR MIP_STIP OR MIP_SEIP else 0);
         lscof_int = (if extension_enabled EXT_SSCOFPMF h then MIP_LCOFIP else 0);
         hypervisor_ints = (if extension_enabled ISA_H h then MIP_HS_MASK else 0);
         coprocessor_ints = shl (of_bool (any_custom_extensions h)) IRQ_COP;
         delegable_ints = supervisor_ints OR coprocessor_ints OR lscof_int
     in delegable_ints OR hypervisor_ints OR MIP_MSIP OR MIP_MTIP OR MIP_MEIP)"

definition mideleg_read :: "hart \<Rightarrow> reg_t" where
  "mideleg_read h = (let val = csrv h CSR_MIDELEG in
     if extension_enabled ISA_H h then val OR MIDELEG_FORCED_MASK else val)"

definition hideleg_read :: "hart \<Rightarrow> reg_t" where
  "hideleg_read h = csrv h CSR_HIDELEG AND mideleg_read h"

definition deleg_mask :: "generic_int_accessor \<Rightarrow> hart \<Rightarrow> reg_t" where
  "deleg_mask a h = (
     let hideleg_mask = (if mask_mode a = HIDELEG then hideleg_read h else - 1);
         mideleg_mask = (if mask_mode a = MIDELEG then mideleg_read h else - 1)
     in hideleg_mask AND mideleg_mask)"

definition ip_read :: "generic_int_accessor \<Rightarrow> hart \<Rightarrow> reg_t" where
  "ip_read a h = shr (mip_read h AND deleg_mask a h AND read_mask a) (shiftamt a)"

definition ip_write :: "generic_int_accessor \<Rightarrow> reg_t \<Rightarrow> hart \<Rightarrow> hart" where
  "ip_write a val h = (
     let msk = deleg_mask a h AND ip_write_mask a
     in write_with_mask CSR_MIP msk (shl val (shiftamt a)) h)"

definition ie_read :: "generic_int_accessor \<Rightarrow> hart \<Rightarrow> reg_t" where
  "ie_read a h = shr (mie_read h AND deleg_mask a h AND read_mask a) (shiftamt a)"

definition ie_write :: "generic_int_accessor \<Rightarrow> reg_t \<Rightarrow> hart \<Rightarrow> hart" where
  "ie_write a val h = (
     let msk = deleg_mask a h AND ie_write_mask a
     in write_with_mask CSR_MIE msk (shl val (shiftamt a)) h)"

definition mideleg_unlogged_write :: "reg_t \<Rightarrow> hart \<Rightarrow> bool \<times> hart" where
  "mideleg_unlogged_write val h = (
     let supervisor_ints = (if extension_enabled ISA_S h then MIP_SSIP OR MIP_STIP OR MIP_SEIP else 0);
         lscof_int = (if extension_enabled EXT_SSCOFPMF h then MIP_LCOFIP else 0);
         coprocessor_ints = shl (of_bool (any_custom_extensions h)) IRQ_COP;
         delegable_ints = supervisor_ints OR coprocessor_ints OR lscof_int
     in (True, write_csrv CSR_MIDELEG (val AND delegable_ints) h))"

abbreviation (input) exception_bit :: "reg_t \<Rightarrow> reg_t" where
  "exception_bit c \<equiv> shl 1 (unat c)"

definition hypervisor_exceptions :: reg_t where
  "hypervisor_exceptions = exception_bit CAUSE_VIRTUAL_SUPERVISOR_ECALL
     OR exception_bit CAUSE_FETCH_GUEST_PAGE_FAULT OR exception_bit CAUSE_LOAD_GUEST_PAGE_FAULT
     OR exception_bit CAUSE_VIRTUAL_INSTRUCTION OR exception_bit CAUSE_STORE_GUEST_PAGE_FAULT"

definition medeleg_unlogged_write :: "reg_t \<Rightarrow> hart \<Rightarrow> bool \<times> hart" where
  "medeleg_unlogged_write val h = (
     let msk = exception_bit CAUSE_MISALIGNED_FETCH OR exception_bit CAUSE_FETCH_ACCESS
           OR exception_bit CAUSE_ILLEGAL_INSTRUCTION OR exception_bit CAUSE_BREAKPOINT
           OR exception_bit CAUSE_MISALIGNED_LOAD OR exception_bit CAUSE_LOAD_ACCESS
           OR exception_bit CAUSE_MISALIGNED_STORE OR exception_bit CAUSE_STORE_ACCESS
           OR exception_bit CAUSE_USER_ECALL OR exception_bit CAUSE_SUPERVISOR_ECALL
           OR exception_bit CAUSE_FETCH_PAGE_FAULT OR exception_bit CAUSE_LOAD_PAGE_FAULT
           OR exception_bit CAUSE_STORE_PAGE_FAULT
           OR (if extension_enabled ISA_H h then hypervisor_exceptions else 0);
         old = csrv h CSR_MEDELEG
     in (True, write_csrv CSR_MEDELEG ((old AND NOT msk) OR (val AND msk)) h))"

text \<open>\<open>masked_csr_t::unlogged_write\<close> starts from the virtual \<open>read()\<close>, which some subclasses
  override: \<open>old\<close> is what that call returns.\<close>

definition masked_write :: "nat \<Rightarrow> reg_t \<Rightarrow> reg_t \<Rightarrow> reg_t \<Rightarrow> hart \<Rightarrow> bool \<times> hart" where
  "masked_write a old msk val h = (True, write_csrv a ((old AND NOT msk) OR (val AND msk)) h)"

definition masked_unlogged_write :: "nat \<Rightarrow> reg_t \<Rightarrow> reg_t \<Rightarrow> hart \<Rightarrow> bool \<times> hart" where
  "masked_unlogged_write a msk val h = masked_write a (csrv h a) msk val h"

definition hideleg_unlogged_write :: "reg_t \<Rightarrow> hart \<Rightarrow> bool \<times> hart" where
  "hideleg_unlogged_write val h = masked_write CSR_HIDELEG (hideleg_read h) MIP_VS_MASK val h"

definition henvcfg_read :: "hart \<Rightarrow> reg_t" where
  "henvcfg_read h =
     (csrv h CSR_MENVCFG OR NOT (MENVCFG_PBMTE OR MENVCFG_STCE OR MENVCFG_HADE)) AND csrv h CSR_HENVCFG"

definition henvcfg_unlogged_write :: "reg_t \<Rightarrow> reg_t \<Rightarrow> hart \<Rightarrow> bool \<times> hart" where
  "henvcfg_unlogged_write msk val h = masked_write CSR_HENVCFG (henvcfg_read h) msk val h"

definition N_HPMCOUNTERS :: nat where "N_HPMCOUNTERS = 29"

definition mevent_unlogged_write :: "nat \<Rightarrow> reg_t \<Rightarrow> hart \<Rightarrow> bool \<times> hart" where
  "mevent_unlogged_write a val h = (
     let msk = (if extension_enabled EXT_SSCOFPMF h
           then MHPMEVENT_OF OR MHPMEVENT_MINH
                OR (if extension_enabled ISA_U h then MHPMEVENT_UINH else 0)
                OR (if extension_enabled ISA_S h then MHPMEVENT_SINH else 0)
                OR (if extension_enabled ISA_H h then MHPMEVENT_VUINH OR MHPMEVENT_VSINH else 0)
           else 0)
     in masked_unlogged_write a msk val h)"

definition hstatus_mask :: "hart \<Rightarrow> reg_t" where
  "hstatus_mask h = HSTATUS_VTSR OR HSTATUS_VTW
     OR (if supports_impl IMPL_MMU h then HSTATUS_VTVM else 0)
     OR HSTATUS_HU OR HSTATUS_SPVP OR HSTATUS_SPV OR HSTATUS_GVA"

subsection \<open>The extension register\<close>

abbreviation (input) misa_bit :: "nat \<Rightarrow> reg_t" where "misa_bit c \<equiv> shl 1 (c - ISA_A)"

definition misa_write_mask :: "hart \<Rightarrow> reg_t" where
  "misa_write_mask h = max_isa (cfg h) AND
     (misa_bit ISA_M OR misa_bit ISA_A OR misa_bit ISA_F OR misa_bit ISA_D OR misa_bit ISA_Q
      OR misa_bit ISA_C OR misa_bit ISA_H OR misa_bit ISA_V)"

definition dependency :: "reg_t \<Rightarrow> nat \<Rightarrow> nat \<Rightarrow> reg_t" where
  "dependency val feature depends_on =
     (if val AND misa_bit depends_on \<noteq> 0 then val else val AND NOT (misa_bit feature))"

definition misa_adjust :: "reg_t \<Rightarrow> reg_t" where
  "misa_adjust val = dependency (dependency (dependency val ISA_D ISA_F) ISA_Q ISA_D) ISA_V ISA_D"

text \<open>The dependent extensions, in the order the code sets them.\<close>

definition misa_set_extensions :: "reg_t \<Rightarrow> hart \<Rightarrow> hart" where
  "misa_set_extensions new_misa h = (
     let has = (\<lambda>c. new_misa AND misa_bit c \<noteq> 0);
         h = set_extension_enable EXT_ZCA (has ISA_C \<or> \<not> isa_extension_enabled (cfg h) ISA_C) h;
         h = set_extension_enable EXT_ZCF (has ISA_F \<and> extension_enabled EXT_ZCA h) h;
         h = set_extension_enable EXT_ZCD (has ISA_D \<and> extension_enabled EXT_ZCA h) h;
         h = set_extension_enable EXT_ZCB (extension_enabled EXT_ZCA h) h;
         h = set_extension_enable EXT_ZCMP (extension_enabled EXT_ZCA h) h;
         h = set_extension_enable EXT_ZCMT (extension_enabled EXT_ZCA h) h;
         h = set_extension_enable EXT_ZFH (has ISA_F) h;
         h = set_extension_enable EXT_ZFHMIN (has ISA_F) h;
         h = set_extension_enable EXT_ZVFH (has ISA_V \<and> extension_enabled EXT_ZFHMIN h) h
     in set_extension_enable EXT_ZVFHMIN (has ISA_V) h)"

fun mevent_clear_loop :: "nat list \<Rightarrow> hart \<Rightarrow> hart" where
  "mevent_clear_loop [] h = h"
| "mevent_clear_loop (i # is) h = (
     let a = CSR_MHPMEVENT3 + i - 3;
         new_mevent = csrv h a AND NOT (MHPMEVENT_VUINH OR MHPMEVENT_VSINH)
     in mevent_clear_loop is (snd (mevent_unlogged_write a new_mevent h)))"

text \<open>What a write that drops the hypervisor extension does to the other registers, one step per
  register the code clears.\<close>

definition drop_h_mnstatus :: "hart \<Rightarrow> hart option" where
  "drop_h_mnstatus h = (if csrmap h CSR_MNSTATUS = None then Some h
     else map_option snd (mnstatus_unlogged_write (csrv h CSR_MNSTATUS AND NOT MNSTATUS_MNPV) h))"

definition drop_h_mstatush :: "reg_t \<Rightarrow> hart \<Rightarrow> hart option" where
  "drop_h_mstatush new_mstatus h = (if csrmap h CSR_MSTATUSH = None then Some h
     else map_option snd (mstatus_unlogged_write
       (shr (shl (mstatus_read h) 32) 32 OR shl (shr new_mstatus 32 AND 0xffffffff) 32) h))"

definition drop_h_interrupts :: "hart \<Rightarrow> hart" where
  "drop_h_interrupts h = (
     let h = write_with_mask CSR_MIE MIP_HS_MASK 0 h;
         h = write_with_mask CSR_MIP MIP_HS_MASK 0 h
     in snd (masked_unlogged_write CSR_HSTATUS (hstatus_mask h) 0 h))"

definition misa_drop_h :: "hart \<Rightarrow> hart option" where
  "misa_drop_h h = (
     let h = snd (medeleg_unlogged_write (csrv h CSR_MEDELEG AND NOT hypervisor_exceptions) h)
     in Option.bind (drop_h_mnstatus h) (\<lambda>h.
        let new_mstatus = mstatus_read h AND NOT (MSTATUS_GVA OR MSTATUS_MPV)
        in Option.bind (mstatus_unlogged_write new_mstatus h) (\<lambda>(_, h).
           Option.bind (drop_h_mstatush new_mstatus h) (\<lambda>h.
             Some (mevent_clear_loop [3..<N_HPMCOUNTERS + 3] (drop_h_interrupts h))))))"

definition misa_unlogged_write :: "reg_t \<Rightarrow> hart \<Rightarrow> (bool \<times> hart) option" where
  "misa_unlogged_write val h = (
     let old_misa = csrv h CSR_MISA in
     if val AND misa_bit ISA_C = 0 \<and> old_misa AND misa_bit ISA_C \<noteq> 0 \<and> h_pc h AND 2 \<noteq> 0
     then Some (False, h)
     else
       let adjusted_val = misa_adjust val;
           prev_h = (old_misa AND misa_bit ISA_H \<noteq> 0);
           new_misa = (adjusted_val AND misa_write_mask h) OR (old_misa AND NOT (misa_write_mask h));
           new_h = (new_misa AND misa_bit ISA_H \<noteq> 0);
           h = misa_set_extensions new_misa h
       in case (if \<not> new_h \<and> prev_h then misa_drop_h h else Some h) of None \<Rightarrow> None
          | Some h \<Rightarrow> Some (True, write_csrv CSR_MISA new_misa h))"

subsection \<open>Address translation registers\<close>

definition satp_valid :: "reg_t \<Rightarrow> hart \<Rightarrow> bool" where
  "satp_valid val h =
     (if h_xlen h = 32 then
        (let m = get_field val SATP32_MODE in
         if m = SATP_MODE_SV32 then supports_impl IMPL_MMU_SV32 h
         else m = SATP_MODE_OFF)
      else
        (let m = get_field val SATP64_MODE in
         if m = SATP_MODE_SV39 then supports_impl IMPL_MMU_SV39 h
         else if m = SATP_MODE_SV48 then supports_impl IMPL_MMU_SV48 h
         else if m = SATP_MODE_SV57 then supports_impl IMPL_MMU_SV57 h
         else m = SATP_MODE_OFF))"

definition compute_new_satp :: "nat \<Rightarrow> reg_t \<Rightarrow> hart \<Rightarrow> reg_t" where
  "compute_new_satp a val h = (
     let rv64_ppn_mask = shl 1 (MAX_PADDR_BITS - PGSHIFT) - 1;
         mode_mask = (if h_xlen h = 32 then SATP32_MODE else SATP64_MODE);
         asid_mask_if_enabled = (if h_xlen h = 32 then SATP32_ASID else SATP64_ASID);
         asid_mask = (if supports_impl IMPL_MMU_ASID h then asid_mask_if_enabled else 0);
         ppn_mask = (if h_xlen h = 32 then SATP32_PPN else SATP64_PPN AND rv64_ppn_mask);
         new_mask = (if satp_valid val h then mode_mask else 0) OR asid_mask OR ppn_mask;
         old_mask = (if satp_valid val h then 0 else mode_mask)
     in (new_mask AND val) OR (old_mask AND csrv h a))"

definition base_atp_unlogged_write :: "nat \<Rightarrow> reg_t \<Rightarrow> hart \<Rightarrow> bool \<times> hart" where
  "base_atp_unlogged_write a val h = (
     let newval = (if supports_impl IMPL_MMU h then compute_new_satp a val h else 0);
         h = (if newval \<noteq> csrv h a then hart_flush_tlb h else h)
     in (True, write_csrv a newval h))"

definition satp_read :: "hart \<Rightarrow> reg_t" where
  "satp_read h = (if h_v h then csrv h CSR_VSATP else csrv h CSR_SATP)"

definition virtualized_satp_unlogged_write :: "reg_t \<Rightarrow> hart \<Rightarrow> bool \<times> hart" where
  "virtualized_satp_unlogged_write val h = (
     let newval = (if satp_valid val h then val else satp_read h)
     in (False, snd (base_atp_unlogged_write (if h_v h then CSR_VSATP else CSR_SATP) newval h)))"

definition hgatp_unlogged_write :: "reg_t \<Rightarrow> hart \<Rightarrow> bool \<times> hart" where
  "hgatp_unlogged_write val h = (
     let h = hart_flush_tlb h;
         msk = (if h_xlen h = 32 then
                  HGATP32_PPN OR HGATP32_MODE OR (if supports_impl IMPL_MMU_VMID h then HGATP32_VMID else 0)
                else
                  (HGATP64_PPN AND (shl 1 (MAX_PADDR_BITS - PGSHIFT) - 1))
                  OR (if supports_impl IMPL_MMU_VMID h then HGATP64_VMID else 0)
                  OR (let m = get_field val HGATP64_MODE in
                      if m = HGATP_MODE_OFF
                         \<or> (supports_impl IMPL_MMU_SV39 h \<and> m = HGATP_MODE_SV39X4)
                         \<or> (supports_impl IMPL_MMU_SV48 h \<and> m = HGATP_MODE_SV48X4)
                         \<or> (supports_impl IMPL_MMU_SV57 h \<and> m = HGATP_MODE_SV57X4)
                      then HGATP64_MODE else 0));
         msk = msk AND NOT 3
     in masked_unlogged_write CSR_HGATP msk val h)"

subsection \<open>Counters and timers\<close>

definition time_read :: "hart \<Rightarrow> reg_t" where
  "time_read h = (if h_v h then csrv h CSR_TIME + csrv h CSR_HTIMEDELTA else csrv h CSR_TIME)"

definition time_sync :: "reg_t \<Rightarrow> hart \<Rightarrow> hart" where
  "time_sync val h = (
     let h = write_csrv CSR_TIME val h
     in if extension_enabled EXT_SSTC h then
          (let mip_val = (if val \<ge> csrv h CSR_STIMECMP then MIP_STIP else 0) OR
                 (if val + csrv h CSR_HTIMEDELTA \<ge> csrv h CSR_VSTIMECMP then MIP_VSTIP else 0)
           in backdoor_write_with_mask (MIP_STIP OR MIP_VSTIP) mip_val h)
        else h)"

definition wide_counter_bump :: "nat \<Rightarrow> reg_t \<Rightarrow> hart \<Rightarrow> hart" where
  "wide_counter_bump a howmuch h = write_csrv a (csrv h a + howmuch) h"

definition wide_counter_unlogged_write :: "nat \<Rightarrow> reg_t \<Rightarrow> hart \<Rightarrow> bool \<times> hart" where
  "wide_counter_unlogged_write a val h = (True, write_csrv a (val - 1) h)"

definition stimecmp_unlogged_write :: "nat \<Rightarrow> reg_t \<Rightarrow> reg_t \<Rightarrow> hart \<Rightarrow> bool \<times> hart" where
  "stimecmp_unlogged_write a intr_mask val h = (
     let h = backdoor_write_with_mask intr_mask (if time_read h \<ge> val then intr_mask else 0) h
     in (True, write_csrv a val h))"

fun scountovf_loop :: "nat list \<Rightarrow> hart \<Rightarrow> reg_t \<Rightarrow> reg_t" where
  "scountovf_loop [] h val = val"
| "scountovf_loop (i # is) h val = (
     let ovf = (csrv h (CSR_MHPMEVENT3 + i - 3) AND MHPMEVENT_OF \<noteq> 0)
     in scountovf_loop is h (val OR shl (of_bool ovf) i))"

definition scountovf_read :: "hart \<Rightarrow> reg_t" where
  "scountovf_read h = (
     let val = scountovf_loop [3..<N_HPMCOUNTERS + 3] h 0;
         val = val AND csrv h CSR_MCOUNTEREN
     in if h_v h then val AND csrv h CSR_HCOUNTEREN else val)"

definition get_seed :: "hart \<Rightarrow> reg_t" where
  "get_seed h = (let result = (ucast (es_random h) :: u32); return_status = shl 2 30
     in ucast (result OR return_status))"

subsection \<open>Debug registers\<close>

definition dcsr_read :: "hart \<Rightarrow> reg_t" where
  "dcsr_read h = (
     let d = dcsr h;
         v = set_field 0 DCSR_XDEBUGVER 1;
         v = set_field v DCSR_EBREAKM (of_bool (ebreakm d));
         v = set_field v DCSR_EBREAKH (of_bool (ebreakh d));
         v = set_field v DCSR_EBREAKS (of_bool (ebreaks d));
         v = set_field v DCSR_EBREAKU (of_bool (ebreaku d));
         v = set_field v DCSR_STOPCYCLE 0;
         v = set_field v DCSR_STOPTIME 0;
         v = set_field v DCSR_CAUSE (ucast (dcsr_cause d));
         v = set_field v DCSR_STEP (of_bool (dcsr_step d));
         v = set_field v DCSR_PRV (ucast (dcsr_prv d))
     in ucast v)"

definition dcsr_unlogged_write :: "reg_t \<Rightarrow> hart \<Rightarrow> bool \<times> hart" where
  "dcsr_unlogged_write val h = (True, h\<lparr>dcsr := (dcsr h)\<lparr>
     dcsr_prv := ucast (get_field val (ucast DCSR_PRV)),
     dcsr_step := get_field val (ucast DCSR_STEP) \<noteq> 0,
     ebreakm := get_field val (ucast DCSR_EBREAKM) \<noteq> 0,
     ebreakh := get_field val (ucast DCSR_EBREAKH) \<noteq> 0,
     ebreaks := get_field val (ucast DCSR_EBREAKS) \<noteq> 0,
     ebreaku := get_field val (ucast DCSR_EBREAKU) \<noteq> 0,
     dcsr_halt := get_field val (ucast DCSR_HALT) \<noteq> 0\<rparr>\<rparr>)"

definition dcsr_write_cause_and_prv :: "u8 \<Rightarrow> reg_t \<Rightarrow> hart \<Rightarrow> hart" where
  "dcsr_write_cause_and_prv c prv h =
     h\<lparr>dcsr := (dcsr h)\<lparr>dcsr_cause := c, dcsr_prv := ucast prv\<rparr>\<rparr>"

definition epc_read :: "nat \<Rightarrow> hart \<Rightarrow> reg_t" where
  "epc_read a h = csrv h a AND pc_alignment_mask h"

definition cause_read :: "nat \<Rightarrow> hart \<Rightarrow> reg_t" where
  "cause_read a h = (let val = csrv h a in
     if max_xlen (cfg h) > h_xlen h
     then val OR shl (shr val (max_xlen (cfg h) - 1)) (h_xlen h - 1) else val)"

subsection \<open>Triggers\<close>

definition mcontext_read :: "hart \<Rightarrow> reg_t" where "mcontext_read h = csrv h CSR_HCONTEXT"

definition trig_env_of :: "hart \<Rightarrow> trig_env" where
  "trig_env_of h = \<lparr>te_xlen = h_xlen h, te_const_xlen = h_xlen h,
     te_S = extension_enabled ISA_S h, te_U = extension_enabled ISA_U h,
     te_H = extension_enabled ISA_H h, te_debug_mode = debug_mode h, te_prv = h_prv h,
     te_v = h_v h, te_scontext = csrv h CSR_SCONTEXT, te_satp = satp_read h,
     te_mcontext = mcontext_read h, te_hgatp = csrv h CSR_HGATP\<rparr>"

definition tm_lift :: "(bool \<times> trigger_module) option \<Rightarrow> hart \<Rightarrow> (bool \<times> hart) option" where
  "tm_lift r h = (case r of None \<Rightarrow> None
     | Some (ok, ts) \<Rightarrow> Some (ok, if ok then trigger_updated ts (h\<lparr>tm := ts\<rparr>) else h))"

definition tselect_unlogged_write :: "reg_t \<Rightarrow> hart \<Rightarrow> bool \<times> hart" where
  "tselect_unlogged_write val h =
     (True, write_csrv CSR_TSELECT (if unat val < length (tm h) then val else csrv h CSR_TSELECT) h)"

subsection \<open>Reading any register\<close>

text \<open>
  \<open>the_tdata\<close>: \<open>tselect\<close> only ever holds the index of a trigger, so the reads of the selected
  trigger do not fail (lemma \<open>tdata_reads_defined\<close>).
\<close>

definition the_tdata :: "reg_t option \<Rightarrow> reg_t" where
  "the_tdata r = (case r of None \<Rightarrow> 0 | Some v \<Rightarrow> v)"

definition selected :: "hart \<Rightarrow> nat" where
  "selected h = unat (csrv h CSR_TSELECT)"

definition tm_tdata1_read :: "hart \<Rightarrow> reg_t option" where
  "tm_tdata1_read h = module_tdata1_read (trig_env_of h) (selected h) (tm h)"

definition tm_tdata2_read :: "hart \<Rightarrow> reg_t option" where
  "tm_tdata2_read h = (if selected h < length (tm h) then Some (tdata2_read (tm h ! selected h)) else None)"

definition tm_tdata3_read :: "hart \<Rightarrow> reg_t option" where
  "tm_tdata3_read h = (if selected h < length (tm h) then tdata3_read (trig_env_of h) (tm h ! selected h) else None)"

definition hstateen_read :: "nat \<Rightarrow> hart \<Rightarrow> reg_t" where
  "hstateen_read i h = csrv h (CSR_HSTATEEN0 + i) AND csrv h (CSR_MSTATEEN0 + i)"

definition sstateen_read :: "nat \<Rightarrow> hart \<Rightarrow> reg_t" where
  "sstateen_read i h = (
     let val = csrv h (CSR_SSTATEEN0 + i) AND csrv h (CSR_MSTATEEN0 + i)
     in if h_v h then val AND hstateen_read i h else val)"

primrec csr_read :: "csr \<Rightarrow> hart \<Rightarrow> reg_t" where
  "csr_read (Basic_csr a) h = csrv h a"
| "csr_read (Pmpaddr_csr i) h = pmpaddr_read i (pmp h)"
| "csr_read (Pmpcfg_csr a) h = pmpcfg_read a (h_xlen h) (pmp h)"
| "csr_read Mseccfg_csr h = mseccfg_val (pmp h)"
| "csr_read (Virtualized_csr orig virt) h = (if h_v h then csr_read virt h else csr_read orig h)"
| "csr_read (Epc_csr a) h = epc_read a h"
| "csr_read (Tvec_csr a) h = csrv h a"
| "csr_read (Cause_csr a) h = cause_read a h"
| "csr_read Vsstatus_csr h = vsstatus_read h"
| "csr_read Mstatus_csr h = mstatus_read h"
| "csr_read Sstatus_proxy_csr h = sstatus_proxy_read h"
| "csr_read Sstatus_csr h = sstatus_read h"
| "csr_read Mnstatus_csr h = csrv h CSR_MNSTATUS"
| "csr_read (Rv32_low_csr a orig) h = csr_read orig h AND 0xffffffff"
| "csr_read (Rv32_high_csr a orig) h = shr (csr_read orig h) 32 AND 0xffffffff"
| "csr_read Misa_csr h = csrv h CSR_MISA"
| "csr_read Mip_csr h = mip_read h"
| "csr_read Mie_csr h = mie_read h"
| "csr_read (Mip_proxy_csr a accr) h = ip_read accr h"
| "csr_read (Mie_proxy_csr a accr) h = ie_read accr h"
| "csr_read Mideleg_csr h = mideleg_read h"
| "csr_read Medeleg_csr h = csrv h CSR_MEDELEG"
| "csr_read (Masked_csr a msk) h = csrv h a"
| "csr_read (Henvcfg_csr msk) h = henvcfg_read h"
| "csr_read (Base_atp_csr a) h = csrv h a"
| "csr_read Satp_csr h = csrv h CSR_SATP"
| "csr_read Virtualized_satp_csr h = satp_read h"
| "csr_read (Wide_counter_csr a) h = csrv h a"
| "csr_read Time_counter_csr h = time_read h"
| "csr_read (Proxy_csr a delegate) h = csr_read delegate h"
| "csr_read (Const_csr a val) h = val"
| "csr_read (Counter_proxy_csr a delegate) h = csr_read delegate h"
| "csr_read (Mevent_csr a) h = csrv h a"
| "csr_read (Hypervisor_csr a) h = csrv h a"
| "csr_read Hideleg_csr h = hideleg_read h"
| "csr_read Hgatp_csr h = csrv h CSR_HGATP"
| "csr_read Tselect_csr h = csrv h CSR_TSELECT"
| "csr_read Tdata1_csr h = the_tdata (tm_tdata1_read h)"
| "csr_read Tdata2_csr h = the_tdata (tm_tdata2_read h)"
| "csr_read Tdata3_csr h = the_tdata (tm_tdata3_read h)"
| "csr_read Tinfo_csr h = tinfo_read"
| "csr_read (Debug_mode_csr a) h = csrv h a"
| "csr_read Dpc_csr h = epc_read CSR_DPC h"
| "csr_read Dcsr_csr h = dcsr_read h"
| "csr_read (Float_csr a msk) h = csrv h a"
| "csr_read (Composite_csr a upper lower lsb) h = shl (csr_read upper h) lsb OR csr_read lower h"
| "csr_read Seed_csr h = get_seed h"
| "csr_read (Vector_csr a msk) h = csrv h a"
| "csr_read Vxsat_csr h = csrv h CSR_VXSAT"
| "csr_read (Hstateen_csr msk i) h = hstateen_read i h"
| "csr_read (Sstateen_csr msk i) h = sstateen_read i h"
| "csr_read (Senvcfg_csr msk) h = csrv h CSR_SENVCFG"
| "csr_read (Stimecmp_csr a msk) h = csrv h a"
| "csr_read Virtualized_stimecmp_csr h = (if h_v h then csrv h CSR_VSTIMECMP else csrv h CSR_STIMECMP)"
| "csr_read Scountovf_csr h = scountovf_read h"
| "csr_read Jvt_csr h = csrv h CSR_JVT"

text \<open>The value a write is about to leave: only the counters and the views that forward to them
  differ from \<open>read\<close>.\<close>

fun written_value :: "csr \<Rightarrow> hart \<Rightarrow> reg_t" where
  "written_value (Rv32_low_csr a orig) h = written_value orig h AND 0xffffffff"
| "written_value (Rv32_high_csr a orig) h = shr (written_value orig h) 32 AND 0xffffffff"
| "written_value (Wide_counter_csr a) h = csrv h a + 1"
| "written_value c h = csr_read c h"

subsection \<open>Writing any register\<close>

definition hstateen_unlogged_write :: "reg_t \<Rightarrow> nat \<Rightarrow> reg_t \<Rightarrow> hart \<Rightarrow> bool \<times> hart" where
  "hstateen_unlogged_write msk i val h =
     masked_write (CSR_HSTATEEN0 + i) (hstateen_read i h) msk (val AND csrv h (CSR_MSTATEEN0 + i)) h"

definition sstateen_unlogged_write :: "reg_t \<Rightarrow> nat \<Rightarrow> reg_t \<Rightarrow> hart \<Rightarrow> bool \<times> hart" where
  "sstateen_unlogged_write msk i val h = (
     let val = (if h_v h then val AND hstateen_read i h else val)
     in masked_write (CSR_SSTATEEN0 + i) (sstateen_read i h) msk (val AND csrv h (CSR_MSTATEEN0 + i)) h)"

definition float_unlogged_write :: "nat \<Rightarrow> reg_t \<Rightarrow> reg_t \<Rightarrow> hart \<Rightarrow> (bool \<times> hart) option" where
  "float_unlogged_write a msk val h =
     map_option (masked_unlogged_write a msk val) (sstatus_dirty SSTATUS_FS h)"

definition vector_unlogged_write :: "nat \<Rightarrow> reg_t \<Rightarrow> reg_t \<Rightarrow> hart \<Rightarrow> (bool \<times> hart) option" where
  "vector_unlogged_write a msk val h =
     (if msk = 0 then Some (False, h)
      else map_option (\<lambda>h. (True, write_csrv a (val AND msk) h)) (sstatus_dirty SSTATUS_VS h))"

definition silent :: "(bool \<times> hart) option \<Rightarrow> (bool \<times> hart) option" where
  "silent r = map_option (\<lambda>(_, h). (False, h)) r"

primrec csr_unlogged_write :: "csr \<Rightarrow> reg_t \<Rightarrow> hart \<Rightarrow> (bool \<times> hart) option" where
  "csr_unlogged_write (Basic_csr a) val h = Some (True, write_csrv a val h)"
| "csr_unlogged_write (Pmpaddr_csr i) val h = pmp_lift (pmpaddr_unlogged_write i val (pmp h)) h"
| "csr_unlogged_write (Pmpcfg_csr a) val h = pmp_lift (pmpcfg_unlogged_write a (h_xlen h) val (pmp h)) h"
| "csr_unlogged_write Mseccfg_csr val h = pmp_lift (mseccfg_unlogged_write val (pmp h)) h"
| "csr_unlogged_write (Virtualized_csr orig virt) val h =
     silent (if h_v h then csr_unlogged_write virt val h else csr_unlogged_write orig val h)"
| "csr_unlogged_write (Epc_csr a) val h = Some (True, write_csrv a (val AND NOT 1) h)"
| "csr_unlogged_write (Tvec_csr a) val h = Some (True, write_csrv a (val AND NOT 2) h)"
| "csr_unlogged_write (Cause_csr a) val h = Some (True, write_csrv a val h)"
| "csr_unlogged_write Vsstatus_csr val h = Some (vsstatus_unlogged_write val h)"
| "csr_unlogged_write Mstatus_csr val h = mstatus_unlogged_write val h"
| "csr_unlogged_write Sstatus_proxy_csr val h = sstatus_proxy_unlogged_write val h"
| "csr_unlogged_write Sstatus_csr val h = sstatus_unlogged_write val h"
| "csr_unlogged_write Mnstatus_csr val h = mnstatus_unlogged_write val h"
| "csr_unlogged_write (Rv32_low_csr a orig) val h =
     csr_unlogged_write orig (shl (shr (written_value orig h) 32) 32 OR (val AND 0xffffffff)) h"
| "csr_unlogged_write (Rv32_high_csr a orig) val h =
     csr_unlogged_write orig (shr (shl (written_value orig h) 32) 32 OR shl (val AND 0xffffffff) 32) h"
| "csr_unlogged_write Misa_csr val h = misa_unlogged_write val h"
| "csr_unlogged_write Mip_csr val h = Some (False, write_with_mask CSR_MIP (mip_write_mask h) val h)"
| "csr_unlogged_write Mie_csr val h = Some (False, write_with_mask CSR_MIE (mie_write_mask h) val h)"
| "csr_unlogged_write (Mip_proxy_csr a accr) val h = Some (False, ip_write accr val h)"
| "csr_unlogged_write (Mie_proxy_csr a accr) val h = Some (False, ie_write accr val h)"
| "csr_unlogged_write Mideleg_csr val h = Some (mideleg_unlogged_write val h)"
| "csr_unlogged_write Medeleg_csr val h = Some (medeleg_unlogged_write val h)"
| "csr_unlogged_write (Masked_csr a msk) val h = Some (masked_unlogged_write a msk val h)"
| "csr_unlogged_write (Henvcfg_csr msk) val h = Some (henvcfg_unlogged_write msk val h)"
| "csr_unlogged_write (Base_atp_csr a) val h = Some (base_atp_unlogged_write a val h)"
| "csr_unlogged_write Satp_csr val h = Some (base_atp_unlogged_write CSR_SATP val h)"
| "csr_unlogged_write Virtualized_satp_csr val h = Some (virtualized_satp_unlogged_write val h)"
| "csr_unlogged_write (Wide_counter_csr a) val h = Some (wide_counter_unlogged_write a val h)"
| "csr_unlogged_write Time_counter_csr val h = Some (False, h)"
| "csr_unlogged_write (Proxy_csr a delegate) val h = silent (csr_unlogged_write delegate val h)"
| "csr_unlogged_write (Const_csr a v) val h = Some (False, h)"
| "csr_unlogged_write (Counter_proxy_csr a delegate) val h = silent (csr_unlogged_write delegate val h)"
| "csr_unlogged_write (Mevent_csr a) val h = Some (mevent_unlogged_write a val h)"
| "csr_unlogged_write (Hypervisor_csr a) val h = Some (True, write_csrv a val h)"
| "csr_unlogged_write Hideleg_csr val h = Some (hideleg_unlogged_write val h)"
| "csr_unlogged_write Hgatp_csr val h = Some (hgatp_unlogged_write val h)"
| "csr_unlogged_write Tselect_csr val h = Some (tselect_unlogged_write val h)"
| "csr_unlogged_write Tdata1_csr val h =
     tm_lift (module_tdata1_write (trig_env_of h) (selected h) val (tm h)) h"
| "csr_unlogged_write Tdata2_csr val h =
     tm_lift (module_tdata2_write (trig_env_of h) (selected h) val (tm h)) h"
| "csr_unlogged_write Tdata3_csr val h =
     tm_lift (module_tdata3_write (trig_env_of h) (selected h) val (tm h)) h"
| "csr_unlogged_write Tinfo_csr val h = Some (False, h)"
| "csr_unlogged_write (Debug_mode_csr a) val h = Some (True, write_csrv a val h)"
| "csr_unlogged_write Dpc_csr val h = Some (True, write_csrv CSR_DPC (val AND NOT 1) h)"
| "csr_unlogged_write Dcsr_csr val h = Some (dcsr_unlogged_write val h)"
| "csr_unlogged_write (Float_csr a msk) val h = float_unlogged_write a msk val h"
| "csr_unlogged_write (Composite_csr a upper lower lsb) val h =
     (case csr_unlogged_write upper (shr val lsb) h of None \<Rightarrow> None
      | Some (_, h) \<Rightarrow> silent (csr_unlogged_write lower val h))"
| "csr_unlogged_write Seed_csr val h = Some (True, h)"
| "csr_unlogged_write (Vector_csr a msk) val h = vector_unlogged_write a msk val h"
| "csr_unlogged_write Vxsat_csr val h =
     map_option (masked_unlogged_write CSR_VXSAT 1 val) (sstatus_dirty SSTATUS_VS h)"
| "csr_unlogged_write (Hstateen_csr msk i) val h = Some (hstateen_unlogged_write msk i val h)"
| "csr_unlogged_write (Sstateen_csr msk i) val h = Some (sstateen_unlogged_write msk i val h)"
| "csr_unlogged_write (Senvcfg_csr msk) val h = Some (masked_unlogged_write CSR_SENVCFG msk val h)"
| "csr_unlogged_write (Stimecmp_csr a msk) val h = Some (stimecmp_unlogged_write a msk val h)"
| "csr_unlogged_write Virtualized_stimecmp_csr val h =
     Some (False, snd (if h_v h then stimecmp_unlogged_write CSR_VSTIMECMP MIP_VSTIP val h
                       else stimecmp_unlogged_write CSR_STIMECMP MIP_STIP val h))"
| "csr_unlogged_write Scountovf_csr val h = Some (False, h)"
| "csr_unlogged_write Jvt_csr val h = Some (True, write_csrv CSR_JVT val h)"

text \<open>\<open>csr_t::write\<close>: the commit log entry it makes on success is not modelled.\<close>

definition csr_write :: "csr \<Rightarrow> reg_t \<Rightarrow> hart \<Rightarrow> hart option" where
  "csr_write c val h = map_option snd (csr_unlogged_write c val h)"

subsection \<open>Permissions\<close>

text \<open>The address an object is constructed with decides its privilege. The \<open>sstateen\<close> objects are
  constructed with the addresses of the \<open>hstateen\<close> registers.\<close>

primrec csr_address :: "csr \<Rightarrow> nat" where
  "csr_address (Basic_csr a) = a"
| "csr_address (Pmpaddr_csr i) = CSR_PMPADDR0 + i"
| "csr_address (Pmpcfg_csr a) = a"
| "csr_address Mseccfg_csr = CSR_MSECCFG"
| "csr_address (Virtualized_csr orig virt) = csr_address orig"
| "csr_address (Epc_csr a) = a"
| "csr_address (Tvec_csr a) = a"
| "csr_address (Cause_csr a) = a"
| "csr_address Vsstatus_csr = CSR_VSSTATUS"
| "csr_address Mstatus_csr = CSR_MSTATUS"
| "csr_address Sstatus_proxy_csr = CSR_SSTATUS"
| "csr_address Sstatus_csr = CSR_SSTATUS"
| "csr_address Mnstatus_csr = CSR_MNSTATUS"
| "csr_address (Rv32_low_csr a orig) = a"
| "csr_address (Rv32_high_csr a orig) = a"
| "csr_address Misa_csr = CSR_MISA"
| "csr_address Mip_csr = CSR_MIP"
| "csr_address Mie_csr = CSR_MIE"
| "csr_address (Mip_proxy_csr a accr) = a"
| "csr_address (Mie_proxy_csr a accr) = a"
| "csr_address Mideleg_csr = CSR_MIDELEG"
| "csr_address Medeleg_csr = CSR_MEDELEG"
| "csr_address (Masked_csr a msk) = a"
| "csr_address (Henvcfg_csr msk) = CSR_HENVCFG"
| "csr_address (Base_atp_csr a) = a"
| "csr_address Satp_csr = CSR_SATP"
| "csr_address Virtualized_satp_csr = CSR_SATP"
| "csr_address (Wide_counter_csr a) = a"
| "csr_address Time_counter_csr = CSR_TIME"
| "csr_address (Proxy_csr a delegate) = a"
| "csr_address (Const_csr a v) = a"
| "csr_address (Counter_proxy_csr a delegate) = a"
| "csr_address (Mevent_csr a) = a"
| "csr_address (Hypervisor_csr a) = a"
| "csr_address Hideleg_csr = CSR_HIDELEG"
| "csr_address Hgatp_csr = CSR_HGATP"
| "csr_address Tselect_csr = CSR_TSELECT"
| "csr_address Tdata1_csr = CSR_TDATA1"
| "csr_address Tdata2_csr = CSR_TDATA2"
| "csr_address Tdata3_csr = CSR_TDATA3"
| "csr_address Tinfo_csr = CSR_TINFO"
| "csr_address (Debug_mode_csr a) = a"
| "csr_address Dpc_csr = CSR_DPC"
| "csr_address Dcsr_csr = CSR_DCSR"
| "csr_address (Float_csr a msk) = a"
| "csr_address (Composite_csr a upper lower lsb) = a"
| "csr_address Seed_csr = CSR_SEED"
| "csr_address (Vector_csr a msk) = a"
| "csr_address Vxsat_csr = CSR_VXSAT"
| "csr_address (Hstateen_csr msk i) = CSR_HSTATEEN0 + i"
| "csr_address (Sstateen_csr msk i) = CSR_HSTATEEN0 + i"
| "csr_address (Senvcfg_csr msk) = CSR_SENVCFG"
| "csr_address (Stimecmp_csr a msk) = a"
| "csr_address Virtualized_stimecmp_csr = CSR_STIMECMP"
| "csr_address Scountovf_csr = CSR_SCOUNTOVF"
| "csr_address Jvt_csr = CSR_JVT"

text \<open>A check returns the trap it throws, if any; \<open>then_check\<close> runs the next one when it passes.\<close>

type_synonym check = "trap_t option"

definition then_check :: "check \<Rightarrow> check \<Rightarrow> check" where
  "then_check a b = (case a of Some t \<Rightarrow> Some t | None \<Rightarrow> b)"

definition illegal_unless :: "bool \<Rightarrow> insn_t \<Rightarrow> check" where
  "illegal_unless ok insn = (if ok then None else Some (trap_illegal_instruction insn))"

definition virtual_unless :: "bool \<Rightarrow> insn_t \<Rightarrow> check" where
  "virtual_unless ok insn = (if ok then None else Some (trap_virtual_instruction insn))"

definition csr_priv :: "nat \<Rightarrow> reg_t" where
  "csr_priv a = get_field (of_nat a) 0x300"

definition csr_read_only :: "nat \<Rightarrow> bool" where
  "csr_read_only a \<longleftrightarrow> get_field (of_nat a :: reg_t) 0xC00 = 3"

definition base_verify :: "nat \<Rightarrow> insn_t \<Rightarrow> bool \<Rightarrow> hart \<Rightarrow> check" where
  "base_verify a insn write h = (
     let priv = (if h_prv h = PRV_S \<and> \<not> h_v h then PRV_HS else h_prv h)
     in if (csr_priv a = PRV_S \<and> \<not> extension_enabled ISA_S h) \<or>
           (csr_priv a = PRV_HS \<and> \<not> extension_enabled ISA_H h)
        then Some (trap_illegal_instruction insn)
        else if write \<and> csr_read_only a then Some (trap_illegal_instruction insn)
        else if priv < csr_priv a then
          (if h_v h \<and> csr_priv a \<le> PRV_HS then Some (trap_virtual_instruction insn)
           else Some (trap_illegal_instruction insn))
        else None)"

definition myenable :: "nat \<Rightarrow> reg_t \<Rightarrow> bool" where
  "myenable a counteren \<longleftrightarrow> shr counteren (a mod 32) AND 1 \<noteq> 0"

definition counter_proxy_verify :: "nat \<Rightarrow> insn_t \<Rightarrow> bool \<Rightarrow> hart \<Rightarrow> check" where
  "counter_proxy_verify a insn write h =
     then_check (base_verify a insn write h) (
       let mctr_ok = (if h_prv h < PRV_M then myenable a (csrv h CSR_MCOUNTEREN) else True);
           hctr_ok = (if h_v h then myenable a (csrv h CSR_HCOUNTEREN) else True);
           sctr_ok = (if extension_enabled ISA_S h \<and> h_prv h < PRV_S
                      then myenable a (csrv h CSR_SCOUNTEREN) else True)
       in if \<not> mctr_ok then Some (trap_illegal_instruction insn)
          else if \<not> hctr_ok then Some (trap_virtual_instruction insn)
          else if \<not> sctr_ok then
            (if h_v h then Some (trap_virtual_instruction insn) else Some (trap_illegal_instruction insn))
          else None)"

definition satp_verify :: "insn_t \<Rightarrow> bool \<Rightarrow> hart \<Rightarrow> check" where
  "satp_verify insn write h =
     then_check (base_verify CSR_SATP insn write h)
       (if get_field (mstatus_read h) MSTATUS_TVM \<noteq> 0 then illegal_unless (h_prv h = PRV_M) insn else None)"

definition virtualized_satp_verify :: "insn_t \<Rightarrow> bool \<Rightarrow> hart \<Rightarrow> check" where
  "virtualized_satp_verify insn write h =
     then_check (base_verify CSR_SATP insn write h)
       (if h_v h then virtual_unless (get_field (csrv h CSR_HSTATUS) HSTATUS_VTVM = 0) insn
        else satp_verify insn write h)"

definition stateen_bit :: "nat \<Rightarrow> nat \<Rightarrow> reg_t \<Rightarrow> hart \<Rightarrow> bool" where
  "stateen_bit a i msk h \<longleftrightarrow> csrv h (a + i) AND msk \<noteq> 0"

text \<open>The three-level state-enable check of \<open>float_csr_t\<close> and \<open>jvt_csr_t\<close>.\<close>

definition stateen_verify :: "reg_t \<Rightarrow> reg_t \<Rightarrow> reg_t \<Rightarrow> insn_t \<Rightarrow> hart \<Rightarrow> check" where
  "stateen_verify mbit hbit sbit insn h =
     (if h_prv h < PRV_M \<and> \<not> stateen_bit CSR_MSTATEEN0 0 mbit h then Some (trap_illegal_instruction insn)
      else if h_v h \<and> hstateen_read 0 h AND hbit = 0 then Some (trap_virtual_instruction insn)
      else if extension_enabled ISA_S h \<and> h_prv h < PRV_S \<and> sstateen_read 0 h AND sbit = 0 then
        (if h_v h then Some (trap_virtual_instruction insn) else Some (trap_illegal_instruction insn))
      else None)"

definition float_verify :: "nat \<Rightarrow> insn_t \<Rightarrow> bool \<Rightarrow> hart \<Rightarrow> check" where
  "float_verify a insn write h =
     then_check (base_verify a insn write h)
     (then_check (illegal_unless (sstatus_enabled SSTATUS_FS h) insn)
     (then_check (illegal_unless (extension_enabled ISA_F h \<or> extension_enabled EXT_ZFINX h) insn)
       (if extension_enabled EXT_SMSTATEEN h \<and> extension_enabled EXT_ZFINX h
        then stateen_verify MSTATEEN0_FCSR HSTATEEN0_FCSR SSTATEEN0_FCSR insn h else None)))"

definition jvt_verify :: "insn_t \<Rightarrow> bool \<Rightarrow> hart \<Rightarrow> check" where
  "jvt_verify insn write h =
     then_check (base_verify CSR_JVT insn write h)
     (then_check (illegal_unless (extension_enabled EXT_ZCMT h) insn)
       (if extension_enabled EXT_SMSTATEEN h
        then stateen_verify SSTATEEN0_JVT SSTATEEN0_JVT SSTATEEN0_JVT insn h else None))"

definition hstateen_verify :: "nat \<Rightarrow> insn_t \<Rightarrow> bool \<Rightarrow> hart \<Rightarrow> check" where
  "hstateen_verify i insn write h =
     then_check
       (illegal_unless (\<not> (h_prv h < PRV_M \<and> \<not> stateen_bit CSR_MSTATEEN0 i MSTATEEN_HSTATEEN h)) insn)
       (base_verify (CSR_HSTATEEN0 + i) insn write h)"

definition sstateen_verify :: "nat \<Rightarrow> insn_t \<Rightarrow> bool \<Rightarrow> hart \<Rightarrow> check" where
  "sstateen_verify i insn write h =
     then_check (hstateen_verify i insn write h)
       (virtual_unless (\<not> (h_v h \<and> hstateen_read i h AND HSTATEEN_SSTATEEN = 0)) insn)"

definition henvcfg_verify :: "insn_t \<Rightarrow> bool \<Rightarrow> hart \<Rightarrow> check" where
  "henvcfg_verify insn write h =
     then_check (illegal_unless (\<not> (extension_enabled EXT_SMSTATEEN h \<and> h_prv h < PRV_M \<and>
        \<not> stateen_bit CSR_MSTATEEN0 0 MSTATEEN0_HENVCFG h)) insn)
       (base_verify CSR_HENVCFG insn write h)"

definition senvcfg_verify :: "insn_t \<Rightarrow> bool \<Rightarrow> hart \<Rightarrow> check" where
  "senvcfg_verify insn write h =
     then_check
       (if extension_enabled EXT_SMSTATEEN h then
          then_check (illegal_unless (\<not> (h_prv h < PRV_M \<and>
              \<not> stateen_bit CSR_MSTATEEN0 0 MSTATEEN0_HENVCFG h)) insn)
            (virtual_unless (\<not> (h_v h \<and> hstateen_read 0 h AND HSTATEEN0_SENVCFG = 0)) insn)
        else None)
       (base_verify CSR_SENVCFG insn write h)"

definition virtualized_stimecmp_verify :: "insn_t \<Rightarrow> bool \<Rightarrow> hart \<Rightarrow> check" where
  "virtualized_stimecmp_verify insn write h =
     then_check (illegal_unless (\<not> (csrv h CSR_MENVCFG AND MENVCFG_STCE = 0 \<and> h_prv h < PRV_M)) insn)
     (then_check (counter_proxy_verify CSR_TIME insn False h)
     (then_check (virtual_unless (\<not> (h_v h \<and> henvcfg_read h AND HENVCFG_STCE = 0)) insn)
       (base_verify CSR_STIMECMP insn write h)))"

primrec verify_permissions :: "csr \<Rightarrow> insn_t \<Rightarrow> bool \<Rightarrow> hart \<Rightarrow> check" where
  "verify_permissions (Basic_csr a) insn w h = base_verify a insn w h"
| "verify_permissions (Pmpaddr_csr i) insn w h =
     then_check (base_verify (CSR_PMPADDR0 + i) insn w h) (illegal_unless (n_pmp (pmp h) \<noteq> 0) insn)"
| "verify_permissions (Pmpcfg_csr a) insn w h =
     then_check (base_verify a insn w h) (illegal_unless (n_pmp (pmp h) \<noteq> 0) insn)"
| "verify_permissions Mseccfg_csr insn w h =
     then_check (base_verify CSR_MSECCFG insn w h) (illegal_unless (extension_enabled EXT_SMEPMP h) insn)"
| "verify_permissions (Virtualized_csr orig virt) insn w h = base_verify (csr_address orig) insn w h"
| "verify_permissions (Epc_csr a) insn w h = base_verify a insn w h"
| "verify_permissions (Tvec_csr a) insn w h = base_verify a insn w h"
| "verify_permissions (Cause_csr a) insn w h = base_verify a insn w h"
| "verify_permissions Vsstatus_csr insn w h = base_verify CSR_VSSTATUS insn w h"
| "verify_permissions Mstatus_csr insn w h = base_verify CSR_MSTATUS insn w h"
| "verify_permissions Sstatus_proxy_csr insn w h = base_verify CSR_SSTATUS insn w h"
| "verify_permissions Sstatus_csr insn w h = base_verify CSR_SSTATUS insn w h"
| "verify_permissions Mnstatus_csr insn w h = base_verify CSR_MNSTATUS insn w h"
| "verify_permissions (Rv32_low_csr a orig) insn w h = verify_permissions orig insn w h"
| "verify_permissions (Rv32_high_csr a orig) insn w h = verify_permissions orig insn w h"
| "verify_permissions Misa_csr insn w h = base_verify CSR_MISA insn w h"
| "verify_permissions Mip_csr insn w h = base_verify CSR_MIP insn w h"
| "verify_permissions Mie_csr insn w h = base_verify CSR_MIE insn w h"
| "verify_permissions (Mip_proxy_csr a accr) insn w h = base_verify a insn w h"
| "verify_permissions (Mie_proxy_csr a accr) insn w h = base_verify a insn w h"
| "verify_permissions Mideleg_csr insn w h =
     then_check (base_verify CSR_MIDELEG insn w h) (illegal_unless (extension_enabled ISA_S h) insn)"
| "verify_permissions Medeleg_csr insn w h =
     then_check (base_verify CSR_MEDELEG insn w h) (illegal_unless (extension_enabled ISA_S h) insn)"
| "verify_permissions (Masked_csr a msk) insn w h = base_verify a insn w h"
| "verify_permissions (Henvcfg_csr msk) insn w h = henvcfg_verify insn w h"
| "verify_permissions (Base_atp_csr a) insn w h = base_verify a insn w h"
| "verify_permissions Satp_csr insn w h = satp_verify insn w h"
| "verify_permissions Virtualized_satp_csr insn w h = virtualized_satp_verify insn w h"
| "verify_permissions (Wide_counter_csr a) insn w h = base_verify a insn w h"
| "verify_permissions Time_counter_csr insn w h = base_verify CSR_TIME insn w h"
| "verify_permissions (Proxy_csr a delegate) insn w h = base_verify a insn w h"
| "verify_permissions (Const_csr a v) insn w h = base_verify a insn w h"
| "verify_permissions (Counter_proxy_csr a delegate) insn w h = counter_proxy_verify a insn w h"
| "verify_permissions (Mevent_csr a) insn w h = base_verify a insn w h"
| "verify_permissions (Hypervisor_csr a) insn w h =
     then_check (base_verify a insn w h) (illegal_unless (extension_enabled ISA_H h) insn)"
| "verify_permissions Hideleg_csr insn w h = base_verify CSR_HIDELEG insn w h"
| "verify_permissions Hgatp_csr insn w h =
     then_check (base_verify CSR_HGATP insn w h)
       (if \<not> h_v h \<and> get_field (mstatus_read h) MSTATUS_TVM \<noteq> 0
        then illegal_unless (h_prv h \<ge> PRV_M) insn else None)"
| "verify_permissions Tselect_csr insn w h = base_verify CSR_TSELECT insn w h"
| "verify_permissions Tdata1_csr insn w h = base_verify CSR_TDATA1 insn w h"
| "verify_permissions Tdata2_csr insn w h = base_verify CSR_TDATA2 insn w h"
| "verify_permissions Tdata3_csr insn w h = base_verify CSR_TDATA3 insn w h"
| "verify_permissions Tinfo_csr insn w h = base_verify CSR_TINFO insn w h"
| "verify_permissions (Debug_mode_csr a) insn w h =
     then_check (base_verify a insn w h) (illegal_unless (debug_mode h) insn)"
| "verify_permissions Dpc_csr insn w h =
     then_check (base_verify CSR_DPC insn w h) (illegal_unless (debug_mode h) insn)"
| "verify_permissions Dcsr_csr insn w h =
     then_check (base_verify CSR_DCSR insn w h) (illegal_unless (debug_mode h) insn)"
| "verify_permissions (Float_csr a msk) insn w h = float_verify a insn w h"
| "verify_permissions (Composite_csr a upper lower lsb) insn w h = verify_permissions upper insn w h"
| "verify_permissions Seed_csr insn w h =
     then_check (illegal_unless (extension_enabled EXT_ZKR h \<and> w) insn) (base_verify CSR_SEED insn w h)"
| "verify_permissions (Vector_csr a msk) insn w h =
     then_check (illegal_unless (sstatus_enabled SSTATUS_VS h) insn)
     (then_check (illegal_unless (extension_enabled ISA_V h) insn) (base_verify a insn w h))"
| "verify_permissions Vxsat_csr insn w h =
     then_check (illegal_unless (sstatus_enabled SSTATUS_VS h) insn)
     (then_check (illegal_unless (extension_enabled ISA_V h \<or> extension_enabled EXT_ZPN h) insn)
       (base_verify CSR_VXSAT insn w h))"
| "verify_permissions (Hstateen_csr msk i) insn w h = hstateen_verify i insn w h"
| "verify_permissions (Sstateen_csr msk i) insn w h = sstateen_verify i insn w h"
| "verify_permissions (Senvcfg_csr msk) insn w h = senvcfg_verify insn w h"
| "verify_permissions (Stimecmp_csr a msk) insn w h = base_verify a insn w h"
| "verify_permissions Virtualized_stimecmp_csr insn w h = virtualized_stimecmp_verify insn w h"
| "verify_permissions Scountovf_csr insn w h =
     then_check (illegal_unless (extension_enabled EXT_SSCOFPMF h) insn) (base_verify CSR_SCOUNTOVF insn w h)"
| "verify_permissions Jvt_csr insn w h = jvt_verify insn w h"

subsection \<open>Access by number\<close>

definition zext_xlen :: "hart \<Rightarrow> reg_t \<Rightarrow> reg_t" where
  "zext_xlen h v = (if h_xlen h = 32 then v AND 0xffffffff else v)"

definition put_csr :: "nat \<Rightarrow> reg_t \<Rightarrow> hart \<Rightarrow> hart option" where
  "put_csr a val h = (case csrmap h a of None \<Rightarrow> Some h | Some c \<Rightarrow> csr_write c (zext_xlen h val) h)"

definition get_csr :: "nat \<Rightarrow> insn_t \<Rightarrow> bool \<Rightarrow> bool \<Rightarrow> hart \<Rightarrow> trap_t + reg_t" where
  "get_csr a insn write peek h = (case csrmap h a of
     None \<Rightarrow> Inl (trap_illegal_instruction insn)
   | Some c \<Rightarrow> (case (if peek then None else verify_permissions c insn write h) of
        Some t \<Rightarrow> Inl t
      | None \<Rightarrow> Inr (csr_read c h)))"

subsection \<open>Reset\<close>

abbreviation (input) DEFAULT_RSTVEC :: reg_t where "DEFAULT_RSTVEC \<equiv> 0x1000"

definition sip_sie_accr :: generic_int_accessor where
  "sip_sie_accr = \<lparr>read_mask = NOT MIP_HS_MASK, ip_write_mask = MIP_SSIP OR MIP_LCOFIP,
     ie_write_mask = NOT MIP_HS_MASK, mask_mode = MIDELEG, shiftamt = 0\<rparr>"

definition hip_hie_accr :: generic_int_accessor where
  "hip_hie_accr = \<lparr>read_mask = MIP_HS_MASK, ip_write_mask = MIP_VSSIP,
     ie_write_mask = MIP_HS_MASK, mask_mode = MIDELEG, shiftamt = 0\<rparr>"

definition hvip_accr :: generic_int_accessor where
  "hvip_accr = \<lparr>read_mask = MIP_VS_MASK, ip_write_mask = MIP_VS_MASK,
     ie_write_mask = MIP_VS_MASK, mask_mode = NONE, shiftamt = 0\<rparr>"

definition vsip_vsie_accr :: generic_int_accessor where
  "vsip_vsie_accr = \<lparr>read_mask = MIP_VS_MASK, ip_write_mask = MIP_VSSIP,
     ie_write_mask = MIP_VS_MASK, mask_mode = HIDELEG, shiftamt = 1\<rparr>"

definition counteren_mask :: "hart \<Rightarrow> reg_t" where
  "counteren_mask h = (if extension_enabled EXT_ZICNTR h then 7 else 0) OR
     (if extension_enabled EXT_ZIHPM h then 0xfffffff8 else 0)"

definition hedeleg_mask :: reg_t where
  "hedeleg_mask = exception_bit CAUSE_MISALIGNED_FETCH OR exception_bit CAUSE_FETCH_ACCESS
     OR exception_bit CAUSE_ILLEGAL_INSTRUCTION OR exception_bit CAUSE_BREAKPOINT
     OR exception_bit CAUSE_MISALIGNED_LOAD OR exception_bit CAUSE_LOAD_ACCESS
     OR exception_bit CAUSE_MISALIGNED_STORE OR exception_bit CAUSE_STORE_ACCESS
     OR exception_bit CAUSE_USER_ECALL OR exception_bit CAUSE_FETCH_PAGE_FAULT
     OR exception_bit CAUSE_LOAD_PAGE_FAULT OR exception_bit CAUSE_STORE_PAGE_FAULT"

text \<open>The entries \<open>state_t::reset\<close> makes in \<open>csrmap\<close>, group by group in its order.\<close>

definition reset_machine_csrs :: "hart \<Rightarrow> (nat \<times> csr) list" where
  "reset_machine_csrs h = (
     let x32 = (max_xlen (cfg h) = 32);
         minstreth = Rv32_high_csr CSR_MINSTRETH (Wide_counter_csr CSR_MINSTRET);
         mcycleh = Rv32_high_csr CSR_MCYCLEH (Wide_counter_csr CSR_MCYCLE);
         timeh = Rv32_high_csr CSR_TIMEH Time_counter_csr
     in [(CSR_MISA, Misa_csr)] @
        (if x32 then [(CSR_MSTATUS, Rv32_low_csr CSR_MSTATUS Mstatus_csr),
                      (CSR_MSTATUSH, Rv32_high_csr CSR_MSTATUSH Mstatus_csr)]
         else [(CSR_MSTATUS, Mstatus_csr)]) @
        [(CSR_MEPC, Epc_csr CSR_MEPC), (CSR_MTVAL, Basic_csr CSR_MTVAL),
         (CSR_MSCRATCH, Basic_csr CSR_MSCRATCH), (CSR_MTVEC, Tvec_csr CSR_MTVEC),
         (CSR_MCAUSE, Cause_csr CSR_MCAUSE)] @
        (if extension_enabled EXT_ZICNTR h then
           [(CSR_INSTRET, Counter_proxy_csr CSR_INSTRET (Wide_counter_csr CSR_MINSTRET)),
            (CSR_CYCLE, Counter_proxy_csr CSR_CYCLE (Wide_counter_csr CSR_MCYCLE)),
            (CSR_TIME, Counter_proxy_csr CSR_TIME Time_counter_csr)] else []) @
        (if x32 then
           [(CSR_MINSTRET, Rv32_low_csr CSR_MINSTRET (Wide_counter_csr CSR_MINSTRET)),
            (CSR_MINSTRETH, minstreth),
            (CSR_MCYCLE, Rv32_low_csr CSR_MCYCLE (Wide_counter_csr CSR_MCYCLE)),
            (CSR_MCYCLEH, mcycleh)] @
           (if extension_enabled EXT_ZICNTR h then
             [(CSR_INSTRETH, Counter_proxy_csr CSR_INSTRETH minstreth),
              (CSR_CYCLEH, Counter_proxy_csr CSR_CYCLEH mcycleh),
              (CSR_TIMEH, Counter_proxy_csr CSR_TIMEH timeh)] else [])
         else [(CSR_MINSTRET, Wide_counter_csr CSR_MINSTRET), (CSR_MCYCLE, Wide_counter_csr CSR_MCYCLE)]))"

definition reset_hpm_csrs :: "hart \<Rightarrow> nat \<Rightarrow> (nat \<times> csr) list" where
  "reset_hpm_csrs h i = (
     let x32 = (max_xlen (cfg h) = 32);
         which_mevent = CSR_MHPMEVENT3 + i - 3;
         which_meventh = CSR_MHPMEVENT3H + i - 3;
         which_mcounter = CSR_MHPMCOUNTER3 + i - 3;
         which_mcounterh = CSR_MHPMCOUNTER3H + i - 3;
         which_counter = CSR_HPMCOUNTER3 + i - 3;
         which_counterh = CSR_HPMCOUNTER3H + i - 3
     in [(which_mcounter, Const_csr which_mcounter 0)] @
        (if extension_enabled EXT_ZIHPM h
         then [(which_counter, Counter_proxy_csr which_counter (Const_csr which_mcounter 0))] else []) @
        (if x32 then
           [(which_mevent, Rv32_low_csr which_mevent (Mevent_csr which_mevent)),
            (which_mcounterh, Const_csr which_mcounterh 0)] @
           (if extension_enabled EXT_ZIHPM h
            then [(which_counterh, Counter_proxy_csr which_counterh (Const_csr which_mcounterh 0))] else []) @
           (if extension_enabled EXT_SSCOFPMF h
            then [(which_meventh, Rv32_high_csr which_meventh (Mevent_csr which_mevent))] else [])
         else [(which_mevent, Mevent_csr which_mevent)]))"

definition reset_interrupt_csrs :: "hart \<Rightarrow> (nat \<times> csr) list" where
  "reset_interrupt_csrs h =
     [(CSR_MCOUNTINHIBIT, Const_csr CSR_MCOUNTINHIBIT 0)] @
     (if extension_enabled EXT_SSCOFPMF h then [(CSR_SCOUNTOVF, Scountovf_csr)] else []) @
     [(CSR_MIE, Mie_csr), (CSR_MIP, Mip_csr),
      (CSR_VSIP, Mip_proxy_csr CSR_VSIP vsip_vsie_accr),
      (CSR_SIP, Virtualized_csr (Mip_proxy_csr CSR_SIP sip_sie_accr) (Mip_proxy_csr CSR_VSIP vsip_vsie_accr)),
      (CSR_HIP, Mip_proxy_csr CSR_HIP hip_hie_accr),
      (CSR_HVIP, Mip_proxy_csr CSR_HVIP hvip_accr),
      (CSR_VSIE, Mie_proxy_csr CSR_VSIE vsip_vsie_accr),
      (CSR_SIE, Virtualized_csr (Mie_proxy_csr CSR_SIE sip_sie_accr) (Mie_proxy_csr CSR_VSIE vsip_vsie_accr)),
      (CSR_HIE, Mie_proxy_csr CSR_HIE hip_hie_accr),
      (CSR_MEDELEG, Medeleg_csr), (CSR_MIDELEG, Mideleg_csr)]"

definition reset_supervisor_csrs :: "hart \<Rightarrow> (nat \<times> csr) list" where
  "reset_supervisor_csrs h = (
     let x32 = (max_xlen (cfg h) = 32) in
     (if extension_enabled ISA_U h then [(CSR_MCOUNTEREN, Masked_csr CSR_MCOUNTEREN (counteren_mask h))] else []) @
     [(CSR_SCOUNTEREN, Masked_csr CSR_SCOUNTEREN (counteren_mask h)),
      (CSR_VSEPC, Epc_csr CSR_VSEPC), (CSR_SEPC, Virtualized_csr (Epc_csr CSR_SEPC) (Epc_csr CSR_VSEPC)),
      (CSR_VSTVAL, Basic_csr CSR_VSTVAL),
      (CSR_STVAL, Virtualized_csr (Basic_csr CSR_STVAL) (Basic_csr CSR_VSTVAL)),
      (CSR_SSCRATCH, Virtualized_csr (Basic_csr CSR_SSCRATCH) (Basic_csr CSR_VSSCRATCH)),
      (CSR_VSSCRATCH, Basic_csr CSR_VSSCRATCH),
      (CSR_VSTVEC, Tvec_csr CSR_VSTVEC),
      (CSR_STVEC, Virtualized_csr (Tvec_csr CSR_STVEC) (Tvec_csr CSR_VSTVEC)),
      (CSR_VSATP, Base_atp_csr CSR_VSATP), (CSR_SATP, Virtualized_satp_csr),
      (CSR_VSCAUSE, Cause_csr CSR_VSCAUSE),
      (CSR_SCAUSE, Virtualized_csr (Cause_csr CSR_SCAUSE) (Cause_csr CSR_VSCAUSE)),
      (CSR_MTVAL2, Hypervisor_csr CSR_MTVAL2), (CSR_MTINST, Hypervisor_csr CSR_MTINST),
      (CSR_HSTATUS, Masked_csr CSR_HSTATUS (hstatus_mask h)),
      (CSR_HGEIE, Const_csr CSR_HGEIE 0), (CSR_HGEIP, Const_csr CSR_HGEIP 0),
      (CSR_HIDELEG, Hideleg_csr), (CSR_HEDELEG, Masked_csr CSR_HEDELEG hedeleg_mask),
      (CSR_HCOUNTEREN, Masked_csr CSR_HCOUNTEREN (counteren_mask h))] @
     (if x32 then [(CSR_HTIMEDELTA, Rv32_low_csr CSR_HTIMEDELTA (Basic_csr CSR_HTIMEDELTA)),
                   (CSR_HTIMEDELTAH, Rv32_high_csr CSR_HTIMEDELTAH (Basic_csr CSR_HTIMEDELTA))]
      else [(CSR_HTIMEDELTA, Basic_csr CSR_HTIMEDELTA)]) @
     [(CSR_HTVAL, Basic_csr CSR_HTVAL), (CSR_HTINST, Basic_csr CSR_HTINST), (CSR_HGATP, Hgatp_csr),
      (CSR_VSSTATUS, Vsstatus_csr), (CSR_SSTATUS, Sstatus_csr)])"

definition reset_debug_csrs :: "hart \<Rightarrow> (nat \<times> csr) list" where
  "reset_debug_csrs h = (
     let x32 = (max_xlen (cfg h) = 32);
         scontext_length = (if x32 then 16 else 34);
         hcontext_length = (if x32 then 6 else 13) + (if extension_enabled ISA_H h then 1 else 0);
         hcontext = Masked_csr CSR_HCONTEXT (shl 1 hcontext_length - 1)
     in [(CSR_DPC, Dpc_csr), (CSR_DSCRATCH0, Debug_mode_csr CSR_DSCRATCH0),
         (CSR_DSCRATCH1, Debug_mode_csr CSR_DSCRATCH1), (CSR_DCSR, Dcsr_csr), (CSR_TSELECT, Tselect_csr)] @
        (if trigger_count (cfg h) > 0
         then [(CSR_TDATA1, Tdata1_csr), (CSR_TDATA2, Tdata2_csr), (CSR_TDATA3, Tdata3_csr), (CSR_TINFO, Tinfo_csr)]
         else [(CSR_TDATA1, Const_csr CSR_TDATA1 0), (CSR_TDATA2, Const_csr CSR_TDATA2 0),
               (CSR_TDATA3, Const_csr CSR_TDATA3 0), (CSR_TINFO, Const_csr CSR_TINFO 0)]) @
        [(CSR_SCONTEXT, Masked_csr CSR_SCONTEXT (shl 1 scontext_length - 1)),
         (CSR_HCONTEXT, hcontext), (CSR_MCONTEXT, Proxy_csr CSR_MCONTEXT hcontext),
         (CSR_MSECCFG, Mseccfg_csr)] @
        map (\<lambda>i. (CSR_PMPADDR0 + i, Pmpaddr_csr i)) [0..<max_pmp] @
        map (\<lambda>k. (CSR_PMPCFG0 + k * (max_xlen (cfg h) div 8) div 4,
                  Pmpcfg_csr (CSR_PMPCFG0 + k * (max_xlen (cfg h) div 8) div 4)))
          [0..<max_pmp div (max_xlen (cfg h) div 8)])"

definition reset_user_csrs :: "hart \<Rightarrow> (nat \<times> csr) list" where
  "reset_user_csrs h =
     [(CSR_FFLAGS, Float_csr CSR_FFLAGS 0x1f), (CSR_FRM, Float_csr CSR_FRM 7),
      (CSR_FCSR, Composite_csr CSR_FCSR (Float_csr CSR_FRM 7) (Float_csr CSR_FFLAGS 0x1f) 5),
      (CSR_SEED, Seed_csr),
      (CSR_MARCHID, Const_csr CSR_MARCHID 26010003), (CSR_MIMPID, Const_csr CSR_MIMPID 0),
      (CSR_MVENDORID, Const_csr CSR_MVENDORID 0x79737978),
      (CSR_MHARTID, Const_csr CSR_MHARTID (ucast (hart_id (cfg h)))),
      (CSR_MCONFIGPTR, Const_csr CSR_MCONFIGPTR 0)]"

definition menvcfg_mask :: "hart \<Rightarrow> reg_t" where
  "menvcfg_mask h = (if extension_enabled EXT_ZICBOM h then MENVCFG_CBCFE OR MENVCFG_CBIE else 0)
     OR (if extension_enabled EXT_ZICBOZ h then MENVCFG_CBZE else 0)
     OR (if extension_enabled EXT_SVADU h then MENVCFG_HADE else 0)
     OR (if extension_enabled EXT_SVPBMT h then MENVCFG_PBMTE else 0)
     OR (if extension_enabled EXT_SSTC h then MENVCFG_STCE else 0)"

definition senvcfg_mask :: "hart \<Rightarrow> reg_t" where
  "senvcfg_mask h = (if extension_enabled EXT_ZICBOM h then SENVCFG_CBCFE OR SENVCFG_CBIE else 0)
     OR (if extension_enabled EXT_ZICBOZ h then SENVCFG_CBZE else 0)"

definition henvcfg_mask :: "hart \<Rightarrow> reg_t" where
  "henvcfg_mask h = (if extension_enabled EXT_ZICBOM h then HENVCFG_CBCFE OR HENVCFG_CBIE else 0)
     OR (if extension_enabled EXT_ZICBOZ h then HENVCFG_CBZE else 0)
     OR (if extension_enabled EXT_SVADU h then HENVCFG_HADE else 0)
     OR (if extension_enabled EXT_SVPBMT h then HENVCFG_PBMTE else 0)
     OR (if extension_enabled EXT_SSTC h then HENVCFG_STCE else 0)"

definition reset_envcfg_csrs :: "hart \<Rightarrow> (nat \<times> csr) list" where
  "reset_envcfg_csrs h = (
     let x32 = (max_xlen (cfg h) = 32);
         menvcfg = Masked_csr CSR_MENVCFG (menvcfg_mask h);
         henvcfg = Henvcfg_csr (henvcfg_mask h)
     in if extension_enabled ISA_U h then
          (if x32 then [(CSR_MENVCFG, Rv32_low_csr CSR_MENVCFG menvcfg),
                        (CSR_MENVCFGH, Rv32_high_csr CSR_MENVCFGH menvcfg)]
           else [(CSR_MENVCFG, menvcfg)]) @
          [(CSR_SENVCFG, Senvcfg_csr (senvcfg_mask h))] @
          (if x32 then [(CSR_HENVCFG, Rv32_low_csr CSR_HENVCFG henvcfg),
                        (CSR_HENVCFGH, Rv32_high_csr CSR_HENVCFGH henvcfg)]
           else [(CSR_HENVCFG, henvcfg)])
        else [])"

definition sstateen0_mask :: "hart \<Rightarrow> reg_t" where
  "sstateen0_mask h = (if extension_enabled EXT_ZFINX h then SSTATEEN0_FCSR else 0)
     OR (if extension_enabled EXT_ZCMT h then SSTATEEN0_JVT else 0) OR SSTATEEN0_CS"

definition reset_stateen_csrs :: "hart \<Rightarrow> nat \<Rightarrow> (nat \<times> csr) list" where
  "reset_stateen_csrs h i = (
     let x32 = (max_xlen (cfg h) = 32);
         hstateen0_mask = sstateen0_mask h OR HSTATEEN0_SENVCFG OR HSTATEEN_SSTATEEN;
         mstateen = Masked_csr (CSR_MSTATEEN0 + i) (if i = 0 then hstateen0_mask else MSTATEEN_HSTATEEN);
         hstateen = Hstateen_csr (if i = 0 then hstateen0_mask else HSTATEEN_SSTATEEN) i;
         sstateen = Sstateen_csr (if i = 0 then sstateen0_mask h else 0) i
     in (if x32 then [(CSR_MSTATEEN0 + i, Rv32_low_csr (CSR_MSTATEEN0 + i) mstateen),
                      (CSR_MSTATEEN0H + i, Rv32_high_csr (CSR_MSTATEEN0H + i) mstateen),
                      (CSR_HSTATEEN0 + i, Rv32_low_csr (CSR_HSTATEEN0 + i) hstateen),
                      (CSR_HSTATEEN0H + i, Rv32_high_csr (CSR_HSTATEEN0H + i) hstateen)]
         else [(CSR_MSTATEEN0 + i, mstateen), (CSR_HSTATEEN0 + i, hstateen)]) @
        [(CSR_SSTATEEN0 + i, sstateen)])"

definition reset_optional_csrs :: "hart \<Rightarrow> (nat \<times> csr) list" where
  "reset_optional_csrs h = (
     let xlen = max_xlen (cfg h); x32 = (xlen = 32) in
     (if extension_enabled EXT_SMSTATEEN h then concat (map (reset_stateen_csrs h) [0..<4]) else []) @
     (if extension_enabled EXT_SMRNMI h then
        [(CSR_MNSCRATCH, Basic_csr CSR_MNSCRATCH), (CSR_MNEPC, Epc_csr CSR_MNEPC),
         (CSR_MNCAUSE, Const_csr CSR_MNCAUSE (shl 1 (xlen - 1))), (CSR_MNSTATUS, Mnstatus_csr)] else []) @
     (if extension_enabled EXT_SSTC h then
        (let vstimecmp = Stimecmp_csr CSR_VSTIMECMP MIP_VSTIP in
         if x32 then [(CSR_STIMECMP, Rv32_low_csr CSR_STIMECMP Virtualized_stimecmp_csr),
                      (CSR_STIMECMPH, Rv32_high_csr CSR_STIMECMPH Virtualized_stimecmp_csr),
                      (CSR_VSTIMECMP, Rv32_low_csr CSR_VSTIMECMP vstimecmp),
                      (CSR_VSTIMECMPH, Rv32_high_csr CSR_VSTIMECMPH vstimecmp)]
         else [(CSR_STIMECMP, Virtualized_stimecmp_csr), (CSR_VSTIMECMP, vstimecmp)]) else []) @
     (if extension_enabled EXT_ZCMT h then [(CSR_JVT, Jvt_csr)] else []))"

definition reset_csrs :: "hart \<Rightarrow> (nat \<times> csr) list" where
  "reset_csrs h = reset_machine_csrs h @ concat (map (reset_hpm_csrs h) [3..<N_HPMCOUNTERS + 3])
     @ reset_interrupt_csrs h @ reset_supervisor_csrs h @ reset_debug_csrs h @ reset_user_csrs h
     @ reset_envcfg_csrs h @ reset_optional_csrs h"

definition mstatus_initial_value :: "hart \<Rightarrow> reg_t option" where
  "mstatus_initial_value h = (case xlen_to_uxl (h_xlen h) of None \<Rightarrow> None
     | Some uxl \<Rightarrow> Some (
         (if extension_enabled ISA_U h \<and> h_xlen h \<noteq> 32 then set_field 0 MSTATUS_UXL uxl else 0) OR
         (if extension_enabled ISA_S h \<and> h_xlen h \<noteq> 32 then set_field 0 MSTATUS_SXL uxl else 0)))"

text \<open>The registers whose objects are created with a value other than zero.\<close>

definition reset_values :: "reg_t \<Rightarrow> reg_t \<Rightarrow> hart \<Rightarrow> nat \<Rightarrow> reg_t" where
  "reset_values mst uxl h a = (
     if a = CSR_MISA then max_isa (cfg h)
     else if a = CSR_MSTATUS then mst
     else if a = CSR_VSSTATUS then mst AND sstatus_read_mask h
     else if a = CSR_HSTATUS then set_field 0 HSTATUS_VSXL uxl
     else if a = CSR_MENVCFG \<or> a = CSR_HENVCFG then
       (if extension_enabled ISA_U h \<and> extension_enabled EXT_SVPBMT h then MENVCFG_PBMTE else 0)
     else if a = CSR_JVT \<and> \<not> extension_enabled EXT_ZCMT h then csrv h CSR_JVT
     else 0)"

definition state_reset :: "hart \<Rightarrow> hart option" where
  "state_reset h = (
     let h = write_csrv CSR_MISA (max_isa (cfg h))
           (h\<lparr>h_pc := DEFAULT_RSTVEC, XPR := regfile_reset, FPR := (\<lambda>_. (0, 0)), h_prv := PRV_M, h_v := False\<rparr>);
         hp = (extension_enabled ISA_S h \<and> supports_impl IMPL_MMU h);
         h = h\<lparr>has_page := hp, sstatus_write_mask := compute_sstatus_write_mask hp h\<rparr>
     in case (mstatus_initial_value h, xlen_to_uxl (h_xlen h)) of
          (Some mst, Some uxl) \<Rightarrow>
            Some (h\<lparr>csrmap := foldl (\<lambda>m (a, c). m(a \<mapsto> c)) (csrmap h) (reset_csrs h),
                    csrv := reset_values mst uxl h,
                    pmp := (pmp h)\<lparr>pmp_val := (\<lambda>_. 0), pmp_cfg := (\<lambda>_. 0), mseccfg_val := 0\<rparr>,
                    dcsr := \<lparr>dcsr_prv = 0, dcsr_step = False, ebreakm = False, ebreakh = False,
                      ebreaks = False, ebreaku = False, dcsr_halt = False, dcsr_cause = 0\<rparr>,
                    debug_mode := False, single_step := STEP_NONE, serialized := False\<rparr>)
        | _ \<Rightarrow> None)"

text \<open>The vector unit's reset adds its registers; its initial configuration is illegal, so \<open>vtype\<close>
  has its top bits set and \<open>vl\<close> is zero. The rest of the vector unit is not modelled.\<close>

definition vu_reset :: "hart \<Rightarrow> hart" where
  "vu_reset h = (
     let vxrm = Vector_csr CSR_VXRM 3;
         entries = [(CSR_VXSAT, Vxsat_csr), (CSR_VSTART, Vector_csr CSR_VSTART (of_nat (cfg_vlen (cfg h)) - 1)),
           (CSR_VXRM, vxrm), (CSR_VL, Vector_csr CSR_VL 0), (CSR_VTYPE, Vector_csr CSR_VTYPE 0),
           (CSR_VLENB, Vector_csr CSR_VLENB 0), (CSR_VCSR, Composite_csr CSR_VCSR vxrm Vxsat_csr 1)]
     in h\<lparr>csrmap := foldl (\<lambda>m (a, c). m(a \<mapsto> c)) (csrmap h) entries,
          csrv := (csrv h)(CSR_VXSAT := 0, CSR_VSTART := 0, CSR_VXRM := 0, CSR_VL := 0,
            CSR_VTYPE := shl (- 1) (h_xlen h - 1), CSR_VLENB := of_nat (cfg_vlen (cfg h) div 8))\<rparr>)"

definition processor_reset :: "bool \<Rightarrow> hart \<Rightarrow> hart option" where
  "processor_reset halt_on_reset h = (
     let h = h\<lparr>h_xlen := max_xlen (cfg h)\<rparr>
     in case state_reset h of None \<Rightarrow> None
        | Some h \<Rightarrow>
          let h = h\<lparr>dcsr := (dcsr h)\<lparr>dcsr_halt := halt_on_reset\<rparr>\<rparr>;
              h = (vu_reset h)\<lparr>in_wfi := False\<rparr>
          in if n_pmp (pmp h) > 0 then
               (case put_csr CSR_PMPADDR0 (- 1) h of None \<Rightarrow> None
                | Some h \<Rightarrow> put_csr CSR_PMPCFG0 (ucast (PMP_R OR PMP_W OR PMP_X OR PMP_NAPOT)) h)
             else Some h)"

end
