(* ===== verification/CSR_Access.thy ===== *)
theory CSR_Access
  imports CSR
begin

text \<open>
  Who may access a register: the checks of every \<open>verify_permissions\<close> imply the base check of
  \<open>csr_t\<close> on the address the object was made with, and the objects \<open>state_t::reset\<close> installs
  carry addresses at least as strict as the numbers they are installed under.
\<close>

subsection \<open>Who may access a register\<close>

text \<open>The address whose privilege bits guard an object: views check the register they show.\<close>

fun guard_address :: "csr \<Rightarrow> nat" where
  "guard_address (Rv32_low_csr a orig) = guard_address orig"
| "guard_address (Rv32_high_csr a orig) = guard_address orig"
| "guard_address (Composite_csr a upper lower lsb) = guard_address upper"
| "guard_address c = csr_address c"

lemma then_check_None [simp]: "then_check a b = None \<longleftrightarrow> a = None \<and> b = None"
  by (cases a) (simp_all add: then_check_def)

lemma unless_None [simp]:
  "illegal_unless ok insn = None \<longleftrightarrow> ok" "virtual_unless ok insn = None \<longleftrightarrow> ok"
  by (simp_all add: illegal_unless_def virtual_unless_def)

lemmas verify_defs = henvcfg_verify_def virtualized_satp_verify_def satp_verify_def
  counter_proxy_verify_def float_verify_def hstateen_verify_def sstateen_verify_def
  senvcfg_verify_def virtualized_stimecmp_verify_def jvt_verify_def

lemma verify_implies_base:
  "verify_permissions c insn w h = None \<Longrightarrow> base_verify (guard_address c) insn w h = None"
proof (induction c)
  case Seed_csr
  then show ?case by (cases w) simp_all
qed (simp_all add: verify_defs)

definition effective_priv :: "hart \<Rightarrow> reg_t" where
  "effective_priv h = (if h_prv h = PRV_S \<and> \<not> h_v h then PRV_HS else h_prv h)"

lemma base_verify_None:
  "base_verify a insn w h = None \<longleftrightarrow>
     (csr_priv a = PRV_S \<longrightarrow> extension_enabled ISA_S h) \<and>
     (csr_priv a = PRV_HS \<longrightarrow> extension_enabled ISA_H h) \<and>
     (w \<longrightarrow> \<not> csr_read_only a) \<and> csr_priv a \<le> effective_priv h"
  by (auto simp: base_verify_def effective_priv_def not_less split: if_splits)

definition guards :: "nat \<Rightarrow> csr \<Rightarrow> bool" where
  "guards a c \<longleftrightarrow> csr_priv a \<le> csr_priv (guard_address c) \<and>
     (csr_read_only a \<longrightarrow> csr_read_only (guard_address c)) \<and>
     (csr_priv a = PRV_HS \<longrightarrow> csr_priv (guard_address c) = PRV_HS)"

lemma guards_refl [simp]: "guards a c" if "guard_address c = a" for c
  using that by (simp add: guards_def)

lemma csr_priv_unsigned: "csr_priv a = (of_nat a AND 0x300) div 0x100"
  by (simp add: csr_priv_def get_field_def)

lemma csr_read_only_unsigned: "csr_read_only a \<longleftrightarrow> (of_nat a AND 0xC00 :: reg_t) div 0x400 = 3"
  by (simp add: csr_read_only_def get_field_def)

lemmas guards_calc = guards_def csr_priv_unsigned csr_read_only_unsigned

lemma reset_machine_guards: "list_all (\<lambda>(a, c). guards a c) (reset_machine_csrs h)"
  by (simp add: reset_machine_csrs_def Let_def) (simp add: guards_calc)

lemma upt_hpm: "[3..<N_HPMCOUNTERS + 3] = [3,4,5,6,7,8,9,10,11,12,13,14,15,16,17,18,19,20,21,22,23,24,25,26,27,28,29,30,31]"
  by (simp add: N_HPMCOUNTERS_def upt_rec)

lemma hpm_guards:
  "list_all (\<lambda>i. csr_priv (CSR_MHPMEVENT3H + i - 3) \<le> csr_priv (CSR_MHPMEVENT3 + i - 3) \<and>
     \<not> csr_read_only (CSR_MHPMEVENT3H + i - 3) \<and> csr_priv (CSR_MHPMEVENT3H + i - 3) \<noteq> PRV_HS)
   [3..<N_HPMCOUNTERS + 3]"
  unfolding upt_hpm by (simp add: csr_priv_unsigned csr_read_only_unsigned)

lemma reset_hpm_guards:
  "i \<in> set [3..<N_HPMCOUNTERS + 3] \<Longrightarrow> list_all (\<lambda>(a, c). guards a c) (reset_hpm_csrs h i)"
  using hpm_guards by (auto simp: reset_hpm_csrs_def Let_def guards_def list_all_iff)

lemma reset_interrupt_guards: "list_all (\<lambda>(a, c). guards a c) (reset_interrupt_csrs h)"
  by (simp add: reset_interrupt_csrs_def Let_def) 

lemma reset_supervisor_guards: "list_all (\<lambda>(a, c). guards a c) (reset_supervisor_csrs h)"
  by (simp add: reset_supervisor_csrs_def Let_def) (simp add: guards_calc)

lemma reset_debug_guards: "list_all (\<lambda>(a, c). guards a c) (reset_debug_csrs h)"
  by (auto simp: reset_debug_csrs_def Let_def list_all_iff)

lemma reset_user_guards: "list_all (\<lambda>(a, c). guards a c) (reset_user_csrs h)"
  by (simp add: reset_user_csrs_def Let_def) (simp add: guards_calc)

lemma reset_envcfg_guards: "list_all (\<lambda>(a, c). guards a c) (reset_envcfg_csrs h)"
  by (simp add: reset_envcfg_csrs_def Let_def) (simp add: guards_calc)

lemma reset_optional_guards: "list_all (\<lambda>(a, c). guards a c) (reset_optional_csrs h)"
  by (simp add: reset_optional_csrs_def reset_stateen_csrs_def Let_def upt_rec) (simp add: guards_calc)

lemma reset_guards: "(a, c) \<in> set (reset_csrs h) \<Longrightarrow> guards a c"
  using reset_machine_guards [of h] reset_hpm_guards [of _ h] reset_interrupt_guards [of h]
    reset_supervisor_guards [of h] reset_debug_guards [of h] reset_user_guards [of h]
    reset_envcfg_guards [of h] reset_optional_guards [of h]
  by (force simp: reset_csrs_def list_all_iff simp del: upt_conv_Cons set_upt)

lemma get_csr_Inr:
  "get_csr a insn w False h = Inr v \<longleftrightarrow>
     (\<exists>c. csrmap h a = Some c \<and> verify_permissions c insn w h = None \<and> v = csr_read c h)"
  by (auto simp: get_csr_def split: option.splits)

text \<open>
  C5. No instruction reads or writes a control register from a privilege below the one its
  number encodes, a register whose number marks it read-only is never written, and
  hypervisor registers answer only while the hypervisor extension is on: for every register
  object that reset installs, whatever class serves the number.
\<close>

theorem csr_access_guarded:
  assumes "csrmap h a = Some c" "(a, c) \<in> set (reset_csrs h0)"
    and "get_csr a insn w False h = Inr v"
  shows "csr_priv a \<le> effective_priv h \<and> (w \<longrightarrow> \<not> csr_read_only a) \<and>
    (csr_priv a = PRV_HS \<longrightarrow> extension_enabled ISA_H h)"
proof -
  have "verify_permissions c insn w h = None" using assms(1,3) by (simp add: get_csr_Inr)
  then have "base_verify (guard_address c) insn w h = None" by (rule verify_implies_base)
  with reset_guards [OF assms(2)] show ?thesis
    by (auto simp: base_verify_None guards_def)
qed

end
