(* ===== verification/CSR_Inv.thy ===== *)
theory CSR_Inv
  imports CSR_Access
begin

text \<open>
  The invariant \<open>csr_ok\<close> of the control and status registers: which values each storage key can
  hold, that every write of every object keeps them so, and that reset establishes it.
\<close>

subsection \<open>The invariant of the register file\<close>

text \<open>What the value of each storage key satisfies. It depends on the configuration only, so a write
  to one key cannot invalidate another.\<close>

definition legal_prv :: "hart_cfg \<Rightarrow> reg_t \<Rightarrow> bool" where
  "legal_prv c p \<longleftrightarrow> p \<le> PRV_M \<and> p \<noteq> PRV_HS \<and> (p = PRV_S \<longrightarrow> max_isa c AND misa_bit ISA_S \<noteq> 0)"

definition sd_consistent :: "nat \<Rightarrow> reg_t \<Rightarrow> bool" where
  "sd_consistent xlen v \<longleftrightarrow>
     (v AND (if xlen = 64 then SSTATUS64_SD else SSTATUS32_SD) \<noteq> 0) =
     (v AND SSTATUS_FS = SSTATUS_FS \<or> v AND SSTATUS_VS = SSTATUS_VS \<or> v AND SSTATUS_XS = SSTATUS_XS)"

definition misa_writable :: reg_t where
  "misa_writable = misa_bit ISA_M OR misa_bit ISA_A OR misa_bit ISA_F OR misa_bit ISA_D OR misa_bit ISA_Q
      OR misa_bit ISA_C OR misa_bit ISA_H OR misa_bit ISA_V"

definition misa_closed :: "reg_t \<Rightarrow> bool" where
  "misa_closed v \<longleftrightarrow> (v AND misa_bit ISA_D \<noteq> 0 \<longrightarrow> v AND misa_bit ISA_F \<noteq> 0) \<and>
     (v AND misa_bit ISA_Q \<noteq> 0 \<longrightarrow> v AND misa_bit ISA_D \<noteq> 0) \<and>
     (v AND misa_bit ISA_V \<noteq> 0 \<longrightarrow> v AND misa_bit ISA_D \<noteq> 0)"

definition misa_legal :: "hart_cfg \<Rightarrow> reg_t \<Rightarrow> bool" where
  "misa_legal c v \<longleftrightarrow> v AND NOT (max_isa c) = 0 \<and>
     v AND NOT misa_writable = max_isa c AND NOT misa_writable \<and> misa_closed v"

definition satp_mode_ok :: "hart_cfg \<Rightarrow> nat \<Rightarrow> reg_t \<Rightarrow> bool" where
  "satp_mode_ok c xlen v \<longleftrightarrow>
     (if xlen = 32 then
        v AND SATP32_MODE = 0 \<or> impl_table c IMPL_MMU_SV32
      else let m = get_field v SATP64_MODE in
        m = SATP_MODE_OFF \<or> (m = SATP_MODE_SV39 \<and> impl_table c IMPL_MMU_SV39)
        \<or> (m = SATP_MODE_SV48 \<and> impl_table c IMPL_MMU_SV48)
        \<or> (m = SATP_MODE_SV57 \<and> impl_table c IMPL_MMU_SV57))"

definition delegable_ints :: reg_t where
  "delegable_ints = MIP_SSIP OR MIP_STIP OR MIP_SEIP OR MIP_LCOFIP OR shl 1 IRQ_COP"

definition delegable_exceptions :: reg_t where
  "delegable_exceptions = hedeleg_mask OR exception_bit CAUSE_SUPERVISOR_ECALL OR hypervisor_exceptions"

definition key_ok :: "hart_cfg \<Rightarrow> nat \<Rightarrow> nat \<Rightarrow> nat \<Rightarrow> reg_t \<Rightarrow> bool" where
  "key_ok c xlen triggers a v \<longleftrightarrow>
     (if a = CSR_MSTATUS then legal_prv c (get_field v MSTATUS_MPP) \<and> sd_consistent xlen v
      else if a = CSR_VSSTATUS then sd_consistent xlen v
      else if a = CSR_MNSTATUS then legal_prv c (get_field v MNSTATUS_MNPP)
      else if a = CSR_MEPC \<or> a = CSR_SEPC \<or> a = CSR_VSEPC \<or> a = CSR_MNEPC \<or> a = CSR_DPC then v AND 1 = 0
      else if a = CSR_MTVEC \<or> a = CSR_STVEC \<or> a = CSR_VSTVEC then v AND 2 = 0
      else if a = CSR_MIDELEG then v AND NOT delegable_ints = 0
      else if a = CSR_MEDELEG then v AND NOT delegable_exceptions = 0
      else if a = CSR_MISA then misa_legal c v
      else if a = CSR_SATP \<or> a = CSR_VSATP then satp_mode_ok c xlen v
      else if a = CSR_HGATP then v AND 3 = 0
      else if a = CSR_TSELECT then unat v < triggers \<or> v = 0
      else if a = CSR_FFLAGS then v AND NOT 0x1f = 0
      else if a = CSR_FRM then v AND NOT 7 = 0
      else if a = CSR_VXSAT then v AND NOT 1 = 0
      else True)"

definition guarded_keys :: "nat list" where
  "guarded_keys = [CSR_MSTATUS, CSR_VSSTATUS, CSR_MNSTATUS, CSR_MEPC, CSR_SEPC, CSR_VSEPC, CSR_MNEPC,
     CSR_DPC, CSR_MTVEC, CSR_STVEC, CSR_VSTVEC, CSR_MIDELEG, CSR_MEDELEG, CSR_MISA, CSR_SATP, CSR_VSATP,
     CSR_HGATP, CSR_TSELECT, CSR_FFLAGS, CSR_FRM, CSR_VXSAT]"

lemma key_ok_unguarded: "a \<notin> set guarded_keys \<Longrightarrow> key_ok c x n a v"
  by (simp add: guarded_keys_def key_ok_def)

text \<open>An object is safe when the key it stores to is the one its class masks for.\<close>

primrec safe_object :: "csr \<Rightarrow> bool" where
  "safe_object (Basic_csr a) = (a \<notin> set guarded_keys)"
| "safe_object (Pmpaddr_csr i) = True"
| "safe_object (Pmpcfg_csr a) = True"
| "safe_object Mseccfg_csr = True"
| "safe_object (Virtualized_csr orig virt) = (safe_object orig \<and> safe_object virt)"
| "safe_object (Epc_csr a) = (a \<in> {CSR_MEPC, CSR_SEPC, CSR_VSEPC, CSR_MNEPC})"
| "safe_object (Tvec_csr a) = (a \<in> {CSR_MTVEC, CSR_STVEC, CSR_VSTVEC})"
| "safe_object (Cause_csr a) = (a \<notin> set guarded_keys)"
| "safe_object Vsstatus_csr = True"
| "safe_object Mstatus_csr = True"
| "safe_object Sstatus_proxy_csr = True"
| "safe_object Sstatus_csr = True"
| "safe_object Mnstatus_csr = True"
| "safe_object (Rv32_low_csr a orig) = safe_object orig"
| "safe_object (Rv32_high_csr a orig) = safe_object orig"
| "safe_object Misa_csr = True"
| "safe_object Mip_csr = True"
| "safe_object Mie_csr = True"
| "safe_object (Mip_proxy_csr a accr) = True"
| "safe_object (Mie_proxy_csr a accr) = True"
| "safe_object Mideleg_csr = True"
| "safe_object Medeleg_csr = True"
| "safe_object (Masked_csr a msk) = (a \<notin> set guarded_keys)"
| "safe_object (Henvcfg_csr msk) = True"
| "safe_object (Base_atp_csr a) = (a \<in> {CSR_SATP, CSR_VSATP})"
| "safe_object Satp_csr = True"
| "safe_object Virtualized_satp_csr = True"
| "safe_object (Wide_counter_csr a) = (a \<notin> set guarded_keys)"
| "safe_object Time_counter_csr = True"
| "safe_object (Proxy_csr a delegate) = safe_object delegate"
| "safe_object (Const_csr a v) = True"
| "safe_object (Counter_proxy_csr a delegate) = safe_object delegate"
| "safe_object (Mevent_csr a) = (a \<notin> set guarded_keys)"
| "safe_object (Hypervisor_csr a) = (a \<notin> set guarded_keys)"
| "safe_object Hideleg_csr = True"
| "safe_object Hgatp_csr = True"
| "safe_object Tselect_csr = True"
| "safe_object Tdata1_csr = True"
| "safe_object Tdata2_csr = True"
| "safe_object Tdata3_csr = True"
| "safe_object Tinfo_csr = True"
| "safe_object (Debug_mode_csr a) = (a \<notin> set guarded_keys)"
| "safe_object Dpc_csr = True"
| "safe_object Dcsr_csr = True"
| "safe_object (Float_csr a msk) = (a = CSR_FFLAGS \<and> msk = 0x1f \<or> a = CSR_FRM \<and> msk = 7)"
| "safe_object (Composite_csr a upper lower lsb) = (safe_object upper \<and> safe_object lower)"
| "safe_object Seed_csr = True"
| "safe_object (Vector_csr a msk) = (a \<notin> set guarded_keys)"
| "safe_object Vxsat_csr = True"
| "safe_object (Hstateen_csr msk i) = (CSR_HSTATEEN0 + i \<notin> set guarded_keys)"
| "safe_object (Sstateen_csr msk i) = (CSR_SSTATEEN0 + i \<notin> set guarded_keys)"
| "safe_object (Senvcfg_csr msk) = True"
| "safe_object (Stimecmp_csr a msk) = (a \<notin> set guarded_keys)"
| "safe_object Virtualized_stimecmp_csr = True"
| "safe_object Scountovf_csr = True"
| "safe_object Jvt_csr = True"

definition csr_ok :: "hart \<Rightarrow> bool" where
  "csr_ok h \<longleftrightarrow> (\<forall>a. key_ok (cfg h) (h_xlen h) (length (tm h)) a (csrv h a)) \<and>
     (\<forall>a c. csrmap h a = Some c \<longrightarrow> safe_object c) \<and> pmp_wf (pmp h) \<and>
     misa_closed (max_isa (cfg h)) \<and> h_xlen h \<in> {32, 64}"

lemma csr_ok_key: "csr_ok h \<Longrightarrow> key_ok (cfg h) (h_xlen h) (length (tm h)) a (csrv h a)"
  by (simp add: csr_ok_def)

lemma csr_ok_write:
  "csr_ok h \<Longrightarrow> key_ok (cfg h) (h_xlen h) (length (tm h)) a v \<Longrightarrow> csr_ok (write_csrv a v h)"
  by (simp add: csr_ok_def write_csrv_def)

lemma csr_ok_write_free:
  "csr_ok h \<Longrightarrow> a \<notin> set guarded_keys \<Longrightarrow> csr_ok (write_csrv a v h)"
  by (simp add: csr_ok_write key_ok_unguarded)

lemma csr_ok_frame [simp]:
  "csr_ok (h\<lparr>mmu := m\<rparr>) = csr_ok h"
  "csr_ok (h\<lparr>extension_enable_table := t\<rparr>) = csr_ok h"
  "csr_ok (h\<lparr>dcsr := d\<rparr>) = csr_ok h"
  "csr_ok (h\<lparr>check_triggers_icount := b\<rparr>) = csr_ok h"
  "csr_ok (h\<lparr>h_pc := p\<rparr>) = csr_ok h"
  "csr_ok (h\<lparr>h_prv := p\<rparr>) = csr_ok h"
  "csr_ok (h\<lparr>h_v := b\<rparr>) = csr_ok h"
  "csr_ok (h\<lparr>debug_mode := b\<rparr>) = csr_ok h"
  by (simp_all add: csr_ok_def)

lemma csr_ok_flush [simp]:
  "csr_ok (hart_flush_tlb h) = csr_ok h" "csr_ok (maybe_flush_tlb n p h) = csr_ok h"
  "csr_ok (set_extension_enable e b h) = csr_ok h"
  by (simp_all add: hart_flush_tlb_def maybe_flush_tlb_def set_extension_enable_def)

text \<open>Fields a write may not touch.\<close>

lemma frame_simps [simp]:
  "csrv (write_csrv a v h) b = (if b = a then v else csrv h b)"
  "cfg (write_csrv a v h) = cfg h" "h_xlen (write_csrv a v h) = h_xlen h" "tm (write_csrv a v h) = tm h"
  "pmp (write_csrv a v h) = pmp h" "csrmap (write_csrv a v h) = csrmap h"
  "sstatus_write_mask (write_csrv a v h) = sstatus_write_mask h" "h_v (write_csrv a v h) = h_v h"
  "h_prv (write_csrv a v h) = h_prv h" "debug_mode (write_csrv a v h) = debug_mode h"
  "csrv (hart_flush_tlb h) = csrv h" "cfg (hart_flush_tlb h) = cfg h" "h_xlen (hart_flush_tlb h) = h_xlen h"
  "tm (hart_flush_tlb h) = tm h" "pmp (hart_flush_tlb h) = pmp h" "csrmap (hart_flush_tlb h) = csrmap h"
  "sstatus_write_mask (hart_flush_tlb h) = sstatus_write_mask h" "h_v (hart_flush_tlb h) = h_v h"
  "h_prv (hart_flush_tlb h) = h_prv h" "debug_mode (hart_flush_tlb h) = debug_mode h"
  by (simp_all add: write_csrv_def hart_flush_tlb_def)

lemma flush_frame [simp]:
  "csrv (maybe_flush_tlb n p h) = csrv h" "cfg (maybe_flush_tlb n p h) = cfg h"
  "h_xlen (maybe_flush_tlb n p h) = h_xlen h" "tm (maybe_flush_tlb n p h) = tm h"
  "pmp (maybe_flush_tlb n p h) = pmp h" "csrmap (maybe_flush_tlb n p h) = csrmap h"
  "sstatus_write_mask (maybe_flush_tlb n p h) = sstatus_write_mask h"
  "h_v (maybe_flush_tlb n p h) = h_v h" "h_prv (maybe_flush_tlb n p h) = h_prv h"
  by (simp_all add: maybe_flush_tlb_def)

subsection \<open>Each write keeps the invariant\<close>

lemma adjust_sd_consistent: "sd_consistent (h_xlen h) (adjust_sd v h)"
proof -
  have "\<And>w::reg_t. (w OR SSTATUS64_SD) AND SSTATUS_FS = w AND SSTATUS_FS"
    by (simp add: bit.conj_disj_distrib2)
  show ?thesis
    by (simp add: sd_consistent_def adjust_sd_def Let_def bit.conj_disj_distrib2 and.assoc)
qed

lemma get_field_cong: "a AND m = b AND m \<Longrightarrow> get_field a m = get_field b m"
  by (simp add: get_field_def)

lemma masked_merge:
  "m AND x = x \<Longrightarrow> ((a AND NOT m) OR (b AND m)) AND x = b AND (x :: 'a::len word)"
  by (auto simp: bit_eq_iff bit_simps)

lemma masked_merge_out:
  "m AND x = 0 \<Longrightarrow> ((a AND NOT m) OR (b AND m)) AND x = a AND (x :: 'a::len word)"
  by (auto simp: bit_eq_iff bit_simps)

lemma bit_shr_1: "shr w n AND 1 \<noteq> 0 \<longleftrightarrow> bit (w :: 'a::len word) n"
  by (simp add: and_one_eq bit_iff_odd_drop_bit flip: odd_iff_mod_2_eq_one)

lemma and_shl_1: "w AND shl 1 n \<noteq> 0 \<longleftrightarrow> bit (w :: 'a::len word) n"
proof
  assume "w AND shl 1 n \<noteq> 0"
  then obtain i where "bit (w AND shl 1 n) i" by (rule word_nonzero_bit)
  then show "bit w n" by (auto simp: bit_simps)
next
  assume b: "bit w n"
  then have "bit (w AND shl 1 n) n" by (auto simp: bit_simps dest: bit_imp_le_length)
  then show "w AND shl 1 n \<noteq> 0" by (rule bit_nonzero)
qed

lemma misa_extension_bit: "65 \<le> e \<Longrightarrow> e \<le> 90 \<Longrightarrow>
    extension_enabled e h \<longleftrightarrow> bit (csrv h CSR_MISA) (e - 65)"
  by (simp add: extension_enabled_def misa_extension_enabled_def bit_shr_1)

lemma misa_legal_bits:
  "misa_legal c v \<Longrightarrow> bit v n \<Longrightarrow> bit (max_isa c) n"
  "misa_legal c v \<Longrightarrow> \<not> bit misa_writable n \<Longrightarrow> bit v n = bit (max_isa c) n"
proof -
  assume l: "misa_legal c v"
  then have z: "v AND NOT (max_isa c) = 0"
    and e: "v AND NOT misa_writable = max_isa c AND NOT misa_writable"
    by (simp_all add: misa_legal_def)
  { assume "bit v n"
    moreover have "\<not> bit (v AND NOT (max_isa c)) n" using z by simp
    ultimately show "bit (max_isa c) n" by (auto simp: bit_simps dest: bit_imp_le_length) }
  { assume "\<not> bit misa_writable n"
    with arg_cong [where f = "\<lambda>w. bit w n", OF e] show "bit v n = bit (max_isa c) n"
      by (auto simp: bit_simps dest: bit_imp_le_length) }
qed

lemma csr_ok_misa: "csr_ok h \<Longrightarrow> misa_legal (cfg h) (csrv h CSR_MISA)"
  using csr_ok_key [of h CSR_MISA] by (simp add: key_ok_def)

lemma extension_S_constant:
  "csr_ok h \<Longrightarrow> extension_enabled ISA_S h \<longleftrightarrow> max_isa (cfg h) AND misa_bit ISA_S \<noteq> 0"
  using misa_legal_bits(2) [OF csr_ok_misa, of h 18]
  by (simp only: and_shl_1 misa_extension_bit) (simp add: misa_writable_def bit_or_iff)

lemma legalize_legal:
  assumes "csr_ok h" "legalize_privilege p h = Some q"
  shows "legal_prv (cfg h) q"
  using assms by (auto simp: legalize_privilege_def legal_prv_def extension_S_constant not_less split: if_splits)

lemma mpp_mask: "(MSTATUS_MPP :: reg_t) = field_mask 11 2"
  by (simp add: field_mask_def mask_eq_exp_minus_1)

lemma mnpp_mask: "(MNSTATUS_MNPP :: reg_t) = field_mask 11 2"
  by (simp add: field_mask_def mask_eq_exp_minus_1)

lemma get_set_mpp:
  assumes "legal_prv c q"
  shows "get_field (set_field v MSTATUS_MPP q) MSTATUS_MPP = q"
proof -
  have "unat q < 4" using assms by (simp add: legal_prv_def word_le_nat_alt)
  then have "take_bit 2 q = q"
    by (simp only: word_unat_eq_iff unsigned_take_bit_eq take_bit_nat_eq_self_iff) simp
  then show ?thesis by (simp add: mpp_mask get_set_field)
qed

lemma adjust_sd_other:
  "SSTATUS64_SD AND x = 0 \<Longrightarrow> SSTATUS32_SD AND x = 0 \<Longrightarrow> adjust_sd v h AND x = v AND x"
proof -
  assume z: "SSTATUS64_SD AND x = 0" "SSTATUS32_SD AND x = 0"
  have "(v OR s) AND x = v AND x" "(v AND NOT s) AND x = v AND x" if "s AND x = 0" for s
    using that by (auto simp: bit_eq_iff bit_and_iff bit_or_iff bit_not_iff)
  then show ?thesis using z by (simp add: adjust_sd_def Let_def)
qed

lemma mstatus_mask_mpp: "mstatus_mask h AND MSTATUS_MPP = MSTATUS_MPP"
  by (rule bit_word_eqI) (simp only: mstatus_mask_def bit_or_iff bit_and_iff; blast)

lemma mstatus_write_mpp:
  assumes "mstatus_unlogged_write val h = Some (b, h')"
  shows "\<exists>q v. legalize_privilege (get_field val MSTATUS_MPP) h = Some q \<and>
      h' = write_csrv CSR_MSTATUS (adjust_sd v (maybe_flush_tlb v (mstatus_read h) h))
             (maybe_flush_tlb v (mstatus_read h) h) \<and>
      v = (mstatus_read h AND NOT (mstatus_mask h)) OR (set_field val MSTATUS_MPP q AND mstatus_mask h)"
  using assms by (auto simp: mstatus_unlogged_write_def Let_def split: option.splits)

lemma mstatus_write_ok:
  assumes ok: "csr_ok h" and w: "mstatus_unlogged_write val h = Some (b, h')"
  shows "csr_ok h'"
proof -
  obtain q v where q: "legalize_privilege (get_field val MSTATUS_MPP) h = Some q"
    and h': "h' = write_csrv CSR_MSTATUS (adjust_sd v (maybe_flush_tlb v (mstatus_read h) h))
             (maybe_flush_tlb v (mstatus_read h) h)"
    and v: "v = (mstatus_read h AND NOT (mstatus_mask h)) OR (set_field val MSTATUS_MPP q AND mstatus_mask h)"
    using mstatus_write_mpp [OF w] by auto
  note l = legalize_legal [OF ok q]
  have "adjust_sd v k AND MSTATUS_MPP = v AND MSTATUS_MPP" for k
    by (rule adjust_sd_other) simp_all
  moreover have "v AND MSTATUS_MPP = set_field val MSTATUS_MPP q AND MSTATUS_MPP"
    unfolding v by (rule masked_merge) (rule mstatus_mask_mpp)
  ultimately have "get_field (adjust_sd v k) MSTATUS_MPP = q" for k
    using get_set_mpp [OF l] by (metis get_field_cong)
  then show ?thesis
    using ok l adjust_sd_consistent [of "maybe_flush_tlb v (mstatus_read h) h" v]
    by (simp add: h' csr_ok_write key_ok_def)
qed

lemma vsstatus_write_ok: "csr_ok h \<Longrightarrow> csr_ok (snd (vsstatus_unlogged_write val h))"
  using adjust_sd_consistent [of "maybe_flush_tlb _ (vsstatus_read h) h"] adjust_sd_consistent [of h]
  by (auto simp: vsstatus_unlogged_write_def Let_def csr_ok_write key_ok_def)

lemma sstatus_proxy_write_ok:
  "csr_ok h \<Longrightarrow> sstatus_proxy_unlogged_write val h = Some (b, h') \<Longrightarrow> csr_ok h'"
  by (auto simp: sstatus_proxy_unlogged_write_def Let_def dest: mstatus_write_ok split: if_splits)

lemma sstatus_write_ok:
  "csr_ok h \<Longrightarrow> sstatus_unlogged_write val h = Some (b, h') \<Longrightarrow> csr_ok h'"
  by (auto simp: sstatus_unlogged_write_def vsstatus_write_ok dest: sstatus_proxy_write_ok split: if_splits)

lemma sstatus_dirty_ok: "csr_ok h \<Longrightarrow> sstatus_dirty d h = Some h' \<Longrightarrow> csr_ok h'"
  by (auto simp: sstatus_dirty_def vsstatus_write_ok dest: sstatus_proxy_write_ok split: if_splits option.splits)

lemma mnstatus_write_ok:
  assumes ok: "csr_ok h" and w: "mnstatus_unlogged_write val h = Some (b, h')"
  shows "csr_ok h'"
proof -
  define msk where "msk = (NOT (csrv h CSR_MNSTATUS) AND MNSTATUS_NMIE) OR
     (if extension_enabled ISA_H h then MNSTATUS_MNPV else 0) OR MNSTATUS_MNPP"
  obtain q where q: "legalize_privilege (get_field val MNSTATUS_MNPP) h = Some q"
    and h': "h' = write_csrv CSR_MNSTATUS ((csrv h CSR_MNSTATUS AND NOT msk) OR
                  (set_field val MNSTATUS_MNPP q AND msk)) h"
    using w by (auto simp: mnstatus_unlogged_write_def Let_def msk_def split: option.splits)
  note l = legalize_legal [OF ok q]
  have "msk AND MNSTATUS_MNPP = MNSTATUS_MNPP"
    by (rule bit_word_eqI) (simp only: msk_def bit_or_iff bit_and_iff; blast)
  then have "get_field ((csrv h CSR_MNSTATUS AND NOT msk) OR (set_field val MNSTATUS_MNPP q AND msk)) MNSTATUS_MNPP
      = get_field (set_field val MNSTATUS_MNPP q) MNSTATUS_MNPP"
    by (rule get_field_cong [OF masked_merge])
  also have "\<dots> = q" using get_set_mpp [OF l] by simp
  finally show ?thesis using ok l by (simp add: h' csr_ok_write key_ok_def)
qed

lemmas free_keys = csr_ok_write_free guarded_keys_def

lemma write_with_mask_ok:
  "csr_ok h \<Longrightarrow> a \<notin> set guarded_keys \<Longrightarrow> csr_ok (write_with_mask a m v h)"
  "csr_ok h \<Longrightarrow> csr_ok (backdoor_write_with_mask m v h)"
  "csr_ok h \<Longrightarrow> a \<notin> set guarded_keys \<Longrightarrow> csr_ok (snd (masked_write a old m v h))"
  by (simp_all add: write_with_mask_def backdoor_write_with_mask_def masked_write_def csr_ok_write_free
      guarded_keys_def)

lemma masked_unlogged_ok:
  "csr_ok h \<Longrightarrow> a \<notin> set guarded_keys \<Longrightarrow> csr_ok (snd (masked_unlogged_write a m v h))"
  by (simp add: masked_unlogged_write_def write_with_mask_ok)

lemma interrupt_views_ok:
  "csr_ok h \<Longrightarrow> csr_ok (ip_write accr v h)" "csr_ok h \<Longrightarrow> csr_ok (ie_write accr v h)"
  by (simp_all add: ip_write_def ie_write_def Let_def write_with_mask_ok guarded_keys_def)

lemma mideleg_write_ok: "csr_ok h \<Longrightarrow> csr_ok (snd (mideleg_unlogged_write v h))"
proof -
  assume ok: "csr_ok h"
  define m where "m = (if extension_enabled ISA_S h then MIP_SSIP OR MIP_STIP OR MIP_SEIP else 0)
     OR shl (of_bool (any_custom_extensions h)) IRQ_COP OR (if extension_enabled EXT_SSCOFPMF h then MIP_LCOFIP else 0)"
  have "m AND NOT delegable_ints = 0" by (simp add: m_def delegable_ints_def)
  then have "(v AND m) AND NOT delegable_ints = 0" by (simp add: and.assoc)
  then show ?thesis
    using ok by (simp add: mideleg_unlogged_write_def Let_def m_def csr_ok_write key_ok_def)
qed

lemma subset_merge:
  assumes "old AND NOT d = 0" "m AND NOT d = 0"
  shows "((old AND NOT m) OR (v AND m)) AND NOT d = (0 :: 'a::len word)"
proof (rule bit_word_eqI)
  fix n assume "n < LENGTH('a)"
  then show "bit (((old AND NOT m) OR (v AND m)) AND NOT d) n = bit (0 :: 'a word) n"
    using arg_cong [where f = "\<lambda>w. bit w n", OF assms(1)] arg_cong [where f = "\<lambda>w. bit w n", OF assms(2)]
    by (auto simp: bit_simps)
qed

lemma medeleg_write_ok: "csr_ok h \<Longrightarrow> csr_ok (snd (medeleg_unlogged_write v h))"
proof -
  assume ok: "csr_ok h"
  have old: "csrv h CSR_MEDELEG AND NOT delegable_exceptions = 0"
    using csr_ok_key [OF ok, of CSR_MEDELEG] by (simp add: key_ok_def)
  define m where "m = exception_bit CAUSE_MISALIGNED_FETCH OR exception_bit CAUSE_FETCH_ACCESS
           OR exception_bit CAUSE_ILLEGAL_INSTRUCTION OR exception_bit CAUSE_BREAKPOINT
           OR exception_bit CAUSE_MISALIGNED_LOAD OR exception_bit CAUSE_LOAD_ACCESS
           OR exception_bit CAUSE_MISALIGNED_STORE OR exception_bit CAUSE_STORE_ACCESS
           OR exception_bit CAUSE_USER_ECALL OR exception_bit CAUSE_SUPERVISOR_ECALL
           OR exception_bit CAUSE_FETCH_PAGE_FAULT OR exception_bit CAUSE_LOAD_PAGE_FAULT
           OR exception_bit CAUSE_STORE_PAGE_FAULT
           OR (if extension_enabled ISA_H h then hypervisor_exceptions else 0)"
  have "m AND NOT delegable_exceptions = 0"
    by (simp add: m_def delegable_exceptions_def hedeleg_mask_def hypervisor_exceptions_def)
  from subset_merge [OF old this, of v] show ?thesis
    using ok by (simp add: medeleg_unlogged_write_def Let_def m_def csr_ok_write key_ok_def)
qed

lemma mevent_write_ok:
  "csr_ok h \<Longrightarrow> a \<notin> set guarded_keys \<Longrightarrow> csr_ok (snd (mevent_unlogged_write a v h))"
  by (simp add: mevent_unlogged_write_def Let_def masked_unlogged_ok)

lemma misa_closed_bits:
  "misa_closed v \<longleftrightarrow> (bit v 3 \<longrightarrow> bit v 5) \<and> (bit v 16 \<longrightarrow> bit v 3) \<and> (bit v 21 \<longrightarrow> bit v 3)"
  unfolding misa_closed_def and_shl_1 by simp

lemma bit_dependency:
  "bit (dependency v f d) i \<longleftrightarrow> bit v i \<and> (i = f - ISA_A \<longrightarrow> bit v (d - ISA_A))"
  unfolding dependency_def and_shl_1
  by (auto simp: bit_and_iff bit_not_iff bit_push_bit_iff bit_1_iff dest: bit_imp_le_length simp del: push_bit_of_1)

lemma misa_adjust_closed: "misa_closed (misa_adjust v)"
  by (simp add: misa_closed_bits misa_adjust_def bit_dependency)

lemma merge_closed:
  "(a3 \<longrightarrow> a5) \<and> (a16 \<longrightarrow> a3) \<and> (a21 \<longrightarrow> a3) \<Longrightarrow> (m3 \<longrightarrow> m5) \<and> (m16 \<longrightarrow> m3) \<and> (m21 \<longrightarrow> m3) \<Longrightarrow>
   (o3 \<longrightarrow> m3) \<Longrightarrow> (o5 \<longrightarrow> m5) \<Longrightarrow> (o16 \<longrightarrow> m16) \<Longrightarrow> (o21 \<longrightarrow> m21) \<Longrightarrow>
   ((if m3 then a3 else o3) \<longrightarrow> (if m5 then a5 else o5)) \<and>
   ((if m16 then a16 else o16) \<longrightarrow> (if m3 then a3 else o3)) \<and>
   ((if m21 then a21 else o21) \<longrightarrow> (if m3 then a3 else o3))"
  by (cases m3; cases m5; cases m16; cases m21; simp)

lemma misa_write_legal:
  assumes ok: "csr_ok h"
  shows "misa_legal (cfg h) ((misa_adjust v AND misa_write_mask h) OR (csrv h CSR_MISA AND NOT (misa_write_mask h)))"
proof -
  define m where "m = max_isa (cfg h)"
  define o' where "o' = csrv h CSR_MISA"
  define a where "a = misa_adjust v"
  define n where "n = (a AND misa_write_mask h) OR (o' AND NOT (misa_write_mask h))"
  note old = misa_legal_bits [OF csr_ok_misa [OF ok], folded m_def o'_def]
  have mask: "misa_write_mask h = m AND misa_writable"
    by (simp add: misa_write_mask_def misa_writable_def m_def)
  have n: "bit n i = (if bit m i \<and> bit misa_writable i then bit a i else bit o' i)" for i
    unfolding n_def mask by (auto simp: bit_and_iff bit_or_iff bit_not_iff dest: bit_imp_le_length)
  have w: "bit misa_writable 3" "bit misa_writable 5" "bit misa_writable 16" "bit misa_writable 21"
    by (simp_all add: misa_writable_def)
  have c: "misa_closed m" using ok by (simp add: csr_ok_def m_def)
  have "misa_closed a" unfolding a_def by (rule misa_adjust_closed)
  moreover have "bit o' 3 \<longrightarrow> bit m 3" "bit o' 5 \<longrightarrow> bit m 5" "bit o' 16 \<longrightarrow> bit m 16"
      "bit o' 21 \<longrightarrow> bit m 21"
    using old(1) by blast+
  ultimately have "misa_closed n"
    using c unfolding misa_closed_bits n by (simp only: w simp_thms) (rule merge_closed; assumption)
  moreover have "n AND NOT m = 0"
  proof (rule bit_word_eqI)
    fix i show "bit (n AND NOT m) i = bit 0 i"
      using old(1) [of i] n [of i] by (cases "bit m i") (auto simp: bit_and_iff bit_not_iff)
  qed
  moreover have "n AND NOT misa_writable = m AND NOT misa_writable"
  proof (rule bit_word_eqI)
    fix i show "bit (n AND NOT misa_writable) i = bit (m AND NOT misa_writable) i"
      using old(2) [of i] n [of i] by (cases "bit misa_writable i") (simp_all add: bit_and_iff bit_not_iff)
  qed
  ultimately show ?thesis by (simp add: misa_legal_def n_def m_def a_def o'_def)
qed

lemma set_extensions_frame [simp]:
  "csr_ok (misa_set_extensions m h) = csr_ok h" "csrv (misa_set_extensions m h) = csrv h"
  "cfg (misa_set_extensions m h) = cfg h" "h_xlen (misa_set_extensions m h) = h_xlen h"
  "tm (misa_set_extensions m h) = tm h"
  by (simp_all add: misa_set_extensions_def Let_def set_extension_enable_def)

lemma mevent_clear_loop_ok:
  "csr_ok h \<Longrightarrow> \<forall>i\<in>set is. 3 \<le> i \<and> i < 32 \<Longrightarrow> csr_ok (mevent_clear_loop is h)"
  by (induction "is" h rule: mevent_clear_loop.induct)
     (simp_all add: Let_def mevent_write_ok guarded_keys_def)

text \<open>The configuration is never touched by a register write.\<close>

definition same_cfg :: "hart \<Rightarrow> hart \<Rightarrow> bool" where
  "same_cfg h h' \<longleftrightarrow> cfg h' = cfg h \<and> h_xlen h' = h_xlen h \<and> tm h' = tm h"

lemma mstatus_write_cfg: "mstatus_unlogged_write val h = Some (b, h') \<Longrightarrow> same_cfg h h'"
  by (auto simp: mstatus_unlogged_write_def Let_def same_cfg_def split: option.splits)

lemma mnstatus_write_cfg: "mnstatus_unlogged_write val h = Some (b, h') \<Longrightarrow> same_cfg h h'"
  by (auto simp: mnstatus_unlogged_write_def Let_def same_cfg_def split: option.splits)

lemma same_cfg_simple [simp]:
  "same_cfg h (write_csrv a v h)" "same_cfg h (write_with_mask a m v h)" "same_cfg h h"
  "same_cfg h (snd (masked_unlogged_write a m v h))" "same_cfg h (snd (medeleg_unlogged_write v h))"
  "same_cfg h (snd (mevent_unlogged_write a v h))"
  by (simp_all add: same_cfg_def write_with_mask_def masked_unlogged_write_def masked_write_def
      medeleg_unlogged_write_def mevent_unlogged_write_def Let_def)

lemma same_cfg_trans: "same_cfg a b \<Longrightarrow> same_cfg b c \<Longrightarrow> same_cfg a c"
  by (simp add: same_cfg_def)

lemma mevent_clear_loop_cfg: "same_cfg h (mevent_clear_loop is h)"
  by (induction "is" h rule: mevent_clear_loop.induct)
     (auto simp: Let_def intro: same_cfg_trans [OF same_cfg_simple(6)])

definition keeps :: "hart \<Rightarrow> hart \<Rightarrow> bool" where
  "keeps h h' \<longleftrightarrow> same_cfg h h' \<and> (csr_ok h \<longrightarrow> csr_ok h')"

lemma keeps_trans: "keeps a b \<Longrightarrow> keeps b c \<Longrightarrow> keeps a c"
  by (auto simp: keeps_def intro: same_cfg_trans)

lemma keeps_steps:
  "keeps h (snd (medeleg_unlogged_write v h))"
  "mstatus_unlogged_write v h = Some (b, h') \<Longrightarrow> keeps h h'"
  "drop_h_mnstatus h = Some h' \<Longrightarrow> keeps h h'"
  "drop_h_mstatush n h = Some h' \<Longrightarrow> keeps h h'"
  by (auto simp: keeps_def medeleg_write_ok drop_h_mnstatus_def drop_h_mstatush_def
      dest: mnstatus_write_ok mnstatus_write_cfg mstatus_write_ok mstatus_write_cfg split: if_splits)

lemma keeps_interrupts: "keeps h (drop_h_interrupts h)"
proof -
  have "csr_ok h \<Longrightarrow> csr_ok (drop_h_interrupts h)"
    by (simp add: drop_h_interrupts_def Let_def masked_unlogged_ok write_with_mask_ok guarded_keys_def)
  moreover have "same_cfg h (drop_h_interrupts h)"
    unfolding drop_h_interrupts_def Let_def
    by (rule same_cfg_trans [OF same_cfg_trans [OF same_cfg_simple(2) same_cfg_simple(2)] same_cfg_simple(4)])
  ultimately show ?thesis by (simp add: keeps_def)
qed

lemma keeps_mevents: "keeps h (mevent_clear_loop [3..<N_HPMCOUNTERS + 3] h)"
proof -
  have "\<forall>i\<in>set [3..<N_HPMCOUNTERS + 3]. 3 \<le> i \<and> i < 32" by (simp only: set_upt N_HPMCOUNTERS_def) simp
  then show ?thesis unfolding keeps_def by (blast intro: mevent_clear_loop_cfg mevent_clear_loop_ok)
qed

lemma keeps_drop_h:
  assumes "misa_drop_h h = Some h'"
  shows "keeps h h'"
proof -
  obtain h1 h2 b h3 where
    1: "drop_h_mnstatus (snd (medeleg_unlogged_write (csrv h CSR_MEDELEG AND NOT hypervisor_exceptions) h)) = Some h1"
    and 2: "mstatus_unlogged_write (mstatus_read h1 AND NOT (MSTATUS_GVA OR MSTATUS_MPV)) h1 = Some (b, h2)"
    and 3: "drop_h_mstatush (mstatus_read h1 AND NOT (MSTATUS_GVA OR MSTATUS_MPV)) h2 = Some h3"
    and 4: "h' = mevent_clear_loop [3..<N_HPMCOUNTERS + 3] (drop_h_interrupts h3)"
    using assms unfolding misa_drop_h_def Let_def bind_eq_Some_conv split_paired_Ex prod.case
    by blast
  have "keeps h h3"
    by (rule keeps_trans [OF keeps_trans [OF keeps_trans [OF keeps_steps(1) keeps_steps(3) [OF 1]]
        keeps_steps(2) [OF 2]] keeps_steps(4) [OF 3]])
  then show ?thesis
    unfolding 4 by (rule keeps_trans [OF keeps_trans [OF _ keeps_interrupts] keeps_mevents])
qed

lemma misa_write_ok:
  assumes ok: "csr_ok h" and w: "misa_unlogged_write val h = Some (b, h')"
  shows "csr_ok h'"
proof -
  define m where "m = (misa_adjust val AND misa_write_mask h) OR (csrv h CSR_MISA AND NOT (misa_write_mask h))"
  have l: "misa_legal (cfg h) m" unfolding m_def by (rule misa_write_legal [OF ok])
  let ?k = "misa_set_extensions m h"
  from w consider "h' = h" | k where "k = ?k \<or> misa_drop_h ?k = Some k" "h' = write_csrv CSR_MISA m k"
    unfolding misa_unlogged_write_def Let_def m_def [symmetric]
    by (auto split: if_splits option.splits)
  then show ?thesis
  proof cases
    case 2
    have "same_cfg h ?k" "csr_ok ?k" using ok by (simp_all add: same_cfg_def)
    then have "csr_ok k" "same_cfg h k"
      using 2(1) keeps_drop_h [of ?k k] by (auto simp: keeps_def intro: same_cfg_trans)
    then show ?thesis using l unfolding 2(2) by (simp add: same_cfg_def key_ok_def csr_ok_write)
  qed (use ok in simp)
qed

lemma satp_mask_disjoint:
  "(SATP64_MODE :: reg_t) AND SATP64_ASID = 0" "(SATP64_MODE :: reg_t) AND SATP64_PPN = 0"
  "(SATP32_MODE :: reg_t) AND SATP32_ASID = 0" "(SATP32_MODE :: reg_t) AND SATP32_PPN = 0"
  by simp_all

lemma compute_new_satp_mode:
  "compute_new_satp a val h AND (if h_xlen h = 32 then SATP32_MODE else SATP64_MODE) =
     (if satp_valid val h then val else csrv h a) AND (if h_xlen h = 32 then SATP32_MODE else SATP64_MODE)"
proof -
  have r: "((((if ok then md else 0) OR as OR p) AND v) OR ((if ok then 0 else md) AND o')) AND md
      = (if ok then v else o') AND md" if "as AND md = 0" "p AND md = 0" for ok and md as p v o' :: reg_t
    using that by (cases ok) (auto simp: bit_eq_iff bit_simps)
  have z: "(x AND SATP64_PPN AND w) AND SATP64_MODE = 0" "(SATP64_PPN AND w) AND SATP64_MODE = 0" for x w :: reg_t
    by (simp_all add: ac_simps)
  show ?thesis
    unfolding compute_new_satp_def Let_def
    by (cases "h_xlen h = 32"; simp only: if_True if_False refl simp_thms; rule r)
       (simp_all add: ac_simps)
qed

lemma satp_mode_cong:
  assumes "v AND (if xlen = 32 then SATP32_MODE else SATP64_MODE) = w AND (if xlen = 32 then SATP32_MODE else SATP64_MODE)"
  shows "satp_mode_ok c xlen v = satp_mode_ok c xlen w"
  using assms by (cases "xlen = 32") (simp_all add: satp_mode_ok_def get_field_def Let_def)

lemma sv32_mode_zero: "get_field (v :: reg_t) SATP32_MODE = 0 \<Longrightarrow> v AND SATP32_MODE = 0"
proof -
  have "(SATP32_MODE :: reg_t) = field_mask 31 1" by (simp add: field_mask_def mask_eq_exp_minus_1)
  moreover have "get_field v (field_mask 31 1) = take_bit 1 (shr v 31)"
    by (rule get_field_contiguous) simp_all
  ultimately have g: "get_field v SATP32_MODE = take_bit 1 (shr v 31)" by (simp only:)
  assume "get_field v SATP32_MODE = 0"
  with g have "take_bit 1 (shr v 31) = 0" by simp
  then have "\<not> bit v 31" by (simp add: bit_iff_odd_drop_bit even_iff_mod_2_eq_zero)
  then show ?thesis
    using and_shl_1 [of v 31] by simp
qed

lemma satp_valid_mode: "satp_valid v h \<Longrightarrow> satp_mode_ok (cfg h) (h_xlen h) v"
  by (auto simp: satp_valid_def satp_mode_ok_def supports_impl_def Let_def sv32_mode_zero split: if_splits)

lemma base_atp_write_ok:
  assumes ok: "csr_ok h" and a: "a \<in> {CSR_SATP, CSR_VSATP}"
  shows "csr_ok (snd (base_atp_unlogged_write a val h))"
proof -
  have old: "satp_mode_ok (cfg h) (h_xlen h) (csrv h a)"
    using csr_ok_key [OF ok, of a] a by (auto simp: key_ok_def)
  have "satp_mode_ok (cfg h) (h_xlen h) (compute_new_satp a val h)"
    using satp_mode_cong [OF compute_new_satp_mode [of a val h], of "cfg h"] old satp_valid_mode
    by (auto split: if_splits)
  moreover have "satp_mode_ok (cfg h) (h_xlen h) 0"
    by (simp add: satp_mode_ok_def get_field_def)
  ultimately have "key_ok (cfg h) (h_xlen h) (length (tm h)) a
      (if supports_impl IMPL_MMU h then compute_new_satp a val h else 0)"
    using a by (auto simp: key_ok_def)
  then show ?thesis
    using ok by (auto simp: base_atp_unlogged_write_def Let_def intro: csr_ok_write)
qed

lemma virtualized_satp_write_ok: "csr_ok h \<Longrightarrow> csr_ok (snd (virtualized_satp_unlogged_write v h))"
  by (simp add: virtualized_satp_unlogged_write_def Let_def base_atp_write_ok)

lemma hgatp_write_ok:
  assumes ok: "csr_ok h"
  shows "csr_ok (snd (hgatp_unlogged_write val h))"
proof -
  have old: "csrv h CSR_HGATP AND NOT (NOT 3) = 0"
    using csr_ok_key [OF ok, of CSR_HGATP] by (simp add: key_ok_def)
  have m: "(m AND NOT 3) AND NOT (NOT 3) = (0 :: reg_t)" for m by (simp add: and.assoc)
  show ?thesis
    unfolding hgatp_unlogged_write_def Let_def masked_unlogged_write_def masked_write_def snd_conv
    by (rule csr_ok_write) (use ok subset_merge [OF old m] in \<open>simp_all add: key_ok_def del: and.assoc\<close>)
qed

lemma stimecmp_write_ok:
  "csr_ok h \<Longrightarrow> a \<notin> set guarded_keys \<Longrightarrow> csr_ok (snd (stimecmp_unlogged_write a m v h))"
  by (simp add: stimecmp_unlogged_write_def Let_def csr_ok_write_free write_with_mask_ok)

lemma tselect_write_ok: "csr_ok h \<Longrightarrow> csr_ok (snd (tselect_unlogged_write v h))"
  using csr_ok_key [of h CSR_TSELECT]
  by (auto simp: tselect_unlogged_write_def key_ok_def intro!: csr_ok_write)

lemma trigger_updated_ok:
  "csr_ok (h\<lparr>tm := ts\<rparr>) \<Longrightarrow> csr_ok (trigger_updated ts (h\<lparr>tm := ts\<rparr>))"
  by (simp add: trigger_updated_def Let_def)

lemma csr_ok_tm: "csr_ok h \<Longrightarrow> length ts = length (tm h) \<Longrightarrow> csr_ok (h\<lparr>tm := ts\<rparr>)"
  by (simp add: csr_ok_def)

lemma module_writes_length:
  "module_tdata1_write e i v ts = Some (ok, ts') \<Longrightarrow> length ts' = length ts"
  "module_tdata2_write e i v ts = Some (ok, ts') \<Longrightarrow> length ts' = length ts"
  "module_tdata3_write e i v ts = Some (ok, ts') \<Longrightarrow> length ts' = length ts"
  by (auto simp: module_tdata1_write_def module_tdata2_write_def module_tdata3_write_def Let_def
      split: if_splits option.splits)

lemma tm_lift_ok:
  "csr_ok h \<Longrightarrow> (\<And>ok ts. r = Some (ok, ts) \<Longrightarrow> length ts = length (tm h)) \<Longrightarrow>
   tm_lift r h = Some (b, h') \<Longrightarrow> csr_ok h'"
  by (auto simp: tm_lift_def trigger_updated_ok csr_ok_tm split: option.splits if_splits)

lemma pmp_lift_ok:
  assumes "csr_ok h" "pmp_step (pmp h) (snd (snd r))" "pmp_lift r h = Some (b, h')"
  shows "csr_ok h'"
proof -
  have "pmp_wf (snd (snd r))" using assms(1,2) pmp_step_wf by (auto simp: csr_ok_def)
  then have "csr_ok (h\<lparr>pmp := snd (snd r)\<rparr>)" using assms(1) by (simp add: csr_ok_def)
  then show ?thesis using assms(3) by (auto simp: pmp_lift_def Let_def split: prod.splits)
qed

lemma float_write_ok:
  assumes "csr_ok h" "a = CSR_FFLAGS \<and> m = 0x1f \<or> a = CSR_FRM \<and> m = 7"
    and "float_unlogged_write a m v h = Some (b, h')"
  shows "csr_ok h'"
proof -
  obtain k where k: "sstatus_dirty SSTATUS_FS h = Some k" "h' = snd (masked_unlogged_write a m v k)"
    using assms(3) by (auto simp: float_unlogged_write_def)
  have ok: "csr_ok k" by (rule sstatus_dirty_ok [OF assms(1) k(1)])
  have "csrv k a AND NOT m = 0" using csr_ok_key [OF ok, of a] assms(2) by (auto simp: key_ok_def)
  from subset_merge [OF this, of m v] show ?thesis
    using ok assms(2) unfolding k(2) masked_unlogged_write_def masked_write_def snd_conv
    by (intro csr_ok_write) (auto simp: key_ok_def)
qed

lemma vector_write_ok:
  "csr_ok h \<Longrightarrow> a \<notin> set guarded_keys \<Longrightarrow> vector_unlogged_write a m v h = Some (b, h') \<Longrightarrow> csr_ok h'"
  by (auto simp: vector_unlogged_write_def csr_ok_write_free dest: sstatus_dirty_ok split: if_splits)

lemma silent_Some: "silent r = Some (b, h') \<Longrightarrow> \<exists>c. r = Some (c, h')"
  by (auto simp: silent_def)

lemma snd_ok: "csr_ok (snd r) \<Longrightarrow> r = (b, h') \<Longrightarrow> csr_ok h'"
  by simp

lemma constant_keys:
  "CSR_HENVCFG \<notin> set guarded_keys" "CSR_HIDELEG \<notin> set guarded_keys" "CSR_SENVCFG \<notin> set guarded_keys"
  "CSR_STIMECMP \<notin> set guarded_keys" "CSR_VSTIMECMP \<notin> set guarded_keys" "CSR_MIP \<notin> set guarded_keys"
  "CSR_MIE \<notin> set guarded_keys" "CSR_JVT \<notin> set guarded_keys"
  by (simp_all add: guarded_keys_def)

lemma free_pair_writes_ok:
  assumes "csr_ok h" "a \<notin> set guarded_keys"
  shows "csr_ok (snd (wide_counter_unlogged_write a v h))" "csr_ok (snd (masked_write a old m v h))"
    "csr_ok (snd (dcsr_unlogged_write v h))"
  using assms by (simp_all add: wide_counter_unlogged_write_def csr_ok_write_free write_with_mask_ok
      dcsr_unlogged_write_def)

lemma stateen_writes_ok:
  "csr_ok h \<Longrightarrow> CSR_HSTATEEN0 + i \<notin> set guarded_keys \<Longrightarrow> csr_ok (snd (hstateen_unlogged_write m i v h))"
  "csr_ok h \<Longrightarrow> CSR_SSTATEEN0 + i \<notin> set guarded_keys \<Longrightarrow> csr_ok (snd (sstateen_unlogged_write m i v h))"
  by (simp_all add: hstateen_unlogged_write_def sstateen_unlogged_write_def Let_def free_pair_writes_ok)

lemma envcfg_writes_ok:
  "csr_ok h \<Longrightarrow> csr_ok (snd (henvcfg_unlogged_write m v h))"
  "csr_ok h \<Longrightarrow> csr_ok (snd (hideleg_unlogged_write v h))"
  "csr_ok h \<Longrightarrow> csr_ok (snd (masked_unlogged_write CSR_SENVCFG m v h))"
  by (simp_all add: henvcfg_unlogged_write_def hideleg_unlogged_write_def free_pair_writes_ok constant_keys
      masked_unlogged_ok)

lemmas pair_writes_ok = vsstatus_write_ok [THEN snd_ok] mideleg_write_ok [THEN snd_ok]
  medeleg_write_ok [THEN snd_ok] mevent_write_ok [THEN snd_ok] masked_unlogged_ok [THEN snd_ok]
  base_atp_write_ok [THEN snd_ok] virtualized_satp_write_ok [THEN snd_ok] hgatp_write_ok [THEN snd_ok]
  stimecmp_write_ok [THEN snd_ok] tselect_write_ok [THEN snd_ok] free_pair_writes_ok [THEN snd_ok]
  stateen_writes_ok [THEN snd_ok] envcfg_writes_ok [THEN snd_ok]

lemmas option_writes_ok = mstatus_write_ok sstatus_proxy_write_ok sstatus_write_ok mnstatus_write_ok
  misa_write_ok

lemma unlogged_write_ok:
  "csr_unlogged_write c val h = Some (b, h') \<Longrightarrow> safe_object c \<Longrightarrow> csr_ok h \<Longrightarrow> csr_ok h'"
proof (induction c arbitrary: val h b h')
  case (Composite_csr a upper lower lsb)
  then show ?case by (force split: option.splits dest: silent_Some)
next
  case (Virtualized_csr orig virt)
  then show ?case by (force split: if_splits dest: silent_Some)
next
  case (Pmpaddr_csr i)
  then show ?case using pmp_lift_ok pmp_step.addr by fastforce
next
  case (Pmpcfg_csr i)
  then show ?case using pmp_lift_ok pmp_step.cfg by fastforce
next
  case Mseccfg_csr
  then show ?case using pmp_lift_ok pmp_step.sec by fastforce
next
  case Tdata1_csr
  then show ?case by (auto intro: tm_lift_ok module_writes_length)
next
  case Tdata2_csr
  then show ?case by (auto intro: tm_lift_ok module_writes_length)
next
  case Tdata3_csr
  then show ?case by (auto intro: tm_lift_ok module_writes_length)
next
  case (Epc_csr a)
  then show ?case by (auto intro!: csr_ok_write simp: key_ok_def and.assoc)
next
  case (Tvec_csr a)
  then show ?case by (auto intro!: csr_ok_write simp: key_ok_def and.assoc)
next
  case Dpc_csr
  then show ?case by (auto intro!: csr_ok_write simp: key_ok_def and.assoc)
next
  case Vxsat_csr
  then obtain k where k: "sstatus_dirty SSTATUS_VS h = Some k"
    and h': "h' = snd (masked_unlogged_write CSR_VXSAT 1 val k)" by auto
  have ok: "csr_ok k" by (rule sstatus_dirty_ok [OF Vxsat_csr.prems(3) k])
  have "csrv k CSR_VXSAT AND NOT 1 = 0" using csr_ok_key [OF ok, of CSR_VXSAT] by (simp add: key_ok_def)
  from subset_merge [OF this, of 1 val] show ?case
    unfolding h' masked_unlogged_write_def masked_write_def snd_conv
    by (intro csr_ok_write [OF ok]) (simp add: key_ok_def)
next
  case (Float_csr a msk)
  then show ?case using float_write_ok [of h a msk val b h'] by simp
next
  case (Vector_csr a msk)
  then show ?case using vector_write_ok [of h a msk val b h'] by simp
next
  case (Rv32_low_csr a orig)
  then show ?case by simp
next
  case (Rv32_high_csr a orig)
  then show ?case by simp
next
  case Virtualized_stimecmp_csr
  then show ?case by (auto simp: stimecmp_write_ok constant_keys)
next
  case Dcsr_csr
  then show ?case by (auto simp: dcsr_unlogged_write_def)
qed (auto simp: csr_ok_write_free constant_keys write_with_mask_ok interrupt_views_ok
      dest!: silent_Some intro: pair_writes_ok option_writes_ok)

text \<open>Writes by register number, and what reset installs.\<close>

lemma put_csr_ok: "put_csr a v h = Some h' \<Longrightarrow> csr_ok h \<Longrightarrow> csr_ok h'"
proof -
  assume p: "put_csr a v h = Some h'" and ok: "csr_ok h"
  show "csr_ok h'"
  proof (cases "csrmap h a")
    case None then show ?thesis using p ok by (simp add: put_csr_def)
  next
    case (Some c)
    then have "safe_object c" using ok by (auto simp: csr_ok_def)
    then show ?thesis using p Some ok by (auto simp: put_csr_def csr_write_def dest: unlogged_write_ok)
  qed
qed

inductive csr_step :: "hart \<Rightarrow> hart \<Rightarrow> bool" where
  put: "put_csr a v h = Some h' \<Longrightarrow> csr_step h h'"

inductive_cases csr_stepE: "csr_step h h'"

interpretation csr_inv: preserved csr_step csr_ok
  by unfold_locales (auto elim: csr_stepE dest: put_csr_ok)

lemma reset_safe: "(a, c) \<in> set (reset_csrs h) \<Longrightarrow> safe_object c"
proof -
  have m: "\<forall>(a, c) \<in> set (reset_machine_csrs h). safe_object c"
    by (auto simp: reset_machine_csrs_def Let_def guarded_keys_def)
  have hp: "\<forall>(a, c) \<in> set (reset_hpm_csrs h i). safe_object c" if "i \<in> set [3..<N_HPMCOUNTERS + 3]" for i
    using that by (auto simp: reset_hpm_csrs_def Let_def guarded_keys_def N_HPMCOUNTERS_def)
  have i: "\<forall>(a, c) \<in> set (reset_interrupt_csrs h). safe_object c"
    by (auto simp: reset_interrupt_csrs_def Let_def guarded_keys_def)
  have s: "\<forall>(a, c) \<in> set (reset_supervisor_csrs h). safe_object c"
    by (auto simp: reset_supervisor_csrs_def Let_def guarded_keys_def)
  have d: "\<forall>(a, c) \<in> set (reset_debug_csrs h). safe_object c"
    by (auto simp: reset_debug_csrs_def Let_def guarded_keys_def)
  have u: "\<forall>(a, c) \<in> set (reset_user_csrs h). safe_object c"
    by (auto simp: reset_user_csrs_def Let_def guarded_keys_def)
  have e: "\<forall>(a, c) \<in> set (reset_envcfg_csrs h). safe_object c"
    by (auto simp: reset_envcfg_csrs_def Let_def guarded_keys_def)
  have o': "\<forall>(a, c) \<in> set (reset_optional_csrs h). safe_object c"
    by (auto simp: reset_optional_csrs_def reset_stateen_csrs_def Let_def guarded_keys_def)
  show "(a, c) \<in> set (reset_csrs h) \<Longrightarrow> safe_object c"
    using m hp i s d u e o' by (force simp: reset_csrs_def simp del: upt_conv_Cons set_upt)
qed

lemma foldl_map_upd:
  "foldl (\<lambda>m (a, c). m(a \<mapsto> c)) m xs a = Some c \<Longrightarrow> m a = Some c \<or> (a, c) \<in> set xs"
  by (induction xs arbitrary: m) (fastforce split: if_splits)+

text \<open>A hart before its first reset: no register object yet.\<close>

definition hart_fresh :: "hart \<Rightarrow> bool" where
  "hart_fresh h \<longleftrightarrow> csrmap h = (\<lambda>_. None) \<and> max_xlen (cfg h) \<in> {32, 64} \<and> misa_closed (max_isa (cfg h)) \<and>
     n_pmp (pmp h) \<le> max_pmp \<and> PMP_SHIFT \<le> lg_pmp_granularity (pmp h) \<and> csrv h CSR_JVT = 0"

lemma set_field_0_cases:
  "mstatus_initial_value h = Some m \<Longrightarrow> m = 0 \<or> m = 0x200000000 \<or> m = 0x800000000 \<or> m = 0xa00000000"
  by (auto simp: mstatus_initial_value_def xlen_to_uxl_def set_field_def split: if_splits option.splits)

lemma and_zero_shrink: "m AND y = 0 \<Longrightarrow> (m AND x) AND y = (0 :: reg_t)"
  by (auto simp: bit_eq_iff bit_and_iff)

lemma initial_mstatus_ok:
  assumes "mstatus_initial_value h = Some m" "n \<in> {32, 64}"
  shows "key_ok c n t CSR_MSTATUS m" "key_ok c n t CSR_VSSTATUS (m AND x)"
proof -
  have "m AND SSTATUS_FS = 0" "m AND SSTATUS_VS = 0" "m AND SSTATUS_XS = 0" "m AND SSTATUS64_SD = 0"
      "m AND SSTATUS32_SD = 0" "m AND MSTATUS_MPP = 0"
    using set_field_0_cases [OF assms(1)] by auto
  moreover from this have "(m AND x) AND SSTATUS_FS = 0" "(m AND x) AND SSTATUS_VS = 0"
      "(m AND x) AND SSTATUS_XS = 0" "(m AND x) AND SSTATUS64_SD = 0" "(m AND x) AND SSTATUS32_SD = 0"
    by (simp_all only: and_zero_shrink)
  ultimately show "key_ok c n t CSR_MSTATUS m" "key_ok c n t CSR_VSSTATUS (m AND x)"
    using assms(2) by (auto simp: key_ok_def sd_consistent_def legal_prv_def get_field_def simp del: and.assoc)
qed

lemma key_ok_zero: "a \<noteq> CSR_MISA \<Longrightarrow> n \<in> {32, 64} \<Longrightarrow> key_ok c n t a 0"
  by (auto simp: key_ok_def sd_consistent_def legal_prv_def get_field_def satp_mode_ok_def)

lemma reset_values_ok:
  assumes "mstatus_initial_value h = Some m" "h_xlen h \<in> {32, 64}" "misa_closed (max_isa (cfg h))" "csrv h CSR_JVT = 0"
  shows "key_ok (cfg h) (h_xlen h) t a (reset_values m uxl h a)"
proof -
  have "misa_legal (cfg h) (max_isa (cfg h))" using assms(3) by (simp add: misa_legal_def)
  then have misa: "key_ok (cfg h) (h_xlen h) t CSR_MISA (max_isa (cfg h))" by (simp add: key_ok_def)
  have "reset_values m uxl h a = (if a = CSR_MISA then max_isa (cfg h) else if a = CSR_MSTATUS then m
      else if a = CSR_VSSTATUS then m AND sstatus_read_mask h else 0)" if "a \<in> set guarded_keys"
    using that by (auto simp: reset_values_def guarded_keys_def)
  then show ?thesis
    using initial_mstatus_ok [OF assms(1,2), of "cfg h" t] misa key_ok_zero [OF _ assms(2), of a "cfg h" t]
      key_ok_unguarded [of a "cfg h" "h_xlen h" t "reset_values m uxl h a"]
    by (cases "a \<in> set guarded_keys") (simp_all split: if_splits)
qed

lemma state_reset_ok:
  assumes f: "hart_fresh h" and x: "h_xlen h = max_xlen (cfg h)" and r: "state_reset h = Some h'"
  shows "csr_ok h'"
proof -
  define h1 where "h1 = write_csrv CSR_MISA (max_isa (cfg h))
           (h\<lparr>h_pc := DEFAULT_RSTVEC, XPR := regfile_reset, FPR := (\<lambda>_. (0, 0)), h_prv := PRV_M, h_v := False\<rparr>)"
  define hp where "hp = (extension_enabled ISA_S h1 \<and> supports_impl IMPL_MMU h1)"
  define h2 where "h2 = h1\<lparr>has_page := hp, sstatus_write_mask := compute_sstatus_write_mask hp h1\<rparr>"
  have same: "cfg h2 = cfg h" "h_xlen h2 = h_xlen h" "tm h2 = tm h" "pmp h2 = pmp h" "csrmap h2 = csrmap h"
      "csrv h2 CSR_JVT = csrv h CSR_JVT"
    by (simp_all add: h2_def h1_def)
  obtain m uxl where m: "mstatus_initial_value h2 = Some m" and
    h': "h' = h2\<lparr>csrmap := foldl (\<lambda>m (a, c). m(a \<mapsto> c)) (csrmap h2) (reset_csrs h2),
                    csrv := reset_values m uxl h2,
                    pmp := (pmp h2)\<lparr>pmp_val := (\<lambda>_. 0), pmp_cfg := (\<lambda>_. 0), mseccfg_val := 0\<rparr>,
                    dcsr := \<lparr>dcsr_prv = 0, dcsr_step = False, ebreakm = False, ebreakh = False,
                      ebreaks = False, ebreaku = False, dcsr_halt = False, dcsr_cause = 0\<rparr>,
                    debug_mode := False, single_step := STEP_NONE, serialized := False\<rparr>"
    using r unfolding state_reset_def Let_def h1_def [symmetric] hp_def [symmetric] h2_def [symmetric]
    by (auto split: option.splits)
  have k: "key_ok (cfg h2) (h_xlen h2) (length (tm h2)) a (reset_values m uxl h2 a)" for a
    by (rule reset_values_ok [OF m]) (use f x same in \<open>auto simp: hart_fresh_def\<close>)
  have o': "safe_object c" if "foldl (\<lambda>m (a, c). m(a \<mapsto> c)) (csrmap h2) (reset_csrs h2) a = Some c" for a c
    using foldl_map_upd [OF that] f same reset_safe by (auto simp: hart_fresh_def)
  show ?thesis
    using f x same k o' unfolding h' csr_ok_def hart_fresh_def by (auto simp: pmp_wf_def)
qed

lemma vu_reset_ok: "csr_ok h \<Longrightarrow> csr_ok (vu_reset h)"
proof -
  assume ok: "csr_ok h"
  have "a \<in> set guarded_keys \<Longrightarrow> csrv (vu_reset h) a = (if a = CSR_VXSAT then 0 else csrv h a)" for a
    by (auto simp: vu_reset_def Let_def guarded_keys_def)
  then have "key_ok (cfg h) (h_xlen h) (length (tm h)) a (csrv (vu_reset h) a)" for a
    using csr_ok_key [OF ok, of a] key_ok_zero [of CSR_VXSAT "h_xlen h" "cfg h" "length (tm h)"] ok
      key_ok_unguarded [of a "cfg h" "h_xlen h" "length (tm h)"]
    by (cases "a \<in> set guarded_keys") (auto simp: csr_ok_def)
  moreover have "safe_object c" if "csrmap (vu_reset h) a = Some c" for a c
    using that ok by (auto simp: vu_reset_def Let_def csr_ok_def guarded_keys_def split: if_splits)
  ultimately show ?thesis using ok by (simp add: csr_ok_def) (simp add: vu_reset_def Let_def)
qed

lemma processor_reset_ok:
  assumes "hart_fresh h" "processor_reset halt h = Some h'"
  shows "csr_ok h'"
proof -
  obtain h1 where r: "state_reset (h\<lparr>h_xlen := max_xlen (cfg h)\<rparr>) = Some h1" and
    h': "(let h2 = (vu_reset (h1\<lparr>dcsr := (dcsr h1)\<lparr>dcsr_halt := halt\<rparr>\<rparr>))\<lparr>in_wfi := False\<rparr>
          in if n_pmp (pmp h2) > 0 then
               (case put_csr CSR_PMPADDR0 (- 1) h2 of None \<Rightarrow> None
                | Some h \<Rightarrow> put_csr CSR_PMPCFG0 (ucast (PMP_R OR PMP_W OR PMP_X OR PMP_NAPOT)) h)
             else Some h2) = Some h'"
    using assms(2) by (auto simp: processor_reset_def Let_def split: option.splits)
  have "csr_ok h1" by (rule state_reset_ok [OF _ _ r]) (use assms(1) in \<open>simp_all add: hart_fresh_def\<close>)
  then have "csr_ok (vu_reset (h1\<lparr>dcsr := (dcsr h1)\<lparr>dcsr_halt := halt\<rparr>\<rparr>))"
    by (intro vu_reset_ok) simp
  then have "csr_ok ((vu_reset (h1\<lparr>dcsr := (dcsr h1)\<lparr>dcsr_halt := halt\<rparr>\<rparr>))\<lparr>in_wfi := False\<rparr>)"
    by (simp add: csr_ok_def)
  then show ?thesis using h' by (auto simp: Let_def dest: put_csr_ok split: if_splits option.splits)
qed

end
