(* ===== verification/CSR_Bits.thy ===== *)
theory CSR_Bits
  imports CSR_Inv
begin

text \<open>
  Which bits each control and status register can hold (the writable fields of the interrupt,
  delegation, counter-enable, environment, state-enable, translation, context and floating-point registers), that no
  write of any object sets another, and that reset starts within them.
\<close>

subsection \<open>Which bits a register can hold\<close>

definition sstatus_fields :: reg_t where
  "sstatus_fields = SSTATUS_SIE OR SSTATUS_SPIE OR SSTATUS_SPP OR SSTATUS_SUM OR SSTATUS_MXR
     OR SSTATUS_FS OR SSTATUS_XS OR SSTATUS_VS"

lemma write_mask_fields: "compute_sstatus_write_mask hp h AND NOT sstatus_fields = 0"
  by (simp add: compute_sstatus_write_mask_def Let_def sstatus_fields_def)

text \<open>The bits of each storage key that some write can set; a key not listed holds any value.\<close>

definition all_ints :: reg_t where
  "all_ints = delegable_ints OR MIP_HS_MASK OR MIP_MSIP OR MIP_MTIP OR MIP_MEIP"

definition mstatus_fields :: reg_t where
  "mstatus_fields = sstatus_fields OR MSTATUS_MIE OR MSTATUS_MPIE OR MSTATUS_MPRV OR MSTATUS_MPP OR MSTATUS_TW
     OR MSTATUS_TSR OR MSTATUS_TVM OR MSTATUS_GVA OR MSTATUS_MPV OR MSTATUS_UXL OR MSTATUS_SXL OR SSTATUS32_SD OR SSTATUS64_SD"

definition menvcfg_fields :: reg_t where
  "menvcfg_fields = MENVCFG_CBCFE OR MENVCFG_CBIE OR MENVCFG_CBZE OR MENVCFG_HADE OR MENVCFG_PBMTE OR MENVCFG_STCE"

definition atp_fields :: reg_t where
  "atp_fields = SATP64_MODE OR SATP64_ASID OR (SATP64_PPN AND (shl 1 (MAX_PADDR_BITS - PGSHIFT) - 1)) OR SATP32_MODE OR SATP32_ASID OR SATP32_PPN"

definition hgatp_fields :: reg_t where
  "hgatp_fields = (HGATP64_MODE OR HGATP64_VMID OR (HGATP64_PPN AND (shl 1 (MAX_PADDR_BITS - PGSHIFT) - 1))
     OR HGATP32_MODE OR HGATP32_VMID OR HGATP32_PPN) AND NOT 3"

definition mhpmevent_fields :: reg_t where
  "mhpmevent_fields = MHPMEVENT_OF OR MHPMEVENT_MINH OR MHPMEVENT_UINH OR MHPMEVENT_SINH OR MHPMEVENT_VUINH OR MHPMEVENT_VSINH"

definition hstatus_fields :: reg_t where
  "hstatus_fields = HSTATUS_VTSR OR HSTATUS_VTW OR HSTATUS_VTVM OR HSTATUS_HU OR HSTATUS_SPVP OR HSTATUS_SPV OR HSTATUS_GVA OR HSTATUS_VSXL"

definition stored_bits :: "hart_cfg \<Rightarrow> nat \<Rightarrow> reg_t" where
  "stored_bits c a = (
     if a = CSR_MSTATUS then mstatus_fields
     else if a = CSR_VSSTATUS then sstatus_fields OR SSTATUS_UBE OR SSTATUS_UXL OR SSTATUS32_SD OR SSTATUS64_SD
     else if a = CSR_MNSTATUS then MNSTATUS_NMIE OR MNSTATUS_MNPV OR MNSTATUS_MNPP
     else if a \<in> {CSR_MEPC, CSR_SEPC, CSR_VSEPC, CSR_MNEPC, CSR_DPC} then NOT 1
     else if a \<in> {CSR_MTVEC, CSR_STVEC, CSR_VSTVEC} then NOT 2
     else if a \<in> {CSR_MIE, CSR_MIP} then all_ints
     else if a = CSR_MIDELEG then delegable_ints
     else if a = CSR_HIDELEG then MIP_VS_MASK
     else if a = CSR_MEDELEG then delegable_exceptions
     else if a = CSR_HEDELEG then hedeleg_mask
     else if a \<in> {CSR_MCOUNTEREN, CSR_SCOUNTEREN, CSR_HCOUNTEREN} then 0xffffffff
     else if a \<in> {CSR_MENVCFG, CSR_HENVCFG} then menvcfg_fields
     else if a = CSR_SENVCFG then SENVCFG_CBCFE OR SENVCFG_CBIE OR SENVCFG_CBZE
     else if a = CSR_HSTATUS then hstatus_fields
     else if a \<in> {CSR_SATP, CSR_VSATP} then atp_fields
     else if a = CSR_HGATP then hgatp_fields
     else if CSR_MHPMEVENT3 \<le> a \<and> a < CSR_MHPMEVENT3 + N_HPMCOUNTERS then mhpmevent_fields
     else if a \<in> {CSR_MSTATEEN0, CSR_HSTATEEN0} then
       SSTATEEN0_CS OR SSTATEEN0_FCSR OR SSTATEEN0_JVT OR HSTATEEN0_SENVCFG OR HSTATEEN_SSTATEEN
     else if a \<in> {CSR_MSTATEEN0 + 1, CSR_MSTATEEN0 + 2, CSR_MSTATEEN0 + 3, CSR_HSTATEEN0 + 1, CSR_HSTATEEN0 + 2, CSR_HSTATEEN0 + 3}
       then HSTATEEN_SSTATEEN
     else if a = CSR_SSTATEEN0 then SSTATEEN0_CS OR SSTATEEN0_FCSR OR SSTATEEN0_JVT
     else if a \<in> {CSR_SSTATEEN0 + 1, CSR_SSTATEEN0 + 2, CSR_SSTATEEN0 + 3} then 0
     else if a = CSR_SCONTEXT then mask 34
     else if a = CSR_HCONTEXT then mask 14
     else if a = CSR_FFLAGS then 0x1f
     else if a = CSR_FRM then 7
     else if a = CSR_VXSAT then 1
     else if a = CSR_VXRM then 3
     else if a = CSR_VSTART then of_nat (cfg_vlen c) - 1
     else - 1)"

definition hgatp_mode_ok :: "hart_cfg \<Rightarrow> nat \<Rightarrow> reg_t \<Rightarrow> bool" where
  "hgatp_mode_ok c xlen v \<longleftrightarrow> (xlen \<noteq> 32 \<longrightarrow> (let m = get_field v HGATP64_MODE in
     m = HGATP_MODE_OFF \<or> (m = HGATP_MODE_SV39X4 \<and> impl_table c IMPL_MMU_SV39)
     \<or> (m = HGATP_MODE_SV48X4 \<and> impl_table c IMPL_MMU_SV48) \<or> (m = HGATP_MODE_SV57X4 \<and> impl_table c IMPL_MMU_SV57)))"

primrec bits_object :: "hart_cfg \<Rightarrow> csr \<Rightarrow> bool" where
  "bits_object c (Basic_csr a) = (stored_bits c a = - 1)"
| "bits_object c (Pmpaddr_csr i) = True"
| "bits_object c (Pmpcfg_csr a) = True"
| "bits_object c Mseccfg_csr = True"
| "bits_object c (Virtualized_csr orig virt) = (bits_object c orig \<and> bits_object c virt)"
| "bits_object c (Epc_csr a) = (a \<in> {CSR_MEPC, CSR_SEPC, CSR_VSEPC, CSR_MNEPC})"
| "bits_object c (Tvec_csr a) = (a \<in> {CSR_MTVEC, CSR_STVEC, CSR_VSTVEC})"
| "bits_object c (Cause_csr a) = (stored_bits c a = - 1)"
| "bits_object c Vsstatus_csr = True"
| "bits_object c Mstatus_csr = True"
| "bits_object c Sstatus_proxy_csr = True"
| "bits_object c Sstatus_csr = True"
| "bits_object c Mnstatus_csr = True"
| "bits_object c (Rv32_low_csr a orig) = bits_object c orig"
| "bits_object c (Rv32_high_csr a orig) = bits_object c orig"
| "bits_object c Misa_csr = True"
| "bits_object c Mip_csr = True"
| "bits_object c Mie_csr = True"
| "bits_object c (Mip_proxy_csr a accr) = (accr \<in> {sip_sie_accr, hip_hie_accr, hvip_accr, vsip_vsie_accr})"
| "bits_object c (Mie_proxy_csr a accr) = (accr \<in> {sip_sie_accr, hip_hie_accr, hvip_accr, vsip_vsie_accr})"
| "bits_object c Mideleg_csr = True"
| "bits_object c Medeleg_csr = True"
| "bits_object c (Masked_csr a msk) = (a \<noteq> CSR_HGATP \<and> msk AND NOT (stored_bits c a) = 0)"
| "bits_object c (Henvcfg_csr msk) = (msk AND NOT menvcfg_fields = 0)"
| "bits_object c (Base_atp_csr a) = (a \<in> {CSR_SATP, CSR_VSATP})"
| "bits_object c Satp_csr = True"
| "bits_object c Virtualized_satp_csr = True"
| "bits_object c (Wide_counter_csr a) = (stored_bits c a = - 1)"
| "bits_object c Time_counter_csr = True"
| "bits_object c (Proxy_csr a delegate) = bits_object c delegate"
| "bits_object c (Const_csr a v) = True"
| "bits_object c (Counter_proxy_csr a delegate) = bits_object c delegate"
| "bits_object c (Mevent_csr a) = (CSR_MHPMEVENT3 \<le> a \<and> a < CSR_MHPMEVENT3 + N_HPMCOUNTERS)"
| "bits_object c (Hypervisor_csr a) = (stored_bits c a = - 1)"
| "bits_object c Hideleg_csr = True"
| "bits_object c Hgatp_csr = True"
| "bits_object c Tselect_csr = True"
| "bits_object c Tdata1_csr = True"
| "bits_object c Tdata2_csr = True"
| "bits_object c Tdata3_csr = True"
| "bits_object c Tinfo_csr = True"
| "bits_object c (Debug_mode_csr a) = (stored_bits c a = - 1)"
| "bits_object c Dpc_csr = True"
| "bits_object c Dcsr_csr = True"
| "bits_object c (Float_csr a msk) = (a \<noteq> CSR_HGATP \<and> msk AND NOT (stored_bits c a) = 0)"
| "bits_object c (Composite_csr a upper lower lsb) = (bits_object c upper \<and> bits_object c lower)"
| "bits_object c Seed_csr = True"
| "bits_object c (Vector_csr a msk) = (a \<noteq> CSR_HGATP \<and> msk AND NOT (stored_bits c a) = 0)"
| "bits_object c Vxsat_csr = True"
| "bits_object c (Hstateen_csr msk i) = (CSR_HSTATEEN0 + i \<noteq> CSR_HGATP \<and> msk AND NOT (stored_bits c (CSR_HSTATEEN0 + i)) = 0)"
| "bits_object c (Sstateen_csr msk i) = (CSR_SSTATEEN0 + i \<noteq> CSR_HGATP \<and> msk AND NOT (stored_bits c (CSR_SSTATEEN0 + i)) = 0)"
| "bits_object c (Senvcfg_csr msk) = (msk AND NOT (SENVCFG_CBCFE OR SENVCFG_CBIE OR SENVCFG_CBZE) = 0)"
| "bits_object c (Stimecmp_csr a msk) = (stored_bits c a = - 1 \<and> msk AND NOT all_ints = 0)"
| "bits_object c Virtualized_stimecmp_csr = True"
| "bits_object c Scountovf_csr = True"
| "bits_object c Jvt_csr = True"

definition csr_bits :: "hart \<Rightarrow> bool" where
  "csr_bits h \<longleftrightarrow> (\<forall>a. csrv h a AND NOT (stored_bits (cfg h) a) = 0) \<and>
     hgatp_mode_ok (cfg h) (h_xlen h) (csrv h CSR_HGATP) \<and>
     sstatus_write_mask h AND NOT sstatus_fields = 0 \<and>
     (\<forall>a c. csrmap h a = Some c \<longrightarrow> bits_object (cfg h) c)"

lemma csr_bits_key: "csr_bits h \<Longrightarrow> csrv h a AND NOT (stored_bits (cfg h) a) = 0"
  by (simp add: csr_bits_def)

lemma csr_bits_write:
  "csr_bits h \<Longrightarrow> v AND NOT (stored_bits (cfg h) a) = 0 \<Longrightarrow> a \<noteq> CSR_HGATP \<Longrightarrow> csr_bits (write_csrv a v h)"
  by (simp add: csr_bits_def)

lemma csr_bits_free: "csr_bits h \<Longrightarrow> stored_bits (cfg h) a = - 1 \<Longrightarrow> csr_bits (write_csrv a v h)"
proof (rule csr_bits_write)
  show "stored_bits (cfg h) a = - 1 \<Longrightarrow> a \<noteq> CSR_HGATP"
    by (auto simp: stored_bits_def hgatp_fields_def)
qed auto

lemma csr_bits_frame [simp]:
  "csr_bits (h\<lparr>mmu := m\<rparr>) = csr_bits h"
  "csr_bits (h\<lparr>extension_enable_table := t\<rparr>) = csr_bits h"
  "csr_bits (h\<lparr>dcsr := d\<rparr>) = csr_bits h"
  "csr_bits (h\<lparr>check_triggers_icount := b\<rparr>) = csr_bits h"
  "csr_bits (h\<lparr>pmp := p\<rparr>) = csr_bits h"
  "csr_bits (h\<lparr>tm := ts\<rparr>) = csr_bits h"
  "csr_bits (h\<lparr>in_wfi := b\<rparr>) = csr_bits h"
  by (simp_all add: csr_bits_def)

lemma csr_bits_flush [simp]:
  "csr_bits (hart_flush_tlb h) = csr_bits h" "csr_bits (maybe_flush_tlb n p h) = csr_bits h"
  "csr_bits (set_extension_enable e b h) = csr_bits h" "csr_bits (misa_set_extensions m h) = csr_bits h"
  "csr_bits (trigger_updated ts h) = csr_bits h"
  by (simp_all add: hart_flush_tlb_def maybe_flush_tlb_def set_extension_enable_def misa_set_extensions_def
      trigger_updated_def Let_def)

subsection \<open>Each write stays within its bits\<close>

lemma within_and: "m AND NOT d = 0 \<Longrightarrow> (v AND m) AND NOT d = (0 :: reg_t)" "m AND NOT d = 0 \<Longrightarrow> (m AND v) AND NOT d = (0 :: reg_t)"
proof -
  have e: "(v AND m) AND NOT d = v AND (m AND NOT d)" "(m AND v) AND NOT d = v AND (m AND NOT d)" by (simp_all only: ac_simps)
  show "m AND NOT d = 0 \<Longrightarrow> (v AND m) AND NOT d = 0" "m AND NOT d = 0 \<Longrightarrow> (m AND v) AND NOT d = 0"
    unfolding e by simp_all
qed

lemma within_or: "a AND NOT d = 0 \<Longrightarrow> b AND NOT d = 0 \<Longrightarrow> (a OR b) AND NOT d = (0 :: reg_t)"
  by (simp add: bit.conj_disj_distrib2)

lemma within_if: "(b \<Longrightarrow> a AND NOT d = 0) \<Longrightarrow> (\<not> b \<Longrightarrow> c AND NOT d = 0) \<Longrightarrow> (if b then a else c) AND NOT d = (0 :: reg_t)"
  by simp

lemma within_trans: "a AND NOT b = 0 \<Longrightarrow> b AND NOT d = 0 \<Longrightarrow> a AND NOT d = (0 :: reg_t)"
proof -
  assume z: "a AND NOT b = 0" "b AND NOT d = 0"
  show ?thesis
    by (rule bit_word_eqI) (use arg_cong [where f = "\<lambda>w. bit w _", OF z(1)] arg_cong [where f = "\<lambda>w. bit w _", OF z(2)] in
      \<open>auto simp: bit_and_iff bit_not_iff\<close>)
qed

lemma masked_write_bits:
  assumes "csr_bits h" "old AND NOT (stored_bits (cfg h) a) = 0" "m AND NOT (stored_bits (cfg h) a) = 0" "a \<noteq> CSR_HGATP"
  shows "csr_bits (snd (masked_write a old m v h))"
  using assms by (simp add: masked_write_def csr_bits_write subset_merge)

lemma masked_unlogged_bits:
  "csr_bits h \<Longrightarrow> m AND NOT (stored_bits (cfg h) a) = 0 \<Longrightarrow> a \<noteq> CSR_HGATP \<Longrightarrow> csr_bits (snd (masked_unlogged_write a m v h))"
  by (simp add: masked_unlogged_write_def masked_write_bits csr_bits_key)

lemma with_mask_bits:
  "csr_bits h \<Longrightarrow> m AND NOT (stored_bits (cfg h) a) = 0 \<Longrightarrow> a \<noteq> CSR_HGATP \<Longrightarrow> csr_bits (write_with_mask a m v h)"
  "csr_bits h \<Longrightarrow> m AND NOT all_ints = 0 \<Longrightarrow> csr_bits (backdoor_write_with_mask m v h)"
proof -
  show "csr_bits h \<Longrightarrow> m AND NOT (stored_bits (cfg h) a) = 0 \<Longrightarrow> a \<noteq> CSR_HGATP \<Longrightarrow> csr_bits (write_with_mask a m v h)"
    by (simp add: write_with_mask_def csr_bits_write subset_merge csr_bits_key)
  have s: "stored_bits (cfg h) CSR_MIP = all_ints" by (simp add: stored_bits_def)
  show "csr_bits h \<Longrightarrow> m AND NOT all_ints = 0 \<Longrightarrow> csr_bits (backdoor_write_with_mask m v h)"
    using csr_bits_key [of h CSR_MIP] by (simp add: backdoor_write_with_mask_def csr_bits_write subset_merge s)
qed

lemma adjust_sd_within: "v AND NOT d = 0 \<Longrightarrow> (SSTATUS64_SD OR SSTATUS32_SD) AND NOT d = 0 \<Longrightarrow> adjust_sd v h AND NOT d = 0"
proof -
  assume v: "v AND NOT d = 0" and s: "(SSTATUS64_SD OR SSTATUS32_SD) AND NOT d = 0"
  have "SSTATUS64_SD AND NOT d = 0" "SSTATUS32_SD AND NOT d = 0" using s unfolding bit.conj_disj_distrib2 or_eq_0_iff by blast+
  then show ?thesis using v unfolding adjust_sd_def Let_def by (auto intro!: within_or within_if within_and(2))
qed

lemma csr_bits_mask: "csr_bits h \<Longrightarrow> sstatus_write_mask h AND NOT sstatus_fields = 0"
  by (simp add: csr_bits_def)

lemma mstatus_mask_within: "csr_bits h \<Longrightarrow> mstatus_mask h AND NOT mstatus_fields = 0"
proof -
  assume "csr_bits h"
  from csr_bits_mask [OF this] have "sstatus_write_mask h AND NOT mstatus_fields = 0"
    by (rule within_trans) (simp add: sstatus_fields_def mstatus_fields_def)
  then show ?thesis unfolding mstatus_mask_def
    by (intro within_or within_if) (simp_all add: mstatus_fields_def sstatus_fields_def)
qed

lemma mstatus_write_bits: "csr_bits h \<Longrightarrow> mstatus_unlogged_write v h = Some (b, h') \<Longrightarrow> csr_bits h'"
proof -
  assume ok: "csr_bits h" and w: "mstatus_unlogged_write v h = Some (b, h')"
  obtain q n where h': "h' = write_csrv CSR_MSTATUS (adjust_sd n (maybe_flush_tlb n (mstatus_read h) h)) (maybe_flush_tlb n (mstatus_read h) h)"
    and n: "n = (mstatus_read h AND NOT (mstatus_mask h)) OR (set_field v MSTATUS_MPP q AND mstatus_mask h)"
    using mstatus_write_mpp [OF w] by auto
  have s: "stored_bits c CSR_MSTATUS = mstatus_fields" for c by (simp add: stored_bits_def)
  have "n AND NOT mstatus_fields = 0" unfolding n
    using csr_bits_key [OF ok, of CSR_MSTATUS] by (intro subset_merge mstatus_mask_within [OF ok]) (simp add: mstatus_read_def s)
  then have "adjust_sd n k AND NOT mstatus_fields = 0" for k
    by (rule adjust_sd_within) (simp add: mstatus_fields_def sstatus_fields_def)
  then show ?thesis unfolding h' by (intro csr_bits_write) (simp_all add: ok s)
qed

lemma vsstatus_write_bits: "csr_bits h \<Longrightarrow> csr_bits (snd (vsstatus_unlogged_write v h))"
proof -
  assume ok: "csr_bits h"
  have s: "stored_bits c CSR_VSSTATUS = sstatus_fields OR SSTATUS_UBE OR SSTATUS_UXL OR SSTATUS32_SD OR SSTATUS64_SD" for c
    by (simp add: stored_bits_def)
  let ?d = "sstatus_fields OR SSTATUS_UBE OR SSTATUS_UXL OR SSTATUS32_SD OR SSTATUS64_SD"
  have "sstatus_write_mask h AND NOT ?d = 0"
    by (rule within_trans [OF csr_bits_mask [OF ok]]) (simp add: sstatus_fields_def)
  then have "((vsstatus_read h AND NOT (sstatus_write_mask h)) OR (v AND sstatus_write_mask h)) AND NOT ?d = 0"
    using csr_bits_key [OF ok, of CSR_VSSTATUS] by (intro subset_merge) (simp_all only: vsstatus_read_def s)
  then have "adjust_sd ((vsstatus_read h AND NOT (sstatus_write_mask h)) OR (v AND sstatus_write_mask h)) k AND NOT ?d = 0" for k
    by (rule adjust_sd_within) (simp add: sstatus_fields_def)
  then show ?thesis unfolding vsstatus_unlogged_write_def Let_def snd_conv
    by (intro csr_bits_write) (simp_all add: ok s del: bit.de_Morgan_disj)
qed

lemma sstatus_write_bits:
  "csr_bits h \<Longrightarrow> sstatus_proxy_unlogged_write v h = Some (b, h') \<Longrightarrow> csr_bits h'"
  "csr_bits h \<Longrightarrow> sstatus_unlogged_write v h = Some (b, h') \<Longrightarrow> csr_bits h'"
  "csr_bits h \<Longrightarrow> sstatus_dirty d h = Some h' \<Longrightarrow> csr_bits h'"
proof -
  have p: "csr_bits h \<Longrightarrow> sstatus_proxy_unlogged_write v h = Some (b, h') \<Longrightarrow> csr_bits h'" for v b h'
    by (auto simp: sstatus_proxy_unlogged_write_def Let_def dest: mstatus_write_bits split: if_splits)
  show "csr_bits h \<Longrightarrow> sstatus_proxy_unlogged_write v h = Some (b, h') \<Longrightarrow> csr_bits h'" by (rule p)
  show "csr_bits h \<Longrightarrow> sstatus_unlogged_write v h = Some (b, h') \<Longrightarrow> csr_bits h'"
    by (auto simp: sstatus_unlogged_write_def vsstatus_write_bits dest: p split: if_splits)
  show "csr_bits h \<Longrightarrow> sstatus_dirty d h = Some h' \<Longrightarrow> csr_bits h'"
    by (auto simp: sstatus_dirty_def vsstatus_write_bits dest: p split: if_splits option.splits)
qed

lemma mnstatus_write_bits: "csr_bits h \<Longrightarrow> mnstatus_unlogged_write v h = Some (b, h') \<Longrightarrow> csr_bits h'"
proof -
  assume ok: "csr_bits h" and w: "mnstatus_unlogged_write v h = Some (b, h')"
  define d where "d = (MNSTATUS_NMIE OR MNSTATUS_MNPV OR MNSTATUS_MNPP)"
  have s: "stored_bits c CSR_MNSTATUS = d" for c by (simp add: stored_bits_def d_def)
  have "csrv h CSR_MNSTATUS AND NOT d = 0" using csr_bits_key [OF ok, of CSR_MNSTATUS] by (simp only: s)
  moreover have "((NOT (csrv h CSR_MNSTATUS) AND MNSTATUS_NMIE) OR (if extension_enabled ISA_H h then MNSTATUS_MNPV else 0)
      OR MNSTATUS_MNPP) AND NOT d = 0"
    by (intro within_or within_if within_and(1)) (simp_all add: d_def)
  ultimately have "((csrv h CSR_MNSTATUS AND NOT m) OR (x AND m)) AND NOT d = 0"
    if "m = (NOT (csrv h CSR_MNSTATUS) AND MNSTATUS_NMIE) OR (if extension_enabled ISA_H h then MNSTATUS_MNPV else 0)
      OR MNSTATUS_MNPP" for m x
    unfolding that by (rule subset_merge)
  then show ?thesis using w ok
    by (auto simp: mnstatus_unlogged_write_def Let_def s intro!: csr_bits_write split: option.splits)
qed

lemma mideleg_read_within: "csr_bits h \<Longrightarrow> mideleg_read h AND NOT (delegable_ints OR MIP_HS_MASK) = 0"
proof -
  assume ok: "csr_bits h"
  have "csrv h CSR_MIDELEG AND NOT delegable_ints = 0" using csr_bits_key [OF ok, of CSR_MIDELEG] by (simp add: stored_bits_def)
  then have "csrv h CSR_MIDELEG AND NOT (delegable_ints OR MIP_HS_MASK) = 0"
    by (rule within_trans) (simp add: delegable_ints_def)
  then show ?thesis unfolding mideleg_read_def Let_def
    by (intro within_if within_or) (simp_all add: delegable_ints_def)
qed

lemma view_masks:
  assumes "csr_bits h" "accr \<in> {sip_sie_accr, hip_hie_accr, hvip_accr, vsip_vsie_accr}"
  shows "(deleg_mask accr h AND ip_write_mask accr) AND NOT all_ints = 0" "(deleg_mask accr h AND ie_write_mask accr) AND NOT all_ints = 0"
proof -
  have m: "mideleg_read h AND NOT all_ints = 0"
    by (rule within_trans [OF mideleg_read_within [OF assms(1)]]) (simp add: all_ints_def delegable_ints_def)
  have w: "MIP_HS_MASK AND NOT all_ints = 0" "MIP_VS_MASK AND NOT all_ints = 0" "MIP_VSSIP AND NOT all_ints = 0"
    "(MIP_SSIP OR MIP_LCOFIP) AND NOT all_ints = 0"
    by (simp_all add: all_ints_def delegable_ints_def)
  have sip: "deleg_mask sip_sie_accr h = mideleg_read h" by (simp add: deleg_mask_def sip_sie_accr_def)
  show "(deleg_mask accr h AND ip_write_mask accr) AND NOT all_ints = 0"
    using assms(2) w by (auto intro!: within_and(1) simp: sip_sie_accr_def hip_hie_accr_def hvip_accr_def vsip_vsie_accr_def)
  show "(deleg_mask accr h AND ie_write_mask accr) AND NOT all_ints = 0"
  proof (cases "accr = sip_sie_accr")
    case True
    show ?thesis unfolding True sip by (rule within_and(2) [OF m])
  next
    case False
    then show ?thesis using assms(2) w by (auto intro!: within_and(1) simp: hip_hie_accr_def hvip_accr_def vsip_vsie_accr_def)
  qed
qed

lemma interrupt_write_bits:
  assumes "csr_bits h"
  shows "csr_bits (write_with_mask CSR_MIP (mip_write_mask h) v h)" "csr_bits (write_with_mask CSR_MIE (mie_write_mask h) v h)"
    "accr \<in> {sip_sie_accr, hip_hie_accr, hvip_accr, vsip_vsie_accr} \<Longrightarrow> csr_bits (ip_write accr v h)"
    "accr \<in> {sip_sie_accr, hip_hie_accr, hvip_accr, vsip_vsie_accr} \<Longrightarrow> csr_bits (ie_write accr v h)"
proof -
  have s: "stored_bits c CSR_MIP = all_ints" "stored_bits c CSR_MIE = all_ints" for c by (simp_all add: stored_bits_def)
  have "mip_write_mask h AND NOT all_ints = 0" unfolding mip_write_mask_def Let_def
    by (intro within_and(1) within_or within_if) (simp_all add: all_ints_def delegable_ints_def)
  then show "csr_bits (write_with_mask CSR_MIP (mip_write_mask h) v h)" by (intro with_mask_bits(1)) (simp_all add: assms s)
  have "mie_write_mask h AND NOT all_ints = 0" unfolding mie_write_mask_def Let_def
    by (intro within_or within_if; cases "any_custom_extensions h") (simp_all add: all_ints_def delegable_ints_def)
  then show "csr_bits (write_with_mask CSR_MIE (mie_write_mask h) v h)" by (intro with_mask_bits(1)) (simp_all add: assms s)
  show "csr_bits (ip_write accr v h)" if "accr \<in> {sip_sie_accr, hip_hie_accr, hvip_accr, vsip_vsie_accr}"
  proof -
    have "(deleg_mask accr h AND ip_write_mask accr) AND NOT (stored_bits (cfg h) CSR_MIP) = 0"
      unfolding s by (rule view_masks(1) [OF assms that])
    from with_mask_bits(1) [OF assms this] show ?thesis unfolding ip_write_def Let_def by simp
  qed
  show "csr_bits (ie_write accr v h)" if "accr \<in> {sip_sie_accr, hip_hie_accr, hvip_accr, vsip_vsie_accr}"
  proof -
    have "(deleg_mask accr h AND ie_write_mask accr) AND NOT (stored_bits (cfg h) CSR_MIE) = 0"
      unfolding s by (rule view_masks(2) [OF assms that])
    from with_mask_bits(1) [OF assms this] show ?thesis unfolding ie_write_def Let_def by simp
  qed
qed

lemma deleg_write_bits:
  assumes "csr_bits h"
  shows "csr_bits (snd (mideleg_unlogged_write v h))" "csr_bits (snd (medeleg_unlogged_write v h))"
    "csr_bits (snd (hideleg_unlogged_write v h))"
proof -
  have s: "stored_bits c CSR_MIDELEG = delegable_ints" "stored_bits c CSR_MEDELEG = delegable_exceptions" "stored_bits c CSR_HIDELEG = MIP_VS_MASK" for c
    by (simp_all add: stored_bits_def)
  show "csr_bits (snd (mideleg_unlogged_write v h))" unfolding mideleg_unlogged_write_def Let_def snd_conv
    by (intro csr_bits_write assms; (unfold s)?; (intro within_and(1) within_or within_if; cases "any_custom_extensions h")?)
       (simp_all add: delegable_ints_def)
  have "csrv h CSR_MEDELEG AND NOT delegable_exceptions = 0" using csr_bits_key [OF assms, of CSR_MEDELEG] by (simp only: s)
  then show "csr_bits (snd (medeleg_unlogged_write v h))" unfolding medeleg_unlogged_write_def Let_def snd_conv
    by (intro csr_bits_write assms; (unfold s)?; (intro subset_merge within_or within_if)?)
       (simp_all add: delegable_exceptions_def hedeleg_mask_def hypervisor_exceptions_def)
  have "csrv h CSR_HIDELEG AND NOT MIP_VS_MASK = 0" using csr_bits_key [OF assms, of CSR_HIDELEG] by (simp only: s)
  then have "hideleg_read h AND NOT MIP_VS_MASK = 0" unfolding hideleg_read_def by (rule within_and(2))
  then show "csr_bits (snd (hideleg_unlogged_write v h))" unfolding hideleg_unlogged_write_def
    by (intro masked_write_bits assms) (simp_all only: s, simp_all)
qed

lemma mevent_write_bits:
  assumes "csr_bits h" "CSR_MHPMEVENT3 \<le> a" "a < CSR_MHPMEVENT3 + N_HPMCOUNTERS"
  shows "csr_bits (snd (mevent_unlogged_write a v h))"
proof -
  have s: "stored_bits (cfg h) a = mhpmevent_fields" "a \<noteq> CSR_HGATP" using assms(2,3) by (auto simp: stored_bits_def N_HPMCOUNTERS_def)
  show ?thesis unfolding mevent_unlogged_write_def Let_def
    by (intro masked_unlogged_bits assms(1) s(2); unfold s(1); intro within_or within_if) (simp_all add: mhpmevent_fields_def)
qed

lemma mevent_clear_bits: "csr_bits h \<Longrightarrow> \<forall>i\<in>set is. 3 \<le> i \<and> i < 32 \<Longrightarrow> csr_bits (mevent_clear_loop is h)"
proof (induction "is" h rule: mevent_clear_loop.induct)
  case (2 i "is" h)
  have "csr_bits (snd (mevent_unlogged_write (CSR_MHPMEVENT3 + i - 3) v h))" for v
    by (rule mevent_write_bits [OF 2(2)]) (use 2(3) in \<open>auto simp: N_HPMCOUNTERS_def\<close>)
  then show ?case using 2(1) [OF refl refl] 2(3) unfolding mevent_clear_loop.simps Let_def by simp
qed simp

lemma drop_h_bits:
  assumes ok: "csr_bits h" and d: "misa_drop_h h = Some h'"
  shows "csr_bits h'"
proof -
  obtain h1 h2 b h3 where
    1: "drop_h_mnstatus (snd (medeleg_unlogged_write (csrv h CSR_MEDELEG AND NOT hypervisor_exceptions) h)) = Some h1"
    and 2: "mstatus_unlogged_write (mstatus_read h1 AND NOT (MSTATUS_GVA OR MSTATUS_MPV)) h1 = Some (b, h2)"
    and 3: "drop_h_mstatush (mstatus_read h1 AND NOT (MSTATUS_GVA OR MSTATUS_MPV)) h2 = Some h3"
    and 4: "h' = mevent_clear_loop [3..<N_HPMCOUNTERS + 3] (drop_h_interrupts h3)"
    using d unfolding misa_drop_h_def Let_def bind_eq_Some_conv split_paired_Ex prod.case by blast
  have "csr_bits h1" using 1 deleg_write_bits(2) [OF ok]
    by (auto simp: drop_h_mnstatus_def dest: mnstatus_write_bits split: if_splits)
  then have "csr_bits h2" using 2 by (rule mstatus_write_bits)
  then have k: "csr_bits h3" using 3 by (auto simp: drop_h_mstatush_def dest: mstatus_write_bits split: if_splits)
  have s: "stored_bits c CSR_MIP = all_ints" "stored_bits c CSR_MIE = all_ints" "stored_bits c CSR_HSTATUS = hstatus_fields" for c
    by (simp_all add: stored_bits_def)
  have i: "MIP_HS_MASK AND NOT all_ints = 0" by (simp add: all_ints_def delegable_ints_def)
  have hs: "hstatus_mask k AND NOT hstatus_fields = 0" for k
    unfolding hstatus_mask_def by (intro within_or within_if) (simp_all add: hstatus_fields_def)
  have "csr_bits (write_with_mask CSR_MIE MIP_HS_MASK 0 h3)" using k i by (intro with_mask_bits(1)) (simp_all add: s)
  then have "csr_bits (write_with_mask CSR_MIP MIP_HS_MASK 0 (write_with_mask CSR_MIE MIP_HS_MASK 0 h3))"
    by (rule with_mask_bits(1)) (simp_all add: s i)
  then have "csr_bits (drop_h_interrupts h3)" unfolding drop_h_interrupts_def Let_def
    using hs by (intro masked_unlogged_bits) (simp_all add: s)
  moreover have "\<forall>i\<in>set [3..<N_HPMCOUNTERS + 3]. 3 \<le> i \<and> i < 32" by (simp only: set_upt N_HPMCOUNTERS_def) simp
  ultimately show ?thesis unfolding 4 by (rule mevent_clear_bits)
qed

lemma misa_write_bits: "csr_bits h \<Longrightarrow> misa_unlogged_write v h = Some (b, h') \<Longrightarrow> csr_bits h'"
proof -
  assume ok: "csr_bits h" and w: "misa_unlogged_write v h = Some (b, h')"
  have s: "stored_bits c CSR_MISA = - 1" for c by (simp add: stored_bits_def)
  from w obtain m k where "h' = h \<or> (h' = write_csrv CSR_MISA m k \<and> (k = misa_set_extensions m h \<or> misa_drop_h (misa_set_extensions m h) = Some k))"
    by (auto simp: misa_unlogged_write_def Let_def split: if_splits option.splits)
  then show ?thesis using ok drop_h_bits [of "misa_set_extensions m h" k] by (auto intro!: csr_bits_free s)
qed

lemma atp_write_bits:
  assumes "csr_bits h"
  shows "a \<in> {CSR_SATP, CSR_VSATP} \<Longrightarrow> csr_bits (snd (base_atp_unlogged_write a v h))" "csr_bits (snd (virtualized_satp_unlogged_write v h))"
proof -
  show b: "csr_bits (snd (base_atp_unlogged_write a v h))" if a: "a \<in> {CSR_SATP, CSR_VSATP}" for a v
  proof -
    have s: "stored_bits c a = atp_fields" "a \<noteq> CSR_HGATP" for c using a by (auto simp: stored_bits_def)
    have "compute_new_satp a v h AND NOT atp_fields = 0" unfolding compute_new_satp_def Let_def
      by (intro within_or within_and(2) within_if) (simp_all add: atp_fields_def)
    then show ?thesis unfolding base_atp_unlogged_write_def Let_def snd_conv
      by (intro csr_bits_write s(2)) (auto simp: s(1) assms)
  qed
  show "csr_bits (snd (virtualized_satp_unlogged_write v h))"
    by (simp add: virtualized_satp_unlogged_write_def Let_def b)
qed

lemma hgatp_mode_cong: "v AND HGATP64_MODE = w AND HGATP64_MODE \<Longrightarrow> hgatp_mode_ok c n v = hgatp_mode_ok c n w"
  by (simp add: hgatp_mode_ok_def get_field_def)

lemma hgatp_write_bits: "csr_bits h \<Longrightarrow> csr_bits (snd (hgatp_unlogged_write v h))"
proof -
  assume ok: "csr_bits h"
  have s: "stored_bits c CSR_HGATP = hgatp_fields" for c by (simp add: stored_bits_def)
  define good where "good = (let m = get_field v HGATP64_MODE in m = HGATP_MODE_OFF
     \<or> (supports_impl IMPL_MMU_SV39 h \<and> m = HGATP_MODE_SV39X4) \<or> (supports_impl IMPL_MMU_SV48 h \<and> m = HGATP_MODE_SV48X4)
     \<or> (supports_impl IMPL_MMU_SV57 h \<and> m = HGATP_MODE_SV57X4))"
  define msk where "msk = (if h_xlen h = 32 then HGATP32_PPN OR HGATP32_MODE OR (if supports_impl IMPL_MMU_VMID h then HGATP32_VMID else 0)
     else (HGATP64_PPN AND (shl 1 (MAX_PADDR_BITS - PGSHIFT) - 1)) OR (if supports_impl IMPL_MMU_VMID h then HGATP64_VMID else 0)
       OR (if good then HGATP64_MODE else 0)) AND NOT 3"
  have w: "snd (hgatp_unlogged_write v h) = write_csrv CSR_HGATP ((csrv h CSR_HGATP AND NOT msk) OR (v AND msk)) (hart_flush_tlb h)"
    by (simp only: hgatp_unlogged_write_def Let_def masked_unlogged_write_def masked_write_def snd_conv msk_def good_def
        flush_frame frame_simps supports_impl_def hart_flush_tlb_def) simp
  have "msk AND NOT hgatp_fields = 0"
    unfolding msk_def by (cases "h_xlen h = 32"; cases "supports_impl IMPL_MMU_VMID h"; cases good) (simp_all add: hgatp_fields_def)
  then have b: "((csrv h CSR_HGATP AND NOT msk) OR (v AND msk)) AND NOT hgatp_fields = 0"
    using csr_bits_key [OF ok, of CSR_HGATP] by (intro subset_merge) (simp_all only: s)
  have m: "hgatp_mode_ok (cfg h) (h_xlen h) ((csrv h CSR_HGATP AND NOT msk) OR (v AND msk))"
  proof (cases "h_xlen h = 32")
    case False
    show ?thesis
    proof (cases good)
      case True
      have "msk AND HGATP64_MODE = HGATP64_MODE"
        using False True unfolding msk_def by (cases "supports_impl IMPL_MMU_VMID h") simp_all
      from hgatp_mode_cong [OF masked_merge [OF this, of "csrv h CSR_HGATP" v]] show ?thesis
        using True by (auto simp: hgatp_mode_ok_def good_def Let_def supports_impl_def)
    next
      case bad: False
      have "msk AND HGATP64_MODE = 0"
        using False bad unfolding msk_def by (cases "supports_impl IMPL_MMU_VMID h") simp_all
      from hgatp_mode_cong [OF masked_merge_out [OF this, of "csrv h CSR_HGATP" v]] show ?thesis
        using ok by (simp add: csr_bits_def)
    qed
  qed (simp add: hgatp_mode_ok_def)
  show ?thesis unfolding w using ok b m by (auto simp: csr_bits_def s)
qed

lemma tselect_bits: "csr_bits h \<Longrightarrow> csr_bits (snd (tselect_unlogged_write v h))"
proof -
  have "stored_bits c CSR_TSELECT = - 1" for c by (simp add: stored_bits_def N_HPMCOUNTERS_def)
  then show "csr_bits h \<Longrightarrow> csr_bits (snd (tselect_unlogged_write v h))"
    unfolding tselect_unlogged_write_def snd_conv by (intro csr_bits_free)
qed

lemma envcfg_write_bits:
  assumes "csr_bits h"
  shows "m AND NOT menvcfg_fields = 0 \<Longrightarrow> csr_bits (snd (henvcfg_unlogged_write m v h))"
    "m AND NOT (SENVCFG_CBCFE OR SENVCFG_CBIE OR SENVCFG_CBZE) = 0 \<Longrightarrow> csr_bits (snd (masked_unlogged_write CSR_SENVCFG m v h))"
proof -
  have s: "stored_bits c CSR_HENVCFG = menvcfg_fields" "stored_bits c CSR_SENVCFG = SENVCFG_CBCFE OR SENVCFG_CBIE OR SENVCFG_CBZE" for c
    by (simp_all add: stored_bits_def)
  have "csrv h CSR_HENVCFG AND NOT menvcfg_fields = 0" using csr_bits_key [OF assms, of CSR_HENVCFG] by (simp only: s)
  then have "henvcfg_read h AND NOT menvcfg_fields = 0" unfolding henvcfg_read_def by (rule within_and(1))
  then show "m AND NOT menvcfg_fields = 0 \<Longrightarrow> csr_bits (snd (henvcfg_unlogged_write m v h))"
    unfolding henvcfg_unlogged_write_def by (intro masked_write_bits assms) (simp_all add: s)
  show "m AND NOT (SENVCFG_CBCFE OR SENVCFG_CBIE OR SENVCFG_CBZE) = 0 \<Longrightarrow> csr_bits (snd (masked_unlogged_write CSR_SENVCFG m v h))"
    by (intro masked_unlogged_bits assms) (simp_all add: s)
qed

lemma stateen_write_bits:
  assumes "csr_bits h"
  shows "CSR_HSTATEEN0 + i \<noteq> CSR_HGATP \<Longrightarrow> m AND NOT (stored_bits (cfg h) (CSR_HSTATEEN0 + i)) = 0 \<Longrightarrow> csr_bits (snd (hstateen_unlogged_write m i v h))"
    "CSR_SSTATEEN0 + i \<noteq> CSR_HGATP \<Longrightarrow> m AND NOT (stored_bits (cfg h) (CSR_SSTATEEN0 + i)) = 0 \<Longrightarrow> csr_bits (snd (sstateen_unlogged_write m i v h))"
proof -
  have "hstateen_read i h AND NOT (stored_bits (cfg h) (CSR_HSTATEEN0 + i)) = 0"
    unfolding hstateen_read_def by (rule within_and(2) [OF csr_bits_key [OF assms]])
  then show "CSR_HSTATEEN0 + i \<noteq> CSR_HGATP \<Longrightarrow> m AND NOT (stored_bits (cfg h) (CSR_HSTATEEN0 + i)) = 0 \<Longrightarrow> csr_bits (snd (hstateen_unlogged_write m i v h))"
    unfolding hstateen_unlogged_write_def by (intro masked_write_bits assms)
  have "sstateen_read i h AND NOT (stored_bits (cfg h) (CSR_SSTATEEN0 + i)) = 0"
    unfolding sstateen_read_def Let_def
    by (intro within_if within_and(2) csr_bits_key [OF assms])
  then show "CSR_SSTATEEN0 + i \<noteq> CSR_HGATP \<Longrightarrow> m AND NOT (stored_bits (cfg h) (CSR_SSTATEEN0 + i)) = 0 \<Longrightarrow> csr_bits (snd (sstateen_unlogged_write m i v h))"
    unfolding sstateen_unlogged_write_def Let_def by (intro masked_write_bits assms)
qed

lemma stimecmp_write_bits:
  "csr_bits h \<Longrightarrow> stored_bits (cfg h) a = - 1 \<Longrightarrow> m AND NOT all_ints = 0 \<Longrightarrow> csr_bits (snd (stimecmp_unlogged_write a m v h))"
  unfolding stimecmp_unlogged_write_def Let_def snd_conv
  by (intro csr_bits_free with_mask_bits(2)) (simp_all add: backdoor_write_with_mask_def)

lemma float_write_bits:
  "csr_bits h \<Longrightarrow> a \<noteq> CSR_HGATP \<Longrightarrow> m AND NOT (stored_bits (cfg h) a) = 0 \<Longrightarrow> cfg k = cfg h \<Longrightarrow> csr_bits k \<Longrightarrow> csr_bits (snd (masked_unlogged_write a m v k))"
  by (simp add: masked_unlogged_bits)

lemma dirty_cfg: "sstatus_dirty d h = Some h' \<Longrightarrow> cfg h' = cfg h"
  by (auto simp: sstatus_dirty_def sstatus_proxy_unlogged_write_def vsstatus_unlogged_write_def Let_def same_cfg_def
      dest!: mstatus_write_cfg split: if_splits option.splits)

lemma csr_bits_dirty: "sstatus_dirty d h = Some k \<Longrightarrow> csr_bits h \<Longrightarrow> csr_bits k \<and> cfg k = cfg h"
  using sstatus_write_bits(3) dirty_cfg by blast

lemma snd_bits: "csr_bits (snd r) \<Longrightarrow> r = (b, h') \<Longrightarrow> csr_bits h'"
  by simp

lemma silent_bits: "silent r = Some (b, h') \<Longrightarrow> (\<And>c. r = Some (c, h') \<Longrightarrow> csr_bits h') \<Longrightarrow> csr_bits h'"
  by (auto simp: silent_def)

lemma lift_bits:
  "tm_lift r h = Some (b, h') \<Longrightarrow> csr_bits h \<Longrightarrow> csr_bits h'" "pmp_lift q h = Some (b, h') \<Longrightarrow> csr_bits h \<Longrightarrow> csr_bits h'"
  by (auto simp: tm_lift_def pmp_lift_def Let_def split: option.splits if_splits prod.splits)

text \<open>The configuration survives every write, so what is within the bits of the old hart is within those of the new.\<close>

lemma cfg_simple [simp]:
  "cfg (write_with_mask a m v h) = cfg h" "cfg (backdoor_write_with_mask m v h) = cfg h"
  "cfg (ip_write accr v h) = cfg h" "cfg (ie_write accr v h) = cfg h"
  "cfg (snd (masked_write a old m v h)) = cfg h" "cfg (snd (masked_unlogged_write a m v h)) = cfg h"
  "cfg (snd (vsstatus_unlogged_write v h)) = cfg h" "cfg (snd (mideleg_unlogged_write v h)) = cfg h"
  "cfg (snd (medeleg_unlogged_write v h)) = cfg h" "cfg (snd (mevent_unlogged_write a v h)) = cfg h"
  "cfg (snd (base_atp_unlogged_write a v h)) = cfg h" "cfg (snd (hgatp_unlogged_write v h)) = cfg h"
  "cfg (snd (wide_counter_unlogged_write a v h)) = cfg h" "cfg (snd (stimecmp_unlogged_write a m v h)) = cfg h"
  "cfg (snd (tselect_unlogged_write v h)) = cfg h" "cfg (snd (dcsr_unlogged_write v h)) = cfg h"
  "cfg (trigger_updated ts h) = cfg h"
  by (simp_all add: write_with_mask_def backdoor_write_with_mask_def ip_write_def ie_write_def masked_write_def masked_unlogged_write_def
      vsstatus_unlogged_write_def mideleg_unlogged_write_def medeleg_unlogged_write_def mevent_unlogged_write_def
      base_atp_unlogged_write_def hgatp_unlogged_write_def wide_counter_unlogged_write_def stimecmp_unlogged_write_def
      tselect_unlogged_write_def dcsr_unlogged_write_def trigger_updated_def Let_def)

lemma cfg_pairs [simp]:
  "cfg (snd (virtualized_satp_unlogged_write v h)) = cfg h" "cfg (snd (henvcfg_unlogged_write m v h)) = cfg h"
  "cfg (snd (hideleg_unlogged_write v h)) = cfg h" "cfg (snd (hstateen_unlogged_write m i v h)) = cfg h"
  "cfg (snd (sstateen_unlogged_write m i v h)) = cfg h"
  by (simp_all add: virtualized_satp_unlogged_write_def henvcfg_unlogged_write_def
      hideleg_unlogged_write_def hstateen_unlogged_write_def sstateen_unlogged_write_def Let_def)

lemma cfg_options:
  "mstatus_unlogged_write v h = Some (b, h') \<Longrightarrow> cfg h' = cfg h" "mnstatus_unlogged_write v h = Some (b, h') \<Longrightarrow> cfg h' = cfg h"
  "sstatus_proxy_unlogged_write v h = Some (b, h') \<Longrightarrow> cfg h' = cfg h" "sstatus_unlogged_write v h = Some (b, h') \<Longrightarrow> cfg h' = cfg h"
proof -
  have m: "mstatus_unlogged_write v h = Some (b, h') \<Longrightarrow> cfg h' = cfg h" for v b h'
    using mstatus_write_cfg by (simp add: same_cfg_def)
  show "mstatus_unlogged_write v h = Some (b, h') \<Longrightarrow> cfg h' = cfg h" by (rule m)
  show "mnstatus_unlogged_write v h = Some (b, h') \<Longrightarrow> cfg h' = cfg h" using mnstatus_write_cfg by (simp add: same_cfg_def)
  have p: "sstatus_proxy_unlogged_write v h = Some (b, h') \<Longrightarrow> cfg h' = cfg h" for v b h'
    by (auto simp: sstatus_proxy_unlogged_write_def Let_def dest: m split: if_splits)
  show "sstatus_proxy_unlogged_write v h = Some (b, h') \<Longrightarrow> cfg h' = cfg h" by (rule p)
  show "sstatus_unlogged_write v h = Some (b, h') \<Longrightarrow> cfg h' = cfg h"
    by (auto simp: sstatus_unlogged_write_def dest: p split: if_splits)
qed

lemma cfg_misa: "misa_unlogged_write v h = Some (b, h') \<Longrightarrow> cfg h' = cfg h"
proof -
  assume w: "misa_unlogged_write v h = Some (b, h')"
  have "cfg k = cfg h" if "misa_drop_h (misa_set_extensions m h) = Some k" for k m
    using keeps_drop_h [OF that] by (simp add: keeps_def same_cfg_def)
  then show ?thesis using w by (auto simp: misa_unlogged_write_def Let_def split: if_splits option.splits)
qed

lemma unlogged_write_cfg: "csr_unlogged_write c val h = Some (b, h') \<Longrightarrow> cfg h' = cfg h"
proof (induction c arbitrary: val h b h')
  case (Composite_csr a upper lower lsb)
  then show ?case by (force simp: silent_def split: option.splits)
next
  case (Virtualized_csr orig virt)
  then show ?case by (force simp: silent_def split: if_splits)
qed (auto simp: pmp_lift_def tm_lift_def silent_def float_unlogged_write_def vector_unlogged_write_def Let_def
    dest!: cfg_options cfg_misa dirty_cfg arg_cong [where f = "\<lambda>r. cfg (snd r)"] split: option.splits if_splits prod.splits)

lemmas pair_bits = vsstatus_write_bits deleg_write_bits mevent_write_bits masked_unlogged_bits atp_write_bits hgatp_write_bits
  stimecmp_write_bits tselect_bits envcfg_write_bits stateen_write_bits

lemmas option_bits = mstatus_write_bits sstatus_write_bits(1,2) mnstatus_write_bits misa_write_bits

lemma unlogged_write_bits:
  "csr_unlogged_write c val h = Some (b, h') \<Longrightarrow> bits_object (cfg h) c \<Longrightarrow> csr_bits h \<Longrightarrow> csr_bits h'"
proof (induction c arbitrary: val h b h')
  case (Composite_csr a upper lower lsb)
  then obtain c1 h1 c2 where 1: "csr_unlogged_write upper (shr val lsb) h = Some (c1, h1)" "csr_unlogged_write lower val h1 = Some (c2, h')"
    by (auto split: option.splits dest: silent_Some)
  have k: "csr_bits h1" by (rule Composite_csr.IH(1) [OF 1(1)]) (use Composite_csr.prems in simp_all)
  show ?case by (rule Composite_csr.IH(2) [OF 1(2) _ k]) (use Composite_csr.prems unlogged_write_cfg [OF 1(1)] in simp_all)
next
  case (Virtualized_csr orig virt)
  then show ?case by (force split: if_splits dest: silent_Some)
next
  case (Epc_csr a)
  then show ?case by (auto intro!: csr_bits_write simp: stored_bits_def and.assoc)
next
  case (Tvec_csr a)
  then show ?case by (auto intro!: csr_bits_write simp: stored_bits_def and.assoc)
next
  case Dpc_csr
  then show ?case by (auto intro!: csr_bits_write simp: stored_bits_def and.assoc)
next
  case Vxsat_csr
  then obtain k where k: "sstatus_dirty SSTATUS_VS h = Some k" and h': "h' = snd (masked_unlogged_write CSR_VXSAT 1 val k)" by auto
  show ?case unfolding h' using csr_bits_dirty [OF k Vxsat_csr.prems(3)] by (intro masked_unlogged_bits) (simp_all add: stored_bits_def)
next
  case (Float_csr a msk)
  then obtain k where k: "sstatus_dirty SSTATUS_FS h = Some k" and h': "h' = snd (masked_unlogged_write a msk val k)"
    by (auto simp: float_unlogged_write_def)
  show ?case unfolding h' using csr_bits_dirty [OF k Float_csr.prems(3)] Float_csr.prems(2) by (intro masked_unlogged_bits) simp_all
next
  case (Vector_csr a msk)
  then show ?case
    by (auto simp: vector_unlogged_write_def intro!: csr_bits_write within_and(1) dest!: csr_bits_dirty split: if_splits)
next
  case (Rv32_low_csr a orig)
  then show ?case by simp
next
  case (Rv32_high_csr a orig)
  then show ?case by simp
next
  case (Proxy_csr a orig)
  then show ?case by (auto dest!: silent_Some)
next
  case (Counter_proxy_csr a orig)
  then show ?case by (auto dest!: silent_Some)
next
  case Virtualized_stimecmp_csr
  have "stored_bits c CSR_STIMECMP = - 1" "stored_bits c CSR_VSTIMECMP = - 1" "MIP_VSTIP AND NOT all_ints = 0" "MIP_STIP AND NOT all_ints = 0" for c
    by (simp_all add: stored_bits_def N_HPMCOUNTERS_def all_ints_def delegable_ints_def)
  then show ?case using Virtualized_stimecmp_csr by (auto intro!: stimecmp_write_bits)
next
  case Jvt_csr
  have "stored_bits c CSR_JVT = - 1" for c by (simp add: stored_bits_def N_HPMCOUNTERS_def)
  then show ?case using Jvt_csr by (auto intro: csr_bits_free)
qed (auto simp: wide_counter_unlogged_write_def dcsr_unlogged_write_def csr_bits_free interrupt_write_bits pair_bits
    dest!: silent_Some dest: lift_bits option_bits arg_cong [where f = "\<lambda>r. csr_bits (snd r)"])

lemma put_csr_bits: "put_csr a v h = Some h' \<Longrightarrow> csr_bits h \<Longrightarrow> csr_bits h'"
proof -
  assume p: "put_csr a v h = Some h'" and ok: "csr_bits h"
  show "csr_bits h'"
  proof (cases "csrmap h a")
    case None then show ?thesis using p ok by (simp add: put_csr_def)
  next
    case (Some c)
    then have "bits_object (cfg h) c" using ok by (auto simp: csr_bits_def)
    then show ?thesis using p Some ok by (auto simp: put_csr_def csr_write_def dest: unlogged_write_bits)
  qed
qed

interpretation csr_bits_inv: preserved csr_step csr_bits
  by unfold_locales (auto elim: csr_stepE dest: put_csr_bits)

subsection \<open>Reset\<close>

lemma reset_object_bits:
  assumes "(a, c) \<in> set (reset_csrs h)"
  shows "bits_object k c"
proof -
  have m: "\<forall>(a, c) \<in> set (reset_machine_csrs h). bits_object k c"
    by (auto simp: reset_machine_csrs_def Let_def stored_bits_def N_HPMCOUNTERS_def)
  have hp: "\<forall>(a, c) \<in> set (reset_hpm_csrs h i). bits_object k c" if "i \<in> set [3..<N_HPMCOUNTERS + 3]" for i
    using that by (auto simp: reset_hpm_csrs_def Let_def N_HPMCOUNTERS_def)
  have i: "\<forall>(a, c) \<in> set (reset_interrupt_csrs h). bits_object k c"
    by (auto simp: reset_interrupt_csrs_def Let_def)
  have ce: "counteren_mask h AND NOT 0xffffffff = 0" unfolding counteren_mask_def by (intro within_or within_if) simp_all
  have hs: "hstatus_mask h AND NOT hstatus_fields = 0"
    unfolding hstatus_mask_def by (intro within_or within_if) (simp_all add: hstatus_fields_def)
  have s: "\<forall>(a, c) \<in> set (reset_supervisor_csrs h). bits_object k c"
    using ce hs by (auto simp: reset_supervisor_csrs_def Let_def stored_bits_def N_HPMCOUNTERS_def)
  have d: "\<forall>(a, c) \<in> set (reset_debug_csrs h). bits_object k c"
    by (auto simp: reset_debug_csrs_def Let_def stored_bits_def N_HPMCOUNTERS_def mask_eq_exp_minus_1)
  have u: "\<forall>(a, c) \<in> set (reset_user_csrs h). bits_object k c"
    by (auto simp: reset_user_csrs_def Let_def stored_bits_def N_HPMCOUNTERS_def)
  have ev: "menvcfg_mask h AND NOT menvcfg_fields = 0" "henvcfg_mask h AND NOT menvcfg_fields = 0"
    "senvcfg_mask h AND NOT (SENVCFG_CBCFE OR SENVCFG_CBIE OR SENVCFG_CBZE) = 0"
    unfolding menvcfg_mask_def henvcfg_mask_def senvcfg_mask_def by (intro within_or within_if; simp add: menvcfg_fields_def)+
  have e: "\<forall>(a, c) \<in> set (reset_envcfg_csrs h). bits_object k c"
    using ev by (auto simp: reset_envcfg_csrs_def Let_def stored_bits_def)
  have se: "sstateen0_mask h AND NOT (SSTATEEN0_CS OR SSTATEEN0_FCSR OR SSTATEEN0_JVT) = 0"
    unfolding sstateen0_mask_def by (intro within_or within_if) simp_all
  then have hse: "(sstateen0_mask h OR HSTATEEN0_SENVCFG OR HSTATEEN_SSTATEEN) AND NOT
      (SSTATEEN0_CS OR SSTATEEN0_FCSR OR SSTATEEN0_JVT OR HSTATEEN0_SENVCFG OR HSTATEEN_SSTATEEN) = 0"
    by (intro within_or within_trans [OF se]) simp_all
  have sb: "stored_bits k CSR_MSTATEEN0 = SSTATEEN0_CS OR SSTATEEN0_FCSR OR SSTATEEN0_JVT OR HSTATEEN0_SENVCFG OR HSTATEEN_SSTATEEN"
    "stored_bits k CSR_HSTATEEN0 = SSTATEEN0_CS OR SSTATEEN0_FCSR OR SSTATEEN0_JVT OR HSTATEEN0_SENVCFG OR HSTATEEN_SSTATEEN"
    "stored_bits k CSR_SSTATEEN0 = SSTATEEN0_CS OR SSTATEEN0_FCSR OR SSTATEEN0_JVT"
    by (simp_all add: stored_bits_def N_HPMCOUNTERS_def)
  have sb': "stored_bits k (CSR_MSTATEEN0 + i) = HSTATEEN_SSTATEEN" "stored_bits k (CSR_HSTATEEN0 + i) = HSTATEEN_SSTATEEN"
    if "i \<in> {1, 2, 3}" for i using that by (auto simp: stored_bits_def N_HPMCOUNTERS_def)
  have st0: "\<forall>(a, c) \<in> set (reset_stateen_csrs h 0). bits_object k c"
    using se hse by (simp add: reset_stateen_csrs_def Let_def sb del: bit.de_Morgan_disj)
  have st: "\<forall>(a, c) \<in> set (reset_stateen_csrs h i). bits_object k c" if i: "i \<in> {1, 2, 3}" for i
    using sb' [OF i] i by (auto simp: reset_stateen_csrs_def Let_def)
  have "bits_object k c" if "(a, c) \<in> set (reset_stateen_csrs h i)" "i < 4" for a c i
  proof -
    have "i = 0 \<or> i = 1 \<or> i = 2 \<or> i = 3" using that(2) by linarith
    then show ?thesis using st0 st [of i] that(1) by auto
  qed
  then have x: "\<forall>(a, c) \<in> set (concat (map (reset_stateen_csrs h) [0..<4])). bits_object k c"
    by (auto simp del: upt_rec_numeral upt_conv_Cons)
  have o': "\<forall>(a, c) \<in> set (reset_optional_csrs h). bits_object k c"
    using x by (auto simp: reset_optional_csrs_def Let_def stored_bits_def N_HPMCOUNTERS_def all_ints_def delegable_ints_def
        simp del: upt_rec_numeral upt_conv_Cons concat.simps list.map)
  show ?thesis using assms m hp i s d u e o' by (force simp: reset_csrs_def simp del: upt_conv_Cons set_upt)
qed

lemma reset_value_bits:
  assumes m: "mstatus_initial_value h = Some m" and u: "xlen_to_uxl (h_xlen h) = Some uxl"
    and w: "sstatus_write_mask h AND NOT sstatus_fields = 0"
  shows "reset_values m uxl h a AND NOT (stored_bits c a) = 0"
proof -
  have uxl: "uxl = 1 \<or> uxl = 2" using u by (auto simp: xlen_to_uxl_def split: if_splits)
  have mb: "m AND NOT (MSTATUS_UXL OR MSTATUS_SXL) = 0" using set_field_0_cases [OF m] by auto
  have s1: "m AND NOT mstatus_fields = 0" by (rule within_trans [OF mb]) (simp add: mstatus_fields_def sstatus_fields_def)
  define d where "d = sstatus_fields OR SSTATUS_UBE OR SSTATUS_UXL OR SSTATUS32_SD OR SSTATUS64_SD"
  have "sstatus_write_mask h AND NOT d = 0" by (rule within_trans [OF w]) (simp add: d_def sstatus_fields_def)
  then have "sstatus_read_mask h AND NOT d = 0" unfolding sstatus_read_mask_def
    by (intro within_or within_if) (simp_all add: d_def sstatus_fields_def)
  then have s2: "(m AND sstatus_read_mask h) AND NOT d = 0" by (rule within_and(1))
  have s3: "set_field 0 HSTATUS_VSXL uxl AND NOT hstatus_fields = 0" using uxl by (auto simp: set_field_def hstatus_fields_def)
  have s4: "(if extension_enabled ISA_U h \<and> extension_enabled EXT_SVPBMT h then MENVCFG_PBMTE else 0) AND NOT menvcfg_fields = 0"
    by (simp add: menvcfg_fields_def)
  have sb: "stored_bits c CSR_MISA = - 1" "stored_bits c CSR_MSTATUS = mstatus_fields" "stored_bits c CSR_VSSTATUS = d"
    "stored_bits c CSR_HSTATUS = hstatus_fields" "stored_bits c CSR_MENVCFG = menvcfg_fields" "stored_bits c CSR_HENVCFG = menvcfg_fields"
    "stored_bits c CSR_JVT = - 1"
    by (simp_all add: stored_bits_def N_HPMCOUNTERS_def d_def)
  show ?thesis unfolding reset_values_def using s1 s2 s3 s4 by (auto simp: sb)
qed

lemma state_reset_bits:
  assumes f: "csrmap h = (\<lambda>_. None)" and r: "state_reset h = Some h'"
  shows "csr_bits h'"
proof -
  define h1 where "h1 = write_csrv CSR_MISA (max_isa (cfg h))
           (h\<lparr>h_pc := DEFAULT_RSTVEC, XPR := regfile_reset, FPR := (\<lambda>_. (0, 0)), h_prv := PRV_M, h_v := False\<rparr>)"
  define hp where "hp = (extension_enabled ISA_S h1 \<and> supports_impl IMPL_MMU h1)"
  define h2 where "h2 = h1\<lparr>has_page := hp, sstatus_write_mask := compute_sstatus_write_mask hp h1\<rparr>"
  have same: "csrmap h2 = csrmap h" "sstatus_write_mask h2 = compute_sstatus_write_mask hp h1"
    by (simp_all add: h2_def h1_def)
  obtain m uxl where m: "mstatus_initial_value h2 = Some m" "xlen_to_uxl (h_xlen h2) = Some uxl" and
    h': "csrv h' = reset_values m uxl h2" "csrmap h' = foldl (\<lambda>m (a, c). m(a \<mapsto> c)) (csrmap h2) (reset_csrs h2)"
      "sstatus_write_mask h' = sstatus_write_mask h2"
    using r unfolding state_reset_def Let_def h1_def [symmetric] hp_def [symmetric] h2_def [symmetric]
    by (auto split: option.splits)
  have w: "sstatus_write_mask h2 AND NOT sstatus_fields = 0" unfolding same by (rule write_mask_fields)
  have "reset_values m uxl h2 CSR_HGATP = 0" by (simp add: reset_values_def)
  moreover have "bits_object (cfg h') c" if "csrmap h' a = Some c" for a c
    using foldl_map_upd [OF that [unfolded h'(2)]] f same(1) reset_object_bits by auto
  ultimately show ?thesis using reset_value_bits [OF m w] w h'
    by (auto simp: csr_bits_def hgatp_mode_ok_def get_field_def)
qed

lemma vu_reset_bits: "csr_bits h \<Longrightarrow> csr_bits (vu_reset h)"
proof -
  assume ok: "csr_bits h"
  have f: "cfg (vu_reset h) = cfg h" "h_xlen (vu_reset h) = h_xlen h" "sstatus_write_mask (vu_reset h) = sstatus_write_mask h"
    by (simp_all add: vu_reset_def Let_def)
  have v: "csrv (vu_reset h) a = (if a \<in> {CSR_VXSAT, CSR_VSTART, CSR_VXRM, CSR_VL, CSR_VTYPE, CSR_VLENB} then csrv (vu_reset h) a else csrv h a)" for a
    by (auto simp: vu_reset_def Let_def)
  have z: "csrv (vu_reset h) CSR_VXSAT = 0" "csrv (vu_reset h) CSR_VSTART = 0" "csrv (vu_reset h) CSR_VXRM = 0"
    by (simp_all add: vu_reset_def Let_def)
  have s: "stored_bits c CSR_VL = - 1" "stored_bits c CSR_VTYPE = - 1" "stored_bits c CSR_VLENB = - 1" for c
    by (simp_all add: stored_bits_def N_HPMCOUNTERS_def)
  have "csrv (vu_reset h) a AND NOT (stored_bits (cfg h) a) = 0" for a
    using v [of a] z s csr_bits_key [OF ok, of a] by (cases "a \<in> {CSR_VXSAT, CSR_VSTART, CSR_VXRM, CSR_VL, CSR_VTYPE, CSR_VLENB}") auto
  moreover have "csrv (vu_reset h) CSR_HGATP = csrv h CSR_HGATP" by (simp add: vu_reset_def Let_def)
  moreover have "bits_object (cfg h) c" if "csrmap (vu_reset h) a = Some c" for a c
  proof -
    have sv: "stored_bits c CSR_VXRM = 3" "stored_bits c CSR_VSTART = of_nat (cfg_vlen c) - 1" for c
      by (simp_all add: stored_bits_def N_HPMCOUNTERS_def)
    have "csrmap h a = Some c \<or> c \<in> {Vxsat_csr, Vector_csr CSR_VSTART (of_nat (cfg_vlen (cfg h)) - 1), Vector_csr CSR_VXRM 3, Vector_csr CSR_VL 0,
       Vector_csr CSR_VTYPE 0, Vector_csr CSR_VLENB 0, Composite_csr CSR_VCSR (Vector_csr CSR_VXRM 3) Vxsat_csr 1}"
      using that by (auto simp: vu_reset_def Let_def split: if_splits)
    then show ?thesis using ok by (auto simp: csr_bits_def sv)
  qed
  ultimately show ?thesis using ok by (auto simp: csr_bits_def f)
qed

lemma processor_reset_bits:
  assumes "hart_fresh h" "processor_reset halt h = Some h'"
  shows "csr_bits h'"
proof -
  obtain h1 where r: "state_reset (h\<lparr>h_xlen := max_xlen (cfg h)\<rparr>) = Some h1" and
    h': "(let h2 = (vu_reset (h1\<lparr>dcsr := (dcsr h1)\<lparr>dcsr_halt := halt\<rparr>\<rparr>))\<lparr>in_wfi := False\<rparr>
          in if n_pmp (pmp h2) > 0 then
               (case put_csr CSR_PMPADDR0 (- 1) h2 of None \<Rightarrow> None
                | Some h \<Rightarrow> put_csr CSR_PMPCFG0 (ucast (PMP_R OR PMP_W OR PMP_X OR PMP_NAPOT)) h)
             else Some h2) = Some h'"
    using assms(2) by (auto simp: processor_reset_def Let_def split: option.splits)
  have "csr_bits h1" by (rule state_reset_bits [OF _ r]) (use assms(1) in \<open>simp add: hart_fresh_def\<close>)
  then have "csr_bits (vu_reset (h1\<lparr>dcsr := (dcsr h1)\<lparr>dcsr_halt := halt\<rparr>\<rparr>))" by (intro vu_reset_bits) simp
  then have "csr_bits ((vu_reset (h1\<lparr>dcsr := (dcsr h1)\<lparr>dcsr_halt := halt\<rparr>\<rparr>))\<lparr>in_wfi := False\<rparr>)" by simp
  then show ?thesis using h' by (auto simp: Let_def dest: put_csr_bits split: if_splits option.splits)
qed

end
