(* ===== verification/CSR_Views.thy ===== *)
theory CSR_Views
  imports CSR_Bits
begin

text \<open>
  What sequences of register writes preserve (locked PMP entries, debugger-owned triggers, the
  invariant from reset on), and what the supervisor's views \<open>sip\<close> and \<open>sstatus\<close> may change
  in the machine registers they show.
\<close>

subsection \<open>Locks of the hart\<close>

text \<open>What register writes outside the PMP and trigger registers leave alone.\<close>

definition guards_of :: "hart \<Rightarrow> pmp_state \<times> trigger_module \<times> bool" where
  "guards_of h = (pmp h, tm h, debug_mode h)"

lemma guards_of_simps [simp]:
  "guards_of (write_csrv a v h) = guards_of h" "guards_of (hart_flush_tlb h) = guards_of h"
  "guards_of (maybe_flush_tlb n p h) = guards_of h" "guards_of (set_extension_enable e b h) = guards_of h"
  "guards_of (write_with_mask a m v h) = guards_of h" "guards_of (backdoor_write_with_mask m v h) = guards_of h"
  "guards_of (ip_write accr v h) = guards_of h" "guards_of (ie_write accr v h) = guards_of h"
  "guards_of (misa_set_extensions m h) = guards_of h" "guards_of (h\<lparr>dcsr := d\<rparr>) = guards_of h"
  by (simp_all add: guards_of_def write_csrv_def hart_flush_tlb_def maybe_flush_tlb_def
      set_extension_enable_def write_with_mask_def backdoor_write_with_mask_def ip_write_def ie_write_def
      misa_set_extensions_def Let_def)

lemma guards_of_pairs [simp]:
  "guards_of (snd (masked_write a old m v h)) = guards_of h"
  "guards_of (snd (masked_unlogged_write a m v h)) = guards_of h"
  "guards_of (snd (vsstatus_unlogged_write v h)) = guards_of h"
  "guards_of (snd (mideleg_unlogged_write v h)) = guards_of h"
  "guards_of (snd (medeleg_unlogged_write v h)) = guards_of h"
  "guards_of (snd (mevent_unlogged_write a v h)) = guards_of h"
  "guards_of (snd (base_atp_unlogged_write a v h)) = guards_of h"
  "guards_of (snd (hgatp_unlogged_write v h)) = guards_of h"
  "guards_of (snd (wide_counter_unlogged_write a v h)) = guards_of h"
  "guards_of (snd (stimecmp_unlogged_write a m v h)) = guards_of h"
  "guards_of (snd (tselect_unlogged_write v h)) = guards_of h"
  "guards_of (snd (dcsr_unlogged_write v h)) = guards_of h"
  by (simp_all only: masked_write_def masked_unlogged_write_def vsstatus_unlogged_write_def
      mideleg_unlogged_write_def medeleg_unlogged_write_def mevent_unlogged_write_def
      base_atp_unlogged_write_def hgatp_unlogged_write_def wide_counter_unlogged_write_def
      stimecmp_unlogged_write_def tselect_unlogged_write_def dcsr_unlogged_write_def Let_def snd_conv
      guards_of_simps if_distrib [of guards_of] if_cancel)

lemma guards_of_pairs2 [simp]:
  "guards_of (snd (virtualized_satp_unlogged_write v h)) = guards_of h"
  "guards_of (snd (henvcfg_unlogged_write m v h)) = guards_of h"
  "guards_of (snd (hideleg_unlogged_write v h)) = guards_of h"
  "guards_of (snd (hstateen_unlogged_write m i v h)) = guards_of h"
  "guards_of (snd (sstateen_unlogged_write m i v h)) = guards_of h"
  by (simp_all only: virtualized_satp_unlogged_write_def henvcfg_unlogged_write_def
      hideleg_unlogged_write_def hstateen_unlogged_write_def sstateen_unlogged_write_def Let_def snd_conv
      guards_of_pairs)

lemma guards_of_mstatus: "mstatus_unlogged_write v h = Some (b, h') \<Longrightarrow> guards_of h' = guards_of h"
  by (auto simp: mstatus_unlogged_write_def Let_def split: option.splits)

lemma guards_of_mnstatus: "mnstatus_unlogged_write v h = Some (b, h') \<Longrightarrow> guards_of h' = guards_of h"
  by (auto simp: mnstatus_unlogged_write_def Let_def split: option.splits)

lemma guards_of_proxy: "sstatus_proxy_unlogged_write v h = Some (b, h') \<Longrightarrow> guards_of h' = guards_of h"
  by (auto simp: sstatus_proxy_unlogged_write_def Let_def dest: guards_of_mstatus split: if_splits)

lemma guards_of_sstatus: "sstatus_unlogged_write v h = Some (b, h') \<Longrightarrow> guards_of h' = guards_of h"
  by (auto simp: sstatus_unlogged_write_def dest: guards_of_proxy split: if_splits)

lemma guards_of_dirty: "sstatus_dirty d h = Some h' \<Longrightarrow> guards_of h' = guards_of h"
  by (auto simp: sstatus_dirty_def dest: guards_of_proxy split: if_splits option.splits)

lemma guards_of_clear: "guards_of (mevent_clear_loop is h) = guards_of h"
  by (induction "is" h rule: mevent_clear_loop.induct) (simp_all add: Let_def)

lemma guards_of_drop_h:
  assumes "misa_drop_h h = Some h'"
  shows "guards_of h' = guards_of h"
proof -
  obtain h1 h2 b h3 where
    1: "drop_h_mnstatus (snd (medeleg_unlogged_write (csrv h CSR_MEDELEG AND NOT hypervisor_exceptions) h)) = Some h1"
    and 2: "mstatus_unlogged_write (mstatus_read h1 AND NOT (MSTATUS_GVA OR MSTATUS_MPV)) h1 = Some (b, h2)"
    and 3: "drop_h_mstatush (mstatus_read h1 AND NOT (MSTATUS_GVA OR MSTATUS_MPV)) h2 = Some h3"
    and 4: "h' = mevent_clear_loop [3..<N_HPMCOUNTERS + 3] (drop_h_interrupts h3)"
    using assms unfolding misa_drop_h_def Let_def bind_eq_Some_conv split_paired_Ex prod.case
    by blast
  have "guards_of h1 = guards_of h"
    using 1 by (auto simp: drop_h_mnstatus_def dest: guards_of_mnstatus split: if_splits)
  moreover have "guards_of h3 = guards_of h2"
    using 3 by (auto simp: drop_h_mstatush_def dest: guards_of_mstatus split: if_splits)
  moreover have "guards_of (drop_h_interrupts h3) = guards_of h3"
    by (simp only: drop_h_interrupts_def Let_def guards_of_simps guards_of_pairs)
  ultimately show ?thesis unfolding 4 guards_of_clear using guards_of_mstatus [OF 2] by simp
qed

lemma guards_of_misa: "misa_unlogged_write v h = Some (b, h') \<Longrightarrow> guards_of h' = guards_of h"
  by (auto simp: misa_unlogged_write_def Let_def dest: guards_of_drop_h split: if_splits option.splits)

lemma guards_of_float: "float_unlogged_write a m v h = Some (b, h') \<Longrightarrow> guards_of h' = guards_of h"
proof -
  assume "float_unlogged_write a m v h = Some (b, h')"
  then obtain k where "sstatus_dirty SSTATUS_FS h = Some k" "h' = snd (masked_unlogged_write a m v k)"
    by (auto simp: float_unlogged_write_def)
  then show ?thesis by (simp add: guards_of_dirty)
qed

text \<open>One write as seen by the locks: it leaves them alone, or is one PMP or one trigger step.\<close>

inductive guard_step :: "hart \<Rightarrow> hart \<Rightarrow> bool" where
  keep: "guards_of h' = guards_of h \<Longrightarrow> guard_step h h'"
| pmp: "pmp_step (pmp h) (pmp h') \<Longrightarrow> tm h' = tm h \<Longrightarrow> debug_mode h' = debug_mode h \<Longrightarrow> guard_step h h'"
| trig: "trig_step (trig_env_of h) (tm h) (tm h') \<Longrightarrow> pmp h' = pmp h \<Longrightarrow> debug_mode h' = debug_mode h \<Longrightarrow>
    guard_step h h'"

inductive_cases guard_stepE: "guard_step h h'"

lemma keep_snd: "guards_of (snd r) = guards_of h \<Longrightarrow> r = (b, h') \<Longrightarrow> guard_step\<^sup>*\<^sup>* h h'"
  by (auto intro: guard_step.keep)

lemma keep_opt: "guards_of h' = guards_of h \<Longrightarrow> guard_step\<^sup>*\<^sup>* h h'"
  by (auto intro: guard_step.keep)

lemma pmp_lift_step:
  "pmp_lift r h = Some (b, h') \<Longrightarrow> pmp_step (pmp h) (snd (snd r)) \<Longrightarrow> guard_step\<^sup>*\<^sup>* h h'"
  by (auto simp: pmp_lift_def Let_def hart_flush_tlb_def split: prod.splits if_splits
      intro!: r_into_rtranclp guard_step.pmp)

lemma tm_lift_step:
  assumes "tm_lift r h = Some (b, h')" "\<And>ok ts. r = Some (ok, ts) \<Longrightarrow> trig_step (trig_env_of h) (tm h) ts"
  shows "guard_step\<^sup>*\<^sup>* h h'"
proof -
  obtain ok ts where r: "r = Some (ok, ts)" "h' = (if ok then trigger_updated ts (h\<lparr>tm := ts\<rparr>) else h)"
    using assms(1) by (auto simp: tm_lift_def split: option.splits)
  show ?thesis
  proof (cases ok)
    case True
    then have "guard_step h h'" using r assms(2) [OF r(1)]
      by (auto simp: trigger_updated_def Let_def hart_flush_tlb_def intro: guard_step.trig)
    then show ?thesis by blast
  qed (use r in simp)
qed

lemma unlogged_write_guards:
  "csr_unlogged_write c val h = Some (b, h') \<Longrightarrow> guard_step\<^sup>*\<^sup>* h h'"
proof (induction c arbitrary: val h b h')
  case (Composite_csr a upper lower lsb)
  then obtain c1 h1 c2 where "csr_unlogged_write upper (shr val lsb) h = Some (c1, h1)"
      "csr_unlogged_write lower val h1 = Some (c2, h')"
    by (auto split: option.splits dest: silent_Some)
  then show ?case using Composite_csr.IH rtranclp_trans [of guard_step h h1 h'] by simp
next
  case (Virtualized_csr orig virt)
  then show ?case by (force split: if_splits dest: silent_Some)
next
  case (Pmpaddr_csr i)
  then show ?case by (auto intro: pmp_lift_step pmp_step.addr)
next
  case (Pmpcfg_csr i)
  then show ?case by (auto intro: pmp_lift_step pmp_step.cfg)
next
  case Mseccfg_csr
  then show ?case by (auto intro: pmp_lift_step pmp_step.sec)
next
  case Tdata1_csr
  then show ?case by (auto intro: tm_lift_step trig_step.intros)
next
  case Tdata2_csr
  then show ?case by (auto intro: tm_lift_step trig_step.intros)
next
  case Tdata3_csr
  then show ?case by (auto intro: tm_lift_step trig_step.intros)
next
  case Vxsat_csr
  then obtain k where "sstatus_dirty SSTATUS_VS h = Some k" "h' = snd (masked_unlogged_write CSR_VXSAT 1 val k)"
    by auto
  then have "guards_of h' = guards_of h" by (simp add: guards_of_dirty)
  then show ?case by (rule keep_opt)
next
  case (Vector_csr a msk)
  then have "guards_of h' = guards_of h"
    by (auto simp: vector_unlogged_write_def guards_of_dirty split: if_splits)
  then show ?case by (rule keep_opt)
next
  case (Rv32_low_csr a orig)
  then show ?case by simp
next
  case (Rv32_high_csr a orig)
  then show ?case by simp
next
  case (Proxy_csr a orig)
  then show ?case by (auto dest!: silent_Some)
next
  case (Counter_proxy_csr a orig)
  then show ?case by (auto dest!: silent_Some)
qed (auto intro: keep_opt keep_snd [OF guards_of_pairs(1)] keep_snd [OF guards_of_pairs(2)]
    keep_snd [OF guards_of_pairs(3)] keep_snd [OF guards_of_pairs(4)] keep_snd [OF guards_of_pairs(5)]
    keep_snd [OF guards_of_pairs(6)] keep_snd [OF guards_of_pairs(7)] keep_snd [OF guards_of_pairs(8)]
    keep_snd [OF guards_of_pairs(9)] keep_snd [OF guards_of_pairs(10)] keep_snd [OF guards_of_pairs(11)]
    keep_snd [OF guards_of_pairs(12)] keep_snd [OF guards_of_pairs2(1)] keep_snd [OF guards_of_pairs2(2)]
    keep_snd [OF guards_of_pairs2(3)] keep_snd [OF guards_of_pairs2(4)] keep_snd [OF guards_of_pairs2(5)]
    guards_of_mstatus guards_of_mnstatus guards_of_sstatus guards_of_proxy guards_of_misa guards_of_float)


lemma csr_step_guards: "csr_step h h' \<Longrightarrow> guard_step\<^sup>*\<^sup>* h h'"
  by (auto elim!: csr_stepE simp: put_csr_def csr_write_def split: option.splits dest: unlogged_write_guards)

text \<open>The two locks of the hart as sticky registers of \<open>guard_step\<close>.\<close>

definition pmp_armed :: "nat \<Rightarrow> hart \<Rightarrow> bool" where
  "pmp_armed i h \<longleftrightarrow> entry_locked i (pmp h)"

definition trigger_armed :: "nat \<Rightarrow> hart \<Rightarrow> bool" where
  "trigger_armed i h \<longleftrightarrow> \<not> debug_mode h \<and> i < length (tm h) \<and> get_dmode (tm h ! i)"

lemma guard_step_pmp:
  assumes "guard_step h h'" "pmp_armed i h"
  shows "pmp_armed i h'" "entry_view i (pmp h') = entry_view i (pmp h)"
  using assms pmp_step_locked [of "pmp h" "pmp h'" i]
  by (auto elim!: guard_stepE simp: pmp_armed_def guards_of_def)

lemma guard_step_trigger:
  assumes "guard_step h h'" "trigger_armed i h"
  shows "trigger_armed i h'" "tm h' ! i = tm h ! i"
  using assms trig_step_frame [of "trig_env_of h" "tm h" "tm h'"]
  by (auto elim!: guard_stepE simp: trigger_armed_def guards_of_def trig_env_of_def)

interpretation pmp_guard: sticky guard_step "pmp_armed i" "\<lambda>h. entry_view i (pmp h)" for i
  by unfold_locales (auto dest: guard_step_pmp)

interpretation trigger_guard: sticky guard_step "trigger_armed i" "\<lambda>h. tm h ! i" for i
  by unfold_locales (auto dest: guard_step_trigger)

lemma csr_steps_guards: "csr_step\<^sup>*\<^sup>* h h' \<Longrightarrow> guard_step\<^sup>*\<^sup>* h h'"
  by (induction rule: rtranclp_induct) (auto dest: csr_step_guards)

text \<open>
  No sequence of register writes by software outside debug mode, to any registers in any
  order, changes a locked PMP entry or a trigger owned by the debugger.
\<close>

theorem hart_locks_permanent:
  assumes "csr_step\<^sup>*\<^sup>* h h'" "\<not> debug_mode h"
  shows "(entry_locked i (pmp h) \<longrightarrow> entry_view i (pmp h') = entry_view i (pmp h)) \<and>
    (j < length (tm h) \<and> get_dmode (tm h ! j) \<longrightarrow> tm h' ! j = tm h ! j)"
  using pmp_guard.view_forever [OF csr_steps_guards [OF assms(1)], of i]
    trigger_guard.view_forever [OF csr_steps_guards [OF assms(1)], of j] assms(2)
  by (simp add: pmp_armed_def trigger_armed_def)


lemma demo_fresh: "hart_fresh demo_hart"
  by (simp add: hart_fresh_def demo_hart_def demo_cfg_def pmp_reset_def misa_closed_def)

lemma foldl_upd_installed:
  "(a, c) \<in> set xs \<Longrightarrow> \<exists>c. foldl (\<lambda>m (a, c). m(a \<mapsto> c)) m xs a = Some c \<and> (a, c) \<in> set xs"
proof (induction xs rule: rev_induct)
  case (snoc x xs)
  then show ?case by (cases x) auto
qed simp

lemma reset_mscratch:
  "(CSR_MSCRATCH, Basic_csr CSR_MSCRATCH) \<in> set (reset_csrs h)"
  "(CSR_MSCRATCH, c) \<in> set (reset_csrs h) \<Longrightarrow> c = Basic_csr CSR_MSCRATCH"
proof -
  show "(CSR_MSCRATCH, Basic_csr CSR_MSCRATCH) \<in> set (reset_csrs h)"
    by (simp add: reset_csrs_def reset_machine_csrs_def Let_def)
  have "c = Basic_csr CSR_MSCRATCH" if "(CSR_MSCRATCH, c) \<in> set (reset_machine_csrs h)"
    using that by (auto simp: reset_machine_csrs_def Let_def split: if_splits)
  moreover have "(CSR_MSCRATCH, c) \<notin> set (reset_hpm_csrs h i)" if "i \<in> set [3..<N_HPMCOUNTERS + 3]" for i
    using that by (auto simp: reset_hpm_csrs_def Let_def N_HPMCOUNTERS_def)
  moreover have "(CSR_MSCRATCH, c) \<notin> set (reset_interrupt_csrs h)"
    "(CSR_MSCRATCH, c) \<notin> set (reset_supervisor_csrs h)" "(CSR_MSCRATCH, c) \<notin> set (reset_user_csrs h)"
    "(CSR_MSCRATCH, c) \<notin> set (reset_envcfg_csrs h)" "(CSR_MSCRATCH, c) \<notin> set (reset_optional_csrs h)"
    by (auto simp: reset_interrupt_csrs_def reset_supervisor_csrs_def reset_user_csrs_def reset_envcfg_csrs_def
        reset_optional_csrs_def reset_stateen_csrs_def Let_def)
  moreover have "(CSR_MSCRATCH, c) \<notin> set (reset_debug_csrs h)"
    by (auto simp: reset_debug_csrs_def Let_def)
  ultimately show "(CSR_MSCRATCH, c) \<in> set (reset_csrs h) \<Longrightarrow> c = Basic_csr CSR_MSCRATCH"
    by (auto simp: reset_csrs_def simp del: upt_conv_Cons set_upt)
qed

lemma demo_reset:
  obtains h where "processor_reset False demo_hart = Some h" "csrmap h CSR_MSCRATCH = Some (Basic_csr CSR_MSCRATCH)"
    "\<not> debug_mode h" "tm h = tm demo_hart" "pmp h = pmp demo_hart" "h_xlen h = 64" "csrv h CSR_MSCRATCH = 0"
proof -
  have x: "h_xlen demo_hart = 64" "max_xlen (cfg demo_hart) = 64" "pmp demo_hart = pmp_reset 0 2"
    by (simp_all add: demo_hart_def demo_cfg_def)
  then have e: "demo_hart\<lparr>h_xlen := max_xlen (cfg demo_hart)\<rparr> = demo_hart" by (cases demo_hart) simp
  obtain h1 where h1: "state_reset demo_hart = Some h1"
    by (auto simp: state_reset_def mstatus_initial_value_def xlen_to_uxl_def Let_def x)
  have f: "\<not> debug_mode h1 \<and> tm h1 = tm demo_hart \<and> n_pmp (pmp h1) = 0 \<and> pmp h1 = pmp_reset 0 2 \<and> h_xlen h1 = 64 \<and>
      csrv h1 CSR_MSCRATCH = 0 \<and> (\<exists>k. csrmap h1 = foldl (\<lambda>m (a, c). m(a \<mapsto> c)) (csrmap demo_hart) (reset_csrs k))"
    using h1 by (auto simp: state_reset_def mstatus_initial_value_def xlen_to_uxl_def Let_def x pmp_reset_def
        reset_values_def write_csrv_def)
  then have m: "csrmap h1 CSR_MSCRATCH = Some (Basic_csr CSR_MSCRATCH)"
    using foldl_upd_installed [OF reset_mscratch(1)] reset_mscratch(2) by metis
  let ?h = "(vu_reset (h1\<lparr>dcsr := (dcsr h1)\<lparr>dcsr_halt := False\<rparr>\<rparr>))\<lparr>in_wfi := False\<rparr>"
  have "processor_reset False demo_hart = Some ?h"
    unfolding processor_reset_def Let_def e h1 option.case using f by (simp add: vu_reset_def Let_def pmp_reset_def)
  moreover have "csrmap ?h CSR_MSCRATCH = Some (Basic_csr CSR_MSCRATCH)" "\<not> debug_mode ?h"
    "tm ?h = tm demo_hart" "pmp ?h = pmp demo_hart" "h_xlen ?h = 64" "csrv ?h CSR_MSCRATCH = 0"
    using f m x by (simp_all add: vu_reset_def Let_def)
  ultimately show thesis by (rule that)
qed


lemma hart_locks_permanent_witness:
  "\<exists>h h'. get_dmode (tm h ! 1) \<and> put_csr CSR_MSCRATCH 7 h = Some h' \<and> csrv h' CSR_MSCRATCH = 7 \<and>
     tm h' ! 1 = tm h ! 1"
proof -
  let ?t = "[tm demo_hart ! 0, (tm demo_hart ! 0)\<lparr>kind := Disabled_trigger True\<rparr>]"
  let ?h = "demo_hart\<lparr>csrmap := [CSR_MSCRATCH \<mapsto> Basic_csr CSR_MSCRATCH], tm := ?t\<rparr>"
  let ?h' = "write_csrv CSR_MSCRATCH 7 ?h"
  have p: "put_csr CSR_MSCRATCH 7 ?h = Some ?h'"
    by (simp add: put_csr_def csr_write_def zext_xlen_def demo_hart_def)
  then have s: "csr_step\<^sup>*\<^sup>* ?h ?h'" by (blast intro: csr_step.put)
  have d: "get_dmode (tm ?h ! 1)" "1 < length (tm ?h)" by (simp_all add: get_dmode_def)
  have "\<not> debug_mode ?h" by (simp add: demo_hart_def)
  from hart_locks_permanent [OF s this, of 0 1] d have "tm ?h' ! 1 = tm ?h ! 1" by blast
  then show ?thesis using p d by (intro exI [of _ ?h] exI [of _ ?h']) simp
qed

subsection \<open>The supervisor's views\<close>

text \<open>The object installed for \<open>sip\<close>.\<close>

definition sip_csr :: csr where
  "sip_csr = Virtualized_csr (Mip_proxy_csr CSR_SIP sip_sie_accr) (Mip_proxy_csr CSR_VSIP vsip_vsie_accr)"

lemma sip_installed: "(CSR_SIP, sip_csr) \<in> set (reset_csrs h)"
  by (simp add: reset_csrs_def reset_interrupt_csrs_def Let_def sip_csr_def)

definition sip_writable :: "hart \<Rightarrow> reg_t" where
  "sip_writable h = (if h_v h then hideleg_read h AND MIP_VSSIP else mideleg_read h AND (MIP_SSIP OR MIP_LCOFIP))"

text \<open>
  A write to \<open>sip\<close> changes only the bits of \<open>mip\<close> that are both writable and delegated to the
  mode in force (the virtual supervisor's own software interrupt one position up when the hart
  is virtualized), gives those the written value, and changes no other register.
\<close>

theorem sip_write_confined:
  assumes "csr_write sip_csr val h = Some h'"
  shows "mip_read h' = (mip_read h AND NOT (sip_writable h)) OR
      ((if h_v h then shl val 1 else val) AND sip_writable h) \<and>
    (\<forall>a. a \<noteq> CSR_MIP \<longrightarrow> csrv h' a = csrv h a)"
  using assms
  by (auto simp: csr_write_def sip_csr_def silent_def ip_write_def Let_def write_with_mask_def mip_read_def
      deleg_mask_def sip_sie_accr_def vsip_vsie_accr_def sip_writable_def split: if_splits)

lemma sip_write_confined_witness:
  "\<exists>h'. csr_write sip_csr 2 (write_csrv CSR_MIDELEG 2 demo_hart) = Some h' \<and> mip_read h' = 2"
proof -
  let ?h = "write_csrv CSR_MIDELEG 2 demo_hart"
  obtain h' where w: "csr_write sip_csr 2 ?h = Some h'"
    by (simp add: csr_write_def sip_csr_def silent_def demo_hart_def write_csrv_def)
  have "\<not> h_v ?h" "mip_read ?h = 0" "mideleg_read ?h = 2"
    by (simp_all add: demo_hart_def mip_read_def mideleg_read_def write_csrv_def Let_def
        extension_enabled_def misa_extension_enabled_def)
  with sip_write_confined [OF w] w show ?thesis by (simp add: sip_writable_def)
qed

text \<open>Writing \<open>sstatus\<close>.\<close>

lemma mstatus_write_result:
  assumes "mstatus_unlogged_write val h = Some (b, h')" "SSTATUS64_SD AND x = 0" "SSTATUS32_SD AND x = 0"
  shows "\<exists>q. legalize_privilege (get_field val MSTATUS_MPP) h = Some q \<and>
     mstatus_read h' AND x = ((mstatus_read h AND NOT (mstatus_mask h)) OR
        (set_field val MSTATUS_MPP q AND mstatus_mask h)) AND x"
  using mstatus_write_mpp [OF assms(1)] adjust_sd_other [OF assms(2,3)]
  by (auto simp: mstatus_read_def)

text \<open>
  C34. A write to \<open>sstatus\<close> outside virtualization changes exactly the supervisor's writable fields
  of \<open>mstatus\<close>, gives them the written value, and leaves every machine-level field alone,
  the dirty summary apart.
\<close>

theorem sstatus_write_confined:
  assumes "csr_ok h" "\<not> h_v h" "extension_enabled ISA_U h"
    and m: "sstatus_write_mask h AND NOT sstatus_fields = 0"
    and w: "csr_write Sstatus_csr val h = Some h'"
  shows "mstatus_read h' AND NOT (SSTATUS64_SD OR SSTATUS32_SD) =
    ((mstatus_read h AND NOT (sstatus_write_mask h)) OR (val AND sstatus_write_mask h))
      AND NOT (SSTATUS64_SD OR SSTATUS32_SD)"
proof -
  define new where "new = (mstatus_read h AND NOT (sstatus_write_mask h)) OR (val AND sstatus_write_mask h)"
  let ?x = "NOT (SSTATUS64_SD OR SSTATUS32_SD) :: reg_t"
  have sub: "sstatus_write_mask h AND sstatus_fields = sstatus_write_mask h"
    using m by (auto simp: bit_eq_iff bit_and_iff bit_not_iff)
  obtain b where b: "mstatus_unlogged_write new h = Some (b, h')"
    using w assms(2)
    by (auto simp: csr_write_def sstatus_unlogged_write_def sstatus_proxy_unlogged_write_def Let_def new_def
        split: if_splits)
  obtain q where q: "legalize_privilege (get_field new MSTATUS_MPP) h = Some q"
    and r: "mstatus_read h' AND ?x = ((mstatus_read h AND NOT (mstatus_mask h)) OR
        (set_field new MSTATUS_MPP q AND mstatus_mask h)) AND ?x"
    using mstatus_write_result [OF b, of ?x] by auto
  have "sstatus_write_mask h AND MSTATUS_MPP = (sstatus_write_mask h AND sstatus_fields) AND MSTATUS_MPP"
    by (simp only: sub)
  also have "\<dots> = 0" by (simp add: sstatus_fields_def and.assoc)
  finally have "new AND MSTATUS_MPP = mstatus_read h AND MSTATUS_MPP"
    unfolding new_def by (rule masked_merge_out)
  then have f: "get_field new MSTATUS_MPP = get_field (mstatus_read h) MSTATUS_MPP" by (rule get_field_cong)
  have "legal_prv (cfg h) (get_field (mstatus_read h) MSTATUS_MPP)"
    using csr_ok_key [OF assms(1), of CSR_MSTATUS] by (simp add: key_ok_def mstatus_read_def)
  then have "q = get_field new MSTATUS_MPP"
    using q assms(1,3) unfolding f
    by (auto simp: legalize_privilege_def legal_prv_def extension_S_constant split: if_splits)
  then have same: "set_field new MSTATUS_MPP q = new"
    by (simp only: mpp_mask) (rule bit_word_eqI, auto simp: bit_set_field get_field_contiguous bit_simps)
  have "bit (mstatus_mask h) i" if "bit (sstatus_write_mask h) i" for i
    using that by (simp only: mstatus_mask_def bit_or_iff simp_thms)
  then have "(mstatus_read h AND NOT (mstatus_mask h)) OR (new AND mstatus_mask h) = new"
    unfolding new_def by (auto simp: bit_eq_iff bit_and_iff bit_or_iff bit_not_iff)
  with r same show ?thesis by (simp only: new_def)
qed

text \<open>A hart whose registers are zero apart from \<open>misa\<close>.\<close>

definition demo_running :: hart where
  "demo_running = (write_csrv CSR_MISA (max_isa demo_cfg) demo_hart)\<lparr>sstatus_write_mask := sstatus_fields, has_page := True\<rparr>"

lemma demo_running_ok: "csr_ok demo_running"
proof -
  have m: "misa_legal demo_cfg (max_isa demo_cfg)" "misa_closed (max_isa demo_cfg)"
    by (simp_all add: misa_legal_def misa_closed_def demo_cfg_def)
  have "key_ok demo_cfg 64 4 a (if a = CSR_MISA then max_isa demo_cfg else 0)" for a
    using key_ok_zero [of a 64 demo_cfg 4] m by (auto simp: key_ok_def [of _ _ _ CSR_MISA])
  then show ?thesis
    using m by (simp add: csr_ok_def demo_running_def demo_hart_def write_csrv_def pmp_wf_def pmp_reset_def
        module_init_def fun_upd_def)
qed

lemma sstatus_write_confined_witness:
  "\<exists>h'. csr_write Sstatus_csr (SSTATUS_SIE OR MSTATUS_MPP) demo_running = Some h' \<and>
     mstatus_read h' AND NOT (SSTATUS64_SD OR SSTATUS32_SD) = SSTATUS_SIE"
proof -
  have d: "\<not> h_v demo_running" "extension_enabled ISA_U demo_running" "mstatus_read demo_running = 0"
    "sstatus_write_mask demo_running = sstatus_fields"
    by (simp_all add: demo_running_def demo_hart_def demo_cfg_def write_csrv_def extension_enabled_def
        misa_extension_enabled_def mstatus_read_def)
  have l: "legalize_privilege (get_field ((SSTATUS_SIE OR MSTATUS_MPP) AND sstatus_fields) MSTATUS_MPP) demo_running = Some 0"
    using d(2) by (simp add: legalize_privilege_def get_field_def sstatus_fields_def)
  obtain h' where w: "csr_write Sstatus_csr (SSTATUS_SIE OR MSTATUS_MPP) demo_running = Some h'"
    using l d by (simp add: csr_write_def sstatus_unlogged_write_def sstatus_proxy_unlogged_write_def Let_def
        mstatus_unlogged_write_def sstatus_fields_def) blast
  have "sstatus_write_mask demo_running AND NOT sstatus_fields = 0" using d by simp
  from sstatus_write_confined [OF demo_running_ok d(1,2) this w] w d(3,4) show ?thesis
    by (simp add: sstatus_fields_def)
qed

lemma csr_access_guarded_witness:
  "get_csr CSR_MSCRATCH 0 True False
     (demo_running\<lparr>csrmap := [CSR_MSCRATCH \<mapsto> Basic_csr CSR_MSCRATCH]\<rparr>) = Inr 0 \<and> csr_priv CSR_MSCRATCH \<le> PRV_M"
proof -
  let ?h = "demo_running\<lparr>csrmap := [CSR_MSCRATCH \<mapsto> Basic_csr CSR_MSCRATCH]\<rparr>"
  have g: "get_csr CSR_MSCRATCH 0 True False ?h = Inr 0"
    by (simp add: get_csr_def base_verify_def csr_priv_unsigned csr_read_only_unsigned Let_def
        demo_running_def demo_hart_def write_csrv_def)
  have m: "csrmap ?h CSR_MSCRATCH = Some (Basic_csr CSR_MSCRATCH)" by simp
  have "csr_priv CSR_MSCRATCH \<le> effective_priv ?h"
    using csr_access_guarded [OF m reset_mscratch(1) g] by simp
  then show ?thesis
    using g by (simp add: effective_priv_def demo_running_def demo_hart_def write_csrv_def)
qed

end
