(* ===== verification/Processor.thy ===== *)
theory Processor
  imports CSR_Views
begin

text \<open>
  Interrupts, traps and debug mode: \<open>take_interrupt\<close>, \<open>take_trap\<close>, \<open>enter_debug_mode\<close>,
  \<open>take_trigger_action\<close> of \<open>riscv/processor.cc\<close> and the fetch and execute loop \<open>step\<close> of
  \<open>riscv/execute.cc\<close>. Fetching and executing one instruction is an argument of the loop.
  The log output is not modelled.
\<close>

subsection \<open>Register writes of a handler\<close>

text \<open>\<open>state.x->write(v)\<close>: the object writes; a failed assertion is \<open>Abort\<close>.\<close>

definition of_opt :: "(hart \<Rightarrow> hart option) \<Rightarrow> (hart, exn, unit) comp" where
  "of_opt f h = (case f h of None \<Rightarrow> (Inl Abort, h) | Some h' \<Rightarrow> (Inr (), h'))"

definition write_obj :: "csr \<Rightarrow> reg_t \<Rightarrow> (hart, exn, unit) comp" where
  "write_obj c v = of_opt (csr_write c v)"

abbreviation (input) scause_csr :: csr where
  "scause_csr \<equiv> Virtualized_csr (Cause_csr CSR_SCAUSE) (Cause_csr CSR_VSCAUSE)"
abbreviation (input) sepc_csr :: csr where
  "sepc_csr \<equiv> Virtualized_csr (Epc_csr CSR_SEPC) (Epc_csr CSR_VSEPC)"
abbreviation (input) stval_csr :: csr where
  "stval_csr \<equiv> Virtualized_csr (Basic_csr CSR_STVAL) (Basic_csr CSR_VSTVAL)"
abbreviation (input) stvec_csr :: csr where
  "stvec_csr \<equiv> Virtualized_csr (Tvec_csr CSR_STVEC) (Tvec_csr CSR_VSTVEC)"

subsection \<open>Modes\<close>

definition set_privilege :: "reg_t \<Rightarrow> (hart, exn, unit) comp" where
  "set_privilege prv h = (
     let h = hart_flush_tlb h
     in case legalize_privilege prv h of None \<Rightarrow> (Inl Abort, h) | Some p \<Rightarrow> (Inr (), h\<lparr>h_prv := p\<rparr>))"

definition set_virt :: "bool \<Rightarrow> hart \<Rightarrow> hart" where
  "set_virt virt h = (if h_prv h = PRV_M then h else if h_v h \<noteq> virt then h\<lparr>h_v := virt\<rparr> else h)"

abbreviation (input) DEBUG_ROM_ENTRY :: reg_t where "DEBUG_ROM_ENTRY \<equiv> 0x800"
abbreviation (input) DEBUG_ROM_TVEC :: reg_t where "DEBUG_ROM_TVEC \<equiv> 0x808"

definition enter_debug_mode :: "u8 \<Rightarrow> (hart, exn, unit) comp" where
  "enter_debug_mode c =
     bindE (modify (\<lambda>h. dcsr_write_cause_and_prv c (h_prv h) (h\<lparr>debug_mode := True\<rparr>))) (\<lambda>_.
     bindE (set_privilege PRV_M) (\<lambda>_.
     bindE (\<lambda>h. write_obj Dpc_csr (h_pc h) h) (\<lambda>_.
     modify (\<lambda>h. h\<lparr>h_pc := DEBUG_ROM_ENTRY, in_wfi := False\<rparr>))))"

subsection \<open>Interrupts\<close>

definition nmie :: "hart \<Rightarrow> bool" where
  "nmie h \<longleftrightarrow> \<not> (csrmap h CSR_MNSTATUS \<noteq> None \<and> get_field (csrv h CSR_MNSTATUS) MNSTATUS_NMIE = 0)"

definition when_enabled :: "bool \<Rightarrow> reg_t" where
  "when_enabled b = (if b then - 1 else 0)"

definition enabled_interrupts :: "reg_t \<Rightarrow> hart \<Rightarrow> reg_t" where
  "enabled_interrupts pending h = (
     let mie = get_field (mstatus_read h) MSTATUS_MIE;
         m_enabled = (h_prv h < PRV_M \<or> (h_prv h = PRV_M \<and> mie \<noteq> 0));
         enabled = pending AND NOT (mideleg_read h) AND when_enabled m_enabled
     in if enabled \<noteq> 0 then enabled
        else
          let deleg_to_hs = mideleg_read h AND NOT (hideleg_read h);
              sie = get_field (sstatus_read h) MSTATUS_SIE;
              hs_enabled = (h_v h \<or> h_prv h < PRV_S \<or> (h_prv h = PRV_S \<and> sie \<noteq> 0));
              enabled = pending AND deleg_to_hs AND when_enabled hs_enabled
          in if h_v h \<and> enabled = 0
             then (let vs_enabled = (h_prv h < PRV_S \<or> (h_prv h = PRV_S \<and> sie \<noteq> 0))
                   in pending AND hideleg_read h AND when_enabled vs_enabled)
             else enabled)"

text \<open>The one interrupt the chain of tests leaves; \<open>None\<close> where the code aborts.\<close>

definition select_interrupt :: "reg_t \<Rightarrow> reg_t option" where
  "select_interrupt e =
     (if shr e (IRQ_M_EXT + 1) \<noteq> 0 then Some (shl (shr e (IRQ_M_EXT + 1)) (IRQ_M_EXT + 1))
      else if e AND MIP_MEIP \<noteq> 0 then Some MIP_MEIP
      else if e AND MIP_MSIP \<noteq> 0 then Some MIP_MSIP
      else if e AND MIP_MTIP \<noteq> 0 then Some MIP_MTIP
      else if e AND MIP_SEIP \<noteq> 0 then Some MIP_SEIP
      else if e AND MIP_SSIP \<noteq> 0 then Some MIP_SSIP
      else if e AND MIP_STIP \<noteq> 0 then Some MIP_STIP
      else if e AND MIP_LCOFIP \<noteq> 0 then Some MIP_LCOFIP
      else if e AND MIP_VSEIP \<noteq> 0 then Some MIP_VSEIP
      else if e AND MIP_VSSIP \<noteq> 0 then Some MIP_VSSIP
      else if e AND MIP_VSTIP \<noteq> 0 then Some MIP_VSTIP
      else None)"

definition interrupt_cause :: "hart \<Rightarrow> reg_t \<Rightarrow> reg_t" where
  "interrupt_cause h e = shl 1 (max_xlen (cfg h) - 1) OR of_nat (ctz e)"

definition detect_icount :: "(hart, exn, match_result_t option) comp" where
  "detect_icount h = (case module_detect_icount (trig_env_of h) (tm h) of
     None \<Rightarrow> (Inl Abort, h) | Some (r, ts) \<Rightarrow> (Inr r, h\<lparr>tm := ts\<rparr>))"

definition take_interrupt :: "reg_t \<Rightarrow> (hart, exn, unit) comp" where
  "take_interrupt pending h =
     (if pending = 0 then (Inr (), h)
      else
        let h = h\<lparr>in_wfi := False\<rparr>; e = enabled_interrupts pending h
        in if \<not> debug_mode h \<and> nmie h \<and> e \<noteq> 0
           then (case select_interrupt e of None \<Rightarrow> (Inl Abort, h)
                 | Some s \<Rightarrow>
                   bindE (if check_triggers_icount h then detect_icount else return None)
                     (\<lambda>_. throw (Trap (Plain_trap (interrupt_cause h s)))) h)
           else (Inr (), h))"

definition take_pending_interrupt :: "(hart, exn, unit) comp" where
  "take_pending_interrupt h = take_interrupt (mip_read h AND mie_read h) h"

subsection \<open>Traps\<close>

definition vector_offset :: "reg_t \<Rightarrow> bool \<Rightarrow> reg_t \<Rightarrow> reg_t" where
  "vector_offset tvec interrupt b = (if tvec AND 1 \<noteq> 0 \<and> interrupt then 4 * b else 0)"

definition handler_pc :: "reg_t \<Rightarrow> bool \<Rightarrow> reg_t \<Rightarrow> reg_t" where
  "handler_pc tvec interrupt b = (tvec AND NOT 1) + vector_offset tvec interrupt b"

text \<open>The bookkeeping of \<open>sstatus\<close> on entry to a supervisor mode.\<close>

definition push_sstatus :: "(hart, exn, unit) comp" where
  "push_sstatus h = (
     let s = sstatus_read h;
         s = set_field s MSTATUS_SPIE (get_field s MSTATUS_SIE);
         s = set_field s MSTATUS_SPP (h_prv h);
         s = set_field s MSTATUS_SIE 0
     in write_obj Sstatus_csr s h)"

definition trap_to_vs :: "trap_t \<Rightarrow> bool \<Rightarrow> reg_t \<Rightarrow> reg_t \<Rightarrow> (hart, exn, unit) comp" where
  "trap_to_vs t interrupt b epc =
     bindE (modify (\<lambda>h. h\<lparr>h_pc := handler_pc (csrv h CSR_VSTVEC) interrupt b\<rparr>)) (\<lambda>_.
     bindE (write_obj (Cause_csr CSR_VSCAUSE) (if interrupt then cause t - 1 else cause t)) (\<lambda>_.
     bindE (write_obj (Epc_csr CSR_VSEPC) epc) (\<lambda>_.
     bindE (write_obj (Basic_csr CSR_VSTVAL) (get_tval t)) (\<lambda>_.
     bindE push_sstatus (\<lambda>_.
     set_privilege PRV_S)))))"

definition trap_to_hs :: "trap_t \<Rightarrow> bool \<Rightarrow> bool \<Rightarrow> reg_t \<Rightarrow> reg_t \<Rightarrow> (hart, exn, unit) comp" where
  "trap_to_hs t curr_virt interrupt b epc =
     bindE (modify (set_virt False)) (\<lambda>_.
     bindE (modify (\<lambda>h. h\<lparr>h_pc := handler_pc (csr_read stvec_csr h) interrupt b\<rparr>)) (\<lambda>_.
     bindE (write_obj scause_csr (cause t)) (\<lambda>_.
     bindE (write_obj sepc_csr epc) (\<lambda>_.
     bindE (write_obj stval_csr (get_tval t)) (\<lambda>_.
     bindE (write_obj (Basic_csr CSR_HTVAL) (get_tval2 t)) (\<lambda>_.
     bindE (write_obj (Basic_csr CSR_HTINST) (get_tinst t)) (\<lambda>_.
     bindE push_sstatus (\<lambda>_.
     bindE (\<lambda>h. if extension_enabled ISA_H h then
         (let s = csrv h CSR_HSTATUS;
              s = (if curr_virt then set_field s HSTATUS_SPVP (h_prv h) else s);
              s = set_field s HSTATUS_SPV (of_bool curr_virt);
              s = set_field s HSTATUS_GVA (of_bool (has_gva t))
          in write_obj (Masked_csr CSR_HSTATUS (hstatus_mask h)) s h)
       else (Inr (), h)) (\<lambda>_.
     set_privilege PRV_S)))))))))"

definition push_mstatus :: "bool \<Rightarrow> bool \<Rightarrow> (hart, exn, unit) comp" where
  "push_mstatus curr_virt gva h = (
     let s = mstatus_read h;
         s = set_field s MSTATUS_MPIE (get_field s MSTATUS_MIE);
         s = set_field s MSTATUS_MPP (h_prv h);
         s = set_field s MSTATUS_MIE 0;
         s = set_field s MSTATUS_MPV (of_bool curr_virt);
         s = set_field s MSTATUS_GVA (of_bool gva)
     in bindE (write_obj Mstatus_csr s) (\<lambda>_ h.
          if csrmap h CSR_MSTATUSH = None then (Inr (), h)
          else write_obj (Rv32_high_csr CSR_MSTATUSH Mstatus_csr) (shr s 32) h) h)"

definition trap_to_m :: "trap_t \<Rightarrow> bool \<Rightarrow> bool \<Rightarrow> reg_t \<Rightarrow> reg_t \<Rightarrow> (hart, exn, unit) comp" where
  "trap_to_m t curr_virt interrupt b epc =
     bindE (modify (set_virt False)) (\<lambda>_.
     bindE (modify (\<lambda>h. h\<lparr>h_pc := (if \<not> nmie h then 0
        else handler_pc (csrv h CSR_MTVEC) interrupt b)\<rparr>)) (\<lambda>_.
     bindE (write_obj (Epc_csr CSR_MEPC) epc) (\<lambda>_.
     bindE (write_obj (Cause_csr CSR_MCAUSE) (cause t)) (\<lambda>_.
     bindE (write_obj (Basic_csr CSR_MTVAL) (get_tval t)) (\<lambda>_.
     bindE (write_obj (Hypervisor_csr CSR_MTVAL2) (get_tval2 t)) (\<lambda>_.
     bindE (write_obj (Hypervisor_csr CSR_MTINST) (get_tinst t)) (\<lambda>_.
     bindE (push_mstatus curr_virt (has_gva t)) (\<lambda>_.
     set_privilege PRV_M))))))))"

text \<open>Where a trap goes: delegated to VS, to HS, or taken in M.\<close>

datatype trap_target = To_VS | To_HS | To_M

definition trap_is_interrupt :: "trap_t \<Rightarrow> hart \<Rightarrow> bool" where
  "trap_is_interrupt t h \<longleftrightarrow> cause t AND shl 1 (max_xlen (cfg h) - 1) \<noteq> 0"

definition trap_bit :: "trap_t \<Rightarrow> hart \<Rightarrow> reg_t" where
  "trap_bit t h = (if trap_is_interrupt t h then cause t AND NOT (shl 1 (max_xlen (cfg h) - 1)) else cause t)"

definition trap_target_of :: "trap_t \<Rightarrow> hart \<Rightarrow> trap_target" where
  "trap_target_of t h = (
     let interrupt = trap_is_interrupt t h;
         b = trap_bit t h;
         vsdeleg = (if h_v h \<and> h_prv h \<le> PRV_S
                    then (if interrupt then hideleg_read h else csrv h CSR_MEDELEG AND csrv h CSR_HEDELEG) else 0);
         hsdeleg = (if h_prv h \<le> PRV_S then (if interrupt then mideleg_read h else csrv h CSR_MEDELEG) else 0)
     in if h_prv h \<le> PRV_S \<and> unat b < max_xlen (cfg h) \<and> shr vsdeleg (unat b) AND 1 \<noteq> 0 then To_VS
        else if h_prv h \<le> PRV_S \<and> unat b < max_xlen (cfg h) \<and> shr hsdeleg (unat b) AND 1 \<noteq> 0 then To_HS
        else To_M)"

definition take_trap :: "trap_t \<Rightarrow> reg_t \<Rightarrow> (hart, exn, unit) comp" where
  "take_trap t epc h =
     (if debug_mode h then
        (Inr (), h\<lparr>h_pc := (if cause t = CAUSE_BREAKPOINT then DEBUG_ROM_ENTRY else DEBUG_ROM_TVEC)\<rparr>)
      else
        let interrupt = trap_is_interrupt t h; b = trap_bit t h; curr_virt = h_v h
        in case trap_target_of t h of
             To_VS \<Rightarrow> trap_to_vs t interrupt b epc h
           | To_HS \<Rightarrow> trap_to_hs t curr_virt interrupt b epc h
           | To_M \<Rightarrow> trap_to_m t curr_virt interrupt b epc h)"

definition take_trigger_action :: "action_t \<Rightarrow> reg_t \<Rightarrow> reg_t \<Rightarrow> (hart, exn, unit) comp" where
  "take_trigger_action action breakpoint_tval epc h =
     (case action of
        ACTION_DEBUG_MODE \<Rightarrow> enter_debug_mode DCSR_CAUSE_HWBP h
      | ACTION_DEBUG_EXCEPTION \<Rightarrow> take_trap (trap_breakpoint (h_v h) breakpoint_tval) epc h
      | _ \<Rightarrow> (Inl Abort, h))"

end
