(* ===== verification/Trap_Entry.thy ===== *)
theory Trap_Entry
  imports Processor
begin

text \<open>
  What taking a trap does: the frame of the register writes of a handler entry, the values the
  status registers end up with, and the state \<open>take_trap\<close> leaves for each of its three targets.
\<close>

declare not_one_eq [simp del]

subsection \<open>Handler states\<close>

lemma extension_write [simp]:
  "a \<noteq> CSR_MISA \<Longrightarrow> extension_enabled e (write_csrv a v h) = extension_enabled e h"
  "extension_enabled e (h\<lparr>mmu := m\<rparr>) = extension_enabled e h"
  "extension_enabled e (h\<lparr>h_pc := p\<rparr>) = extension_enabled e h"
  "extension_enabled e (h\<lparr>h_prv := p\<rparr>) = extension_enabled e h"
  "extension_enabled e (h\<lparr>h_v := b\<rparr>) = extension_enabled e h"
  by (simp_all add: extension_enabled_def misa_extension_enabled_def write_csrv_def)

lemma legalize_frame [simp]:
  "a \<noteq> CSR_MISA \<Longrightarrow> legalize_privilege p (write_csrv a v h) = legalize_privilege p h"
  "legalize_privilege p (h\<lparr>mmu := m\<rparr>) = legalize_privilege p h"
  "legalize_privilege p (h\<lparr>h_pc := q\<rparr>) = legalize_privilege p h"
  "legalize_privilege p (h\<lparr>h_prv := q\<rparr>) = legalize_privilege p h"
  "legalize_privilege p (h\<lparr>h_v := b\<rparr>) = legalize_privilege p h"
  by (simp_all add: legalize_privilege_def)

lemma flush_eq: "hart_flush_tlb h = h\<lparr>mmu := flush_tlb (mmu h)\<rparr>"
  by (simp add: hart_flush_tlb_def)

lemma maybe_flush_eq: "\<exists>m. maybe_flush_tlb n p h = h\<lparr>mmu := m\<rparr>"
  by (auto simp: maybe_flush_tlb_def hart_flush_tlb_def intro: exI [of _ "mmu h"])

text \<open>The state outside \<open>a\<close> and the caches.\<close>

definition only_key :: "nat \<Rightarrow> hart \<Rightarrow> hart \<Rightarrow> bool" where
  "only_key a h h' \<longleftrightarrow> (\<exists>v m. h' = write_csrv a v (h\<lparr>mmu := m\<rparr>))"

lemma only_key_frame:
  assumes "only_key a h h'"
  shows "b \<noteq> a \<Longrightarrow> csrv h' b = csrv h b" "cfg h' = cfg h" "h_xlen h' = h_xlen h" "h_prv h' = h_prv h"
    "h_v h' = h_v h" "h_pc h' = h_pc h" "csrmap h' = csrmap h" "sstatus_write_mask h' = sstatus_write_mask h"
    "has_page h' = has_page h" "debug_mode h' = debug_mode h" "tm h' = tm h" "pmp h' = pmp h" "XPR h' = XPR h"
    "extension_enable_table h' = extension_enable_table h" "dcsr h' = dcsr h" "single_step h' = single_step h"
  using assms by (auto simp: only_key_def write_csrv_def)

lemma only_key_ext:
  assumes "only_key a h h'" "a \<noteq> CSR_MISA"
  shows "extension_enabled e h' = extension_enabled e h" "legalize_privilege p h' = legalize_privilege p h"
    "supports_impl i h' = supports_impl i h"
  using assms by (auto simp: only_key_def supports_impl_def)

lemma only_key_trans: "only_key a h h' \<Longrightarrow> only_key a h' h'' \<Longrightarrow> only_key a h h''"
proof -
  assume 1: "only_key a h h'" "only_key a h' h''"
  then obtain v m v' m' where "h' = write_csrv a v (h\<lparr>mmu := m\<rparr>)" "h'' = write_csrv a v' (h'\<lparr>mmu := m'\<rparr>)"
    by (auto simp: only_key_def)
  then have "h'' = write_csrv a v' (h\<lparr>mmu := m'\<rparr>)" by (simp add: write_csrv_def)
  then show ?thesis by (auto simp: only_key_def)
qed

lemma mstatus_mask_only: "only_key a h h' \<Longrightarrow> a \<noteq> CSR_MISA \<Longrightarrow> mstatus_mask h' = mstatus_mask h"
  by (simp add: mstatus_mask_def only_key_frame only_key_ext)

definition mode_ok :: "hart \<Rightarrow> reg_t \<Rightarrow> bool" where
  "mode_ok h p \<longleftrightarrow> legalize_privilege p h = Some p"

lemma mode_ok_M [simp]: "mode_ok h PRV_M"
  by (simp add: mode_ok_def legalize_privilege_def)

lemma mode_ok_bound: "mode_ok h p \<Longrightarrow> p = PRV_U \<or> p = PRV_S \<or> p = PRV_M"
proof -
  assume "mode_ok h p"
  then have "p \<le> 3" "p \<noteq> 2" by (auto simp: mode_ok_def legalize_privilege_def not_less split: if_splits)
  then show ?thesis by (auto simp: word_le_nat_alt word_unat_eq_iff)
qed

lemma mode_ok_legal: "csr_ok h \<Longrightarrow> mode_ok h p \<Longrightarrow> legal_prv (cfg h) p"
  by (auto simp: mode_ok_def intro: legalize_legal)

text \<open>A write of \<open>mstatus\<close> whose previous privilege is a mode of the hart stores every writable bit.\<close>

lemma mstatus_write_exact:
  assumes ok: "csr_ok h" and p: "mode_ok h (get_field v MSTATUS_MPP)"
  obtains h' where "mstatus_unlogged_write v h = Some (True, h')" "only_key CSR_MSTATUS h h'" "csr_ok h'"
    "\<And>x. x AND mstatus_mask h = x \<Longrightarrow> SSTATUS64_SD AND x = 0 \<Longrightarrow> SSTATUS32_SD AND x = 0 \<Longrightarrow>
       mstatus_read h' AND x = v AND x"
    "\<And>x. mstatus_mask h AND x = 0 \<Longrightarrow> SSTATUS64_SD AND x = 0 \<Longrightarrow> SSTATUS32_SD AND x = 0 \<Longrightarrow>
       mstatus_read h' AND x = mstatus_read h AND x"
proof -
  let ?q = "get_field v MSTATUS_MPP"
  have q: "legalize_privilege ?q h = Some ?q" using p by (simp add: mode_ok_def)
  have same: "set_field v MSTATUS_MPP ?q = v"
    by (simp only: mpp_mask) (rule bit_word_eqI, auto simp: bit_set_field get_field_contiguous bit_simps)
  define n where "n = (mstatus_read h AND NOT (mstatus_mask h)) OR (v AND mstatus_mask h)"
  define k where "k = maybe_flush_tlb n (mstatus_read h) h"
  obtain m where m: "k = h\<lparr>mmu := m\<rparr>" using maybe_flush_eq k_def by blast
  let ?h' = "write_csrv CSR_MSTATUS (adjust_sd n k) k"
  have w: "mstatus_unlogged_write v h = Some (True, ?h')"
    by (simp add: mstatus_unlogged_write_def Let_def q same n_def k_def)
  show thesis
  proof (rule that [OF w])
    show "only_key CSR_MSTATUS h ?h'" using m by (auto simp: only_key_def)
    show "csr_ok ?h'" by (rule mstatus_write_ok [OF ok w])
    fix x :: reg_t assume sd: "SSTATUS64_SD AND x = 0" "SSTATUS32_SD AND x = 0"
    have r: "mstatus_read ?h' AND x = n AND x" using adjust_sd_other [OF sd] by (simp add: mstatus_read_def)
    { assume "x AND mstatus_mask h = x"
      then have "mstatus_mask h AND x = x" by (simp add: and.commute)
      with r show "mstatus_read ?h' AND x = v AND x" unfolding n_def by (simp add: masked_merge) }
    { assume "mstatus_mask h AND x = 0"
      with r show "mstatus_read ?h' AND x = mstatus_read h AND x" unfolding n_def by (simp add: masked_merge_out) }
  qed
qed

lemma status_masks:
  "(MSTATUS_SIE :: reg_t) = field_mask 1 1" "(MSTATUS_MIE :: reg_t) = field_mask 3 1"
  "(MSTATUS_SPIE :: reg_t) = field_mask 5 1" "(MSTATUS_MPIE :: reg_t) = field_mask 7 1"
  "(MSTATUS_SPP :: reg_t) = field_mask 8 1" "(MSTATUS_MPP :: reg_t) = field_mask 11 2"
  "(MSTATUS_GVA :: reg_t) = field_mask 38 1" "(MSTATUS_MPV :: reg_t) = field_mask 39 1"
  by (simp_all add: field_mask_def mask_eq_exp_minus_1)

lemma mstatus_mask_fields:
  "MSTATUS_MIE AND mstatus_mask h = MSTATUS_MIE" "MSTATUS_MPIE AND mstatus_mask h = MSTATUS_MPIE"
  "MSTATUS_MPP AND mstatus_mask h = MSTATUS_MPP"
  "extension_enabled ISA_H h \<Longrightarrow> MSTATUS_GVA AND mstatus_mask h = MSTATUS_GVA"
  "extension_enabled ISA_H h \<Longrightarrow> MSTATUS_MPV AND mstatus_mask h = MSTATUS_MPV"
  by (rule bit_word_eqI; simp only: mstatus_mask_def bit_or_iff bit_and_iff if_True; blast)+

lemma take_bit_mode: "mode_ok h p \<Longrightarrow> take_bit 2 p = p"
  using mode_ok_bound [of h p] by auto

lemma take_bit_flag: "take_bit 1 (of_bool b :: reg_t) = of_bool b"
  by (cases b) simp_all

lemma get_field_flag: "take_bit (Suc 0) (get_field r (field_mask k (Suc 0)) :: reg_t) = get_field r (field_mask k (Suc 0))" if "k < 64"
proof -
  have "get_field r (field_mask k (Suc 0)) = take_bit (Suc 0) (shr r k)"
    by (rule get_field_contiguous) (use that in simp_all)
  then show ?thesis by (simp only: take_bit_take_bit min.idem)
qed

lemmas field_algebra = get_set_field get_set_field_other

definition pushed_mstatus :: "reg_t \<Rightarrow> reg_t \<Rightarrow> bool \<Rightarrow> bool \<Rightarrow> reg_t" where
  "pushed_mstatus s p cv g = set_field (set_field (set_field (set_field
     (set_field s MSTATUS_MPIE (get_field s MSTATUS_MIE)) MSTATUS_MPP p) MSTATUS_MIE 0)
     MSTATUS_MPV (of_bool cv)) MSTATUS_GVA (of_bool g)"

lemma pushed_mstatus_fields:
  assumes "mode_ok h p"
  shows "get_field (pushed_mstatus s p cv g) MSTATUS_MPP = p"
    "get_field (pushed_mstatus s p cv g) MSTATUS_MPIE = get_field s MSTATUS_MIE"
    "get_field (pushed_mstatus s p cv g) MSTATUS_MIE = 0"
    "get_field (pushed_mstatus s p cv g) MSTATUS_MPV = of_bool cv"
    "get_field (pushed_mstatus s p cv g) MSTATUS_GVA = of_bool g"
  using take_bit_mode [OF assms] get_field_flag [of 3 s] take_bit_flag
  unfolding pushed_mstatus_def status_masks One_nat_def
  by (simp_all add: field_algebra)

text \<open>The write of \<open>mstatush\<close> repeats the upper half of the one before it.\<close>

lemma mstatush_merge:
  fixes r s x :: reg_t
  assumes "r AND x = s AND x"
  shows "(shr (shl r 32) 32 OR shl (shr s 32 AND 0xffffffff) 32) AND x = s AND x"
proof -
  have w: "(0xffffffff :: reg_t) = mask 32" by (simp add: mask_eq_exp_minus_1)
  have "bit (shr (shl r 32) 32 OR shl (shr s 32 AND 0xffffffff) 32) i = (if i < 32 then bit r i else bit s i)"
    if "i < 64" for i
    unfolding w using that by (auto simp: bit_simps)
  then show ?thesis
    using arg_cong [where f = "\<lambda>w. bit w i" for i, OF assms]
    by (intro bit_word_eqI) (auto simp: bit_and_iff split: if_splits)
qed

lemma push_mstatus_result:
  assumes ok: "csr_ok h" and p: "mode_ok h (h_prv h)"
  obtains h' where "push_mstatus cv g h = (Inr (), h')" "only_key CSR_MSTATUS h h'" "csr_ok h'"
    "\<And>x. x AND mstatus_mask h = x \<Longrightarrow> SSTATUS64_SD AND x = 0 \<Longrightarrow> SSTATUS32_SD AND x = 0 \<Longrightarrow>
       mstatus_read h' AND x = pushed_mstatus (mstatus_read h) (h_prv h) cv g AND x"
proof -
  let ?s = "pushed_mstatus (mstatus_read h) (h_prv h) cv g"
  have mpp: "mode_ok h (get_field ?s MSTATUS_MPP)" using p pushed_mstatus_fields(1) [OF p] by simp
  obtain h1 where 1: "mstatus_unlogged_write ?s h = Some (True, h1)" "only_key CSR_MSTATUS h h1" "csr_ok h1"
    and f: "\<And>x. x AND mstatus_mask h = x \<Longrightarrow> SSTATUS64_SD AND x = 0 \<Longrightarrow> SSTATUS32_SD AND x = 0 \<Longrightarrow>
       mstatus_read h1 AND x = ?s AND x"
    by (rule mstatus_write_exact [OF ok mpp]) blast
  have run: "push_mstatus cv g h = (if csrmap h1 CSR_MSTATUSH = None then (Inr (), h1)
     else write_obj (Rv32_high_csr CSR_MSTATUSH Mstatus_csr) (shr ?s 32) h1)"
    by (simp add: push_mstatus_def Let_def write_obj_def of_opt_def csr_write_def bindE_def 1
        pushed_mstatus_def [symmetric])
  show thesis
  proof (cases "csrmap h1 CSR_MSTATUSH = None")
    case True
    then show thesis using that 1 f run by simp
  next
    case False
    let ?v = "shr (shl (mstatus_read h1) 32) 32 OR shl (shr ?s 32 AND 0xffffffff) 32"
    have "?v AND MSTATUS_MPP = ?s AND MSTATUS_MPP"
      by (rule mstatush_merge, rule f) (simp_all add: mstatus_mask_fields)
    then have "get_field ?v MSTATUS_MPP = get_field ?s MSTATUS_MPP" by (rule get_field_cong)
    then have "mode_ok h1 (get_field ?v MSTATUS_MPP)" using mpp 1(2) by (simp add: mode_ok_def only_key_ext)
    then obtain h2 where 2: "mstatus_unlogged_write ?v h1 = Some (True, h2)" "only_key CSR_MSTATUS h1 h2" "csr_ok h2"
      and f2: "\<And>x. x AND mstatus_mask h1 = x \<Longrightarrow> SSTATUS64_SD AND x = 0 \<Longrightarrow> SSTATUS32_SD AND x = 0 \<Longrightarrow>
       mstatus_read h2 AND x = ?v AND x"
      by (rule mstatus_write_exact [OF 1(3)]) blast
    have "write_obj (Rv32_high_csr CSR_MSTATUSH Mstatus_csr) (shr ?s 32) h1 = (Inr (), h2)"
      using 2(1) by (simp add: write_obj_def of_opt_def csr_write_def)
    with run False have "push_mstatus cv g h = (Inr (), h2)" by simp
    moreover have "mstatus_read h2 AND x = ?s AND x"
      if "x AND mstatus_mask h = x" "SSTATUS64_SD AND x = 0" "SSTATUS32_SD AND x = 0" for x
    proof -
      have "mstatus_read h2 AND x = ?v AND x"
        using f2 [of x] that mstatus_mask_only [OF 1(2)] by simp
      also have "\<dots> = ?s AND x" by (rule mstatush_merge) (rule f [OF that])
      finally show ?thesis .
    qed
    ultimately show thesis using that 2(3) only_key_trans [OF 1(2) 2(2)] by blast
  qed
qed

text \<open>The state of a hart between instructions.\<close>

definition hart_ok :: "hart \<Rightarrow> bool" where
  "hart_ok h \<longleftrightarrow> csr_ok h \<and> mode_ok h (h_prv h) \<and> (h_v h \<longrightarrow> h_prv h \<noteq> PRV_M) \<and>
     sstatus_write_mask h AND NOT sstatus_fields = 0 \<and>
     (\<not> extension_enabled ISA_S h \<longrightarrow> csrv h CSR_MEDELEG = 0 \<and> mideleg_read h = 0) \<and>
     (extension_enabled ISA_S h \<longrightarrow> extension_enabled ISA_U h \<and>
        (SSTATUS_SIE OR SSTATUS_SPIE OR SSTATUS_SPP) AND sstatus_write_mask h = SSTATUS_SIE OR SSTATUS_SPIE OR SSTATUS_SPP)"

lemma write_obj_simps [simp]:
  "write_obj (Basic_csr a) v h = (Inr (), write_csrv a v h)"
  "write_obj (Hypervisor_csr a) v h = (Inr (), write_csrv a v h)"
  "write_obj (Cause_csr a) v h = (Inr (), write_csrv a v h)"
  "write_obj (Epc_csr a) v h = (Inr (), write_csrv a (v AND NOT 1) h)"
  "write_obj Dpc_csr v h = (Inr (), write_csrv CSR_DPC (v AND NOT 1) h)"
  "\<not> h_v h \<Longrightarrow> write_obj (Virtualized_csr (Cause_csr a) (Cause_csr b)) v h = (Inr (), write_csrv a v h)"
  "\<not> h_v h \<Longrightarrow> write_obj (Virtualized_csr (Epc_csr a) (Epc_csr b)) v h = (Inr (), write_csrv a (v AND NOT 1) h)"
  "\<not> h_v h \<Longrightarrow> write_obj (Virtualized_csr (Basic_csr a) (Basic_csr b)) v h = (Inr (), write_csrv a v h)"
  "write_obj (Masked_csr a m) v h = (Inr (), snd (masked_unlogged_write a m v h))"
  by (simp_all add: write_obj_def of_opt_def csr_write_def silent_def masked_unlogged_write_def masked_write_def)

lemma write_csrv_frame [simp]:
  "h_pc (write_csrv a v h) = h_pc h" "has_page (write_csrv a v h) = has_page h"
  "mmu (write_csrv a v h) = mmu h" "XPR (write_csrv a v h) = XPR h" "dcsr (write_csrv a v h) = dcsr h"
  "single_step (write_csrv a v h) = single_step h" "in_wfi (write_csrv a v h) = in_wfi h"
  by (simp_all add: write_csrv_def)

lemma write_csrv_updates [simp]:
  "csrv (h\<lparr>mmu := m\<rparr>) = csrv h"
  by simp

lemma set_privilege_to:
  "mode_ok h p \<Longrightarrow> set_privilege p h = (Inr (), h\<lparr>mmu := flush_tlb (mmu h), h_prv := p\<rparr>)"
  by (simp add: set_privilege_def Let_def hart_flush_tlb_def mode_ok_def)

lemma epc_ok: "csr_ok h \<Longrightarrow> a \<in> {CSR_MEPC, CSR_SEPC, CSR_VSEPC, CSR_MNEPC, CSR_DPC} \<Longrightarrow> csr_ok (write_csrv a (v AND NOT 1) h)"
  by (auto intro!: csr_ok_write simp: key_ok_def and.assoc)

lemma free_keys_trap:
  "CSR_MCAUSE \<notin> set guarded_keys" "CSR_MTVAL \<notin> set guarded_keys" "CSR_MTVAL2 \<notin> set guarded_keys"
  "CSR_MTINST \<notin> set guarded_keys" "CSR_SCAUSE \<notin> set guarded_keys" "CSR_STVAL \<notin> set guarded_keys"
  "CSR_HTVAL \<notin> set guarded_keys" "CSR_HTINST \<notin> set guarded_keys" "CSR_VSCAUSE \<notin> set guarded_keys"
  "CSR_VSTVAL \<notin> set guarded_keys" "CSR_HSTATUS \<notin> set guarded_keys"
  by (simp_all add: guarded_keys_def)

lemma set_virt_False:
  "h_v h \<longrightarrow> h_prv h \<noteq> PRV_M \<Longrightarrow> set_virt False h = h\<lparr>h_v := False\<rparr>"
  by (cases h) (auto simp: set_virt_def)


subsection \<open>Traps into machine mode\<close>


definition trap_registers_m :: "trap_t \<Rightarrow> reg_t \<Rightarrow> hart \<Rightarrow> hart" where
  "trap_registers_m t epc h =
     write_csrv CSR_MTINST (get_tinst t) (write_csrv CSR_MTVAL2 (get_tval2 t) (write_csrv CSR_MTVAL (get_tval t)
       (write_csrv CSR_MCAUSE (cause t) (write_csrv CSR_MEPC (epc AND NOT 1) h))))"

definition trap_entered_m :: "trap_t \<Rightarrow> reg_t \<Rightarrow> hart \<Rightarrow> hart \<Rightarrow> bool" where
  "trap_entered_m t epc h h' \<longleftrightarrow>
     h_prv h' = PRV_M \<and> \<not> h_v h' \<and>
     h_pc h' = (if nmie h then handler_pc (csrv h CSR_MTVEC) (trap_is_interrupt t h) (trap_bit t h) else 0) \<and>
     csrv h' CSR_MEPC = epc AND NOT 1 \<and> csrv h' CSR_MCAUSE = cause t \<and> csrv h' CSR_MTVAL = get_tval t \<and>
     csrv h' CSR_MTVAL2 = get_tval2 t \<and> csrv h' CSR_MTINST = get_tinst t \<and>
     get_field (mstatus_read h') MSTATUS_MPP = h_prv h \<and>
     get_field (mstatus_read h') MSTATUS_MPIE = get_field (mstatus_read h) MSTATUS_MIE \<and>
     get_field (mstatus_read h') MSTATUS_MIE = 0 \<and>
     (extension_enabled ISA_H h \<longrightarrow> get_field (mstatus_read h') MSTATUS_MPV = of_bool (h_v h) \<and>
        get_field (mstatus_read h') MSTATUS_GVA = of_bool (has_gva t))"

lemma hart_ok_cong:
  assumes "hart_ok h" "csr_ok h'" "mode_ok h (h_prv h')" "h_v h' \<longrightarrow> h_prv h' \<noteq> PRV_M"
    "sstatus_write_mask h' = sstatus_write_mask h" "\<And>p. legalize_privilege p h' = legalize_privilege p h"
    "\<And>e. extension_enabled e h' = extension_enabled e h"
    "csrv h' CSR_MEDELEG = csrv h CSR_MEDELEG" "csrv h' CSR_MIDELEG = csrv h CSR_MIDELEG"
  shows "hart_ok h'"
  using assms by (simp add: hart_ok_def mode_ok_def mideleg_read_def Let_def)

lemma trap_to_m_result:
  assumes ok: "hart_ok h"
  obtains h' where "trap_to_m t (h_v h) (trap_is_interrupt t h) (trap_bit t h) epc h = (Inr (), h')"
    "hart_ok h'" "trap_entered_m t epc h h'"
proof -
  have c: "csr_ok h" and p: "mode_ok h (h_prv h)" and v: "h_v h \<longrightarrow> h_prv h \<noteq> PRV_M"
    using ok by (simp_all add: hart_ok_def)
  define pc where "pc = (if nmie h then handler_pc (csrv h CSR_MTVEC) (trap_is_interrupt t h) (trap_bit t h) else 0)"
  define h1 where "h1 = trap_registers_m t epc (h\<lparr>h_v := False, h_pc := pc\<rparr>)"
  have c1: "csr_ok h1"
    unfolding h1_def trap_registers_m_def
    by (intro csr_ok_write_free free_keys_trap epc_ok) (use c in simp_all)
  have m1: "mode_ok h1 (h_prv h1)" "h_prv h1 = h_prv h" "mstatus_read h1 = mstatus_read h"
    "csrv h1 CSR_MEDELEG = csrv h CSR_MEDELEG" "csrv h1 CSR_MIDELEG = csrv h CSR_MIDELEG"
    "\<And>e. extension_enabled e h1 = extension_enabled e h" "\<And>q. legalize_privilege q h1 = legalize_privilege q h"
    "sstatus_write_mask h1 = sstatus_write_mask h"
    using p by (simp_all add: h1_def trap_registers_m_def mode_ok_def mstatus_read_def)
  obtain h2 where 2: "push_mstatus (h_v h) (has_gva t) h1 = (Inr (), h2)" "only_key CSR_MSTATUS h1 h2" "csr_ok h2"
    and f: "\<And>x. x AND mstatus_mask h1 = x \<Longrightarrow> SSTATUS64_SD AND x = 0 \<Longrightarrow> SSTATUS32_SD AND x = 0 \<Longrightarrow>
       mstatus_read h2 AND x = pushed_mstatus (mstatus_read h) (h_prv h) (h_v h) (has_gva t) AND x"
    using push_mstatus_result [OF c1 m1(1), of "h_v h" "has_gva t"] m1 by auto
  let ?h' = "h2\<lparr>mmu := flush_tlb (mmu h2), h_prv := PRV_M\<rparr>"
  have nm: "nmie (h\<lparr>h_v := False\<rparr>) = nmie h" by (simp add: nmie_def)
  have pc: "(if \<not> nmie h then 0 else handler_pc (csrv h CSR_MTVEC) (trap_is_interrupt t h) (trap_bit t h)) = pc"
    by (simp add: pc_def)
  have run: "trap_to_m t (h_v h) (trap_is_interrupt t h) (trap_bit t h) epc h = (Inr (), ?h')"
    using 2(1) unfolding trap_to_m_def h1_def trap_registers_m_def pc [symmetric]
    by (cases "nmie h") (simp_all add: monad_simps set_virt_False [OF v] nm set_privilege_to)
  note g = f [THEN get_field_cong]
  have fields: "get_field (mstatus_read h2) MSTATUS_MPP = h_prv h"
    "get_field (mstatus_read h2) MSTATUS_MPIE = get_field (mstatus_read h) MSTATUS_MIE"
    "get_field (mstatus_read h2) MSTATUS_MIE = 0"
    "extension_enabled ISA_H h \<Longrightarrow> get_field (mstatus_read h2) MSTATUS_MPV = of_bool (h_v h)"
    "extension_enabled ISA_H h \<Longrightarrow> get_field (mstatus_read h2) MSTATUS_GVA = of_bool (has_gva t)"
    using g [of MSTATUS_MPP] g [of MSTATUS_MPIE] g [of MSTATUS_MIE] g [of MSTATUS_MPV] g [of MSTATUS_GVA]
    by (simp_all add: mstatus_mask_fields pushed_mstatus_fields [OF p] m1)
  have e: "trap_entered_m t epc h ?h'"
    unfolding trap_entered_m_def
    using fields
    by (simp add: only_key_frame [OF 2(2)] h1_def trap_registers_m_def pc_def mstatus_read_def)
  have o: "hart_ok ?h'"
    by (rule hart_ok_cong [OF ok]) (use 2(3) m1 only_key_frame [OF 2(2)] only_key_ext [OF 2(2)] in \<open>simp_all add: h1_def trap_registers_m_def\<close>)
  show thesis by (rule that [OF run o e])
qed


subsection \<open>Traps into a supervisor mode\<close>

lemma legal_mode:
  assumes "csr_ok h" "extension_enabled ISA_U h" "legal_prv (cfg h) p"
  shows "mode_ok h p"
  using assms by (auto simp: mode_ok_def legalize_privilege_def legal_prv_def extension_S_constant split: if_splits)

lemma mpp_mode: "csr_ok h \<Longrightarrow> extension_enabled ISA_U h \<Longrightarrow> mode_ok h (get_field (mstatus_read h) MSTATUS_MPP)"
  using csr_ok_key [of h CSR_MSTATUS] by (intro legal_mode) (simp_all add: key_ok_def mstatus_read_def)

definition pushed_sstatus :: "reg_t \<Rightarrow> reg_t \<Rightarrow> reg_t" where
  "pushed_sstatus s p = set_field (set_field (set_field s MSTATUS_SPIE (get_field s MSTATUS_SIE)) MSTATUS_SPP p)
     MSTATUS_SIE 0"

lemma pushed_sstatus_fields:
  assumes "p = PRV_U \<or> p = PRV_S"
  shows "get_field (pushed_sstatus s p) MSTATUS_SPP = p"
    "get_field (pushed_sstatus s p) MSTATUS_SPIE = get_field s MSTATUS_SIE"
    "get_field (pushed_sstatus s p) MSTATUS_SIE = 0"
proof -
  have "take_bit (Suc 0) p = p" using assms by auto
  then show "get_field (pushed_sstatus s p) MSTATUS_SPP = p"
    "get_field (pushed_sstatus s p) MSTATUS_SPIE = get_field s MSTATUS_SIE"
    "get_field (pushed_sstatus s p) MSTATUS_SIE = 0"
    using get_field_flag [of 1 s]
    unfolding pushed_sstatus_def status_masks One_nat_def by (simp_all add: field_algebra)
qed

lemma subset_fields: "m AND NOT f = 0 \<Longrightarrow> m AND f = m" for m f :: reg_t
  by (auto simp: bit_eq_iff bit_and_iff bit_not_iff)

lemma masked_merge_in: "x AND m = x \<Longrightarrow> ((a AND NOT m) OR (b AND m)) AND x = b AND x" for x :: reg_t
  by (rule masked_merge) (subst and.commute)

lemma sstatus_mask_sub: "x AND sstatus_write_mask h = x \<Longrightarrow> x AND mstatus_mask h = x"
  unfolding mstatus_mask_def by (rule bit_word_eqI) (auto simp: bit_eq_iff bit_and_iff bit_or_iff)

text \<open>The fields of \<open>mstatus\<close> that no supervisor register shows.\<close>

definition machine_fields :: reg_t where
  "machine_fields = NOT (sstatus_fields OR SSTATUS64_SD OR SSTATUS32_SD)"

lemma outside_union: "a AND (NOT (f OR a OR b) AND m) = 0" "b AND (NOT (f OR a OR b) AND m) = 0"
  "k AND f = k \<Longrightarrow> k AND NOT (f OR a OR b) = 0" for a b f k m :: reg_t
  by (auto simp: bit_eq_iff bit_and_iff bit_or_iff bit_not_iff)

lemma machine_fields_SD: "SSTATUS64_SD AND (machine_fields AND m) = 0" "SSTATUS32_SD AND (machine_fields AND m) = 0"
  unfolding machine_fields_def by (simp_all only: outside_union)

lemma mask_out: "m AND (f AND NOT m) = 0" for m f :: reg_t
  by (auto simp: bit_eq_iff bit_and_iff bit_not_iff)

lemma split_mask:
  fixes a b m f :: reg_t
  assumes "a AND (f AND m) = b AND (f AND m)" "a AND (f AND NOT m) = b AND (f AND NOT m)"
  shows "a AND f = b AND f"
  using assms by (auto simp: bit_eq_iff bit_and_iff bit_not_iff)

lemma sstatus_write_exact:
  assumes ok: "csr_ok h" and u: "extension_enabled ISA_U h"
    and m: "sstatus_write_mask h AND NOT sstatus_fields = 0"
  obtains h' where "write_obj Sstatus_csr v h = (Inr (), h')"
    "only_key (if h_v h then CSR_VSSTATUS else CSR_MSTATUS) h h'" "csr_ok h'"
    "\<And>x. x AND sstatus_write_mask h = x \<Longrightarrow> SSTATUS64_SD AND x = 0 \<Longrightarrow> SSTATUS32_SD AND x = 0 \<Longrightarrow>
       sstatus_read h' AND x = v AND x"
    "mstatus_read h' AND machine_fields = mstatus_read h AND machine_fields"
proof (cases "h_v h")
  case True
  define n where "n = (vsstatus_read h AND NOT (sstatus_write_mask h)) OR (v AND sstatus_write_mask h)"
  obtain k where k: "maybe_flush_tlb n (vsstatus_read h) h = h\<lparr>mmu := k\<rparr>" using maybe_flush_eq by blast
  let ?h' = "write_csrv CSR_VSSTATUS (adjust_sd n (h\<lparr>mmu := k\<rparr>)) (h\<lparr>mmu := k\<rparr>)"
  have w: "snd (vsstatus_unlogged_write v h) = ?h'"
    using True k by (simp add: vsstatus_unlogged_write_def Let_def n_def)
  show thesis
  proof (rule that)
    show "write_obj Sstatus_csr v h = (Inr (), ?h')"
      using True w by (simp add: write_obj_def of_opt_def csr_write_def sstatus_unlogged_write_def)
    show "only_key (if h_v h then CSR_VSSTATUS else CSR_MSTATUS) h ?h'" using True by (auto simp: only_key_def)
    show "csr_ok ?h'" using vsstatus_write_ok [OF ok, of v] w by simp
    show "mstatus_read ?h' AND machine_fields = mstatus_read h AND machine_fields" by (simp add: mstatus_read_def)
    show "sstatus_read ?h' AND x = v AND x"
      if "x AND sstatus_write_mask h = x" "SSTATUS64_SD AND x = 0" "SSTATUS32_SD AND x = 0" for x
    proof -
      have "sstatus_read ?h' AND x = adjust_sd n (h\<lparr>mmu := k\<rparr>) AND x"
        using True by (simp add: sstatus_read_def sstatus_readvirt_def vsstatus_read_def)
      also have "\<dots> = n AND x" by (rule adjust_sd_other [OF that(2,3)])
      also have "\<dots> = v AND x"
        unfolding n_def by (rule masked_merge_in [OF that(1)])
      finally show ?thesis .
    qed
  qed
next
  case False
  let ?m = "sstatus_write_mask h"
  define n where "n = (mstatus_read h AND NOT ?m) OR (v AND ?m)"
  have sub: "?m AND sstatus_fields = ?m" by (rule subset_fields [OF m])
  have "?m AND MSTATUS_MPP = (?m AND sstatus_fields) AND MSTATUS_MPP" by (simp only: sub)
  also have "\<dots> = 0" by (simp add: sstatus_fields_def and.assoc)
  finally have "n AND MSTATUS_MPP = mstatus_read h AND MSTATUS_MPP" unfolding n_def by (rule masked_merge_out)
  from get_field_cong [OF this] have "mode_ok h (get_field n MSTATUS_MPP)" using mpp_mode [OF ok u] by simp
  then obtain h' where 1: "mstatus_unlogged_write n h = Some (True, h')" "only_key CSR_MSTATUS h h'" "csr_ok h'"
    and f: "\<And>x. x AND mstatus_mask h = x \<Longrightarrow> SSTATUS64_SD AND x = 0 \<Longrightarrow> SSTATUS32_SD AND x = 0 \<Longrightarrow>
       mstatus_read h' AND x = n AND x"
    and g: "\<And>x. mstatus_mask h AND x = 0 \<Longrightarrow> SSTATUS64_SD AND x = 0 \<Longrightarrow> SSTATUS32_SD AND x = 0 \<Longrightarrow>
       mstatus_read h' AND x = mstatus_read h AND x"
    by (rule mstatus_write_exact [OF ok]) blast
  have "?m AND 0xffffffff = (?m AND sstatus_fields) AND 0xffffffff" by (simp only: sub)
  also have "\<dots> = ?m AND sstatus_fields" by (simp add: sstatus_fields_def and.assoc)
  finally have low: "?m AND 0xffffffff = ?m" by (simp only: sub)
  show thesis
  proof (rule that)
    show "write_obj Sstatus_csr v h = (Inr (), h')"
      using False low 1(1) by (simp add: write_obj_def of_opt_def csr_write_def sstatus_unlogged_write_def
          sstatus_proxy_unlogged_write_def Let_def n_def)
    show "only_key (if h_v h then CSR_VSSTATUS else CSR_MSTATUS) h h'" using 1(2) False by simp
    show "csr_ok h'" by (rule 1(3))
    show "mstatus_read h' AND machine_fields = mstatus_read h AND machine_fields"
    proof (rule split_mask [of _ _ "mstatus_mask h"])
      have "?m AND machine_fields = 0" unfolding machine_fields_def by (rule outside_union(3) [OF sub])
      then have z: "n AND machine_fields = mstatus_read h AND machine_fields"
        unfolding n_def by (rule masked_merge_out)
      have "mstatus_read h' AND (machine_fields AND mstatus_mask h) = n AND (machine_fields AND mstatus_mask h)"
        by (rule f) (simp_all only: machine_fields_SD and.assoc and.idem)
      also have "\<dots> = mstatus_read h AND (machine_fields AND mstatus_mask h)"
        using z by (metis and.assoc)
      finally show "mstatus_read h' AND (machine_fields AND mstatus_mask h) = mstatus_read h AND (machine_fields AND mstatus_mask h)" .
      show "mstatus_read h' AND (machine_fields AND NOT (mstatus_mask h)) = mstatus_read h AND (machine_fields AND NOT (mstatus_mask h))"
        by (rule g) (simp_all only: machine_fields_SD mask_out)
    qed
    fix x assume x: "x AND ?m = x" "SSTATUS64_SD AND x = 0" "SSTATUS32_SD AND x = 0"
    have "sstatus_read h' AND x = mstatus_read h' AND x"
    proof -
      have "x AND sstatus_read_mask h' = x"
        using x(1) unfolding sstatus_read_mask_def only_key_frame(8) [OF 1(2)]
        by (auto simp: bit_eq_iff bit_and_iff bit_or_iff)
      then have "sstatus_read_mask h' AND x = x" by (simp only: and.commute)
      then show ?thesis using False
        by (simp add: sstatus_read_def sstatus_readvirt_def sstatus_proxy_read_def only_key_frame [OF 1(2)] and.assoc)
    qed
    also have "\<dots> = n AND x" by (rule f [OF sstatus_mask_sub [OF x(1)] x(2,3)])
    also have "\<dots> = v AND x" unfolding n_def by (rule masked_merge_in [OF x(1)])
    finally show "sstatus_read h' AND x = v AND x" .
  qed
qed


lemma mask_sub_trans: "x AND f = x \<Longrightarrow> f AND m = f \<Longrightarrow> x AND m = x" for x f m :: reg_t
  by (metis and.assoc)

lemma push_sstatus_result:
  assumes ok: "csr_ok h" and u: "extension_enabled ISA_U h"
    and m: "sstatus_write_mask h AND NOT sstatus_fields = 0"
      "(SSTATUS_SIE OR SSTATUS_SPIE OR SSTATUS_SPP) AND sstatus_write_mask h = SSTATUS_SIE OR SSTATUS_SPIE OR SSTATUS_SPP"
    and p: "h_prv h = PRV_U \<or> h_prv h = PRV_S"
  obtains h' where "push_sstatus h = (Inr (), h')"
    "only_key (if h_v h then CSR_VSSTATUS else CSR_MSTATUS) h h'" "csr_ok h'"
    "get_field (sstatus_read h') MSTATUS_SPP = h_prv h"
    "get_field (sstatus_read h') MSTATUS_SPIE = get_field (sstatus_read h) MSTATUS_SIE"
    "get_field (sstatus_read h') MSTATUS_SIE = 0"
    "mstatus_read h' AND machine_fields = mstatus_read h AND machine_fields"
proof -
  let ?s = "pushed_sstatus (sstatus_read h) (h_prv h)"
  obtain h' where w: "write_obj Sstatus_csr ?s h = (Inr (), h')"
    and k: "only_key (if h_v h then CSR_VSSTATUS else CSR_MSTATUS) h h'" and c: "csr_ok h'"
    and f: "\<And>x. x AND sstatus_write_mask h = x \<Longrightarrow> SSTATUS64_SD AND x = 0 \<Longrightarrow> SSTATUS32_SD AND x = 0 \<Longrightarrow>
       sstatus_read h' AND x = ?s AND x"
    and mf: "mstatus_read h' AND machine_fields = mstatus_read h AND machine_fields"
    by (rule sstatus_write_exact [OF ok u m(1), of ?s]) blast
  have sub: "x AND sstatus_write_mask h = x" if "x AND (SSTATUS_SIE OR SSTATUS_SPIE OR SSTATUS_SPP) = x" for x
    by (rule mask_sub_trans [OF that m(2)])
  note g = f [THEN get_field_cong, OF sub]
  have fields: "get_field (sstatus_read h') MSTATUS_SPP = h_prv h"
    "get_field (sstatus_read h') MSTATUS_SPIE = get_field (sstatus_read h) MSTATUS_SIE"
    "get_field (sstatus_read h') MSTATUS_SIE = 0"
    using g [of MSTATUS_SPP] g [of MSTATUS_SPIE] g [of MSTATUS_SIE] by (simp_all add: pushed_sstatus_fields [OF p])
  show thesis
    by (rule that [OF _ k c fields mf]) (use w in \<open>simp add: push_sstatus_def Let_def pushed_sstatus_def\<close>)
qed

lemma sstatus_upd [simp]:
  "sstatus_read (h\<lparr>mmu := m\<rparr>) = sstatus_read h" "sstatus_read (h\<lparr>h_prv := p\<rparr>) = sstatus_read h"
  "sstatus_read (h\<lparr>h_pc := q\<rparr>) = sstatus_read h"
  by (simp_all add: sstatus_read_def sstatus_readvirt_def vsstatus_read_def sstatus_proxy_read_def
      sstatus_read_mask_def mstatus_read_def)

definition trap_entered_vs :: "trap_t \<Rightarrow> reg_t \<Rightarrow> hart \<Rightarrow> hart \<Rightarrow> bool" where
  "trap_entered_vs t epc h h' \<longleftrightarrow>
     h_prv h' = PRV_S \<and> h_v h' \<and>
     h_pc h' = handler_pc (csrv h CSR_VSTVEC) (trap_is_interrupt t h) (trap_bit t h) \<and>
     csrv h' CSR_VSEPC = epc AND NOT 1 \<and>
     csrv h' CSR_VSCAUSE = (if trap_is_interrupt t h then cause t - 1 else cause t) \<and>
     csrv h' CSR_VSTVAL = get_tval t \<and>
     get_field (sstatus_read h') MSTATUS_SPP = h_prv h \<and>
     get_field (sstatus_read h') MSTATUS_SPIE = get_field (sstatus_read h) MSTATUS_SIE \<and>
     get_field (sstatus_read h') MSTATUS_SIE = 0 \<and>
     mstatus_read h' = mstatus_read h"

definition trap_entered_hs :: "trap_t \<Rightarrow> reg_t \<Rightarrow> hart \<Rightarrow> hart \<Rightarrow> bool" where
  "trap_entered_hs t epc h h' \<longleftrightarrow>
     h_prv h' = PRV_S \<and> \<not> h_v h' \<and>
     h_pc h' = handler_pc (csrv h CSR_STVEC) (trap_is_interrupt t h) (trap_bit t h) \<and>
     csrv h' CSR_SEPC = epc AND NOT 1 \<and> csrv h' CSR_SCAUSE = cause t \<and> csrv h' CSR_STVAL = get_tval t \<and>
     csrv h' CSR_HTVAL = get_tval2 t \<and> csrv h' CSR_HTINST = get_tinst t \<and>
     get_field (sstatus_read h') MSTATUS_SPP = h_prv h \<and>
     get_field (sstatus_read h') MSTATUS_SPIE = get_field (sstatus_proxy_read h) MSTATUS_SIE \<and>
     get_field (sstatus_read h') MSTATUS_SIE = 0 \<and>
     mstatus_read h' AND machine_fields = mstatus_read h AND machine_fields \<and>
     (extension_enabled ISA_H h \<longrightarrow>
        get_field (csrv h' CSR_HSTATUS) HSTATUS_SPV = of_bool (h_v h) \<and>
        get_field (csrv h' CSR_HSTATUS) HSTATUS_GVA = of_bool (has_gva t) \<and>
        get_field (csrv h' CSR_HSTATUS) HSTATUS_SPVP =
          (if h_v h then h_prv h else get_field (csrv h CSR_HSTATUS) HSTATUS_SPVP))"

lemma supervisor_ready:
  assumes "hart_ok h" "extension_enabled ISA_S h"
  shows "csr_ok h" "extension_enabled ISA_U h" "sstatus_write_mask h AND NOT sstatus_fields = 0"
    "(SSTATUS_SIE OR SSTATUS_SPIE OR SSTATUS_SPP) AND sstatus_write_mask h = SSTATUS_SIE OR SSTATUS_SPIE OR SSTATUS_SPP"
    "mode_ok h PRV_S"
  using assms by (auto simp: hart_ok_def mode_ok_def legalize_privilege_def)

lemma trap_to_vs_result:
  assumes ok: "hart_ok h" and s: "extension_enabled ISA_S h" and v: "h_v h"
  obtains h' where "trap_to_vs t (trap_is_interrupt t h) (trap_bit t h) epc h = (Inr (), h')"
    "hart_ok h'" "trap_entered_vs t epc h h'"
proof -
  note r = supervisor_ready [OF ok s]
  have p: "h_prv h = PRV_U \<or> h_prv h = PRV_S"
    using ok v mode_ok_bound [of h "h_prv h"] by (auto simp: hart_ok_def)
  define pc where "pc = handler_pc (csrv h CSR_VSTVEC) (trap_is_interrupt t h) (trap_bit t h)"
  define h1 where "h1 = write_csrv CSR_VSTVAL (get_tval t) (write_csrv CSR_VSEPC (epc AND NOT 1)
    (write_csrv CSR_VSCAUSE (if trap_is_interrupt t h then cause t - 1 else cause t) (h\<lparr>h_pc := pc\<rparr>)))"
  have c1: "csr_ok h1"
    unfolding h1_def by (intro csr_ok_write_free free_keys_trap epc_ok) (use r in simp_all)
  have m1: "h_prv h1 = h_prv h" "h_v h1 = True" "h_pc h1 = pc" "sstatus_write_mask h1 = sstatus_write_mask h"
    "\<And>e. extension_enabled e h1 = extension_enabled e h" "\<And>q. legalize_privilege q h1 = legalize_privilege q h"
    "csrv h1 CSR_MEDELEG = csrv h CSR_MEDELEG" "csrv h1 CSR_MIDELEG = csrv h CSR_MIDELEG"
    "sstatus_read h1 = sstatus_read h" "mstatus_read h1 = mstatus_read h"
    "csrv h1 CSR_VSEPC = epc AND NOT 1" "csrv h1 CSR_VSTVAL = get_tval t"
    "csrv h1 CSR_VSCAUSE = (if trap_is_interrupt t h then cause t - 1 else cause t)"
    using v by (simp_all add: h1_def sstatus_read_def sstatus_readvirt_def vsstatus_read_def mstatus_read_def)
  have pre: "extension_enabled ISA_U h1" "sstatus_write_mask h1 AND NOT sstatus_fields = 0"
    "(SSTATUS_SIE OR SSTATUS_SPIE OR SSTATUS_SPP) AND sstatus_write_mask h1 = SSTATUS_SIE OR SSTATUS_SPIE OR SSTATUS_SPP"
    "h_prv h1 = PRV_U \<or> h_prv h1 = PRV_S"
    using r p unfolding m1 by blast+
  obtain h2 where w: "push_sstatus h1 = (Inr (), h2)"
    and k: "only_key (if h_v h1 then CSR_VSSTATUS else CSR_MSTATUS) h1 h2" and c2: "csr_ok h2"
    and f: "get_field (sstatus_read h2) MSTATUS_SPP = h_prv h1"
      "get_field (sstatus_read h2) MSTATUS_SPIE = get_field (sstatus_read h1) MSTATUS_SIE"
      "get_field (sstatus_read h2) MSTATUS_SIE = 0"
    by (rule push_sstatus_result [OF c1 pre]) blast
  note f = f [unfolded m1] and k = k [unfolded m1 if_True]
  let ?h' = "h2\<lparr>mmu := flush_tlb (mmu h2), h_prv := PRV_S\<rparr>"
  note fr = only_key_frame [OF k] only_key_ext [OF k]
  have q: "mode_ok h2 PRV_S" using r(5) by (simp add: mode_ok_def fr m1)
  have run: "trap_to_vs t (trap_is_interrupt t h) (trap_bit t h) epc h = (Inr (), ?h')"
    using w unfolding trap_to_vs_def h1_def pc_def
    by (simp add: monad_simps set_privilege_to [OF q])
  have e: "trap_entered_vs t epc h ?h'"
    unfolding trap_entered_vs_def
    using f m1 v fr by (simp add: pc_def mstatus_read_def sstatus_upd)
  have o: "hart_ok ?h'"
    by (rule hart_ok_cong [OF ok]) (use c2 m1 fr r in simp_all)
  show thesis by (rule that [OF run o e])
qed


definition pushed_hstatus :: "reg_t \<Rightarrow> bool \<Rightarrow> reg_t \<Rightarrow> bool \<Rightarrow> reg_t" where
  "pushed_hstatus s cv p g = set_field (set_field (if cv then set_field s HSTATUS_SPVP p else s)
     HSTATUS_SPV (of_bool cv)) HSTATUS_GVA (of_bool g)"

lemma hstatus_masks:
  "(HSTATUS_GVA :: reg_t) = field_mask 6 1" "(HSTATUS_SPV :: reg_t) = field_mask 7 1"
  "(HSTATUS_SPVP :: reg_t) = field_mask 8 1"
  by (simp_all add: field_mask_def mask_eq_exp_minus_1)

lemma pushed_hstatus_fields:
  assumes "p = PRV_U \<or> p = PRV_S"
  shows "get_field (pushed_hstatus s cv p g) HSTATUS_SPV = of_bool cv"
    "get_field (pushed_hstatus s cv p g) HSTATUS_GVA = of_bool g"
    "get_field (pushed_hstatus s cv p g) HSTATUS_SPVP = (if cv then p else get_field s HSTATUS_SPVP)"
proof -
  have "take_bit (Suc 0) p = p" using assms by auto
  then show "get_field (pushed_hstatus s cv p g) HSTATUS_SPV = of_bool cv"
    "get_field (pushed_hstatus s cv p g) HSTATUS_GVA = of_bool g"
    "get_field (pushed_hstatus s cv p g) HSTATUS_SPVP = (if cv then p else get_field s HSTATUS_SPVP)"
    using take_bit_flag
    unfolding pushed_hstatus_def hstatus_masks One_nat_def by (simp_all add: field_algebra)
qed

lemma hstatus_mask_fields:
  "HSTATUS_SPV AND hstatus_mask h = HSTATUS_SPV" "HSTATUS_GVA AND hstatus_mask h = HSTATUS_GVA"
  "HSTATUS_SPVP AND hstatus_mask h = HSTATUS_SPVP"
  by (rule bit_word_eqI; simp only: hstatus_mask_def bit_or_iff bit_and_iff; blast)+

lemma write_hstatus:
  obtains n where "write_obj (Masked_csr CSR_HSTATUS (hstatus_mask h)) v k = (Inr (), write_csrv CSR_HSTATUS n k)"
    "\<And>x. x AND hstatus_mask h = x \<Longrightarrow> n AND x = v AND x"
proof
  show "write_obj (Masked_csr CSR_HSTATUS (hstatus_mask h)) v k = (Inr (), write_csrv CSR_HSTATUS
      ((csrv k CSR_HSTATUS AND NOT (hstatus_mask h)) OR (v AND hstatus_mask h)) k)"
    by (simp add: masked_unlogged_write_def masked_write_def)
  show "((csrv k CSR_HSTATUS AND NOT (hstatus_mask h)) OR (v AND hstatus_mask h)) AND x = v AND x"
    if "x AND hstatus_mask h = x" for x by (rule masked_merge_in [OF that])
qed

definition trap_registers_hs :: "trap_t \<Rightarrow> reg_t \<Rightarrow> hart \<Rightarrow> hart" where
  "trap_registers_hs t epc h = write_csrv CSR_HTINST (get_tinst t) (write_csrv CSR_HTVAL (get_tval2 t)
     (write_csrv CSR_STVAL (get_tval t) (write_csrv CSR_SEPC (epc AND NOT 1) (write_csrv CSR_SCAUSE (cause t) h))))"

lemma trap_to_hs_result:
  assumes ok: "hart_ok h" and s: "extension_enabled ISA_S h" and p3: "h_prv h \<noteq> PRV_M"
  obtains h' where "trap_to_hs t (h_v h) (trap_is_interrupt t h) (trap_bit t h) epc h = (Inr (), h')"
    "hart_ok h'" "trap_entered_hs t epc h h'"
proof -
  note r = supervisor_ready [OF ok s]
  have p: "h_prv h = PRV_U \<or> h_prv h = PRV_S"
    using ok p3 mode_ok_bound [of h "h_prv h"] by (auto simp: hart_ok_def)
  have nv: "h_v h \<longrightarrow> h_prv h \<noteq> PRV_M" using p3 by simp
  define pc where "pc = handler_pc (csrv h CSR_STVEC) (trap_is_interrupt t h) (trap_bit t h)"
  define h1 where "h1 = trap_registers_hs t epc (h\<lparr>h_v := False, h_pc := pc\<rparr>)"
  have c1: "csr_ok h1"
    unfolding h1_def trap_registers_hs_def
    by (intro csr_ok_write_free free_keys_trap epc_ok) (use r in simp_all)
  have m1: "h_prv h1 = h_prv h" "h_v h1 = False" "h_pc h1 = pc" "sstatus_write_mask h1 = sstatus_write_mask h"
    "\<And>e. extension_enabled e h1 = extension_enabled e h" "\<And>q. legalize_privilege q h1 = legalize_privilege q h"
    "csrv h1 CSR_MEDELEG = csrv h CSR_MEDELEG" "csrv h1 CSR_MIDELEG = csrv h CSR_MIDELEG"
    "sstatus_read h1 = sstatus_proxy_read h" "csrv h1 CSR_HSTATUS = csrv h CSR_HSTATUS"
    "csrv h1 CSR_SEPC = epc AND NOT 1" "csrv h1 CSR_STVAL = get_tval t" "csrv h1 CSR_SCAUSE = cause t"
    "csrv h1 CSR_HTVAL = get_tval2 t" "csrv h1 CSR_HTINST = get_tinst t" "mstatus_read h1 = mstatus_read h"
    by (simp_all add: h1_def trap_registers_hs_def sstatus_read_def sstatus_readvirt_def sstatus_proxy_read_def
        mstatus_read_def sstatus_read_mask_def)
  have pre: "extension_enabled ISA_U h1" "sstatus_write_mask h1 AND NOT sstatus_fields = 0"
    "(SSTATUS_SIE OR SSTATUS_SPIE OR SSTATUS_SPP) AND sstatus_write_mask h1 = SSTATUS_SIE OR SSTATUS_SPIE OR SSTATUS_SPP"
    "h_prv h1 = PRV_U \<or> h_prv h1 = PRV_S"
    using r p unfolding m1 by blast+
  obtain h2 where w: "push_sstatus h1 = (Inr (), h2)"
    and k: "only_key (if h_v h1 then CSR_VSSTATUS else CSR_MSTATUS) h1 h2" and c2: "csr_ok h2"
    and f: "get_field (sstatus_read h2) MSTATUS_SPP = h_prv h1"
      "get_field (sstatus_read h2) MSTATUS_SPIE = get_field (sstatus_read h1) MSTATUS_SIE"
      "get_field (sstatus_read h2) MSTATUS_SIE = 0"
      "mstatus_read h2 AND machine_fields = mstatus_read h1 AND machine_fields"
    by (rule push_sstatus_result [OF c1 pre]) blast
  note f = f [unfolded m1] and k = k [unfolded m1 if_False]
  note fr = only_key_frame [OF k] only_key_ext [OF k]
  let ?s = "pushed_hstatus (csrv h CSR_HSTATUS) (h_v h) (h_prv h) (has_gva t)"
  obtain n where n: "write_obj (Masked_csr CSR_HSTATUS (hstatus_mask h2)) ?s h2 = (Inr (), write_csrv CSR_HSTATUS n h2)"
    "\<And>x. x AND hstatus_mask h2 = x \<Longrightarrow> n AND x = ?s AND x"
    by (rule write_hstatus [of h2 ?s h2]) blast
  define h3 where "h3 = (if extension_enabled ISA_H h then write_csrv CSR_HSTATUS n h2 else h2)"
  have hs: "(if extension_enabled ISA_H h2 then
         (let s = csrv h2 CSR_HSTATUS;
              s = (if h_v h then set_field s HSTATUS_SPVP (h_prv h2) else s);
              s = set_field s HSTATUS_SPV (of_bool (h_v h));
              s = set_field s HSTATUS_GVA (of_bool (has_gva t))
          in write_obj (Masked_csr CSR_HSTATUS (hstatus_mask h2)) s h2)
       else (Inr (), h2)) = (Inr (), h3)"
    using n(1) unfolding h3_def pushed_hstatus_def
    by (cases "h_v h"; cases "has_gva t"; simp add: fr m1 Let_def del: write_obj_simps)
  have q: "mode_ok h3 PRV_S" using r(5) by (simp add: h3_def mode_ok_def fr m1)
  have c3: "csr_ok h3" unfolding h3_def by (simp add: c2 csr_ok_write_free free_keys_trap)
  let ?h' = "h3\<lparr>mmu := flush_tlb (mmu h3), h_prv := PRV_S\<rparr>"
  have run: "trap_to_hs t (h_v h) (trap_is_interrupt t h) (trap_bit t h) epc h = (Inr (), ?h')"
    using w hs unfolding trap_to_hs_def h1_def trap_registers_hs_def pc_def
    by (simp add: bindE_def modify_def set_virt_False [OF nv] set_privilege_to [OF q] del: write_obj_simps(9))
  have st: "sstatus_read h3 = sstatus_read h2" "mstatus_read h3 = mstatus_read h2"
    by (simp_all add: h3_def sstatus_read_def sstatus_readvirt_def sstatus_proxy_read_def vsstatus_read_def
        mstatus_read_def sstatus_read_mask_def)
  have hf: "extension_enabled ISA_H h \<longrightarrow>
      get_field (csrv h3 CSR_HSTATUS) HSTATUS_SPV = of_bool (h_v h) \<and>
      get_field (csrv h3 CSR_HSTATUS) HSTATUS_GVA = of_bool (has_gva t) \<and>
      get_field (csrv h3 CSR_HSTATUS) HSTATUS_SPVP = (if h_v h then h_prv h else get_field (csrv h CSR_HSTATUS) HSTATUS_SPVP)"
    using n(2) [THEN get_field_cong, OF hstatus_mask_fields(1)] n(2) [THEN get_field_cong, OF hstatus_mask_fields(2)]
      n(2) [THEN get_field_cong, OF hstatus_mask_fields(3)]
    by (simp add: h3_def pushed_hstatus_fields [OF p])
  have g3: "h_v h3 = False" "h_pc h3 = pc" "csrv h3 CSR_SEPC = epc AND NOT 1" "csrv h3 CSR_STVAL = get_tval t"
    "csrv h3 CSR_SCAUSE = cause t" "csrv h3 CSR_HTVAL = get_tval2 t" "csrv h3 CSR_HTINST = get_tinst t"
    "csrv h3 CSR_MEDELEG = csrv h CSR_MEDELEG" "csrv h3 CSR_MIDELEG = csrv h CSR_MIDELEG"
    "sstatus_write_mask h3 = sstatus_write_mask h"
    "\<And>e. extension_enabled e h3 = extension_enabled e h" "\<And>q. legalize_privilege q h3 = legalize_privilege q h"
    by (simp_all add: h3_def fr m1)
  have e: "trap_entered_hs t epc h ?h'"
    unfolding trap_entered_hs_def using f hf by (simp add: g3 st pc_def) (simp add: mstatus_read_def [of "_ :: hart"] st [unfolded mstatus_read_def])
  have o: "hart_ok ?h'"
    by (rule hart_ok_cong [OF ok]) (use c3 r in \<open>simp_all add: g3\<close>)
  show thesis by (rule that [OF run o e])
qed

text \<open>Taking a trap outside debug mode.\<close>

definition trap_entered :: "trap_t \<Rightarrow> reg_t \<Rightarrow> hart \<Rightarrow> hart \<Rightarrow> bool" where
  "trap_entered t epc h h' = (case trap_target_of t h of
     To_VS \<Rightarrow> trap_entered_vs t epc h h' | To_HS \<Rightarrow> trap_entered_hs t epc h h' | To_M \<Rightarrow> trap_entered_m t epc h h')"

lemma target_supervisor:
  assumes "hart_ok h" "trap_target_of t h \<noteq> To_M"
  shows "extension_enabled ISA_S h" "h_prv h \<noteq> PRV_M"
proof -
  have "trap_target_of t h = To_M" if z: "mideleg_read h = 0" "csrv h CSR_MEDELEG = 0"
  proof -
    have "hideleg_read h = 0" by (simp add: hideleg_read_def z)
    then show ?thesis by (simp add: trap_target_of_def Let_def z)
  qed
  then show "extension_enabled ISA_S h" using assms by (auto simp: hart_ok_def)
  show "h_prv h \<noteq> PRV_M"
  proof
    assume "h_prv h = PRV_M"
    then have "\<not> h_prv h \<le> PRV_S" by (simp add: word_le_nat_alt)
    then show False using assms(2) by (simp add: trap_target_of_def Let_def)
  qed
qed

lemma target_vs: "trap_target_of t h = To_VS \<Longrightarrow> h_v h"
  by (auto simp: trap_target_of_def Let_def split: if_splits)

lemma take_trap_result:
  assumes "hart_ok h" "\<not> debug_mode h"
  shows "\<exists>h'. take_trap t epc h = (Inr (), h') \<and> hart_ok h' \<and> trap_entered t epc h h'"
proof (cases "trap_target_of t h")
  case To_VS
  then have "extension_enabled ISA_S h" "h_v h" using target_supervisor [OF assms(1), of t] target_vs [of t h] by simp_all
  from trap_to_vs_result [OF assms(1) this] show ?thesis
    using To_VS assms(2) by (simp add: take_trap_def Let_def trap_entered_def) metis
next
  case To_HS
  then have "extension_enabled ISA_S h" "h_prv h \<noteq> PRV_M" using target_supervisor [OF assms(1), of t] by simp_all
  from trap_to_hs_result [OF assms(1) this] show ?thesis
    using To_HS assms(2) by (simp add: take_trap_def Let_def trap_entered_def) metis
next
  case To_M
  from trap_to_m_result [OF assms(1)] show ?thesis
    using To_M assms(2) by (simp add: take_trap_def Let_def trap_entered_def) metis
qed

text \<open>
  C6. On a hart in a consistent state outside debug mode, taking a trap never aborts, leaves the hart
  consistent, and enters the mode the delegation registers name: the cause, the program counter,
  the trap value and the interrupted mode are in that mode's registers, its interrupts are off with
  the old enable kept aside, and the program counter is the handler's.
\<close>

theorem take_trap_entered:
  assumes "hart_ok h" "\<not> debug_mode h"
  shows "\<exists>h'. take_trap t epc h = (Inr (), h') \<and> hart_ok h' \<and> trap_entered t epc h h'"
  by (rule take_trap_result [OF assms])

end
