(* ===== verification/Interrupts.thy ===== *)
theory Interrupts
  imports Trap_Entry
begin

text \<open>
  Which interrupt a hart takes and where: the serving order of \<open>take_interrupt\<close>, the modes in which
  an interrupt is enabled, and the agreement of the interrupt's delegation with the target of the
  trap it throws; the evaluations of this theory and of \<open>Trap_Entry\<close>.
\<close>


subsection \<open>Choosing an interrupt\<close>

text \<open>The order in which \<open>take_interrupt\<close> serves the pending interrupts.\<close>

definition interrupt_order :: "nat list" where
  "interrupt_order = [IRQ_M_EXT + 1..<64] @ [IRQ_M_EXT, IRQ_M_SOFT, IRQ_M_TIMER, IRQ_S_EXT, IRQ_S_SOFT, IRQ_S_TIMER,
     IRQ_VS_EXT, IRQ_VS_SOFT, IRQ_VS_TIMER]"

lemma find_append: "find P (xs @ ys) = (case find P xs of None \<Rightarrow> find P ys | Some x \<Rightarrow> Some x)"
  by (induction xs) auto

lemma find_upt_first: "a \<le> k \<Longrightarrow> k < b \<Longrightarrow> P k \<Longrightarrow> (\<And>j. a \<le> j \<Longrightarrow> j < k \<Longrightarrow> \<not> P j) \<Longrightarrow> find P [a..<b] = Some k"
  unfolding find_Some_iff by (intro exI [of _ "k - a"]) (auto simp: nth_upt)

lemma find_upt_none: "find P [a..<b] = None \<longleftrightarrow> (\<forall>j. a \<le> j \<longrightarrow> j < b \<longrightarrow> \<not> P j)"
  by (auto simp: find_None_iff)

lemma shr_zero_iff: "shr (e :: reg_t) n = 0 \<longleftrightarrow> (\<forall>j. n \<le> j \<longrightarrow> j < 64 \<longrightarrow> \<not> bit e j)"
proof -
  have len: "bit e i \<Longrightarrow> i < 64" for i using bit_imp_le_length [of e i] by simp
  have "shr e n = 0 \<longleftrightarrow> (\<forall>j. \<not> bit (shr e n) j)"
  proof
    assume "\<forall>j. \<not> bit (shr e n) j" then show "shr e n = 0" by (intro bit_word_eqI) simp
  qed simp
  also have "\<dots> \<longleftrightarrow> (\<forall>j. \<not> bit e (n + j))" by (simp add: bit_drop_bit_eq)
  also have "\<dots> \<longleftrightarrow> (\<forall>j. n \<le> j \<longrightarrow> j < 64 \<longrightarrow> \<not> bit e j)" using len by (metis le_Suc_ex le_add1)
  finally show ?thesis .
qed

lemma ctz_unique:
  assumes "bit v n" "\<And>i. i < n \<Longrightarrow> \<not> bit v i"
  shows "ctz v = n"
proof -
  have "v \<noteq> 0" using assms(1) by auto
  from ctz_spec [OF this] assms show ?thesis by (metis linorder_neqE_nat)
qed

lemma interrupt_flag: "e AND MIP_SSIP \<noteq> 0 \<longleftrightarrow> bit e IRQ_S_SOFT" "e AND MIP_VSSIP \<noteq> 0 \<longleftrightarrow> bit e IRQ_VS_SOFT"
  "e AND MIP_MSIP \<noteq> 0 \<longleftrightarrow> bit e IRQ_M_SOFT" "e AND MIP_STIP \<noteq> 0 \<longleftrightarrow> bit e IRQ_S_TIMER"
  "e AND MIP_VSTIP \<noteq> 0 \<longleftrightarrow> bit e IRQ_VS_TIMER" "e AND MIP_MTIP \<noteq> 0 \<longleftrightarrow> bit e IRQ_M_TIMER"
  "e AND MIP_SEIP \<noteq> 0 \<longleftrightarrow> bit e IRQ_S_EXT" "e AND MIP_VSEIP \<noteq> 0 \<longleftrightarrow> bit e IRQ_VS_EXT"
  "e AND MIP_MEIP \<noteq> 0 \<longleftrightarrow> bit e IRQ_M_EXT" "e AND MIP_LCOFIP \<noteq> 0 \<longleftrightarrow> bit e IRQ_LCOF" for e :: reg_t
  using and_exp_eq_0_iff_not_bit [of e] by (simp_all add: and_exp_eq_0_iff_not_bit [of e 1, simplified]
      and_exp_eq_0_iff_not_bit [of e 2, simplified] and_exp_eq_0_iff_not_bit [of e 3, simplified]
      and_exp_eq_0_iff_not_bit [of e 5, simplified] and_exp_eq_0_iff_not_bit [of e 6, simplified]
      and_exp_eq_0_iff_not_bit [of e 7, simplified] and_exp_eq_0_iff_not_bit [of e 9, simplified]
      and_exp_eq_0_iff_not_bit [of e 10, simplified] and_exp_eq_0_iff_not_bit [of e 11, simplified]
      and_exp_eq_0_iff_not_bit [of e 13, simplified])

lemma ctz_flags: "ctz MIP_SSIP = 1" "ctz MIP_VSSIP = 2" "ctz MIP_MSIP = 3" "ctz MIP_STIP = 5" "ctz MIP_VSTIP = 6"
  "ctz MIP_MTIP = 7" "ctz MIP_SEIP = 9" "ctz MIP_VSEIP = 10" "ctz MIP_MEIP = 11" "ctz MIP_LCOFIP = 13"
  by (simp_all add: ctz_def ctz_step_def)

lemma select_first: "map_option ctz (select_interrupt e) = find (bit e) interrupt_order"
proof (cases "shr e (IRQ_M_EXT + 1) = 0")
  case False
  let ?s = "shl (shr e (IRQ_M_EXT + 1)) (IRQ_M_EXT + 1)"
  have b: "bit ?s i \<longleftrightarrow> 12 \<le> i \<and> bit e i" for i using bit_imp_le_length [of e i] by (auto simp: bit_simps)
  obtain j where "12 \<le> j" "bit e j" using False by (auto simp: shr_zero_iff)
  then have "bit ?s j" using b by blast
  then have "?s \<noteq> 0" by (metis bit_0_eq bot_apply bot_bool_def)
  note c = ctz_spec [OF this]
  have "find (bit e) [IRQ_M_EXT + 1..<64] = Some (ctz ?s)"
    using c b by (intro find_upt_first) auto
  then have "find (bit e) interrupt_order = Some (ctz ?s)"
    by (simp only: interrupt_order_def find_append option.case)
  then show ?thesis using False by (simp add: select_interrupt_def)
next
  case True
  then have n: "\<not> bit e 13" and f: "find (bit e) [IRQ_M_EXT + 1..<64] = None"
    unfolding find_upt_none shr_zero_iff by auto
  have "find (bit e) interrupt_order = find (bit e) [IRQ_M_EXT, IRQ_M_SOFT, IRQ_M_TIMER, IRQ_S_EXT, IRQ_S_SOFT,
      IRQ_S_TIMER, IRQ_VS_EXT, IRQ_VS_SOFT, IRQ_VS_TIMER]"
    by (simp only: interrupt_order_def find_append f option.case)
  then show ?thesis
    using n by (simp add: select_interrupt_def True [simplified] interrupt_flag ctz_flags)
qed


text \<open>
  C33. The chain of tests in \<open>take_interrupt\<close> picks the first enabled interrupt of the order: the
  nonstandard ones above the machine external interrupt, lowest number first, then external,
  software and timer interrupts of M, S and VS; it aborts exactly when none of these is enabled.
\<close>

theorem interrupt_priority: "map_option ctz (select_interrupt e) = find (bit e) interrupt_order"
  by (rule select_first)

subsection \<open>Where an interrupt is taken\<close>

definition interrupt_home :: "hart \<Rightarrow> nat \<Rightarrow> trap_target" where
  "interrupt_home h i = (if \<not> bit (mideleg_read h) i then To_M
     else if bit (hideleg_read h) i then To_VS else To_HS)"

fun interrupts_on :: "hart \<Rightarrow> trap_target \<Rightarrow> bool" where
  "interrupts_on h To_M = (h_prv h < PRV_M \<or> h_prv h = PRV_M \<and> get_field (mstatus_read h) MSTATUS_MIE \<noteq> 0)"
| "interrupts_on h To_HS = (h_v h \<or> h_prv h < PRV_S \<or> h_prv h = PRV_S \<and> get_field (sstatus_read h) MSTATUS_SIE \<noteq> 0)"
| "interrupts_on h To_VS = (h_v h \<and> (h_prv h < PRV_S \<or> h_prv h = PRV_S \<and> get_field (sstatus_read h) MSTATUS_SIE \<noteq> 0))"

lemma when_enabled_bit: "bit (when_enabled b) i \<longleftrightarrow> b \<and> i < 64"
  by (simp add: when_enabled_def)

lemma enabled_bit:
  assumes "bit (enabled_interrupts p h) i"
  shows "bit p i" "interrupts_on h (interrupt_home h i)"
proof -
  have "bit p i \<and> interrupts_on h (interrupt_home h i)"
    using assms bit_imp_le_length [OF assms]
    by (auto simp: enabled_interrupts_def Let_def bit_and_iff bit_or_iff bit_not_iff when_enabled_bit interrupt_home_def
        hideleg_read_def split: if_splits)
  then show "bit p i" "interrupts_on h (interrupt_home h i)" by simp_all
qed

lemma on_below_M: "mode_ok h (h_prv h) \<Longrightarrow> h_v h \<longrightarrow> h_prv h \<noteq> PRV_M \<Longrightarrow> interrupts_on h tgt \<Longrightarrow> tgt \<noteq> To_M \<Longrightarrow> h_prv h \<le> PRV_S"
  using mode_ok_bound [of h "h_prv h"] by (cases tgt) (auto simp: word_le_nat_alt word_less_nat_alt)

lemma bit_word_of_nat_iff': "bit (of_nat i :: reg_t) n \<longleftrightarrow> n < 64 \<and> bit i n"
  by transfer (simp add: bit_take_bit_iff bit_of_nat_iff)

lemma interrupt_bits:
  assumes "i < 31" "x = 32 \<or> x = (64 :: nat)"
  shows "(shl 1 (x - 1) OR of_nat i) AND shl 1 (x - 1) \<noteq> (0 :: reg_t)"
    "unat ((shl 1 (x - 1) OR of_nat i) AND NOT (shl 1 (x - 1)) :: reg_t) = i"
proof -
  have b: "\<not> bit (of_nat i :: reg_t) n" if "5 \<le> n" for n
  proof -
    have "i < 2 ^ 5" using assms(1) by simp
    also have "\<dots> \<le> 2 ^ n" using that by (rule power_increasing) simp
    finally have "i div 2 ^ n = 0" by simp
    then show ?thesis unfolding bit_word_of_nat_iff' by (simp add: bit_iff_odd)
  qed
  have x: "5 \<le> x - 1" "x - 1 < 64" using assms(2) by auto
  show "(shl 1 (x - 1) OR of_nat i) AND shl 1 (x - 1) \<noteq> (0 :: reg_t)"
    unfolding and_shl_1 using x by (simp add: bit_simps)
  have "(shl 1 (x - 1) OR of_nat i) AND NOT (shl 1 (x - 1)) = (of_nat i :: reg_t)"
    by (rule bit_word_eqI) (use b x in \<open>auto simp: bit_simps\<close>)
  then show "unat ((shl 1 (x - 1) OR of_nat i) AND NOT (shl 1 (x - 1)) :: reg_t) = i"
    using assms(1) by (simp add: unat_of_nat take_bit_nat_eq_self)
qed

lemma trap_target_bits:
  "trap_target_of t h = (
     let n = unat (trap_bit t h); low = (h_prv h \<le> PRV_S \<and> n < max_xlen (cfg h)) in
     if low \<and> h_v h \<and> bit (if trap_is_interrupt t h then hideleg_read h else csrv h CSR_MEDELEG AND csrv h CSR_HEDELEG) n
     then To_VS
     else if low \<and> bit (if trap_is_interrupt t h then mideleg_read h else csrv h CSR_MEDELEG) n then To_HS
     else To_M)"
proof (cases "h_prv h \<le> PRV_S")
  case True
  then show ?thesis by (cases "h_v h") (simp_all only: trap_target_of_def Let_def bit_shr_1 if_True simp_thms if_False bit_0_eq bot_apply bot_bool_def)
qed (simp add: trap_target_of_def Let_def)

lemma target_of_interrupt:
  assumes h: "hart_ok h" "max_xlen (cfg h) = 32 \<or> max_xlen (cfg h) = 64" and i: "i < 31"
    and t: "cause t = shl 1 (max_xlen (cfg h) - 1) OR of_nat i" and on: "interrupts_on h (interrupt_home h i)"
  shows "trap_target_of t h = interrupt_home h i"
proof -
  have int: "trap_is_interrupt t h = True" "unat (trap_bit t h) = i"
    using interrupt_bits [OF i h(2)] by (simp_all add: trap_is_interrupt_def trap_bit_def t)
  have len: "(i < max_xlen (cfg h)) = True" using h(2) i by auto
  have p: "interrupt_home h i \<noteq> To_M \<Longrightarrow> h_prv h \<le> PRV_S"
    using h(1) on by (auto simp: hart_ok_def intro: on_below_M)
  have v: "interrupt_home h i = To_VS \<Longrightarrow> h_v h" using on by auto
  have sub: "bit (hideleg_read h) i \<Longrightarrow> bit (mideleg_read h) i" by (simp add: hideleg_read_def bit_and_iff)
  show ?thesis
    unfolding trap_target_bits Let_def int len if_True simp_thms
    using p v sub by (cases "interrupt_home h i") (auto simp only: interrupt_home_def trap_target.simps simp_thms if_True if_False split: if_splits)
qed

text \<open>
  C8. An interrupt that \<open>take_interrupt\<close> raises is the first enabled one in the serving order; it is
  pending, its mode has interrupts on, and the trap it throws is taken in the mode the
  delegation registers give it.
\<close>

theorem interrupt_taken:
  assumes "hart_ok h" "max_xlen (cfg h) = 32 \<or> max_xlen (cfg h) = 64" "pending AND 0x3fff = pending"
    and taken: "take_interrupt pending h = (Inl (Trap t), h')"
  shows "\<exists>i. find (bit (enabled_interrupts pending h)) interrupt_order = Some i \<and> bit pending i \<and>
     interrupts_on h (interrupt_home h i) \<and> cause t = shl 1 (max_xlen (cfg h) - 1) OR of_nat i \<and>
     trap_target_of t h = interrupt_home h i \<and> \<not> debug_mode h \<and> nmie h"
proof -
  let ?k = "h\<lparr>in_wfi := False\<rparr>"
  have e: "enabled_interrupts pending ?k = enabled_interrupts pending h" "nmie ?k = nmie h"
    by (simp_all add: enabled_interrupts_def Let_def nmie_def mstatus_read_def mideleg_read_def hideleg_read_def
        sstatus_read_def sstatus_readvirt_def vsstatus_read_def sstatus_proxy_read_def sstatus_read_mask_def
        extension_enabled_def misa_extension_enabled_def)
  obtain s where s: "select_interrupt (enabled_interrupts pending h) = Some s" "\<not> debug_mode h" "nmie h"
    "t = Plain_trap (interrupt_cause h s)"
    using taken
    by (auto simp: take_interrupt_def Let_def e detect_icount_def interrupt_cause_def monad_simps
        split: if_splits option.splits)
  let ?i = "ctz s"
  have f: "find (bit (enabled_interrupts pending h)) interrupt_order = Some ?i"
    using select_first [of "enabled_interrupts pending h"] s(1) by simp
  then have b: "bit (enabled_interrupts pending h) ?i" by (auto simp: find_Some_iff)
  have "bit (pending AND 0x3fff) ?i" using enabled_bit(1) [OF b] assms(3) by simp
  then have "bit (mask 14 :: reg_t) ?i" by (simp add: bit_and_iff mask_eq_exp_minus_1)
  then have i: "?i < 31" by (simp add: bit_mask_iff)
  have c: "cause t = shl 1 (max_xlen (cfg h) - 1) OR of_nat ?i"
    by (simp add: s(4) cause_def interrupt_cause_def)
  show ?thesis
    using f enabled_bit [OF b] s(2,3) c target_of_interrupt [OF assms(1,2) i c] by blast
qed


subsection \<open>Evaluations\<close>

lemma demo_running_facts:
  "cfg demo_running = demo_cfg" "h_prv demo_running = PRV_M" "\<not> h_v demo_running" "\<not> debug_mode demo_running"
  "sstatus_write_mask demo_running = sstatus_fields" "csrmap demo_running = (\<lambda>_. None)"
  "a \<noteq> CSR_MISA \<Longrightarrow> csrv demo_running a = 0" "check_triggers_icount demo_running = False"
  "extension_enabled ISA_S demo_running" "extension_enabled ISA_U demo_running" "extension_enabled ISA_H demo_running"
  by (simp_all add: demo_running_def demo_hart_def demo_cfg_def write_csrv_def extension_enabled_def
      misa_extension_enabled_def)

lemma demo_hart_ok: "hart_ok demo_running" "hart_ok (demo_running\<lparr>h_prv := PRV_U\<rparr>)"
  using demo_running_ok
  by (simp_all add: hart_ok_def demo_running_facts mode_ok_def legalize_privilege_def sstatus_fields_def)

lemma take_trap_entered_witness:
  "hart_ok demo_running \<and> \<not> debug_mode demo_running \<and>
   (\<exists>h'. take_trap trap_machine_ecall 0x1000 demo_running = (Inr (), h') \<and>
      trap_entered trap_machine_ecall 0x1000 demo_running h')"
  using take_trap_entered [OF demo_hart_ok(1) demo_running_facts(4)] demo_hart_ok(1) demo_running_facts(4) by blast

lemma interrupt_taken_witness:
  "\<exists>t h'. take_interrupt 0x80 (demo_running\<lparr>h_prv := PRV_U\<rparr>) = (Inl (Trap t), h') \<and>
     cause t = 0x8000000000000007 \<and> trap_target_of t (demo_running\<lparr>h_prv := PRV_U\<rparr>) = To_M"
proof -
  let ?h = "demo_running\<lparr>h_prv := PRV_U\<rparr>"
  have e: "enabled_interrupts 0x80 (?h\<lparr>in_wfi := b\<rparr>) = 0x80" for b
    by (simp add: enabled_interrupts_def Let_def mideleg_read_def demo_running_facts when_enabled_def)
  have s: "select_interrupt 0x80 = Some MIP_MTIP" by (simp add: select_interrupt_def)
  have c: "interrupt_cause k MIP_MTIP = 0x8000000000000007" if "cfg k = demo_cfg" for k
    by (simp add: interrupt_cause_def that demo_cfg_def ctz_flags)
  have t: "take_interrupt 0x80 ?h = (Inl (Trap (Plain_trap 0x8000000000000007)), ?h\<lparr>in_wfi := False\<rparr>)"
    by (simp add: take_interrupt_def Let_def e s c demo_running_facts nmie_def monad_simps)
  from interrupt_taken [OF demo_hart_ok(2) _ _ t] obtain i where
    i: "bit (0x80 :: reg_t) i"
      "trap_target_of (Plain_trap 0x8000000000000007) ?h = interrupt_home ?h i"
    by (auto simp: demo_running_facts demo_cfg_def)
  have "bit (2 ^ 7 :: reg_t) i" using i(1) by simp
  then have "i = 7" by (simp only: bit_exp_iff)
  then have "interrupt_home ?h i = To_M"
    by (simp add: interrupt_home_def mideleg_read_def demo_running_facts) 
  then show ?thesis using t i(2) by (auto simp: cause_def)
qed

end
