(* ===== verification/Insn.thy ===== *)
theory Insn
  imports Interrupts
begin

text \<open>
  The frame of an instruction (\<open>riscv/decode_macros.h\<close>, \<open>riscv/insn_macros.h\<close>,
  \<open>riscv/insn_template.cc\<close>) and the instructions of the privileged architecture in
  \<open>riscv/insns/\<close>. An instruction is a function of the width \<open>x\<close> and register check \<open>e\<close> its template
  is instantiated for (RV32/RV64, I/E), the instruction word and its address; it runs on the hart,
  may throw, and returns the next program counter or one of the two serialization sentinels. The
  commit log is not modelled.
\<close>

subsection \<open>The macros\<close>

type_synonym insn_fun = "nat \<Rightarrow> bool \<Rightarrow> insn_t \<Rightarrow> reg_t \<Rightarrow> (hart, exn, reg_t) comp"

abbreviation (input) PC_SERIALIZE_BEFORE :: reg_t where "PC_SERIALIZE_BEFORE \<equiv> 3"
abbreviation (input) PC_SERIALIZE_AFTER :: reg_t where "PC_SERIALIZE_AFTER \<equiv> 5"

definition invalid_pc :: "reg_t \<Rightarrow> bool" where
  "invalid_pc pc \<longleftrightarrow> pc AND 1 \<noteq> 0"

definition sext_xlen :: "nat \<Rightarrow> reg_t \<Rightarrow> reg_t" where
  "sext_xlen x v = sar (shl v (64 - x)) (64 - x)"

definition zext_bits :: "nat \<Rightarrow> reg_t \<Rightarrow> reg_t" where
  "zext_bits n v = shr (shl v (64 - n)) (64 - n)"

definition sext32 :: "reg_t \<Rightarrow> reg_t" where
  "sext32 v = scast (ucast v :: u32)"

definition zext32 :: "reg_t \<Rightarrow> reg_t" where
  "zext32 v = ucast (ucast v :: u32)"

definition illegal :: "insn_t \<Rightarrow> ('s, exn, 'a) comp" where
  "illegal i = throw (Trap (trap_illegal_instruction i))"

definition require :: "bool \<Rightarrow> insn_t \<Rightarrow> ('s, exn, unit) comp" where
  "require b i = (if b then return () else illegal i)"

definition require_privilege :: "reg_t \<Rightarrow> insn_t \<Rightarrow> (hart, exn, unit) comp" where
  "require_privilege p i h = require (h_prv h \<ge> p) i h"

definition require_novirt :: "insn_t \<Rightarrow> (hart, exn, unit) comp" where
  "require_novirt i h = (if h_v h then throw (Trap (trap_virtual_instruction i)) h else (Inr (), h))"

definition require_hs_qualified :: "(hart \<Rightarrow> bool) \<Rightarrow> insn_t \<Rightarrow> (hart, exn, unit) comp" where
  "require_hs_qualified c i h = (if h_v h \<and> \<not> c h then require_novirt i h else require (c h) i h)"

definition require_extension :: "nat \<Rightarrow> insn_t \<Rightarrow> (hart, exn, unit) comp" where
  "require_extension s i h = require (extension_enabled s h) i h"

definition require_either_extension :: "nat \<Rightarrow> nat \<Rightarrow> insn_t \<Rightarrow> (hart, exn, unit) comp" where
  "require_either_extension a b i h = require (extension_enabled a h \<or> extension_enabled b h) i h"

definition require_impl :: "nat \<Rightarrow> insn_t \<Rightarrow> (hart, exn, unit) comp" where
  "require_impl s i h = require (supports_impl s h) i h"

definition require_rv64 :: "nat \<Rightarrow> insn_t \<Rightarrow> ('s, exn, unit) comp" where
  "require_rv64 x i = require (x = 64) i"

definition require_rv32 :: "nat \<Rightarrow> insn_t \<Rightarrow> ('s, exn, unit) comp" where
  "require_rv32 x i = require (x = 32) i"

definition read_reg :: "bool \<Rightarrow> insn_t \<Rightarrow> nat \<Rightarrow> (hart, exn, reg_t) comp" where
  "read_reg e i r = bindE (require (e \<longrightarrow> r < 16) i) (\<lambda>_. gets (\<lambda>h. regfile_read (XPR h) r))"

definition write_reg :: "bool \<Rightarrow> insn_t \<Rightarrow> nat \<Rightarrow> reg_t \<Rightarrow> (hart, exn, unit) comp" where
  "write_reg e i r v = bindE (require (e \<longrightarrow> r < 16) i) (\<lambda>_. modify (\<lambda>h. h\<lparr>XPR := regfile_write True (XPR h) r v\<rparr>))"

definition RS1 :: "bool \<Rightarrow> insn_t \<Rightarrow> (hart, exn, reg_t) comp" where
  "RS1 e i = read_reg e i (rs1 i)"

definition RS2 :: "bool \<Rightarrow> insn_t \<Rightarrow> (hart, exn, reg_t) comp" where
  "RS2 e i = read_reg e i (rs2 i)"

definition RS3 :: "bool \<Rightarrow> insn_t \<Rightarrow> (hart, exn, reg_t) comp" where
  "RS3 e i = read_reg e i (rs3 i)"

definition RD :: "bool \<Rightarrow> insn_t \<Rightarrow> (hart, exn, reg_t) comp" where
  "RD e i = read_reg e i (rd i)"

definition WRITE_RD :: "bool \<Rightarrow> insn_t \<Rightarrow> reg_t \<Rightarrow> (hart, exn, unit) comp" where
  "WRITE_RD e i v = write_reg e i (rd i) v"

definition SHAMT :: "insn_t \<Rightarrow> nat" where
  "SHAMT i = unat (i_imm i AND 0x3F)"

definition BRANCH_TARGET :: "insn_t \<Rightarrow> reg_t \<Rightarrow> reg_t" where
  "BRANCH_TARGET i pc = pc + sb_imm i"

definition JUMP_TARGET :: "insn_t \<Rightarrow> reg_t \<Rightarrow> reg_t" where
  "JUMP_TARGET i pc = pc + uj_imm i"

definition set_pc :: "nat \<Rightarrow> reg_t \<Rightarrow> (hart, exn, reg_t) comp" where
  "set_pc x v = bindE (check_pc_alignment v) (\<lambda>_. return (sext_xlen x v))"

definition set_pc_and_serialize :: "reg_t \<Rightarrow> (hart, exn, reg_t) comp" where
  "set_pc_and_serialize v h = (Inr PC_SERIALIZE_AFTER, h\<lparr>h_pc := v AND pc_alignment_mask h\<rparr>)"

text \<open>The \<open>npc\<close> every template starts from: the address after a 4-byte or a 2-byte opcode.\<close>

definition next_pc :: "nat \<Rightarrow> nat \<Rightarrow> reg_t \<Rightarrow> reg_t" where
  "next_pc x len pc = sext_xlen x (pc + of_nat len)"

definition wfi_macro :: "nat \<Rightarrow> reg_t \<Rightarrow> (hart, exn, reg_t) comp" where
  "wfi_macro x pc = bindE (set_pc_and_serialize (next_pc x 4 pc)) (\<lambda>_. throw Wait_for_interrupt)"

text \<open>\<open>validate_csr\<close> returns from the instruction when the pipeline is not yet serialized.\<close>

definition serialized_insn :: "(hart, exn, reg_t) comp \<Rightarrow> (hart, exn, reg_t) comp" where
  "serialized_insn body h =
     (if \<not> serialized h then (Inr PC_SERIALIZE_BEFORE, h) else body (h\<lparr>serialized := False\<rparr>))"

subsection \<open>CSR instructions\<close>

definition read_csr :: "nat \<Rightarrow> insn_t \<Rightarrow> bool \<Rightarrow> (hart, exn, reg_t) comp" where
  "read_csr a i w h = (case get_csr a i w False h of Inl t \<Rightarrow> (Inl (Trap t), h) | Inr v \<Rightarrow> (Inr v, h))"

definition write_csr :: "nat \<Rightarrow> reg_t \<Rightarrow> (hart, exn, unit) comp" where
  "write_csr a v = of_opt (put_csr a v)"

text \<open>The tail the six instructions share: write \<open>rd\<close>, serialize.\<close>

definition csr_finish :: "nat \<Rightarrow> bool \<Rightarrow> insn_t \<Rightarrow> reg_t \<Rightarrow> reg_t \<Rightarrow> (hart, exn, reg_t) comp" where
  "csr_finish x e i pc old = bindE (WRITE_RD e i (sext_xlen x old)) (\<lambda>_. set_pc_and_serialize (next_pc x 4 pc))"

definition insn_csrrw :: insn_fun where
  "insn_csrrw x e i pc = serialized_insn (
     bindE (read_csr (csr_field i) i True) (\<lambda>old.
     bindE (RS1 e i) (\<lambda>a.
     bindE (write_csr (csr_field i) a) (\<lambda>_.
     csr_finish x e i pc old))))"

definition insn_csrrs :: insn_fun where
  "insn_csrrs x e i pc = serialized_insn (
     let w = (rs1 i \<noteq> 0) in
     bindE (read_csr (csr_field i) i w) (\<lambda>old.
     bindE (whenE w (bindE (RS1 e i) (\<lambda>a. write_csr (csr_field i) (old OR a)))) (\<lambda>_.
     csr_finish x e i pc old)))"

definition insn_csrrc :: insn_fun where
  "insn_csrrc x e i pc = serialized_insn (
     let w = (rs1 i \<noteq> 0) in
     bindE (read_csr (csr_field i) i w) (\<lambda>old.
     bindE (whenE w (bindE (RS1 e i) (\<lambda>a. write_csr (csr_field i) (old AND NOT a)))) (\<lambda>_.
     csr_finish x e i pc old)))"

definition insn_csrrwi :: insn_fun where
  "insn_csrrwi x e i pc = serialized_insn (
     bindE (read_csr (csr_field i) i True) (\<lambda>old.
     bindE (write_csr (csr_field i) (of_nat (rs1 i))) (\<lambda>_.
     csr_finish x e i pc old)))"

definition insn_csrrsi :: insn_fun where
  "insn_csrrsi x e i pc = serialized_insn (
     let w = (rs1 i \<noteq> 0) in
     bindE (read_csr (csr_field i) i w) (\<lambda>old.
     bindE (whenE w (write_csr (csr_field i) (old OR of_nat (rs1 i)))) (\<lambda>_.
     csr_finish x e i pc old)))"

definition insn_csrrci :: insn_fun where
  "insn_csrrci x e i pc = serialized_insn (
     let w = (rs1 i \<noteq> 0) in
     bindE (read_csr (csr_field i) i w) (\<lambda>old.
     bindE (whenE w (write_csr (csr_field i) (old AND NOT (of_nat (rs1 i))))) (\<lambda>_.
     csr_finish x e i pc old)))"

subsection \<open>Environment calls\<close>

definition insn_ecall :: insn_fun where
  "insn_ecall x e i pc h =
     (if h_prv h = PRV_U then throw (Trap trap_user_ecall) h
      else if h_prv h = PRV_S then
        throw (Trap (if h_v h then trap_virtual_supervisor_ecall else trap_supervisor_ecall)) h
      else if h_prv h = PRV_M then throw (Trap trap_machine_ecall) h
      else throw Abort h)"

definition insn_ebreak :: insn_fun where
  "insn_ebreak x e i pc h =
     (if \<not> debug_mode h \<and> (h_prv h = PRV_M \<and> ebreakm (dcsr h) \<or> h_prv h = PRV_S \<and> ebreaks (dcsr h) \<or>
         h_prv h = PRV_U \<and> ebreaku (dcsr h))
      then throw Trap_debug_mode h
      else throw (Trap (trap_breakpoint (h_v h) pc)) h)"

definition insn_wfi :: insn_fun where
  "insn_wfi x e i pc = bindE (\<lambda>h.
       if h_v h \<and> h_prv h = PRV_U then require_novirt i h
       else if get_field (mstatus_read h) MSTATUS_TW \<noteq> 0 then require_privilege PRV_M i h
       else if h_v h then (if get_field (csrv h CSR_HSTATUS) HSTATUS_VTW \<noteq> 0 then require_novirt i h else (Inr (), h))
       else if extension_enabled ISA_S h then require_privilege PRV_S i h
       else (Inr (), h))
     (\<lambda>_. wfi_macro x pc)"

subsection \<open>Returns\<close>

definition mret_mstatus :: "hart \<Rightarrow> reg_t" where
  "mret_mstatus h = (
     let s = mstatus_read h;
         s = (if get_field s MSTATUS_MPP \<noteq> PRV_M then set_field s MSTATUS_MPRV 0 else s);
         s = set_field s MSTATUS_MIE (get_field s MSTATUS_MPIE);
         s = set_field s MSTATUS_MPIE 1;
         s = set_field s MSTATUS_MPP (if extension_enabled ISA_U h then PRV_U else PRV_M);
         s = set_field s MSTATUS_MPV 0
     in s)"

definition insn_mret :: insn_fun where
  "insn_mret x e i pc =
     bindE (require_privilege PRV_M i) (\<lambda>_.
     bindE (\<lambda>h. set_pc_and_serialize (epc_read CSR_MEPC h) h) (\<lambda>npc h.
       let prev_prv = get_field (mstatus_read h) MSTATUS_MPP;
           prev_virt = get_field (mstatus_read h) MSTATUS_MPV
       in bindE (write_csr CSR_MSTATUS (mret_mstatus h)) (\<lambda>_.
          bindE (set_privilege prev_prv) (\<lambda>_.
          bindE (modify (set_virt (prev_virt \<noteq> 0))) (\<lambda>_.
          return npc))) h))"

definition sret_sstatus :: "hart \<Rightarrow> reg_t" where
  "sret_sstatus h = (
     let s = sstatus_read h;
         s = set_field s MSTATUS_SIE (get_field s MSTATUS_SPIE);
         s = set_field s MSTATUS_SPIE 1;
         s = set_field s MSTATUS_SPP PRV_U
     in s)"

definition sret_permitted :: "reg_t \<Rightarrow> insn_t \<Rightarrow> (hart, exn, unit) comp" where
  "sret_permitted prev_hstatus i h =
     (if h_v h then
        (if h_prv h = PRV_U \<or> get_field prev_hstatus HSTATUS_VTSR \<noteq> 0 then require_novirt i h else (Inr (), h))
      else require_privilege (if get_field (mstatus_read h) MSTATUS_TSR \<noteq> 0 then PRV_M else PRV_S) i h)"

text \<open>The part of \<open>sret\<close> that runs outside virtualization: \<open>V\<close>, \<open>hstatus.SPV\<close> and \<open>mstatus.MPRV\<close>.\<close>

definition sret_hypervisor :: "reg_t \<Rightarrow> (hart, exn, unit) comp" where
  "sret_hypervisor prev_hstatus h =
     (if h_v h then (Inr (), h)
      else bindE (\<lambda>h. if extension_enabled ISA_H h then
               bindE (modify (set_virt (get_field prev_hstatus HSTATUS_SPV \<noteq> 0))) (\<lambda>_.
               write_obj (Masked_csr CSR_HSTATUS (hstatus_mask h)) (set_field prev_hstatus HSTATUS_SPV 0)) h
             else (Inr (), h))
           (\<lambda>_ h. write_obj Mstatus_csr (set_field (mstatus_read h) MSTATUS_MPRV 0) h) h)"

definition insn_sret :: insn_fun where
  "insn_sret x e i pc =
     bindE (require_extension ISA_S i) (\<lambda>_ h.
       let prev_hstatus = csrv h CSR_HSTATUS in
       bindE (sret_permitted prev_hstatus i) (\<lambda>_.
       bindE (\<lambda>h. set_pc_and_serialize (csr_read sepc_csr h) h) (\<lambda>npc h.
         let prev_prv = get_field (sstatus_read h) MSTATUS_SPP
         in bindE (write_obj Sstatus_csr (sret_sstatus h)) (\<lambda>_.
            bindE (set_privilege prev_prv) (\<lambda>_.
            bindE (sret_hypervisor prev_hstatus) (\<lambda>_.
            return npc))) h)) h)"

definition insn_mnret :: insn_fun where
  "insn_mnret x e i pc =
     bindE (require_extension EXT_SMRNMI i) (\<lambda>_.
     bindE (require_privilege PRV_M i) (\<lambda>_.
     bindE (\<lambda>h. set_pc_and_serialize (epc_read CSR_MNEPC h) h) (\<lambda>npc h.
       let s = csrv h CSR_MNSTATUS;
           prev_prv = get_field s MNSTATUS_MNPP;
           prev_virt = get_field s MNSTATUS_MNPV
       in bindE (if prev_prv \<noteq> PRV_M then write_obj Mstatus_csr (set_field (mstatus_read h) MSTATUS_MPRV 0)
                 else return ()) (\<lambda>_.
          bindE (write_obj Mnstatus_csr (set_field s MNSTATUS_NMIE 1)) (\<lambda>_.
          bindE (set_privilege prev_prv) (\<lambda>_.
          bindE (modify (set_virt (prev_virt \<noteq> 0))) (\<lambda>_.
          return npc)))) h)))"

definition insn_dret :: insn_fun where
  "insn_dret x e i pc =
     bindE (\<lambda>h. require (debug_mode h) i h) (\<lambda>_.
     bindE (\<lambda>h. set_pc_and_serialize (csr_read Dpc_csr h) h) (\<lambda>npc.
     bindE (\<lambda>h. set_privilege (ucast (dcsr_prv (dcsr h))) h) (\<lambda>_.
     bindE (\<lambda>h. if h_prv h < PRV_M then write_obj Mstatus_csr (mstatus_read h AND NOT MSTATUS_MPRV) h
                else (Inr (), h)) (\<lambda>_.
     bindE (modify (\<lambda>h. h\<lparr>debug_mode := False,
        single_step := (if dcsr_step (dcsr h) then STEP_STEPPING else single_step h)\<rparr>)) (\<lambda>_.
     return npc)))))"

subsection \<open>Fences\<close>

definition insn_fence_i :: insn_fun where
  "insn_fence_i x e i pc = bindE (modify (\<lambda>h. h\<lparr>mmu := flush_icache (mmu h)\<rparr>)) (\<lambda>_. return (next_pc x 4 pc))"

definition require_tvm :: "insn_t \<Rightarrow> (hart, exn, unit) comp" where
  "require_tvm i h = require_privilege (if get_field (mstatus_read h) MSTATUS_TVM \<noteq> 0 then PRV_M else PRV_S) i h"

definition insn_sfence_vma :: insn_fun where
  "insn_sfence_vma x e i pc =
     bindE (require_extension ISA_S i) (\<lambda>_.
     bindE (require_impl IMPL_MMU i) (\<lambda>_.
     bindE (\<lambda>h. if h_v h then
          (if h_prv h = PRV_U \<or> get_field (csrv h CSR_HSTATUS) HSTATUS_VTVM \<noteq> 0 then require_novirt i h else (Inr (), h))
        else require_tvm i h) (\<lambda>_.
     bindE (modify (\<lambda>h. let h = hart_flush_tlb h in h\<lparr>mmu := flush_icache (mmu h)\<rparr>)) (\<lambda>_.
     return (next_pc x 4 pc)))))"

definition insn_sfence_inval_ir :: insn_fun where
  "insn_sfence_inval_ir x e i pc =
     bindE (require_extension ISA_S i) (\<lambda>_.
     bindE (require_extension EXT_SVINVAL i) (\<lambda>_.
     bindE (require_impl IMPL_MMU i) (\<lambda>_.
     bindE (require_hs_qualified (\<lambda>h. h_prv h \<ge> PRV_S) i) (\<lambda>_.
     return (next_pc x 4 pc)))))"

definition insn_sfence_w_inval :: insn_fun where
  "insn_sfence_w_inval = insn_sfence_inval_ir"

definition insn_sinval_vma :: insn_fun where
  "insn_sinval_vma x e i pc = bindE (require_extension EXT_SVINVAL i) (\<lambda>_. insn_sfence_vma x e i pc)"

definition insn_hfence_gvma :: insn_fun where
  "insn_hfence_gvma x e i pc =
     bindE (require_extension ISA_H i) (\<lambda>_.
     bindE (require_novirt i) (\<lambda>_.
     bindE (require_tvm i) (\<lambda>_.
     bindE (modify hart_flush_tlb) (\<lambda>_.
     return (next_pc x 4 pc)))))"

definition insn_hinval_gvma :: insn_fun where
  "insn_hinval_gvma x e i pc = bindE (require_extension EXT_SVINVAL i) (\<lambda>_. insn_hfence_gvma x e i pc)"

definition insn_hfence_vvma :: insn_fun where
  "insn_hfence_vvma x e i pc =
     bindE (require_extension ISA_H i) (\<lambda>_.
     bindE (require_novirt i) (\<lambda>_.
     bindE (require_privilege PRV_S i) (\<lambda>_.
     bindE (modify hart_flush_tlb) (\<lambda>_.
     return (next_pc x 4 pc)))))"

definition insn_hinval_vvma :: insn_fun where
  "insn_hinval_vvma x e i pc = bindE (require_extension EXT_SVINVAL i) (\<lambda>_. insn_hfence_vvma x e i pc)"

end
