(* ===== verification/Trap_Return.thy ===== *)
theory Trap_Return
  imports Insn
begin

text \<open>
  \<open>mret\<close> and \<open>sret\<close> against the trap entries of \<open>Processor\<close>: what each return leaves, what a trap
  entry leaves alone, the two round trips, and the lower-half write of \<open>mret\<close> on RV32.
\<close>

subsection \<open>Returning from a machine handler\<close>

lemma mprv_mask: "(MSTATUS_MPRV :: reg_t) = field_mask 17 1"
  by (simp add: field_mask_def mask_eq_exp_minus_1)

lemma get_field_shl: "k < 64 \<Longrightarrow> get_field (r :: reg_t) (field_mask k 1) = of_bool (bit r k)"
proof -
  assume k: "k < 64"
  have "get_field r (field_mask k 1) = take_bit 1 (shr r k)" by (rule get_field_contiguous) (use k in simp_all)
  also have "\<dots> = of_bool (bit r k)"
    by (cases "bit r k") (simp_all add: bit_iff_odd_drop_bit mod_2_eq_odd flip: take_bit_eq_mod)
  finally show ?thesis .
qed

lemma mret_mstatus_fields:
  fixes h
  defines "s \<equiv> mstatus_read h"
  shows "get_field (mret_mstatus h) MSTATUS_MPP = (if extension_enabled ISA_U h then PRV_U else PRV_M)"
    "get_field (mret_mstatus h) MSTATUS_MIE = get_field s MSTATUS_MPIE"
    "get_field (mret_mstatus h) MSTATUS_MPIE = 1" "get_field (mret_mstatus h) MSTATUS_MPV = 0"
    "get_field (mret_mstatus h) MSTATUS_MPRV = (if get_field s MSTATUS_MPP = PRV_M then get_field s MSTATUS_MPRV else 0)"
  using get_field_flag [of 7 "mstatus_read h"]
  unfolding mret_mstatus_def s_def Let_def status_masks mprv_mask One_nat_def
  by (simp_all add: field_algebra)

lemma mprv_writable: "extension_enabled ISA_U h \<Longrightarrow> MSTATUS_MPRV AND mstatus_mask h = MSTATUS_MPRV"
  by (rule bit_word_eqI; simp only: mstatus_mask_def bit_or_iff bit_and_iff if_True; blast)

lemma mret_result:
  assumes ok: "hart_ok h" and m: "h_prv h = PRV_M" and u: "extension_enabled ISA_U h"
    and c: "csrmap h CSR_MSTATUS = Some Mstatus_csr" "h_xlen h = 64"
  obtains h' where "insn_mret x e i pc h = (Inr PC_SERIALIZE_AFTER, h')" "hart_ok h'"
    "h_prv h' = get_field (mstatus_read h) MSTATUS_MPP"
    "h_v h' \<longleftrightarrow> get_field (mstatus_read h) MSTATUS_MPV \<noteq> 0 \<and> h_prv h' \<noteq> PRV_M"
    "h_pc h' = csrv h CSR_MEPC AND pc_alignment_mask h"
    "get_field (mstatus_read h') MSTATUS_MIE = get_field (mstatus_read h) MSTATUS_MPIE"
    "get_field (mstatus_read h') MSTATUS_MPP = PRV_U"
    "get_field (mstatus_read h') MSTATUS_MPRV = (if h_prv h' = PRV_M then get_field (mstatus_read h) MSTATUS_MPRV else 0)"
    "\<And>a. a \<noteq> CSR_MSTATUS \<Longrightarrow> csrv h' a = csrv h a"
proof -
  let ?p = "get_field (mstatus_read h) MSTATUS_MPP"
  have co: "csr_ok h" and v: "\<not> h_v h" using ok m by (auto simp: hart_ok_def)
  have p: "mode_ok h ?p" by (rule mpp_mode [OF co u])
  define h1 where "h1 = h\<lparr>h_pc := csrv h CSR_MEPC AND pc_alignment_mask h\<rparr>"
  have m1: "mret_mstatus h1 = mret_mstatus h" "mstatus_read h1 = mstatus_read h" "csr_ok h1"
    "\<And>q. legalize_privilege q h1 = legalize_privilege q h" "\<And>y. extension_enabled y h1 = extension_enabled y h"
    "\<And>a. csrv h1 a = csrv h a" "h_prv h1 = PRV_M" "h_v h1 = False" "sstatus_write_mask h1 = sstatus_write_mask h"
    "h_pc h1 = csrv h CSR_MEPC AND pc_alignment_mask h" "h_xlen h1 = 64" "csrmap h1 CSR_MSTATUS = Some Mstatus_csr"
    using co m v c by (simp_all add: mret_mstatus_def h1_def mstatus_read_def)
  have q: "mode_ok h1 (get_field (mret_mstatus h) MSTATUS_MPP)"
    using u by (simp add: mret_mstatus_fields m1 mode_ok_def legalize_privilege_def)
  obtain h2 where 2: "mstatus_unlogged_write (mret_mstatus h) h1 = Some (True, h2)" "only_key CSR_MSTATUS h1 h2" "csr_ok h2"
    and f: "\<And>y. y AND mstatus_mask h1 = y \<Longrightarrow> SSTATUS64_SD AND y = 0 \<Longrightarrow> SSTATUS32_SD AND y = 0 \<Longrightarrow>
       mstatus_read h2 AND y = mret_mstatus h AND y"
    by (rule mstatus_write_exact [OF m1(3) q]) blast
  note fr = only_key_frame [OF 2(2)] only_key_ext [OF 2(2)]
  define h3 where "h3 = h2\<lparr>mmu := flush_tlb (mmu h2), h_prv := ?p\<rparr>"
  define h4 where "h4 = set_virt (get_field (mstatus_read h) MSTATUS_MPV \<noteq> 0) h3"
  have p2: "mode_ok h2 ?p" using p by (simp add: mode_ok_def fr m1)
  have steps: "require_privilege PRV_M i h = (Inr (), h)"
    "set_pc_and_serialize (epc_read CSR_MEPC h) h = (Inr PC_SERIALIZE_AFTER, h1)"
    "write_csr CSR_MSTATUS (mret_mstatus h) h1 = (Inr (), h2)"
    "set_privilege ?p h2 = (Inr (), h3)"
    using m 2(1) set_privilege_to [OF p2]
    by (simp_all add: require_privilege_def require_def return_def set_pc_and_serialize_def epc_read_def h1_def [symmetric]
        write_csr_def of_opt_def put_csr_def csr_write_def zext_xlen_def m1 h3_def and.assoc)
  have run: "insn_mret x e i pc h = (Inr PC_SERIALIZE_AFTER, h4)"
    by (simp only: insn_mret_def bindE_def steps prod.case sum.case Let_def m1 modify_def return_def h4_def)
  have virt: "h4 = h3\<lparr>h_v := get_field (mstatus_read h) MSTATUS_MPV \<noteq> 0 \<and> ?p \<noteq> PRV_M\<rparr>"
    using fr m1 by (auto simp: h4_def h3_def set_virt_def intro!: hart.equality)
  have r4: "h_prv h4 = ?p" "h_v h4 \<longleftrightarrow> get_field (mstatus_read h) MSTATUS_MPV \<noteq> 0 \<and> ?p \<noteq> PRV_M"
    "h_pc h4 = csrv h CSR_MEPC AND pc_alignment_mask h" "mstatus_read h4 = mstatus_read h2"
    "\<And>a. a \<noteq> CSR_MSTATUS \<Longrightarrow> csrv h4 a = csrv h a" "csr_ok h4" "sstatus_write_mask h4 = sstatus_write_mask h"
    "\<And>q. legalize_privilege q h4 = legalize_privilege q h" "\<And>y. extension_enabled y h4 = extension_enabled y h"
    using 2(3) by (simp_all add: virt h3_def fr m1 mstatus_read_def)
  note g = f [THEN get_field_cong]
  have fields: "get_field (mstatus_read h2) MSTATUS_MIE = get_field (mstatus_read h) MSTATUS_MPIE"
    "get_field (mstatus_read h2) MSTATUS_MPP = PRV_U"
    "get_field (mstatus_read h2) MSTATUS_MPRV = (if ?p = PRV_M then get_field (mstatus_read h) MSTATUS_MPRV else 0)"
    using g [of MSTATUS_MIE] g [of MSTATUS_MPP] g [of MSTATUS_MPRV] u
    by (simp_all add: mstatus_mask_fields mprv_writable mret_mstatus_fields m1)
  show thesis
  proof (rule that [OF run])
    show "hart_ok h4" by (rule hart_ok_cong [OF ok]) (use p in \<open>simp_all add: r4\<close>)
  qed (simp_all add: r4 fields)
qed

subsection \<open>What a handler entry leaves alone\<close>

definition same_config :: "hart \<Rightarrow> hart \<Rightarrow> bool" where
  "same_config h h' \<longleftrightarrow> cfg h' = cfg h \<and> h_xlen h' = h_xlen h \<and> csrmap h' = csrmap h \<and>
     extension_enable_table h' = extension_enable_table h \<and> csrv h' CSR_MISA = csrv h CSR_MISA \<and>
     sstatus_write_mask h' = sstatus_write_mask h \<and> has_page h' = has_page h \<and> debug_mode h' = debug_mode h \<and>
     XPR h' = XPR h \<and> pmp h' = pmp h \<and> tm h' = tm h"

locale step_frame =
  fixes keep :: "'s \<Rightarrow> 's \<Rightarrow> bool"
  assumes keep_refl: "keep s s"
    and keep_trans: "keep s t \<Longrightarrow> keep t u \<Longrightarrow> keep s u"
begin

definition keeps :: "('s, 'e, 'a) comp \<Rightarrow> bool" where
  "keeps m \<longleftrightarrow> (\<forall>s. keep s (snd (m s)))"

lemma bind: "keeps m \<Longrightarrow> (\<And>x. keeps (f x)) \<Longrightarrow> keeps (bindE m f)"
  unfolding keeps_def bindE_def by (auto split: prod.splits sum.splits) (metis keep_trans snd_conv)+

lemma pure: "keeps (return x)" "keeps (throw e)"
  by (simp_all add: keeps_def return_def throw_def keep_refl)

lemma pure_pair: "keeps (\<lambda>s. (Inr x, s))" "keeps (\<lambda>s. (Inl e, s))"
  by (simp_all add: keeps_def keep_refl)

lemma modified: "(\<And>s. keep s (f s)) \<Longrightarrow> keeps (modify f)"
  by (simp add: keeps_def modify_def)

lemma dependent: "(\<And>s. keeps (m s)) \<Longrightarrow> keeps (\<lambda>s. m s s)"
  by (simp add: keeps_def)

lemma conditional: "keeps m \<Longrightarrow> keeps n \<Longrightarrow> keeps (\<lambda>s. if b s then m s else n s)"
  by (simp add: keeps_def)

lemma result: "keeps m \<Longrightarrow> m s = (r, s') \<Longrightarrow> keep s s'"
  unfolding keeps_def by (metis snd_conv)

end

interpretation config: step_frame same_config
  by unfold_locales (simp_all add: same_config_def)

lemma config_write: "a \<noteq> CSR_MISA \<Longrightarrow> same_config h (write_csrv a v h)"
  by (simp add: same_config_def write_csrv_def)

lemma config_flush: "same_config h (hart_flush_tlb h)" "same_config h (maybe_flush_tlb n p h)"
  by (simp_all add: same_config_def maybe_flush_tlb_def hart_flush_tlb_def)

lemma config_mstatus: "mstatus_unlogged_write v h = Some (b, h') \<Longrightarrow> same_config h h'"
  by (auto simp: mstatus_unlogged_write_def Let_def split: option.splits
      intro: config.keep_trans [OF config_flush(2) config_write])

lemma config_vsstatus: "same_config h (snd (vsstatus_unlogged_write v h))"
  by (auto simp: vsstatus_unlogged_write_def Let_def config_write
      intro: config.keep_trans [OF config_flush(2) config_write])

lemma config_proxy: "sstatus_proxy_unlogged_write v h = Some (b, h') \<Longrightarrow> same_config h h'"
  by (auto simp: sstatus_proxy_unlogged_write_def Let_def dest: config_mstatus split: if_splits)

lemma config_sstatus: "sstatus_unlogged_write v h = Some (b, h') \<Longrightarrow> same_config h h'"
  by (auto simp: sstatus_unlogged_write_def dest: config_proxy intro: config_vsstatus split: if_splits)

lemma config_of_opt: "(\<And>h h'. f h = Some h' \<Longrightarrow> same_config h h') \<Longrightarrow> config.keeps (of_opt f)"
  unfolding config.keeps_def of_opt_def by (auto simp: config.keep_refl split: option.splits)

inductive trap_object :: "csr \<Rightarrow> bool" where
  "a \<noteq> CSR_MISA \<Longrightarrow> trap_object (Basic_csr a)" | "a \<noteq> CSR_MISA \<Longrightarrow> trap_object (Hypervisor_csr a)"
| "a \<noteq> CSR_MISA \<Longrightarrow> trap_object (Cause_csr a)" | "a \<noteq> CSR_MISA \<Longrightarrow> trap_object (Epc_csr a)"
| "a \<noteq> CSR_MISA \<Longrightarrow> trap_object (Masked_csr a m)" | "trap_object Mstatus_csr" | "trap_object Sstatus_csr"
| "trap_object (Rv32_high_csr CSR_MSTATUSH Mstatus_csr)"
| "trap_object c \<Longrightarrow> trap_object d \<Longrightarrow> trap_object (Virtualized_csr c d)"

lemma config_unlogged: "trap_object c \<Longrightarrow> csr_unlogged_write c v h = Some (b, h') \<Longrightarrow> same_config h h'"
proof (induction c arbitrary: v b rule: trap_object.induct)
  case (9 c d)
  then show ?case by (auto simp: silent_def split: if_splits)
qed (auto simp: config_write masked_unlogged_write_def masked_write_def silent_def dest: config_mstatus config_sstatus)

lemma config_object: "trap_object c \<Longrightarrow> config.keeps (write_obj c v)"
  unfolding write_obj_def
  by (rule config_of_opt) (auto simp: csr_write_def dest: config_unlogged)

lemma config_set_privilege: "config.keeps (set_privilege p)"
  by (auto simp: config.keeps_def set_privilege_def Let_def same_config_def hart_flush_tlb_def split: option.splits)

lemma config_set_virt: "same_config h (set_virt b h)"
  by (simp add: same_config_def set_virt_def)

lemma config_pc: "same_config h (h\<lparr>h_pc := p\<rparr>)"
  by (simp add: same_config_def)

lemmas config_intros = config.bind config.conditional config_object trap_object.intros config_set_privilege
  config.pure config.pure_pair config.modified config_set_virt config_pc

lemma config_push_sstatus: "config.keeps push_sstatus"
  unfolding push_sstatus_def Let_def
  by (rule config.dependent, intro config_intros)

lemma config_push_mstatus: "config.keeps (push_mstatus cv g)"
  unfolding push_mstatus_def Let_def
  by (rule config.dependent, intro config_intros)

lemma config_hstatus: "config.keeps (\<lambda>h. if extension_enabled ISA_H h then write_obj (Masked_csr CSR_HSTATUS (hstatus_mask h)) (f h) h
    else (Inr (), h))"
  by (rule config.conditional, rule config.dependent, intro config_intros) (simp_all add: config_intros)

lemma config_take_trap: "config.keeps (take_trap t epc)"
proof -
  have "config.keeps (trap_to_vs t i b epc)" for i b
    unfolding trap_to_vs_def by (intro config_intros config_push_sstatus) simp_all
  moreover have "config.keeps (trap_to_hs t cv i b epc)" for cv i b
    unfolding trap_to_hs_def Let_def by (intro config_intros config_push_sstatus config_hstatus) simp_all
  moreover have "config.keeps (trap_to_m t cv i b epc)" for cv i b
    unfolding trap_to_m_def by (intro config_intros config_push_mstatus) simp_all
  moreover have "same_config h (h\<lparr>h_pc := p\<rparr>)" for h p by (rule config_pc)
  ultimately show ?thesis
    unfolding take_trap_def Let_def config.keeps_def by (auto split: trap_target.splits)
qed

subsection \<open>Returning from a supervisor handler\<close>

lemmas get_field_bit = get_field_shl [unfolded One_nat_def]

lemma proxy_field: "x AND sstatus_write_mask h = x \<Longrightarrow> sstatus_proxy_read h AND x = mstatus_read h AND x"
proof -
  assume "x AND sstatus_write_mask h = x"
  then have "x AND sstatus_read_mask h = x"
    unfolding sstatus_read_mask_def by (auto simp: bit_eq_iff bit_and_iff bit_or_iff)
  then have "sstatus_read_mask h AND x = x" by (simp only: and.commute)
  then show ?thesis by (simp add: sstatus_proxy_read_def and.assoc)
qed

lemma supervisor_flags:
  assumes "(SSTATUS_SIE OR SSTATUS_SPIE OR SSTATUS_SPP) AND m = SSTATUS_SIE OR SSTATUS_SPIE OR SSTATUS_SPP"
  shows "SSTATUS_SIE AND m = (SSTATUS_SIE :: reg_t)" "SSTATUS_SPIE AND m = SSTATUS_SPIE" "SSTATUS_SPP AND m = SSTATUS_SPP"
  by (rule mask_sub_trans [OF _ assms], simp)+

lemma sret_sstatus_fields:
  "get_field (sret_sstatus h) MSTATUS_SPP = PRV_U"
  "get_field (sret_sstatus h) MSTATUS_SIE = get_field (sstatus_read h) MSTATUS_SPIE"
  "get_field (sret_sstatus h) MSTATUS_SPIE = 1"
  using get_field_flag [of 5 "sstatus_read h"]
  unfolding sret_sstatus_def Let_def status_masks One_nat_def
  by (simp_all add: field_algebra)

lemma spp_mode: "extension_enabled ISA_U h \<Longrightarrow> extension_enabled ISA_S h \<Longrightarrow> mode_ok h (get_field s MSTATUS_SPP)"
  unfolding status_masks get_field_bit [of 8, simplified]
  by (cases "bit s 8") (simp_all add: get_field_bit mode_ok_def legalize_privilege_def)

lemma clear_mprv:
  assumes ok: "csr_ok h" and u: "extension_enabled ISA_U h"
  obtains h' where "write_obj Mstatus_csr (set_field (mstatus_read h) MSTATUS_MPRV 0) h = (Inr (), h')"
    "only_key CSR_MSTATUS h h'" "csr_ok h'" "get_field (mstatus_read h') MSTATUS_MPRV = 0"
    "\<And>k n. 0 < n \<Longrightarrow> k < 64 \<Longrightarrow> k + n \<le> 17 \<or> 18 \<le> k \<Longrightarrow> field_mask k n AND mstatus_mask h = field_mask k n \<Longrightarrow>
       SSTATUS64_SD AND field_mask k n = (0 :: reg_t) \<Longrightarrow> SSTATUS32_SD AND field_mask k n = (0 :: reg_t) \<Longrightarrow>
       get_field (mstatus_read h') (field_mask k n) = get_field (mstatus_read h) (field_mask k n)"
proof -
  let ?s = "set_field (mstatus_read h) MSTATUS_MPRV 0"
  have "get_field ?s MSTATUS_MPP = get_field (mstatus_read h) MSTATUS_MPP"
    unfolding status_masks mprv_mask by (simp add: field_algebra)
  then have q: "mode_ok h (get_field ?s MSTATUS_MPP)" using mpp_mode [OF ok u] by simp
  obtain h' where 1: "mstatus_unlogged_write ?s h = Some (True, h')" "only_key CSR_MSTATUS h h'" "csr_ok h'"
    and f: "\<And>x. x AND mstatus_mask h = x \<Longrightarrow> SSTATUS64_SD AND x = 0 \<Longrightarrow> SSTATUS32_SD AND x = 0 \<Longrightarrow>
       mstatus_read h' AND x = ?s AND x"
    by (rule mstatus_write_exact [OF ok q]) blast
  note g = f [THEN get_field_cong]
  show thesis
  proof (rule that)
    show "write_obj Mstatus_csr ?s h = (Inr (), h')" using 1(1) by (simp add: write_obj_def of_opt_def csr_write_def)
    have "get_field (mstatus_read h') MSTATUS_MPRV = get_field ?s MSTATUS_MPRV"
      by (rule g [OF mprv_writable [OF u]]) simp_all
    also have "\<dots> = 0" unfolding mprv_mask by (simp add: field_algebra)
    finally show "get_field (mstatus_read h') MSTATUS_MPRV = 0" .
    show "get_field (mstatus_read h') (field_mask k n) = get_field (mstatus_read h) (field_mask k n)"
      if "0 < n" "k < 64" "k + n \<le> 17 \<or> 18 \<le> k" "field_mask k n AND mstatus_mask h = field_mask k n"
       "SSTATUS64_SD AND field_mask k n = (0 :: reg_t)" "SSTATUS32_SD AND field_mask k n = (0 :: reg_t)" for k n
      unfolding g [OF that(4-6)] mprv_mask by (rule get_set_field_other) (use that(1-3) in auto)
  qed (use 1 in simp_all)
qed

lemma sret_result:
  assumes ok: "hart_ok h" and p: "h_prv h = PRV_S" and v: "\<not> h_v h" and s: "extension_enabled ISA_S h"
    and hx: "extension_enabled ISA_H h" and tsr: "get_field (mstatus_read h) MSTATUS_TSR = 0"
  obtains h' where "insn_sret x e i pc h = (Inr PC_SERIALIZE_AFTER, h')" "hart_ok h'"
    "h_prv h' = get_field (sstatus_read h) MSTATUS_SPP"
    "h_v h' \<longleftrightarrow> get_field (csrv h CSR_HSTATUS) HSTATUS_SPV \<noteq> 0"
    "h_pc h' = csrv h CSR_SEPC AND pc_alignment_mask h"
    "get_field (mstatus_read h') MSTATUS_SIE = get_field (sstatus_read h) MSTATUS_SPIE"
    "get_field (mstatus_read h') MSTATUS_SPP = PRV_U"
    "get_field (mstatus_read h') MSTATUS_MPRV = 0"
proof -
  note r = supervisor_ready [OF ok s]
  note fl = supervisor_flags [OF r(4)]
  let ?p = "get_field (sstatus_read h) MSTATUS_SPP" and ?hs = "csrv h CSR_HSTATUS"
  have p2: "?p \<noteq> PRV_M"
    unfolding status_masks by (cases "bit (sstatus_read h) 8") (simp_all add: get_field_bit)
  define h1 where "h1 = h\<lparr>h_pc := csrv h CSR_SEPC AND pc_alignment_mask h\<rparr>"
  have m1: "sret_sstatus h1 = sret_sstatus h" "sstatus_read h1 = sstatus_read h" "csr_ok h1"
    "\<And>q. legalize_privilege q h1 = legalize_privilege q h" "\<And>y. extension_enabled y h1 = extension_enabled y h"
    "\<And>a. csrv h1 a = csrv h a" "h_prv h1 = PRV_S" "h_v h1 = False" "sstatus_write_mask h1 = sstatus_write_mask h"
    "h_pc h1 = csrv h CSR_SEPC AND pc_alignment_mask h"
    using r(1) p v by (simp_all add: sret_sstatus_def h1_def)
  have pre: "extension_enabled ISA_U h1" "sstatus_write_mask h1 AND NOT sstatus_fields = 0"
    using r unfolding m1 by blast+
  obtain h2 where w2: "write_obj Sstatus_csr (sret_sstatus h) h1 = (Inr (), h2)"
    and k2: "only_key (if h_v h1 then CSR_VSSTATUS else CSR_MSTATUS) h1 h2" and c2: "csr_ok h2"
    and f: "\<And>y. y AND sstatus_write_mask h1 = y \<Longrightarrow> SSTATUS64_SD AND y = 0 \<Longrightarrow> SSTATUS32_SD AND y = 0 \<Longrightarrow>
       sstatus_read h2 AND y = sret_sstatus h AND y"
    by (rule sstatus_write_exact [OF m1(3) pre]) blast
  note k2 = k2 [unfolded m1 if_False]
  note fr = only_key_frame [OF k2] only_key_ext [OF k2]
  define h3 where "h3 = h2\<lparr>mmu := flush_tlb (mmu h2), h_prv := ?p\<rparr>"
  define h4 where "h4 = h3\<lparr>h_v := get_field ?hs HSTATUS_SPV \<noteq> 0\<rparr>"
  obtain n where n: "write_obj (Masked_csr CSR_HSTATUS (hstatus_mask h3)) (set_field ?hs HSTATUS_SPV 0) h4 = (Inr (), write_csrv CSR_HSTATUS n h4)"
    by (rule write_hstatus [of h3 "set_field ?hs HSTATUS_SPV 0" h4]) blast
  define h5 where "h5 = write_csrv CSR_HSTATUS n h4"
  have m5: "csr_ok h5" "\<And>q. legalize_privilege q h5 = legalize_privilege q h" "\<And>y. extension_enabled y h5 = extension_enabled y h"
    "h_prv h5 = ?p" "h_v h5 \<longleftrightarrow> get_field ?hs HSTATUS_SPV \<noteq> 0" "sstatus_write_mask h5 = sstatus_write_mask h"
    "mstatus_read h5 = mstatus_read h2" "\<And>a. a \<noteq> CSR_MSTATUS \<Longrightarrow> a \<noteq> CSR_HSTATUS \<Longrightarrow> csrv h5 a = csrv h a"
    "h_pc h5 = csrv h CSR_SEPC AND pc_alignment_mask h"
    using c2 by (simp_all add: h5_def h4_def h3_def fr m1 mstatus_read_def csr_ok_write_free free_keys_trap)
  have u5: "extension_enabled ISA_U h5" using r(2) by (simp add: m5)
  obtain h6 where w6: "write_obj Mstatus_csr (set_field (mstatus_read h5) MSTATUS_MPRV 0) h5 = (Inr (), h6)"
    and k6: "only_key CSR_MSTATUS h5 h6" and c6: "csr_ok h6" and z6: "get_field (mstatus_read h6) MSTATUS_MPRV = 0"
    and g6: "\<And>k n. 0 < n \<Longrightarrow> k < 64 \<Longrightarrow> k + n \<le> 17 \<or> 18 \<le> k \<Longrightarrow> field_mask k n AND mstatus_mask h5 = field_mask k n \<Longrightarrow>
       SSTATUS64_SD AND field_mask k n = (0 :: reg_t) \<Longrightarrow> SSTATUS32_SD AND field_mask k n = (0 :: reg_t) \<Longrightarrow>
       get_field (mstatus_read h6) (field_mask k n) = get_field (mstatus_read h5) (field_mask k n)"
    by (rule clear_mprv [OF m5(1) u5]) blast
  note fr6 = only_key_frame [OF k6] only_key_ext [OF k6]
  have p2m: "mode_ok h2 ?p" using spp_mode [OF r(2) s] by (simp add: mode_ok_def fr m1)
  have tsr1: "(if get_field (mstatus_read h) MSTATUS_TSR \<noteq> 0 then PRV_M else PRV_S) = PRV_S" using tsr by simp
  have steps: "require_extension ISA_S i h = (Inr (), h)" "sret_permitted ?hs i h = (Inr (), h)"
    "set_pc_and_serialize (csr_read sepc_csr h) h = (Inr PC_SERIALIZE_AFTER, h1)"
    "set_privilege ?p h2 = (Inr (), h3)" "(set_virt (get_field ?hs HSTATUS_SPV \<noteq> 0)) h3 = h4"
    "extension_enabled ISA_H h3 = True" "h_v h3 = False"
    using p v s hx set_privilege_to [OF p2m] p2
    by (simp_all add: require_extension_def require_def return_def sret_permitted_def tsr1 require_privilege_def
        set_pc_and_serialize_def epc_read_def h1_def [symmetric] and.assoc h3_def h4_def set_virt_def fr m1 hart.equality)
  have run: "insn_sret x e i pc h = (Inr PC_SERIALIZE_AFTER, h6)"
    by (simp only: insn_sret_def sret_hypervisor_def bindE_def steps prod.case sum.case Let_def m1 modify_def return_def
        w2 if_True if_False n h5_def [symmetric] w6)
  have sm: "sstatus_read h2 AND y = mstatus_read h2 AND y" if "y AND sstatus_write_mask h = y" for y
    using proxy_field [of y h2] that by (simp add: sstatus_read_def sstatus_readvirt_def fr m1)
  have fields: "get_field (mstatus_read h2) MSTATUS_SIE = get_field (sstatus_read h) MSTATUS_SPIE"
    "get_field (mstatus_read h2) MSTATUS_SPP = PRV_U"
    using f [of MSTATUS_SIE, THEN get_field_cong] f [of MSTATUS_SPP, THEN get_field_cong]
      sm [of MSTATUS_SIE, THEN get_field_cong] sm [of MSTATUS_SPP, THEN get_field_cong] fl sret_sstatus_fields [of h]
    by (simp_all add: m1)
  have kept: "get_field (mstatus_read h6) MSTATUS_SIE = get_field (mstatus_read h2) MSTATUS_SIE"
    "get_field (mstatus_read h6) MSTATUS_SPP = get_field (mstatus_read h2) MSTATUS_SPP"
    using g6 [of 1 1] g6 [of 1 8] fl sstatus_mask_sub [of SSTATUS_SIE h5] sstatus_mask_sub [of SSTATUS_SPP h5]
    by (simp_all add: m5 status_masks [symmetric] del: One_nat_def)
  show thesis
  proof (rule that [OF run])
    show "hart_ok h6"
      by (rule hart_ok_cong [OF ok]) (use c6 p2 spp_mode [OF r(2) s] in \<open>simp_all add: fr6 m5\<close>)
  qed (simp_all add: fr6 m5 fields kept z6)
qed

subsection \<open>Round trips\<close>

lemma config_facts:
  assumes "same_config h h'"
  shows "csrmap h' = csrmap h" "h_xlen h' = h_xlen h" "extension_enabled e h' = extension_enabled e h"
    "pc_alignment_mask h' = pc_alignment_mask h" "cfg h' = cfg h" "XPR h' = XPR h"
  using assms by (simp_all add: same_config_def extension_enabled_def misa_extension_enabled_def pc_alignment_mask_def)

lemma trap_config: "take_trap t epc h = (Inr (), h') \<Longrightarrow> same_config h h'"
  by (rule config.result [OF config_take_trap])

text \<open>
  C7. Taking a trap into machine mode and executing \<open>mret\<close> brings an RV64 hart with the hypervisor
  extension back to the instruction, the privilege mode, the virtualization mode and the interrupt
  enable it was interrupted with.
\<close>

theorem machine_trap_round_trip:
  assumes ok: "hart_ok h" "\<not> debug_mode h" and ext: "extension_enabled ISA_U h" "extension_enabled ISA_H h"
    and c: "csrmap h CSR_MSTATUS = Some Mstatus_csr" "h_xlen h = 64"
    and t: "trap_target_of t h = To_M" and epc: "(epc AND NOT 1) AND pc_alignment_mask h = epc"
  shows "\<exists>h1 h2. take_trap t epc h = (Inr (), h1) \<and> insn_mret x e i pc h1 = (Inr PC_SERIALIZE_AFTER, h2) \<and>
     hart_ok h2 \<and> h_prv h2 = h_prv h \<and> h_v h2 = h_v h \<and> h_pc h2 = epc \<and>
     get_field (mstatus_read h2) MSTATUS_MIE = get_field (mstatus_read h) MSTATUS_MIE"
proof -
  obtain h1 where 1: "take_trap t epc h = (Inr (), h1)" "hart_ok h1" "trap_entered t epc h h1"
    using take_trap_result [OF ok] by blast
  have e: "trap_entered_m t epc h h1" using 1(3) t by (simp add: trap_entered_def)
  note f = config_facts [OF trap_config [OF 1(1)]]
  have m: "h_prv h1 = PRV_M" "extension_enabled ISA_U h1" "csrmap h1 CSR_MSTATUS = Some Mstatus_csr" "h_xlen h1 = 64"
    using e ext c by (simp_all add: trap_entered_m_def f)
  obtain h2 where 2: "insn_mret x e i pc h1 = (Inr PC_SERIALIZE_AFTER, h2)" "hart_ok h2"
    "h_prv h2 = get_field (mstatus_read h1) MSTATUS_MPP"
    "h_v h2 \<longleftrightarrow> get_field (mstatus_read h1) MSTATUS_MPV \<noteq> 0 \<and> h_prv h2 \<noteq> PRV_M"
    "h_pc h2 = csrv h1 CSR_MEPC AND pc_alignment_mask h1"
    "get_field (mstatus_read h2) MSTATUS_MIE = get_field (mstatus_read h1) MSTATUS_MPIE"
    by (rule mret_result [OF 1(2) m]) blast
  have "h_v h \<Longrightarrow> h_prv h \<noteq> PRV_M" using ok(1) by (simp add: hart_ok_def)
  then have "h_prv h2 = h_prv h" "h_v h2 = h_v h" "h_pc h2 = epc"
    "get_field (mstatus_read h2) MSTATUS_MIE = get_field (mstatus_read h) MSTATUS_MIE"
    using 2(3-6) e epc ext(2) by (auto simp: trap_entered_m_def f)
  then show ?thesis using 1(1) 2(1,2) by blast
qed

lemma get_field_within: "m AND f = m \<Longrightarrow> a AND f = b AND f \<Longrightarrow> get_field a m = get_field b m" for a b f m :: reg_t
proof (rule get_field_cong)
  assume m: "m AND f = m" and e: "a AND f = b AND f"
  have x: "(y AND f) AND m = y AND m" for y by (simp only: and.assoc and.commute [of f m] m)
  then show "a AND m = b AND m" using x [of a] x [of b] by (simp only: e)
qed

text \<open>
  Taking a trap delegated to the hypervisor-extended supervisor and executing \<open>sret\<close> brings the
  hart back to the instruction, the privilege mode, the virtualization mode and the supervisor
  interrupt enable it was interrupted with, when \<open>mstatus.TSR\<close> does not reserve \<open>sret\<close>.
\<close>

theorem supervisor_trap_round_trip:
  assumes ok: "hart_ok h" "\<not> debug_mode h" and ext: "extension_enabled ISA_H h"
    and t: "trap_target_of t h = To_HS" and epc: "(epc AND NOT 1) AND pc_alignment_mask h = epc"
    and tsr: "get_field (mstatus_read h) MSTATUS_TSR = 0"
  shows "\<exists>h1 h2. take_trap t epc h = (Inr (), h1) \<and> insn_sret x e i pc h1 = (Inr PC_SERIALIZE_AFTER, h2) \<and>
     hart_ok h2 \<and> h_prv h2 = h_prv h \<and> h_v h2 = h_v h \<and> h_pc h2 = epc \<and>
     get_field (mstatus_read h2) MSTATUS_SIE = get_field (sstatus_proxy_read h) MSTATUS_SIE"
proof -
  obtain h1 where trap: "take_trap t epc h = (Inr (), h1)" and 1: "hart_ok h1" "trap_entered_hs t epc h h1"
    using take_trap_result [OF ok, of t epc] t by (auto simp: trap_entered_def)
  note f = config_facts [OF trap_config [OF trap]]
  have s: "h_prv h1 = PRV_S" "\<not> h_v h1" "extension_enabled ISA_S h1" "extension_enabled ISA_H h1"
    using 1(2) ext target_supervisor [OF ok(1), of t] t by (simp_all add: trap_entered_hs_def f)
  have "MSTATUS_TSR AND machine_fields = (MSTATUS_TSR :: reg_t)"
    by (simp add: machine_fields_def sstatus_fields_def)
  from get_field_within [OF this, of "mstatus_read h1" "mstatus_read h"]
  have tsr1: "get_field (mstatus_read h1) MSTATUS_TSR = 0"
    using 1(2) tsr by (simp add: trap_entered_hs_def)
  obtain h2 where 2: "insn_sret x e i pc h1 = (Inr PC_SERIALIZE_AFTER, h2)" "hart_ok h2"
    "h_prv h2 = get_field (sstatus_read h1) MSTATUS_SPP"
    "h_v h2 \<longleftrightarrow> get_field (csrv h1 CSR_HSTATUS) HSTATUS_SPV \<noteq> 0"
    "h_pc h2 = csrv h1 CSR_SEPC AND pc_alignment_mask h1"
    "get_field (mstatus_read h2) MSTATUS_SIE = get_field (sstatus_read h1) MSTATUS_SPIE"
    by (rule sret_result [OF 1(1) s tsr1]) blast
  have "h_prv h2 = h_prv h" "h_v h2 = h_v h" "h_pc h2 = epc"
    "get_field (mstatus_read h2) MSTATUS_SIE = get_field (sstatus_proxy_read h) MSTATUS_SIE"
    using 2(3-6) 1(2) epc ext by (simp_all add: trap_entered_hs_def f)
  then show ?thesis using trap 2(1,2) by blast
qed

subsection \<open>Machine return on RV32\<close>

text \<open>
  On RV32 \<open>mret\<close> writes only the lower half of the status register, so that the previous
  virtualization mode in \<open>mstatush.MPV\<close> survives it instead of being cleared: a second \<open>mret\<close> to a mode
  below M enters virtualization again.
\<close>

theorem mret_rv32_keeps_mpv:
  assumes ok: "hart_ok h" and m: "h_prv h = PRV_M" and ext: "extension_enabled ISA_U h" "extension_enabled ISA_H h"
    and c: "csrmap h CSR_MSTATUS = Some (Rv32_low_csr CSR_MSTATUS Mstatus_csr)" "h_xlen h = 32"
  shows "\<exists>h'. insn_mret x e i pc h = (Inr PC_SERIALIZE_AFTER, h') \<and>
    get_field (mstatus_read h') MSTATUS_MPV = get_field (mstatus_read h) MSTATUS_MPV"
proof -
  let ?p = "get_field (mstatus_read h) MSTATUS_MPP"
  have co: "csr_ok h" using ok by (simp add: hart_ok_def)
  have p: "mode_ok h ?p" by (rule mpp_mode [OF co ext(1)])
  define h1 where "h1 = h\<lparr>h_pc := csrv h CSR_MEPC AND pc_alignment_mask h\<rparr>"
  define v where "v = shl (shr (mstatus_read h) 32) 32 OR (mret_mstatus h AND 0xffffffff)"
  have m1: "mret_mstatus h1 = mret_mstatus h" "mstatus_read h1 = mstatus_read h" "csr_ok h1"
    "\<And>q. legalize_privilege q h1 = legalize_privilege q h" "\<And>y. extension_enabled y h1 = extension_enabled y h"
    "csrmap h1 CSR_MSTATUS = Some (Rv32_low_csr CSR_MSTATUS Mstatus_csr)" "h_xlen h1 = 32"
    using co c by (simp_all add: mret_mstatus_def h1_def mstatus_read_def)
  have w: "(0xffffffff :: reg_t) = mask 32" by (simp add: mask_eq_exp_minus_1)
  have b: "bit v n \<longleftrightarrow> (if n < 32 then bit (mret_mstatus h) n else bit (mstatus_read h) n)" if "n < 64" for n
    unfolding v_def w using that by (auto simp: bit_simps)
  have "v AND MSTATUS_MPP = mret_mstatus h AND MSTATUS_MPP"
    by (rule bit_word_eqI) (auto simp: status_masks field_mask_def bit_simps b)
  then have "get_field v MSTATUS_MPP = get_field (mret_mstatus h) MSTATUS_MPP" by (rule get_field_cong)
  then have q: "mode_ok h1 (get_field v MSTATUS_MPP)"
    using ext by (simp add: mret_mstatus_fields m1 mode_ok_def legalize_privilege_def)
  obtain h2 where 2: "mstatus_unlogged_write v h1 = Some (True, h2)" "only_key CSR_MSTATUS h1 h2" "csr_ok h2"
    and f: "\<And>y. y AND mstatus_mask h1 = y \<Longrightarrow> SSTATUS64_SD AND y = 0 \<Longrightarrow> SSTATUS32_SD AND y = 0 \<Longrightarrow>
       mstatus_read h2 AND y = v AND y"
    by (rule mstatus_write_exact [OF m1(3) q]) blast
  note fr = only_key_frame [OF 2(2)] only_key_ext [OF 2(2)]
  have p2: "mode_ok h2 ?p" using p by (simp add: mode_ok_def fr m1)
  define h3 where "h3 = h2\<lparr>mmu := flush_tlb (mmu h2), h_prv := ?p\<rparr>"
  have steps: "require_privilege PRV_M i h = (Inr (), h)"
    "set_pc_and_serialize (epc_read CSR_MEPC h) h = (Inr PC_SERIALIZE_AFTER, h1)"
    "write_csr CSR_MSTATUS (mret_mstatus h) h1 = (Inr (), h2)"
    "set_privilege ?p h2 = (Inr (), h3)"
    using m 2(1) set_privilege_to [OF p2]
    by (simp_all add: require_privilege_def require_def return_def set_pc_and_serialize_def epc_read_def h1_def [symmetric]
        write_csr_def of_opt_def put_csr_def csr_write_def zext_xlen_def m1 h3_def and.assoc silent_def v_def)
  have run: "insn_mret x e i pc h = (Inr PC_SERIALIZE_AFTER, set_virt (get_field (mstatus_read h) MSTATUS_MPV \<noteq> 0) h3)"
    by (simp only: insn_mret_def bindE_def steps prod.case sum.case Let_def m1 modify_def return_def)
  have b39: "bit v 39 = bit (mstatus_read h) 39" using b [of 39] by simp
  have "bit (MSTATUS_MPV :: reg_t) n \<Longrightarrow> n = 39" for n
    using bit_exp_iff [of 39 n, where 'a = reg_t] by simp
  then have "v AND MSTATUS_MPV = mstatus_read h AND MSTATUS_MPV"
    using b39 by (intro bit_word_eqI) (metis bit_and_iff)
  moreover have "mstatus_read h2 AND MSTATUS_MPV = v AND MSTATUS_MPV"
    by (rule f) (use ext in \<open>simp_all add: mstatus_mask_fields m1\<close>)
  ultimately have "get_field (mstatus_read h2) MSTATUS_MPV = get_field (mstatus_read h) MSTATUS_MPV"
    by (intro get_field_cong) simp
  moreover have "mstatus_read (set_virt b h3) = mstatus_read h2" for b
    by (simp add: h3_def set_virt_def mstatus_read_def)
  ultimately show ?thesis using run by simp
qed

subsection \<open>Evaluations of the round trips\<close>

definition demo_user :: hart where
  "demo_user = demo_running\<lparr>h_prv := PRV_U, csrmap := [CSR_MSTATUS \<mapsto> Mstatus_csr]\<rparr>"

lemma demo_user_facts:
  "h_prv demo_user = PRV_U" "h_v demo_user = False" "\<not> debug_mode demo_user" "cfg demo_user = demo_cfg"
  "sstatus_write_mask demo_user = sstatus_fields" "csrmap demo_user CSR_MSTATUS = Some Mstatus_csr"
  "h_xlen demo_user = 64" "csrmap demo_user = [CSR_MSTATUS \<mapsto> Mstatus_csr]"
  "a \<noteq> CSR_MISA \<Longrightarrow> csrv demo_user a = 0"
  "extension_enabled ISA_S demo_user" "extension_enabled ISA_U demo_user" "extension_enabled ISA_H demo_user"
  "pc_alignment_mask demo_user = NOT 0"
  by (simp_all add: demo_user_def demo_running_def demo_hart_def demo_cfg_def write_csrv_def extension_enabled_def
      misa_extension_enabled_def pc_alignment_mask_def)

lemma demo_user_csr_ok: "csr_ok demo_user" "csr_ok (demo_user\<lparr>h_prv := p\<rparr>)"
proof -
  show "csr_ok demo_user" using demo_running_ok unfolding csr_ok_def demo_user_def
    by (auto split: if_splits)
  then show "csr_ok (demo_user\<lparr>h_prv := p\<rparr>)" by simp
qed

lemma demo_user_ok: "hart_ok demo_user" "hart_ok (write_csrv CSR_MEDELEG 0x100 demo_user)"
proof -
  have "csr_ok (write_csrv CSR_MEDELEG 0x100 demo_user)"
    by (rule csr_ok_write [OF demo_user_csr_ok(1)]) (simp add: key_ok_def delegable_exceptions_def hedeleg_mask_def hypervisor_exceptions_def)
  then show "hart_ok demo_user" "hart_ok (write_csrv CSR_MEDELEG 0x100 demo_user)"
    using demo_user_csr_ok
    by (simp_all add: hart_ok_def demo_user_facts mode_ok_def legalize_privilege_def sstatus_fields_def)
qed

lemma machine_trap_round_trip_witness:
  "\<exists>h1 h2. take_trap trap_user_ecall 0x1000 demo_user = (Inr (), h1) \<and>
     insn_mret 64 False 0x30200073 0x2000 h1 = (Inr PC_SERIALIZE_AFTER, h2) \<and> h_prv h2 = PRV_U \<and> h_pc h2 = 0x1000"
proof -
  have t: "trap_target_of trap_user_ecall demo_user = To_M"
    by (simp add: trap_target_bits Let_def trap_is_interrupt_def trap_bit_def demo_user_facts trap_defs demo_cfg_def)
  show ?thesis
    using machine_trap_round_trip [OF demo_user_ok(1) demo_user_facts(3,11,12,6,7) t, where epc = "0x1000" and x = 64 and e = False and i = "0x30200073" and pc = "0x2000"]
    by (auto simp: demo_user_facts)
qed

lemma supervisor_trap_round_trip_witness:
  "\<exists>h1 h2. take_trap trap_user_ecall 0x1000 (write_csrv CSR_MEDELEG 0x100 demo_user) = (Inr (), h1) \<and>
     insn_sret 64 False 0x10200073 0x2000 h1 = (Inr PC_SERIALIZE_AFTER, h2) \<and> h_prv h2 = PRV_U \<and> h_pc h2 = 0x1000"
proof -
  let ?h = "write_csrv CSR_MEDELEG 0x100 demo_user"
  have f: "\<not> debug_mode ?h" "extension_enabled ISA_H ?h" "pc_alignment_mask ?h = NOT 0" "h_prv ?h = PRV_U"
    "get_field (mstatus_read ?h) MSTATUS_TSR = 0" "trap_target_of trap_user_ecall ?h = To_HS"
    by (simp_all add: demo_user_facts mstatus_read_def trap_target_bits Let_def get_field_def
        trap_is_interrupt_def trap_bit_def trap_defs demo_cfg_def)
      (simp add: demo_user_def demo_running_def demo_hart_def demo_cfg_def write_csrv_def pc_alignment_mask_def
        extension_enabled_def)
  show ?thesis
    using supervisor_trap_round_trip [OF demo_user_ok(2) f(1,2,6) _ f(5), where epc = "0x1000" and x = 64 and e = False and i = "0x10200073" and pc = "0x2000"]
    by (auto simp: f(3) demo_user_facts)
qed

definition demo_rv32 :: hart where
  "demo_rv32 = demo_running\<lparr>h_xlen := 32, csrmap := [CSR_MSTATUS \<mapsto> Rv32_low_csr CSR_MSTATUS Mstatus_csr]\<rparr>"

lemma demo_rv32_facts:
  "h_prv demo_rv32 = PRV_M" "h_v demo_rv32 = False" "cfg demo_rv32 = demo_cfg" "tm demo_rv32 = tm demo_running"
  "sstatus_write_mask demo_rv32 = sstatus_fields"
  "csrmap demo_rv32 CSR_MSTATUS = Some (Rv32_low_csr CSR_MSTATUS Mstatus_csr)"
  "h_xlen demo_rv32 = 32" "csrmap demo_rv32 = [CSR_MSTATUS \<mapsto> Rv32_low_csr CSR_MSTATUS Mstatus_csr]"
  "a \<noteq> CSR_MISA \<Longrightarrow> csrv demo_rv32 a = 0" "csrv demo_rv32 CSR_MISA = max_isa demo_cfg" "pmp demo_rv32 = pmp demo_running"
  "extension_enabled ISA_S demo_rv32" "extension_enabled ISA_U demo_rv32" "extension_enabled ISA_H demo_rv32"
  by (simp_all add: demo_rv32_def demo_running_def demo_hart_def demo_cfg_def write_csrv_def extension_enabled_def
      misa_extension_enabled_def)

lemma demo_rv32_ok: "hart_ok (write_csrv CSR_MSTATUS MSTATUS_MPV demo_rv32)"
proof -
  have m: "misa_legal demo_cfg (max_isa demo_cfg)" "misa_closed (max_isa demo_cfg)"
    by (simp_all add: misa_legal_def misa_closed_def demo_cfg_def)
  have k: "key_ok demo_cfg 32 n a (if a = CSR_MISA then max_isa demo_cfg else 0)" for a n
    using key_ok_zero [of a 32 demo_cfg n] m by (auto simp: key_ok_def [of _ _ _ CSR_MISA])
  have "csrv demo_rv32 a = (if a = CSR_MISA then max_isa demo_cfg else 0)" for a
    using demo_rv32_facts(9,10) by simp
  then have "csr_ok demo_rv32"
    using k m demo_running_ok by (auto simp: csr_ok_def demo_rv32_facts(3,4,7,8,11) split: if_splits)
  moreover have "key_ok demo_cfg 32 n CSR_MSTATUS MSTATUS_MPV" for n
    by (simp add: key_ok_def sd_consistent_def legal_prv_def get_field_def)
  ultimately have "csr_ok (write_csrv CSR_MSTATUS MSTATUS_MPV demo_rv32)"
    by (intro csr_ok_write) (simp_all add: demo_rv32_facts)
  then show ?thesis
    by (simp add: hart_ok_def demo_rv32_facts mode_ok_def legalize_privilege_def sstatus_fields_def)
qed

lemma mret_rv32_keeps_mpv_witness:
  "\<exists>h'. insn_mret 32 False 0x30200073 0x2000 (write_csrv CSR_MSTATUS MSTATUS_MPV demo_rv32) = (Inr PC_SERIALIZE_AFTER, h') \<and>
    get_field (mstatus_read h') MSTATUS_MPV = 1"
proof -
  let ?h = "write_csrv CSR_MSTATUS MSTATUS_MPV demo_rv32"
  have f: "h_prv ?h = PRV_M" "extension_enabled ISA_U ?h" "extension_enabled ISA_H ?h"
    "csrmap ?h CSR_MSTATUS = Some (Rv32_low_csr CSR_MSTATUS Mstatus_csr)" "h_xlen ?h = 32"
    by (simp_all add: demo_rv32_facts)
  have "get_field (mstatus_read ?h) MSTATUS_MPV = 1" by (simp add: mstatus_read_def get_field_def)
  then show ?thesis
    using mret_rv32_keeps_mpv [OF demo_rv32_ok f, where x = 32 and e = False and i = "0x30200073" and pc = "0x2000"] by auto
qed

end
