(* ===== verification/Insn_Int.thy ===== *)
theory Insn_Int
  imports Insn "HOL-Library.Signed_Division"
begin

text \<open>
  The integer instructions of \<open>riscv/insns/\<close>: the base set, multiplication and division, bit
  manipulation and the compressed forms that touch no memory. \<open>val_name\<close> is the value the file
  \<open>name.h\<close> computes for the width \<open>x\<close> (32 or 64), \<open>insn_name\<close> the instruction with its extension and
  width checks. Registers are 64-bit words on both widths; that RV32 keeps them sign extended is
  a theorem of this library, and with it the 64-bit computations are the 32-bit operations of the ISA.
\<close>


abbreviation (input) INT64_MIN :: reg_t where "INT64_MIN \<equiv> 0x8000000000000000"

text \<open>C's signed division, on words.\<close>

definition sdivide :: "reg_t \<Rightarrow> reg_t \<Rightarrow> reg_t" where
  "sdivide a b = word_of_int (sint a sdiv sint b)"

definition sremainder :: "reg_t \<Rightarrow> reg_t \<Rightarrow> reg_t" where
  "sremainder a b = word_of_int (sint a smod sint b)"

subsection \<open>Frames\<close>

text \<open>An instruction that checks, reads its operands, and writes one value to \<open>rd\<close>.\<close>

definition alu_ri :: "(nat \<Rightarrow> insn_t \<Rightarrow> (hart, exn, unit) comp) \<Rightarrow> (nat \<Rightarrow> insn_t \<Rightarrow> reg_t \<Rightarrow> reg_t) \<Rightarrow> insn_fun" where
  "alu_ri req f x e i pc = bindE (req x i) (\<lambda>_. bindE (RS1 e i) (\<lambda>a.
     bindE (WRITE_RD e i (f x i a)) (\<lambda>_. return (next_pc x 4 pc))))"

definition alu_rr :: "(nat \<Rightarrow> insn_t \<Rightarrow> (hart, exn, unit) comp) \<Rightarrow> (nat \<Rightarrow> reg_t \<Rightarrow> reg_t \<Rightarrow> reg_t) \<Rightarrow> insn_fun" where
  "alu_rr req f x e i pc = bindE (req x i) (\<lambda>_. bindE (RS1 e i) (\<lambda>a. bindE (RS2 e i) (\<lambda>b.
     bindE (WRITE_RD e i (f x a b)) (\<lambda>_. return (next_pc x 4 pc)))))"

definition alu_rrr :: "(nat \<Rightarrow> insn_t \<Rightarrow> (hart, exn, unit) comp) \<Rightarrow> (nat \<Rightarrow> reg_t \<Rightarrow> reg_t \<Rightarrow> reg_t \<Rightarrow> reg_t) \<Rightarrow> insn_fun" where
  "alu_rrr req f x e i pc = bindE (req x i) (\<lambda>_. bindE (RS1 e i) (\<lambda>a. bindE (RS2 e i) (\<lambda>b. bindE (RS3 e i) (\<lambda>c.
     bindE (WRITE_RD e i (f x a b c)) (\<lambda>_. return (next_pc x 4 pc))))))"

definition branch_if :: "(reg_t \<Rightarrow> reg_t \<Rightarrow> bool) \<Rightarrow> insn_fun" where
  "branch_if c x e i pc = bindE (RS1 e i) (\<lambda>a. bindE (RS2 e i) (\<lambda>b.
     if c a b then set_pc x (BRANCH_TARGET i pc) else return (next_pc x 4 pc)))"

text \<open>The scans of \<open>clz.h\<close>, \<open>ctz.h\<close>, \<open>cpop.h\<close> and the product loops of \<open>clmul*.h\<close>.\<close>

fun first_set_from :: "(nat \<Rightarrow> nat) \<Rightarrow> reg_t \<Rightarrow> nat list \<Rightarrow> nat \<Rightarrow> nat" where
  "first_set_from p a [] n = n"
| "first_set_from p a (k # ks) n = (if 1 AND shr a (p k) \<noteq> 0 then k else first_set_from p a ks n)"

definition first_set :: "(nat \<Rightarrow> nat) \<Rightarrow> reg_t \<Rightarrow> nat \<Rightarrow> reg_t" where
  "first_set p a n = of_nat (first_set_from p a [0..<n] n)"

definition count_set :: "reg_t \<Rightarrow> nat \<Rightarrow> reg_t" where
  "count_set a n = foldl (\<lambda>s k. if 1 AND shr a k \<noteq> 0 then s + 1 else s) 0 [0..<n]"

fun clmul_loop :: "(nat \<Rightarrow> reg_t) \<Rightarrow> reg_t \<Rightarrow> nat list \<Rightarrow> reg_t \<Rightarrow> reg_t" where
  "clmul_loop f b [] acc = acc"
| "clmul_loop f b (k # ks) acc = clmul_loop f b ks (if shr b k AND 1 \<noteq> 0 then acc XOR f k else acc)"

definition neg_shamt :: "nat \<Rightarrow> nat \<Rightarrow> nat" where
  "neg_shamt n s = unat ((- of_nat s :: reg_t) AND of_nat (n - 1))"

subsection \<open>Register instructions\<close>

definition val_add :: "nat \<Rightarrow> reg_t \<Rightarrow> reg_t \<Rightarrow> reg_t" where
  "val_add x a b = sext_xlen x (a + b)"

definition insn_add :: insn_fun where
  "insn_add = alu_rr (\<lambda>x i. return ()) val_add"

definition val_sub :: "nat \<Rightarrow> reg_t \<Rightarrow> reg_t \<Rightarrow> reg_t" where
  "val_sub x a b = sext_xlen x (a - b)"

definition insn_sub :: insn_fun where
  "insn_sub = alu_rr (\<lambda>x i. return ()) val_sub"

definition val_and :: "nat \<Rightarrow> reg_t \<Rightarrow> reg_t \<Rightarrow> reg_t" where
  "val_and x a b = a AND b"

definition insn_and :: insn_fun where
  "insn_and = alu_rr (\<lambda>x i. return ()) val_and"

definition val_or :: "nat \<Rightarrow> reg_t \<Rightarrow> reg_t \<Rightarrow> reg_t" where
  "val_or x a b = a OR b"

definition insn_or :: insn_fun where
  "insn_or = alu_rr (\<lambda>x i. return ()) val_or"

definition val_xor :: "nat \<Rightarrow> reg_t \<Rightarrow> reg_t \<Rightarrow> reg_t" where
  "val_xor x a b = a XOR b"

definition insn_xor :: insn_fun where
  "insn_xor = alu_rr (\<lambda>x i. return ()) val_xor"

definition val_sll :: "nat \<Rightarrow> reg_t \<Rightarrow> reg_t \<Rightarrow> reg_t" where
  "val_sll x a b = sext_xlen x (shl a (unat (b AND of_nat (x - 1))))"

definition insn_sll :: insn_fun where
  "insn_sll = alu_rr (\<lambda>x i. return ()) val_sll"

definition val_srl :: "nat \<Rightarrow> reg_t \<Rightarrow> reg_t \<Rightarrow> reg_t" where
  "val_srl x a b = sext_xlen x (shr (zext_bits x a) (unat (b AND of_nat (x - 1))))"

definition insn_srl :: insn_fun where
  "insn_srl = alu_rr (\<lambda>x i. return ()) val_srl"

definition val_sra :: "nat \<Rightarrow> reg_t \<Rightarrow> reg_t \<Rightarrow> reg_t" where
  "val_sra x a b = sext_xlen x (sar (sext_xlen x a) (unat (b AND of_nat (x - 1))))"

definition insn_sra :: insn_fun where
  "insn_sra = alu_rr (\<lambda>x i. return ()) val_sra"

definition val_slt :: "nat \<Rightarrow> reg_t \<Rightarrow> reg_t \<Rightarrow> reg_t" where
  "val_slt x a b = of_bool (a <s b)"

definition insn_slt :: insn_fun where
  "insn_slt = alu_rr (\<lambda>x i. return ()) val_slt"

definition val_sltu :: "nat \<Rightarrow> reg_t \<Rightarrow> reg_t \<Rightarrow> reg_t" where
  "val_sltu x a b = of_bool (a < b)"

definition insn_sltu :: insn_fun where
  "insn_sltu = alu_rr (\<lambda>x i. return ()) val_sltu"

definition val_addi :: "nat \<Rightarrow> insn_t \<Rightarrow> reg_t \<Rightarrow> reg_t" where
  "val_addi x i a = sext_xlen x (a + i_imm i)"

definition insn_addi :: insn_fun where
  "insn_addi = alu_ri (\<lambda>x i. return ()) val_addi"

definition val_slti :: "nat \<Rightarrow> insn_t \<Rightarrow> reg_t \<Rightarrow> reg_t" where
  "val_slti x i a = of_bool (a <s i_imm i)"

definition insn_slti :: insn_fun where
  "insn_slti = alu_ri (\<lambda>x i. return ()) val_slti"

definition val_sltiu :: "nat \<Rightarrow> insn_t \<Rightarrow> reg_t \<Rightarrow> reg_t" where
  "val_sltiu x i a = of_bool (a < i_imm i)"

definition insn_sltiu :: insn_fun where
  "insn_sltiu = alu_ri (\<lambda>x i. return ()) val_sltiu"

definition val_xori :: "nat \<Rightarrow> insn_t \<Rightarrow> reg_t \<Rightarrow> reg_t" where
  "val_xori x i a = i_imm i XOR a"

definition insn_xori :: insn_fun where
  "insn_xori = alu_ri (\<lambda>x i. return ()) val_xori"

definition val_ori :: "nat \<Rightarrow> insn_t \<Rightarrow> reg_t \<Rightarrow> reg_t" where
  "val_ori x i a = i_imm i OR a"

definition insn_ori :: insn_fun where
  "insn_ori = alu_ri (\<lambda>x i. return ()) val_ori"

definition val_andi :: "nat \<Rightarrow> insn_t \<Rightarrow> reg_t \<Rightarrow> reg_t" where
  "val_andi x i a = i_imm i AND a"

definition insn_andi :: insn_fun where
  "insn_andi = alu_ri (\<lambda>x i. return ()) val_andi"

definition val_slli :: "nat \<Rightarrow> insn_t \<Rightarrow> reg_t \<Rightarrow> reg_t" where
  "val_slli x i a = sext_xlen x (shl a (SHAMT i))"

definition insn_slli :: insn_fun where
  "insn_slli = alu_ri (\<lambda>x i. require (SHAMT i < x) i) val_slli"

definition val_srli :: "nat \<Rightarrow> insn_t \<Rightarrow> reg_t \<Rightarrow> reg_t" where
  "val_srli x i a = sext_xlen x (shr (zext_bits x a) (SHAMT i))"

definition insn_srli :: insn_fun where
  "insn_srli = alu_ri (\<lambda>x i. require (SHAMT i < x) i) val_srli"

definition val_srai :: "nat \<Rightarrow> insn_t \<Rightarrow> reg_t \<Rightarrow> reg_t" where
  "val_srai x i a = sext_xlen x (sar (sext_xlen x a) (SHAMT i))"

definition insn_srai :: insn_fun where
  "insn_srai = alu_ri (\<lambda>x i. require (SHAMT i < x) i) val_srai"

definition val_addw :: "nat \<Rightarrow> reg_t \<Rightarrow> reg_t \<Rightarrow> reg_t" where
  "val_addw x a b = sext32 (a + b)"

definition insn_addw :: insn_fun where
  "insn_addw = alu_rr (\<lambda>x i. require_rv64 x i) val_addw"

definition val_subw :: "nat \<Rightarrow> reg_t \<Rightarrow> reg_t \<Rightarrow> reg_t" where
  "val_subw x a b = sext32 (a - b)"

definition insn_subw :: insn_fun where
  "insn_subw = alu_rr (\<lambda>x i. require_rv64 x i) val_subw"

definition val_sllw :: "nat \<Rightarrow> reg_t \<Rightarrow> reg_t \<Rightarrow> reg_t" where
  "val_sllw x a b = sext32 (shl a (unat (b AND 0x1F)))"

definition insn_sllw :: insn_fun where
  "insn_sllw = alu_rr (\<lambda>x i. require_rv64 x i) val_sllw"

definition val_srlw :: "nat \<Rightarrow> reg_t \<Rightarrow> reg_t \<Rightarrow> reg_t" where
  "val_srlw x a b = sext32 (ucast (shr (ucast a :: u32) (unat (b AND 0x1F))))"

definition insn_srlw :: insn_fun where
  "insn_srlw = alu_rr (\<lambda>x i. require_rv64 x i) val_srlw"

definition val_sraw :: "nat \<Rightarrow> reg_t \<Rightarrow> reg_t \<Rightarrow> reg_t" where
  "val_sraw x a b = sext32 (ucast (sar (ucast a :: u32) (unat (b AND 0x1F))))"

definition insn_sraw :: insn_fun where
  "insn_sraw = alu_rr (\<lambda>x i. require_rv64 x i) val_sraw"

definition val_addiw :: "nat \<Rightarrow> insn_t \<Rightarrow> reg_t \<Rightarrow> reg_t" where
  "val_addiw x i a = sext32 (i_imm i + a)"

definition insn_addiw :: insn_fun where
  "insn_addiw = alu_ri (\<lambda>x i. require_rv64 x i) val_addiw"

definition val_slliw :: "nat \<Rightarrow> insn_t \<Rightarrow> reg_t \<Rightarrow> reg_t" where
  "val_slliw x i a = sext32 (shl a (SHAMT i))"

definition insn_slliw :: insn_fun where
  "insn_slliw = alu_ri (\<lambda>x i. require_rv64 x i) val_slliw"

definition val_srliw :: "nat \<Rightarrow> insn_t \<Rightarrow> reg_t \<Rightarrow> reg_t" where
  "val_srliw x i a = sext32 (ucast (shr (ucast a :: u32) (SHAMT i)))"

definition insn_srliw :: insn_fun where
  "insn_srliw = alu_ri (\<lambda>x i. require_rv64 x i) val_srliw"

definition val_sraiw :: "nat \<Rightarrow> insn_t \<Rightarrow> reg_t \<Rightarrow> reg_t" where
  "val_sraiw x i a = sext32 (ucast (sar (ucast a :: u32) (SHAMT i)))"

definition insn_sraiw :: insn_fun where
  "insn_sraiw = alu_ri (\<lambda>x i. require_rv64 x i) val_sraiw"

definition val_mul :: "nat \<Rightarrow> reg_t \<Rightarrow> reg_t \<Rightarrow> reg_t" where
  "val_mul x a b = sext_xlen x (a * b)"

definition insn_mul :: insn_fun where
  "insn_mul = alu_rr (\<lambda>x i. require_either_extension ISA_M EXT_ZMMUL i) val_mul"

definition val_mulh :: "nat \<Rightarrow> reg_t \<Rightarrow> reg_t \<Rightarrow> reg_t" where
  "val_mulh x a b = (if x = 64 then mulh a b else sext32 (sar (sext32 a * sext32 b) 32))"

definition insn_mulh :: insn_fun where
  "insn_mulh = alu_rr (\<lambda>x i. require_either_extension ISA_M EXT_ZMMUL i) val_mulh"

definition val_mulhu :: "nat \<Rightarrow> reg_t \<Rightarrow> reg_t \<Rightarrow> reg_t" where
  "val_mulhu x a b = (if x = 64 then mulhu a b else sext32 (shr (zext32 a * zext32 b) 32))"

definition insn_mulhu :: insn_fun where
  "insn_mulhu = alu_rr (\<lambda>x i. require_either_extension ISA_M EXT_ZMMUL i) val_mulhu"

definition val_mulhsu :: "nat \<Rightarrow> reg_t \<Rightarrow> reg_t \<Rightarrow> reg_t" where
  "val_mulhsu x a b = (if x = 64 then mulhsu a b else sext32 (shr (sext32 a * zext32 b) 32))"

definition insn_mulhsu :: insn_fun where
  "insn_mulhsu = alu_rr (\<lambda>x i. require_either_extension ISA_M EXT_ZMMUL i) val_mulhsu"

definition val_mulw :: "nat \<Rightarrow> reg_t \<Rightarrow> reg_t \<Rightarrow> reg_t" where
  "val_mulw x a b = sext32 (a * b)"

definition insn_mulw :: insn_fun where
  "insn_mulw = alu_rr (\<lambda>x i. bindE (require_either_extension ISA_M EXT_ZMMUL i) (\<lambda>_. require_rv64 x i)) val_mulw"

definition val_div :: "nat \<Rightarrow> reg_t \<Rightarrow> reg_t \<Rightarrow> reg_t" where
  "val_div x a b = (let lhs = sext_xlen x a; rhs = sext_xlen x b in
     if rhs = 0 then - 1 else if lhs = INT64_MIN \<and> rhs = - 1 then lhs else sext_xlen x (sdivide lhs rhs))"

definition insn_div :: insn_fun where
  "insn_div = alu_rr (\<lambda>x i. require_extension ISA_M i) val_div"

definition val_divu :: "nat \<Rightarrow> reg_t \<Rightarrow> reg_t \<Rightarrow> reg_t" where
  "val_divu x a b = (let lhs = zext_bits x a; rhs = zext_bits x b in
     if rhs = 0 then - 1 else sext_xlen x (lhs div rhs))"

definition insn_divu :: insn_fun where
  "insn_divu = alu_rr (\<lambda>x i. require_extension ISA_M i) val_divu"

definition val_rem :: "nat \<Rightarrow> reg_t \<Rightarrow> reg_t \<Rightarrow> reg_t" where
  "val_rem x a b = (let lhs = sext_xlen x a; rhs = sext_xlen x b in
     if rhs = 0 then lhs else if lhs = INT64_MIN \<and> rhs = - 1 then 0 else sext_xlen x (sremainder lhs rhs))"

definition insn_rem :: insn_fun where
  "insn_rem = alu_rr (\<lambda>x i. require_extension ISA_M i) val_rem"

definition val_remu :: "nat \<Rightarrow> reg_t \<Rightarrow> reg_t \<Rightarrow> reg_t" where
  "val_remu x a b = (let lhs = zext_bits x a; rhs = zext_bits x b in
     if rhs = 0 then sext_xlen x a else sext_xlen x (lhs mod rhs))"

definition insn_remu :: insn_fun where
  "insn_remu = alu_rr (\<lambda>x i. require_extension ISA_M i) val_remu"

definition val_divw :: "nat \<Rightarrow> reg_t \<Rightarrow> reg_t \<Rightarrow> reg_t" where
  "val_divw x a b = (let lhs = sext32 a; rhs = sext32 b in
     if rhs = 0 then - 1 else sext32 (sdivide lhs rhs))"

definition insn_divw :: insn_fun where
  "insn_divw = alu_rr (\<lambda>x i. bindE (require_extension ISA_M i) (\<lambda>_. require_rv64 x i)) val_divw"

definition val_divuw :: "nat \<Rightarrow> reg_t \<Rightarrow> reg_t \<Rightarrow> reg_t" where
  "val_divuw x a b = (let lhs = zext32 a; rhs = zext32 b in
     if rhs = 0 then - 1 else sext32 (lhs div rhs))"

definition insn_divuw :: insn_fun where
  "insn_divuw = alu_rr (\<lambda>x i. bindE (require_extension ISA_M i) (\<lambda>_. require_rv64 x i)) val_divuw"

definition val_remw :: "nat \<Rightarrow> reg_t \<Rightarrow> reg_t \<Rightarrow> reg_t" where
  "val_remw x a b = (let lhs = sext32 a; rhs = sext32 b in
     if rhs = 0 then lhs else sext32 (sremainder lhs rhs))"

definition insn_remw :: insn_fun where
  "insn_remw = alu_rr (\<lambda>x i. bindE (require_extension ISA_M i) (\<lambda>_. require_rv64 x i)) val_remw"

definition val_remuw :: "nat \<Rightarrow> reg_t \<Rightarrow> reg_t \<Rightarrow> reg_t" where
  "val_remuw x a b = (let lhs = zext32 a; rhs = zext32 b in
     if rhs = 0 then sext32 lhs else sext32 (lhs mod rhs))"

definition insn_remuw :: insn_fun where
  "insn_remuw = alu_rr (\<lambda>x i. bindE (require_extension ISA_M i) (\<lambda>_. require_rv64 x i)) val_remuw"

definition val_sh1add :: "nat \<Rightarrow> reg_t \<Rightarrow> reg_t \<Rightarrow> reg_t" where
  "val_sh1add x a b = sext_xlen x (shl a 1 + b)"

definition insn_sh1add :: insn_fun where
  "insn_sh1add = alu_rr (\<lambda>x i. require_extension EXT_ZBA i) val_sh1add"

definition val_sh2add :: "nat \<Rightarrow> reg_t \<Rightarrow> reg_t \<Rightarrow> reg_t" where
  "val_sh2add x a b = sext_xlen x (shl a 2 + b)"

definition insn_sh2add :: insn_fun where
  "insn_sh2add = alu_rr (\<lambda>x i. require_extension EXT_ZBA i) val_sh2add"

definition val_sh3add :: "nat \<Rightarrow> reg_t \<Rightarrow> reg_t \<Rightarrow> reg_t" where
  "val_sh3add x a b = sext_xlen x (shl a 3 + b)"

definition insn_sh3add :: insn_fun where
  "insn_sh3add = alu_rr (\<lambda>x i. require_extension EXT_ZBA i) val_sh3add"

definition val_add_uw :: "nat \<Rightarrow> reg_t \<Rightarrow> reg_t \<Rightarrow> reg_t" where
  "val_add_uw x a b = sext_xlen x (zext32 a + b)"

definition insn_add_uw :: insn_fun where
  "insn_add_uw = alu_rr (\<lambda>x i. bindE (require_rv64 x i) (\<lambda>_. require_extension EXT_ZBA i)) val_add_uw"

definition val_sh1add_uw :: "nat \<Rightarrow> reg_t \<Rightarrow> reg_t \<Rightarrow> reg_t" where
  "val_sh1add_uw x a b = sext_xlen x (shl (zext32 a) 1 + b)"

definition insn_sh1add_uw :: insn_fun where
  "insn_sh1add_uw = alu_rr (\<lambda>x i. bindE (require_rv64 x i) (\<lambda>_. require_extension EXT_ZBA i)) val_sh1add_uw"

definition val_sh2add_uw :: "nat \<Rightarrow> reg_t \<Rightarrow> reg_t \<Rightarrow> reg_t" where
  "val_sh2add_uw x a b = sext_xlen x (shl (zext32 a) 2 + b)"

definition insn_sh2add_uw :: insn_fun where
  "insn_sh2add_uw = alu_rr (\<lambda>x i. bindE (require_rv64 x i) (\<lambda>_. require_extension EXT_ZBA i)) val_sh2add_uw"

definition val_sh3add_uw :: "nat \<Rightarrow> reg_t \<Rightarrow> reg_t \<Rightarrow> reg_t" where
  "val_sh3add_uw x a b = sext_xlen x (shl (zext32 a) 3 + b)"

definition insn_sh3add_uw :: insn_fun where
  "insn_sh3add_uw = alu_rr (\<lambda>x i. bindE (require_rv64 x i) (\<lambda>_. require_extension EXT_ZBA i)) val_sh3add_uw"

definition val_slli_uw :: "nat \<Rightarrow> insn_t \<Rightarrow> reg_t \<Rightarrow> reg_t" where
  "val_slli_uw x i a = sext_xlen x (shl (zext32 a) (SHAMT i))"

definition insn_slli_uw :: insn_fun where
  "insn_slli_uw = alu_ri (\<lambda>x i. bindE (require_rv64 x i) (\<lambda>_. require_extension EXT_ZBA i)) val_slli_uw"

definition val_andn :: "nat \<Rightarrow> reg_t \<Rightarrow> reg_t \<Rightarrow> reg_t" where
  "val_andn x a b = a AND NOT b"

definition insn_andn :: insn_fun where
  "insn_andn = alu_rr (\<lambda>x i. require_either_extension EXT_ZBB EXT_ZBKB i) val_andn"

definition val_orn :: "nat \<Rightarrow> reg_t \<Rightarrow> reg_t \<Rightarrow> reg_t" where
  "val_orn x a b = a OR NOT b"

definition insn_orn :: insn_fun where
  "insn_orn = alu_rr (\<lambda>x i. require_either_extension EXT_ZBB EXT_ZBKB i) val_orn"

definition val_xnor :: "nat \<Rightarrow> reg_t \<Rightarrow> reg_t \<Rightarrow> reg_t" where
  "val_xnor x a b = a XOR NOT b"

definition insn_xnor :: insn_fun where
  "insn_xnor = alu_rr (\<lambda>x i. require_either_extension EXT_ZBB EXT_ZBKB i) val_xnor"

definition val_max :: "nat \<Rightarrow> reg_t \<Rightarrow> reg_t \<Rightarrow> reg_t" where
  "val_max x a b = sext_xlen x (if b <s a then a else b)"

definition insn_max :: insn_fun where
  "insn_max = alu_rr (\<lambda>x i. require_either_extension EXT_ZBPBO EXT_ZBB i) val_max"

definition val_min :: "nat \<Rightarrow> reg_t \<Rightarrow> reg_t \<Rightarrow> reg_t" where
  "val_min x a b = sext_xlen x (if a <s b then a else b)"

definition insn_min :: insn_fun where
  "insn_min = alu_rr (\<lambda>x i. require_either_extension EXT_ZBPBO EXT_ZBB i) val_min"

definition val_maxu :: "nat \<Rightarrow> reg_t \<Rightarrow> reg_t \<Rightarrow> reg_t" where
  "val_maxu x a b = sext_xlen x (if b < a then a else b)"

definition insn_maxu :: insn_fun where
  "insn_maxu = alu_rr (\<lambda>x i. require_extension EXT_ZBB i) val_maxu"

definition val_minu :: "nat \<Rightarrow> reg_t \<Rightarrow> reg_t \<Rightarrow> reg_t" where
  "val_minu x a b = sext_xlen x (if a < b then a else b)"

definition insn_minu :: insn_fun where
  "insn_minu = alu_rr (\<lambda>x i. require_extension EXT_ZBB i) val_minu"

definition val_sext_b :: "nat \<Rightarrow> insn_t \<Rightarrow> reg_t \<Rightarrow> reg_t" where
  "val_sext_b x i a = scast (ucast a :: u8)"

definition insn_sext_b :: insn_fun where
  "insn_sext_b = alu_ri (\<lambda>x i. require_extension EXT_ZBB i) val_sext_b"

definition val_sext_h :: "nat \<Rightarrow> insn_t \<Rightarrow> reg_t \<Rightarrow> reg_t" where
  "val_sext_h x i a = scast (ucast a :: u16)"

definition insn_sext_h :: insn_fun where
  "insn_sext_h = alu_ri (\<lambda>x i. require_extension EXT_ZBB i) val_sext_h"

definition val_clz :: "nat \<Rightarrow> insn_t \<Rightarrow> reg_t \<Rightarrow> reg_t" where
  "val_clz x i a = sext_xlen x (first_set (\<lambda>k. x - k - 1) a x)"

definition insn_clz :: insn_fun where
  "insn_clz = alu_ri (\<lambda>x i. require_either_extension (if x = 32 then EXT_ZBPBO else EXT_ZBB) EXT_ZBB i) val_clz"

definition val_ctz :: "nat \<Rightarrow> insn_t \<Rightarrow> reg_t \<Rightarrow> reg_t" where
  "val_ctz x i a = sext_xlen x (first_set (\<lambda>k. k) a x)"

definition insn_ctz :: insn_fun where
  "insn_ctz = alu_ri (\<lambda>x i. require_extension EXT_ZBB i) val_ctz"

definition val_cpop :: "nat \<Rightarrow> insn_t \<Rightarrow> reg_t \<Rightarrow> reg_t" where
  "val_cpop x i a = sext_xlen x (count_set a x)"

definition insn_cpop :: insn_fun where
  "insn_cpop = alu_ri (\<lambda>x i. require_extension EXT_ZBB i) val_cpop"

definition val_clzw :: "nat \<Rightarrow> insn_t \<Rightarrow> reg_t \<Rightarrow> reg_t" where
  "val_clzw x i a = sext32 (first_set (\<lambda>k. 31 - k) a 32)"

definition insn_clzw :: insn_fun where
  "insn_clzw = alu_ri (\<lambda>x i. bindE (require_rv64 x i) (\<lambda>_. require_extension EXT_ZBB i)) val_clzw"

definition val_ctzw :: "nat \<Rightarrow> insn_t \<Rightarrow> reg_t \<Rightarrow> reg_t" where
  "val_ctzw x i a = sext32 (first_set (\<lambda>k. k) a 32)"

definition insn_ctzw :: insn_fun where
  "insn_ctzw = alu_ri (\<lambda>x i. bindE (require_rv64 x i) (\<lambda>_. require_extension EXT_ZBB i)) val_ctzw"

definition val_cpopw :: "nat \<Rightarrow> insn_t \<Rightarrow> reg_t \<Rightarrow> reg_t" where
  "val_cpopw x i a = sext32 (count_set a 32)"

definition insn_cpopw :: insn_fun where
  "insn_cpopw = alu_ri (\<lambda>x i. bindE (require_rv64 x i) (\<lambda>_. require_extension EXT_ZBB i)) val_cpopw"

definition val_rol :: "nat \<Rightarrow> reg_t \<Rightarrow> reg_t \<Rightarrow> reg_t" where
  "val_rol x a b = (let shamt = unat (b AND of_nat (x - 1)); rshamt = neg_shamt x shamt in
     sext_xlen x (shl a shamt OR shr (zext_bits x a) rshamt))"

definition insn_rol :: insn_fun where
  "insn_rol = alu_rr (\<lambda>x i. require_either_extension EXT_ZBB EXT_ZBKB i) val_rol"

definition val_ror :: "nat \<Rightarrow> reg_t \<Rightarrow> reg_t \<Rightarrow> reg_t" where
  "val_ror x a b = (let shamt = unat (b AND of_nat (x - 1)); rshamt = neg_shamt x shamt in
     sext_xlen x (shl a rshamt OR shr (zext_bits x a) shamt))"

definition insn_ror :: insn_fun where
  "insn_ror = alu_rr (\<lambda>x i. require_either_extension EXT_ZBB EXT_ZBKB i) val_ror"

definition val_rori :: "nat \<Rightarrow> insn_t \<Rightarrow> reg_t \<Rightarrow> reg_t" where
  "val_rori x i a = (let shamt = unat (of_nat (SHAMT i) AND of_nat (x - 1) :: reg_t); rshamt = neg_shamt x shamt in
     sext_xlen x (shl a rshamt OR shr (zext_bits x a) shamt))"

definition insn_rori :: insn_fun where
  "insn_rori = alu_ri (\<lambda>x i. bindE (require_either_extension EXT_ZBB EXT_ZBKB i) (\<lambda>_. require (SHAMT i < x) i)) val_rori"

definition val_rolw :: "nat \<Rightarrow> reg_t \<Rightarrow> reg_t \<Rightarrow> reg_t" where
  "val_rolw x a b = (let shamt = unat (b AND 31); rshamt = neg_shamt 32 shamt in
     sext32 (shl a shamt OR shr (zext32 a) rshamt))"

definition insn_rolw :: insn_fun where
  "insn_rolw = alu_rr (\<lambda>x i. bindE (require_rv64 x i) (\<lambda>_. require_either_extension EXT_ZBB EXT_ZBKB i)) val_rolw"

definition val_rorw :: "nat \<Rightarrow> reg_t \<Rightarrow> reg_t \<Rightarrow> reg_t" where
  "val_rorw x a b = (let shamt = unat (b AND 31); rshamt = neg_shamt 32 shamt in
     sext32 (shl a rshamt OR shr (zext32 a) shamt))"

definition insn_rorw :: insn_fun where
  "insn_rorw = alu_rr (\<lambda>x i. bindE (require_rv64 x i) (\<lambda>_. require_either_extension EXT_ZBB EXT_ZBKB i)) val_rorw"

definition val_roriw :: "nat \<Rightarrow> insn_t \<Rightarrow> reg_t \<Rightarrow> reg_t" where
  "val_roriw x i a = (let shamt = unat (of_nat (SHAMT i) AND 31 :: reg_t); rshamt = neg_shamt 32 shamt in
     sext32 (shl a rshamt OR shr (zext32 a) shamt))"

definition insn_roriw :: insn_fun where
  "insn_roriw = alu_ri (\<lambda>x i. bindE (require_rv64 x i) (\<lambda>_. bindE (require_either_extension EXT_ZBB EXT_ZBKB i) (\<lambda>_. require (SHAMT i < 32) i))) val_roriw"

definition val_bclr :: "nat \<Rightarrow> reg_t \<Rightarrow> reg_t \<Rightarrow> reg_t" where
  "val_bclr x a b = sext_xlen x (a AND NOT (shl 1 (unat (b AND of_nat (x - 1)))))"

definition insn_bclr :: insn_fun where
  "insn_bclr = alu_rr (\<lambda>x i. require_extension EXT_ZBS i) val_bclr"

definition val_bset :: "nat \<Rightarrow> reg_t \<Rightarrow> reg_t \<Rightarrow> reg_t" where
  "val_bset x a b = sext_xlen x (a OR shl 1 (unat (b AND of_nat (x - 1))))"

definition insn_bset :: insn_fun where
  "insn_bset = alu_rr (\<lambda>x i. require_extension EXT_ZBS i) val_bset"

definition val_binv :: "nat \<Rightarrow> reg_t \<Rightarrow> reg_t \<Rightarrow> reg_t" where
  "val_binv x a b = sext_xlen x (a XOR shl 1 (unat (b AND of_nat (x - 1))))"

definition insn_binv :: insn_fun where
  "insn_binv = alu_rr (\<lambda>x i. require_extension EXT_ZBS i) val_binv"

definition val_bext :: "nat \<Rightarrow> reg_t \<Rightarrow> reg_t \<Rightarrow> reg_t" where
  "val_bext x a b = sext_xlen x (1 AND shr a (unat (b AND of_nat (x - 1))))"

definition insn_bext :: insn_fun where
  "insn_bext = alu_rr (\<lambda>x i. require_extension EXT_ZBS i) val_bext"

definition val_bclri :: "nat \<Rightarrow> insn_t \<Rightarrow> reg_t \<Rightarrow> reg_t" where
  "val_bclri x i a = sext_xlen x (a AND NOT (shl 1 (unat (of_nat (SHAMT i) AND of_nat (x - 1) :: reg_t))))"

definition insn_bclri :: insn_fun where
  "insn_bclri = alu_ri (\<lambda>x i. require_extension EXT_ZBS i) val_bclri"

definition val_bseti :: "nat \<Rightarrow> insn_t \<Rightarrow> reg_t \<Rightarrow> reg_t" where
  "val_bseti x i a = sext_xlen x (a OR shl 1 (unat (of_nat (SHAMT i) AND of_nat (x - 1) :: reg_t)))"

definition insn_bseti :: insn_fun where
  "insn_bseti = alu_ri (\<lambda>x i. require_extension EXT_ZBS i) val_bseti"

definition val_binvi :: "nat \<Rightarrow> insn_t \<Rightarrow> reg_t \<Rightarrow> reg_t" where
  "val_binvi x i a = sext_xlen x (a XOR shl 1 (unat (of_nat (SHAMT i) AND of_nat (x - 1) :: reg_t)))"

definition insn_binvi :: insn_fun where
  "insn_binvi = alu_ri (\<lambda>x i. require_extension EXT_ZBS i) val_binvi"

definition val_bexti :: "nat \<Rightarrow> insn_t \<Rightarrow> reg_t \<Rightarrow> reg_t" where
  "val_bexti x i a = sext_xlen x (1 AND shr a (unat (of_nat (SHAMT i) AND of_nat (x - 1) :: reg_t)))"

definition insn_bexti :: insn_fun where
  "insn_bexti = alu_ri (\<lambda>x i. require_extension EXT_ZBS i) val_bexti"

definition val_clmul :: "nat \<Rightarrow> reg_t \<Rightarrow> reg_t \<Rightarrow> reg_t" where
  "val_clmul x a b = sext_xlen x (clmul_loop (\<lambda>k. shl (zext_bits x a) k) (zext_bits x b) [0..<x] 0)"

definition insn_clmul :: insn_fun where
  "insn_clmul = alu_rr (\<lambda>x i. require_either_extension EXT_ZBC EXT_ZBKC i) val_clmul"

definition val_clmulh :: "nat \<Rightarrow> reg_t \<Rightarrow> reg_t \<Rightarrow> reg_t" where
  "val_clmulh x a b = sext_xlen x (clmul_loop (\<lambda>k. shr (zext_bits x a) (x - k)) (zext_bits x b) [1..<x] 0)"

definition insn_clmulh :: insn_fun where
  "insn_clmulh = alu_rr (\<lambda>x i. require_either_extension EXT_ZBC EXT_ZBKC i) val_clmulh"

definition val_clmulr :: "nat \<Rightarrow> reg_t \<Rightarrow> reg_t \<Rightarrow> reg_t" where
  "val_clmulr x a b = sext_xlen x (clmul_loop (\<lambda>k. shr (zext_bits x a) (x - k - 1)) (zext_bits x b) [0..<x] 0)"

definition insn_clmulr :: insn_fun where
  "insn_clmulr = alu_rr (\<lambda>x i. require_extension EXT_ZBC i) val_clmulr"

definition val_czero_eqz :: "nat \<Rightarrow> reg_t \<Rightarrow> reg_t \<Rightarrow> reg_t" where
  "val_czero_eqz x a b = (if b = 0 then 0 else a)"

definition insn_czero_eqz :: insn_fun where
  "insn_czero_eqz = alu_rr (\<lambda>x i. require_extension EXT_ZICOND i) val_czero_eqz"

definition val_czero_nez :: "nat \<Rightarrow> reg_t \<Rightarrow> reg_t \<Rightarrow> reg_t" where
  "val_czero_nez x a b = (if b \<noteq> 0 then 0 else a)"

definition insn_czero_nez :: insn_fun where
  "insn_czero_nez = alu_rr (\<lambda>x i. require_extension EXT_ZICOND i) val_czero_nez"

definition val_cmix :: "nat \<Rightarrow> reg_t \<Rightarrow> reg_t \<Rightarrow> reg_t \<Rightarrow> reg_t" where
  "val_cmix x a b c = (a AND b) OR (c AND NOT b)"

definition insn_cmix :: insn_fun where
  "insn_cmix = alu_rrr (\<lambda>x i. require_either_extension EXT_ZBPBO EXT_XZBT i) val_cmix"

definition val_cmov :: "nat \<Rightarrow> reg_t \<Rightarrow> reg_t \<Rightarrow> reg_t \<Rightarrow> reg_t" where
  "val_cmov x a b c = (if b \<noteq> 0 then a else c)"

definition insn_cmov :: insn_fun where
  "insn_cmov = alu_rrr (\<lambda>x i. require_extension EXT_XZBT i) val_cmov"


subsection \<open>Upper immediates, jumps and branches\<close>

definition insn_lui :: insn_fun where
  "insn_lui x e i pc = bindE (WRITE_RD e i (u_imm i)) (\<lambda>_. return (next_pc x 4 pc))"

definition insn_auipc :: insn_fun where
  "insn_auipc x e i pc = bindE (WRITE_RD e i (sext_xlen x (u_imm i + pc))) (\<lambda>_. return (next_pc x 4 pc))"

definition insn_jal :: insn_fun where
  "insn_jal x e i pc = bindE (set_pc x (JUMP_TARGET i pc)) (\<lambda>npc.
     bindE (WRITE_RD e i (next_pc x 4 pc)) (\<lambda>_. return npc))"

definition insn_jalr :: insn_fun where
  "insn_jalr x e i pc = bindE (RS1 e i) (\<lambda>a. bindE (set_pc x ((a + i_imm i) AND NOT 1)) (\<lambda>npc.
     bindE (WRITE_RD e i (next_pc x 4 pc)) (\<lambda>_. return npc)))"

definition insn_beq :: insn_fun where "insn_beq = branch_if (\<lambda>a b. a = b)"
definition insn_bne :: insn_fun where "insn_bne = branch_if (\<lambda>a b. a \<noteq> b)"
definition insn_blt :: insn_fun where "insn_blt = branch_if (\<lambda>a b. a <s b)"
definition insn_bge :: insn_fun where "insn_bge = branch_if (\<lambda>a b. b \<le>s a)"
definition insn_bltu :: insn_fun where "insn_bltu = branch_if (\<lambda>a b. a < b)"
definition insn_bgeu :: insn_fun where "insn_bgeu = branch_if (\<lambda>a b. b \<le> a)"

subsection \<open>Compressed instructions\<close>

abbreviation (input) X_RA :: nat where "X_RA \<equiv> 1"
abbreviation (input) X_SP :: nat where "X_SP \<equiv> 2"
abbreviation (input) X_A0 :: nat where "X_A0 \<equiv> 10"
abbreviation (input) X_A1 :: nat where "X_A1 \<equiv> 11"

definition c_alu1 :: "(nat \<Rightarrow> insn_t \<Rightarrow> (hart, exn, unit) comp) \<Rightarrow> (insn_t \<Rightarrow> nat) \<Rightarrow> (insn_t \<Rightarrow> nat) \<Rightarrow>
    (nat \<Rightarrow> insn_t \<Rightarrow> reg_t \<Rightarrow> reg_t) \<Rightarrow> insn_fun" where
  "c_alu1 req d s f x e i pc = bindE (req x i) (\<lambda>_. bindE (read_reg e i (s i)) (\<lambda>a.
     bindE (write_reg e i (d i) (f x i a)) (\<lambda>_. return (next_pc x 2 pc))))"

definition c_alu2 :: "(nat \<Rightarrow> insn_t \<Rightarrow> (hart, exn, unit) comp) \<Rightarrow> (insn_t \<Rightarrow> nat) \<Rightarrow> (insn_t \<Rightarrow> nat) \<Rightarrow> (insn_t \<Rightarrow> nat) \<Rightarrow>
    (nat \<Rightarrow> insn_t \<Rightarrow> reg_t \<Rightarrow> reg_t \<Rightarrow> reg_t) \<Rightarrow> insn_fun" where
  "c_alu2 req d s t f x e i pc = bindE (req x i) (\<lambda>_. bindE (read_reg e i (s i)) (\<lambda>a. bindE (read_reg e i (t i)) (\<lambda>b.
     bindE (write_reg e i (d i) (f x i a b)) (\<lambda>_. return (next_pc x 2 pc)))))"

definition insn_c_add :: insn_fun where
  "insn_c_add = c_alu2 (\<lambda>x i. bindE (require_extension EXT_ZCA i) (\<lambda>_. require (rvc_rs2 i \<noteq> 0) i)) rd rd rvc_rs2
     (\<lambda>x i a b. sext_xlen x (a + b))"

definition insn_c_addi :: insn_fun where
  "insn_c_addi = c_alu1 (\<lambda>x i. require_extension EXT_ZCA i) rd rd
     (\<lambda>x i a. sext_xlen x (a + rvc_imm i))"

definition insn_c_addi4spn :: insn_fun where
  "insn_c_addi4spn = c_alu1 (\<lambda>x i. bindE (require_extension EXT_ZCA i) (\<lambda>_. require (rvc_addi4spn_imm i \<noteq> 0) i)) rvc_rs2s (\<lambda>_. X_SP)
     (\<lambda>x i a. sext_xlen x (a + rvc_addi4spn_imm i))"

definition insn_c_addw :: insn_fun where
  "insn_c_addw = c_alu2 (\<lambda>x i. bindE (require_extension EXT_ZCA i) (\<lambda>_. require_rv64 x i)) rvc_rs1s rvc_rs1s rvc_rs2s
     (\<lambda>x i a b. sext32 (a + b))"

definition insn_c_and :: insn_fun where
  "insn_c_and = c_alu2 (\<lambda>x i. require_extension EXT_ZCA i) rvc_rs1s rvc_rs1s rvc_rs2s
     (\<lambda>x i a b. a AND b)"

definition insn_c_andi :: insn_fun where
  "insn_c_andi = c_alu1 (\<lambda>x i. require_extension EXT_ZCA i) rvc_rs1s rvc_rs1s
     (\<lambda>x i a. a AND rvc_imm i)"

definition insn_c_mul :: insn_fun where
  "insn_c_mul = c_alu2 (\<lambda>x i. bindE (require_extension EXT_ZCB i) (\<lambda>_. require_either_extension ISA_M EXT_ZMMUL i)) rvc_rs1s rvc_rs1s rvc_rs2s
     (\<lambda>x i a b. sext_xlen x (a * b))"

definition insn_c_mv :: insn_fun where
  "insn_c_mv = c_alu1 (\<lambda>x i. bindE (require_extension EXT_ZCA i) (\<lambda>_. require (rvc_rs2 i \<noteq> 0) i)) rd rvc_rs2
     (\<lambda>x i a. a)"

definition insn_c_not :: insn_fun where
  "insn_c_not = c_alu1 (\<lambda>x i. require_extension EXT_ZCB i) rvc_rs1s rvc_rs1s
     (\<lambda>x i a. sext_xlen x (NOT a))"

definition insn_c_or :: insn_fun where
  "insn_c_or = c_alu2 (\<lambda>x i. require_extension EXT_ZCA i) rvc_rs1s rvc_rs1s rvc_rs2s
     (\<lambda>x i a b. a OR b)"

definition insn_c_sext_b :: insn_fun where
  "insn_c_sext_b = c_alu1 (\<lambda>x i. bindE (require_extension EXT_ZCB i) (\<lambda>_. require_extension EXT_ZBB i)) rvc_rs1s rvc_rs1s
     (\<lambda>x i a. scast (ucast a :: u8))"

definition insn_c_sext_h :: insn_fun where
  "insn_c_sext_h = c_alu1 (\<lambda>x i. bindE (require_extension EXT_ZCB i) (\<lambda>_. require_extension EXT_ZBB i)) rvc_rs1s rvc_rs1s
     (\<lambda>x i a. scast (ucast a :: u16))"

definition insn_c_slli :: insn_fun where
  "insn_c_slli = c_alu1 (\<lambda>x i. bindE (require_extension EXT_ZCA i) (\<lambda>_. require (unat (rvc_zimm i) < x) i)) rd rd
     (\<lambda>x i a. sext_xlen x (shl a (unat (rvc_zimm i))))"

definition insn_c_srai :: insn_fun where
  "insn_c_srai = c_alu1 (\<lambda>x i. bindE (require_extension EXT_ZCA i) (\<lambda>_. require (unat (rvc_zimm i) < x) i)) rvc_rs1s rvc_rs1s
     (\<lambda>x i a. sext_xlen x (sar (sext_xlen x a) (unat (rvc_zimm i))))"

definition insn_c_srli :: insn_fun where
  "insn_c_srli = c_alu1 (\<lambda>x i. bindE (require_extension EXT_ZCA i) (\<lambda>_. require (unat (rvc_zimm i) < x) i)) rvc_rs1s rvc_rs1s
     (\<lambda>x i a. sext_xlen x (shr (zext_bits x a) (unat (rvc_zimm i))))"

definition insn_c_sub :: insn_fun where
  "insn_c_sub = c_alu2 (\<lambda>x i. require_extension EXT_ZCA i) rvc_rs1s rvc_rs1s rvc_rs2s
     (\<lambda>x i a b. sext_xlen x (a - b))"

definition insn_c_subw :: insn_fun where
  "insn_c_subw = c_alu2 (\<lambda>x i. bindE (require_extension EXT_ZCA i) (\<lambda>_. require_rv64 x i)) rvc_rs1s rvc_rs1s rvc_rs2s
     (\<lambda>x i a b. sext32 (a - b))"

definition insn_c_xor :: insn_fun where
  "insn_c_xor = c_alu2 (\<lambda>x i. require_extension EXT_ZCA i) rvc_rs1s rvc_rs1s rvc_rs2s
     (\<lambda>x i a b. a XOR b)"

definition insn_c_zext_b :: insn_fun where
  "insn_c_zext_b = c_alu1 (\<lambda>x i. require_extension EXT_ZCB i) rvc_rs1s rvc_rs1s
     (\<lambda>x i a. ucast (ucast a :: u8))"

definition insn_c_zext_h :: insn_fun where
  "insn_c_zext_h = c_alu1 (\<lambda>x i. bindE (require_extension EXT_ZCB i) (\<lambda>_. require_extension EXT_ZBB i)) rvc_rs1s rvc_rs1s
     (\<lambda>x i a. ucast (ucast a :: u16))"

definition insn_c_zext_w :: insn_fun where
  "insn_c_zext_w = c_alu1 (\<lambda>x i. bindE (require_extension EXT_ZCB i) (\<lambda>_. bindE (require_extension EXT_ZBA i) (\<lambda>_. require_rv64 x i))) rvc_rs1s rvc_rs1s
     (\<lambda>x i a. zext32 a)"

definition insn_c_li :: insn_fun where
  "insn_c_li x e i pc = bindE (require_extension EXT_ZCA i) (\<lambda>_.
     bindE (WRITE_RD e i (rvc_imm i)) (\<lambda>_. return (next_pc x 2 pc)))"

definition insn_c_lui :: insn_fun where
  "insn_c_lui x e i pc = bindE (require_extension EXT_ZCA i) (\<lambda>_.
     if rd i = 2 then
       bindE (require (rvc_addi16sp_imm i \<noteq> 0) i) (\<lambda>_. bindE (read_reg e i X_SP) (\<lambda>a.
       bindE (write_reg e i X_SP (sext_xlen x (a + rvc_addi16sp_imm i))) (\<lambda>_. return (next_pc x 2 pc))))
     else
       bindE (require (rvc_imm i \<noteq> 0) i) (\<lambda>_.
       bindE (WRITE_RD e i (shl (rvc_imm i) 12)) (\<lambda>_. return (next_pc x 2 pc))))"

definition insn_c_j :: insn_fun where
  "insn_c_j x e i pc = bindE (require_extension EXT_ZCA i) (\<lambda>_. set_pc x (pc + rvc_j_imm i))"

definition insn_c_jal :: insn_fun where
  "insn_c_jal x e i pc = bindE (require_extension EXT_ZCA i) (\<lambda>_.
     if x = 32 then
       bindE (set_pc x (pc + rvc_j_imm i)) (\<lambda>npc.
       bindE (write_reg e i X_RA (next_pc x 2 pc)) (\<lambda>_. return npc))
     else
       bindE (require (rd i \<noteq> 0) i) (\<lambda>_. bindE (read_reg e i (rd i)) (\<lambda>a.
       bindE (WRITE_RD e i (sext32 (a + rvc_imm i))) (\<lambda>_. return (next_pc x 2 pc)))))"

definition insn_c_jr :: insn_fun where
  "insn_c_jr x e i pc = bindE (require_extension EXT_ZCA i) (\<lambda>_. bindE (require (rd i \<noteq> 0) i) (\<lambda>_.
     bindE (read_reg e i (rd i)) (\<lambda>a. set_pc x (a AND NOT 1))))"

definition insn_c_jalr :: insn_fun where
  "insn_c_jalr x e i pc = bindE (require_extension EXT_ZCA i) (\<lambda>_. bindE (require (rd i \<noteq> 0) i) (\<lambda>_.
     bindE (read_reg e i (rd i)) (\<lambda>a. bindE (set_pc x (a AND NOT 1)) (\<lambda>npc.
     bindE (write_reg e i X_RA (next_pc x 2 pc)) (\<lambda>_. return npc)))))"

definition c_branch :: "(reg_t \<Rightarrow> bool) \<Rightarrow> insn_fun" where
  "c_branch c x e i pc = bindE (require_extension EXT_ZCA i) (\<lambda>_. bindE (read_reg e i (rvc_rs1s i)) (\<lambda>a.
     if c a then set_pc x (pc + rvc_b_imm i) else return (next_pc x 2 pc)))"

definition insn_c_beqz :: insn_fun where "insn_c_beqz = c_branch (\<lambda>a. a = 0)"
definition insn_c_bnez :: insn_fun where "insn_c_bnez = c_branch (\<lambda>a. a \<noteq> 0)"

definition insn_c_ebreak :: insn_fun where
  "insn_c_ebreak x e i pc = bindE (require_extension EXT_ZCA i) (\<lambda>_. insn_ebreak x e i pc)"

definition rvc_r1s :: "insn_t \<Rightarrow> nat" where
  "rvc_r1s i = Sn (unat (x_bits i 7 3))"

definition rvc_r2s :: "insn_t \<Rightarrow> nat" where
  "rvc_r2s i = Sn (unat (x_bits i 2 3))"

definition insn_cm_mva01s :: insn_fun where
  "insn_cm_mva01s x e i pc = bindE (require_extension EXT_ZCMP i) (\<lambda>_.
     bindE (read_reg e i (rvc_r1s i)) (\<lambda>a. bindE (write_reg e i X_A0 a) (\<lambda>_.
     bindE (read_reg e i (rvc_r2s i)) (\<lambda>b. bindE (write_reg e i X_A1 b) (\<lambda>_. return (next_pc x 2 pc))))))"

definition insn_cm_mvsa01 :: insn_fun where
  "insn_cm_mvsa01 x e i pc = bindE (require_extension EXT_ZCMP i) (\<lambda>_.
     bindE (require (x_bits i 7 3 \<noteq> x_bits i 2 3) i) (\<lambda>_.
     bindE (read_reg e i X_A0) (\<lambda>a. bindE (write_reg e i (rvc_r1s i) a) (\<lambda>_.
     bindE (read_reg e i X_A1) (\<lambda>b. bindE (write_reg e i (rvc_r2s i) b) (\<lambda>_. return (next_pc x 2 pc)))))))"

subsection \<open>The instructions of this theory\<close>

text \<open>Each file name of \<open>riscv/insns/\<close> with its instruction.\<close>

definition int_insns :: "(string \<times> insn_fun) list" where
  "int_insns = [
    (''add'', insn_add), (''sub'', insn_sub), (''and'', insn_and), (''or'', insn_or),
    (''xor'', insn_xor), (''sll'', insn_sll), (''srl'', insn_srl), (''sra'', insn_sra),
    (''slt'', insn_slt), (''sltu'', insn_sltu), (''addi'', insn_addi), (''slti'', insn_slti),
    (''sltiu'', insn_sltiu), (''xori'', insn_xori), (''ori'', insn_ori), (''andi'', insn_andi),
    (''slli'', insn_slli), (''srli'', insn_srli), (''srai'', insn_srai), (''addw'', insn_addw),
    (''subw'', insn_subw), (''sllw'', insn_sllw), (''srlw'', insn_srlw), (''sraw'', insn_sraw),
    (''addiw'', insn_addiw), (''slliw'', insn_slliw), (''srliw'', insn_srliw), (''sraiw'', insn_sraiw),
    (''mul'', insn_mul), (''mulh'', insn_mulh), (''mulhu'', insn_mulhu), (''mulhsu'', insn_mulhsu),
    (''mulw'', insn_mulw), (''div'', insn_div), (''divu'', insn_divu), (''rem'', insn_rem),
    (''remu'', insn_remu), (''divw'', insn_divw), (''divuw'', insn_divuw), (''remw'', insn_remw),
    (''remuw'', insn_remuw), (''sh1add'', insn_sh1add), (''sh2add'', insn_sh2add), (''sh3add'', insn_sh3add),
    (''add_uw'', insn_add_uw), (''sh1add_uw'', insn_sh1add_uw), (''sh2add_uw'', insn_sh2add_uw), (''sh3add_uw'', insn_sh3add_uw),
    (''slli_uw'', insn_slli_uw), (''andn'', insn_andn), (''orn'', insn_orn), (''xnor'', insn_xnor),
    (''max'', insn_max), (''min'', insn_min), (''maxu'', insn_maxu), (''minu'', insn_minu),
    (''sext_b'', insn_sext_b), (''sext_h'', insn_sext_h), (''clz'', insn_clz), (''ctz'', insn_ctz),
    (''cpop'', insn_cpop), (''clzw'', insn_clzw), (''ctzw'', insn_ctzw), (''cpopw'', insn_cpopw),
    (''rol'', insn_rol), (''ror'', insn_ror), (''rori'', insn_rori), (''rolw'', insn_rolw),
    (''rorw'', insn_rorw), (''roriw'', insn_roriw), (''bclr'', insn_bclr), (''bset'', insn_bset),
    (''binv'', insn_binv), (''bext'', insn_bext), (''bclri'', insn_bclri), (''bseti'', insn_bseti),
    (''binvi'', insn_binvi), (''bexti'', insn_bexti), (''clmul'', insn_clmul), (''clmulh'', insn_clmulh),
    (''clmulr'', insn_clmulr), (''czero_eqz'', insn_czero_eqz), (''czero_nez'', insn_czero_nez), (''cmix'', insn_cmix),
    (''cmov'', insn_cmov), (''lui'', insn_lui), (''auipc'', insn_auipc), (''jal'', insn_jal),
    (''jalr'', insn_jalr), (''beq'', insn_beq), (''bne'', insn_bne), (''blt'', insn_blt),
    (''bge'', insn_bge), (''bltu'', insn_bltu), (''bgeu'', insn_bgeu), (''c_add'', insn_c_add),
    (''c_addi'', insn_c_addi), (''c_addi4spn'', insn_c_addi4spn), (''c_addw'', insn_c_addw), (''c_and'', insn_c_and),
    (''c_andi'', insn_c_andi), (''c_mul'', insn_c_mul), (''c_mv'', insn_c_mv), (''c_not'', insn_c_not),
    (''c_or'', insn_c_or), (''c_sext_b'', insn_c_sext_b), (''c_sext_h'', insn_c_sext_h), (''c_slli'', insn_c_slli),
    (''c_srai'', insn_c_srai), (''c_srli'', insn_c_srli), (''c_sub'', insn_c_sub), (''c_subw'', insn_c_subw),
    (''c_xor'', insn_c_xor), (''c_zext_b'', insn_c_zext_b), (''c_zext_h'', insn_c_zext_h), (''c_zext_w'', insn_c_zext_w),
    (''c_li'', insn_c_li), (''c_lui'', insn_c_lui), (''c_j'', insn_c_j), (''c_jal'', insn_c_jal),
    (''c_jr'', insn_c_jr), (''c_jalr'', insn_c_jalr), (''c_beqz'', insn_c_beqz), (''c_bnez'', insn_c_bnez),
    (''c_ebreak'', insn_c_ebreak), (''cm_mva01s'', insn_cm_mva01s), (''cm_mvsa01'', insn_cm_mvsa01)]"


end
