(* ===== verification/Int_Exact.thy ===== *)
theory Int_Exact
  imports Insn_Int
begin

text \<open>
  The integer instructions against the instruction set manual: the arithmetic of both widths equals
  the operation on words of that width, and every instruction of \<open>Insn_Int\<close> keeps the registers in
  range and changes nothing else.
\<close>

subsection \<open>Sign extension\<close>

lemma ucast_scast_32 [simp]: "ucast (scast (w :: u32) :: reg_t) = w"
  by (rule bit_word_eqI) (auto simp: bit_simps)

lemma sext32_eq: "sext_xlen 32 v = sext32 v"
proof (rule bit_word_eqI)
  fix n assume "n < LENGTH(64)"
  then show "bit (sext_xlen 32 v) n = bit (sext32 v) n"
    unfolding sext_xlen_def sext32_def by (cases "n = 31") (auto simp: bit_simps min_def)
qed

lemma sext_64 [simp]: "sext_xlen 64 v = v"
  by (simp add: sext_xlen_def)

lemma zext_64 [simp]: "zext_bits 64 v = v"
  by (simp add: zext_bits_def)

lemma zext32_eq: "zext_bits 32 v = zext32 v"
  unfolding zext_bits_def zext32_def
  by (rule bit_word_eqI) (auto simp: bit_simps)

lemma uint_ucast_32: "uint (ucast (w :: reg_t) :: u32) = uint w mod 2 ^ 32"
  by (simp add: unsigned_ucast_eq take_bit_eq_mod)

lemma mod_2p64_2p32: "(k :: int) mod 2 ^ 64 mod 2 ^ 32 = k mod 2 ^ 32"
  by (rule mod_mod_cancel) (simp add: le_imp_power_dvd)

lemma ucast_arith:
  "ucast (a + b :: reg_t) = (ucast a + ucast b :: u32)" "ucast (a - b :: reg_t) = (ucast a - ucast b :: u32)"
  "ucast (a * b :: reg_t) = (ucast a * ucast b :: u32)"
  by (rule unsigned_word_eqI [where 'a = int],
      simp add: uint_ucast_32 uint_word_ariths mod_2p64_2p32 [simplified] mod_simps)+

lemma ucast_bits:
  "ucast (a AND b :: reg_t) = (ucast a AND ucast b :: u32)" "ucast (a OR b :: reg_t) = (ucast a OR ucast b :: u32)"
  "ucast (a XOR b :: reg_t) = (ucast a XOR ucast b :: u32)"
  by (rule bit_word_eqI, auto simp: bit_simps)+

lemma ucast_sext32: "ucast (sext32 v) = (ucast v :: u32)"
  by (simp add: sext32_def)

lemma sint_sext: "sint (scast (w :: u32) :: reg_t) = sint w"
  by (rule sint_up_scast) (simp add: is_up)

lemma uint_zext: "uint (zext32 v) = uint (ucast v :: u32)"
  by (simp add: zext32_def unsigned_ucast_eq unsigned_take_bit_eq)

text \<open>The operations of the base and multiplication sets on words of any length, as the ISA gives them.\<close>

datatype rv_op = ADD | SUB | AND' | OR' | XOR' | SLL | SRL | SRA | SLT | SLTU
  | MUL | MULH | MULHU | MULHSU | DIV | DIVU | REM | REMU

fun rv_ref :: "rv_op \<Rightarrow> 'a::len word \<Rightarrow> 'a word \<Rightarrow> 'a word" where
  "rv_ref ADD a b = a + b"
| "rv_ref SUB a b = a - b"
| "rv_ref AND' a b = a AND b"
| "rv_ref OR' a b = a OR b"
| "rv_ref XOR' a b = a XOR b"
| "rv_ref SLL a b = push_bit (unat b mod LENGTH('a)) a"
| "rv_ref SRL a b = drop_bit (unat b mod LENGTH('a)) a"
| "rv_ref SRA a b = signed_drop_bit (unat b mod LENGTH('a)) a"
| "rv_ref SLT a b = of_bool (sint a < sint b)"
| "rv_ref SLTU a b = of_bool (uint a < uint b)"
| "rv_ref MUL a b = a * b"
| "rv_ref MULH a b = word_of_int (sint a * sint b div 2 ^ LENGTH('a))"
| "rv_ref MULHU a b = word_of_int (uint a * uint b div 2 ^ LENGTH('a))"
| "rv_ref MULHSU a b = word_of_int (sint a * uint b div 2 ^ LENGTH('a))"
| "rv_ref DIV a b = (if b = 0 then - 1 else word_of_int (sint a sdiv sint b))"
| "rv_ref DIVU a b = (if b = 0 then - 1 else word_of_int (uint a div uint b))"
| "rv_ref REM a b = (if b = 0 then a else word_of_int (sint a smod sint b))"
| "rv_ref REMU a b = (if b = 0 then a else word_of_int (uint a mod uint b))"

fun rv_val :: "rv_op \<Rightarrow> nat \<Rightarrow> reg_t \<Rightarrow> reg_t \<Rightarrow> reg_t" where
  "rv_val ADD = val_add" | "rv_val SUB = val_sub" | "rv_val AND' = val_and" | "rv_val OR' = val_or"
| "rv_val XOR' = val_xor" | "rv_val SLL = val_sll" | "rv_val SRL = val_srl" | "rv_val SRA = val_sra"
| "rv_val SLT = val_slt" | "rv_val SLTU = val_sltu" | "rv_val MUL = val_mul" | "rv_val MULH = val_mulh"
| "rv_val MULHU = val_mulhu" | "rv_val MULHSU = val_mulhsu" | "rv_val DIV = val_div" | "rv_val DIVU = val_divu"
| "rv_val REM = val_rem" | "rv_val REMU = val_remu"

lemma unat_mask_mod: "unat (b AND 31 :: reg_t) = unat (ucast b :: u32) mod 32" "unat (b AND 63 :: reg_t) = unat b mod 64"
proof -
  have "b AND 31 = take_bit 5 b" "b AND 63 = take_bit 6 b"
    by (simp_all add: take_bit_eq_mask mask_eq_exp_minus_1)
  then show "unat (b AND 31 :: reg_t) = unat (ucast b :: u32) mod 32" "unat (b AND 63 :: reg_t) = unat b mod 64"
    by (simp_all add: unsigned_take_bit_eq unsigned_ucast_eq take_bit_eq_mod mod_mod_cancel unat_mod_distrib)
qed

lemma sdivide_min: "sdivide INT64_MIN (- 1) = INT64_MIN" "sremainder INT64_MIN (- 1) = 0"
  by (simp_all add: sdivide_def sremainder_def signed_divide_int_def signed_modulo_int_def)

lemma rv_val_64: "rv_val f 64 a b = rv_ref f a b"
proof (cases f)
  case DIV
  then show ?thesis using sdivide_min
    by (simp add: val_div_def Let_def sdivide_def)
next
  case REM
  then show ?thesis using sdivide_min by (simp add: val_rem_def Let_def sremainder_def)
next
  case SLL
  then show ?thesis by (simp add: val_sll_def unat_mask_mod)
next
  case SRL
  then show ?thesis by (simp add: val_srl_def unat_mask_mod)
next
  case SRA
  then show ?thesis by (simp add: val_sra_def unat_mask_mod)
next
  case MULH
  then show ?thesis by (simp add: val_mulh_def mulh_eq)
next
  case MULHU
  then show ?thesis by (simp add: val_mulhu_def uint_mulhu [simplified, symmetric])
next
  case MULHSU
  then show ?thesis by (simp add: val_mulhsu_def mulhsu_eq)
qed (simp_all add: val_add_def val_sub_def val_and_def val_or_def val_xor_def val_slt_def val_sltu_def val_mul_def
    val_divu_def val_remu_def word_sless_alt word_less_def word_div_def word_mod_def)

text \<open>On RV32 a register holds its value sign extended.\<close>

definition canonical :: "nat \<Rightarrow> reg_t \<Rightarrow> bool" where
  "canonical x v \<longleftrightarrow> sext_xlen x v = v"

lemma canonical_64 [simp]: "canonical 64 v"
  by (simp add: canonical_def)

lemma canonical_sext32 [simp]: "canonical 32 (sext32 v)"
  by (simp add: canonical_def sext32_eq) (simp add: sext32_def)

lemma canonical_sext [simp]: "x = 32 \<or> x = 64 \<Longrightarrow> canonical x (sext_xlen x v)"
  by (auto simp: sext32_eq)

lemma canonical_cases: "canonical 32 a \<Longrightarrow> a = scast (ucast a :: u32)"
  by (simp add: canonical_def sext32_eq) (simp add: sext32_def)

lemma canonical_bits: "canonical 32 v \<longleftrightarrow> (\<forall>n. 32 \<le> n \<longrightarrow> n < 64 \<longrightarrow> bit v n = bit v 31)"
proof
  assume "canonical 32 v"
  then have "sext32 v = v" by (simp add: canonical_def sext32_eq)
  moreover have "bit (sext32 v) n = bit v 31" if "32 \<le> n" "n < 64" for n
    using that by (simp add: sext32_def bit_simps min_def)
  ultimately show "\<forall>n. 32 \<le> n \<longrightarrow> n < 64 \<longrightarrow> bit v n = bit v 31" by metis
next
  assume b: "\<forall>n. 32 \<le> n \<longrightarrow> n < 64 \<longrightarrow> bit v n = bit v 31"
  have "sext32 v = v"
  proof (rule bit_word_eqI)
    fix n assume "n < LENGTH(64)"
    then show "bit (sext32 v) n = bit v n"
      using b by (cases "n = 31") (auto simp: sext32_def bit_simps min_def not_le)
  qed
  then show "canonical 32 v" by (simp add: canonical_def sext32_eq)
qed

lemma canonical_bitwise:
  assumes "canonical 32 a" "canonical 32 b"
  shows "canonical 32 (a AND b)" "canonical 32 (a OR b)" "canonical 32 (a XOR b)" "canonical 32 (NOT a)"
proof -
  have x: "bit a n = bit a 31" "bit b n = bit b 31" if "32 \<le> n" "n < 64" for n
    using assms that unfolding canonical_bits by blast+
  show "canonical 32 (a AND b)" unfolding canonical_bits bit_and_iff using x by blast
  show "canonical 32 (a OR b)" unfolding canonical_bits bit_or_iff using x by blast
  show "canonical 32 (a XOR b)" unfolding canonical_bits bit_xor_iff using x by blast
  show "canonical 32 (NOT a)" unfolding canonical_bits using x by (simp add: bit_not_iff)
qed

lemma canonical_small: "canonical 32 0" "canonical 32 1" "canonical 32 (- 1)" "canonical 32 (of_bool b)"
  unfolding canonical_bits by (simp_all add: bit_simps)

lemma mod_neg: "- m \<le> k \<Longrightarrow> k < 0 \<Longrightarrow> k mod m = k + m" for k m :: int
proof -
  assume k: "- m \<le> k" "k < 0"
  have "k mod m = (k + m) mod m" by simp
  also have "\<dots> = k + m" by (rule mod_pos_pos_trivial) (use k in auto)
  finally show ?thesis .
qed

lemma ucast_word_of_int: "ucast (word_of_int k :: reg_t) = (word_of_int k :: u32)"
  by (rule unsigned_word_eqI [where 'a = int])
    (simp add: uint_ucast_32 unsigned_of_int take_bit_eq_mod mod_2p64_2p32 [simplified])

lemma sless_scast: "(scast (a :: u32) :: reg_t) <s scast (b :: u32) \<longleftrightarrow> sint a < sint b"
  by (simp add: word_sless_alt sint_sext)

lemma scast_int: "scast (a :: u32) = (word_of_int (sint a) :: reg_t)"
  by simp

lemma uint_scast: "uint (scast (a :: u32) :: reg_t) = (if sint a < 0 then uint a + (2 ^ 64 - 2 ^ 32) else uint a)"
proof -
  have s: "- (2 ^ 31) \<le> sint a" "sint a < 2 ^ 31" using sint_greater_eq [of a] sint_less [of a] by simp_all
  have "uint a = sint a mod 2 ^ 32" by (simp add: uint_sint take_bit_eq_mod)
  also have "\<dots> = (if sint a < 0 then sint a + 2 ^ 32 else sint a)"
    using s by (auto simp: mod_neg mod_pos_pos_trivial)
  finally have u: "uint a = (if sint a < 0 then sint a + 2 ^ 32 else sint a)" .
  have "uint (scast a :: reg_t) = sint a mod 2 ^ 64" by (simp add: uint_sint take_bit_eq_mod sint_sext)
  also have "\<dots> = (if sint a < 0 then sint a + 2 ^ 64 else sint a)"
    using s by (auto simp: mod_neg mod_pos_pos_trivial)
  finally show ?thesis using u by auto
qed

lemma less_scast: "(scast (a :: u32) :: reg_t) < scast (b :: u32) \<longleftrightarrow> uint a < uint b"
proof -
  have u: "uint w < 2 ^ 31 \<longleftrightarrow> 0 \<le> sint w" "0 \<le> uint w" "uint w < 2 ^ 32" for w :: u32
  proof -
    have s: "- (2 ^ 31) \<le> sint w" "sint w < 2 ^ 31" using sint_greater_eq [of w] sint_less [of w] by simp_all
    have "uint w = sint w mod 2 ^ 32" by (simp add: uint_sint take_bit_eq_mod)
    also have "\<dots> = (if sint w < 0 then sint w + 2 ^ 32 else sint w)"
      using s by (auto simp: mod_neg mod_pos_pos_trivial)
    finally show "uint w < 2 ^ 31 \<longleftrightarrow> 0 \<le> sint w" using s by auto
  qed (use uint_bounded [of w] in simp_all)
  show ?thesis unfolding word_less_def uint_scast using u [of a] u [of b] by auto
qed

lemma sar_32: "ucast (sar (w :: reg_t) 32) = (word_of_int (sint w div 2 ^ 32) :: u32)"
proof -
  have "sar w 32 = word_of_int (sint w div 2 ^ 32)"
  proof -
    have "sar w 32 = word_of_int (sint (sar w 32))" by simp
    then show ?thesis by (simp only: sint_signed_drop_bit_eq drop_bit_eq_div)
  qed
  then show ?thesis by (simp only: ucast_word_of_int)
qed

lemma shr_32: "ucast (shr (w :: reg_t) 32) = (word_of_int (sint w div 2 ^ 32) :: u32)"
proof -
  have "ucast (shr w 32) = (ucast (sar w 32) :: u32)" by (rule bit_word_eqI) (auto simp: bit_simps min_def)
  then show ?thesis by (simp only: sar_32)
qed

lemma product_range:
  fixes a b :: int
  assumes "- (2 ^ 31) \<le> a" "a < 2 ^ 32" "- (2 ^ 31) \<le> b" "b < 2 ^ 31 \<or> 0 \<le> b \<and> b < 2 ^ 32" "a < 2 ^ 31"
  shows "- (2 ^ 63) \<le> a * b" "a * b < 2 ^ 63"
proof -
  have "\<bar>a\<bar> \<le> 2 ^ 31" "\<bar>b\<bar> \<le> 2 ^ 32 - 1" using assms by auto
  then have "\<bar>a * b\<bar> \<le> 2 ^ 31 * (2 ^ 32 - 1)" unfolding abs_mult by (rule mult_mono) simp_all
  then show "- (2 ^ 63) \<le> a * b" "a * b < 2 ^ 63" by auto
qed

lemma sint_product:
  fixes a b :: int
  assumes "- (2 ^ 63) \<le> a * b" "a * b < 2 ^ 63"
  shows "sint (word_of_int a * word_of_int b :: reg_t) = a * b"
proof -
  have "word_of_int a * word_of_int b = (word_of_int (a * b) :: reg_t)" by simp
  moreover have "sint (word_of_int (a * b) :: reg_t) = a * b"
    by (rule fits_sint_of_int) (use assms in \<open>simp add: fits_signed_def smin_def smax_def\<close>)
  ultimately show ?thesis by simp
qed

lemma sint_32: "- (2 ^ 31) \<le> sint (w :: u32)" "sint w < 2 ^ 31"
  using sint_greater_eq [of w] sint_less [of w] by simp_all

lemma uint_32: "0 \<le> uint (w :: u32)" "uint w < 2 ^ 32"
  using uint_bounded [of w] by simp_all

lemma zext_scast: "zext32 (scast (a :: u32)) = word_of_int (uint a)" "zext_bits 32 (scast (a :: u32)) = word_of_int (uint a)"
  by (simp_all add: zext32_eq zext32_def)

lemma ucast_neg1 [simp]: "ucast (- 1 :: reg_t) = (- 1 :: u32)"
  by (rule bit_word_eqI) (simp add: bit_simps)

lemma scast_eq_0: "scast (b :: u32) = (0 :: reg_t) \<longleftrightarrow> b = 0"
  by (metis ucast_scast_32 scast_0 unsigned_0)

lemma scast_not_min: "scast (a :: u32) \<noteq> INT64_MIN"
proof
  assume "scast a = INT64_MIN"
  then have "sint (scast a :: reg_t) = sint INT64_MIN" by simp
  then show False using sint_32 [of a] by (simp add: sint_sext)
qed

lemma uint_of_32: "uint (word_of_int (uint (a :: u32)) :: reg_t) = uint a"
  using uint_32 [of a] by (simp add: unsigned_ucast_eq take_bit_int_eq_self)

lemma uint_ucast_up: "uint (ucast (a :: u32) :: reg_t) = uint a" "ucast a = (0 :: reg_t) \<longleftrightarrow> a = 0"
proof -
  show u: "uint (ucast (a :: u32) :: reg_t) = uint a" using uint_of_32 [of a] by simp
  show "ucast a = (0 :: reg_t) \<longleftrightarrow> a = 0" using u by (metis unsigned_0 unsigned_word_eqI)
qed

lemma sext32_not_min: "sext32 a \<noteq> INT64_MIN"
  unfolding sext32_def by (rule scast_not_min)

lemma rv_val_32_scast: "ucast (rv_val f 32 (scast a) (scast b)) = rv_ref f a (b :: u32)"
proof (cases f)
  case ADD then show ?thesis by (simp add: val_add_def sext32_eq ucast_sext32 ucast_arith)
next
  case SUB then show ?thesis by (simp add: val_sub_def sext32_eq ucast_sext32 ucast_arith)
next
  case AND' then show ?thesis by (simp add: val_and_def ucast_bits)
next
  case OR' then show ?thesis by (simp add: val_or_def ucast_bits)
next
  case XOR' then show ?thesis by (simp add: val_xor_def ucast_bits)
next
  case SLL then show ?thesis
    by (simp add: val_sll_def sext32_eq ucast_sext32 unat_mask_mod) (rule bit_word_eqI, auto simp: bit_simps)
next
  case SRL then show ?thesis
    by (simp add: val_srl_def sext32_eq zext32_eq ucast_sext32 unat_mask_mod zext32_def) (rule bit_word_eqI, auto simp: bit_simps)
next
  case SRA
  have "ucast (sar (scast a :: reg_t) n) = sar a n" for n
  proof (rule bit_word_eqI)
    fix k assume "k < LENGTH(32)"
    then show "bit (ucast (sar (scast a :: reg_t) n) :: u32) k = bit (sar a n) k"
      by (cases "n + k = 31") (auto simp: bit_simps min_def)
  qed
  then show ?thesis using SRA by (simp add: val_sra_def sext32_eq ucast_sext32 unat_mask_mod) (simp add: sext32_def)
next
  case SLT then show ?thesis by (cases "sint a < sint b") (simp_all add: val_slt_def sless_scast)
next
  case SLTU then show ?thesis by (cases "uint a < uint b") (simp_all add: val_sltu_def less_scast)
next
  case MUL then show ?thesis by (simp add: val_mul_def sext32_eq ucast_sext32 ucast_arith)
next
  case MULH
  have "sint (scast a * scast b :: reg_t) = sint a * sint b"
    unfolding scast_int using product_range [of "sint a" "sint b"] sint_32 [of a] sint_32 [of b]
    by (intro sint_product) auto
  then show ?thesis using MULH by (simp add: val_mulh_def ucast_sext32 sar_32 [simplified]) (simp add: sext32_def sar_32 [simplified])
next
  case MULHU
  have p: "0 \<le> uint a * uint b" "uint a * uint b < 2 ^ 64"
    using uint_32 [of a] uint_32 [of b] mult_strict_mono [of "uint a" "2 ^ 32" "uint b" "2 ^ 32"] by auto
  have "shr (word_of_int (uint a) * word_of_int (uint b) :: reg_t) 32 = word_of_int (uint a * uint b div 2 ^ 32)"
  proof -
    have "uint (word_of_int (uint a) * word_of_int (uint b) :: reg_t) = uint a * uint b"
      unfolding uint_word_ariths uint_of_32 by (rule mod_pos_pos_trivial) (use p in simp_all)
    moreover have "shr w 32 = word_of_int (uint w div 2 ^ 32)" for w :: reg_t
    proof -
      have "uint (shr w 32) = uint w div 2 ^ 32"
        using uint_bounded [of w] unfolding unsigned_drop_bit_eq by (simp add: drop_bit_eq_div take_bit_int_eq_self)
      then show ?thesis by (metis word_of_int_uint)
    qed
    ultimately show ?thesis by metis
  qed
  then show ?thesis using MULHU by (simp add: val_mulhu_def ucast_sext32 zext_scast ucast_word_of_int)
next
  case MULHSU
  have "sint (scast a * zext32 (scast b) :: reg_t) = sint a * uint b"
    unfolding zext_scast unfolding scast_int using product_range [of "sint a" "uint b"] sint_32 [of a] uint_32 [of b]
    by (intro sint_product) auto
  then show ?thesis using MULHSU by (simp add: val_mulhsu_def ucast_sext32) (simp add: sext32_def shr_32 [simplified])
next
  case DIV then show ?thesis
    by (simp add: val_div_def Let_def sext32_eq ucast_sext32) (simp add: sext32_def scast_eq_0 scast_not_min sdivide_def sint_sext ucast_word_of_int)
next
  case DIVU then show ?thesis
    by (simp add: val_divu_def Let_def sext32_eq ucast_sext32 zext_scast uint_of_32) (simp add: word_div_def uint_ucast_up ucast_word_of_int)
next
  case REM then show ?thesis
    by (simp add: val_rem_def Let_def sext32_eq ucast_sext32) (simp add: sext32_def scast_eq_0 scast_not_min sremainder_def sint_sext ucast_word_of_int)
next
  case REMU then show ?thesis
    by (simp add: val_remu_def Let_def sext32_eq ucast_sext32 zext_scast uint_of_32) (simp add: word_mod_def uint_ucast_up ucast_word_of_int)
qed


text \<open>The result is canonical again.\<close>

lemma rv_val_canonical: "canonical 32 a \<Longrightarrow> canonical 32 b \<Longrightarrow> canonical 32 (rv_val f 32 a b)"
  by (cases f) (simp_all add: val_add_def val_sub_def val_and_def val_or_def val_xor_def val_sll_def val_srl_def
      val_sra_def val_slt_def val_sltu_def val_mul_def val_mulh_def val_mulhu_def val_mulhsu_def val_div_def
      val_divu_def val_rem_def val_remu_def Let_def canonical_bitwise canonical_small sext32_eq sext32_not_min)

text \<open>
  C12. The integer operations compute, on registers holding sign-extended values on RV32 and on full
  registers on RV64, the operation of the instruction set manual at that width: the 64-bit host
  arithmetic, the shift amounts, the high products, and division by zero and overflow included. An
  RV32 result is sign extended again.
\<close>

theorem integer_ops_exact:
  "rv_val f 64 a b = rv_ref f a b \<and>
   (canonical 32 a \<and> canonical 32 b \<longrightarrow>
     ucast (rv_val f 32 a b) = rv_ref f (ucast a) (ucast b :: u32) \<and> canonical 32 (rv_val f 32 a b))"
proof (intro conjI impI)
  show "rv_val f 64 a b = rv_ref f a b" by (rule rv_val_64)
  assume c: "canonical 32 a \<and> canonical 32 b"
  then have "a = scast (ucast a :: u32)" "b = scast (ucast b :: u32)" by (auto dest: canonical_cases)
  then show "ucast (rv_val f 32 a b) = rv_ref f (ucast a) (ucast b :: u32)"
    using rv_val_32_scast [of f "ucast a" "ucast b"] by metis
  show "canonical 32 (rv_val f 32 a b)" using c by (simp add: rv_val_canonical)
qed

lemma integer_ops_exact_witness:
  "ucast (rv_val MULH 32 0xffffffff80000000 0xffffffff80000000) = (0x40000000 :: u32) \<and>
   ucast (rv_val DIV 32 0xffffffff80000000 (- 1)) = (0x80000000 :: u32) \<and> rv_val REM 64 7 0 = 7"
proof -
  have c: "canonical 32 0xffffffff80000000" "canonical 32 (- 1)"
    by (simp_all add: canonical_small) (simp add: canonical_def sext32_eq sext32_def)
  have u: "ucast (0xffffffff80000000 :: reg_t) = (0x80000000 :: u32)" by simp
  show ?thesis
    using integer_ops_exact [of MULH "0xffffffff80000000" "0xffffffff80000000"]
      integer_ops_exact [of DIV "0xffffffff80000000" "- 1"] integer_ops_exact [of REM 7 0] c
    by (simp add: u signed_divide_int_def)
qed

subsection \<open>Registers stay in range\<close>

definition regs_ok :: "nat \<Rightarrow> hart \<Rightarrow> bool" where
  "regs_ok x h \<longleftrightarrow> regfile_read (XPR h) 0 = 0 \<and> (\<forall>r. canonical x (regfile_read (XPR h) r))"

text \<open>What a computation may rely on and has to give: values read are canonical, values written too.\<close>

definition reg_safe :: "nat \<Rightarrow> (hart, exn, 'a) comp \<Rightarrow> ('a \<Rightarrow> bool) \<Rightarrow> bool" where
  "reg_safe x m Q \<longleftrightarrow> (\<forall>h. regs_ok x h \<longrightarrow> regs_ok x (snd (m h)) \<and>
     snd (m h) = h\<lparr>XPR := XPR (snd (m h))\<rparr> \<and> (\<forall>v. fst (m h) = Inr v \<longrightarrow> Q v))"

lemma safe_bind:
  assumes "reg_safe x m Q" "\<And>v. Q v \<Longrightarrow> reg_safe x (f v) R"
  shows "reg_safe x (bindE m f) R"
proof -
  { fix h assume h: "regs_ok x h"
    obtain r k where m: "m h = (r, k)" by (cases "m h")
    have k: "regs_ok x k" "k = h\<lparr>XPR := XPR k\<rparr>" "\<And>v. r = Inr v \<Longrightarrow> Q v"
      using assms(1) h m by (auto simp: reg_safe_def dest!: spec [of _ h])
    have "regs_ok x (snd (bindE m f h)) \<and> snd (bindE m f h) = h\<lparr>XPR := XPR (snd (bindE m f h))\<rparr> \<and>
      (\<forall>v. fst (bindE m f h) = Inr v \<longrightarrow> R v)"
    proof (cases r)
      case (Inl e)
      then show ?thesis using m k by (simp add: bindE_def)
    next
      case (Inr v)
      have "snd (f v k) = k\<lparr>XPR := XPR (snd (f v k))\<rparr>" "regs_ok x (snd (f v k))" "\<And>w. fst (f v k) = Inr w \<Longrightarrow> R w"
        using assms(2) [of v] k Inr by (auto simp: reg_safe_def dest!: spec [of _ k])
      moreover from this(1) k(2) have "snd (f v k) = h\<lparr>XPR := XPR (snd (f v k))\<rparr>"
        by (cases h; cases k; cases "snd (f v k)") simp
      ultimately show ?thesis using m Inr by (simp add: bindE_def)
    qed }
  then show ?thesis by (simp add: reg_safe_def)
qed

lemma safe_check: "reg_safe x (require b i) (\<lambda>_. True)" "reg_safe x (require_extension s i) (\<lambda>_. True)"
  "reg_safe x (require_either_extension s t i) (\<lambda>_. True)" "reg_safe x (require_rv64 y i) (\<lambda>_. True)"
  by (simp_all add: reg_safe_def require_def require_extension_def require_either_extension_def require_rv64_def
      illegal_def return_def throw_def)

lemma safe_return: "Q v \<Longrightarrow> reg_safe x (return v) Q"
  by (simp add: reg_safe_def return_def)

lemma safe_throw: "reg_safe x (throw v) Q"
  by (simp add: reg_safe_def throw_def)

lemma safe_read: "reg_safe x (read_reg e i r) (canonical x)"
  by (auto simp: reg_safe_def read_reg_def require_def illegal_def monad_simps regs_ok_def)

lemma safe_write: "canonical x v \<Longrightarrow> reg_safe x (write_reg e i r v) (\<lambda>_. True)"
  by (auto simp: reg_safe_def write_reg_def require_def illegal_def monad_simps regs_ok_def
      regfile_read_def regfile_write_def)

lemma safe_if: "(b \<Longrightarrow> reg_safe x m Q) \<Longrightarrow> (\<not> b \<Longrightarrow> reg_safe x n Q) \<Longrightarrow> reg_safe x (if b then m else n) Q"
  by simp

lemma safe_set_pc: "x = 32 \<or> x = 64 \<Longrightarrow> reg_safe x (set_pc x v) (canonical x)"
  by (auto simp: reg_safe_def set_pc_def check_pc_alignment_def monad_simps)

lemma canonical_next: "x = 32 \<or> x = 64 \<Longrightarrow> canonical x (next_pc x n pc)"
  by (simp add: next_pc_def)

lemma safe_weaken: "reg_safe x m Q \<Longrightarrow> (\<And>v. Q v \<Longrightarrow> R v) \<Longrightarrow> reg_safe x m R"
  by (auto simp: reg_safe_def)

definition safe_checks :: "(nat \<Rightarrow> insn_t \<Rightarrow> (hart, exn, unit) comp) \<Rightarrow> bool" where
  "safe_checks req \<longleftrightarrow> (\<forall>x y i. reg_safe y (req x i) (\<lambda>_. True))"

definition insn_safe :: "insn_fun \<Rightarrow> bool" where
  "insn_safe f \<longleftrightarrow> (\<forall>x e i pc. x = 32 \<or> x = 64 \<longrightarrow> reg_safe x (f x e i pc) (canonical x))"

lemma insn_safeI: "(\<And>x e i pc. x = 32 \<or> x = 64 \<Longrightarrow> reg_safe x (f x e i pc) (canonical x)) \<Longrightarrow> insn_safe f"
  by (simp add: insn_safe_def)

lemma safe_write_next:
  "x = 32 \<or> x = 64 \<Longrightarrow> canonical x v \<Longrightarrow> reg_safe x (bindE (write_reg e i r v) (\<lambda>_. return (next_pc x n pc))) (canonical x)"
  by (rule safe_bind [OF safe_write], assumption, rule safe_return, rule canonical_next)

lemma safe_ri:
  assumes r: "safe_checks req" and f: "\<And>i a. canonical 32 a \<Longrightarrow> canonical 32 (f 32 i a)"
  shows "insn_safe (alu_ri req f)" "insn_safe (c_alu1 req d s f)"
proof -
  have f': "canonical x (f x i a)" if "x = 32 \<or> x = 64" "canonical x a" for x i a using f that by auto
  have q: "reg_safe y (req x i) (\<lambda>_. True)" for x y i using r by (simp add: safe_checks_def)
  show "insn_safe (alu_ri req f)"
    by (rule insn_safeI, unfold alu_ri_def RS1_def WRITE_RD_def, rule safe_bind [OF q], rule safe_bind [OF safe_read],
        rule safe_write_next, assumption, rule f')
  show "insn_safe (c_alu1 req d s f)"
    by (rule insn_safeI, unfold c_alu1_def, rule safe_bind [OF q], rule safe_bind [OF safe_read],
        rule safe_write_next, assumption, rule f')
qed

lemma safe_rr:
  assumes r: "safe_checks req" and f: "\<And>a b. canonical 32 a \<Longrightarrow> canonical 32 b \<Longrightarrow> canonical 32 (f 32 a b)"
  shows "insn_safe (alu_rr req f)"
proof -
  have f': "canonical x (f x a b)" if "x = 32 \<or> x = 64" "canonical x a" "canonical x b" for x a b using f that by auto
  have q: "reg_safe y (req x i) (\<lambda>_. True)" for x y i using r by (simp add: safe_checks_def)
  show ?thesis
    by (rule insn_safeI, unfold alu_rr_def RS1_def RS2_def WRITE_RD_def, rule safe_bind [OF q], rule safe_bind [OF safe_read],
        rule safe_bind [OF safe_read], rule safe_write_next, assumption, rule f')
qed

lemma safe_c2:
  assumes r: "safe_checks req" and f: "\<And>i a b. canonical 32 a \<Longrightarrow> canonical 32 b \<Longrightarrow> canonical 32 (f 32 i a b)"
  shows "insn_safe (c_alu2 req d s t f)"
proof -
  have f': "canonical x (f x i a b)" if "x = 32 \<or> x = 64" "canonical x a" "canonical x b" for x i a b using f that by auto
  have q: "reg_safe y (req x i) (\<lambda>_. True)" for x y i using r by (simp add: safe_checks_def)
  show ?thesis
    by (rule insn_safeI, unfold c_alu2_def, rule safe_bind [OF q], rule safe_bind [OF safe_read],
        rule safe_bind [OF safe_read], rule safe_write_next, assumption, rule f')
qed

lemma safe_rrr:
  assumes r: "safe_checks req"
    and f: "\<And>a b c. canonical 32 a \<Longrightarrow> canonical 32 b \<Longrightarrow> canonical 32 c \<Longrightarrow> canonical 32 (f 32 a b c)"
  shows "insn_safe (alu_rrr req f)"
proof -
  have f': "canonical x (f x a b c)" if "x = 32 \<or> x = 64" "canonical x a" "canonical x b" "canonical x c" for x a b c
    using f that by auto
  have q: "reg_safe y (req x i) (\<lambda>_. True)" for x y i using r by (simp add: safe_checks_def)
  show ?thesis
    by (rule insn_safeI, unfold alu_rrr_def RS1_def RS2_def RS3_def WRITE_RD_def, rule safe_bind [OF q],
        rule safe_bind [OF safe_read], rule safe_bind [OF safe_read], rule safe_bind [OF safe_read],
        rule safe_write_next, assumption, rule f')
qed

lemma safe_branches: "insn_safe (branch_if c)" "insn_safe (c_branch c')"
proof -
  show "insn_safe (branch_if c)"
    by (rule insn_safeI, unfold branch_if_def RS1_def RS2_def, rule safe_bind [OF safe_read], rule safe_bind [OF safe_read],
        rule safe_if, rule safe_set_pc, assumption, rule safe_return, rule canonical_next)
  show "insn_safe (c_branch c')"
    by (rule insn_safeI, unfold c_branch_def, rule safe_bind [OF safe_check(2)], rule safe_bind [OF safe_read],
        rule safe_if, rule safe_set_pc, assumption, rule safe_return, rule canonical_next)
qed

lemma safe_checks_bind:
  assumes "\<And>x y i. reg_safe y (p x i) (\<lambda>_. True)" "\<And>x y i. reg_safe y (q x i) (\<lambda>_. True)"
  shows "\<And>x y i. reg_safe y (bindE (p x i) (\<lambda>_. q x i)) (\<lambda>_. True)"
  by (rule safe_bind [OF assms(1)], rule assms(2))

lemma safe_checksI: "(\<And>x y i. reg_safe y (req x i) (\<lambda>_. True)) \<Longrightarrow> safe_checks req"
  by (simp add: safe_checks_def)

lemma canonical_imm: "canonical 32 (i_imm b)" "canonical 32 (u_imm b)" "canonical 32 (rvc_imm b)"
  "canonical 32 (shl (rvc_imm b) 12)" "canonical 32 (scast (w8 :: u8))" "canonical 32 (scast (w16 :: u16))"
  "canonical 32 (ucast (w8 :: u8))" "canonical 32 (ucast (w16 :: u16))"
  unfolding canonical_bits by (auto simp: i_imm_bits u_imm_bits rvc_imm_bits bit_simps min_def dest: bit_imp_le_length)

lemmas val_defs =
  val_add_def val_sub_def val_and_def val_or_def val_xor_def val_sll_def val_srl_def val_sra_def val_slt_def
  val_sltu_def val_addi_def val_slti_def val_sltiu_def val_xori_def val_ori_def val_andi_def val_slli_def
  val_srli_def val_srai_def val_addw_def val_subw_def val_sllw_def val_srlw_def val_sraw_def val_addiw_def
  val_slliw_def val_srliw_def val_sraiw_def val_mul_def val_mulh_def val_mulhu_def val_mulhsu_def val_mulw_def
  val_div_def val_divu_def val_rem_def val_remu_def val_divw_def val_divuw_def val_remw_def val_remuw_def
  val_sh1add_def val_sh2add_def val_sh3add_def val_add_uw_def val_sh1add_uw_def val_sh2add_uw_def val_sh3add_uw_def
  val_slli_uw_def val_andn_def val_orn_def val_xnor_def val_max_def val_min_def val_maxu_def val_minu_def
  val_sext_b_def val_sext_h_def val_clz_def val_ctz_def val_cpop_def val_clzw_def val_ctzw_def val_cpopw_def
  val_rol_def val_ror_def val_rori_def val_rolw_def val_rorw_def val_roriw_def val_bclr_def val_bset_def
  val_binv_def val_bext_def val_bclri_def val_bseti_def val_binvi_def val_bexti_def val_clmul_def val_clmulh_def
  val_clmulr_def val_czero_eqz_def val_czero_nez_def val_cmix_def val_cmov_def

lemmas int_insn_defs =
  insn_add_def insn_sub_def insn_and_def insn_or_def insn_xor_def insn_sll_def insn_srl_def insn_sra_def
  insn_slt_def insn_sltu_def insn_addi_def insn_slti_def insn_sltiu_def insn_xori_def insn_ori_def insn_andi_def
  insn_slli_def insn_srli_def insn_srai_def insn_addw_def insn_subw_def insn_sllw_def insn_srlw_def insn_sraw_def
  insn_addiw_def insn_slliw_def insn_srliw_def insn_sraiw_def insn_mul_def insn_mulh_def insn_mulhu_def
  insn_mulhsu_def insn_mulw_def insn_div_def insn_divu_def insn_rem_def insn_remu_def insn_divw_def insn_divuw_def
  insn_remw_def insn_remuw_def insn_sh1add_def insn_sh2add_def insn_sh3add_def insn_add_uw_def insn_sh1add_uw_def
  insn_sh2add_uw_def insn_sh3add_uw_def insn_slli_uw_def insn_andn_def insn_orn_def insn_xnor_def insn_max_def
  insn_min_def insn_maxu_def insn_minu_def insn_sext_b_def insn_sext_h_def insn_clz_def insn_ctz_def insn_cpop_def
  insn_clzw_def insn_ctzw_def insn_cpopw_def insn_rol_def insn_ror_def insn_rori_def insn_rolw_def insn_rorw_def
  insn_roriw_def insn_bclr_def insn_bset_def insn_binv_def insn_bext_def insn_bclri_def insn_bseti_def
  insn_binvi_def insn_bexti_def insn_clmul_def insn_clmulh_def insn_clmulr_def insn_czero_eqz_def
  insn_czero_nez_def insn_cmix_def insn_cmov_def insn_beq_def insn_bne_def insn_blt_def insn_bge_def insn_bltu_def
  insn_bgeu_def insn_c_add_def insn_c_addi_def insn_c_addi4spn_def insn_c_addw_def insn_c_and_def insn_c_andi_def
  insn_c_mul_def insn_c_mv_def insn_c_not_def insn_c_or_def insn_c_sext_b_def insn_c_sext_h_def insn_c_slli_def
  insn_c_srai_def insn_c_srli_def insn_c_sub_def insn_c_subw_def insn_c_xor_def insn_c_zext_b_def insn_c_zext_h_def
  insn_c_beqz_def insn_c_bnez_def

lemma rv64_stops: "x \<noteq> 64 \<Longrightarrow> require_rv64 x i h = (Inl (Trap (trap_illegal_instruction i)), h)"
  by (simp add: require_rv64_def require_def illegal_def throw_def)

lemma safe_special: "insn_safe insn_lui" "insn_safe insn_auipc" "insn_safe insn_jal" "insn_safe insn_jalr"
  "insn_safe insn_c_li" "insn_safe insn_c_lui" "insn_safe insn_c_j" "insn_safe insn_c_jal" "insn_safe insn_c_jr"
  "insn_safe insn_c_jalr" "insn_safe insn_c_ebreak" "insn_safe insn_cm_mva01s" "insn_safe insn_cm_mvsa01"
  "insn_safe insn_c_zext_w"
proof -
  have i: "canonical x (u_imm b)" "canonical x (rvc_imm b)" "canonical x (shl (rvc_imm b) 12)" "canonical x (sext32 v)"
    if "x = 32 \<or> x = 64" for x b v using that canonical_imm by auto
  note chain = safe_bind [OF safe_read] safe_bind [OF safe_check(1)] safe_bind [OF safe_check(2)] safe_if
  have jump: "reg_safe x (bindE (set_pc x v) (\<lambda>npc. bindE (write_reg e k r (next_pc x n pc)) (\<lambda>_. return npc))) (canonical x)"
    if "x = 32 \<or> x = 64" for x v e k r n pc
    by (rule safe_bind [OF safe_set_pc [OF that]], rule safe_bind [OF safe_write], rule canonical_next [OF that], rule safe_return)
  show "insn_safe insn_lui"
    by (rule insn_safeI, unfold insn_lui_def WRITE_RD_def, rule safe_write_next, assumption, rule i)
  show "insn_safe insn_auipc"
    by (rule insn_safeI, unfold insn_auipc_def WRITE_RD_def, rule safe_write_next, assumption, simp)
  show "insn_safe insn_jal" by (rule insn_safeI, unfold insn_jal_def WRITE_RD_def, rule jump)
  show "insn_safe insn_jalr"
    by (rule insn_safeI, unfold insn_jalr_def WRITE_RD_def RS1_def, rule safe_bind [OF safe_read], rule jump)
  show "insn_safe insn_c_li"
    by (rule insn_safeI, unfold insn_c_li_def WRITE_RD_def, rule chain, rule safe_write_next, assumption, simp add: i)
  show "insn_safe insn_c_lui"
    by (rule insn_safeI, unfold insn_c_lui_def WRITE_RD_def, rule chain, rule chain, rule chain, rule chain,
        rule safe_write_next, assumption, simp, rule chain, rule safe_write_next, assumption, simp add: i)
  show "insn_safe insn_c_j" by (rule insn_safeI, unfold insn_c_j_def, rule chain, rule safe_set_pc)
  show "insn_safe insn_c_jal"
    by (rule insn_safeI, unfold insn_c_jal_def WRITE_RD_def, rule chain, rule chain, rule jump, assumption,
        rule chain, rule chain, rule safe_write_next, assumption, simp add: i)
  show "insn_safe insn_c_jr" by (rule insn_safeI, unfold insn_c_jr_def, rule chain, rule chain, rule chain, rule safe_set_pc)
  show "insn_safe insn_c_jalr" by (rule insn_safeI, unfold insn_c_jalr_def, rule chain, rule chain, rule chain, rule jump)
  show "insn_safe insn_c_ebreak"
    by (rule insn_safeI, unfold insn_c_ebreak_def, rule chain) (auto simp: insn_ebreak_def reg_safe_def throw_def)
  show "insn_safe insn_cm_mva01s"
    by (rule insn_safeI, unfold insn_cm_mva01s_def,
        (rule chain safe_bind [OF safe_write] safe_return canonical_next | assumption)+)
  show "insn_safe insn_c_zext_w"
  proof (rule insn_safeI)
    fix x e i pc assume x: "x = 32 \<or> x = (64 :: nat)"
    show "reg_safe x (insn_c_zext_w x e i pc) (canonical x)"
    proof (cases "x = 64")
      case True
      then show ?thesis
        unfolding insn_c_zext_w_def c_alu1_def
        by (auto intro!: safe_bind [OF safe_bind [OF safe_check(2) safe_bind [OF safe_check(2) safe_check(4)]]]
            safe_bind [OF safe_read] safe_write_next)
    next
      case False
      then show ?thesis
        unfolding insn_c_zext_w_def c_alu1_def
        by (auto simp: reg_safe_def bindE_def rv64_stops require_extension_def require_def illegal_def return_def throw_def)
    qed
  qed
  show "insn_safe insn_cm_mvsa01"
    by (rule insn_safeI, unfold insn_cm_mvsa01_def,
        (rule chain safe_bind [OF safe_write] safe_return canonical_next | assumption)+)
qed

lemma int_insns_safe: "\<forall>f \<in> snd ` set int_insns. insn_safe f"
proof -
  have c: "safe_checks (\<lambda>x i. return ())" "safe_checks (\<lambda>x i. require_extension (s x) i)"
    "safe_checks (\<lambda>x i. require_either_extension (s x) t i)" "safe_checks (\<lambda>x i. require_rv64 x i)"
    "safe_checks (\<lambda>x i. require (q x i) i)" for s t q
    by (rule safe_checksI, rule safe_return safe_check, simp?)+
  have b: "safe_checks p \<Longrightarrow> safe_checks q \<Longrightarrow> safe_checks (\<lambda>x i. bindE (p x i) (\<lambda>_. q x i))" for p q
    unfolding safe_checks_def by (blast intro: safe_bind)
  show ?thesis
    unfolding int_insns_def
    apply (simp only: list.set image_insert image_empty snd_conv ball_simps simp_thms)
    apply (intro conjI safe_special; (unfold int_insn_defs)?)
    apply ((rule safe_branches | rule safe_rr safe_ri safe_c2 safe_rrr, (intro b c; fail)),
      (simp add: val_defs Let_def canonical_bitwise canonical_small canonical_imm sext32_eq sext32_not_min; fail)?)+
    done
qed


text \<open>
  C13. Every integer instruction, on either width, changes nothing of the hart but its integer
  registers, leaves \<open>x0\<close> zero and every register in range for the width (sign extended from 32 bits
  on RV32), and continues at an address in range.
\<close>

theorem integer_insns_confined:
  assumes "(name, f) \<in> set int_insns" "x = 32 \<or> x = 64" "regs_ok x h" "f x e i pc h = (r, h')"
  shows "regs_ok x h' \<and> h' = h\<lparr>XPR := XPR h'\<rparr> \<and> (\<forall>npc. r = Inr npc \<longrightarrow> canonical x npc)"
proof -
  have "insn_safe f" using int_insns_safe assms(1) by force
  then have "reg_safe x (f x e i pc) (canonical x)" using assms(2) unfolding insn_safe_def by blast
  then show ?thesis using assms(3,4) unfolding reg_safe_def by (metis fst_conv snd_conv)
qed

lemma integer_insns_confined_witness:
  "\<exists>r h'. insn_add 32 False 0x00a50533 0x1000 (demo_hart\<lparr>XPR := (\<lambda>r. if r = 10 then 0x7fffffff else 0)\<rparr>) = (r, h') \<and>
     regs_ok 32 h'"
proof -
  let ?h = "demo_hart\<lparr>XPR := (\<lambda>r. if r = 10 then 0x7fffffff else 0)\<rparr>"
  have m: "(''add'', insn_add) \<in> set int_insns" by (simp add: int_insns_def)
  have "canonical 32 0x7fffffff" by (simp add: canonical_def sext32_eq sext32_def)
  then have k: "regs_ok 32 ?h" by (simp add: regs_ok_def regfile_read_def canonical_small)
  obtain r h' where w: "insn_add 32 False 0x00a50533 0x1000 ?h = (r, h')" by (cases "insn_add 32 False 0x00a50533 0x1000 ?h")
  show ?thesis using integer_insns_confined [OF m _ k w] w by auto
qed

end
