(* ===== verification/Decoder.thy ===== *)
theory Decoder
  imports Insn "HOL-Library.Multiset" "HOL-Library.Product_Lexorder"
begin

text \<open>
  The instruction decoder of \<open>riscv/processor.cc\<close>: the table of descriptions, its order, the linear
  search that moves an entry to the front, and the cache of decoded words. The eight functions of a
  description are an argument; \<open>None\<close> is an access outside the table.
\<close>

subsection \<open>Descriptions\<close>

record 'f insn_desc =
  d_match :: reg_t
  d_mask :: reg_t
  fast_rv32i :: 'f
  fast_rv64i :: 'f
  fast_rv32e :: 'f
  fast_rv64e :: 'f
  logged_rv32i :: 'f
  logged_rv64i :: 'f
  logged_rv32e :: 'f
  logged_rv64e :: 'f

definition desc_func :: "nat \<Rightarrow> bool \<Rightarrow> bool \<Rightarrow> 'f insn_desc \<Rightarrow> 'f" where
  "desc_func xlen rve logged d =
     (if logged then
        (if rve then (if xlen = 64 then logged_rv64e d else logged_rv32e d)
         else (if xlen = 64 then logged_rv64i d else logged_rv32i d))
      else
        (if rve then (if xlen = 64 then fast_rv64e d else fast_rv32e d)
         else (if xlen = 64 then fast_rv64i d else fast_rv32i d)))"

definition desc_illegal :: "'f \<Rightarrow> 'f insn_desc" where
  "desc_illegal ill = \<lparr>d_match = 0, d_mask = 0, fast_rv32i = ill, fast_rv64i = ill, fast_rv32e = ill, fast_rv64e = ill,
     logged_rv32i = ill, logged_rv64i = ill, logged_rv32e = ill, logged_rv64e = ill\<rparr>"

definition illegal_instruction :: "insn_t \<Rightarrow> reg_t \<Rightarrow> (hart, exn, reg_t) comp" where
  "illegal_instruction i pc = throw (Trap (trap_illegal_instruction (i AND 0xffffffff)))"

subsection \<open>The table\<close>

record 'f decoder =
  instructions :: "'f insn_desc list"
  opcode_cache :: "nat \<Rightarrow> 'f insn_desc"

abbreviation (input) OPCODE_CACHE_SIZE :: nat where "OPCODE_CACHE_SIZE \<equiv> 8191"

definition register_insn :: "'f insn_desc \<Rightarrow> 'f decoder \<Rightarrow> 'f decoder" where
  "register_insn desc d = d\<lparr>instructions := instructions d @ [desc]\<rparr>"

text \<open>Higher match first, then higher mask.\<close>

definition desc_key :: "'f insn_desc \<Rightarrow> reg_t \<times> reg_t" where
  "desc_key d = (NOT (d_match d), NOT (d_mask d))"

definition build_opcode_map :: "'f \<Rightarrow> 'f decoder \<Rightarrow> 'f decoder" where
  "build_opcode_map ill d = d\<lparr>instructions := sort_key desc_key (instructions d), opcode_cache := (\<lambda>_. desc_illegal ill)\<rparr>"

definition matches :: "reg_t \<Rightarrow> 'f insn_desc \<Rightarrow> bool" where
  "matches bits d \<longleftrightarrow> bits AND d_mask d = d_match d"

fun search_from :: "reg_t \<Rightarrow> 'f insn_desc list \<Rightarrow> nat \<Rightarrow> nat option" where
  "search_from bits [] n = None"
| "search_from bits (d # ds) n = (if matches bits d then Some n else search_from bits ds (n + 1))"

text \<open>The move to the front of the entry at \<open>n\<close>, unless a neighbour has the same match value.\<close>

definition move_to_front :: "nat \<Rightarrow> 'f insn_desc list \<Rightarrow> 'f insn_desc list option" where
  "move_to_front n ds =
     (if d_mask (ds ! n) \<noteq> 0 \<and> n > 0 then
        (if d_match (ds ! n) = d_match (ds ! (n - 1)) then Some ds
         else if n + 1 \<ge> length ds then None
         else if d_match (ds ! n) = d_match (ds ! (n + 1)) then Some ds
         else Some (ds ! n # take n ds @ drop (n + 1) ds))
      else Some ds)"

definition decode_insn :: "nat \<Rightarrow> bool \<Rightarrow> bool \<Rightarrow> reg_t \<Rightarrow> 'f decoder \<Rightarrow> ('f \<times> 'f decoder) option" where
  "decode_insn xlen rve logged bits d = (
     let idx = unat bits mod OPCODE_CACHE_SIZE; desc = opcode_cache d idx in
     if bits \<noteq> d_match desc then
       (case search_from bits (instructions d) 0 of None \<Rightarrow> None
        | Some n \<Rightarrow>
            let desc = instructions d ! n in
            case move_to_front n (instructions d) of None \<Rightarrow> None
            | Some ds \<Rightarrow> Some (desc_func xlen rve logged desc,
                d\<lparr>instructions := ds, opcode_cache := (opcode_cache d)(idx := desc\<lparr>d_match := bits\<rparr>)\<rparr>))
     else Some (desc_func xlen rve logged desc, d))"

subsection \<open>Decoding does not depend on history\<close>

text \<open>What decoding promises: the first entry of a fixed table that matches.\<close>

definition first_match :: "reg_t \<Rightarrow> 'f insn_desc list \<Rightarrow> 'f insn_desc option" where
  "first_match bits ds = find (matches bits) ds"

text \<open>No word matches two entries with different match values, the catch-all apart.\<close>

definition unambiguous :: "'f insn_desc list \<Rightarrow> bool" where
  "unambiguous ds \<longleftrightarrow> (\<forall>a \<in> set ds. \<forall>b \<in> set ds. d_mask a \<noteq> 0 \<longrightarrow> d_mask b \<noteq> 0 \<longrightarrow> d_match a \<noteq> d_match b \<longrightarrow>
     (d_match a XOR d_match b) AND (d_mask a AND d_mask b) \<noteq> 0)"

text \<open>Equal match values stand together.\<close>

definition grouped :: "'f insn_desc list \<Rightarrow> bool" where
  "grouped ds \<longleftrightarrow> distinct (remdups_adj (map d_match ds))"

definition table_ok :: "'f insn_desc list \<Rightarrow> 'f insn_desc list \<Rightarrow> bool" where
  "table_ok T ds \<longleftrightarrow> set ds = set T \<and> grouped ds \<and> ds \<noteq> [] \<and> d_mask (last ds) = 0 \<and> d_match (last ds) = 0 \<and>
     (\<forall>a \<in> set (butlast ds). d_mask a \<noteq> 0) \<and> (\<forall>bits. first_match bits ds = first_match bits T)"

definition cache_ok :: "'f insn_desc list \<Rightarrow> (nat \<Rightarrow> 'f insn_desc) \<Rightarrow> bool" where
  "cache_ok T c \<longleftrightarrow> (\<forall>i. d_match (c i) \<noteq> 0 \<longrightarrow>
     (\<exists>a. first_match (d_match (c i)) T = Some a \<and> c i = a\<lparr>d_match := d_match (c i)\<rparr>))"

definition decoder_ok :: "'f insn_desc list \<Rightarrow> 'f decoder \<Rightarrow> bool" where
  "decoder_ok T d \<longleftrightarrow> table_ok T (instructions d) \<and> cache_ok T (opcode_cache d)"

text \<open>A run of decodes.\<close>

fun decode_all :: "nat \<Rightarrow> bool \<Rightarrow> bool \<Rightarrow> reg_t list \<Rightarrow> 'f decoder \<Rightarrow> ('f list \<times> 'f decoder) option" where
  "decode_all xlen rve logged [] d = Some ([], d)"
| "decode_all xlen rve logged (b # bs) d =
     (case decode_insn xlen rve logged b d of None \<Rightarrow> None
      | Some (f, d) \<Rightarrow> (case decode_all xlen rve logged bs d of None \<Rightarrow> None
          | Some (fs, d) \<Rightarrow> Some (f # fs, d)))"

text \<open>A table that \<open>build_opcode_map\<close> is given: entries with a mask and the catch-all.\<close>

definition good_table :: "'f \<Rightarrow> 'f insn_desc list \<Rightarrow> bool" where
  "good_table ill ds \<longleftrightarrow> ds \<noteq> [] \<and> last ds = desc_illegal ill \<and> (\<forall>e \<in> set (butlast ds). d_mask e \<noteq> 0)"

lemma search_from_Some:
  "search_from bits ds m = Some n \<Longrightarrow> m \<le> n \<and> n - m < length ds \<and> matches bits (ds ! (n - m)) \<and>
     (\<forall>k < n - m. \<not> matches bits (ds ! k)) \<and> first_match bits ds = Some (ds ! (n - m))"
proof (induction ds arbitrary: m)
  case (Cons d ds)
  show ?case
  proof (cases "matches bits d")
    case True
    then show ?thesis using Cons.prems by (auto simp: first_match_def)
  next
    case False
    with Cons have "Suc m \<le> n" and *: "n - Suc m < length ds" "matches bits (ds ! (n - Suc m))"
      "\<forall>k < n - Suc m. \<not> matches bits (ds ! k)" "first_match bits ds = Some (ds ! (n - Suc m))"
      by auto
    then have s: "n - m = Suc (n - Suc m)" by simp
    have "\<not> matches bits ((d # ds) ! k)" if "k < n - m" for k
      using that False *(3) s by (cases k) auto
    then show ?thesis using * s False \<open>Suc m \<le> n\<close> by (auto simp: first_match_def)
  qed
qed simp

lemma search_from_None: "search_from bits ds m = None \<longleftrightarrow> (\<forall>d \<in> set ds. \<not> matches bits d)"
  by (induction ds arbitrary: m) auto

lemma first_match_append: "first_match bits (xs @ ys) = (case first_match bits xs of None \<Rightarrow> first_match bits ys | Some a \<Rightarrow> Some a)"
  by (simp add: first_match_def find_append cong: option.case_cong)

lemma first_match_Cons: "first_match bits (d # ds) = (if matches bits d then Some d else first_match bits ds)"
  by (simp add: first_match_def)

lemma first_match_None: "first_match bits ds = None \<longleftrightarrow> (\<forall>d \<in> set ds. \<not> matches bits d)"
  by (auto simp: first_match_def find_None_iff)

lemma first_match_set: "first_match bits ds = Some a \<Longrightarrow> a \<in> set ds \<and> matches bits a"
  by (auto simp: first_match_def find_Some_iff)

lemma both_match:
  assumes "unambiguous T" "a \<in> set T" "b \<in> set T" "d_mask a \<noteq> 0" "d_mask b \<noteq> 0" "matches bits a" "matches bits b"
  shows "d_match a = d_match b"
proof (rule ccontr)
  assume n: "d_match a \<noteq> d_match b"
  have "(bits AND d_mask a XOR bits AND d_mask b) AND (d_mask a AND d_mask b) = 0"
    by (rule bit_word_eqI) (auto simp: bit_simps)
  then show False using assms n by (auto simp: unambiguous_def matches_def)
qed

lemma grouped_alone:
  assumes g: "grouped (xs @ e # ys)" and l: "xs = [] \<or> d_match (last xs) \<noteq> d_match e" and r: "ys = [] \<or> d_match (hd ys) \<noteq> d_match e"
  shows "\<forall>x \<in> set (xs @ ys). d_match x \<noteq> d_match e" "grouped (e # xs @ ys)"
proof -
  let ?m = "d_match e" and ?x = "map d_match xs" and ?y = "map d_match ys"
  have "remdups_adj (?m # ?y) = ?m # remdups_adj ?y"
    using r remdups_adj_append' [of "[?m]" ?y] by (cases ys) auto
  moreover have "remdups_adj (?x @ ?m # ?y) = remdups_adj ?x @ remdups_adj (?m # ?y)"
    using l by (intro remdups_adj_append') (auto simp: last_map)
  ultimately have d: "distinct (remdups_adj ?x @ ?m # remdups_adj ?y)"
    using g by (simp add: grouped_def)
  then have out: "?m \<notin> set ?x" "?m \<notin> set ?y" "set ?x \<inter> set ?y = {}" by auto
  then show "\<forall>x \<in> set (xs @ ys). d_match x \<noteq> d_match e"
    by (metis Un_iff imageI list.set_map set_append)
  have xy: "remdups_adj (?x @ ?y) = remdups_adj ?x @ remdups_adj ?y"
  proof (rule remdups_adj_append')
    show "?x = [] \<or> ?y = [] \<or> last ?x \<noteq> hd ?y"
      using out(3) using last_in_set [of ?x] list.set_sel(1) [of ?y] by auto
  qed
  have mxy: "remdups_adj ([?m] @ ?x @ ?y) = remdups_adj [?m] @ remdups_adj (?x @ ?y)"
  proof (rule remdups_adj_append')
    have "?x @ ?y \<noteq> [] \<Longrightarrow> hd (?x @ ?y) \<in> set ?x \<union> set ?y"
      by (metis hd_in_set set_append)
    then show "[?m] = [] \<or> ?x @ ?y = [] \<or> last [?m] \<noteq> hd (?x @ ?y)"
      using out(1,2) by (metis UnE last.simps)
  qed
  have "map d_match (e # xs @ ys) = [?m] @ ?x @ ?y" by simp
  then have "remdups_adj (map d_match (e # xs @ ys)) = [?m] @ remdups_adj ?x @ remdups_adj ?y"
    by (simp only: mxy xy remdups_adj.simps)
  moreover have "distinct ([?m] @ remdups_adj ?x @ remdups_adj ?y)"
    using d out(1,2) by simp
  ultimately show "grouped (e # xs @ ys)" unfolding grouped_def by (simp only:)
qed

lemma table_move:
  assumes t: "table_ok T ds" and u: "unambiguous T" and s: "search_from bits ds 0 = Some n"
  obtains ds' where "move_to_front n ds = Some ds'" "table_ok T ds'"
proof (cases "d_mask (ds ! n) \<noteq> 0 \<and> n > 0 \<and> d_match (ds ! n) \<noteq> d_match (ds ! (n - 1))")
  case False
  then have "move_to_front n ds = Some ds" by (auto simp: move_to_front_def)
  then show thesis using that t by blast
next
  case True
  have n: "n < length ds" using search_from_Some [OF s] by simp
  define a e b where "a = take n ds" and "e = ds ! n" and "b = drop (n + 1) ds"
  have split: "ds = a @ e # b" using n by (simp add: a_def e_def b_def id_take_nth_drop)
  have len: "length a = n" using n by (simp add: a_def)
  have b: "b \<noteq> []"
  proof
    assume "b = []"
    then have "last ds = e" using split by simp
    then show False using True t by (simp add: table_ok_def e_def)
  qed
  have ne: "length ds > n + 1" using b by (simp add: b_def)
  have l: "a = [] \<or> d_match (last a) \<noteq> d_match e"
    using True len by (auto simp: e_def a_def last_conv_nth)
  have hb: "hd b = ds ! (n + 1)" using ne by (simp add: b_def hd_drop_conv_nth)
  show thesis
  proof (cases "d_match e = d_match (hd b)")
    case eq: True
    then have "move_to_front n ds = Some ds" using True ne hb by (auto simp: move_to_front_def e_def)
    then show thesis using that t by blast
  next
    case diff: False
    have m: "move_to_front n ds = Some (e # a @ b)"
      using True diff ne hb by (auto simp: move_to_front_def a_def b_def e_def)
    have g: "grouped (a @ e # b)" using t split by (simp add: table_ok_def)
    note alone = grouped_alone [OF g l] 
    have others: "\<forall>x \<in> set (a @ b). d_match x \<noteq> d_match e" and gr: "grouped (e # a @ b)"
      using alone diff by auto
    have but: "butlast ds = a @ e # butlast b" "butlast (e # a @ b) = e # a @ butlast b"
      using b split by (simp_all add: butlast_append)
    have fm: "first_match w (e # a @ b) = first_match w ds" for w
    proof (cases "matches w e")
      case False
      then show ?thesis unfolding split by (simp add: first_match_append first_match_Cons cong: option.case_cong)
    next
      case w: True
      have "first_match w a = None"
        unfolding first_match_None
      proof
        fix x assume x: "x \<in> set a"
        have "d_mask x \<noteq> 0" "d_mask e \<noteq> 0" "x \<in> set T" "e \<in> set T"
          using t x but(1) split by (auto simp: table_ok_def)
        then show "\<not> matches w x" using both_match [OF u, of x e w] w others x by auto
      qed
      then show ?thesis using w unfolding split by (simp add: first_match_append first_match_Cons)
    qed
    have "table_ok T (e # a @ b)"
      using t gr b but fm split by (auto simp: table_ok_def)
    then show thesis using that m by blast
  qed
qed


lemma cache_step:
  assumes c: "cache_ok T c" and d: "first_match bits T = Some d"
  shows "cache_ok T (c(i := d\<lparr>d_match := bits\<rparr>))"
  using assms by (auto simp: cache_ok_def)

lemma desc_func_match [simp]: "desc_func xlen rve logged (d\<lparr>d_match := b\<rparr>) = desc_func xlen rve logged d"
  by (simp add: desc_func_def)

text \<open>The catch-all makes the search succeed.\<close>

lemma search_total: "table_ok T ds \<Longrightarrow> \<exists>n. search_from bits ds 0 = Some n"
proof (rule ccontr)
  assume t: "table_ok T ds" and "\<nexists>n. search_from bits ds 0 = Some n"
  then have "search_from bits ds 0 = None" by (cases "search_from bits ds 0") auto
  then have "\<not> matches bits (last ds)" using t search_from_None table_ok_def last_in_set by metis
  then show False using t by (simp add: table_ok_def matches_def)
qed

lemma decode_step:
  assumes d: "decoder_ok T d" and u: "unambiguous T" and b: "bits \<noteq> 0"
  obtains f d' a where "decode_insn xlen rve logged bits d = Some (f, d')" "decoder_ok T d'"
    "first_match bits T = Some a" "f = desc_func xlen rve logged a"
proof (cases "bits \<noteq> d_match (opcode_cache d (unat bits mod 8191))")
  case True
  have t: "table_ok T (instructions d)" and c: "cache_ok T (opcode_cache d)" using d by (auto simp: decoder_ok_def)
  obtain n where n: "search_from bits (instructions d) 0 = Some n" using search_total [OF t] by blast
  obtain ds where m: "move_to_front n (instructions d) = Some ds" and t': "table_ok T ds"
    using table_move [OF t u n] by blast
  have f: "first_match bits T = Some (instructions d ! n)"
    using search_from_Some [OF n] t by (simp add: table_ok_def)
  have "decoder_ok T (d\<lparr>instructions := ds, opcode_cache :=
      (opcode_cache d)(unat bits mod 8191 := (instructions d ! n)\<lparr>d_match := bits\<rparr>)\<rparr>)"
    using t' cache_step [OF c f] by (simp add: decoder_ok_def)
  then show thesis using that f True n m by (simp add: decode_insn_def Let_def)
next
  case False
  then have "\<exists>a. first_match bits T = Some a \<and> opcode_cache d (unat bits mod 8191) = a\<lparr>d_match := bits\<rparr>"
    using d b unfolding decoder_ok_def cache_ok_def by metis
  then obtain a where "first_match bits T = Some a" "opcode_cache d (unat bits mod 8191) = a\<lparr>d_match := bits\<rparr>"
    by blast
  then show thesis using that [of "desc_func xlen rve logged a" d a] False d
    by (simp add: decode_insn_def Let_def)
qed

lemma decode_run:
  assumes "unambiguous T" "decoder_ok T d" "\<forall>b \<in> set bs. b \<noteq> 0"
  shows "\<exists>d'. decoder_ok T d' \<and> decode_all xlen rve logged bs d =
    Some (map (\<lambda>b. desc_func xlen rve logged (the (first_match b T))) bs, d')"
  using assms(2,3)
proof (induction bs arbitrary: d)
  case (Cons b bs)
  obtain f d' a where s: "decode_insn xlen rve logged b d = Some (f, d')" "decoder_ok T d'"
      "first_match b T = Some a" "f = desc_func xlen rve logged a"
    using decode_step [OF Cons.prems(1) assms(1)] Cons.prems(2) by (metis list.set_intros(1))
  show ?case using Cons.IH [OF s(2)] Cons.prems(2) s by auto
qed simp


subsection \<open>The table of an initialised decoder\<close>

lemma sorted_grouped:
  fixes xs :: "'a :: linorder list"
  shows "sorted xs \<Longrightarrow> distinct (remdups_adj xs)"
  by (induction xs rule: remdups_adj.induct) (auto simp: not_le)

lemma key_sort_grouped: "grouped (sort_key desc_key ds)"
proof -
  let ?ns = "map (\<lambda>d. NOT (d_match d)) (sort_key desc_key ds)"
  have "sorted_wrt (\<lambda>a b. desc_key a \<le> desc_key b) (sort_key desc_key ds)"
    using sorted_sort_key [of desc_key ds] by (simp only: sorted_map)
  then have "sorted_wrt (\<lambda>a b. NOT (d_match a) \<le> NOT (d_match b)) (sort_key desc_key ds)"
    by (rule sorted_wrt_mono_rel [rotated]) (auto simp: desc_key_def less_eq_prod_def intro: less_imp_le)
  then have "sorted ?ns" by (simp only: sorted_map)
  then have "distinct (remdups_adj ?ns)" by (rule sorted_grouped)
  moreover have "?ns = map (\<lambda>w. NOT w) (map d_match (sort_key desc_key ds))" by simp
  moreover have "inj (\<lambda>w :: reg_t. NOT w)" by (rule injI) (metis bit.double_compl)
  ultimately show ?thesis
    unfolding grouped_def by (metis remdups_adj_map_injective distinct_map)
qed

lemma insort_last: "f x \<le> f c \<Longrightarrow> insort_key f x (ys @ [c]) = insort_key f x ys @ [c]"
  by (induction ys) auto

lemma sort_last: "\<forall>x \<in> set xs. f x \<le> f c \<Longrightarrow> sort_key f (xs @ [c]) = sort_key f xs @ [c]"
  by (induction xs) (auto simp: insort_last)

lemma desc_key_illegal: "desc_key e \<le> desc_key (desc_illegal ill)"
  by (auto simp: desc_key_def desc_illegal_def less_eq_prod_def less_le)

lemma built_ok:
  assumes "good_table ill (instructions d)"
  shows "decoder_ok (sort_key desc_key (instructions d)) (build_opcode_map ill d)"
proof -
  let ?es = "butlast (instructions d)"
  have i: "instructions d = ?es @ [desc_illegal ill]" and m: "\<forall>e \<in> set ?es. d_mask e \<noteq> 0"
    using assms append_butlast_last_id unfolding good_table_def by metis+
  have "sort_key desc_key (instructions d) = sort_key desc_key ?es @ [desc_illegal ill]"
    by (subst i, rule sort_last) (simp add: desc_key_illegal)
  then have "table_ok (sort_key desc_key (instructions d)) (sort_key desc_key (instructions d))"
    using m key_sort_grouped [of "instructions d"] by (simp add: table_ok_def desc_illegal_def)
  then show ?thesis
    by (simp add: decoder_ok_def build_opcode_map_def cache_ok_def desc_illegal_def)
qed

text \<open>
  On an unambiguous table that ends in the catch-all, what \<open>decode_insn\<close> returns does not depend
  on what was decoded before: each nonzero word gets the function of the first entry of the sorted
  table that matches it, no access leaves the table and the search ends.
\<close>

lemma decode_history_free:
  assumes g: "good_table ill (instructions d)" and u: "unambiguous (instructions d)" and b: "\<forall>b \<in> set bs. b \<noteq> 0"
  shows "\<exists>d'. decode_all xlen rve logged bs (build_opcode_map ill d) =
    Some (map (\<lambda>b. desc_func xlen rve logged (the (first_match b (sort_key desc_key (instructions d))))) bs, d')"
proof -
  have "unambiguous (sort_key desc_key (instructions d))"
    using u by (simp add: unambiguous_def)
  then show ?thesis using decode_run [OF _ built_ok [OF g] b] by blast
qed

definition demo_entry :: "string \<Rightarrow> reg_t \<Rightarrow> reg_t \<Rightarrow> string insn_desc" where
  "demo_entry name m k = (desc_illegal name)\<lparr>d_match := m, d_mask := k\<rparr>"

text \<open>The entries of \<open>encoding.h\<close> for \<open>czero.eqz\<close> and \<open>cmov\<close>: neither match value is the other's, and
  \<open>overlap_list.h\<close> does not name them.\<close>

definition clash_decoder :: "string decoder" where
  "clash_decoder = build_opcode_map ''illegal''
     \<lparr>instructions = [demo_entry ''cmov'' 0x6005033 0x600707f, demo_entry ''czero.eqz'' 0xe005033 0xfe00707f,
        desc_illegal ''illegal''],
      opcode_cache = (\<lambda>_. desc_illegal ''illegal'')\<rparr>"


end
