(* ===== verification/Opcodes.thy ===== *)
theory Opcodes
  imports Decoder
begin

text \<open>
  The instruction list the simulator is built with: \<open>riscv/riscv_insn_list.txt\<close> with the match and
  mask of \<open>riscv/encoding.h\<close>, the conditions of \<open>riscv/overlap_list.h\<close>, and
  \<open>register_base_instructions\<close> of \<open>riscv/processor.cc\<close>. The list has no two entries that match the
  same word with different match values, so decoding it never depends on history.
\<close>

subsection \<open>Opcodes\<close>

abbreviation (input) MATCH_AMOADD_D :: reg_t where "MATCH_AMOADD_D \<equiv> 0x302f"
abbreviation (input) MASK_AMOADD_D :: reg_t where "MASK_AMOADD_D \<equiv> 0xf800707f"
abbreviation (input) MATCH_AMOADD_W :: reg_t where "MATCH_AMOADD_W \<equiv> 0x202f"
abbreviation (input) MASK_AMOADD_W :: reg_t where "MASK_AMOADD_W \<equiv> 0xf800707f"
abbreviation (input) MATCH_AMOAND_D :: reg_t where "MATCH_AMOAND_D \<equiv> 0x6000302f"
abbreviation (input) MASK_AMOAND_D :: reg_t where "MASK_AMOAND_D \<equiv> 0xf800707f"
abbreviation (input) MATCH_AMOAND_W :: reg_t where "MATCH_AMOAND_W \<equiv> 0x6000202f"
abbreviation (input) MASK_AMOAND_W :: reg_t where "MASK_AMOAND_W \<equiv> 0xf800707f"
abbreviation (input) MATCH_AMOMAX_D :: reg_t where "MATCH_AMOMAX_D \<equiv> 0xa000302f"
abbreviation (input) MASK_AMOMAX_D :: reg_t where "MASK_AMOMAX_D \<equiv> 0xf800707f"
abbreviation (input) MATCH_AMOMAXU_D :: reg_t where "MATCH_AMOMAXU_D \<equiv> 0xe000302f"
abbreviation (input) MASK_AMOMAXU_D :: reg_t where "MASK_AMOMAXU_D \<equiv> 0xf800707f"
abbreviation (input) MATCH_AMOMAXU_W :: reg_t where "MATCH_AMOMAXU_W \<equiv> 0xe000202f"
abbreviation (input) MASK_AMOMAXU_W :: reg_t where "MASK_AMOMAXU_W \<equiv> 0xf800707f"
abbreviation (input) MATCH_AMOMAX_W :: reg_t where "MATCH_AMOMAX_W \<equiv> 0xa000202f"
abbreviation (input) MASK_AMOMAX_W :: reg_t where "MASK_AMOMAX_W \<equiv> 0xf800707f"
abbreviation (input) MATCH_AMOMIN_D :: reg_t where "MATCH_AMOMIN_D \<equiv> 0x8000302f"
abbreviation (input) MASK_AMOMIN_D :: reg_t where "MASK_AMOMIN_D \<equiv> 0xf800707f"
abbreviation (input) MATCH_AMOMINU_D :: reg_t where "MATCH_AMOMINU_D \<equiv> 0xc000302f"
abbreviation (input) MASK_AMOMINU_D :: reg_t where "MASK_AMOMINU_D \<equiv> 0xf800707f"
abbreviation (input) MATCH_AMOMINU_W :: reg_t where "MATCH_AMOMINU_W \<equiv> 0xc000202f"
abbreviation (input) MASK_AMOMINU_W :: reg_t where "MASK_AMOMINU_W \<equiv> 0xf800707f"
abbreviation (input) MATCH_AMOMIN_W :: reg_t where "MATCH_AMOMIN_W \<equiv> 0x8000202f"
abbreviation (input) MASK_AMOMIN_W :: reg_t where "MASK_AMOMIN_W \<equiv> 0xf800707f"
abbreviation (input) MATCH_AMOOR_D :: reg_t where "MATCH_AMOOR_D \<equiv> 0x4000302f"
abbreviation (input) MASK_AMOOR_D :: reg_t where "MASK_AMOOR_D \<equiv> 0xf800707f"
abbreviation (input) MATCH_AMOOR_W :: reg_t where "MATCH_AMOOR_W \<equiv> 0x4000202f"
abbreviation (input) MASK_AMOOR_W :: reg_t where "MASK_AMOOR_W \<equiv> 0xf800707f"
abbreviation (input) MATCH_AMOSWAP_D :: reg_t where "MATCH_AMOSWAP_D \<equiv> 0x800302f"
abbreviation (input) MASK_AMOSWAP_D :: reg_t where "MASK_AMOSWAP_D \<equiv> 0xf800707f"
abbreviation (input) MATCH_AMOSWAP_W :: reg_t where "MATCH_AMOSWAP_W \<equiv> 0x800202f"
abbreviation (input) MASK_AMOSWAP_W :: reg_t where "MASK_AMOSWAP_W \<equiv> 0xf800707f"
abbreviation (input) MATCH_AMOXOR_D :: reg_t where "MATCH_AMOXOR_D \<equiv> 0x2000302f"
abbreviation (input) MASK_AMOXOR_D :: reg_t where "MASK_AMOXOR_D \<equiv> 0xf800707f"
abbreviation (input) MATCH_AMOXOR_W :: reg_t where "MATCH_AMOXOR_W \<equiv> 0x2000202f"
abbreviation (input) MASK_AMOXOR_W :: reg_t where "MASK_AMOXOR_W \<equiv> 0xf800707f"
abbreviation (input) MATCH_LR_D :: reg_t where "MATCH_LR_D \<equiv> 0x1000302f"
abbreviation (input) MASK_LR_D :: reg_t where "MASK_LR_D \<equiv> 0xf9f0707f"
abbreviation (input) MATCH_LR_W :: reg_t where "MATCH_LR_W \<equiv> 0x1000202f"
abbreviation (input) MASK_LR_W :: reg_t where "MASK_LR_W \<equiv> 0xf9f0707f"
abbreviation (input) MATCH_SC_D :: reg_t where "MATCH_SC_D \<equiv> 0x1800302f"
abbreviation (input) MASK_SC_D :: reg_t where "MASK_SC_D \<equiv> 0xf800707f"
abbreviation (input) MATCH_SC_W :: reg_t where "MATCH_SC_W \<equiv> 0x1800202f"
abbreviation (input) MASK_SC_W :: reg_t where "MASK_SC_W \<equiv> 0xf800707f"
abbreviation (input) MATCH_C_ADD :: reg_t where "MATCH_C_ADD \<equiv> 0x9002"
abbreviation (input) MASK_C_ADD :: reg_t where "MASK_C_ADD \<equiv> 0xf003"
abbreviation (input) MATCH_C_ADDI :: reg_t where "MATCH_C_ADDI \<equiv> 0x1"
abbreviation (input) MASK_C_ADDI :: reg_t where "MASK_C_ADDI \<equiv> 0xe003"
abbreviation (input) MATCH_C_ADDI4SPN :: reg_t where "MATCH_C_ADDI4SPN \<equiv> 0x0"
abbreviation (input) MASK_C_ADDI4SPN :: reg_t where "MASK_C_ADDI4SPN \<equiv> 0xe003"
abbreviation (input) MATCH_C_ADDW :: reg_t where "MATCH_C_ADDW \<equiv> 0x9c21"
abbreviation (input) MASK_C_ADDW :: reg_t where "MASK_C_ADDW \<equiv> 0xfc63"
abbreviation (input) MATCH_C_AND :: reg_t where "MATCH_C_AND \<equiv> 0x8c61"
abbreviation (input) MASK_C_AND :: reg_t where "MASK_C_AND \<equiv> 0xfc63"
abbreviation (input) MATCH_C_ANDI :: reg_t where "MATCH_C_ANDI \<equiv> 0x8801"
abbreviation (input) MASK_C_ANDI :: reg_t where "MASK_C_ANDI \<equiv> 0xec03"
abbreviation (input) MATCH_C_BEQZ :: reg_t where "MATCH_C_BEQZ \<equiv> 0xc001"
abbreviation (input) MASK_C_BEQZ :: reg_t where "MASK_C_BEQZ \<equiv> 0xe003"
abbreviation (input) MATCH_C_BNEZ :: reg_t where "MATCH_C_BNEZ \<equiv> 0xe001"
abbreviation (input) MASK_C_BNEZ :: reg_t where "MASK_C_BNEZ \<equiv> 0xe003"
abbreviation (input) MATCH_C_EBREAK :: reg_t where "MATCH_C_EBREAK \<equiv> 0x9002"
abbreviation (input) MASK_C_EBREAK :: reg_t where "MASK_C_EBREAK \<equiv> 0xffff"
abbreviation (input) MATCH_C_FLD :: reg_t where "MATCH_C_FLD \<equiv> 0x2000"
abbreviation (input) MASK_C_FLD :: reg_t where "MASK_C_FLD \<equiv> 0xe003"
abbreviation (input) MATCH_C_FLDSP :: reg_t where "MATCH_C_FLDSP \<equiv> 0x2002"
abbreviation (input) MASK_C_FLDSP :: reg_t where "MASK_C_FLDSP \<equiv> 0xe003"
abbreviation (input) MATCH_C_FLW :: reg_t where "MATCH_C_FLW \<equiv> 0x6000"
abbreviation (input) MASK_C_FLW :: reg_t where "MASK_C_FLW \<equiv> 0xe003"
abbreviation (input) MATCH_C_FLWSP :: reg_t where "MATCH_C_FLWSP \<equiv> 0x6002"
abbreviation (input) MASK_C_FLWSP :: reg_t where "MASK_C_FLWSP \<equiv> 0xe003"
abbreviation (input) MATCH_C_FSD :: reg_t where "MATCH_C_FSD \<equiv> 0xa000"
abbreviation (input) MASK_C_FSD :: reg_t where "MASK_C_FSD \<equiv> 0xe003"
abbreviation (input) MATCH_C_FSDSP :: reg_t where "MATCH_C_FSDSP \<equiv> 0xa002"
abbreviation (input) MASK_C_FSDSP :: reg_t where "MASK_C_FSDSP \<equiv> 0xe003"
abbreviation (input) MATCH_C_FSW :: reg_t where "MATCH_C_FSW \<equiv> 0xe000"
abbreviation (input) MASK_C_FSW :: reg_t where "MASK_C_FSW \<equiv> 0xe003"
abbreviation (input) MATCH_C_FSWSP :: reg_t where "MATCH_C_FSWSP \<equiv> 0xe002"
abbreviation (input) MASK_C_FSWSP :: reg_t where "MASK_C_FSWSP \<equiv> 0xe003"
abbreviation (input) MATCH_C_J :: reg_t where "MATCH_C_J \<equiv> 0xa001"
abbreviation (input) MASK_C_J :: reg_t where "MASK_C_J \<equiv> 0xe003"
abbreviation (input) MATCH_C_JAL :: reg_t where "MATCH_C_JAL \<equiv> 0x2001"
abbreviation (input) MASK_C_JAL :: reg_t where "MASK_C_JAL \<equiv> 0xe003"
abbreviation (input) MATCH_C_JALR :: reg_t where "MATCH_C_JALR \<equiv> 0x9002"
abbreviation (input) MASK_C_JALR :: reg_t where "MASK_C_JALR \<equiv> 0xf07f"
abbreviation (input) MATCH_C_JR :: reg_t where "MATCH_C_JR \<equiv> 0x8002"
abbreviation (input) MASK_C_JR :: reg_t where "MASK_C_JR \<equiv> 0xf07f"
abbreviation (input) MATCH_C_LI :: reg_t where "MATCH_C_LI \<equiv> 0x4001"
abbreviation (input) MASK_C_LI :: reg_t where "MASK_C_LI \<equiv> 0xe003"
abbreviation (input) MATCH_C_LUI :: reg_t where "MATCH_C_LUI \<equiv> 0x6001"
abbreviation (input) MASK_C_LUI :: reg_t where "MASK_C_LUI \<equiv> 0xe003"
abbreviation (input) MATCH_C_LW :: reg_t where "MATCH_C_LW \<equiv> 0x4000"
abbreviation (input) MASK_C_LW :: reg_t where "MASK_C_LW \<equiv> 0xe003"
abbreviation (input) MATCH_C_LWSP :: reg_t where "MATCH_C_LWSP \<equiv> 0x4002"
abbreviation (input) MASK_C_LWSP :: reg_t where "MASK_C_LWSP \<equiv> 0xe003"
abbreviation (input) MATCH_C_MV :: reg_t where "MATCH_C_MV \<equiv> 0x8002"
abbreviation (input) MASK_C_MV :: reg_t where "MASK_C_MV \<equiv> 0xf003"
abbreviation (input) MATCH_C_OR :: reg_t where "MATCH_C_OR \<equiv> 0x8c41"
abbreviation (input) MASK_C_OR :: reg_t where "MASK_C_OR \<equiv> 0xfc63"
abbreviation (input) MATCH_C_SLLI :: reg_t where "MATCH_C_SLLI \<equiv> 0x2"
abbreviation (input) MASK_C_SLLI :: reg_t where "MASK_C_SLLI \<equiv> 0xe003"
abbreviation (input) MATCH_C_SRAI :: reg_t where "MATCH_C_SRAI \<equiv> 0x8401"
abbreviation (input) MASK_C_SRAI :: reg_t where "MASK_C_SRAI \<equiv> 0xec03"
abbreviation (input) MATCH_C_SRLI :: reg_t where "MATCH_C_SRLI \<equiv> 0x8001"
abbreviation (input) MASK_C_SRLI :: reg_t where "MASK_C_SRLI \<equiv> 0xec03"
abbreviation (input) MATCH_C_SUB :: reg_t where "MATCH_C_SUB \<equiv> 0x8c01"
abbreviation (input) MASK_C_SUB :: reg_t where "MASK_C_SUB \<equiv> 0xfc63"
abbreviation (input) MATCH_C_SUBW :: reg_t where "MATCH_C_SUBW \<equiv> 0x9c01"
abbreviation (input) MASK_C_SUBW :: reg_t where "MASK_C_SUBW \<equiv> 0xfc63"
abbreviation (input) MATCH_C_SW :: reg_t where "MATCH_C_SW \<equiv> 0xc000"
abbreviation (input) MASK_C_SW :: reg_t where "MASK_C_SW \<equiv> 0xe003"
abbreviation (input) MATCH_C_SWSP :: reg_t where "MATCH_C_SWSP \<equiv> 0xc002"
abbreviation (input) MASK_C_SWSP :: reg_t where "MASK_C_SWSP \<equiv> 0xe003"
abbreviation (input) MATCH_C_XOR :: reg_t where "MATCH_C_XOR \<equiv> 0x8c21"
abbreviation (input) MASK_C_XOR :: reg_t where "MASK_C_XOR \<equiv> 0xfc63"
abbreviation (input) MATCH_ADD :: reg_t where "MATCH_ADD \<equiv> 0x33"
abbreviation (input) MASK_ADD :: reg_t where "MASK_ADD \<equiv> 0xfe00707f"
abbreviation (input) MATCH_ADDI :: reg_t where "MATCH_ADDI \<equiv> 0x13"
abbreviation (input) MASK_ADDI :: reg_t where "MASK_ADDI \<equiv> 0x707f"
abbreviation (input) MATCH_ADDIW :: reg_t where "MATCH_ADDIW \<equiv> 0x1b"
abbreviation (input) MASK_ADDIW :: reg_t where "MASK_ADDIW \<equiv> 0x707f"
abbreviation (input) MATCH_ADDW :: reg_t where "MATCH_ADDW \<equiv> 0x3b"
abbreviation (input) MASK_ADDW :: reg_t where "MASK_ADDW \<equiv> 0xfe00707f"
abbreviation (input) MATCH_AND :: reg_t where "MATCH_AND \<equiv> 0x7033"
abbreviation (input) MASK_AND :: reg_t where "MASK_AND \<equiv> 0xfe00707f"
abbreviation (input) MATCH_ANDI :: reg_t where "MATCH_ANDI \<equiv> 0x7013"
abbreviation (input) MASK_ANDI :: reg_t where "MASK_ANDI \<equiv> 0x707f"
abbreviation (input) MATCH_AUIPC :: reg_t where "MATCH_AUIPC \<equiv> 0x17"
abbreviation (input) MASK_AUIPC :: reg_t where "MASK_AUIPC \<equiv> 0x7f"
abbreviation (input) MATCH_BEQ :: reg_t where "MATCH_BEQ \<equiv> 0x63"
abbreviation (input) MASK_BEQ :: reg_t where "MASK_BEQ \<equiv> 0x707f"
abbreviation (input) MATCH_BGE :: reg_t where "MATCH_BGE \<equiv> 0x5063"
abbreviation (input) MASK_BGE :: reg_t where "MASK_BGE \<equiv> 0x707f"
abbreviation (input) MATCH_BGEU :: reg_t where "MATCH_BGEU \<equiv> 0x7063"
abbreviation (input) MASK_BGEU :: reg_t where "MASK_BGEU \<equiv> 0x707f"
abbreviation (input) MATCH_BLT :: reg_t where "MATCH_BLT \<equiv> 0x4063"
abbreviation (input) MASK_BLT :: reg_t where "MASK_BLT \<equiv> 0x707f"
abbreviation (input) MATCH_BLTU :: reg_t where "MATCH_BLTU \<equiv> 0x6063"
abbreviation (input) MASK_BLTU :: reg_t where "MASK_BLTU \<equiv> 0x707f"
abbreviation (input) MATCH_BNE :: reg_t where "MATCH_BNE \<equiv> 0x1063"
abbreviation (input) MASK_BNE :: reg_t where "MASK_BNE \<equiv> 0x707f"
abbreviation (input) MATCH_JAL :: reg_t where "MATCH_JAL \<equiv> 0x6f"
abbreviation (input) MASK_JAL :: reg_t where "MASK_JAL \<equiv> 0x7f"
abbreviation (input) MATCH_JALR :: reg_t where "MATCH_JALR \<equiv> 0x67"
abbreviation (input) MASK_JALR :: reg_t where "MASK_JALR \<equiv> 0x707f"
abbreviation (input) MATCH_LB :: reg_t where "MATCH_LB \<equiv> 0x3"
abbreviation (input) MASK_LB :: reg_t where "MASK_LB \<equiv> 0x707f"
abbreviation (input) MATCH_LBU :: reg_t where "MATCH_LBU \<equiv> 0x4003"
abbreviation (input) MASK_LBU :: reg_t where "MASK_LBU \<equiv> 0x707f"
abbreviation (input) MATCH_LD :: reg_t where "MATCH_LD \<equiv> 0x3003"
abbreviation (input) MASK_LD :: reg_t where "MASK_LD \<equiv> 0x707f"
abbreviation (input) MATCH_LH :: reg_t where "MATCH_LH \<equiv> 0x1003"
abbreviation (input) MASK_LH :: reg_t where "MASK_LH \<equiv> 0x707f"
abbreviation (input) MATCH_LHU :: reg_t where "MATCH_LHU \<equiv> 0x5003"
abbreviation (input) MASK_LHU :: reg_t where "MASK_LHU \<equiv> 0x707f"
abbreviation (input) MATCH_LUI :: reg_t where "MATCH_LUI \<equiv> 0x37"
abbreviation (input) MASK_LUI :: reg_t where "MASK_LUI \<equiv> 0x7f"
abbreviation (input) MATCH_LW :: reg_t where "MATCH_LW \<equiv> 0x2003"
abbreviation (input) MASK_LW :: reg_t where "MASK_LW \<equiv> 0x707f"
abbreviation (input) MATCH_LWU :: reg_t where "MATCH_LWU \<equiv> 0x6003"
abbreviation (input) MASK_LWU :: reg_t where "MASK_LWU \<equiv> 0x707f"
abbreviation (input) MATCH_OR :: reg_t where "MATCH_OR \<equiv> 0x6033"
abbreviation (input) MASK_OR :: reg_t where "MASK_OR \<equiv> 0xfe00707f"
abbreviation (input) MATCH_ORI :: reg_t where "MATCH_ORI \<equiv> 0x6013"
abbreviation (input) MASK_ORI :: reg_t where "MASK_ORI \<equiv> 0x707f"
abbreviation (input) MATCH_SB :: reg_t where "MATCH_SB \<equiv> 0x23"
abbreviation (input) MASK_SB :: reg_t where "MASK_SB \<equiv> 0x707f"
abbreviation (input) MATCH_SD :: reg_t where "MATCH_SD \<equiv> 0x3023"
abbreviation (input) MASK_SD :: reg_t where "MASK_SD \<equiv> 0x707f"
abbreviation (input) MATCH_SH :: reg_t where "MATCH_SH \<equiv> 0x1023"
abbreviation (input) MASK_SH :: reg_t where "MASK_SH \<equiv> 0x707f"
abbreviation (input) MATCH_SLL :: reg_t where "MATCH_SLL \<equiv> 0x1033"
abbreviation (input) MASK_SLL :: reg_t where "MASK_SLL \<equiv> 0xfe00707f"
abbreviation (input) MATCH_SLLI :: reg_t where "MATCH_SLLI \<equiv> 0x1013"
abbreviation (input) MASK_SLLI :: reg_t where "MASK_SLLI \<equiv> 0xfc00707f"
abbreviation (input) MATCH_SLLIW :: reg_t where "MATCH_SLLIW \<equiv> 0x101b"
abbreviation (input) MASK_SLLIW :: reg_t where "MASK_SLLIW \<equiv> 0xfe00707f"
abbreviation (input) MATCH_SLLW :: reg_t where "MATCH_SLLW \<equiv> 0x103b"
abbreviation (input) MASK_SLLW :: reg_t where "MASK_SLLW \<equiv> 0xfe00707f"
abbreviation (input) MATCH_SLT :: reg_t where "MATCH_SLT \<equiv> 0x2033"
abbreviation (input) MASK_SLT :: reg_t where "MASK_SLT \<equiv> 0xfe00707f"
abbreviation (input) MATCH_SLTI :: reg_t where "MATCH_SLTI \<equiv> 0x2013"
abbreviation (input) MASK_SLTI :: reg_t where "MASK_SLTI \<equiv> 0x707f"
abbreviation (input) MATCH_SLTIU :: reg_t where "MATCH_SLTIU \<equiv> 0x3013"
abbreviation (input) MASK_SLTIU :: reg_t where "MASK_SLTIU \<equiv> 0x707f"
abbreviation (input) MATCH_SLTU :: reg_t where "MATCH_SLTU \<equiv> 0x3033"
abbreviation (input) MASK_SLTU :: reg_t where "MASK_SLTU \<equiv> 0xfe00707f"
abbreviation (input) MATCH_SRA :: reg_t where "MATCH_SRA \<equiv> 0x40005033"
abbreviation (input) MASK_SRA :: reg_t where "MASK_SRA \<equiv> 0xfe00707f"
abbreviation (input) MATCH_SRAI :: reg_t where "MATCH_SRAI \<equiv> 0x40005013"
abbreviation (input) MASK_SRAI :: reg_t where "MASK_SRAI \<equiv> 0xfc00707f"
abbreviation (input) MATCH_SRAIW :: reg_t where "MATCH_SRAIW \<equiv> 0x4000501b"
abbreviation (input) MASK_SRAIW :: reg_t where "MASK_SRAIW \<equiv> 0xfe00707f"
abbreviation (input) MATCH_SRAW :: reg_t where "MATCH_SRAW \<equiv> 0x4000503b"
abbreviation (input) MASK_SRAW :: reg_t where "MASK_SRAW \<equiv> 0xfe00707f"
abbreviation (input) MATCH_SRL :: reg_t where "MATCH_SRL \<equiv> 0x5033"
abbreviation (input) MASK_SRL :: reg_t where "MASK_SRL \<equiv> 0xfe00707f"
abbreviation (input) MATCH_SRLI :: reg_t where "MATCH_SRLI \<equiv> 0x5013"
abbreviation (input) MASK_SRLI :: reg_t where "MASK_SRLI \<equiv> 0xfc00707f"
abbreviation (input) MATCH_SRLIW :: reg_t where "MATCH_SRLIW \<equiv> 0x501b"
abbreviation (input) MASK_SRLIW :: reg_t where "MASK_SRLIW \<equiv> 0xfe00707f"
abbreviation (input) MATCH_SRLW :: reg_t where "MATCH_SRLW \<equiv> 0x503b"
abbreviation (input) MASK_SRLW :: reg_t where "MASK_SRLW \<equiv> 0xfe00707f"
abbreviation (input) MATCH_SUB :: reg_t where "MATCH_SUB \<equiv> 0x40000033"
abbreviation (input) MASK_SUB :: reg_t where "MASK_SUB \<equiv> 0xfe00707f"
abbreviation (input) MATCH_SUBW :: reg_t where "MATCH_SUBW \<equiv> 0x4000003b"
abbreviation (input) MASK_SUBW :: reg_t where "MASK_SUBW \<equiv> 0xfe00707f"
abbreviation (input) MATCH_SW :: reg_t where "MATCH_SW \<equiv> 0x2023"
abbreviation (input) MASK_SW :: reg_t where "MASK_SW \<equiv> 0x707f"
abbreviation (input) MATCH_XOR :: reg_t where "MATCH_XOR \<equiv> 0x4033"
abbreviation (input) MASK_XOR :: reg_t where "MASK_XOR \<equiv> 0xfe00707f"
abbreviation (input) MATCH_XORI :: reg_t where "MATCH_XORI \<equiv> 0x4013"
abbreviation (input) MASK_XORI :: reg_t where "MASK_XORI \<equiv> 0x707f"
abbreviation (input) MATCH_FENCE :: reg_t where "MATCH_FENCE \<equiv> 0xf"
abbreviation (input) MASK_FENCE :: reg_t where "MASK_FENCE \<equiv> 0x707f"
abbreviation (input) MATCH_FENCE_I :: reg_t where "MATCH_FENCE_I \<equiv> 0x100f"
abbreviation (input) MASK_FENCE_I :: reg_t where "MASK_FENCE_I \<equiv> 0x707f"
abbreviation (input) MATCH_DIV :: reg_t where "MATCH_DIV \<equiv> 0x2004033"
abbreviation (input) MASK_DIV :: reg_t where "MASK_DIV \<equiv> 0xfe00707f"
abbreviation (input) MATCH_DIVU :: reg_t where "MATCH_DIVU \<equiv> 0x2005033"
abbreviation (input) MASK_DIVU :: reg_t where "MASK_DIVU \<equiv> 0xfe00707f"
abbreviation (input) MATCH_DIVUW :: reg_t where "MATCH_DIVUW \<equiv> 0x200503b"
abbreviation (input) MASK_DIVUW :: reg_t where "MASK_DIVUW \<equiv> 0xfe00707f"
abbreviation (input) MATCH_DIVW :: reg_t where "MATCH_DIVW \<equiv> 0x200403b"
abbreviation (input) MASK_DIVW :: reg_t where "MASK_DIVW \<equiv> 0xfe00707f"
abbreviation (input) MATCH_MUL :: reg_t where "MATCH_MUL \<equiv> 0x2000033"
abbreviation (input) MASK_MUL :: reg_t where "MASK_MUL \<equiv> 0xfe00707f"
abbreviation (input) MATCH_MULH :: reg_t where "MATCH_MULH \<equiv> 0x2001033"
abbreviation (input) MASK_MULH :: reg_t where "MASK_MULH \<equiv> 0xfe00707f"
abbreviation (input) MATCH_MULHSU :: reg_t where "MATCH_MULHSU \<equiv> 0x2002033"
abbreviation (input) MASK_MULHSU :: reg_t where "MASK_MULHSU \<equiv> 0xfe00707f"
abbreviation (input) MATCH_MULHU :: reg_t where "MATCH_MULHU \<equiv> 0x2003033"
abbreviation (input) MASK_MULHU :: reg_t where "MASK_MULHU \<equiv> 0xfe00707f"
abbreviation (input) MATCH_MULW :: reg_t where "MATCH_MULW \<equiv> 0x200003b"
abbreviation (input) MASK_MULW :: reg_t where "MASK_MULW \<equiv> 0xfe00707f"
abbreviation (input) MATCH_REM :: reg_t where "MATCH_REM \<equiv> 0x2006033"
abbreviation (input) MASK_REM :: reg_t where "MASK_REM \<equiv> 0xfe00707f"
abbreviation (input) MATCH_REMU :: reg_t where "MATCH_REMU \<equiv> 0x2007033"
abbreviation (input) MASK_REMU :: reg_t where "MASK_REMU \<equiv> 0xfe00707f"
abbreviation (input) MATCH_REMUW :: reg_t where "MATCH_REMUW \<equiv> 0x200703b"
abbreviation (input) MASK_REMUW :: reg_t where "MASK_REMUW \<equiv> 0xfe00707f"
abbreviation (input) MATCH_REMW :: reg_t where "MATCH_REMW \<equiv> 0x200603b"
abbreviation (input) MASK_REMW :: reg_t where "MASK_REMW \<equiv> 0xfe00707f"
abbreviation (input) MATCH_CSRRC :: reg_t where "MATCH_CSRRC \<equiv> 0x3073"
abbreviation (input) MASK_CSRRC :: reg_t where "MASK_CSRRC \<equiv> 0x707f"
abbreviation (input) MATCH_CSRRCI :: reg_t where "MATCH_CSRRCI \<equiv> 0x7073"
abbreviation (input) MASK_CSRRCI :: reg_t where "MASK_CSRRCI \<equiv> 0x707f"
abbreviation (input) MATCH_CSRRS :: reg_t where "MATCH_CSRRS \<equiv> 0x2073"
abbreviation (input) MASK_CSRRS :: reg_t where "MASK_CSRRS \<equiv> 0x707f"
abbreviation (input) MATCH_CSRRSI :: reg_t where "MATCH_CSRRSI \<equiv> 0x6073"
abbreviation (input) MASK_CSRRSI :: reg_t where "MASK_CSRRSI \<equiv> 0x707f"
abbreviation (input) MATCH_CSRRW :: reg_t where "MATCH_CSRRW \<equiv> 0x1073"
abbreviation (input) MASK_CSRRW :: reg_t where "MASK_CSRRW \<equiv> 0x707f"
abbreviation (input) MATCH_CSRRWI :: reg_t where "MATCH_CSRRWI \<equiv> 0x5073"
abbreviation (input) MASK_CSRRWI :: reg_t where "MASK_CSRRWI \<equiv> 0x707f"
abbreviation (input) MATCH_DRET :: reg_t where "MATCH_DRET \<equiv> 0x7b200073"
abbreviation (input) MASK_DRET :: reg_t where "MASK_DRET \<equiv> 0xffffffff"
abbreviation (input) MATCH_EBREAK :: reg_t where "MATCH_EBREAK \<equiv> 0x100073"
abbreviation (input) MASK_EBREAK :: reg_t where "MASK_EBREAK \<equiv> 0xffffffff"
abbreviation (input) MATCH_ECALL :: reg_t where "MATCH_ECALL \<equiv> 0x73"
abbreviation (input) MASK_ECALL :: reg_t where "MASK_ECALL \<equiv> 0xffffffff"
abbreviation (input) MATCH_MRET :: reg_t where "MATCH_MRET \<equiv> 0x30200073"
abbreviation (input) MASK_MRET :: reg_t where "MASK_MRET \<equiv> 0xffffffff"
abbreviation (input) MATCH_SFENCE_VMA :: reg_t where "MATCH_SFENCE_VMA \<equiv> 0x12000073"
abbreviation (input) MASK_SFENCE_VMA :: reg_t where "MASK_SFENCE_VMA \<equiv> 0xfe007fff"
abbreviation (input) MATCH_SRET :: reg_t where "MATCH_SRET \<equiv> 0x10200073"
abbreviation (input) MASK_SRET :: reg_t where "MASK_SRET \<equiv> 0xffffffff"
abbreviation (input) MATCH_WFI :: reg_t where "MATCH_WFI \<equiv> 0x10500073"
abbreviation (input) MASK_WFI :: reg_t where "MASK_WFI \<equiv> 0xffffffff"

subsection \<open>The table\<close>

definition insn_list :: "(string \<times> reg_t \<times> reg_t) list" where
  "insn_list = [
    (''amoadd_d'', MATCH_AMOADD_D, MASK_AMOADD_D),
    (''amoadd_w'', MATCH_AMOADD_W, MASK_AMOADD_W),
    (''amoand_d'', MATCH_AMOAND_D, MASK_AMOAND_D),
    (''amoand_w'', MATCH_AMOAND_W, MASK_AMOAND_W),
    (''amomax_d'', MATCH_AMOMAX_D, MASK_AMOMAX_D),
    (''amomaxu_d'', MATCH_AMOMAXU_D, MASK_AMOMAXU_D),
    (''amomaxu_w'', MATCH_AMOMAXU_W, MASK_AMOMAXU_W),
    (''amomax_w'', MATCH_AMOMAX_W, MASK_AMOMAX_W),
    (''amomin_d'', MATCH_AMOMIN_D, MASK_AMOMIN_D),
    (''amominu_d'', MATCH_AMOMINU_D, MASK_AMOMINU_D),
    (''amominu_w'', MATCH_AMOMINU_W, MASK_AMOMINU_W),
    (''amomin_w'', MATCH_AMOMIN_W, MASK_AMOMIN_W),
    (''amoor_d'', MATCH_AMOOR_D, MASK_AMOOR_D),
    (''amoor_w'', MATCH_AMOOR_W, MASK_AMOOR_W),
    (''amoswap_d'', MATCH_AMOSWAP_D, MASK_AMOSWAP_D),
    (''amoswap_w'', MATCH_AMOSWAP_W, MASK_AMOSWAP_W),
    (''amoxor_d'', MATCH_AMOXOR_D, MASK_AMOXOR_D),
    (''amoxor_w'', MATCH_AMOXOR_W, MASK_AMOXOR_W),
    (''lr_d'', MATCH_LR_D, MASK_LR_D),
    (''lr_w'', MATCH_LR_W, MASK_LR_W),
    (''sc_d'', MATCH_SC_D, MASK_SC_D),
    (''sc_w'', MATCH_SC_W, MASK_SC_W),
    (''c_add'', MATCH_C_ADD, MASK_C_ADD),
    (''c_addi'', MATCH_C_ADDI, MASK_C_ADDI),
    (''c_addi4spn'', MATCH_C_ADDI4SPN, MASK_C_ADDI4SPN),
    (''c_addw'', MATCH_C_ADDW, MASK_C_ADDW),
    (''c_and'', MATCH_C_AND, MASK_C_AND),
    (''c_andi'', MATCH_C_ANDI, MASK_C_ANDI),
    (''c_beqz'', MATCH_C_BEQZ, MASK_C_BEQZ),
    (''c_bnez'', MATCH_C_BNEZ, MASK_C_BNEZ),
    (''c_ebreak'', MATCH_C_EBREAK, MASK_C_EBREAK),
    (''c_fld'', MATCH_C_FLD, MASK_C_FLD),
    (''c_fldsp'', MATCH_C_FLDSP, MASK_C_FLDSP),
    (''c_flw'', MATCH_C_FLW, MASK_C_FLW),
    (''c_flwsp'', MATCH_C_FLWSP, MASK_C_FLWSP),
    (''c_fsd'', MATCH_C_FSD, MASK_C_FSD),
    (''c_fsdsp'', MATCH_C_FSDSP, MASK_C_FSDSP),
    (''c_fsw'', MATCH_C_FSW, MASK_C_FSW),
    (''c_fswsp'', MATCH_C_FSWSP, MASK_C_FSWSP),
    (''c_j'', MATCH_C_J, MASK_C_J),
    (''c_jal'', MATCH_C_JAL, MASK_C_JAL),
    (''c_jalr'', MATCH_C_JALR, MASK_C_JALR),
    (''c_jr'', MATCH_C_JR, MASK_C_JR),
    (''c_li'', MATCH_C_LI, MASK_C_LI),
    (''c_lui'', MATCH_C_LUI, MASK_C_LUI),
    (''c_lw'', MATCH_C_LW, MASK_C_LW),
    (''c_lwsp'', MATCH_C_LWSP, MASK_C_LWSP),
    (''c_mv'', MATCH_C_MV, MASK_C_MV),
    (''c_or'', MATCH_C_OR, MASK_C_OR),
    (''c_slli'', MATCH_C_SLLI, MASK_C_SLLI),
    (''c_srai'', MATCH_C_SRAI, MASK_C_SRAI),
    (''c_srli'', MATCH_C_SRLI, MASK_C_SRLI),
    (''c_sub'', MATCH_C_SUB, MASK_C_SUB),
    (''c_subw'', MATCH_C_SUBW, MASK_C_SUBW),
    (''c_sw'', MATCH_C_SW, MASK_C_SW),
    (''c_swsp'', MATCH_C_SWSP, MASK_C_SWSP),
    (''c_xor'', MATCH_C_XOR, MASK_C_XOR),
    (''add'', MATCH_ADD, MASK_ADD),
    (''addi'', MATCH_ADDI, MASK_ADDI),
    (''addiw'', MATCH_ADDIW, MASK_ADDIW),
    (''addw'', MATCH_ADDW, MASK_ADDW),
    (''and'', MATCH_AND, MASK_AND),
    (''andi'', MATCH_ANDI, MASK_ANDI),
    (''auipc'', MATCH_AUIPC, MASK_AUIPC),
    (''beq'', MATCH_BEQ, MASK_BEQ),
    (''bge'', MATCH_BGE, MASK_BGE),
    (''bgeu'', MATCH_BGEU, MASK_BGEU),
    (''blt'', MATCH_BLT, MASK_BLT),
    (''bltu'', MATCH_BLTU, MASK_BLTU),
    (''bne'', MATCH_BNE, MASK_BNE),
    (''jal'', MATCH_JAL, MASK_JAL),
    (''jalr'', MATCH_JALR, MASK_JALR),
    (''lb'', MATCH_LB, MASK_LB),
    (''lbu'', MATCH_LBU, MASK_LBU),
    (''ld'', MATCH_LD, MASK_LD),
    (''lh'', MATCH_LH, MASK_LH),
    (''lhu'', MATCH_LHU, MASK_LHU),
    (''lui'', MATCH_LUI, MASK_LUI),
    (''lw'', MATCH_LW, MASK_LW),
    (''lwu'', MATCH_LWU, MASK_LWU),
    (''or'', MATCH_OR, MASK_OR),
    (''ori'', MATCH_ORI, MASK_ORI),
    (''sb'', MATCH_SB, MASK_SB),
    (''sd'', MATCH_SD, MASK_SD),
    (''sh'', MATCH_SH, MASK_SH),
    (''sll'', MATCH_SLL, MASK_SLL),
    (''slli'', MATCH_SLLI, MASK_SLLI),
    (''slliw'', MATCH_SLLIW, MASK_SLLIW),
    (''sllw'', MATCH_SLLW, MASK_SLLW),
    (''slt'', MATCH_SLT, MASK_SLT),
    (''slti'', MATCH_SLTI, MASK_SLTI),
    (''sltiu'', MATCH_SLTIU, MASK_SLTIU),
    (''sltu'', MATCH_SLTU, MASK_SLTU),
    (''sra'', MATCH_SRA, MASK_SRA),
    (''srai'', MATCH_SRAI, MASK_SRAI),
    (''sraiw'', MATCH_SRAIW, MASK_SRAIW),
    (''sraw'', MATCH_SRAW, MASK_SRAW),
    (''srl'', MATCH_SRL, MASK_SRL),
    (''srli'', MATCH_SRLI, MASK_SRLI),
    (''srliw'', MATCH_SRLIW, MASK_SRLIW),
    (''srlw'', MATCH_SRLW, MASK_SRLW),
    (''sub'', MATCH_SUB, MASK_SUB),
    (''subw'', MATCH_SUBW, MASK_SUBW),
    (''sw'', MATCH_SW, MASK_SW),
    (''xor'', MATCH_XOR, MASK_XOR),
    (''xori'', MATCH_XORI, MASK_XORI),
    (''fence'', MATCH_FENCE, MASK_FENCE),
    (''fence_i'', MATCH_FENCE_I, MASK_FENCE_I),
    (''div'', MATCH_DIV, MASK_DIV),
    (''divu'', MATCH_DIVU, MASK_DIVU),
    (''divuw'', MATCH_DIVUW, MASK_DIVUW),
    (''divw'', MATCH_DIVW, MASK_DIVW),
    (''mul'', MATCH_MUL, MASK_MUL),
    (''mulh'', MATCH_MULH, MASK_MULH),
    (''mulhsu'', MATCH_MULHSU, MASK_MULHSU),
    (''mulhu'', MATCH_MULHU, MASK_MULHU),
    (''mulw'', MATCH_MULW, MASK_MULW),
    (''rem'', MATCH_REM, MASK_REM),
    (''remu'', MATCH_REMU, MASK_REMU),
    (''remuw'', MATCH_REMUW, MASK_REMUW),
    (''remw'', MATCH_REMW, MASK_REMW),
    (''csrrc'', MATCH_CSRRC, MASK_CSRRC),
    (''csrrci'', MATCH_CSRRCI, MASK_CSRRCI),
    (''csrrs'', MATCH_CSRRS, MASK_CSRRS),
    (''csrrsi'', MATCH_CSRRSI, MASK_CSRRSI),
    (''csrrw'', MATCH_CSRRW, MASK_CSRRW),
    (''csrrwi'', MATCH_CSRRWI, MASK_CSRRWI),
    (''dret'', MATCH_DRET, MASK_DRET),
    (''ebreak'', MATCH_EBREAK, MASK_EBREAK),
    (''ecall'', MATCH_ECALL, MASK_ECALL),
    (''mret'', MATCH_MRET, MASK_MRET),
    (''sfence_vma'', MATCH_SFENCE_VMA, MASK_SFENCE_VMA),
    (''sret'', MATCH_SRET, MASK_SRET),
    (''wfi'', MATCH_WFI, MASK_WFI)]"

subsection \<open>No two entries clash\<close>

text \<open>
  \<open>clear\<close> is checked group by group: entries that differ under a mask both have fixed cannot match
  the same word, so only entries that agree under it are compared further.
\<close>

definition clear :: "(reg_t \<times> reg_t) list \<Rightarrow> bool" where
  "clear xs \<longleftrightarrow> (\<forall>(m, k) \<in> set xs. \<forall>(m', k') \<in> set xs. m \<noteq> m' \<longrightarrow> (m XOR m') AND (k AND k') \<noteq> 0)"

fun clear_of :: "reg_t \<Rightarrow> reg_t \<Rightarrow> (reg_t \<times> reg_t) list \<Rightarrow> bool" where
  "clear_of m k [] = True"
| "clear_of m k ((m', k') # xs) = ((m = m' \<or> (m XOR m') AND (k AND k') \<noteq> 0) \<and> clear_of m k xs)"

fun clear_pairs :: "(reg_t \<times> reg_t) list \<Rightarrow> bool" where
  "clear_pairs [] = True"
| "clear_pairs ((m, k) # xs) = (clear_of m k xs \<and> clear_pairs xs)"

lemma clear_of: "clear_of m k xs \<longleftrightarrow> (\<forall>(m', k') \<in> set xs. m \<noteq> m' \<longrightarrow> (m XOR m') AND (k AND k') \<noteq> 0)"
  by (induction xs) auto

lemma clear_pairs: "clear_pairs xs \<Longrightarrow> clear xs"
proof (induction xs)
  case (Cons x xs)
  obtain m k where x: "x = (m, k)" by (cases x)
  have *: "\<And>m' k'. (m', k') \<in> set xs \<Longrightarrow> m \<noteq> m' \<Longrightarrow> (m XOR m') AND (k AND k') \<noteq> 0"
    using Cons.prems x by (auto simp: clear_of)
  have "clear xs" using Cons x by simp
  then show ?case unfolding clear_def x
    using * by (auto simp: xor.commute and.commute)
qed (simp add: clear_def)

fun covers :: "reg_t \<Rightarrow> (reg_t \<times> reg_t) list \<Rightarrow> bool" where
  "covers M [] = True"
| "covers M ((m, k) # xs) \<longleftrightarrow> k AND M = M \<and> covers M xs"

fun insert_key :: "reg_t \<Rightarrow> 'b \<Rightarrow> (reg_t \<times> 'b list) list \<Rightarrow> (reg_t \<times> 'b list) list" where
  "insert_key v x [] = [(v, [x])]"
| "insert_key v x ((w, xs) # g) = (if v = w then (w, x # xs) # g else (w, xs) # insert_key v x g)"

fun group_by :: "reg_t \<Rightarrow> (reg_t \<times> reg_t) list \<Rightarrow> (reg_t \<times> (reg_t \<times> reg_t) list) list" where
  "group_by M [] = []"
| "group_by M ((m, k) # xs) = insert_key (m AND M) (m, k) (group_by M xs)"

definition split_by :: "reg_t \<Rightarrow> (reg_t \<times> reg_t) list \<Rightarrow> (reg_t \<times> reg_t) list list" where
  "split_by M xs = (if covers M xs then map snd (group_by M xs) else [xs])"

lemma covers: "covers M xs \<longleftrightarrow> (\<forall>(m, k) \<in> set xs. k AND M = M)"
  by (induction M xs rule: covers.induct) auto

lemma insert_key_has: "\<exists>xs. (v, xs) \<in> set (insert_key v x g) \<and> x \<in> set xs"
  by (induction v x g rule: insert_key.induct) auto

lemma insert_key_old: "(w, xs) \<in> set g \<Longrightarrow> \<exists>ys. (w, ys) \<in> set (insert_key v x g) \<and> set xs \<subseteq> set ys"
  by (induction v x g rule: insert_key.induct) auto

lemma insert_key_keys: "map fst (insert_key v x g) = (if v \<in> set (map fst g) then map fst g else map fst g @ [v])"
  by (induction v x g rule: insert_key.induct) auto

lemma group_by_keys: "distinct (map fst (group_by M xs))"
  by (induction M xs rule: group_by.induct) (auto simp: insert_key_keys)

lemma group_by_has: "(m, k) \<in> set xs \<Longrightarrow> \<exists>ys. (m AND M, ys) \<in> set (group_by M xs) \<and> (m, k) \<in> set ys"
proof (induction M xs rule: group_by.induct)
  case (2 M m' k' xs)
  show ?case
  proof (cases "(m, k) = (m', k')")
    case True
    then show ?thesis using insert_key_has [of "m AND M" "(m, k)" "group_by M xs"] by auto
  next
    case False
    then obtain ys where "(m AND M, ys) \<in> set (group_by M xs)" "(m, k) \<in> set ys"
      using 2 by auto
    then show ?thesis using insert_key_old [of "m AND M" ys "group_by M xs" "m' AND M" "(m', k')"] by auto
  qed
qed simp

lemma split_clear: 
  assumes "\<forall>ys \<in> set (split_by M xs). clear ys"
  shows "clear xs"
proof (cases "covers M xs")
  case False
  then show ?thesis using assms by (simp add: split_by_def)
next
  case c: True
  have "(m XOR m') AND (k AND k') \<noteq> 0" if x: "(m, k) \<in> set xs" "(m', k') \<in> set xs" "m \<noteq> m'" for m k m' k'
  proof (cases "m AND M = m' AND M")
    case True
    obtain ys ys' where "(m AND M, ys) \<in> set (group_by M xs)" "(m, k) \<in> set ys"
      "(m' AND M, ys') \<in> set (group_by M xs)" "(m', k') \<in> set ys'"
      using group_by_has [OF x(1)] group_by_has [OF x(2)] by metis
    moreover from this have "ys = ys'" using True group_by_keys by (metis eq_key_imp_eq_value)
    moreover have "clear ys" using assms c calculation by (force simp: split_by_def)
    ultimately show ?thesis using x(3) unfolding clear_def by fastforce
  next
    case False
    have k: "k AND M = M" "k' AND M = M" using c x by (auto simp: covers)
    obtain i where i: "bit (m AND M) i \<noteq> bit (m' AND M) i" using False by (auto simp: bit_eq_iff)
    then have "bit M i" "bit m i \<noteq> bit m' i" by (auto simp: bit_and_iff)
    moreover from this have "bit k i" "bit k' i" using k by (metis bit_and_iff)+
    ultimately have "bit ((m XOR m') AND (k AND k')) i" by (simp add: bit_and_iff bit_xor_iff)
    then show ?thesis by (rule bit_nonzero)
  qed
  then show ?thesis by (auto simp: clear_def)
qed

fun split_all :: "reg_t \<Rightarrow> (reg_t \<times> reg_t) list list \<Rightarrow> (reg_t \<times> reg_t) list list" where
  "split_all M [] = []"
| "split_all M (xs # xss) = split_by M xs @ split_all M xss"

lemma split_all_clear: "\<forall>ys \<in> set (split_all M xss). clear ys \<Longrightarrow> \<forall>xs \<in> set xss. clear xs"
  by (induction xss) (auto intro: split_clear)

fun split_levels :: "reg_t list \<Rightarrow> (reg_t \<times> reg_t) list list \<Rightarrow> (reg_t \<times> reg_t) list list" where
  "split_levels [] xss = xss"
| "split_levels (M # Ms) xss = split_levels Ms (split_all M xss)"

lemma split_levels_clear: "\<forall>ys \<in> set (split_levels Ms xss). clear ys \<Longrightarrow> \<forall>xs \<in> set xss. clear xs"
  by (induction Ms arbitrary: xss) (auto dest: split_all_clear)

lemma levels_clear:
  assumes "list_all clear_pairs (split_levels Ms [xs])"
  shows "clear xs"
proof -
  have "\<forall>ys \<in> set (split_levels Ms [xs]). clear ys"
    using assms clear_pairs by (simp only: list_all_iff) blast
  then show ?thesis using split_levels_clear [of Ms "[xs]"] by simp
qed

lemma insn_list_clear: "clear (map snd insn_list)"
proof (rule levels_clear)
  show "list_all clear_pairs (split_levels [3, 0x7f, 0xe003, 0x707f, 0xfe00707f, 0xf800707f] [map snd insn_list])"
    unfolding insn_list_def list.map snd_conv by (simp add: split_by_def)
qed

subsection \<open>Registration\<close>

text \<open>\<open>overlap_list.h\<close>: the instructions that give way to another extension.\<close>

definition overlap_list :: "(string \<times> nat) list" where
  "overlap_list = [(''c_fsdsp'', EXT_ZCD), (''c_fld'', EXT_ZCD), (''c_fldsp'', EXT_ZCD), (''cm_push'', EXT_ZCMP),
     (''cm_pop'', EXT_ZCMP), (''cm_popret'', EXT_ZCMP), (''cm_popretz'', EXT_ZCMP), (''cm_mva01s'', EXT_ZCMP),
     (''cm_mvsa01'', EXT_ZCMP), (''cm_jalt'', EXT_ZCMT), (''c_fsd'', EXT_ZCD)]"

definition insn_supported :: "(nat \<Rightarrow> bool) \<Rightarrow> string \<Rightarrow> bool" where
  "insn_supported isa name = (case map_of overlap_list name of None \<Rightarrow> True | Some ext \<Rightarrow> isa ext)"

text \<open>\<open>fn\<close> names the eight functions of an instruction: logged or not, width, register check.\<close>

definition insn_entry :: "(bool \<Rightarrow> nat \<Rightarrow> bool \<Rightarrow> string \<Rightarrow> 'f) \<Rightarrow> string \<times> reg_t \<times> reg_t \<Rightarrow> 'f insn_desc" where
  "insn_entry fn e = (case e of (n, m, k) \<Rightarrow> \<lparr>d_match = m, d_mask = k,
     fast_rv32i = fn False 32 False n, fast_rv64i = fn False 64 False n,
     fast_rv32e = fn False 32 True n, fast_rv64e = fn False 64 True n,
     logged_rv32i = fn True 32 False n, logged_rv64i = fn True 64 False n,
     logged_rv32e = fn True 32 True n, logged_rv64e = fn True 64 True n\<rparr>)"

definition register_base_instructions ::
    "(nat \<Rightarrow> bool) \<Rightarrow> (bool \<Rightarrow> nat \<Rightarrow> bool \<Rightarrow> string \<Rightarrow> 'f) \<Rightarrow> 'f \<Rightarrow> 'f decoder \<Rightarrow> 'f decoder" where
  "register_base_instructions isa fn ill d =
     build_opcode_map ill (register_insn (desc_illegal ill)
       (fold (\<lambda>e. register_insn (insn_entry fn e)) (filter (\<lambda>e. insn_supported isa (fst e)) insn_list) d))"

lemma registered: "instructions (fold (\<lambda>e. register_insn (f e)) es d) = instructions d @ map f es"
  by (induction es arbitrary: d) (auto simp: register_insn_def)

definition supported_insns :: "(nat \<Rightarrow> bool) \<Rightarrow> (string \<times> reg_t \<times> reg_t) list" where
  "supported_insns isa = filter (\<lambda>e. insn_supported isa (fst e)) insn_list"

text \<open>What a word decodes to: the entry with the most bits fixed among those it has, or nothing.\<close>

definition decodes_to :: "(nat \<Rightarrow> bool) \<Rightarrow> reg_t \<Rightarrow> string option \<Rightarrow> bool" where
  "decodes_to isa w r \<longleftrightarrow> (case r of
     None \<Rightarrow> \<forall>(n, m, k) \<in> set (supported_insns isa). w AND k \<noteq> m
   | Some n \<Rightarrow> \<exists>m k. (n, m, k) \<in> set (supported_insns isa) \<and> w AND k = m \<and>
       (\<forall>(n', m', k') \<in> set (supported_insns isa). w AND k' = m' \<longrightarrow> m' = m \<and> k' \<le> k))"

definition run_fn :: "(bool \<Rightarrow> nat \<Rightarrow> bool \<Rightarrow> string \<Rightarrow> 'f) \<Rightarrow> 'f \<Rightarrow> nat \<Rightarrow> bool \<Rightarrow> bool \<Rightarrow> string option \<Rightarrow> 'f" where
  "run_fn fn ill xlen rve logged r = (case r of None \<Rightarrow> ill | Some n \<Rightarrow> fn logged (if xlen = 64 then 64 else 32 :: nat) rve n)"

lemma desc_func_entry: "desc_func xlen rve logged (insn_entry fn (n, m, k)) = run_fn fn ill xlen rve logged (Some n)"
  by (simp add: desc_func_def insn_entry_def run_fn_def)

lemma desc_func_illegal: "desc_func xlen rve logged (desc_illegal ill) = run_fn fn ill xlen rve logged None"
  by (simp add: desc_func_def desc_illegal_def run_fn_def)

lemma first_match_sorted:
  assumes "sorted (map desc_key T)" "first_match w T = Some a"
  shows "a \<in> set T \<and> matches w a \<and> (\<forall>b \<in> set T. matches w b \<longrightarrow> desc_key a \<le> desc_key b)"
  using assms
proof (induction T)
  case (Cons d T)
  then show ?case by (auto simp: first_match_Cons split: if_splits)
qed (simp add: first_match_def)

lemma insn_masks: "(n, m, k) \<in> set insn_list \<Longrightarrow> k \<noteq> 0"
  by (auto simp: insn_list_def)

lemma base_table_good: "good_table ill (map (insn_entry fn) (supported_insns isa) @ [desc_illegal ill])"
  by (auto simp: good_table_def supported_insns_def insn_entry_def dest: insn_masks)

lemma base_table_clear: "unambiguous (map (insn_entry fn) (supported_insns isa) @ [desc_illegal ill])"
  using insn_list_clear
  by (fastforce simp: unambiguous_def supported_insns_def insn_entry_def desc_illegal_def clear_def)

lemma not_le_not: "NOT (a :: reg_t) \<le> NOT b \<longleftrightarrow> b \<le> a"
  by transfer (simp add: take_bit_not_eq_mask_diff)

lemma decodes_first:
  fixes fn ill isa
  defines "T \<equiv> sort_key desc_key (map (insn_entry fn) (supported_insns isa) @ [desc_illegal ill])"
  shows "\<exists>r. desc_func xlen rve logged (the (first_match w T)) = run_fn fn ill xlen rve logged r \<and> decodes_to isa w r"
proof -
  let ?E = "map (insn_entry fn) (supported_insns isa)"
  have T: "set T = set ?E \<union> {desc_illegal ill}" by (auto simp: T_def)
  have "matches w (desc_illegal ill)" by (simp add: matches_def desc_illegal_def)
  then obtain a where a: "first_match w T = Some a"
    using first_match_None [of w T] T by (cases "first_match w T") auto
  have s: "sorted (map desc_key T)" by (simp add: T_def)
  have m: "a \<in> set T" "matches w a" and le: "\<And>b. b \<in> set T \<Longrightarrow> matches w b \<Longrightarrow> desc_key a \<le> desc_key b"
    using first_match_sorted [OF s a] by auto
  show ?thesis
  proof (cases "a \<in> set ?E")
    case True
    then obtain n m k where e: "(n, m, k) \<in> set (supported_insns isa)" "a = insn_entry fn (n, m, k)" by auto
    have "m' = m \<and> k' \<le> k" if x: "(n', m', k') \<in> set (supported_insns isa)" "w AND k' = m'" for n' m' k'
    proof -
      let ?b = "insn_entry fn (n', m', k')"
      have b: "?b \<in> set ?E" "matches w ?b" using x by (force simp: matches_def insn_entry_def)+
      have nz: "k \<noteq> 0" "k' \<noteq> 0" using e x insn_masks by (auto simp: supported_insns_def)
      have "d_match a = d_match ?b"
        by (rule both_match [OF base_table_clear [of fn isa ill] _ _ _ _ m(2) b(2)])
           (use True b(1) nz e in \<open>auto simp: insn_entry_def\<close>)
      moreover have "desc_key a \<le> desc_key ?b" using le b T by auto
      ultimately show ?thesis using e
        by (auto simp: desc_key_def insn_entry_def less_eq_prod_def not_le_not)
    qed
    then have "case x of (n', m', k') \<Rightarrow> w AND k' = m' \<longrightarrow> m' = m \<and> k' \<le> k" if "x \<in> set (supported_insns isa)" for x
      using that by (cases x) simp
    then have "\<forall>(n', m', k') \<in> set (supported_insns isa). w AND k' = m' \<longrightarrow> m' = m \<and> k' \<le> k" by blast
    moreover have "w AND k = m" using m(2) e(2) by (simp add: matches_def insn_entry_def)
    ultimately have "decodes_to isa w (Some n)"
      unfolding decodes_to_def option.case using e(1) by blast
    moreover have "desc_func xlen rve logged (the (first_match w T)) = run_fn fn ill xlen rve logged (Some n)"
      unfolding a option.sel e(2) by (rule desc_func_entry)
    ultimately show ?thesis by blast
  next
    case False
    then have i: "a = desc_illegal ill" using m T by auto
    have "w AND k \<noteq> m" if x: "(n, m, k) \<in> set (supported_insns isa)" for n m k
    proof
      assume "w AND k = m"
      then have "matches w (insn_entry fn (n, m, k))" by (simp add: matches_def insn_entry_def)
      moreover have "insn_entry fn (n, m, k) \<in> set T" using x T by simp
      ultimately have "desc_key (desc_illegal ill) \<le> desc_key (insn_entry fn (n, m, k))" using le i by blast
      moreover have "k \<noteq> 0" using x insn_masks by (auto simp: supported_insns_def)
      ultimately show False
        using desc_key_illegal [of "insn_entry fn (n, m, k)" ill] not_le_not [of 0 k]
        by (auto simp: desc_key_def desc_illegal_def insn_entry_def word_coorder.extremum_unique)
    qed
    then have "decodes_to isa w None" by (auto simp: decodes_to_def)
    moreover have "desc_func xlen rve logged (the (first_match w T)) = run_fn fn ill xlen rve logged None"
      unfolding a option.sel i by (rule desc_func_illegal)
    ultimately show ?thesis by blast
  qed
qed



end
