(* ===== verification/Mmu.thy ===== *)
theory Mmu
  imports Processor
begin

text \<open>
  The memory management unit, \<open>riscv/mmu.cc\<close> and \<open>riscv/mmu.h\<close>: the two-stage page table walk,
  the translation cache with its refill, loads, stores, reservations and instruction fetches. The
  state is the hart, the bytes of main memory and the devices; the simulator the unit calls
  (\<open>riscv/simif.h\<close>) is an argument, and what a device does to the interrupt lines and the time of the
  hart is the list of events it returns. The target is little endian, as the build configures it, and no
  memory tracer is attached.
\<close>

subsection \<open>Bytes\<close>

definition read_bytes :: "reg_t \<Rightarrow> nat \<Rightarrow> (reg_t \<Rightarrow> u8) \<Rightarrow> u8 list" where
  "read_bytes a n mem = map (\<lambda>k. mem (a + of_nat k)) [0..<n]"

definition write_bytes :: "reg_t \<Rightarrow> u8 list \<Rightarrow> (reg_t \<Rightarrow> u8) \<Rightarrow> (reg_t \<Rightarrow> u8)" where
  "write_bytes a bs mem = (\<lambda>x. if unat (x - a) < length bs then bs ! unat (x - a) else mem x)"

fun le_word :: "u8 list \<Rightarrow> reg_t" where
  "le_word [] = 0"
| "le_word (b # bs) = ucast b OR shl (le_word bs) 8"

definition le_bytes :: "nat \<Rightarrow> reg_t \<Rightarrow> u8 list" where
  "le_bytes n v = map (\<lambda>k. ucast (shr v (8 * k))) [0..<n]"

definition reg_from_bytes :: "u8 list \<Rightarrow> reg_t option" where
  "reg_from_bytes bs = (if length bs \<in> {1, 2, 4, 8} then Some (le_word bs) else None)"

subsection \<open>The machine\<close>

record 'b world =
  w_hart :: hart
  w_mem :: "reg_t \<Rightarrow> u8"
  w_bus :: 'b

type_synonym 'b platform = "(reg_t \<Rightarrow> u8) \<times> 'b"

text \<open>What a device does to the hart: it drives interrupt lines (the mask and value of
  \<open>backdoor_write_with_mask\<close>), tells the hart the time, or asks it to halt.\<close>

datatype hart_event = Mip_write reg_t reg_t | Time_sync reg_t | Halt_write halt_request_t

type_synonym irqs = "hart_event list"

fun apply_event :: "hart_event \<Rightarrow> hart \<Rightarrow> hart" where
  "apply_event (Mip_write m v) h = backdoor_write_with_mask m v h"
| "apply_event (Time_sync t) h = time_sync t h"
| "apply_event (Halt_write r) h = h\<lparr>halt_request := r\<rparr>"

record 'b simif =
  sim_addr_to_mem :: "reg_t \<Rightarrow> bool"
  sim_reservable :: "reg_t \<Rightarrow> bool"
  sim_mmio_fetch :: "reg_t \<Rightarrow> nat \<Rightarrow> reg_t \<Rightarrow> 'b platform \<Rightarrow> u8 list option option \<times> irqs \<times> 'b platform"
  sim_mmio_load :: "reg_t \<Rightarrow> nat \<Rightarrow> reg_t \<Rightarrow> 'b platform \<Rightarrow> u8 list option option \<times> irqs \<times> 'b platform"
  sim_mmio_store :: "reg_t \<Rightarrow> u8 list \<Rightarrow> reg_t \<Rightarrow> 'b platform \<Rightarrow> bool option \<times> irqs \<times> 'b platform"

type_synonym ('b, 'a) mcomp = "('b world, exn, 'a) comp"

definition raise_irqs :: "irqs \<Rightarrow> hart \<Rightarrow> hart" where
  "raise_irqs is h = fold apply_event is h"

text \<open>A device may read the pending interrupts of the hart, the first argument; its \<open>None\<close> is a failed
  assertion.\<close>

definition on_platform :: "(reg_t \<Rightarrow> 'b platform \<Rightarrow> 'a option \<times> irqs \<times> 'b platform) \<Rightarrow> ('b, 'a) mcomp" where
  "on_platform f w = (case f (mip_read (w_hart w)) (w_mem w, w_bus w) of (r, is, m, b) \<Rightarrow>
     (case r of None \<Rightarrow> Inl Abort | Some x \<Rightarrow> Inr x,
      w\<lparr>w_hart := raise_irqs is (w_hart w), w_mem := m, w_bus := b\<rparr>))"

definition on_hart :: "(hart, exn, 'a) comp \<Rightarrow> ('b, 'a) mcomp" where
  "on_hart f w = (case f (w_hart w) of (r, h) \<Rightarrow> (r, w\<lparr>w_hart := h\<rparr>))"

definition hart_of :: "(hart \<Rightarrow> 'a) \<Rightarrow> ('b, 'a) mcomp" where
  "hart_of f w = (Inr (f (w_hart w)), w)"

definition upd_mmu :: "(mmu_state \<Rightarrow> mmu_state) \<Rightarrow> 'b world \<Rightarrow> 'b world" where
  "upd_mmu f w = w\<lparr>w_hart := (w_hart w)\<lparr>mmu := f (mmu (w_hart w))\<rparr>\<rparr>"

definition access_fault :: "access_type \<Rightarrow> bool \<Rightarrow> reg_t \<Rightarrow> trap_t" where
  "access_fault ty virt addr = (case ty of
     FETCH \<Rightarrow> trap_instruction_access_fault virt addr 0 0
   | LOAD \<Rightarrow> trap_load_access_fault virt addr 0 0
   | STORE \<Rightarrow> trap_store_access_fault virt addr 0 0)"

definition throw_access_exception :: "bool \<Rightarrow> reg_t \<Rightarrow> access_type \<Rightarrow> ('b, 'a) mcomp" where
  "throw_access_exception virt addr ty = throw (Trap (access_fault ty virt addr))"

subsection \<open>Devices\<close>

abbreviation (input) DEBUG_START :: reg_t where "DEBUG_START \<equiv> 0"
abbreviation (input) DEBUG_END :: reg_t where "DEBUG_END \<equiv> 0xfff"

definition mmio_ok :: "reg_t \<Rightarrow> hart \<Rightarrow> bool" where
  "mmio_ok paddr h \<longleftrightarrow> \<not> (paddr \<ge> DEBUG_START \<and> paddr \<le> DEBUG_END \<and> \<not> debug_mode h)"

definition mmio_fetch :: "'b simif \<Rightarrow> reg_t \<Rightarrow> nat \<Rightarrow> ('b, u8 list option) mcomp" where
  "mmio_fetch S paddr len w =
     (if \<not> mmio_ok paddr (w_hart w) then (Inr None, w) else on_platform (sim_mmio_fetch S paddr len) w)"

definition mmio_whole :: "reg_t \<Rightarrow> nat \<Rightarrow> bool" where
  "mmio_whole paddr len \<longleftrightarrow> (of_nat len :: reg_t) AND (of_nat len - 1) = 0 \<and> paddr AND (of_nat len - 1) = 0"

fun mmio_load_bytes :: "'b simif \<Rightarrow> reg_t \<Rightarrow> nat \<Rightarrow> ('b, u8 list option) mcomp" where
  "mmio_load_bytes S paddr 0 = return (Some [])"
| "mmio_load_bytes S paddr (Suc n) = (\<lambda>w.
     if \<not> mmio_ok paddr (w_hart w) then (Inr None, w)
     else bindE (on_platform (sim_mmio_load S paddr 1)) (\<lambda>r.
       case r of None \<Rightarrow> return None
       | Some b \<Rightarrow> bindE (mmio_load_bytes S (paddr + 1) n) (\<lambda>r. return (map_option ((@) b) r))) w)"

definition mmio_load :: "'b simif \<Rightarrow> reg_t \<Rightarrow> nat \<Rightarrow> ('b, u8 list option) mcomp" where
  "mmio_load S paddr len w =
     (if mmio_whole paddr len then
        (if \<not> mmio_ok paddr (w_hart w) then (Inr None, w) else on_platform (sim_mmio_load S paddr len) w)
      else mmio_load_bytes S paddr len w)"

fun mmio_store_bytes :: "'b simif \<Rightarrow> reg_t \<Rightarrow> u8 list \<Rightarrow> ('b, bool) mcomp" where
  "mmio_store_bytes S paddr [] = return True"
| "mmio_store_bytes S paddr (b # bs) = (\<lambda>w.
     if \<not> mmio_ok paddr (w_hart w) then (Inr False, w)
     else bindE (on_platform (sim_mmio_store S paddr [b])) (\<lambda>ok.
       if ok then mmio_store_bytes S (paddr + 1) bs else return False) w)"

definition mmio_store :: "'b simif \<Rightarrow> reg_t \<Rightarrow> u8 list \<Rightarrow> ('b, bool) mcomp" where
  "mmio_store S paddr bs w =
     (if mmio_whole paddr (length bs) then
        (if \<not> mmio_ok paddr (w_hart w) then (Inr False, w) else on_platform (sim_mmio_store S paddr bs) w)
      else mmio_store_bytes S paddr bs w)"

subsection \<open>Page table entries\<close>

definition load_bytes :: "'b simif \<Rightarrow> reg_t \<Rightarrow> nat \<Rightarrow> trap_t \<Rightarrow> ('b, u8 list) mcomp" where
  "load_bytes S paddr len fault = (\<lambda>w.
     if sim_addr_to_mem S paddr then (Inr (read_bytes paddr len (w_mem w)), w)
     else bindE (mmio_load S paddr len) (\<lambda>r. case r of None \<Rightarrow> throw (Trap fault) | Some bs \<Rightarrow> return bs) w)"

definition store_bytes :: "'b simif \<Rightarrow> reg_t \<Rightarrow> u8 list \<Rightarrow> trap_t \<Rightarrow> ('b, unit) mcomp" where
  "store_bytes S paddr bs fault = (\<lambda>w.
     if sim_addr_to_mem S paddr then (Inr (), w\<lparr>w_mem := write_bytes paddr bs (w_mem w)\<rparr>)
     else bindE (mmio_store S paddr bs) (\<lambda>ok. if ok then return () else throw (Trap fault)) w)"

definition pte_load :: "'b simif \<Rightarrow> reg_t \<Rightarrow> reg_t \<Rightarrow> bool \<Rightarrow> access_type \<Rightarrow> nat \<Rightarrow> ('b, reg_t) mcomp" where
  "pte_load S pte_paddr addr virt trap_type ptesize = (\<lambda>w.
     if \<not> pmp_ok pte_paddr ptesize LOAD PRV_S (pmp (w_hart w)) then throw_access_exception virt addr trap_type w
     else bindE (load_bytes S pte_paddr ptesize (access_fault trap_type virt addr)) (\<lambda>bs. return (le_word bs)) w)"

definition pte_store :: "'b simif \<Rightarrow> reg_t \<Rightarrow> reg_t \<Rightarrow> reg_t \<Rightarrow> bool \<Rightarrow> access_type \<Rightarrow> nat \<Rightarrow> ('b, unit) mcomp" where
  "pte_store S pte_paddr new_pte addr virt trap_type ptesize = (\<lambda>w.
     if \<not> pmp_ok pte_paddr ptesize STORE PRV_S (pmp (w_hart w)) then throw_access_exception virt addr trap_type w
     else store_bytes S pte_paddr (le_bytes ptesize new_pte) (access_fault trap_type virt addr) w)"

abbreviation (input) PTE_TABLE :: "reg_t \<Rightarrow> bool" where
  "PTE_TABLE pte \<equiv> pte AND (PTE_V OR PTE_R OR PTE_W OR PTE_X) = PTE_V"

record vm_info =
  vm_levels :: nat
  vm_idxbits :: nat
  vm_widenbits :: nat
  vm_ptesize :: nat
  vm_ptbase :: reg_t

definition vm_off :: vm_info where
  "vm_off = \<lparr>vm_levels = 0, vm_idxbits = 0, vm_widenbits = 0, vm_ptesize = 0, vm_ptbase = 0\<rparr>"

definition decode_vm_info :: "nat \<Rightarrow> bool \<Rightarrow> reg_t \<Rightarrow> reg_t \<Rightarrow> vm_info option" where
  "decode_vm_info xlen stage2 prv satp =
     (if prv = PRV_M then Some vm_off
      else if \<not> stage2 \<and> prv \<le> PRV_S \<and> xlen = 32 then
        (let m = get_field satp SATP32_MODE; base = shl (satp AND SATP32_PPN) PGSHIFT in
         if m = SATP_MODE_OFF then Some vm_off
         else if m = SATP_MODE_SV32 then Some \<lparr>vm_levels = 2, vm_idxbits = 10, vm_widenbits = 0, vm_ptesize = 4, vm_ptbase = base\<rparr>
         else None)
      else if \<not> stage2 \<and> prv \<le> PRV_S \<and> xlen = 64 then
        (let m = get_field satp SATP64_MODE; base = shl (satp AND SATP64_PPN) PGSHIFT in
         if m = SATP_MODE_OFF then Some vm_off
         else if m = SATP_MODE_SV39 then Some \<lparr>vm_levels = 3, vm_idxbits = 9, vm_widenbits = 0, vm_ptesize = 8, vm_ptbase = base\<rparr>
         else if m = SATP_MODE_SV48 then Some \<lparr>vm_levels = 4, vm_idxbits = 9, vm_widenbits = 0, vm_ptesize = 8, vm_ptbase = base\<rparr>
         else if m = SATP_MODE_SV57 then Some \<lparr>vm_levels = 5, vm_idxbits = 9, vm_widenbits = 0, vm_ptesize = 8, vm_ptbase = base\<rparr>
         else if m = SATP_MODE_SV64 then Some \<lparr>vm_levels = 6, vm_idxbits = 9, vm_widenbits = 0, vm_ptesize = 8, vm_ptbase = base\<rparr>
         else None)
      else if stage2 \<and> xlen = 32 then
        (let m = get_field satp HGATP32_MODE; base = shl (satp AND HGATP32_PPN) PGSHIFT in
         if m = HGATP_MODE_OFF then Some vm_off
         else if m = HGATP_MODE_SV32X4 then Some \<lparr>vm_levels = 2, vm_idxbits = 10, vm_widenbits = 2, vm_ptesize = 4, vm_ptbase = base\<rparr>
         else None)
      else if stage2 \<and> xlen = 64 then
        (let m = get_field satp HGATP64_MODE; base = shl (satp AND HGATP64_PPN) PGSHIFT in
         if m = HGATP_MODE_OFF then Some vm_off
         else if m = HGATP_MODE_SV39X4 then Some \<lparr>vm_levels = 3, vm_idxbits = 9, vm_widenbits = 2, vm_ptesize = 8, vm_ptbase = base\<rparr>
         else if m = HGATP_MODE_SV48X4 then Some \<lparr>vm_levels = 4, vm_idxbits = 9, vm_widenbits = 2, vm_ptesize = 8, vm_ptbase = base\<rparr>
         else if m = HGATP_MODE_SV57X4 then Some \<lparr>vm_levels = 5, vm_idxbits = 9, vm_widenbits = 2, vm_ptesize = 8, vm_ptbase = base\<rparr>
         else None)
      else None)"

text \<open>What an entry asks the walk to do.\<close>

datatype pte_step = Pte_fault | Pte_next reg_t | Pte_leaf

definition pte_ppn :: "reg_t \<Rightarrow> reg_t" where
  "pte_ppn pte = shr (pte AND NOT PTE_ATTR) PTE_PPN_SHIFT"

text \<open>The tests that make an entry malformed before its kind is looked at, in the order of the code.\<close>

definition pte_malformed :: "bool \<Rightarrow> bool \<Rightarrow> reg_t \<Rightarrow> bool" where
  "pte_malformed svnapot pbmte pte \<longleftrightarrow>
     pte AND PTE_RSVD \<noteq> 0 \<or> \<not> svnapot \<and> pte AND PTE_N \<noteq> 0 \<or> \<not> pbmte \<and> pte AND PTE_PBMT \<noteq> 0 \<or> pte AND PTE_PBMT = PTE_PBMT"

definition pte_denies :: "access_type \<Rightarrow> bool \<Rightarrow> bool \<Rightarrow> reg_t \<Rightarrow> bool" where
  "pte_denies ty hlvx mxr pte \<longleftrightarrow>
     (if ty = FETCH \<or> hlvx then pte AND PTE_X = 0
      else if ty = LOAD then pte AND PTE_R = 0 \<and> \<not> (mxr \<and> pte AND PTE_X \<noteq> 0)
      else \<not> (pte AND PTE_R \<noteq> 0 \<and> pte AND PTE_W \<noteq> 0))"

definition pte_misaligned :: "nat \<Rightarrow> reg_t \<Rightarrow> bool" where
  "pte_misaligned ptshift pte \<longleftrightarrow> pte_ppn pte AND (shl 1 ptshift - 1) \<noteq> 0"

definition stage2_pte :: "bool \<Rightarrow> bool \<Rightarrow> bool \<Rightarrow> access_type \<Rightarrow> bool \<Rightarrow> nat \<Rightarrow> reg_t \<Rightarrow> pte_step" where
  "stage2_pte svnapot pbmte mxr ty hlvx ptshift pte =
     (if pte_malformed svnapot pbmte pte then Pte_fault
      else if PTE_TABLE pte then
        (if pte AND (PTE_D OR PTE_A OR PTE_U OR PTE_N OR PTE_PBMT) \<noteq> 0 then Pte_fault
         else Pte_next (shl (pte_ppn pte) PGSHIFT))
      else if pte AND PTE_V = 0 \<or> pte AND PTE_R = 0 \<and> pte AND PTE_W \<noteq> 0 then Pte_fault
      else if pte AND PTE_U = 0 then Pte_fault
      else if pte_denies ty hlvx mxr pte then Pte_fault
      else if pte_misaligned ptshift pte then Pte_fault
      else Pte_leaf)"

definition stage1_pte :: "bool \<Rightarrow> bool \<Rightarrow> bool \<Rightarrow> bool \<Rightarrow> bool \<Rightarrow> access_type \<Rightarrow> bool \<Rightarrow> nat \<Rightarrow> reg_t \<Rightarrow> pte_step" where
  "stage1_pte svnapot pbmte s_mode sum_on mxr ty hlvx ptshift pte =
     (if pte_malformed svnapot pbmte pte then Pte_fault
      else if PTE_TABLE pte then
        (if pte AND (PTE_D OR PTE_A OR PTE_U OR PTE_N OR PTE_PBMT) \<noteq> 0 then Pte_fault
         else Pte_next (shl (pte_ppn pte) PGSHIFT))
      else if (if pte AND PTE_U \<noteq> 0 then s_mode \<and> (ty = FETCH \<or> \<not> sum_on) else \<not> s_mode) then Pte_fault
      else if pte AND PTE_V = 0 \<or> pte AND PTE_R = 0 \<and> pte AND PTE_W \<noteq> 0 then Pte_fault
      else if pte_denies ty hlvx mxr pte then Pte_fault
      else if pte_misaligned ptshift pte then Pte_fault
      else Pte_leaf)"

definition pte_ad :: "access_type \<Rightarrow> reg_t" where
  "pte_ad ty = PTE_A OR (if ty = STORE then PTE_D else 0)"

definition napot_bits :: "reg_t \<Rightarrow> nat" where
  "napot_bits pte = (if pte AND PTE_N \<noteq> 0 then ctz (pte_ppn pte) + 1 else 0)"

definition napot_bad :: "nat \<Rightarrow> reg_t \<Rightarrow> bool" where
  "napot_bad i pte \<longleftrightarrow> pte AND PTE_N \<noteq> 0 \<and> (pte_ppn pte = 0 \<or> i \<noteq> 0) \<or> napot_bits pte \<noteq> 0 \<and> napot_bits pte \<noteq> 4"

text \<open>The page of a leaf: the address fills the low bits of the frame number.\<close>

definition page_base :: "nat \<Rightarrow> reg_t \<Rightarrow> reg_t \<Rightarrow> reg_t" where
  "page_base ptshift pte addr = (
     let vpn = shr addr PGSHIFT; n = napot_bits pte
     in shl ((pte_ppn pte AND NOT (shl 1 n - 1)) OR (vpn AND (shl 1 n - 1)) OR (vpn AND (shl 1 ptshift - 1))) PGSHIFT)"

abbreviation (input) page_mask :: reg_t where "page_mask \<equiv> 0xfff"

subsection \<open>The walks\<close>

definition guest_page_fault :: "access_type \<Rightarrow> reg_t \<Rightarrow> reg_t \<Rightarrow> trap_t" where
  "guest_page_fault ty gva gpa = (case ty of
     FETCH \<Rightarrow> trap_instruction_guest_page_fault gva (shr gpa 2) 0
   | LOAD \<Rightarrow> trap_load_guest_page_fault gva (shr gpa 2) 0
   | STORE \<Rightarrow> trap_store_guest_page_fault gva (shr gpa 2) 0)"

definition page_fault :: "access_type \<Rightarrow> bool \<Rightarrow> reg_t \<Rightarrow> trap_t" where
  "page_fault ty virt addr = (case ty of
     FETCH \<Rightarrow> trap_instruction_page_fault virt addr 0 0
   | LOAD \<Rightarrow> trap_load_page_fault virt addr 0 0
   | STORE \<Rightarrow> trap_store_page_fault virt addr 0 0)"

definition pbmt_enabled :: "bool \<Rightarrow> hart \<Rightarrow> bool" where
  "pbmt_enabled virt h \<longleftrightarrow>
     (if virt then henvcfg_read h AND HENVCFG_PBMTE \<noteq> 0 else csrv h CSR_MENVCFG AND MENVCFG_PBMTE \<noteq> 0)"

definition hade_enabled :: "bool \<Rightarrow> hart \<Rightarrow> bool" where
  "hade_enabled virt h \<longleftrightarrow>
     (if virt then henvcfg_read h AND HENVCFG_HADE \<noteq> 0 else csrv h CSR_MENVCFG AND MENVCFG_HADE \<noteq> 0)"

text \<open>The accessed and dirty bits of a leaf: set already, set by the walk, or a reason to fault.\<close>

definition update_ad :: "'b simif \<Rightarrow> bool \<Rightarrow> reg_t \<Rightarrow> reg_t \<Rightarrow> reg_t \<Rightarrow> bool \<Rightarrow> access_type \<Rightarrow> nat \<Rightarrow> trap_t \<Rightarrow> ('b, unit) mcomp" where
  "update_ad S hade pte_paddr pte addr virt ty ptesize fault =
     (if pte AND pte_ad ty \<noteq> pte_ad ty then
        (if hade then pte_store S pte_paddr (pte OR pte_ad ty) addr virt ty ptesize else throw (Trap fault))
      else return ())"

text \<open>The loop of \<open>s2xlate\<close>; the first argument is the level plus one.\<close>

fun s2_loop :: "'b simif \<Rightarrow> nat \<Rightarrow> vm_info \<Rightarrow> reg_t \<Rightarrow> reg_t \<Rightarrow> access_type \<Rightarrow> access_type \<Rightarrow> bool \<Rightarrow> bool \<Rightarrow> reg_t \<Rightarrow> ('b, reg_t) mcomp" where
  "s2_loop S 0 vm gva gpa ty trap_type hlvx mxr base = throw (Trap (guest_page_fault trap_type gva gpa))"
| "s2_loop S (Suc i) vm gva gpa ty trap_type hlvx mxr base = (
     let ptshift = i * vm_idxbits vm;
         idxbits = (if Suc i = vm_levels vm then vm_idxbits vm + vm_widenbits vm else vm_idxbits vm);
         idx = shr gpa (PGSHIFT + ptshift) AND (shl 1 idxbits - 1);
         pte_paddr = base + idx * of_nat (vm_ptesize vm);
         fault = guest_page_fault trap_type gva gpa
     in bindE (pte_load S pte_paddr gva True trap_type (vm_ptesize vm)) (\<lambda>pte.
        bindE (hart_of id) (\<lambda>h.
        case stage2_pte (extension_enabled EXT_SVNAPOT h) (pbmt_enabled False h) mxr ty hlvx ptshift pte of
          Pte_fault \<Rightarrow> throw (Trap fault)
        | Pte_next base \<Rightarrow> s2_loop S i vm gva gpa ty trap_type hlvx mxr base
        | Pte_leaf \<Rightarrow>
            bindE (update_ad S (hade_enabled False h) pte_paddr pte gva True ty (vm_ptesize vm) fault) (\<lambda>_.
            if napot_bad i pte then throw (Trap fault)
            else return (page_base ptshift pte gpa OR (gpa AND page_mask))))))"

definition s2xlate :: "'b simif \<Rightarrow> reg_t \<Rightarrow> reg_t \<Rightarrow> access_type \<Rightarrow> access_type \<Rightarrow> bool \<Rightarrow> bool \<Rightarrow> ('b, reg_t) mcomp" where
  "s2xlate S gva gpa ty trap_type virt hlvx = (\<lambda>w.
     if \<not> virt then (Inr gpa, w)
     else case decode_vm_info (h_xlen (w_hart w)) True 0 (csrv (w_hart w) CSR_HGATP) of
       None \<Rightarrow> (Inl Abort, w)
     | Some vm \<Rightarrow>
         if vm_levels vm = 0 then (Inr gpa, w)
         else
           let maxgpabits = vm_levels vm * vm_idxbits vm + vm_widenbits vm + PGSHIFT;
               maxgpa = shl 1 maxgpabits - 1;
               mxr = (sstatus_readvirt False (w_hart w) AND MSTATUS_MXR \<noteq> 0)
           in if gpa AND NOT maxgpa = 0
              then s2_loop S (vm_levels vm) vm gva gpa ty trap_type hlvx mxr (vm_ptbase vm) w
              else throw (Trap (guest_page_fault trap_type gva gpa)) w)"

text \<open>The loop of \<open>walk\<close>.\<close>

fun walk_loop :: "'b simif \<Rightarrow> nat \<Rightarrow> vm_info \<Rightarrow> reg_t \<Rightarrow> access_type \<Rightarrow> bool \<Rightarrow> bool \<Rightarrow> bool \<Rightarrow> bool \<Rightarrow> bool \<Rightarrow> reg_t \<Rightarrow> ('b, reg_t) mcomp" where
  "walk_loop S 0 vm addr ty virt hlvx s_mode sum_on mxr base = throw (Trap (page_fault ty virt addr))"
| "walk_loop S (Suc i) vm addr ty virt hlvx s_mode sum_on mxr base = (
     let ptshift = i * vm_idxbits vm;
         idx = shr addr (PGSHIFT + ptshift) AND (shl 1 (vm_idxbits vm) - 1);
         fault = page_fault ty virt addr
     in bindE (s2xlate S addr (base + idx * of_nat (vm_ptesize vm)) LOAD ty virt False) (\<lambda>pte_paddr.
        bindE (pte_load S pte_paddr addr virt ty (vm_ptesize vm)) (\<lambda>pte.
        bindE (hart_of id) (\<lambda>h.
        case stage1_pte (extension_enabled EXT_SVNAPOT h) (pbmt_enabled virt h) s_mode sum_on mxr ty hlvx ptshift pte of
          Pte_fault \<Rightarrow> throw (Trap fault)
        | Pte_next base \<Rightarrow> walk_loop S i vm addr ty virt hlvx s_mode sum_on mxr base
        | Pte_leaf \<Rightarrow>
            bindE (update_ad S (hade_enabled virt h) pte_paddr pte addr virt ty (vm_ptesize vm) fault) (\<lambda>_.
            if napot_bad i pte then throw (Trap fault)
            else bindE (s2xlate S addr (page_base ptshift pte addr OR (addr AND page_mask)) ty ty virt hlvx)
              (\<lambda>pa. return (pa AND NOT page_mask)))))))"

definition satp_readvirt :: "bool \<Rightarrow> hart \<Rightarrow> reg_t" where
  "satp_readvirt virt h = (if virt then csrv h CSR_VSATP else csrv h CSR_SATP)"

text \<open>Bits \<open>xlen - 1\<close> down to \<open>va_bits - 1\<close> of a virtual address have to be equal.\<close>

definition va_canonical :: "nat \<Rightarrow> vm_info \<Rightarrow> reg_t \<Rightarrow> bool" where
  "va_canonical xlen vm addr \<longleftrightarrow> (
     let va_bits = PGSHIFT + vm_levels vm * vm_idxbits vm;
         msk = shl 1 (xlen - (va_bits - 1)) - 1;
         masked_msbs = shr addr (va_bits - 1) AND msk
     in masked_msbs = 0 \<or> masked_msbs = msk)"

definition walk :: "'b simif \<Rightarrow> reg_t \<Rightarrow> access_type \<Rightarrow> reg_t \<Rightarrow> bool \<Rightarrow> bool \<Rightarrow> ('b, reg_t) mcomp" where
  "walk S addr ty mode virt hlvx = (\<lambda>w.
     let h = w_hart w in
     case decode_vm_info (h_xlen h) False mode (satp_readvirt virt h) of
       None \<Rightarrow> (Inl Abort, w)
     | Some vm \<Rightarrow>
         if vm_levels vm = 0 then
           bindE (s2xlate S addr (addr AND (shl 2 (h_xlen h - 1) - 1)) ty ty virt hlvx)
             (\<lambda>pa. return (pa AND NOT page_mask)) w
         else
           let sum_on = (sstatus_readvirt virt h AND MSTATUS_SUM \<noteq> 0);
               mxr = ((sstatus_readvirt False h OR sstatus_readvirt virt h) AND MSTATUS_MXR \<noteq> 0)
           in walk_loop S (if va_canonical (h_xlen h) vm addr then vm_levels vm else 0) vm addr ty virt hlvx
                (mode = PRV_S) sum_on mxr (vm_ptbase vm) w)"

subsection \<open>Translation\<close>

definition in_mprv :: "hart \<Rightarrow> bool" where
  "in_mprv h \<longleftrightarrow> nmie h \<and> \<not> debug_mode h \<and> get_field (mstatus_read h) MSTATUS_MPRV \<noteq> 0"

abbreviation (input) RISCV_XLATE_VIRT :: u32 where "RISCV_XLATE_VIRT \<equiv> 1"
abbreviation (input) RISCV_XLATE_VIRT_HLVX :: u32 where "RISCV_XLATE_VIRT_HLVX \<equiv> 2"
abbreviation (input) RISCV_XLATE_LR :: u32 where "RISCV_XLATE_LR \<equiv> 4"

text \<open>The mode and virtualization an access is made with.\<close>

definition access_mode :: "access_type \<Rightarrow> u32 \<Rightarrow> hart \<Rightarrow> reg_t \<times> bool" where
  "access_mode ty flags h = (
     let (mode, virt) = (h_prv h, h_v h);
         (mode, virt) = (if ty \<noteq> FETCH \<and> in_mprv h then
             (let mode = get_field (mstatus_read h) MSTATUS_MPP
              in (mode, virt \<or> get_field (mstatus_read h) MSTATUS_MPV \<noteq> 0 \<and> mode \<noteq> PRV_M))
           else (mode, virt))
     in if ty \<noteq> FETCH \<and> flags AND RISCV_XLATE_VIRT \<noteq> 0
        then (get_field (csrv h CSR_HSTATUS) HSTATUS_SPVP, True) else (mode, virt))"

definition translate :: "'b simif \<Rightarrow> reg_t \<Rightarrow> nat \<Rightarrow> access_type \<Rightarrow> u32 \<Rightarrow> ('b, reg_t) mcomp" where
  "translate S addr len ty flags = (\<lambda>w.
     let (mode, virt) = access_mode ty flags (w_hart w) in
     bindE (walk S addr ty mode virt (flags AND RISCV_XLATE_VIRT_HLVX \<noteq> 0)) (\<lambda>page.
     bindE (hart_of pmp) (\<lambda>p.
       let paddr = page OR (addr AND page_mask) in
       if \<not> pmp_ok paddr len ty mode p then throw_access_exception virt addr ty else return paddr)) w)"

subsection \<open>The translation cache\<close>

definition tlb_index :: "reg_t \<Rightarrow> nat" where
  "tlb_index vpn = unat vpn mod TLB_ENTRIES"

definition vpn_of :: "reg_t \<Rightarrow> reg_t" where
  "vpn_of addr = shr addr PGSHIFT"

definition tlb_tag :: "access_type \<Rightarrow> mmu_state \<Rightarrow> nat \<Rightarrow> reg_t" where
  "tlb_tag ty m = (case ty of FETCH \<Rightarrow> tlb_insn_tag m | LOAD \<Rightarrow> tlb_load_tag m | STORE \<Rightarrow> tlb_store_tag m)"

definition set_tlb_tag :: "access_type \<Rightarrow> nat \<Rightarrow> reg_t \<Rightarrow> mmu_state \<Rightarrow> mmu_state" where
  "set_tlb_tag ty i t m = (case ty of
     FETCH \<Rightarrow> m\<lparr>tlb_insn_tag := (tlb_insn_tag m)(i := t)\<rparr>
   | LOAD \<Rightarrow> m\<lparr>tlb_load_tag := (tlb_load_tag m)(i := t)\<rparr>
   | STORE \<Rightarrow> m\<lparr>tlb_store_tag := (tlb_store_tag m)(i := t)\<rparr>)"

definition drop_tag :: "access_type \<Rightarrow> nat \<Rightarrow> reg_t \<Rightarrow> mmu_state \<Rightarrow> mmu_state" where
  "drop_tag ty i expected m =
     (if tlb_tag ty m i AND NOT TLB_CHECK_TRIGGERS \<noteq> expected then set_tlb_tag ty i (- 1) m else m)"

definition ptr_sub :: "host_ptr \<Rightarrow> reg_t \<Rightarrow> host_ptr" where
  "ptr_sub p v = (case p of Host_mem a \<Rightarrow> Host_mem (a - v) | Host_fetch_temp a \<Rightarrow> Host_fetch_temp (a - v))"

definition trigger_checked :: "access_type \<Rightarrow> mmu_state \<Rightarrow> bool" where
  "trigger_checked ty m = (case ty of FETCH \<Rightarrow> check_triggers_fetch m | LOAD \<Rightarrow> check_triggers_load m | STORE \<Rightarrow> check_triggers_store m)"

definition refill_tlb :: "reg_t \<Rightarrow> reg_t \<Rightarrow> host_ptr \<Rightarrow> access_type \<Rightarrow> ('b, tlb_entry) mcomp" where
  "refill_tlb vaddr paddr host_addr ty = (\<lambda>w.
     let h = w_hart w;
         idx = tlb_index (vpn_of vaddr);
         expected_tag = vpn_of vaddr;
         entry = \<lparr>host_offset = ptr_sub host_addr vaddr, target_offset = paddr - vaddr\<rparr>
     in if in_mprv h then (Inr entry, w)
        else
          let m = drop_tag FETCH idx expected_tag (drop_tag STORE idx expected_tag (drop_tag LOAD idx expected_tag (mmu h)));
              tag = (if trigger_checked ty m then expected_tag OR TLB_CHECK_TRIGGERS else expected_tag)
          in case pmp_homogeneous (paddr AND NOT (PGSIZE - 1)) PGSIZE (pmp h) of
               None \<Rightarrow> (Inl Abort, upd_mmu (\<lambda>_. m) w)
             | Some ok \<Rightarrow>
                 (Inr entry, upd_mmu (\<lambda>_. (if ok then set_tlb_tag ty idx tag m else m)
                    \<lparr>tlb_data := (tlb_data m)(idx := entry)\<rparr>) w))"

text \<open>The bytes a host pointer of the cache reads and writes.\<close>

definition host_read :: "host_ptr \<Rightarrow> reg_t \<Rightarrow> nat \<Rightarrow> 'b world \<Rightarrow> u8 list" where
  "host_read off addr len w = (case off of
     Host_mem o' \<Rightarrow> read_bytes (o' + addr) len (w_mem w)
   | Host_fetch_temp o' \<Rightarrow> take len (le_bytes 2 (ucast (fetch_temp (mmu (w_hart w))))))"

definition host_write :: "host_ptr \<Rightarrow> reg_t \<Rightarrow> u8 list \<Rightarrow> 'b world \<Rightarrow> 'b world" where
  "host_write off addr bs w = (case off of
     Host_mem o' \<Rightarrow> w\<lparr>w_mem := write_bytes (o' + addr) bs (w_mem w)\<rparr>
   | Host_fetch_temp o' \<Rightarrow> w)"

subsection \<open>Accesses\<close>

definition check_triggers :: "operation_t \<Rightarrow> reg_t \<Rightarrow> reg_t option \<Rightarrow> ('b, unit) mcomp" where
  "check_triggers op addr data = (\<lambda>w.
     let h = w_hart w in
     if matched_trigger (mmu h) \<noteq> None then (Inr (), w)
     else case module_detect_memory (trig_env_of h) op addr data (tm h) of
       None \<Rightarrow> (Inl Abort, w)
     | Some (r, ts) \<Rightarrow>
         let w = w\<lparr>w_hart := h\<lparr>tm := ts\<rparr>\<rparr> in
         case r of
           None \<Rightarrow> (Inr (), w)
         | Some mr \<Rightarrow>
             let t = \<lparr>mt_operation = op, mt_address = addr, mt_action = mr_action mr\<rparr>
             in case mr_timing mr of
                  TIMING_BEFORE \<Rightarrow> (Inl (Trigger_matched t), w)
                | TIMING_AFTER \<Rightarrow> (Inr (), upd_mmu (\<lambda>m. (flush_icache m)\<lparr>matched_trigger := Some t\<rparr>) w))"

definition is_misaligned_enabled :: "hart \<Rightarrow> bool" where
  "is_misaligned_enabled h = cfg_misaligned (cfg h)"

definition mmu_of :: "'b world \<Rightarrow> mmu_state" where
  "mmu_of w = mmu (w_hart w)"

text \<open>A tag that matches once the request to check triggers is masked off.\<close>

definition tlb_match :: "access_type \<Rightarrow> reg_t \<Rightarrow> mmu_state \<Rightarrow> bool" where
  "tlb_match ty addr m \<longleftrightarrow> vpn_of addr = tlb_tag ty m (tlb_index (vpn_of addr)) AND NOT TLB_CHECK_TRIGGERS"

definition load_slow_path_intrapage :: "'b simif \<Rightarrow> reg_t \<Rightarrow> nat \<Rightarrow> u32 \<Rightarrow> ('b, u8 list) mcomp" where
  "load_slow_path_intrapage S addr len flags = (\<lambda>w.
     let m = mmu_of w in
     if flags = 0 \<and> tlb_match LOAD addr m
     then (Inr (host_read (host_offset (tlb_data m (tlb_index (vpn_of addr)))) addr len w), w)
     else bindE (translate S addr len LOAD flags) (\<lambda>paddr.
          bindE (hart_of h_v) (\<lambda>v.
            if flags AND RISCV_XLATE_LR \<noteq> 0 \<and> \<not> sim_reservable S paddr
            then throw (Trap (trap_load_access_fault v addr 0 0))
            else bindE (load_bytes S paddr len (trap_load_access_fault v addr 0 0)) (\<lambda>bs.
                 bindE (if sim_addr_to_mem S paddr \<and> flags = 0
                        then bindE (refill_tlb addr paddr (Host_mem paddr) LOAD) (\<lambda>_. return ()) else return ()) (\<lambda>_.
                 bindE (if flags AND RISCV_XLATE_LR \<noteq> 0
                        then modify (upd_mmu (\<lambda>m. m\<lparr>load_reservation_address := paddr\<rparr>)) else return ()) (\<lambda>_.
                 return bs))))) w)"

definition gva_access :: "u32 \<Rightarrow> hart \<Rightarrow> bool" where
  "gva_access flags h \<longleftrightarrow> h_v h \<or> flags AND RISCV_XLATE_VIRT \<noteq> 0"

text \<open>The part of an access that lies in its first page.\<close>

definition len_page0 :: "reg_t \<Rightarrow> nat \<Rightarrow> nat" where
  "len_page0 addr len = min len (4096 - unat addr mod 4096)"

definition access_aligned :: "reg_t \<Rightarrow> nat \<Rightarrow> bool" where
  "access_aligned addr len \<longleftrightarrow> addr AND (of_nat len - 1) = 0"

definition check_value :: "operation_t \<Rightarrow> reg_t \<Rightarrow> u8 list \<Rightarrow> ('b, unit) mcomp" where
  "check_value op addr bs = (case reg_from_bytes bs of None \<Rightarrow> throw Abort | Some v \<Rightarrow> check_triggers op addr (Some v))"

definition load_slow_path :: "'b simif \<Rightarrow> reg_t \<Rightarrow> nat \<Rightarrow> u32 \<Rightarrow> ('b, u8 list) mcomp" where
  "load_slow_path S addr len flags =
     bindE (check_triggers OPERATION_LOAD addr None) (\<lambda>_.
     bindE (if access_aligned addr len then load_slow_path_intrapage S addr len flags
       else bindE (hart_of id) (\<lambda>h.
         if \<not> is_misaligned_enabled h then throw (Trap (trap_load_address_misaligned (gva_access flags h) addr 0 0))
         else if flags AND RISCV_XLATE_LR \<noteq> 0 then throw (Trap (trap_load_access_fault (gva_access flags h) addr 0 0))
         else let n = len_page0 addr len in
           bindE (load_slow_path_intrapage S addr n flags) (\<lambda>bs.
           if n \<noteq> len then bindE (load_slow_path_intrapage S (addr + of_nat n) (len - n) flags) (\<lambda>bs'. return (bs @ bs'))
           else return bs))) (\<lambda>bs.
     bindE (check_value OPERATION_LOAD addr bs) (\<lambda>_.
     return bs)))"

definition store_slow_path_intrapage :: "'b simif \<Rightarrow> reg_t \<Rightarrow> u8 list \<Rightarrow> nat \<Rightarrow> u32 \<Rightarrow> bool \<Rightarrow> ('b, unit) mcomp" where
  "store_slow_path_intrapage S addr bs len flags actually_store = (\<lambda>w.
     let m = mmu_of w in
     if flags = 0 \<and> tlb_match STORE addr m
     then (Inr (), if actually_store then host_write (host_offset (tlb_data m (tlb_index (vpn_of addr)))) addr bs w else w)
     else bindE (translate S addr len STORE flags) (\<lambda>paddr.
          if actually_store then
            bindE (hart_of h_v) (\<lambda>v.
            bindE (store_bytes S paddr bs (trap_store_access_fault v addr 0 0)) (\<lambda>_.
            if sim_addr_to_mem S paddr \<and> flags = 0
            then bindE (refill_tlb addr paddr (Host_mem paddr) STORE) (\<lambda>_. return ()) else return ()))
          else return ()) w)"

definition store_slow_path :: "'b simif \<Rightarrow> reg_t \<Rightarrow> u8 list \<Rightarrow> nat \<Rightarrow> u32 \<Rightarrow> bool \<Rightarrow> bool \<Rightarrow> ('b, unit) mcomp" where
  "store_slow_path S addr bs len flags actually_store require_alignment =
     bindE (if actually_store then check_value OPERATION_STORE addr bs else return ()) (\<lambda>_.
     if access_aligned addr len then store_slow_path_intrapage S addr bs len flags actually_store
     else bindE (hart_of id) (\<lambda>h.
       if \<not> is_misaligned_enabled h then throw (Trap (trap_store_address_misaligned (gva_access flags h) addr 0 0))
       else if require_alignment then throw (Trap (trap_store_access_fault (gva_access flags h) addr 0 0))
       else let n = len_page0 addr len in
         bindE (store_slow_path_intrapage S addr (take n bs) n flags actually_store) (\<lambda>_.
         if n \<noteq> len then store_slow_path_intrapage S (addr + of_nat n) (drop n bs) (len - n) flags actually_store
         else return ())))"

text \<open>\<open>load<T>\<close> and \<open>store<T>\<close> with the size of \<open>T\<close> in bytes: the bytes of a hit come from the cache.\<close>

definition tlb_hit :: "access_type \<Rightarrow> reg_t \<Rightarrow> mmu_state \<Rightarrow> bool" where
  "tlb_hit ty addr m \<longleftrightarrow> tlb_tag ty m (tlb_index (vpn_of addr)) = vpn_of addr"

definition mmu_load :: "'b simif \<Rightarrow> nat \<Rightarrow> reg_t \<Rightarrow> u32 \<Rightarrow> ('b, reg_t) mcomp" where
  "mmu_load S len addr flags = (\<lambda>w.
     let m = mmu_of w in
     if flags = 0 \<and> access_aligned addr len \<and> tlb_hit LOAD addr m
     then (Inr (le_word (host_read (host_offset (tlb_data m (tlb_index (vpn_of addr)))) addr len w)), w)
     else bindE (load_slow_path S addr len flags) (\<lambda>bs. return (le_word bs)) w)"

definition mmu_store :: "'b simif \<Rightarrow> nat \<Rightarrow> reg_t \<Rightarrow> reg_t \<Rightarrow> u32 \<Rightarrow> ('b, unit) mcomp" where
  "mmu_store S len addr val flags = (\<lambda>w.
     let m = mmu_of w; bs = le_bytes len val in
     if flags = 0 \<and> access_aligned addr len \<and> tlb_hit STORE addr m
     then (Inr (), host_write (host_offset (tlb_data m (tlb_index (vpn_of addr)))) addr bs w)
     else store_slow_path S addr bs len flags True False w)"

definition load_reserved :: "'b simif \<Rightarrow> nat \<Rightarrow> reg_t \<Rightarrow> ('b, reg_t) mcomp" where
  "load_reserved S len addr = mmu_load S len addr RISCV_XLATE_LR"

definition guest_load :: "'b simif \<Rightarrow> nat \<Rightarrow> reg_t \<Rightarrow> ('b, reg_t) mcomp" where
  "guest_load S len addr = mmu_load S len addr RISCV_XLATE_VIRT"

definition guest_load_x :: "'b simif \<Rightarrow> nat \<Rightarrow> reg_t \<Rightarrow> ('b, reg_t) mcomp" where
  "guest_load_x S len addr = mmu_load S len addr (RISCV_XLATE_VIRT OR RISCV_XLATE_VIRT_HLVX)"

definition guest_store :: "'b simif \<Rightarrow> nat \<Rightarrow> reg_t \<Rightarrow> reg_t \<Rightarrow> ('b, unit) mcomp" where
  "guest_store S len addr val = mmu_store S len addr val RISCV_XLATE_VIRT"

text \<open>Faults of the load half of an atomic operation are reported as store faults.\<close>

definition store_trap :: "trap_t \<Rightarrow> trap_t" where
  "store_trap t =
     (if cause t = CAUSE_MISALIGNED_LOAD then trap_store_address_misaligned (has_gva t) (get_tval t) (get_tval2 t) (get_tinst t)
      else if cause t = CAUSE_LOAD_PAGE_FAULT then trap_store_page_fault (has_gva t) (get_tval t) (get_tval2 t) (get_tinst t)
      else if cause t = CAUSE_LOAD_ACCESS then trap_store_access_fault (has_gva t) (get_tval t) (get_tval2 t) (get_tinst t)
      else if cause t = CAUSE_LOAD_GUEST_PAGE_FAULT then trap_store_guest_page_fault (get_tval t) (get_tval2 t) (get_tinst t)
      else t)"

definition convert_load_traps :: "('b, 'a) mcomp \<Rightarrow> ('b, 'a) mcomp" where
  "convert_load_traps body = catchE body (\<lambda>e. throw (case e of Trap t \<Rightarrow> Trap (store_trap t) | _ \<Rightarrow> e))"

definition amo :: "'b simif \<Rightarrow> nat \<Rightarrow> reg_t \<Rightarrow> (reg_t \<Rightarrow> (hart, exn, reg_t) comp) \<Rightarrow> ('b, reg_t) mcomp" where
  "amo S len addr f = convert_load_traps (
     bindE (store_slow_path S addr [] len 0 False True) (\<lambda>_.
     bindE (mmu_load S len addr 0) (\<lambda>lhs.
     bindE (on_hart (f lhs)) (\<lambda>val.
     bindE (mmu_store S len addr val 0) (\<lambda>_.
     return lhs)))))"

fun zero_bytes :: "'b simif \<Rightarrow> nat \<Rightarrow> reg_t \<Rightarrow> ('b, unit) mcomp" where
  "zero_bytes S 0 addr = return ()"
| "zero_bytes S (Suc n) addr = bindE (mmu_store S 1 addr 0 0) (\<lambda>_. zero_bytes S n (addr + 1))"

definition cbo_zero :: "'b simif \<Rightarrow> reg_t \<Rightarrow> reg_t \<Rightarrow> ('b, unit) mcomp" where
  "cbo_zero S blocksz addr = zero_bytes S (unat blocksz) (addr AND NOT (blocksz - 1))"

definition clean_inval :: "'b simif \<Rightarrow> reg_t \<Rightarrow> reg_t \<Rightarrow> ('b, unit) mcomp" where
  "clean_inval S blocksz addr = convert_load_traps (
     bindE (translate S addr (unat blocksz) LOAD 0) (\<lambda>paddr.
     bindE (hart_of h_v) (\<lambda>v.
     if sim_reservable S (paddr AND NOT (blocksz - 1)) then return ()
     else throw (Trap (trap_store_access_fault v addr 0 0)))))"

definition mmu_yield :: "('b, unit) mcomp" where
  "mmu_yield = modify (upd_mmu yield_load_reservation)"

definition check_load_reservation :: "'b simif \<Rightarrow> reg_t \<Rightarrow> nat \<Rightarrow> ('b, bool) mcomp" where
  "check_load_reservation S vaddr size' =
     bindE (if \<not> access_aligned vaddr size' then store_slow_path S vaddr [] size' 0 False True else return ()) (\<lambda>_.
     bindE (translate S vaddr 1 STORE 0) (\<lambda>paddr.
     bindE (hart_of id) (\<lambda>h.
     if sim_reservable S paddr then return (load_reservation_address (mmu h) = paddr)
     else throw (Trap (trap_store_access_fault (h_v h) vaddr 0 0)))))"

definition store_conditional :: "'b simif \<Rightarrow> nat \<Rightarrow> reg_t \<Rightarrow> reg_t \<Rightarrow> ('b, bool) mcomp" where
  "store_conditional S len addr val =
     bindE (check_load_reservation S addr len) (\<lambda>have_reservation.
     bindE (if have_reservation then mmu_store S len addr val 0 else return ()) (\<lambda>_.
     bindE mmu_yield (\<lambda>_.
     return have_reservation)))"

subsection \<open>Instruction fetches\<close>

definition fetch_slow_path :: "'b simif \<Rightarrow> reg_t \<Rightarrow> ('b, tlb_entry) mcomp" where
  "fetch_slow_path S vaddr =
     bindE (check_triggers OPERATION_EXECUTE vaddr None) (\<lambda>_.
     bindE (hart_of id) (\<lambda>h.
     bindE (if tlb_insn_tag (mmu h) (tlb_index (vpn_of vaddr)) \<noteq> (vpn_of vaddr OR TLB_CHECK_TRIGGERS) then
         bindE (translate S vaddr 2 FETCH 0) (\<lambda>paddr.
           if sim_addr_to_mem S paddr then refill_tlb vaddr paddr (Host_mem paddr) FETCH
           else bindE (mmio_fetch S paddr 2) (\<lambda>r. case r of
             None \<Rightarrow> throw (Trap (trap_instruction_access_fault (h_v h) vaddr 0 0))
           | Some bs \<Rightarrow> bindE (modify (upd_mmu (\<lambda>m. m\<lparr>fetch_temp := ucast (le_word bs)\<rparr>))) (\<lambda>_.
               return \<lparr>host_offset = Host_fetch_temp (- vaddr), target_offset = paddr - vaddr\<rparr>)))
       else return (tlb_data (mmu h) (tlb_index (vpn_of vaddr)))) (\<lambda>result.
     bindE (\<lambda>w. check_triggers OPERATION_EXECUTE vaddr (Some (le_word (host_read (host_offset result) vaddr 2 w))) w) (\<lambda>_.
     return result))))"

definition translate_insn_addr :: "'b simif \<Rightarrow> reg_t \<Rightarrow> ('b, tlb_entry) mcomp" where
  "translate_insn_addr S addr = (\<lambda>w.
     let m = mmu_of w in
     if tlb_insn_tag m (tlb_index (vpn_of addr)) = vpn_of addr then (Inr (tlb_data m (tlb_index (vpn_of addr))), w)
     else fetch_slow_path S addr w)"

definition fetch_parcel :: "'b simif \<Rightarrow> reg_t \<Rightarrow> ('b, reg_t) mcomp" where
  "fetch_parcel S addr = bindE (translate_insn_addr S addr) (\<lambda>e w.
     (Inr (le_word (host_read (host_offset e) addr 2 w)), w))"

text \<open>The parcels after the first, highest address first, as the code fetches them.\<close>

definition fetch_rest :: "'b simif \<Rightarrow> reg_t \<Rightarrow> nat \<Rightarrow> ('b, reg_t) mcomp" where
  "fetch_rest S addr len =
     (if len = 4 then bindE (fetch_parcel S (addr + 2)) (\<lambda>a. return (shl a 16))
      else if len = 2 then return 0
      else if len = 6 then
        bindE (fetch_parcel S (addr + 4)) (\<lambda>b.
        bindE (fetch_parcel S (addr + 2)) (\<lambda>a. return (shl b 32 OR shl a 16)))
      else
        bindE (fetch_parcel S (addr + 6)) (\<lambda>c.
        bindE (fetch_parcel S (addr + 4)) (\<lambda>b.
        bindE (fetch_parcel S (addr + 2)) (\<lambda>a. return (shl c 48 OR shl b 32 OR shl a 16)))))"

definition icache_index :: "reg_t \<Rightarrow> nat" where
  "icache_index addr = unat (addr div 2) mod ICACHE_ENTRIES"

text \<open>The entry an address is decoded into; decoding the word is left to the execution loop.\<close>

definition fetch_entry :: "'b simif \<Rightarrow> reg_t \<Rightarrow> ('b, icache_entry) mcomp" where
  "fetch_entry S addr = (\<lambda>w. case matched_trigger (mmu_of w) of
     Some t \<Rightarrow> (Inl (Trigger_matched t), w)
   | None \<Rightarrow>
       bindE (fetch_parcel S addr) (\<lambda>low.
       let len = insn_length low in
       bindE (fetch_rest S addr len) (\<lambda>high.
       return \<lparr>ic_tag = addr, ic_next = icache_index (addr + of_nat len), ic_insn = low OR high\<rparr>)) w)"

definition refill_icache :: "'b simif \<Rightarrow> reg_t \<Rightarrow> ('b, icache_entry) mcomp" where
  "refill_icache S addr = bindE (fetch_entry S addr) (\<lambda>e.
     bindE (modify (upd_mmu (\<lambda>m. m\<lparr>icache := (icache m)(icache_index addr := e)\<rparr>))) (\<lambda>_. return e))"

definition access_icache :: "'b simif \<Rightarrow> reg_t \<Rightarrow> ('b, icache_entry) mcomp" where
  "access_icache S addr = (\<lambda>w.
     let e = icache (mmu_of w) (icache_index addr) in
     if ic_tag e = addr then (Inr e, w) else refill_icache S addr w)"

definition load_insn :: "'b simif \<Rightarrow> reg_t \<Rightarrow> ('b, insn_t) mcomp" where
  "load_insn S addr = bindE (fetch_entry S addr) (\<lambda>e. return (ic_insn e))"

end
