(* ===== verification/Insn_Mem.thy ===== *)
theory Insn_Mem
  imports Insn_Int Mmu
begin

text \<open>
  The instructions of \<open>riscv/insns/\<close> that access memory: loads and stores, the compressed ones, the
  floating-point ones of the compressed sets, atomic memory operations, load reserved and store
  conditional, the hypervisor's guest accesses, cache block operations and the push and pop
  instructions of \<open>Zcmp\<close>. They run on the hart, the bytes of memory and the devices, over the memory
  management unit of \<open>Mmu\<close>; the instructions that only touch the hart are lifted by \<open>on_hart\<close>.
\<close>

type_synonym 'b mem_insn = "'b simif \<Rightarrow> nat \<Rightarrow> bool \<Rightarrow> insn_t \<Rightarrow> reg_t \<Rightarrow> ('b, reg_t) mcomp"

type_synonym insn_req = "nat \<Rightarrow> insn_t \<Rightarrow> (hart, exn, unit) comp"

definition hart_insn :: "insn_fun \<Rightarrow> 'b mem_insn" where
  "hart_insn f S x e i pc = on_hart (f x e i pc)"

subsection \<open>Loads and stores\<close>

definition sext8 :: "reg_t \<Rightarrow> reg_t" where
  "sext8 v = scast (ucast v :: u8)"

definition sext16 :: "reg_t \<Rightarrow> reg_t" where
  "sext16 v = scast (ucast v :: u16)"

text \<open>A load of \<open>n\<close> bytes into register \<open>d\<close>; the value is written only once it has been read.\<close>

definition mem_load :: "nat \<Rightarrow> (reg_t \<Rightarrow> reg_t) \<Rightarrow> insn_req \<Rightarrow> (insn_t \<Rightarrow> nat) \<Rightarrow> (insn_t \<Rightarrow> reg_t) \<Rightarrow> (insn_t \<Rightarrow> nat) \<Rightarrow> nat \<Rightarrow> 'b mem_insn" where
  "mem_load n conv req base imm dest len S x e i pc =
     bindE (on_hart (req x i)) (\<lambda>_.
     bindE (on_hart (read_reg e i (base i))) (\<lambda>a.
     bindE (mmu_load S n (a + imm i) 0) (\<lambda>v.
     bindE (on_hart (write_reg e i (dest i) (conv v))) (\<lambda>_.
     return (next_pc x len pc)))))"

definition mem_store :: "nat \<Rightarrow> insn_req \<Rightarrow> (insn_t \<Rightarrow> nat) \<Rightarrow> (insn_t \<Rightarrow> reg_t) \<Rightarrow> (insn_t \<Rightarrow> nat) \<Rightarrow> nat \<Rightarrow> 'b mem_insn" where
  "mem_store n req base imm src len S x e i pc =
     bindE (on_hart (req x i)) (\<lambda>_.
     bindE (on_hart (read_reg e i (base i))) (\<lambda>a.
     bindE (on_hart (read_reg e i (src i))) (\<lambda>v.
     bindE (mmu_store S n (a + imm i) v 0) (\<lambda>_.
     return (next_pc x len pc)))))"

abbreviation (input) no_req :: insn_req where "no_req \<equiv> \<lambda>x i. return ()"

definition insn_lb :: "'b mem_insn" where
  "insn_lb = mem_load 1 sext8 no_req rs1 i_imm rd 4"

definition insn_lh :: "'b mem_insn" where
  "insn_lh = mem_load 2 sext16 no_req rs1 i_imm rd 4"

definition insn_lw :: "'b mem_insn" where
  "insn_lw = mem_load 4 sext32 no_req rs1 i_imm rd 4"

definition insn_ld :: "'b mem_insn" where
  "insn_ld = mem_load 8 (\<lambda>v. v) require_rv64 rs1 i_imm rd 4"

definition insn_lbu :: "'b mem_insn" where
  "insn_lbu = mem_load 1 (\<lambda>v. v) no_req rs1 i_imm rd 4"

definition insn_lhu :: "'b mem_insn" where
  "insn_lhu = mem_load 2 (\<lambda>v. v) no_req rs1 i_imm rd 4"

definition insn_lwu :: "'b mem_insn" where
  "insn_lwu = mem_load 4 (\<lambda>v. v) require_rv64 rs1 i_imm rd 4"

definition insn_sb :: "'b mem_insn" where
  "insn_sb = mem_store 1 no_req rs1 s_imm rs2 4"

definition insn_sh :: "'b mem_insn" where
  "insn_sh = mem_store 2 no_req rs1 s_imm rs2 4"

definition insn_sw :: "'b mem_insn" where
  "insn_sw = mem_store 4 no_req rs1 s_imm rs2 4"

definition insn_sd :: "'b mem_insn" where
  "insn_sd = mem_store 8 require_rv64 rs1 s_imm rs2 4"

definition insn_fence :: insn_fun where
  "insn_fence x e i pc = return (next_pc x 4 pc)"

subsection \<open>Compressed loads and stores\<close>

definition insn_c_lw :: "'b mem_insn" where
  "insn_c_lw = mem_load 4 sext32 (\<lambda>x i. require_extension EXT_ZCA i) rvc_rs1s rvc_lw_imm rvc_rs2s 2"

definition insn_c_sw :: "'b mem_insn" where
  "insn_c_sw = mem_store 4 (\<lambda>x i. require_extension EXT_ZCA i) rvc_rs1s rvc_lw_imm rvc_rs2s 2"

definition insn_c_lwsp :: "'b mem_insn" where
  "insn_c_lwsp = mem_load 4 sext32 (\<lambda>x i. bindE (require_extension EXT_ZCA i) (\<lambda>_. require (rd i \<noteq> 0) i)) (\<lambda>_. X_SP) rvc_lwsp_imm rd 2"

definition insn_c_swsp :: "'b mem_insn" where
  "insn_c_swsp = mem_store 4 (\<lambda>x i. require_extension EXT_ZCA i) (\<lambda>_. X_SP) rvc_swsp_imm rvc_rs2 2"

definition insn_c_lbu :: "'b mem_insn" where
  "insn_c_lbu = mem_load 1 (\<lambda>v. v) (\<lambda>x i. require_extension EXT_ZCB i) rvc_rs1s rvc_lbimm rvc_rs2s 2"

definition insn_c_lhu :: "'b mem_insn" where
  "insn_c_lhu = mem_load 2 (\<lambda>v. v) (\<lambda>x i. require_extension EXT_ZCB i) rvc_rs1s rvc_lhimm rvc_rs2s 2"

definition insn_c_lh :: "'b mem_insn" where
  "insn_c_lh = mem_load 2 sext16 (\<lambda>x i. require_extension EXT_ZCB i) rvc_rs1s rvc_lhimm rvc_rs2s 2"

definition insn_c_sb :: "'b mem_insn" where
  "insn_c_sb = mem_store 1 (\<lambda>x i. require_extension EXT_ZCB i) rvc_rs1s rvc_lbimm rvc_rs2s 2"

definition insn_c_sh :: "'b mem_insn" where
  "insn_c_sh = mem_store 2 (\<lambda>x i. require_extension EXT_ZCB i) rvc_rs1s rvc_lhimm rvc_rs2s 2"

text \<open>Floating-point registers hold 128 bits; a narrower value is boxed with ones.\<close>

type_synonym freg_t = "reg_t \<times> reg_t"

definition freg32 :: "reg_t \<Rightarrow> freg_t" where
  "freg32 v = (0xFFFFFFFF00000000 OR v, - 1)"

definition freg64 :: "reg_t \<Rightarrow> freg_t" where
  "freg64 v = (v, - 1)"

definition write_freg :: "nat \<Rightarrow> freg_t \<Rightarrow> (hart, exn, unit) comp" where
  "write_freg r v = bindE (modify (\<lambda>h. h\<lparr>FPR := regfile_write False (FPR h) r v\<rparr>)) (\<lambda>_. of_opt (sstatus_dirty SSTATUS_FS))"

definition require_fp :: "insn_t \<Rightarrow> (hart, exn, unit) comp" where
  "require_fp i h = (case float_verify CSR_FFLAGS i False h of None \<Rightarrow> (Inr (), h) | Some t \<Rightarrow> (Inl (Trap t), h))"

definition fp_load :: "nat \<Rightarrow> (reg_t \<Rightarrow> freg_t) \<Rightarrow> nat \<Rightarrow> (insn_t \<Rightarrow> nat) \<Rightarrow> (insn_t \<Rightarrow> reg_t) \<Rightarrow> (insn_t \<Rightarrow> nat) \<Rightarrow> nat \<Rightarrow> 'b mem_insn" where
  "fp_load n box ext base imm dest len S x e i pc =
     bindE (on_hart (require_extension ext i)) (\<lambda>_.
     bindE (on_hart (require_fp i)) (\<lambda>_.
     bindE (on_hart (read_reg e i (base i))) (\<lambda>a.
     bindE (mmu_load S n (a + imm i) 0) (\<lambda>v.
     bindE (on_hart (write_freg (dest i) (box v))) (\<lambda>_.
     return (next_pc x len pc))))))"

definition fp_store :: "nat \<Rightarrow> nat \<Rightarrow> (insn_t \<Rightarrow> nat) \<Rightarrow> (insn_t \<Rightarrow> reg_t) \<Rightarrow> (insn_t \<Rightarrow> nat) \<Rightarrow> nat \<Rightarrow> 'b mem_insn" where
  "fp_store n ext base imm src len S x e i pc =
     bindE (on_hart (require_extension ext i)) (\<lambda>_.
     bindE (on_hart (require_fp i)) (\<lambda>_.
     bindE (on_hart (read_reg e i (base i))) (\<lambda>a.
     bindE (hart_of (\<lambda>h. fst (regfile_read (FPR h) (src i)))) (\<lambda>v.
     bindE (mmu_store S n (a + imm i) v 0) (\<lambda>_.
     return (next_pc x len pc))))))"

definition insn_c_fld :: "'b mem_insn" where
  "insn_c_fld = fp_load 8 freg64 EXT_ZCD rvc_rs1s rvc_ld_imm rvc_rs2s 2"

definition insn_c_fldsp :: "'b mem_insn" where
  "insn_c_fldsp = fp_load 8 freg64 EXT_ZCD (\<lambda>_. X_SP) rvc_ldsp_imm rd 2"

definition insn_c_fsd :: "'b mem_insn" where
  "insn_c_fsd = fp_store 8 EXT_ZCD rvc_rs1s rvc_ld_imm rvc_rs2s 2"

definition insn_c_fsdsp :: "'b mem_insn" where
  "insn_c_fsdsp = fp_store 8 EXT_ZCD (\<lambda>_. X_SP) rvc_sdsp_imm rvc_rs2 2"

definition insn_c_flw :: "'b mem_insn" where
  "insn_c_flw S x =
     (if x = 32 then fp_load 4 freg32 EXT_ZCF rvc_rs1s rvc_lw_imm rvc_rs2s 2 S x
      else mem_load 8 (\<lambda>v. v) (\<lambda>x i. require_extension EXT_ZCA i) rvc_rs1s rvc_ld_imm rvc_rs2s 2 S x)"

definition insn_c_flwsp :: "'b mem_insn" where
  "insn_c_flwsp S x =
     (if x = 32 then fp_load 4 freg32 EXT_ZCF (\<lambda>_. X_SP) rvc_lwsp_imm rd 2 S x
      else mem_load 8 (\<lambda>v. v) (\<lambda>x i. bindE (require_extension EXT_ZCA i) (\<lambda>_. require (rd i \<noteq> 0) i)) (\<lambda>_. X_SP) rvc_ldsp_imm rd 2 S x)"

definition insn_c_fsw :: "'b mem_insn" where
  "insn_c_fsw S x =
     (if x = 32 then fp_store 4 EXT_ZCF rvc_rs1s rvc_lw_imm rvc_rs2s 2 S x
      else mem_store 8 (\<lambda>x i. require_extension EXT_ZCA i) rvc_rs1s rvc_ld_imm rvc_rs2s 2 S x)"

definition insn_c_fswsp :: "'b mem_insn" where
  "insn_c_fswsp S x =
     (if x = 32 then fp_store 4 EXT_ZCF (\<lambda>_. X_SP) rvc_swsp_imm rvc_rs2 2 S x
      else mem_store 8 (\<lambda>x i. require_extension EXT_ZCA i) (\<lambda>_. X_SP) rvc_sdsp_imm rvc_rs2 2 S x)"

definition insn_flw :: "'b mem_insn" where
  "insn_flw = fp_load 4 freg32 ISA_F rs1 i_imm rd 4"

definition insn_fld :: "'b mem_insn" where
  "insn_fld = fp_load 8 freg64 ISA_D rs1 i_imm rd 4"

definition insn_fsw :: "'b mem_insn" where
  "insn_fsw = fp_store 4 ISA_F rs1 s_imm rs2 4"

definition insn_fsd :: "'b mem_insn" where
  "insn_fsd = fp_store 8 ISA_D rs1 s_imm rs2 4"

subsection \<open>Atomic memory operations\<close>

text \<open>The operation reads \<open>rs2\<close> after the load, as the function object of the code does.\<close>

definition amo_insn :: "nat \<Rightarrow> (reg_t \<Rightarrow> reg_t) \<Rightarrow> insn_req \<Rightarrow> (reg_t \<Rightarrow> reg_t \<Rightarrow> reg_t) \<Rightarrow> 'b mem_insn" where
  "amo_insn n conv req f S x e i pc =
     bindE (on_hart (require_extension ISA_A i)) (\<lambda>_.
     bindE (on_hart (req x i)) (\<lambda>_.
     bindE (on_hart (RS1 e i)) (\<lambda>a.
     bindE (amo S n a (\<lambda>lhs. bindE (RS2 e i) (\<lambda>b. return (f lhs b)))) (\<lambda>v.
     bindE (on_hart (WRITE_RD e i (conv v))) (\<lambda>_.
     return (next_pc x 4 pc))))))"

text \<open>The 32-bit comparisons see the low halves of their operands.\<close>

definition amo_min :: "reg_t \<Rightarrow> reg_t \<Rightarrow> reg_t" where "amo_min a b = (if b <s a then b else a)"
definition amo_max :: "reg_t \<Rightarrow> reg_t \<Rightarrow> reg_t" where "amo_max a b = (if a <s b then b else a)"
definition amo_minu :: "reg_t \<Rightarrow> reg_t \<Rightarrow> reg_t" where "amo_minu a b = (if b < a then b else a)"
definition amo_maxu :: "reg_t \<Rightarrow> reg_t \<Rightarrow> reg_t" where "amo_maxu a b = (if a < b then b else a)"

definition insn_amoadd_w :: "'b mem_insn" where
  "insn_amoadd_w = amo_insn 4 sext32 no_req (+)"

definition insn_amoadd_d :: "'b mem_insn" where
  "insn_amoadd_d = amo_insn 8 (\<lambda>v. v) require_rv64 (+)"

definition insn_amoand_w :: "'b mem_insn" where
  "insn_amoand_w = amo_insn 4 sext32 no_req (AND)"

definition insn_amoand_d :: "'b mem_insn" where
  "insn_amoand_d = amo_insn 8 (\<lambda>v. v) require_rv64 (AND)"

definition insn_amoor_w :: "'b mem_insn" where
  "insn_amoor_w = amo_insn 4 sext32 no_req (OR)"

definition insn_amoor_d :: "'b mem_insn" where
  "insn_amoor_d = amo_insn 8 (\<lambda>v. v) require_rv64 (OR)"

definition insn_amoxor_w :: "'b mem_insn" where
  "insn_amoxor_w = amo_insn 4 sext32 no_req (XOR)"

definition insn_amoxor_d :: "'b mem_insn" where
  "insn_amoxor_d = amo_insn 8 (\<lambda>v. v) require_rv64 (XOR)"

definition insn_amoswap_w :: "'b mem_insn" where
  "insn_amoswap_w = amo_insn 4 sext32 no_req (\<lambda>a b. b)"

definition insn_amoswap_d :: "'b mem_insn" where
  "insn_amoswap_d = amo_insn 8 (\<lambda>v. v) require_rv64 (\<lambda>a b. b)"

definition insn_amomin_w :: "'b mem_insn" where
  "insn_amomin_w = amo_insn 4 sext32 no_req (\<lambda>a b. amo_min (sext32 a) (sext32 b))"

definition insn_amomin_d :: "'b mem_insn" where
  "insn_amomin_d = amo_insn 8 (\<lambda>v. v) require_rv64 amo_min"

definition insn_amomax_w :: "'b mem_insn" where
  "insn_amomax_w = amo_insn 4 sext32 no_req (\<lambda>a b. amo_max (sext32 a) (sext32 b))"

definition insn_amomax_d :: "'b mem_insn" where
  "insn_amomax_d = amo_insn 8 (\<lambda>v. v) require_rv64 amo_max"

definition insn_amominu_w :: "'b mem_insn" where
  "insn_amominu_w = amo_insn 4 sext32 no_req (\<lambda>a b. amo_minu (zext32 a) (zext32 b))"

definition insn_amominu_d :: "'b mem_insn" where
  "insn_amominu_d = amo_insn 8 (\<lambda>v. v) require_rv64 amo_minu"

definition insn_amomaxu_w :: "'b mem_insn" where
  "insn_amomaxu_w = amo_insn 4 sext32 no_req (\<lambda>a b. amo_maxu (zext32 a) (zext32 b))"

definition insn_amomaxu_d :: "'b mem_insn" where
  "insn_amomaxu_d = amo_insn 8 (\<lambda>v. v) require_rv64 amo_maxu"

subsection \<open>Reservations\<close>

definition lr_insn :: "nat \<Rightarrow> (reg_t \<Rightarrow> reg_t) \<Rightarrow> insn_req \<Rightarrow> 'b mem_insn" where
  "lr_insn n conv req S x e i pc =
     bindE (on_hart (require_extension ISA_A i)) (\<lambda>_.
     bindE (on_hart (req x i)) (\<lambda>_.
     bindE (on_hart (RS1 e i)) (\<lambda>a.
     bindE (load_reserved S n a) (\<lambda>v.
     bindE (on_hart (WRITE_RD e i (conv v))) (\<lambda>_.
     return (next_pc x 4 pc))))))"

definition sc_insn :: "nat \<Rightarrow> insn_req \<Rightarrow> 'b mem_insn" where
  "sc_insn n req S x e i pc =
     bindE (on_hart (require_extension ISA_A i)) (\<lambda>_.
     bindE (on_hart (req x i)) (\<lambda>_.
     bindE (on_hart (RS1 e i)) (\<lambda>a.
     bindE (on_hart (RS2 e i)) (\<lambda>v.
     bindE (store_conditional S n a v) (\<lambda>have_reservation.
     bindE (on_hart (WRITE_RD e i (of_bool (\<not> have_reservation)))) (\<lambda>_.
     return (next_pc x 4 pc)))))))"

definition insn_lr_w :: "'b mem_insn" where
  "insn_lr_w = lr_insn 4 sext32 no_req"

definition insn_lr_d :: "'b mem_insn" where
  "insn_lr_d = lr_insn 8 (\<lambda>v. v) require_rv64"

definition insn_sc_w :: "'b mem_insn" where
  "insn_sc_w = sc_insn 4 no_req"

definition insn_sc_d :: "'b mem_insn" where
  "insn_sc_d = sc_insn 8 require_rv64"

subsection \<open>Guest accesses\<close>

definition require_guest :: "insn_req \<Rightarrow> insn_req" where
  "require_guest req x i =
     bindE (require_extension ISA_H i) (\<lambda>_.
     bindE (req x i) (\<lambda>_.
     bindE (require_novirt i) (\<lambda>_ h.
     require_privilege (if get_field (csrv h CSR_HSTATUS) HSTATUS_HU \<noteq> 0 then PRV_U else PRV_S) i h)))"

definition hlv_insn :: "('b simif \<Rightarrow> nat \<Rightarrow> reg_t \<Rightarrow> ('b, reg_t) mcomp) \<Rightarrow> nat \<Rightarrow> (nat \<Rightarrow> reg_t \<Rightarrow> reg_t) \<Rightarrow> insn_req \<Rightarrow> 'b mem_insn" where
  "hlv_insn ld n conv req S x e i pc =
     bindE (on_hart (require_guest req x i)) (\<lambda>_.
     bindE (on_hart (RS1 e i)) (\<lambda>a.
     bindE (ld S n a) (\<lambda>v.
     bindE (on_hart (WRITE_RD e i (conv x v))) (\<lambda>_.
     return (next_pc x 4 pc)))))"

definition hsv_insn :: "nat \<Rightarrow> insn_req \<Rightarrow> 'b mem_insn" where
  "hsv_insn n req S x e i pc =
     bindE (on_hart (require_guest req x i)) (\<lambda>_.
     bindE (on_hart (RS1 e i)) (\<lambda>a.
     bindE (on_hart (RS2 e i)) (\<lambda>v.
     bindE (guest_store S n a v) (\<lambda>_.
     return (next_pc x 4 pc)))))"

definition insn_hlv_b :: "'b mem_insn" where
  "insn_hlv_b = hlv_insn guest_load 1 (\<lambda>_. sext8) no_req"

definition insn_hlv_h :: "'b mem_insn" where
  "insn_hlv_h = hlv_insn guest_load 2 (\<lambda>_. sext16) no_req"

definition insn_hlv_w :: "'b mem_insn" where
  "insn_hlv_w = hlv_insn guest_load 4 (\<lambda>_. sext32) no_req"

definition insn_hlv_d :: "'b mem_insn" where
  "insn_hlv_d = hlv_insn guest_load 8 (\<lambda>_ v. v) require_rv64"

definition insn_hlv_bu :: "'b mem_insn" where
  "insn_hlv_bu = hlv_insn guest_load 1 (\<lambda>_ v. v) no_req"

definition insn_hlv_hu :: "'b mem_insn" where
  "insn_hlv_hu = hlv_insn guest_load 2 (\<lambda>_ v. v) no_req"

definition insn_hlv_wu :: "'b mem_insn" where
  "insn_hlv_wu = hlv_insn guest_load 4 (\<lambda>_ v. v) require_rv64"

definition insn_hlvx_hu :: "'b mem_insn" where
  "insn_hlvx_hu = hlv_insn guest_load_x 2 (\<lambda>_ v. v) no_req"

definition insn_hlvx_wu :: "'b mem_insn" where
  "insn_hlvx_wu = hlv_insn guest_load_x 4 sext_xlen no_req"

definition insn_hsv_b :: "'b mem_insn" where
  "insn_hsv_b = hsv_insn 1 no_req"

definition insn_hsv_h :: "'b mem_insn" where
  "insn_hsv_h = hsv_insn 2 no_req"

definition insn_hsv_w :: "'b mem_insn" where
  "insn_hsv_w = hsv_insn 4 no_req"

definition insn_hsv_d :: "'b mem_insn" where
  "insn_hsv_d = hsv_insn 8 require_rv64"

subsection \<open>Cache blocks\<close>

text \<open>\<open>require_envcfg\<close> with the three fields of \<open>DECLARE_XENVCFG_VARS\<close>.\<close>

definition require_envcfg :: "reg_t \<Rightarrow> reg_t \<Rightarrow> reg_t \<Rightarrow> insn_t \<Rightarrow> (hart, exn, unit) comp" where
  "require_envcfg mf sf hf i h = (
     let m = get_field (csrv h CSR_MENVCFG) mf; s = get_field (csrv h CSR_SENVCFG) sf; g = get_field (henvcfg_read h) hf
     in if h_prv h \<noteq> PRV_M \<and> m = 0 \<or> h_prv h = PRV_U \<and> \<not> h_v h \<and> s = 0 then illegal i h
        else if h_v h \<and> (g = 0 \<or> h_prv h = PRV_U \<and> s = 0) then throw (Trap (trap_virtual_instruction i)) h
        else (Inr (), h))"

text \<open>The block size is a parameter of the memory management unit.\<close>

definition insn_cbo_zero :: "reg_t \<Rightarrow> 'b mem_insn" where
  "insn_cbo_zero blocksz S x e i pc =
     bindE (on_hart (require_extension EXT_ZICBOZ i)) (\<lambda>_.
     bindE (on_hart (require_envcfg MENVCFG_CBZE SENVCFG_CBZE HENVCFG_CBZE i)) (\<lambda>_.
     bindE (on_hart (RS1 e i)) (\<lambda>a.
     bindE (cbo_zero S blocksz a) (\<lambda>_.
     return (next_pc x 4 pc)))))"

text \<open>What the memory tracers do on a clean, a flush or an invalidation is outside the model, so the
  three instructions differ in the field that enables them only.\<close>

definition cbo_insn :: "reg_t \<Rightarrow> reg_t \<Rightarrow> reg_t \<Rightarrow> reg_t \<Rightarrow> 'b mem_insn" where
  "cbo_insn mf sf hf blocksz S x e i pc =
     bindE (on_hart (require_extension EXT_ZICBOM i)) (\<lambda>_.
     bindE (on_hart (require_envcfg mf sf hf i)) (\<lambda>_.
     bindE (on_hart (RS1 e i)) (\<lambda>a.
     bindE (clean_inval S blocksz a) (\<lambda>_.
     return (next_pc x 4 pc)))))"

definition insn_cbo_clean :: "reg_t \<Rightarrow> 'b mem_insn" where
  "insn_cbo_clean = cbo_insn MENVCFG_CBCFE SENVCFG_CBCFE HENVCFG_CBCFE"

definition insn_cbo_flush :: "reg_t \<Rightarrow> 'b mem_insn" where
  "insn_cbo_flush = cbo_insn MENVCFG_CBCFE SENVCFG_CBCFE HENVCFG_CBCFE"

definition insn_cbo_inval :: "reg_t \<Rightarrow> 'b mem_insn" where
  "insn_cbo_inval = cbo_insn MENVCFG_CBIE SENVCFG_CBIE HENVCFG_CBIE"

subsection \<open>Push and pop\<close>

definition require_zcmp_pushpop :: "insn_t \<Rightarrow> (hart, exn, unit) comp" where
  "require_zcmp_pushpop i =
     bindE (require_extension EXT_ZCMP i) (\<lambda>_.
     bindE (require (rvc_rlist i \<ge> 4) i) (\<lambda>_ h.
     if extension_enabled ISA_E h then require (rvc_rlist i \<le> 6) i h else (Inr (), h)))"

text \<open>The registers of the list, highest first.\<close>

definition pushed_regs :: "insn_t \<Rightarrow> nat list" where
  "pushed_regs i = filter (\<lambda>k. zcmp_regmask i AND shl 1 k \<noteq> 0) (rev [0..<Sn 11 + 1])"

fun push_regs :: "'b simif \<Rightarrow> nat \<Rightarrow> bool \<Rightarrow> insn_t \<Rightarrow> nat list \<Rightarrow> reg_t \<Rightarrow> ('b, unit) mcomp" where
  "push_regs S x e i [] addr = return ()"
| "push_regs S x e i (k # ks) addr = (
     let addr = addr - of_nat (x div 8)
     in bindE (on_hart (read_reg e i k)) (\<lambda>v.
        bindE (mmu_store S (x div 8) addr v 0) (\<lambda>_. push_regs S x e i ks addr)))"

fun pop_regs :: "'b simif \<Rightarrow> nat \<Rightarrow> bool \<Rightarrow> insn_t \<Rightarrow> nat list \<Rightarrow> reg_t \<Rightarrow> ('b, unit) mcomp" where
  "pop_regs S x e i [] addr = return ()"
| "pop_regs S x e i (k # ks) addr = (
     let addr = addr - of_nat (x div 8)
     in bindE (mmu_load S (x div 8) addr 0) (\<lambda>v.
        bindE (on_hart (write_reg e i k (if x = 32 then sext32 v else v))) (\<lambda>_. pop_regs S x e i ks addr)))"

definition insn_cm_push :: "'b mem_insn" where
  "insn_cm_push S x e i pc =
     bindE (on_hart (require_zcmp_pushpop i)) (\<lambda>_.
     bindE (on_hart (read_reg e i X_SP)) (\<lambda>sp.
     bindE (push_regs S x e i (pushed_regs i) sp) (\<lambda>_.
     bindE (on_hart (write_reg e i X_SP (sp - zcmp_stack_adjustment i x))) (\<lambda>_.
     return (next_pc x 2 pc)))))"

definition cm_pop :: "'b simif \<Rightarrow> nat \<Rightarrow> bool \<Rightarrow> insn_t \<Rightarrow> ('b, unit) mcomp" where
  "cm_pop S x e i =
     bindE (on_hart (require_zcmp_pushpop i)) (\<lambda>_.
     bindE (on_hart (read_reg e i X_SP)) (\<lambda>sp.
     let new_sp = sp + zcmp_stack_adjustment i x in
     bindE (pop_regs S x e i (pushed_regs i) new_sp) (\<lambda>_.
     on_hart (write_reg e i X_SP new_sp))))"

definition insn_cm_pop :: "'b mem_insn" where
  "insn_cm_pop S x e i pc = bindE (cm_pop S x e i) (\<lambda>_. return (next_pc x 2 pc))"

definition insn_cm_popret :: "'b mem_insn" where
  "insn_cm_popret S x e i pc = bindE (cm_pop S x e i) (\<lambda>_. on_hart (bindE (read_reg e i X_RA) (set_pc x)))"

definition insn_cm_popretz :: "'b mem_insn" where
  "insn_cm_popretz S x e i pc = bindE (insn_cm_popret S x e i pc) (\<lambda>npc.
     bindE (on_hart (write_reg e i X_A0 0)) (\<lambda>_. return npc))"

end
