(* ===== verification/Mmu_Walk.thy ===== *)
theory Mmu_Walk
  imports Mmu
begin

text \<open>
  The page table walk against the algorithm of the privileged architecture (\<open>sv_lookup\<close>,
  \<open>sv_translate\<close>): bit by bit where the code tests masks, and with the order of the manual where the
  code has its own. The two agree for Sv32, Sv39, Sv48 and Sv57 without hypervisor, \<open>Svnapot\<close>,
  \<open>Svpbmt\<close> and hardware updates of the accessed and dirty bits.
\<close>

subsection \<open>The architecture\<close>

datatype sv_result = Sv_page reg_t | Sv_page_fault | Sv_access_fault

definition sv_permits :: "access_type \<Rightarrow> bool \<Rightarrow> bool \<Rightarrow> bool \<Rightarrow> bool \<Rightarrow> reg_t \<Rightarrow> bool" where
  "sv_permits ty hlvx s_mode sum_on mxr pte \<longleftrightarrow>
     (if bit pte 4 then s_mode \<longrightarrow> ty \<noteq> FETCH \<and> sum_on else s_mode) \<and>
     (if ty = FETCH \<or> hlvx then bit pte 3
      else if ty = LOAD then bit pte 1 \<or> mxr \<and> bit pte 3
      else bit pte 2) \<and>
     bit pte 6 \<and> (ty = STORE \<longrightarrow> bit pte 7)"

fun sv_lookup :: "(reg_t \<Rightarrow> reg_t option) \<Rightarrow> nat \<Rightarrow> nat \<Rightarrow> nat \<Rightarrow> reg_t \<Rightarrow> (reg_t \<Rightarrow> bool) \<Rightarrow> reg_t \<Rightarrow> sv_result" where
  "sv_lookup pt 0 vbits ptesize va permits a = Sv_page_fault"
| "sv_lookup pt (Suc i) vbits ptesize va permits a =
     (case pt (a + take_bit vbits (shr va (12 + i * vbits)) * of_nat ptesize) of
        None \<Rightarrow> Sv_access_fault
      | Some pte \<Rightarrow>
          let ppn = take_bit 44 (shr pte 10) in
          if \<not> bit pte 0 \<or> \<not> bit pte 1 \<and> bit pte 2 \<or> shr pte 54 \<noteq> 0 then Sv_page_fault
          else if \<not> bit pte 1 \<and> \<not> bit pte 3 then
            (if bit pte 4 \<or> bit pte 6 \<or> bit pte 7 then Sv_page_fault
             else sv_lookup pt i vbits ptesize va permits (shl ppn 12))
          else if \<not> permits pte \<or> take_bit (i * vbits) ppn \<noteq> 0 then Sv_page_fault
          else Sv_page (shl (ppn + take_bit (i * vbits) (shr va 12)) 12))"

subsection \<open>Entries bit by bit\<close>

lemma pte_table_bits: "PTE_TABLE pte \<longleftrightarrow> bit pte 0 \<and> \<not> bit pte 1 \<and> \<not> bit pte 2 \<and> \<not> bit pte 3"
proof -
  have "PTE_TABLE pte \<longleftrightarrow> take_bit 4 pte = 1" by (simp add: take_bit_eq_mask mask_eq_exp_minus_1)
  also have "\<dots> \<longleftrightarrow> bit pte 0 \<and> \<not> bit pte 1 \<and> \<not> bit pte 2 \<and> \<not> bit pte 3"
  proof
    assume "take_bit 4 pte = 1"
    then have "n < 4 \<Longrightarrow> bit pte n = (n = 0)" for n by (metis bit_1_iff bit_take_bit_iff)
    then show "bit pte 0 \<and> \<not> bit pte 1 \<and> \<not> bit pte 2 \<and> \<not> bit pte 3" by simp
  next
    assume b: "bit pte 0 \<and> \<not> bit pte 1 \<and> \<not> bit pte 2 \<and> \<not> bit pte 3"
    show "take_bit 4 pte = 1"
    proof (rule bit_word_eqI)
      fix n :: nat
      consider "n = 0" | "n = 1" | "n = 2" | "n = 3" | "4 \<le> n" by linarith
      then show "bit (take_bit 4 pte) n = bit 1 n" using b by cases (simp_all add: bit_take_bit_iff bit_1_iff)
    qed
  qed
  finally show ?thesis .
qed

lemma and_bit_0: "(pte :: reg_t) AND 2 ^ n = 0 \<longleftrightarrow> \<not> bit pte n"
  by (simp add: bit_iff_and_push_bit_not_eq_0)

lemma pte_flags:
  "pte AND PTE_V = 0 \<longleftrightarrow> \<not> bit pte 0" "pte AND PTE_R = 0 \<longleftrightarrow> \<not> bit pte 1" "pte AND PTE_W = 0 \<longleftrightarrow> \<not> bit pte 2"
  "pte AND PTE_X = 0 \<longleftrightarrow> \<not> bit pte 3" "pte AND PTE_U = 0 \<longleftrightarrow> \<not> bit pte 4" "pte AND PTE_A = 0 \<longleftrightarrow> \<not> bit pte 6"
  "pte AND PTE_D = 0 \<longleftrightarrow> \<not> bit pte 7" "pte AND PTE_N = 0 \<longleftrightarrow> \<not> bit pte 63"
  using and_bit_0 [of pte 0] and_bit_0 [of pte 1] and_bit_0 [of pte 2] and_bit_0 [of pte 3] and_bit_0 [of pte 4]
    and_bit_0 [of pte 6] and_bit_0 [of pte 7] and_bit_0 [of pte 63] by simp_all

lemma high_bits: "shr (pte :: reg_t) 54 = 0 \<longleftrightarrow> pte AND PTE_RSVD = 0 \<and> pte AND PTE_N = 0 \<and> pte AND PTE_PBMT = 0"
proof -
  have "shr pte 54 = 0 \<longleftrightarrow> pte AND NOT (mask 54) = 0"
  proof
    assume "shr pte 54 = 0"
    then have "\<not> bit (shr pte 54) n" for n by simp
    then have "\<not> bit pte (54 + n)" for n by (simp add: bit_drop_bit_eq)
    then have "\<not> bit pte n" if "54 \<le> n" for n using that by (metis le_add_diff_inverse)
    then show "pte AND NOT (mask 54) = 0"
      by (intro bit_word_eqI) (auto simp: bit_and_iff bit_not_iff bit_mask_iff not_less)
  next
    assume h: "pte AND NOT (mask 54) = 0"
    have "\<not> bit pte (54 + n)" if "54 + n < 64" for n
    proof -
      have "\<not> bit (pte AND NOT (mask 54)) (54 + n)" unfolding h by simp
      then have "\<not> (bit pte (54 + n) \<and> bit (NOT (mask 54) :: reg_t) (54 + n))" by (simp only: bit_and_iff simp_thms)
      moreover have "bit (NOT (mask 54) :: reg_t) (54 + n)" using that by (simp only: bit_not_iff bit_mask_iff) simp
      ultimately show ?thesis by blast
    qed
    then show "shr pte 54 = 0"
      by (intro bit_word_eqI) (use bit_imp_le_length [of pte] in \<open>fastforce simp: bit_drop_bit_eq\<close>)
  qed
  also have "NOT (mask 54) = (PTE_RSVD OR (PTE_N OR PTE_PBMT) :: reg_t)" by (simp add: mask_eq_exp_minus_1)
  finally show ?thesis by (simp only: bit.conj_disj_distrib or_eq_0_iff)
qed

lemma malformed_bits: "pte_malformed False False pte \<longleftrightarrow> shr pte 54 \<noteq> 0"
  unfolding high_bits pte_malformed_def by auto

lemma low_mask: "x AND (shl 1 n - 1) = take_bit n (x :: reg_t)"
  by (simp add: take_bit_eq_mask mask_eq_exp_minus_1 push_bit_eq_mult)

lemma low_mask_exp: "x AND (2 ^ n - 1) = take_bit n (x :: reg_t)"
  by (simp add: take_bit_eq_mask mask_eq_exp_minus_1)

lemma pte_ppn_bits: "pte_ppn pte = take_bit 44 (shr pte 10)"
proof -
  have "NOT PTE_ATTR = (mask 54 :: reg_t)" by (simp add: mask_eq_exp_minus_1)
  then have "pte AND NOT PTE_ATTR = take_bit 54 pte" by (simp only: take_bit_eq_mask)
  then show ?thesis by (simp only: pte_ppn_def drop_bit_take_bit) simp
qed

lemma stage1_class:
  "stage1_pte False False s_mode sum_on mxr ty hlvx n pte =
     (if \<not> bit pte 0 \<or> \<not> bit pte 1 \<and> bit pte 2 \<or> shr pte 54 \<noteq> 0 then Pte_fault
      else if \<not> bit pte 1 \<and> \<not> bit pte 3 then
        (if bit pte 4 \<or> bit pte 6 \<or> bit pte 7 then Pte_fault else Pte_next (shl (take_bit 44 (shr pte 10)) 12))
      else if \<not> (if bit pte 4 then s_mode \<longrightarrow> ty \<noteq> FETCH \<and> sum_on else s_mode) \<or>
          \<not> (if ty = FETCH \<or> hlvx then bit pte 3 else if ty = LOAD then bit pte 1 \<or> mxr \<and> bit pte 3 else bit pte 2) \<or>
          take_bit n (take_bit 44 (shr pte 10)) \<noteq> 0 then Pte_fault
      else Pte_leaf)"
proof -
  have or5: "pte AND (PTE_D OR PTE_A OR PTE_U OR PTE_N OR PTE_PBMT) \<noteq> 0 \<longleftrightarrow>
      bit pte 7 \<or> bit pte 6 \<or> bit pte 4 \<or> pte AND PTE_N \<noteq> 0 \<or> pte AND PTE_PBMT \<noteq> 0"
    by (simp only: bit.conj_disj_distrib or_eq_0_iff pte_flags) auto
  show ?thesis
    unfolding stage1_pte_def malformed_bits or5 pte_table_bits pte_denies_def pte_misaligned_def low_mask pte_ppn_bits pte_flags
    using high_bits [of pte] by (auto simp: pte_flags)
qed

lemma ad_bits: "pte AND pte_ad ty \<noteq> pte_ad ty \<longleftrightarrow> \<not> (bit pte 6 \<and> (ty = STORE \<longrightarrow> bit pte 7))"
proof -
  have two: "x AND (2 ^ n OR 2 ^ m) = 2 ^ n OR 2 ^ m \<longleftrightarrow> bit x n \<and> bit x m" if "n < 64" "m < 64" for x :: reg_t and n m
  proof
    assume e: "x AND (2 ^ n OR 2 ^ m) = 2 ^ n OR 2 ^ m"
    have "bit (x AND (2 ^ n OR 2 ^ m)) n" "bit (x AND (2 ^ n OR 2 ^ m)) m"
      unfolding e using that by (simp_all add: bit_or_iff bit_exp_iff)
    then show "bit x n \<and> bit x m" by (simp add: bit_and_iff)
  next
    assume "bit x n \<and> bit x m"
    then show "x AND (2 ^ n OR 2 ^ m) = 2 ^ n OR 2 ^ m"
      by (intro bit_word_eqI) (auto simp: bit_and_iff bit_or_iff bit_exp_iff)
  qed
  show ?thesis using two [of 6 6 pte] two [of 6 7 pte] by (auto simp: pte_ad_def)
qed

lemma no_napot:
  assumes "shr pte 54 = 0"
  shows "\<not> napot_bad i pte" "napot_bits pte = 0"
  using assms high_bits [of pte] by (simp_all add: napot_bad_def napot_bits_def)

lemma page_base_exact:
  assumes "shr pte 54 = 0" "take_bit n (take_bit 44 (shr pte 10)) = 0"
  shows "page_base n pte addr = shl (take_bit 44 (shr pte 10) + take_bit n (shr addr 12)) 12"
proof -
  let ?p = "take_bit 44 (shr pte 10)"
  have d: "?p AND take_bit n (shr addr 12) = 0"
  proof (rule bit_word_eqI)
    fix k
    have "bit (take_bit n ?p) k = False" unfolding assms(2) by simp
    then show "bit (?p AND take_bit n (shr addr 12)) k = bit 0 k"
      by (auto simp: bit_and_iff bit_take_bit_iff)
  qed
  have "page_base n pte addr = shl (?p OR take_bit n (shr addr 12)) 12"
    unfolding page_base_def Let_def no_napot(2) [OF assms(1)] low_mask pte_ppn_bits vpn_of_def
    by simp
  then show ?thesis using d by (simp add: disjunctive_add_eq_or)
qed


subsection \<open>The walk\<close>

text \<open>The page table as the walk reads it: \<open>None\<close> where physical memory protection denies the entry.\<close>

definition pt_read :: "nat \<Rightarrow> 'b world \<Rightarrow> reg_t \<Rightarrow> reg_t option" where
  "pt_read ptesize w a =
     (if pmp_ok a ptesize LOAD PRV_S (pmp (w_hart w)) then Some (le_word (read_bytes a ptesize (w_mem w))) else None)"

definition pt_in_memory :: "'b simif \<Rightarrow> nat \<Rightarrow> 'b world \<Rightarrow> bool" where
  "pt_in_memory S ptesize w \<longleftrightarrow> (\<forall>a. pmp_ok a ptesize LOAD PRV_S (pmp (w_hart w)) \<longrightarrow> sim_addr_to_mem S a)"

lemma pte_load_read:
  assumes "pt_in_memory S ptesize w"
  shows "pte_load S a addr virt ty ptesize w =
    (case pt_read ptesize w a of None \<Rightarrow> (Inl (Trap (access_fault ty virt addr)), w) | Some v \<Rightarrow> (Inr v, w))"
  using assms by (simp add: pte_load_def pt_read_def pt_in_memory_def throw_access_exception_def load_bytes_def monad_simps)

definition sv_outcome :: "access_type \<Rightarrow> reg_t \<Rightarrow> sv_result \<Rightarrow> exn + reg_t" where
  "sv_outcome ty addr r = (case r of
     Sv_page p \<Rightarrow> Inr p
   | Sv_page_fault \<Rightarrow> Inl (Trap (page_fault ty False addr))
   | Sv_access_fault \<Rightarrow> Inl (Trap (access_fault ty False addr)))"

lemma s2xlate_off [simp]: "s2xlate S gva gpa ty trap_type False hlvx w = (Inr gpa, w)"
  by (simp add: s2xlate_def)

lemma clear_offset: "(shl x 12 OR (y AND page_mask)) AND NOT page_mask = shl (x :: reg_t) 12"
proof -
  have "page_mask = (mask 12 :: reg_t)" by (simp add: mask_eq_exp_minus_1)
  then show ?thesis
    by (simp only:) (rule bit_word_eqI, auto simp only: bit_and_iff bit_or_iff bit_not_iff bit_mask_iff bit_push_bit_iff not_less)
qed

lemma clear_offset_neg: "(shl x 12 OR (y AND page_mask)) AND - 4096 = shl (x :: reg_t) 12"
  using clear_offset [of x y] by simp

lemma walk_loop_sv:
  assumes pt: "pt_in_memory S (vm_ptesize vm) w"
    and e: "\<not> extension_enabled EXT_SVNAPOT (w_hart w)" "\<not> pbmt_enabled False (w_hart w)" "\<not> hade_enabled False (w_hart w)"
  shows "walk_loop S n vm addr ty False hlvx s_mode sum_on mxr base w =
    (sv_outcome ty addr (sv_lookup (pt_read (vm_ptesize vm) w) n (vm_idxbits vm) (vm_ptesize vm) addr
       (sv_permits ty hlvx s_mode sum_on mxr) base), w)"
proof (induction n arbitrary: base)
  case 0
  then show ?case by (simp add: sv_outcome_def throw_def)
next
  case (Suc i)
  let ?a = "base + take_bit (vm_idxbits vm) (shr addr (12 + i * vm_idxbits vm)) * of_nat (vm_ptesize vm)"
  show ?case
  proof (cases "pt_read (vm_ptesize vm) w ?a")
    case None
    then show ?thesis
      by (simp add: low_mask_exp bindE_def pte_load_read [OF pt] sv_outcome_def Let_def)
  next
    case (Some pte)
    show ?thesis
      by (simp add: Some low_mask_exp bindE_def pte_load_read [OF pt] hart_of_def e stage1_class Suc.IH throw_def
          update_ad_def ad_bits no_napot page_base_exact clear_offset_neg sv_permits_def sv_outcome_def return_def Let_def)
  qed
qed


definition sv_canonical :: "nat \<Rightarrow> nat \<Rightarrow> reg_t \<Rightarrow> bool" where
  "sv_canonical xlen va_bits va \<longleftrightarrow> (\<forall>k \<in> {va_bits - 1..<xlen}. bit va k = bit va (va_bits - 1))"

definition sv_translate :: "(reg_t \<Rightarrow> reg_t option) \<Rightarrow> nat \<Rightarrow> vm_info \<Rightarrow> reg_t \<Rightarrow> (reg_t \<Rightarrow> bool) \<Rightarrow> sv_result" where
  "sv_translate pt xlen vm va permits =
     (if sv_canonical xlen (12 + vm_levels vm * vm_idxbits vm) va
      then sv_lookup pt (vm_levels vm) (vm_idxbits vm) (vm_ptesize vm) va permits (vm_ptbase vm)
      else Sv_page_fault)"

lemma canonical_exact:
  assumes "12 + vm_levels vm * vm_idxbits vm \<le> xlen" "xlen \<le> 64"
  shows "va_canonical xlen vm va = sv_canonical xlen (12 + vm_levels vm * vm_idxbits vm) va"
proof -
  define b where "b = 11 + vm_levels vm * vm_idxbits vm"
  have b: "b < xlen" "12 + vm_levels vm * vm_idxbits vm - 1 = b" using assms by (auto simp: b_def)
  have t: "bit (take_bit (xlen - b) (shr va b)) k \<longleftrightarrow> k < xlen - b \<and> bit va (b + k)" for k
    by (simp add: bit_take_bit_iff bit_drop_bit_eq)
  have "va_canonical xlen vm va \<longleftrightarrow> take_bit (xlen - b) (shr va b) = 0 \<or> take_bit (xlen - b) (shr va b) = mask (xlen - b)"
    using b by (simp add: va_canonical_def Let_def low_mask_exp mask_eq_exp_minus_1)
  also have "take_bit (xlen - b) (shr va b) = 0 \<longleftrightarrow> (\<forall>k \<in> {b..<xlen}. \<not> bit va k)"
  proof
    assume "take_bit (xlen - b) (shr va b) = 0"
    then have "\<not> bit (take_bit (xlen - b) (shr va b)) k" for k by simp
    then show "\<forall>k \<in> {b..<xlen}. \<not> bit va k"
      unfolding t by (metis atLeastLessThan_iff diff_less_mono le_add_diff_inverse)
  next
    assume "\<forall>k \<in> {b..<xlen}. \<not> bit va k"
    then show "take_bit (xlen - b) (shr va b) = 0" by (intro bit_word_eqI) (auto simp: t)
  qed
  also have "take_bit (xlen - b) (shr va b) = mask (xlen - b) \<longleftrightarrow> (\<forall>k \<in> {b..<xlen}. bit va k)"
  proof
    assume e: "take_bit (xlen - b) (shr va b) = mask (xlen - b)"
    have "bit (take_bit (xlen - b) (shr va b)) k" if "k < xlen - b" for k
      unfolding e using that assms by (simp add: bit_mask_iff)
    then show "\<forall>k \<in> {b..<xlen}. bit va k"
      unfolding t by (metis atLeastLessThan_iff diff_less_mono le_add_diff_inverse)
  next
    assume "\<forall>k \<in> {b..<xlen}. bit va k"
    then show "take_bit (xlen - b) (shr va b) = mask (xlen - b)"
      using assms by (intro bit_word_eqI) (auto simp: t bit_mask_iff)
  qed
  finally show ?thesis unfolding sv_canonical_def b(2) using b(1)
    by (metis atLeastLessThan_iff order_refl)
qed

text \<open>
  C1. The walk refines the architecture's algorithm: on every page table it finds the same frame, and
  raises a page fault or an access fault of the access's own kind exactly where the algorithm does,
  for every mode, access type, \<open>SUM\<close> and \<open>MXR\<close>, superpages and non-canonical addresses included. The
  state is left as it was.
\<close>

theorem walk_refines_sv:
  assumes vm: "decode_vm_info (h_xlen (w_hart w)) False mode (csrv (w_hart w) CSR_SATP) = Some vm" "vm_levels vm \<noteq> 0"
    and bits: "12 + vm_levels vm * vm_idxbits vm \<le> h_xlen (w_hart w)" "h_xlen (w_hart w) \<le> 64"
    and pt: "pt_in_memory S (vm_ptesize vm) w"
    and e: "\<not> extension_enabled EXT_SVNAPOT (w_hart w)" "\<not> pbmt_enabled False (w_hart w)" "\<not> hade_enabled False (w_hart w)"
  shows "walk S addr ty mode False hlvx w =
    (sv_outcome ty addr (sv_translate (pt_read (vm_ptesize vm) w) (h_xlen (w_hart w)) vm addr
       (sv_permits ty hlvx (mode = PRV_S) (sstatus_readvirt False (w_hart w) AND MSTATUS_SUM \<noteq> 0)
          (sstatus_readvirt False (w_hart w) AND MSTATUS_MXR \<noteq> 0))), w)"
  using vm canonical_exact [OF bits, of addr]
  by (simp add: walk_def Let_def satp_readvirt_def walk_loop_sv [OF pt e] sv_translate_def sv_outcome_def throw_def)

text \<open>A supervisor with a 1 GiB superpage that maps virtual address 0 to physical \<open>0x80000000\<close>.\<close>

definition demo_sv39 :: "unit world" where
  "demo_sv39 = \<lparr>w_hart = demo_hart\<lparr>h_prv := PRV_S, csrv := (csrv demo_hart)(CSR_SATP := 0x8000000000080000)\<rparr>,
     w_mem = write_bytes 0x80000000 (le_bytes 8 0x200000cf) (\<lambda>_. 0), w_bus = ()\<rparr>"

definition demo_sim :: "unit simif" where
  "demo_sim = \<lparr>sim_addr_to_mem = (\<lambda>_. True), sim_reservable = (\<lambda>_. True), sim_mmio_fetch = (\<lambda>_ _ _ p. (Some None, [], p)),
     sim_mmio_load = (\<lambda>_ _ _ p. (Some None, [], p)), sim_mmio_store = (\<lambda>_ _ _ p. (Some False, [], p))\<rparr>"

lemma demo_root: "pt_read 8 demo_sv39 0x80000000 = Some 0x200000cf"
  by (simp add: pt_read_def demo_sv39_def demo_hart_def pmp_ok_def pmp_reset_def read_bytes_def write_bytes_def
      le_bytes_def upt_rec)

lemma demo_lookup:
  "sv_lookup (pt_read 8 demo_sv39) 3 9 8 0x1234 permits 0x80000000 =
     (if permits 0x200000cf then Sv_page 0x80001000 else Sv_page_fault)"
proof -
  have "sv_lookup (pt_read 8 demo_sv39) (Suc 2) 9 8 0x1234 permits 0x80000000 =
     (if permits 0x200000cf then Sv_page 0x80001000 else Sv_page_fault)"
    unfolding sv_lookup.simps by (simp add: demo_root Let_def)
  then show ?thesis by simp
qed

theorem walk_refines_sv_witness:
  "walk demo_sim 0x1234 LOAD PRV_S False False demo_sv39 = (Inr 0x80001000, demo_sv39) \<and>
   walk demo_sim 0x1234 LOAD PRV_U False False demo_sv39 = (Inl (Trap (page_fault LOAD False 0x1234)), demo_sv39)"
proof -
  let ?vm = "\<lparr>vm_levels = 3, vm_idxbits = 9, vm_widenbits = 0, vm_ptesize = 8, vm_ptbase = 0x80000000\<rparr>"
  have vm: "decode_vm_info (h_xlen (w_hart demo_sv39)) False m (csrv (w_hart demo_sv39) CSR_SATP) = Some ?vm" if "m = PRV_S \<or> m = PRV_U" for m
    using that by (auto simp: demo_sv39_def demo_hart_def decode_vm_info_def get_field_def Let_def)
  have pt: "pt_in_memory demo_sim 8 demo_sv39" by (simp add: pt_in_memory_def demo_sim_def)
  have h: "h_xlen (w_hart demo_sv39) = 64" by (simp add: demo_sv39_def demo_hart_def)
  have e: "\<not> extension_enabled EXT_SVNAPOT (w_hart demo_sv39)" "\<not> pbmt_enabled False (w_hart demo_sv39)"
      "\<not> hade_enabled False (w_hart demo_sv39)"
    by (simp_all add: demo_sv39_def demo_hart_def extension_enabled_def pbmt_enabled_def hade_enabled_def)
  have c: "sv_canonical 64 39 0x1234"
  proof -
    have t: "(0x1234 :: reg_t) = take_bit 13 0x1234" by (simp add: take_bit_eq_mask mask_eq_exp_minus_1)
    have "\<not> bit (0x1234 :: reg_t) k" if "38 \<le> k" for k
      using that by (subst t) (simp only: bit_take_bit_iff, linarith)
    then show ?thesis by (simp only: sv_canonical_def) simp
  qed
  have w: "walk demo_sim 0x1234 LOAD m False False demo_sv39 =
    (sv_outcome LOAD 0x1234 (sv_translate (pt_read 8 demo_sv39) 64 ?vm 0x1234
       (sv_permits LOAD False (m = PRV_S) (sstatus_readvirt False (w_hart demo_sv39) AND MSTATUS_SUM \<noteq> 0)
          (sstatus_readvirt False (w_hart demo_sv39) AND MSTATUS_MXR \<noteq> 0))), demo_sv39)" if "m = PRV_S \<or> m = PRV_U" for m
    using walk_refines_sv [OF vm [OF that], where S = demo_sim and ty = LOAD and addr = "0x1234" and hlvx = False] pt e h by simp
  show ?thesis
    using w [of PRV_S] w [of PRV_U] c
    by (simp add: sv_translate_def sv_outcome_def demo_lookup sv_permits_def)
qed

end
