(* ===== verification/Mmu_Frame.thy ===== *)
theory Mmu_Frame
  imports Mmu_Walk
begin

text \<open>
  What a translation depends on. In a \<open>still\<close> state (page tables in main memory, no hardware updates
  of the accessed and dirty bits) a translation has no effect, depends on the page of its address
  only, and gives two kinds of access to a page that may both be made the same frame. No translation
  looks at the caches of the unit (\<open>mmu_free\<close>).
\<close>

subsection \<open>Pages\<close>


lemma offset_mask: "(0xfff :: reg_t) = mask 12"
  by (simp add: mask_eq_exp_minus_1)

lemma vpn_page_or: "vpn_of (shl x 12 OR (y AND page_mask)) = shr (shl x 12) 12"
  unfolding vpn_of_def offset_mask
  by (rule bit_word_eqI) (auto simp: bit_drop_bit_eq bit_or_iff bit_and_iff bit_mask_iff bit_push_bit_iff)

lemma page_base_vpn: "vpn_of a = vpn_of b \<Longrightarrow> page_base n pte a = page_base n pte b"
  by (simp add: page_base_def vpn_of_def)

lemma page_base_page: "\<exists>x. page_base n pte a = shl x 12"
  unfolding page_base_def Let_def by blast

lemma frame_vpn: "c AND NOT page_mask = shl (vpn_of c) 12"
  unfolding vpn_of_def offset_mask
  by (rule bit_word_eqI) (auto simp: bit_drop_bit_eq bit_and_iff bit_not_iff bit_mask_iff bit_push_bit_iff not_less)

lemma same_leaf_page:
  assumes "vpn_of a = vpn_of b"
  shows "vpn_of (page_base n pte a OR (a AND page_mask)) = vpn_of (page_base n pte b OR (b AND page_mask))"
  using page_base_page [of n pte a] page_base_vpn [OF assms, of n pte] vpn_page_or by metis

lemma vpn_bits: "vpn_of a = vpn_of b \<Longrightarrow> shr a (12 + n) = shr b (12 + n)"
  by (metis drop_bit_drop_bit add.commute vpn_of_def)

subsection \<open>Translations without effect\<close>

text \<open>Page tables in main memory and no hardware updates of the accessed and dirty bits.\<close>

definition still :: "'b simif \<Rightarrow> 'b world \<Rightarrow> bool" where
  "still S w \<longleftrightarrow> pt_in_memory S 4 w \<and> pt_in_memory S 8 w \<and> \<not> hade_enabled False (w_hart w) \<and> \<not> hade_enabled True (w_hart w)"

lemma vm_sizes: "decode_vm_info x s p satp = Some vm \<Longrightarrow> vm_levels vm \<noteq> 0 \<Longrightarrow> vm_ptesize vm = 4 \<or> vm_ptesize vm = 8"
  by (auto simp: decode_vm_info_def vm_off_def Let_def split: if_splits)

lemma s2_step:
  assumes "still S w" "vm_ptesize vm = 4 \<or> vm_ptesize vm = 8"
  shows "s2_loop S (Suc i) vm gva gpa ty tt hlvx mxr base w = (
     let n = i * vm_idxbits vm; h = w_hart w;
         idxbits = (if Suc i = vm_levels vm then vm_idxbits vm + vm_widenbits vm else vm_idxbits vm);
         a = base + (shr gpa (12 + n) AND (shl 1 idxbits - 1)) * of_nat (vm_ptesize vm);
         fault = (Inl (Trap (guest_page_fault tt gva gpa)), w)
     in case pt_read (vm_ptesize vm) w a of None \<Rightarrow> (Inl (Trap (access_fault tt True gva)), w)
        | Some pte \<Rightarrow>
          (case stage2_pte (extension_enabled EXT_SVNAPOT h) (pbmt_enabled False h) mxr ty hlvx n pte of
             Pte_fault \<Rightarrow> fault
           | Pte_next b \<Rightarrow> s2_loop S i vm gva gpa ty tt hlvx mxr b w
           | Pte_leaf \<Rightarrow> if pte AND pte_ad ty \<noteq> pte_ad ty \<or> napot_bad i pte then fault
               else (Inr (page_base n pte gpa OR (gpa AND page_mask)), w)))"
proof -
  have pt: "pt_in_memory S (vm_ptesize vm) w" and h: "\<not> hade_enabled False (w_hart w)" using assms by (auto simp: still_def)
  show ?thesis
    by (auto simp: bindE_def pte_load_read [OF pt] hart_of_def h update_ad_def throw_def return_def Let_def
        split: option.splits pte_step.splits)
qed

lemma s2_still:
  assumes "still S w" "vm_ptesize vm = 4 \<or> vm_ptesize vm = 8"
  shows "snd (s2_loop S n vm gva gpa ty tt hlvx mxr base w) = w"
proof (induction n arbitrary: base)
  case (Suc i)
  show ?case unfolding s2_step [OF assms] Let_def
    by (split option.split, intro conjI impI allI, simp, split pte_step.split, simp only: Suc.IH snd_conv split: if_split) simp
qed (simp add: throw_def)

lemma stage2_kind:
  "stage2_pte sn pb x ty hl n pte \<noteq> Pte_fault \<Longrightarrow> stage2_pte sn pb x ty' hl' n pte \<noteq> Pte_fault \<Longrightarrow>
     stage2_pte sn pb x ty hl n pte = stage2_pte sn pb x ty' hl' n pte"
  by (simp add: stage2_pte_def split: if_splits)

lemma stage1_kind:
  "stage1_pte sn pb s m x ty hl n pte \<noteq> Pte_fault \<Longrightarrow> stage1_pte sn pb s m x ty' hl' n pte \<noteq> Pte_fault \<Longrightarrow>
     stage1_pte sn pb s m x ty hl n pte = stage1_pte sn pb s m x ty' hl' n pte"
  by (simp add: stage1_pte_def split: if_splits)

lemma s2_types:
  assumes s: "still S w" "vm_ptesize vm = 4 \<or> vm_ptesize vm = 8" and v: "vpn_of gpa = vpn_of gpa'"
    and "s2_loop S n vm gva gpa ty tt hlvx mxr base w = (Inr x, w)"
        "s2_loop S n vm gva' gpa' ty' tt' hlvx' mxr base w = (Inr y, w)"
  shows "vpn_of x = vpn_of y \<and> (gpa = gpa' \<longrightarrow> x = y)"
  using assms(4,5)
proof (induction n arbitrary: base)
  case (Suc i)
  let ?n = "i * vm_idxbits vm" and ?h = "w_hart w"
  let ?st = "\<lambda>ty hlvx. stage2_pte (extension_enabled EXT_SVNAPOT ?h) (pbmt_enabled False ?h) mxr ty hlvx ?n"
  obtain pte where pte: "pt_read (vm_ptesize vm) w (base + (shr gpa (12 + ?n) AND (shl 1
      (if Suc i = vm_levels vm then vm_idxbits vm + vm_widenbits vm else vm_idxbits vm) - 1)) * of_nat (vm_ptesize vm)) = Some pte"
    using Suc.prems(1) unfolding s2_step [OF s] Let_def by (auto split: option.splits)
  note e = Suc.prems [unfolded s2_step [OF s] Let_def vpn_bits [OF v, symmetric] pte option.case]
  have "?st ty hlvx pte \<noteq> Pte_fault" "?st ty' hlvx' pte \<noteq> Pte_fault"
    using e by (auto split: pte_step.splits)
  then have k: "?st ty' hlvx' pte = ?st ty hlvx pte" by (metis stage2_kind)
  show ?case
  proof (cases "?st ty hlvx pte")
    case (Pte_next b)
    then show ?thesis using e Suc.IH [of b] unfolding k by simp
  next
    case Pte_leaf
    then show ?thesis using e same_leaf_page [OF v] unfolding k by (auto split: if_splits)
  qed (use e in simp)
qed (simp add: throw_def)

lemma s2_page:
  assumes s: "still S w" "vm_ptesize vm = 4 \<or> vm_ptesize vm = 8" and v: "vpn_of gpa = vpn_of gpa'"
    and "s2_loop S n vm gva gpa ty tt hlvx mxr base w = (Inr x, w)"
  shows "\<exists>y. s2_loop S n vm gva' gpa' ty tt' hlvx mxr base w = (Inr y, w)"
  using assms(4)
proof (induction n arbitrary: base)
  case (Suc i)
  show ?case using Suc.prems unfolding s2_step [OF s] vpn_bits [OF v]
    by (auto simp: Let_def intro: Suc.IH split: option.splits if_splits pte_step.splits)
qed (simp add: throw_def)


lemma s2xlate_cases:
  assumes "s2xlate S gva gpa ty tt virt hlvx w = (Inr x, w')"
  obtains (off) "x = gpa" "w' = w" "\<And>gva' gpa' ty' tt' hlvx'. s2xlate S gva' gpa' ty' tt' virt hlvx' w = (Inr gpa', w)"
  | (loop) vm n mxr where "vm_ptesize vm = 4 \<or> vm_ptesize vm = 8" "s2_loop S n vm gva gpa ty tt hlvx mxr (vm_ptbase vm) w = (Inr x, w')"
      "\<And>gva' gpa' ty' tt' hlvx'. vpn_of gpa' = vpn_of gpa \<Longrightarrow>
         s2xlate S gva' gpa' ty' tt' virt hlvx' w = s2_loop S n vm gva' gpa' ty' tt' hlvx' mxr (vm_ptbase vm) w"
proof (cases virt)
  case False
  then show thesis using off assms by (simp add: s2xlate_def)
next
  case True
  obtain vm where vm: "decode_vm_info (h_xlen (w_hart w)) True 0 (csrv (w_hart w) CSR_HGATP) = Some vm"
    using assms True by (auto simp: s2xlate_def split: option.splits)
  show thesis
  proof (cases "vm_levels vm = 0")
    case z: True
    then show thesis using off assms True vm by (simp add: s2xlate_def)
  next
    case nz: False
    define top where "top = (2 :: reg_t) ^ (vm_levels vm * vm_idxbits vm + vm_widenbits vm + PGSHIFT) - 1"
    have t: "a AND NOT top = b AND NOT top" if v: "vpn_of a = vpn_of b" for a b
    proof -
      have m: "NOT top = NOT page_mask AND NOT top"
        unfolding top_def offset_mask mask_eq_exp_minus_1 [symmetric]
        by (rule bit_word_eqI) (auto simp: bit_and_iff bit_not_iff bit_mask_iff)
      have "a AND NOT page_mask = b AND NOT page_mask" by (simp only: frame_vpn v)
      then show ?thesis by (subst (1 2) m) (simp only: and.assoc [symmetric])
    qed
    have c: "gpa AND NOT top = 0"
      using assms True vm nz by (auto simp: s2xlate_def Let_def top_def throw_def split: if_splits)
    have "s2xlate S gva' gpa' ty' tt' virt hlvx' w =
        s2_loop S (vm_levels vm) vm gva' gpa' ty' tt' hlvx' (sstatus_readvirt False (w_hart w) AND MSTATUS_MXR \<noteq> 0) (vm_ptbase vm) w"
      if "vpn_of gpa' = vpn_of gpa" for gva' gpa' ty' tt' hlvx'
      using t [OF that] c True vm nz by (simp add: s2xlate_def Let_def top_def)
    then show thesis using loop vm_sizes [OF vm nz] assms by (metis (no_types, lifting))
  qed
qed

lemma s2xlate_still: "still S w \<Longrightarrow> s2xlate S gva gpa ty tt virt hlvx w = (Inr x, w') \<Longrightarrow> w' = w"
  by (erule s2xlate_cases) (use s2_still in \<open>metis snd_conv\<close>)+

lemma s2xlate_page:
  assumes "still S w" "vpn_of gpa = vpn_of gpa'" "s2xlate S gva gpa ty tt virt hlvx w = (Inr x, w)"
  shows "\<exists>y. s2xlate S gva' gpa' ty tt' virt hlvx w = (Inr y, w) \<and> vpn_of x = vpn_of y \<and> (gpa = gpa' \<longrightarrow> x = y)"
  using assms(3)
proof (cases rule: s2xlate_cases)
  case off
  then show ?thesis using assms(2) by simp
next
  case (loop vm n mxr)
  show ?thesis using s2_page [OF assms(1) loop(1) assms(2) loop(2)] s2_types [OF assms(1) loop(1) assms(2) loop(2)]
    loop(3) [of gpa'] assms(2) by metis
qed

lemma s2xlate_types:
  assumes "still S w" "vpn_of gpa = vpn_of gpa'" "s2xlate S gva gpa ty tt virt hlvx w = (Inr x, w)"
    "s2xlate S gva' gpa' ty' tt' virt hlvx' w = (Inr y, w)"
  shows "vpn_of x = vpn_of y \<and> (gpa = gpa' \<longrightarrow> x = y)"
  using assms(3)
proof (cases rule: s2xlate_cases)
  case off
  then show ?thesis using assms(2,4) by simp
next
  case (loop vm n mxr)
  then show ?thesis using s2_types [OF assms(1) loop(1) assms(2) loop(2)] assms(2,4) by metis
qed


lemma walk_step:
  assumes "still S w" "vm_ptesize vm = 4 \<or> vm_ptesize vm = 8"
  shows "walk_loop S (Suc i) vm addr ty virt hlvx s_mode sum_on mxr base w = (
     let n = i * vm_idxbits vm; h = w_hart w;
         g = base + (shr addr (12 + n) AND (shl 1 (vm_idxbits vm) - 1)) * of_nat (vm_ptesize vm);
         fault = (Inl (Trap (page_fault ty virt addr)), w)
     in case s2xlate S addr g LOAD ty virt False w of
          (Inl e, w') \<Rightarrow> (Inl e, w')
        | (Inr a, w') \<Rightarrow>
          (case pt_read (vm_ptesize vm) w a of None \<Rightarrow> (Inl (Trap (access_fault ty virt addr)), w)
           | Some pte \<Rightarrow>
             (case stage1_pte (extension_enabled EXT_SVNAPOT h) (pbmt_enabled virt h) s_mode sum_on mxr ty hlvx n pte of
                Pte_fault \<Rightarrow> fault
              | Pte_next b \<Rightarrow> walk_loop S i vm addr ty virt hlvx s_mode sum_on mxr b w
              | Pte_leaf \<Rightarrow> if pte AND pte_ad ty \<noteq> pte_ad ty \<or> napot_bad i pte then fault
                  else bindE (s2xlate S addr (page_base n pte addr OR (addr AND page_mask)) ty ty virt hlvx)
                         (\<lambda>pa. return (pa AND NOT page_mask)) w)))"
proof -
  have pt: "pt_in_memory S (vm_ptesize vm) w" and h: "\<not> hade_enabled virt (w_hart w)"
    using assms by (cases virt; auto simp: still_def)+
  obtain r w' where r: "s2xlate S addr (base + (shr addr (12 + i * vm_idxbits vm) AND (shl 1 (vm_idxbits vm) - 1)) *
      of_nat (vm_ptesize vm)) LOAD ty virt False w = (r, w')" by fastforce
  show ?thesis
  proof (cases r)
    case (Inl e)
    then show ?thesis unfolding walk_loop.simps Let_def bindE_def r by simp
  next
    case (Inr a)
    then have "w' = w" using s2xlate_still [OF assms(1)] r by blast
    then show ?thesis unfolding walk_loop.simps Let_def bindE_def r Inr
      by (auto simp: pte_load_read [OF pt] hart_of_def h update_ad_def throw_def return_def split: option.split pte_step.split)
  qed
qed

lemma walk_loop_still:
  assumes s: "still S w" "vm_ptesize vm = 4 \<or> vm_ptesize vm = 8"
    and "walk_loop S n vm a ty virt hlvx s_mode sum_on mxr base w = (Inr x, w')"
  shows "w' = w"
  using assms(3)
proof (induction n arbitrary: base)
  case (Suc i)
  show ?case using Suc.prems Suc.IH unfolding walk_step [OF s] Let_def bindE_def return_def
    by (auto dest: s2xlate_still [OF s(1)] split: prod.splits sum.splits option.splits pte_step.splits if_splits)
qed (simp add: throw_def)

lemma same_page_frame: "vpn_of x = vpn_of y \<Longrightarrow> x AND NOT page_mask = y AND NOT page_mask"
  by (simp only: frame_vpn)

lemma walk_loop_page:
  assumes s: "still S w" "vm_ptesize vm = 4 \<or> vm_ptesize vm = 8" and v: "vpn_of a = vpn_of a'"
    and "walk_loop S n vm a ty virt hlvx s_mode sum_on mxr base w = (Inr x, w)"
  shows "walk_loop S n vm a' ty virt hlvx s_mode sum_on mxr base w = (Inr x, w)"
  using assms(4)
proof (induction n arbitrary: base)
  case (Suc i)
  let ?n = "i * vm_idxbits vm" and ?h = "w_hart w"
  let ?g = "base + (shr a (12 + ?n) AND (shl 1 (vm_idxbits vm) - 1)) * of_nat (vm_ptesize vm)"
  note step = walk_step [OF s, unfolded Let_def]
  obtain pa where pa: "s2xlate S a ?g LOAD ty virt False w = (Inr pa, w)"
    using Suc.prems unfolding step by (auto dest: s2xlate_still [OF s(1)] split: prod.splits sum.splits)
  have pa': "s2xlate S a' ?g LOAD ty virt False w = (Inr pa, w)"
    using s2xlate_page [OF s(1) refl pa] by metis
  obtain pte where pte: "pt_read (vm_ptesize vm) w pa = Some pte"
    using Suc.prems unfolding step pa by (auto split: option.splits)
  note e = Suc.prems [unfolded step pa prod.case sum.case pte option.case]
  note st = step [where i = i and addr = a' and ty = ty and virt = virt and hlvx = hlvx and s_mode = s_mode and sum_on = sum_on
      and mxr = mxr and base = base, unfolded vpn_bits [OF v, symmetric] pa' prod.case sum.case pte option.case]
  show ?case
  proof (cases "stage1_pte (extension_enabled EXT_SVNAPOT ?h) (pbmt_enabled virt ?h) s_mode sum_on mxr ty hlvx ?n pte")
    case (Pte_next b)
    then show ?thesis using e Suc.IH [of b] unfolding st by simp
  next
    case Pte_leaf
    note e = e [unfolded Pte_leaf pte_step.case]
    have ok: "\<not> (pte AND pte_ad ty \<noteq> pte_ad ty \<or> napot_bad i pte)" using e by (auto split: if_splits)
    obtain q where q: "s2xlate S a (page_base ?n pte a OR (a AND page_mask)) ty ty virt hlvx w = (Inr q, w)" "x = q AND NOT page_mask"
      using e ok by (auto simp: bindE_def return_def dest: s2xlate_still [OF s(1)] split: prod.splits sum.splits)
    obtain q' where q': "s2xlate S a' (page_base ?n pte a' OR (a' AND page_mask)) ty ty virt hlvx w = (Inr q', w)" "vpn_of q = vpn_of q'"
      using s2xlate_page [OF s(1) same_leaf_page [OF v] q(1)] by blast
    have "x = q' AND NOT page_mask" unfolding q(2) by (rule same_page_frame [OF q'(2)])
    then show ?thesis unfolding st Pte_leaf pte_step.case bindE_def return_def if_not_P [OF ok] q'(1) prod.case sum.case by simp
  qed (use e in simp)
qed (simp add: throw_def)

lemma walk_loop_types:
  assumes s: "still S w" "vm_ptesize vm = 4 \<or> vm_ptesize vm = 8" and v: "vpn_of a = vpn_of a'"
    and "walk_loop S n vm a ty virt hlvx s_mode sum_on mxr base w = (Inr x, w)"
    and "walk_loop S n vm a' ty' virt hlvx' s_mode sum_on mxr base w = (Inr y, w)"
  shows "x = y"
  using assms(4,5)
proof (induction n arbitrary: base)
  case (Suc i)
  let ?n = "i * vm_idxbits vm" and ?h = "w_hart w"
  let ?g = "base + (shr a (12 + ?n) AND (shl 1 (vm_idxbits vm) - 1)) * of_nat (vm_ptesize vm)"
  let ?st = "\<lambda>ty hlvx. stage1_pte (extension_enabled EXT_SVNAPOT ?h) (pbmt_enabled virt ?h) s_mode sum_on mxr ty hlvx ?n"
  note step = walk_step [OF s, unfolded Let_def]
  obtain pa where pa: "s2xlate S a ?g LOAD ty virt False w = (Inr pa, w)"
    using Suc.prems(1) unfolding step by (auto dest: s2xlate_still [OF s(1)] split: prod.splits sum.splits)
  have pa': "s2xlate S a' ?g LOAD ty' virt False w = (Inr pa, w)"
    using s2xlate_page [OF s(1) refl pa] by metis
  obtain pte where pte: "pt_read (vm_ptesize vm) w pa = Some pte"
    using Suc.prems(1) unfolding step pa by (auto split: option.splits)
  note e = Suc.prems [unfolded step vpn_bits [OF v, symmetric] pa pa' prod.case sum.case pte option.case]
  have "?st ty hlvx pte \<noteq> Pte_fault" "?st ty' hlvx' pte \<noteq> Pte_fault"
    using e by (auto split: pte_step.splits)
  then have k: "?st ty' hlvx' pte = ?st ty hlvx pte" by (metis stage1_kind)
  show ?case
  proof (cases "?st ty hlvx pte")
    case (Pte_next b)
    then show ?thesis using e Suc.IH [of b] unfolding k by simp
  next
    case Pte_leaf
    note e = e [unfolded k Pte_leaf pte_step.case]
    obtain q where q: "s2xlate S a (page_base ?n pte a OR (a AND page_mask)) ty ty virt hlvx w = (Inr q, w)" "x = q AND NOT page_mask"
      using e(1) by (auto simp: bindE_def return_def dest: s2xlate_still [OF s(1)] split: prod.splits sum.splits if_splits)
    obtain q' where q': "s2xlate S a' (page_base ?n pte a' OR (a' AND page_mask)) ty' ty' virt hlvx' w = (Inr q', w)" "y = q' AND NOT page_mask"
      using e(2) by (auto simp: bindE_def return_def dest: s2xlate_still [OF s(1)] split: prod.splits sum.splits if_splits)
    show ?thesis using s2xlate_types [OF s(1) same_leaf_page [OF v] q(1) q'(1)] same_page_frame q(2) q'(2) by metis
  qed (use e in simp)
qed (simp add: throw_def)


lemma walk_cases:
  assumes s: "still S w" and "walk S a ty mode virt hlvx w = (Inr p, w')"
  obtains (bare) q m where "\<And>b ty' hlvx'. walk S b ty' mode virt hlvx' w =
        bindE (s2xlate S b (b AND m) ty' ty' virt hlvx') (\<lambda>pa. return (pa AND NOT page_mask)) w"
      "s2xlate S a (a AND m) ty ty virt hlvx w = (Inr q, w)" "p = q AND NOT page_mask" "w' = w"
  | (paged) n vm s_mode sum_on mxr where "vm_ptesize vm = 4 \<or> vm_ptesize vm = 8"
      "walk_loop S n vm a ty virt hlvx s_mode sum_on mxr (vm_ptbase vm) w = (Inr p, w)" "w' = w"
      "\<And>b ty' hlvx'. vpn_of b = vpn_of a \<Longrightarrow>
         walk S b ty' mode virt hlvx' w = walk_loop S n vm b ty' virt hlvx' s_mode sum_on mxr (vm_ptbase vm) w"
proof -
  obtain vm where vm: "decode_vm_info (h_xlen (w_hart w)) False mode (satp_readvirt virt (w_hart w)) = Some vm"
    using assms(2) by (auto simp: walk_def Let_def split: option.splits)
  show thesis
  proof (cases "vm_levels vm = 0")
    case True
    have b: "walk S b ty' mode virt hlvx' w = bindE (s2xlate S b (b AND (shl 2 (h_xlen (w_hart w) - 1) - 1)) ty' ty' virt hlvx')
        (\<lambda>pa. return (pa AND NOT page_mask)) w" for b ty' hlvx'
      using vm True by (simp add: walk_def Let_def)
    then show thesis using bare [OF b] assms(2) s2xlate_still [OF s]
      by (auto simp: bindE_def return_def split: prod.splits sum.splits)
  next
    case False
    note sz = vm_sizes [OF vm False]
    obtain k where k: "PGSHIFT + vm_levels vm * vm_idxbits vm - 1 = 12 + k"
    proof -
      have "9 \<le> vm_idxbits vm" using vm False by (auto simp: decode_vm_info_def vm_off_def Let_def split: if_splits)
      then have "9 \<le> vm_levels vm * vm_idxbits vm" using False by (cases "vm_levels vm") auto
      then show thesis using that [of "vm_levels vm * vm_idxbits vm - 1"] by simp
    qed
    have c: "va_canonical x vm b = va_canonical x vm a" if "vpn_of b = vpn_of a" for x b
      unfolding va_canonical_def Let_def k vpn_bits [OF that] ..
    have l: "walk S b ty' mode virt hlvx' w = walk_loop S (if va_canonical (h_xlen (w_hart w)) vm a then vm_levels vm else 0) vm b ty' virt hlvx'
        (mode = PRV_S) (sstatus_readvirt virt (w_hart w) AND MSTATUS_SUM \<noteq> 0)
        ((sstatus_readvirt False (w_hart w) OR sstatus_readvirt virt (w_hart w)) AND MSTATUS_MXR \<noteq> 0) (vm_ptbase vm) w"
      if "vpn_of b = vpn_of a" for b ty' hlvx'
      using vm False by (simp add: walk_def Let_def c [OF that])
    then show thesis using paged [OF sz _ _ l] assms(2) l [OF refl] walk_loop_still [OF s sz] by metis
  qed
qed

lemma vpn_and: "vpn_of a = vpn_of b \<Longrightarrow> vpn_of (a AND m) = vpn_of (b AND m)"
  by (simp add: vpn_of_def)

lemma walk_loop_frame:
  assumes s: "still S w" "vm_ptesize vm = 4 \<or> vm_ptesize vm = 8"
    and "walk_loop S n vm a ty virt hlvx s_mode sum_on mxr base w = (Inr x, w')"
  shows "\<exists>q. x = q AND NOT page_mask"
  using assms(3)
proof (induction n arbitrary: base)
  case (Suc i)
  show ?case using Suc.prems Suc.IH unfolding walk_step [OF s] Let_def bindE_def return_def
    by (auto split: prod.splits sum.splits option.splits pte_step.splits if_splits)
qed (simp add: throw_def)

lemma walk_result:
  assumes s: "still S w" and "walk S a ty mode virt hlvx w = (Inr p, w')"
  shows "w' = w" "\<exists>q. p = q AND NOT page_mask"
    "vpn_of a = vpn_of b \<Longrightarrow> walk S b ty mode virt hlvx w = (Inr p, w)"
    "vpn_of a = vpn_of b \<Longrightarrow> walk S b ty' mode virt hlvx' w = (Inr p', w') \<Longrightarrow> p' = p"
proof -
  show "w' = w" using assms by (cases rule: walk_cases) auto
  show "\<exists>q. p = q AND NOT page_mask"
    using assms by (cases rule: walk_cases) (use walk_loop_frame [OF s] in blast)+
  show "walk S b ty mode virt hlvx w = (Inr p, w)" if v: "vpn_of a = vpn_of b"
    using assms
  proof (cases rule: walk_cases)
    case (bare q m)
    obtain q' where "s2xlate S b (b AND m) ty ty virt hlvx w = (Inr q', w)" "vpn_of q = vpn_of q'"
      using s2xlate_page [OF s vpn_and [OF v] bare(2)] by blast
    then show ?thesis using bare(1,3) same_page_frame [of q q'] by (simp add: bindE_def return_def)
  next
    case (paged n vm s_mode sum_on mxr)
    then show ?thesis using walk_loop_page [OF s paged(1) v] v by simp
  qed
  show "p' = p" if v: "vpn_of a = vpn_of b" and w: "walk S b ty' mode virt hlvx' w = (Inr p', w')"
    using assms
  proof (cases rule: walk_cases)
    case (bare q m)
    obtain q' where "s2xlate S b (b AND m) ty' ty' virt hlvx' w = (Inr q', w)" "p' = q' AND NOT page_mask"
      using w bare(1) s2xlate_still [OF s] by (auto simp: bindE_def return_def split: prod.splits sum.splits)
    then show ?thesis using s2xlate_types [OF s vpn_and [OF v] bare(2)] bare(3) same_page_frame by metis
  next
    case (paged n vm s_mode sum_on mxr)
    then show ?thesis using walk_loop_types [OF s paged(1) v paged(2)] w v by metis
  qed
qed

subsection \<open>Computations that do not see the caches\<close>


definition mmu_free :: "('b, 'a) mcomp \<Rightarrow> bool" where
  "mmu_free f \<longleftrightarrow> (\<forall>g w. f (upd_mmu g w) = apsnd (upd_mmu g) (f w))"

lemma upd_mmu_fields [simp]:
  "w_mem (upd_mmu g w) = w_mem w" "w_bus (upd_mmu g w) = w_bus w"
  "w_hart (upd_mmu g w) = (w_hart w)\<lparr>mmu := g (mmu (w_hart w))\<rparr>" "mmu_of (upd_mmu g w) = g (mmu_of w)"
  by (simp_all add: upd_mmu_def mmu_of_def)

lemma mmu_free_bind [intro]: "mmu_free f \<Longrightarrow> (\<And>x. mmu_free (k x)) \<Longrightarrow> mmu_free (bindE f k)"
  by (auto simp: mmu_free_def bindE_def apsnd_def map_prod_def split: prod.splits sum.splits)

lemma mmu_free_return [intro, simp]: "mmu_free (return x)" "mmu_free (throw e)"
  by (simp_all add: mmu_free_def return_def throw_def)

lemma mmu_free_hart_of [intro]: "(\<And>h x. f (h\<lparr>mmu := x\<rparr>) = f h) \<Longrightarrow> mmu_free (hart_of f)"
  by (simp add: mmu_free_def hart_of_def)

lemma mmu_free_const [intro]: "mmu_free (\<lambda>w. (r, w))"
  by (simp add: mmu_free_def)

lemma mmu_free_if [intro]:
  "(\<And>g w. c (upd_mmu g w) = c w) \<Longrightarrow> mmu_free f \<Longrightarrow> mmu_free f' \<Longrightarrow> mmu_free (\<lambda>w. if c w then f w else f' w)"
  by (simp add: mmu_free_def)

lemma mmu_free_on [intro]: "(\<And>g w. F (upd_mmu g w) = F w) \<Longrightarrow> (\<And>w. mmu_free (F w)) \<Longrightarrow> mmu_free (\<lambda>w. F w w)"
  by (simp add: mmu_free_def)

lemma event_units [simp]:
  "apply_event ev (h\<lparr>mmu := x\<rparr>) = (apply_event ev h)\<lparr>mmu := x\<rparr>" "mmu (apply_event ev h) = mmu h" "tm (apply_event ev h) = tm h"
  by (cases ev; simp add: backdoor_write_with_mask_def time_sync_def write_csrv_def extension_enabled_def
      misa_extension_enabled_def Let_def)+

lemma irq_mmu: "raise_irqs is (h\<lparr>mmu := x\<rparr>) = (raise_irqs is h)\<lparr>mmu := x\<rparr>"
  unfolding raise_irqs_def by (induction "is" arbitrary: h) simp_all

lemma irq_keeps_mmu: "mmu (raise_irqs is h) = mmu h"
  unfolding raise_irqs_def by (induction "is" arbitrary: h) simp_all

lemma irqs_keep_tm: "tm (raise_irqs is h) = tm h"
  unfolding raise_irqs_def by (induction "is" arbitrary: h) simp_all

lemma mmu_free_platform [intro]: "mmu_free (on_platform f)"
  by (auto simp: mmu_free_def on_platform_def irq_mmu irq_keeps_mmu upd_mmu_def mip_read_def split: prod.splits)

named_theorems mmu_reads "readers of the hart that do not look at the memory management unit"

lemma mmu_readers [mmu_reads]:
  fixes h :: hart
  shows "extension_enabled e (h\<lparr>mmu := x\<rparr>) = extension_enabled e h"
    "sstatus_readvirt v (h\<lparr>mmu := x\<rparr>) = sstatus_readvirt v h" "satp_readvirt v (h\<lparr>mmu := x\<rparr>) = satp_readvirt v h"
    "henvcfg_read (h\<lparr>mmu := x\<rparr>) = henvcfg_read h" "mstatus_read (h\<lparr>mmu := x\<rparr>) = mstatus_read h"
    "mmio_ok a (h\<lparr>mmu := x\<rparr>) = mmio_ok a h" "nmie (h\<lparr>mmu := x\<rparr>) = nmie h" "in_mprv (h\<lparr>mmu := x\<rparr>) = in_mprv h"
    "access_mode ty fl (h\<lparr>mmu := x\<rparr>) = access_mode ty fl h" "pbmt_enabled v (h\<lparr>mmu := x\<rparr>) = pbmt_enabled v h"
    "hade_enabled v (h\<lparr>mmu := x\<rparr>) = hade_enabled v h"
  by (simp_all add: extension_enabled_def misa_extension_enabled_def sstatus_readvirt_def vsstatus_read_def sstatus_proxy_read_def
      sstatus_read_mask_def satp_readvirt_def henvcfg_read_def mstatus_read_def mmio_ok_def nmie_def in_mprv_def access_mode_def
      pbmt_enabled_def hade_enabled_def)

lemma mmio_load_free [intro]: "mmu_free (mmio_load S a n)"
proof -
  have b: "mmu_free (mmio_load_bytes S a n)" for a
  proof (induction n arbitrary: a)
    case (Suc n)
    show ?case unfolding mmio_load_bytes.simps
      by (rule mmu_free_if) (auto simp: mmu_reads intro!: mmu_free_bind Suc.IH split: option.splits)
  qed auto
  show ?thesis unfolding mmio_load_def [abs_def]
    by (intro mmu_free_if mmu_free_const mmu_free_platform) (simp_all add: mmu_reads b)
qed

lemma load_bytes_free [intro]: "mmu_free (load_bytes S a n fault)"
  unfolding load_bytes_def
  by (intro mmu_free_if) (auto simp: mmu_free_def [of "\<lambda>w. (Inr (read_bytes a n (w_mem w)), w)"] intro!: mmu_free_bind split: option.splits)

lemma pte_load_free [intro]: "mmu_free (pte_load S a addr virt ty n)"
  unfolding pte_load_def throw_access_exception_def by (intro mmu_free_if) auto


lemma mmio_store_free [intro]: "mmu_free (mmio_store S a bs)"
proof -
  have b: "mmu_free (mmio_store_bytes S a bs)" for a
  proof (induction bs arbitrary: a)
    case (Cons b bs)
    show ?case unfolding mmio_store_bytes.simps
      by (rule mmu_free_if) (auto simp: mmu_reads intro!: mmu_free_bind Cons.IH)
  qed auto
  show ?thesis unfolding mmio_store_def [abs_def]
    by (intro mmu_free_if mmu_free_const mmu_free_platform) (simp_all add: mmu_reads b)
qed

lemma store_bytes_free [intro]: "mmu_free (store_bytes S a bs fault)"
  unfolding store_bytes_def
  by (intro mmu_free_if) (auto simp: mmu_free_def [of "\<lambda>w. (Inr (), w\<lparr>w_mem := write_bytes a bs (w_mem w)\<rparr>)"] upd_mmu_def intro!: mmu_free_bind)

lemma pte_store_free [intro]: "mmu_free (pte_store S a v addr virt ty n)"
  unfolding pte_store_def throw_access_exception_def by (intro mmu_free_if) auto

lemma update_ad_free [intro]: "mmu_free (update_ad S hade a pte addr virt ty n fault)"
  unfolding update_ad_def by auto

lemma mmu_free_app: "mmu_free f \<Longrightarrow> f (upd_mmu g w) = apsnd (upd_mmu g) (f w)"
  by (simp add: mmu_free_def)

text \<open>A computation that reads the hart and then goes on without looking at the cache.\<close>

lemma mmu_free_hart:
  assumes "\<And>h x. mmu_free (k h)" "\<And>h x. k (h\<lparr>mmu := x\<rparr>) = k h"
  shows "mmu_free (bindE (hart_of id) k)"
  using assms by (simp add: mmu_free_def bindE_def hart_of_def)

lemma s2_loop_free [intro]: "mmu_free (s2_loop S n vm gva gpa ty tt hlvx mxr base)"
proof (induction n arbitrary: base)
  case (Suc i)
  show ?case unfolding s2_loop.simps Let_def
    by (intro mmu_free_bind pte_load_free mmu_free_hart)
       (auto simp: mmu_reads split: pte_step.split intro!: mmu_free_bind Suc.IH)
qed simp

lemma s2xlate_free [intro]: "mmu_free (s2xlate S gva gpa ty tt virt hlvx)"
  unfolding mmu_free_def s2xlate_def
  by (auto simp: mmu_reads Let_def throw_def mmu_free_app [OF s2_loop_free] split: option.split)

lemma walk_loop_free [intro]: "mmu_free (walk_loop S n vm a ty virt hlvx s_mode sum_on mxr base)"
proof (induction n arbitrary: base)
  case (Suc i)
  show ?case unfolding walk_loop.simps Let_def
    by (intro mmu_free_bind pte_load_free s2xlate_free mmu_free_hart)
       (auto simp: mmu_reads split: pte_step.split intro!: mmu_free_bind Suc.IH)
qed simp

lemma walk_free [intro]: "mmu_free (walk S a ty mode virt hlvx)"
proof -
  have b: "mmu_free (bindE (s2xlate S a g ty ty virt hlvx) (\<lambda>pa. return (f pa)))" for g f by auto
  show ?thesis unfolding mmu_free_def walk_def
    by (auto simp: mmu_reads Let_def mmu_free_app [OF walk_loop_free] mmu_free_app [OF b] split: option.split)
qed

lemma translate_free [intro]: "mmu_free (translate S a len ty fl)"
proof -
  have b: "mmu_free (bindE (walk S a ty mode virt hlvx) (\<lambda>page. bindE (hart_of pmp) (\<lambda>p.
       let paddr = page OR (a AND page_mask) in
       if \<not> pmp_ok paddr len ty mode p then throw_access_exception virt a ty else return paddr)))" for mode virt hlvx
    by (intro mmu_free_bind walk_free mmu_free_hart_of) (auto simp: throw_access_exception_def Let_def)
  show ?thesis unfolding mmu_free_def translate_def
    by (auto simp: mmu_reads mmu_free_app [OF b] split: prod.split)
qed


end
