(* ===== verification/Mmu_Tlb.thy ===== *)
theory Mmu_Tlb
  imports Mmu_Frame
begin

text \<open>
  The translation cache. Every entry that may hit agrees with the page tables and the physical
  memory protection (\<open>tlb_sound\<close>), refills keep that so, and loads and stores through the cache
  have the result and the effect of the uncached ones. What the code promises only under the
  conditions stated (page tables in main memory that are not written in between) is shown to fail
  without them in \<open>stale_load_tag\<close>.
\<close>


subsection \<open>Effect-free translations\<close>

lemma s2xlate_snd: "still S w \<Longrightarrow> snd (s2xlate S gva gpa ty tt virt hlvx w) = w"
proof (cases "\<exists>vm. virt \<and> decode_vm_info (h_xlen (w_hart w)) True 0 (csrv (w_hart w) CSR_HGATP) = Some vm \<and> vm_levels vm \<noteq> 0")
  case True
  assume s: "still S w"
  obtain vm where vm: "decode_vm_info (h_xlen (w_hart w)) True 0 (csrv (w_hart w) CSR_HGATP) = Some vm" "vm_levels vm \<noteq> 0" virt
    using True by blast
  note z = vm_sizes [OF vm(1,2)]
  show ?thesis using vm s2_still [OF s z] by (simp add: s2xlate_def Let_def throw_def)
next
  case False
  then show ?thesis by (cases "decode_vm_info (h_xlen (w_hart w)) True 0 (csrv (w_hart w) CSR_HGATP)") (auto simp: s2xlate_def)
qed

lemma walk_loop_snd:
  assumes s: "still S w" "vm_ptesize vm = 4 \<or> vm_ptesize vm = 8"
  shows "snd (walk_loop S n vm a ty virt hlvx s_mode sum_on mxr base w) = w"
proof (induction n arbitrary: base)
  case (Suc i)
  have x: "\<exists>r. s2xlate S a g t t' virt hl w = (r, w)" for g t t' hl
    using s2xlate_snd [OF s(1), of a g t t' virt hl] by (metis prod.collapse)
  obtain r where r: "s2xlate S a (base + (shr a (12 + i * vm_idxbits vm) AND (shl 1 (vm_idxbits vm) - 1)) * of_nat (vm_ptesize vm))
      LOAD ty virt False w = (r, w)" using x by blast
  show ?case
  proof (cases r)
    case (Inl e)
    then show ?thesis unfolding walk_step [OF s] Let_def r by simp
  next
    case (Inr pa)
    have l: "snd (bindE (s2xlate S a g ty ty virt hlvx) (\<lambda>pa. return (pa AND NOT page_mask)) w) = w" for g
      using x [of g ty ty hlvx] by (auto simp: bindE_def return_def split: sum.split)
    show ?thesis unfolding walk_step [OF s] Let_def r Inr prod.case sum.case
      by (split option.split, intro conjI impI allI, simp, split pte_step.split, simp only: Suc.IH snd_conv l split: if_split) simp
  qed
qed (simp add: throw_def)

lemma walk_snd: "still S w \<Longrightarrow> snd (walk S a ty mode virt hlvx w) = w"
proof (cases "decode_vm_info (h_xlen (w_hart w)) False mode (satp_readvirt virt (w_hart w))")
  case (Some vm)
  assume s: "still S w"
  show ?thesis
  proof (cases "vm_levels vm = 0")
    case True
    obtain r where "s2xlate S a (a AND (shl 2 (h_xlen (w_hart w) - 1) - 1)) ty ty virt hlvx w = (r, w)"
      using s2xlate_snd [OF s] by (metis prod.collapse)
    then show ?thesis using Some True unfolding walk_def Let_def bindE_def return_def by (simp split: sum.split)
  next
    case False
    then show ?thesis using Some walk_loop_snd [OF s vm_sizes [OF Some False]] by (simp add: walk_def Let_def)
  qed
qed (simp add: walk_def Let_def)

lemma translate_cases:
  assumes s: "still S w"
  obtains (fault) e where "translate S a len ty 0 w = (Inl e, w)"
  | (ok) mode virt p where "access_mode ty 0 (w_hart w) = (mode, virt)" "walk S a ty mode virt False w = (Inr p, w)"
      "pmp_ok (p OR (a AND page_mask)) len ty mode (pmp (w_hart w))" "translate S a len ty 0 w = (Inr (p OR (a AND page_mask)), w)"
proof -
  obtain mode virt where m: "access_mode ty 0 (w_hart w) = (mode, virt)" by fastforce
  obtain r where r: "walk S a ty mode virt False w = (r, w)" using walk_snd [OF s] by (metis prod.collapse)
  have t: "translate S a len ty 0 w = (case r of Inl e \<Rightarrow> (Inl e, w)
     | Inr p \<Rightarrow> if pmp_ok (p OR (a AND page_mask)) len ty mode (pmp (w_hart w)) then (Inr (p OR (a AND page_mask)), w)
                else (Inl (Trap (access_fault ty virt a)), w))"
    using r by (cases r) (auto simp: translate_def m bindE_def hart_of_def Let_def throw_access_exception_def throw_def return_def)
  show thesis
    using t m r fault ok by (cases r) (auto split: if_splits)
qed

lemma translate_ok:
  assumes "still S w" "translate S a len ty 0 w = (Inr pa, w')" "access_mode ty 0 (w_hart w) = (mode, virt)"
  obtains p where "walk S a ty mode virt False w = (Inr p, w)" "pa = p OR (a AND page_mask)" "w' = w"
    "pmp_ok pa len ty mode (pmp (w_hart w))"
  using assms(1) by (cases rule: translate_cases [where a = a and len = len and ty = ty]) (use assms(2,3) that in auto)

lemma translateI:
  assumes "still S w" "access_mode ty 0 (w_hart w) = (mode, virt)" "walk S a ty mode virt False w = (Inr p, w)"
    "pmp_ok (p OR (a AND page_mask)) len ty mode (pmp (w_hart w))"
  shows "translate S a len ty 0 w = (Inr (p OR (a AND page_mask)), w)"
  using assms by (auto simp: translate_def bindE_def hart_of_def Let_def return_def)

subsection \<open>Frames and offsets\<close>

lemma word_split: "(a :: reg_t) = (a AND NOT page_mask) + (a AND page_mask)"
proof -
  have "(a AND NOT page_mask) + (a AND page_mask) = (a AND NOT page_mask) OR (a AND page_mask)"
    unfolding offset_mask by (rule disjunctive_add_eq_or) (rule bit_word_eqI, auto simp: bit_and_iff bit_not_iff bit_mask_iff)
  also have "\<dots> = a" by (rule bit_word_eqI) (auto simp only: bit_and_iff bit_or_iff bit_not_iff possible_bit_word)
  finally show ?thesis ..
qed

lemma frame_add: "(q AND NOT page_mask) OR (a AND page_mask) = (q AND NOT page_mask) + (a AND page_mask)" for q :: reg_t
  unfolding offset_mask
  by (rule disjunctive_add_eq_or [symmetric]) (rule bit_word_eqI, auto simp: bit_and_iff bit_not_iff bit_mask_iff)

lemma frame_offset: "((q AND NOT page_mask) OR (a AND page_mask)) - a = (q AND NOT page_mask) - (a AND NOT page_mask)" for q :: reg_t
  by (subst (2) word_split) (simp only: frame_add add_diff_cancel_right)

lemma frame_frame: "((q AND NOT page_mask) OR (a AND page_mask)) AND NOT page_mask = q AND NOT (page_mask :: reg_t)"
  by (rule bit_word_eqI) (auto simp only: bit_and_iff bit_or_iff bit_not_iff)

lemma frame_shr: "shr ((q AND NOT page_mask) OR (a AND page_mask)) 12 = shr (q AND NOT (page_mask :: reg_t)) 12"
  unfolding offset_mask
  by (rule bit_word_eqI) (auto simp: bit_drop_bit_eq bit_and_iff bit_or_iff bit_not_iff bit_mask_iff)

lemma frame_low: "unat ((q AND NOT page_mask) OR (a AND page_mask)) mod 4096 = unat (a :: reg_t) mod 4096"
proof -
  have "take_bit 12 ((q AND NOT page_mask) OR (a AND page_mask)) = take_bit 12 a"
    unfolding offset_mask
    by (rule bit_word_eqI) (auto simp: bit_take_bit_iff bit_and_iff bit_or_iff bit_not_iff bit_mask_iff)
  then have "unat (take_bit 12 ((q AND NOT page_mask) OR (a AND page_mask))) = unat (take_bit 12 a)" by (rule arg_cong)
  then show ?thesis unfolding unsigned_take_bit_eq by (simp only: take_bit_eq_mod) simp
qed

lemma homogeneous_frame:
  assumes h: "pmp_homogeneous (q AND NOT page_mask) PGSIZE p = Some True"
    and "0 < len" "unat a mod 4096 + len \<le> 4096" "0 < len'" "unat a' mod 4096 + len' \<le> 4096"
  shows "pmp_ok ((q AND NOT page_mask) OR (a AND page_mask)) len ty mode p =
    pmp_ok ((q AND NOT page_mask) OR (a' AND page_mask)) len' ty mode p"
proof -
  have "pmp_homogeneous (q AND NOT page_mask) (2 ^ 12) p = Some True" using h by simp
  note u = pmp_ok_page [OF this]
  show ?thesis
    using u [of "(q AND NOT page_mask) OR (a AND page_mask)" len ty mode] u [of "(q AND NOT page_mask) OR (a' AND page_mask)" len' ty mode]
      frame_shr [of q a] frame_shr [of q a'] frame_low [of q a] frame_low [of q a'] assms by (simp only:) simp
qed

subsection \<open>Soundness of the entries\<close>

definition in_page :: "reg_t \<Rightarrow> nat \<Rightarrow> bool" where
  "in_page addr len \<longleftrightarrow> 0 < len \<and> unat addr mod 4096 + len \<le> 4096"

definition tlb_sound :: "'b simif \<Rightarrow> mmu_state \<Rightarrow> 'b world \<Rightarrow> bool" where
  "tlb_sound S m w \<longleftrightarrow> (\<forall>ty addr len. in_page addr len \<longrightarrow> tlb_match ty addr m \<longrightarrow>
     (\<exists>pa. translate S addr len ty 0 w = (Inr pa, w) \<and> sim_addr_to_mem S pa \<and>
        tlb_data m (tlb_index (vpn_of addr)) = \<lparr>host_offset = Host_mem (pa - addr), target_offset = pa - addr\<rparr>))"

definition tlb_ok :: "'b simif \<Rightarrow> 'b world \<Rightarrow> bool" where
  "tlb_ok S w \<longleftrightarrow> tlb_sound S (mmu_of w) w"

lemma tlb_sound_upd [simp]: "still S w \<Longrightarrow> tlb_sound S m (upd_mmu g w) = tlb_sound S m w"
proof -
  assume s: "still S w"
  have "(translate S a len ty 0 (upd_mmu g w) = (Inr pa, upd_mmu g w)) = (translate S a len ty 0 w = (Inr pa, w))" for a len ty pa
    by (cases rule: translate_cases [OF s, where a = a and len = len and ty = ty]) (auto simp: mmu_free_app [OF translate_free])
  then show ?thesis by (simp add: tlb_sound_def)
qed

lemma vpn_top: "vpn_of a AND NOT TLB_CHECK_TRIGGERS = vpn_of a" "(vpn_of a OR TLB_CHECK_TRIGGERS) AND NOT TLB_CHECK_TRIGGERS = vpn_of a"
  "(- 1) AND NOT TLB_CHECK_TRIGGERS \<noteq> vpn_of a"
proof -
  have c: "TLB_CHECK_TRIGGERS = push_bit 63 1" by simp
  have b: "bit (TLB_CHECK_TRIGGERS :: reg_t) n = (n = 63)" for n
    unfolding c bit_push_bit_iff by (auto simp: bit_1_iff)
  have v: "\<not> bit (vpn_of a) n" if "52 \<le> n" for n
    using that bit_imp_le_length [of a "12 + n"] by (auto simp: vpn_of_def bit_drop_bit_eq)
  show "vpn_of a AND NOT TLB_CHECK_TRIGGERS = vpn_of a"
    by (rule bit_word_eqI) (use v in \<open>auto simp only: bit_and_iff bit_not_iff b possible_bit_word\<close>)
  show "(vpn_of a OR TLB_CHECK_TRIGGERS) AND NOT TLB_CHECK_TRIGGERS = vpn_of a"
    by (rule bit_word_eqI) (use v in \<open>auto simp only: bit_and_iff bit_or_iff bit_not_iff b possible_bit_word\<close>)
  show "(- 1) AND NOT TLB_CHECK_TRIGGERS \<noteq> vpn_of a"
  proof
    assume "(- 1) AND NOT TLB_CHECK_TRIGGERS = vpn_of a"
    then have "bit ((- 1) AND NOT TLB_CHECK_TRIGGERS :: reg_t) 60 = bit (vpn_of a) 60" by (simp only:)
    then show False using v [of 60] by (simp only: bit_and_iff bit_not_iff b) simp
  qed
qed

lemma homogeneous_some: "pmp_homogeneous (a AND NOT (PGSIZE - 1)) PGSIZE p \<noteq> None"
proof -
  have z: "((a AND NOT (PGSIZE - 1)) OR PGSIZE) AND (PGSIZE - 1) = (0 :: reg_t)"
  proof -
    have m: "PGSIZE - 1 = (mask 12 :: reg_t)" by (simp add: mask_eq_exp_minus_1)
    have c: "bit (PGSIZE :: reg_t) n \<longleftrightarrow> n = 12" for n
    proof -
      have "PGSIZE = (push_bit 12 1 :: reg_t)" by simp
      then show ?thesis by (simp only: bit_push_bit_iff) (auto simp: bit_1_iff)
    qed
    show ?thesis unfolding m by (rule bit_word_eqI) (simp only: bit_and_iff bit_or_iff bit_not_iff bit_mask_iff c, auto)
  qed
  have "pmp_homogeneous_loop is (a AND NOT (PGSIZE - 1)) PGSIZE p \<noteq> None" for "is"
    by (induction "is") (auto simp only: pmp_homogeneous_loop.simps subset_match_def z Let_def if_False option.case
        simp_thms not_None_eq split: if_splits bool.split)
  then show ?thesis by (simp only: pmp_homogeneous_def z simp_thms if_False)
qed

lemma translate_in_page:
  assumes "still S w" "\<not> in_mprv (w_hart w)"
    "translate S a len ty 0 w = (Inr pa, w)" "translate S b len' ty' 0 w = (Inr pb, w)" "vpn_of a = vpn_of b"
  shows "pb - b = pa - a"
proof -
  obtain mode virt where m: "access_mode ty 0 (w_hart w) = (mode, virt)" by fastforce
  then have m': "access_mode ty' 0 (w_hart w) = (mode, virt)" using assms(2) by (simp add: access_mode_def)
  obtain p where p: "walk S a ty mode virt False w = (Inr p, w)" "pa = p OR (a AND page_mask)"
    using translate_ok [OF assms(1,3) m] by metis
  obtain p' where p': "walk S b ty' mode virt False w = (Inr p', w)" "pb = p' OR (b AND page_mask)"
    using translate_ok [OF assms(1,4) m'] by metis
  obtain q where q: "p = q AND NOT page_mask" using walk_result(2) [OF assms(1) p(1)] by blast
  have "p' = p" using walk_result(4) [OF assms(1) p(1) assms(5) p'(1)] .
  then show ?thesis unfolding p(2) p'(2) q frame_offset same_page_frame [OF assms(5)] by (simp only: q frame_offset)
qed

lemma drop_tag_simps [simp]:
  "tlb_data (drop_tag ty i e m) = tlb_data m"
  "tlb_tag ty' (drop_tag ty i e m) = (if ty' = ty \<and> tlb_tag ty m i AND NOT TLB_CHECK_TRIGGERS \<noteq> e then (tlb_tag ty m)(i := - 1) else tlb_tag ty' m)"
  "trigger_checked ty' (drop_tag ty i e m) = trigger_checked ty' m"
  by (cases ty; cases ty'; simp add: drop_tag_def set_tlb_tag_def tlb_tag_def trigger_checked_def)+

lemma set_tag_simps [simp]:
  "tlb_data (set_tlb_tag ty i t m) = tlb_data m"
  "tlb_tag ty' (set_tlb_tag ty i t m) = (if ty' = ty then (tlb_tag ty m)(i := t) else tlb_tag ty' m)"
  by (cases ty; cases ty'; simp add: set_tlb_tag_def tlb_tag_def)+

lemma tag_data_simps [simp]: "tlb_tag ty (m\<lparr>tlb_data := d\<rparr>) = tlb_tag ty m"
  by (cases ty; simp add: tlb_tag_def)

text \<open>The entries a refill leaves behind.\<close>

lemma refill_effect:
  assumes "\<not> in_mprv (w_hart w)"
  obtains g where "refill_tlb a pa (Host_mem pa) ty w = (Inr \<lparr>host_offset = Host_mem (pa - a), target_offset = pa - a\<rparr>, upd_mmu g w)"
    "tlb_data (g (mmu_of w)) = (tlb_data (mmu_of w))(tlb_index (vpn_of a) := \<lparr>host_offset = Host_mem (pa - a), target_offset = pa - a\<rparr>)"
    "\<And>ty' b. tlb_match ty' b (g (mmu_of w)) \<Longrightarrow>
       (if tlb_index (vpn_of b) = tlb_index (vpn_of a)
        then vpn_of b = vpn_of a \<and> (tlb_match ty' b (mmu_of w) \<or>
          ty' = ty \<and> pmp_homogeneous (pa AND NOT (PGSIZE - 1)) PGSIZE (pmp (w_hart w)) = Some True)
        else tlb_match ty' b (mmu_of w))"
    "\<And>ty'. ty' \<noteq> ty \<Longrightarrow> tlb_tag ty' (mmu_of w) (tlb_index (vpn_of a)) = vpn_of a \<Longrightarrow>
       tlb_tag ty' (g (mmu_of w)) (tlb_index (vpn_of a)) = vpn_of a"
proof -
  let ?e = "\<lparr>host_offset = Host_mem (pa - a), target_offset = pa - a\<rparr>" and ?i = "tlb_index (vpn_of a)"
  let ?m = "drop_tag FETCH ?i (vpn_of a) (drop_tag STORE ?i (vpn_of a) (drop_tag LOAD ?i (vpn_of a) (mmu_of w)))"
  let ?t = "if trigger_checked ty ?m then vpn_of a OR TLB_CHECK_TRIGGERS else vpn_of a"
  obtain ok where ok: "pmp_homogeneous (pa AND NOT (PGSIZE - 1)) PGSIZE (pmp (w_hart w)) = Some ok"
    using homogeneous_some by blast
  let ?n = "(if ok then set_tlb_tag ty ?i ?t ?m else ?m)\<lparr>tlb_data := (tlb_data ?m)(?i := ?e)\<rparr>"
  have r: "refill_tlb a pa (Host_mem pa) ty w = (Inr ?e, upd_mmu (\<lambda>_. ?n) w)"
    unfolding refill_tlb_def Let_def if_not_P [OF assms] ok option.case ptr_sub_def host_ptr.case mmu_of_def ..
  have t: "?t AND NOT TLB_CHECK_TRIGGERS = vpn_of a" by (simp only: vpn_top split: if_split) simp
  have k: "tlb_tag ty' ?n i = (if i \<noteq> ?i then tlb_tag ty' (mmu_of w) i else if ok \<and> ty' = ty then ?t
      else if tlb_tag ty' (mmu_of w) ?i AND NOT TLB_CHECK_TRIGGERS \<noteq> vpn_of a then - 1 else tlb_tag ty' (mmu_of w) ?i)" for ty' i
    by (cases ty') simp_all
  have "tlb_match ty' b ?n \<Longrightarrow> (if tlb_index (vpn_of b) = ?i
        then vpn_of b = vpn_of a \<and> (tlb_match ty' b (mmu_of w) \<or> ty' = ty \<and> ok) else tlb_match ty' b (mmu_of w))" for ty' b
    using t vpn_top(3) [of b] unfolding tlb_match_def k by (auto simp only: split: if_splits)
  moreover have "tlb_tag ty' ?n ?i = vpn_of a" if "ty' \<noteq> ty" "tlb_tag ty' (mmu_of w) ?i = vpn_of a" for ty'
    unfolding k using that vpn_top(1) [of a] by simp
  ultimately show thesis using that [OF r] ok by simp
qed

subsection \<open>The simulator's memory map\<close>

text \<open>What the unit relies on: main memory consists of whole pages, and a device that answers fills
  the buffer it was given.\<close>

locale memory_map =
  fixes S :: "'b simif"
  assumes ram_page: "vpn_of x = vpn_of y \<Longrightarrow> sim_addr_to_mem S x = sim_addr_to_mem S y"
    and mmio_fills: "sim_mmio_load S a n mip p = (Some (Some bs), is, p') \<Longrightarrow> length bs = n"
begin

lemma mmio_load_length: "mmio_load S a n w = (Inr (Some bs), w') \<Longrightarrow> length bs = n"
proof -
  have b: "mmio_load_bytes S a n w = (Inr (Some bs), w') \<Longrightarrow> length bs = n" for w w' a bs
  proof (induction n arbitrary: a w w' bs)
    case (Suc n)
    then show ?case
      by (auto simp: bindE_def on_platform_def return_def dest: mmio_fills split: if_splits prod.splits sum.splits option.splits)
  qed (simp add: return_def)
  show "mmio_load S a n w = (Inr (Some bs), w') \<Longrightarrow> length bs = n"
    by (auto simp: mmio_load_def on_platform_def dest: b mmio_fills split: if_splits prod.splits option.splits)
qed

lemma load_bytes_length: "load_bytes S a n fault w = (Inr bs, w') \<Longrightarrow> length bs = n"
  by (auto simp: load_bytes_def bindE_def return_def throw_def read_bytes_def dest: mmio_load_length
      split: if_splits prod.splits sum.splits option.splits)

lemma refill_sound:
  assumes s: "still S w" and t: "translate S a len ty 0 w = (Inr pa, w)" "sim_addr_to_mem S pa" and ok: "tlb_sound S (mmu_of w) w"
    and l: "in_page a len"
  obtains g where "refill_tlb a pa (Host_mem pa) ty w = (Inr \<lparr>host_offset = Host_mem (pa - a), target_offset = pa - a\<rparr>, upd_mmu g w)"
    "tlb_ok S (upd_mmu g w)"
proof (cases "in_mprv (w_hart w)")
  case True
  then have "refill_tlb a pa (Host_mem pa) ty w = (Inr \<lparr>host_offset = Host_mem (pa - a), target_offset = pa - a\<rparr>, upd_mmu id w)"
    by (simp add: refill_tlb_def Let_def ptr_sub_def upd_mmu_def)
  then show thesis using that s ok by (simp add: tlb_ok_def)
next
  case False
  let ?e = "\<lparr>host_offset = Host_mem (pa - a), target_offset = pa - a\<rparr>"
  obtain mode virt where m: "access_mode ty 0 (w_hart w) = (mode, virt)" by fastforce
  obtain p where p: "walk S a ty mode virt False w = (Inr p, w)" "pa = p OR (a AND page_mask)"
    using translate_ok [OF s t(1) m] by metis
  obtain q where q: "p = q AND NOT page_mask" using walk_result(2) [OF s p(1)] by blast
  from refill_effect [OF False] obtain g where
    g: "refill_tlb a pa (Host_mem pa) ty w = (Inr ?e, upd_mmu g w)"
      "tlb_data (g (mmu_of w)) = (tlb_data (mmu_of w))(tlb_index (vpn_of a) := ?e)"
    and k: "\<And>ty' b. tlb_match ty' b (g (mmu_of w)) \<Longrightarrow>
       (if tlb_index (vpn_of b) = tlb_index (vpn_of a)
        then vpn_of b = vpn_of a \<and> (tlb_match ty' b (mmu_of w) \<or>
          ty' = ty \<and> pmp_homogeneous (pa AND NOT (PGSIZE - 1)) PGSIZE (pmp (w_hart w)) = Some True)
        else tlb_match ty' b (mmu_of w))"
    by metis
  have "\<exists>pb. translate S b len' ty' 0 w = (Inr pb, w) \<and> sim_addr_to_mem S pb \<and>
        tlb_data (g (mmu_of w)) (tlb_index (vpn_of b)) = \<lparr>host_offset = Host_mem (pb - b), target_offset = pb - b\<rparr>"
    if b: "in_page b len'" and match: "tlb_match ty' b (g (mmu_of w))" for b len' ty'
  proof (cases "tlb_match ty' b (mmu_of w)")
    case old: True
    then obtain pb where pb: "translate S b len' ty' 0 w = (Inr pb, w)" "sim_addr_to_mem S pb"
        "tlb_data (mmu_of w) (tlb_index (vpn_of b)) = \<lparr>host_offset = Host_mem (pb - b), target_offset = pb - b\<rparr>"
      using ok b unfolding tlb_sound_def by blast
    have "tlb_data (g (mmu_of w)) (tlb_index (vpn_of b)) = \<lparr>host_offset = Host_mem (pb - b), target_offset = pb - b\<rparr>"
    proof (cases "tlb_index (vpn_of b) = tlb_index (vpn_of a)")
      case i: True
      then have v: "vpn_of a = vpn_of b" using k [OF match] by simp
      show ?thesis using g(2) i translate_in_page [OF s False t(1) pb(1) v] by simp
    qed (use g(2) pb(3) in simp)
    then show ?thesis using pb by blast
  next
    case new: False
    then have v: "vpn_of a = vpn_of b" and ty: "ty' = ty" and h: "pmp_homogeneous (pa AND NOT (PGSIZE - 1)) PGSIZE (pmp (w_hart w)) = Some True"
      using k [OF match] by (auto split: if_splits)
    have pf: "pa AND NOT (PGSIZE - 1) = q AND NOT page_mask"
      using frame_frame [of q a] p(2) q by simp
    let ?pb = "p OR (b AND page_mask)"
    have "pmp_ok pa len ty mode (pmp (w_hart w))" using translate_ok [OF s t(1) m] by metis
    then have "pmp_ok ?pb len' ty mode (pmp (w_hart w))"
      using homogeneous_frame [OF h [unfolded pf], of len a len' b ty mode] l b p(2) q by (auto simp: in_page_def)
    then have T: "translate S b len' ty' 0 w = (Inr ?pb, w)"
      using translateI [OF s _ walk_result(3) [OF s p(1) v]] m ty by simp
    have M: "sim_addr_to_mem S ?pb"
    proof (rule iffD1 [OF ram_page t(2)])
      show "vpn_of pa = vpn_of ?pb"
        unfolding vpn_of_def p(2) q using frame_shr [of q a] frame_shr [of q b] by simp
    qed
    have d: "?pb - b = pa - a"
      unfolding p(2) q frame_offset same_page_frame [OF v] ..
    have "tlb_data (g (mmu_of w)) (tlb_index (vpn_of b)) = \<lparr>host_offset = Host_mem (?pb - b), target_offset = ?pb - b\<rparr>"
      unfolding g(2) v d by (rule fun_upd_same)
    with T M show ?thesis by blast
  qed
  then have "tlb_sound S (g (mmu_of w)) w" unfolding tlb_sound_def by (intro allI impI)
  then have "tlb_ok S (upd_mmu g w)" by (simp only: tlb_ok_def upd_mmu_fields tlb_sound_upd [OF s])
  then show thesis using that g(1) by blast
qed

end

subsection \<open>Cached and uncached accesses\<close>

definition uncached_load :: "'b simif \<Rightarrow> nat \<Rightarrow> reg_t \<Rightarrow> ('b, reg_t) mcomp" where
  "uncached_load S len addr =
     bindE (translate S addr len LOAD 0) (\<lambda>pa.
     bindE (hart_of h_v) (\<lambda>v.
     bindE (load_bytes S pa len (trap_load_access_fault v addr 0 0)) (\<lambda>bs.
     return (le_word bs))))"

definition uncached_store :: "'b simif \<Rightarrow> nat \<Rightarrow> reg_t \<Rightarrow> reg_t \<Rightarrow> ('b, unit) mcomp" where
  "uncached_store S len addr val =
     bindE (translate S addr len STORE 0) (\<lambda>pa.
     bindE (hart_of h_v) (\<lambda>v.
     store_bytes S pa (le_bytes len val) (trap_store_access_fault v addr 0 0)))"

text \<open>No trigger of the module watches addresses or data.\<close>

definition unwatched :: "trigger_module \<Rightarrow> bool" where
  "unwatched ts = list_all (\<lambda>t. mcontrol_part (kind t) = None) ts"

lemma unwatched_loop: "unwatched ts \<Longrightarrow> memory_loop e op a d True None ts = Some (None, ts)"
proof (induction ts)
  case (Cons t ts)
  then have "mcontrol_part (kind t) = None" by (simp add: unwatched_def)
  then have "detect_memory_access e op a d t = Some (None, t)" "\<not> get_chain t"
    by (cases "kind t"; simp add: detect_memory_access_def get_chain_def mc_get_def)+
  then show ?case using Cons by (simp add: unwatched_def better_def)
qed simp

lemma no_triggers: "unwatched (tm (w_hart w)) \<Longrightarrow> check_triggers op a d w = (Inr (), w)"
  by (simp add: check_triggers_def Let_def module_detect_memory_def unwatched_loop)

lemma no_check_value: "unwatched (tm (w_hart w)) \<Longrightarrow> length bs \<in> {1, 2, 4, 8} \<Longrightarrow> check_value op a bs w = (Inr (), w)"
  by (auto simp: check_value_def reg_from_bytes_def no_triggers)

definition keeps_units :: "('b, 'a) mcomp \<Rightarrow> bool" where
  "keeps_units f \<longleftrightarrow> (\<forall>w. tm (w_hart (snd (f w))) = tm (w_hart w) \<and> mmu_of (snd (f w)) = mmu_of w)"

lemma keeps_units_rules [intro]:
  "keeps_units (return x)" "keeps_units (throw e)" "keeps_units (on_platform F)" "keeps_units (\<lambda>w. (r w, w))" "keeps_units (\<lambda>w. (r w, w\<lparr>w_mem := g w\<rparr>))"
  "keeps_units f \<Longrightarrow> (\<And>x. keeps_units (k x)) \<Longrightarrow> keeps_units (bindE f k)"
  "keeps_units f \<Longrightarrow> keeps_units f' \<Longrightarrow> keeps_units (\<lambda>w. if c w then f w else f' w)"
  by (auto simp: keeps_units_def return_def throw_def on_platform_def irqs_keep_tm irq_keeps_mmu mmu_of_def bindE_def split: prod.splits sum.splits)
     (metis snd_conv)+

lemma mmio_keeps: "keeps_units (mmio_load S a n)" "keeps_units (mmio_store S a bs)"
proof -
  have "keeps_units (mmio_load_bytes S a n)" for a
    by (induction n arbitrary: a) (auto split: option.splits intro!: keeps_units_rules)
  then show "keeps_units (mmio_load S a n)" unfolding mmio_load_def [abs_def] by (intro keeps_units_rules)
  have "keeps_units (mmio_store_bytes S a bs)" for a
    by (induction bs arbitrary: a) (auto intro!: keeps_units_rules)
  then show "keeps_units (mmio_store S a bs)" unfolding mmio_store_def [abs_def] by (intro keeps_units_rules)
qed

lemma bytes_keep: "keeps_units (load_bytes S a n fault)" "keeps_units (store_bytes S a bs fault)"
proof -
  show "keeps_units (load_bytes S a n fault)"
    unfolding load_bytes_def by (auto intro!: keeps_units_rules mmio_keeps split: option.splits)
  show "keeps_units (store_bytes S a bs fault)"
    unfolding store_bytes_def by (auto intro!: keeps_units_rules mmio_keeps)
qed

lemma aligned_in_page:
  assumes "access_aligned addr len" "len \<in> {1, 2, 4, 8}"
  shows "in_page addr len"
proof -
  have u: "unat (take_bit k addr) = unat addr mod 2 ^ k" for k
    unfolding unsigned_take_bit_eq by (rule take_bit_eq_mod)
  obtain k where k: "len = 2 ^ k" "k \<le> 3"
  proof -
    consider "len = 2 ^ 0" | "len = 2 ^ 1" | "len = 2 ^ 2" | "len = 2 ^ 3" using assms(2) by fastforce
    then show thesis using that [of 0] that [of 1] that [of 2] that [of 3] by cases auto
  qed
  have "addr AND (2 ^ k - 1) = 0" using assms(1) by (simp add: access_aligned_def k(1))
  then have z: "unat addr mod 2 ^ k = 0" using u [of k] unfolding low_mask_exp by simp
  have "2 ^ k dvd (4096 :: nat)" using k(2) le_imp_power_dvd [of k 12 "2 :: nat"] by simp
  then have "unat addr mod 4096 mod 2 ^ k = 0" using z by (simp add: mod_mod_cancel)
  then obtain j where j: "unat addr mod 4096 = 2 ^ k * j" by (metis mod_0_imp_dvd dvdE)
  have "(4096 :: nat) = 2 ^ k * 2 ^ (12 - k)" using k(2) by (simp add: power_add [symmetric])
  moreover have "unat addr mod 4096 < 4096" by simp
  ultimately have "j < 2 ^ (12 - k)" unfolding j by (metis mult_less_cancel1)
  then have "2 ^ k * (j + 1) \<le> 2 ^ k * (2 ^ (12 - k) :: nat)" by (intro mult_le_mono2) simp
  then show ?thesis using j k(1) \<open>4096 = 2 ^ k * 2 ^ (12 - k)\<close> by (simp add: in_page_def algebra_simps)
qed

lemma upd_mmu_id [simp]: "upd_mmu id w = w" "upd_mmu (\<lambda>m. m) w = w"
  by (simp_all add: upd_mmu_def)

lemma hit_match: "tlb_hit ty a m \<Longrightarrow> tlb_match ty a m"
  by (simp only: tlb_hit_def tlb_match_def vpn_top(1))

lemma aligned_slow:
  assumes "unwatched (tm (w_hart w))" "access_aligned addr len" "len \<in> {1, 2, 4, 8}"
  shows "load_slow_path S addr len 0 w = bindE (load_slow_path_intrapage S addr len 0) (\<lambda>bs.
      bindE (check_value OPERATION_LOAD addr bs) (\<lambda>_. return bs)) w"
    "store_slow_path S addr (le_bytes len v) len 0 True False w = store_slow_path_intrapage S addr (le_bytes len v) len 0 True w"
  using assms by (simp_all add: load_slow_path_def store_slow_path_def bindE_def no_triggers no_check_value le_bytes_def)

text \<open>No translation of the first state is lost or changed in the second.\<close>

definition same_tables :: "'b simif \<Rightarrow> 'b world \<Rightarrow> 'b world \<Rightarrow> bool" where
  "same_tables S w w' \<longleftrightarrow> (\<forall>a len ty r. translate S a len ty 0 w = (r, w) \<longrightarrow> translate S a len ty 0 w' = (r, w'))"

lemma same_tables_sound: "same_tables S w w' \<Longrightarrow> tlb_sound S m w \<Longrightarrow> tlb_sound S m w'"
  unfolding same_tables_def tlb_sound_def by blast

context memory_map
begin

lemma load_cached:
  assumes s: "still S w" and ok: "tlb_ok S w" and tr: "unwatched (tm (w_hart w))"
    and len: "len \<in> {1, 2, 4, 8}" and al: "access_aligned addr len"
  shows "\<exists>g. mmu_load S len addr 0 w = apsnd (upd_mmu g) (uncached_load S len addr w) \<and>
    (snd (uncached_load S len addr w) = w \<longrightarrow> tlb_ok S (upd_mmu g w))"
proof (cases "tlb_match LOAD addr (mmu_of w)")
  case True
  then obtain pa where pa: "translate S addr len LOAD 0 w = (Inr pa, w)" "sim_addr_to_mem S pa"
      "tlb_data (mmu_of w) (tlb_index (vpn_of addr)) = \<lparr>host_offset = Host_mem (pa - addr), target_offset = pa - addr\<rparr>"
    using ok aligned_in_page [OF al len] unfolding tlb_ok_def tlb_sound_def by blast
  have l: "length (read_bytes pa len (w_mem w)) \<in> {1, 2, 4, 8}" using len by (simp add: read_bytes_def)
  have u: "uncached_load S len addr w = (Inr (le_word (read_bytes pa len (w_mem w))), w)"
    using pa by (simp add: uncached_load_def bindE_def hart_of_def load_bytes_def return_def)
  have "mmu_load S len addr 0 w = (Inr (le_word (read_bytes pa len (w_mem w))), w)"
    using pa True al by (simp add: mmu_load_def Let_def aligned_slow [OF tr al len] load_slow_path_intrapage_def bindE_def return_def
        host_read_def no_check_value [OF tr l])
  then show ?thesis using u ok by (intro exI [of _ id]) simp
next
  case False
  then have n: "\<not> tlb_hit LOAD addr (mmu_of w)" using hit_match by blast
  have m: "mmu_load S len addr 0 w = bindE (load_slow_path_intrapage S addr len 0) (\<lambda>bs.
      bindE (check_value OPERATION_LOAD addr bs) (\<lambda>_. return (le_word bs))) w"
    using n by (simp add: mmu_load_def Let_def aligned_slow [OF tr al len] bindE_def return_def split: prod.split sum.split)
  show ?thesis using s
  proof (cases rule: translate_cases [where a = addr and len = len and ty = LOAD])
    case (fault e)
    then show ?thesis using False ok unfolding m uncached_load_def
      by (intro exI [of _ id]) (simp add: load_slow_path_intrapage_def bindE_def Let_def)
  next
    case (ok mode virt p)
    let ?pa = "p OR (addr AND page_mask)" and ?f = "trap_load_access_fault (h_v (w_hart w)) addr 0 0"
    obtain r w' where r: "load_bytes S ?pa len ?f w = (r, w')" by fastforce
    have u: "uncached_load S len addr w = (map_sum id le_word r, w')"
      using ok(4) r by (cases r) (simp_all add: uncached_load_def bindE_def hart_of_def return_def)
    have i: "load_slow_path_intrapage S addr len 0 w = bindE (\<lambda>_. (r, w')) (\<lambda>bs.
        bindE (if sim_addr_to_mem S ?pa then bindE (refill_tlb addr ?pa (Host_mem ?pa) LOAD) (\<lambda>_. return ()) else return ()) (\<lambda>_.
        return bs)) w"
      using False ok(4) r by (simp add: load_slow_path_intrapage_def bindE_def [of _ _ w] bindE_def [of _ _ w'] hart_of_def Let_def)
    show ?thesis
    proof (cases r)
      case (Inl e)
      then show ?thesis using \<open>tlb_ok S w\<close> unfolding m u bindE_def i by (intro exI [of _ id]) simp
    next
      case (Inr bs)
      have l: "length bs \<in> {1, 2, 4, 8}" using load_bytes_length r Inr len by metis
      have t': "unwatched (tm (w_hart w'))" using bytes_keep(1) r tr unfolding keeps_units_def by (metis snd_conv)
      show ?thesis
      proof (cases "sim_addr_to_mem S ?pa")
        case mem: True
        then have w': "w' = w" using r by (simp add: load_bytes_def)
        obtain g e where g: "refill_tlb addr ?pa (Host_mem ?pa) LOAD w = (Inr e, upd_mmu g w)" "tlb_ok S (upd_mmu g w)"
          using refill_sound [OF s ok(4) mem _ aligned_in_page [OF al len]] \<open>tlb_ok S w\<close> unfolding tlb_ok_def by metis
        have "unwatched (tm (w_hart (upd_mmu g w)))" using tr by simp
        then show ?thesis using g mem l unfolding m u bindE_def i Inr w'
          by (intro exI [of _ g]) (simp add: return_def no_check_value)
      next
        case io: False
        then show ?thesis using l t' \<open>tlb_ok S w\<close> unfolding m u bindE_def i Inr
          by (intro exI [of _ id]) (simp add: return_def no_check_value)
      qed
    qed
  qed
qed

lemma store_cached:
  fixes addr v len w
  defines "u \<equiv> uncached_store S len addr v w"
  assumes s: "still S w" and ok: "tlb_ok S w" and tr: "unwatched (tm (w_hart w))"
    and len: "len \<in> {1, 2, 4, 8}" and al: "access_aligned addr len"
  shows "\<exists>g. mmu_store S len addr v 0 w = apsnd (upd_mmu g) u \<and>
    (still S (snd u) \<and> same_tables S w (snd u) \<longrightarrow> tlb_ok S (upd_mmu g (snd u)))"
proof (cases "tlb_match STORE addr (mmu_of w)")
  case True
  then obtain pa where pa: "translate S addr len STORE 0 w = (Inr pa, w)" "sim_addr_to_mem S pa"
      "tlb_data (mmu_of w) (tlb_index (vpn_of addr)) = \<lparr>host_offset = Host_mem (pa - addr), target_offset = pa - addr\<rparr>"
    using ok aligned_in_page [OF al len] unfolding tlb_ok_def tlb_sound_def by blast
  let ?w = "w\<lparr>w_mem := write_bytes pa (le_bytes len v) (w_mem w)\<rparr>"
  have u: "u = (Inr (), ?w)"
    using pa by (simp add: u_def uncached_store_def bindE_def hart_of_def store_bytes_def)
  have "mmu_store S len addr v 0 w = (Inr (), ?w)"
    using pa True al by (simp add: mmu_store_def Let_def aligned_slow [OF tr al len] store_slow_path_intrapage_def host_write_def)
  moreover have "same_tables S w ?w \<longrightarrow> tlb_ok S ?w"
    using same_tables_sound [of S w ?w "mmu_of w"] ok by (simp add: tlb_ok_def mmu_of_def)
  ultimately show ?thesis using u by (intro exI [of _ id]) simp
next
  case False
  then have n: "\<not> tlb_hit STORE addr (mmu_of w)" using hit_match by blast
  have m: "mmu_store S len addr v 0 w = store_slow_path_intrapage S addr (le_bytes len v) len 0 True w"
    using n by (simp add: mmu_store_def Let_def aligned_slow [OF tr al len])
  show ?thesis using s
  proof (cases rule: translate_cases [where a = addr and len = len and ty = STORE])
    case (fault e)
    then show ?thesis using False ok unfolding m u_def uncached_store_def
      by (intro exI [of _ id]) (simp add: store_slow_path_intrapage_def bindE_def Let_def)
  next
    case (ok mode virt p)
    let ?pa = "p OR (addr AND page_mask)" and ?f = "trap_store_access_fault (h_v (w_hart w)) addr 0 0"
    obtain r w' where r: "store_bytes S ?pa (le_bytes len v) ?f w = (r, w')" by fastforce
    have u: "u = (r, w')"
      using ok(4) r by (simp add: u_def uncached_store_def bindE_def hart_of_def)
    have i: "store_slow_path_intrapage S addr (le_bytes len v) len 0 True w = bindE (\<lambda>_. (r, w')) (\<lambda>_.
        if sim_addr_to_mem S ?pa then bindE (refill_tlb addr ?pa (Host_mem ?pa) STORE) (\<lambda>_. return ()) else return ()) w"
      using False ok(4) r by (simp add: store_slow_path_intrapage_def bindE_def [of _ _ w] hart_of_def Let_def)
    have "mmu_of w' = mmu_of w" using bytes_keep(2) r unfolding keeps_units_def by (metis snd_conv)
    then have sound: "same_tables S w w' \<Longrightarrow> tlb_sound S (mmu_of w') w'"
      using same_tables_sound [of S w w' "mmu_of w"] \<open>tlb_ok S w\<close> by (simp add: tlb_ok_def)
    show ?thesis
    proof (cases "r = Inr () \<and> sim_addr_to_mem S ?pa")
      case mem: True
      obtain g e where g: "refill_tlb addr ?pa (Host_mem ?pa) STORE w' = (Inr e, upd_mmu g w')"
          "still S w' \<and> same_tables S w w' \<longrightarrow> tlb_ok S (upd_mmu g w')"
      proof (cases "still S w' \<and> same_tables S w w'")
        case True
        have "translate S addr len STORE 0 w' = (Inr ?pa, w')" using True ok(4) by (simp add: same_tables_def)
        then show thesis using refill_sound [OF _ _ _ sound aligned_in_page [OF al len]] True mem that by metis
      next
        case False
        show thesis
        proof (cases "in_mprv (w_hart w')")
          case True
          then show thesis using that [of _ id] False by (simp add: refill_tlb_def Let_def)
        next
          case m: False
          show thesis by (rule refill_effect [OF m, of addr ?pa STORE]) (use that False in blast)
        qed
      qed
      then show ?thesis using mem unfolding m u bindE_def i by (intro exI [of _ g]) (simp add: return_def)
    next
      case False
      then show ?thesis using sound unfolding m u bindE_def i
        by (intro exI [of _ id]) (cases r; simp add: return_def tlb_ok_def)
    qed
  qed
qed

end

text \<open>C2: a load of 1, 2, 4 or 8 bytes at an aligned address has, whatever the cache holds, the
  result, the exception and the effect of translating the address and reading memory or the device
  there; only the cache itself may differ. A load without a device access leaves every entry sound.\<close>

theorem tlb_load_transparent:
  assumes "memory_map S" "still S w" "tlb_ok S w" "unwatched (tm (w_hart w))"
    and "len \<in> {1, 2, 4, 8}" "access_aligned addr len"
  shows "\<exists>g. mmu_load S len addr 0 w = apsnd (upd_mmu g) (uncached_load S len addr w) \<and>
    (snd (uncached_load S len addr w) = w \<longrightarrow> tlb_ok S (upd_mmu g w))"
  using assms by (rule memory_map.load_cached)

text \<open>C35: the same for stores; every entry stays sound when the store left the translations alone.\<close>

theorem tlb_store_transparent:
  assumes "memory_map S" "still S w" "tlb_ok S w" "unwatched (tm (w_hart w))"
    and "len \<in> {1, 2, 4, 8}" "access_aligned addr len"
  shows "\<exists>g. mmu_store S len addr v 0 w = apsnd (upd_mmu g) (uncached_store S len addr v w) \<and>
    (still S (snd (uncached_store S len addr v w)) \<and> same_tables S w (snd (uncached_store S len addr v w)) \<longrightarrow>
       tlb_ok S (upd_mmu g (snd (uncached_store S len addr v w))))"
  using assms by (rule memory_map.store_cached)

definition demo_flat :: "unit world" where
  "demo_flat = demo_sv39\<lparr>w_hart := demo_hart\<rparr>"

lemma demo_map: "memory_map demo_sim"
  by unfold_locales (simp_all add: demo_sim_def)

lemma demo_still: "still demo_sim demo_flat" "unwatched (tm (w_hart demo_flat))"
  by (simp_all add: still_def pt_in_memory_def demo_sim_def demo_flat_def demo_hart_def hade_enabled_def henvcfg_read_def
      unwatched_def module_init_def new_trigger_def list_all_iff)

lemma fresh_tlb_ok: "mmu_of w = mmu_init \<Longrightarrow> tlb_ok S w"
proof -
  assume m: "mmu_of w = mmu_init"
  have "\<not> tlb_match ty a mmu_init" for ty a
    unfolding tlb_match_def using vpn_top(3) [of a] by (cases ty) (simp_all add: tlb_tag_def mmu_init_def)
  then show ?thesis by (simp add: tlb_ok_def tlb_sound_def m)
qed

lemma all_ones: "(a :: reg_t) AND 18446744073709551615 = a"
proof -
  have "(18446744073709551615 :: reg_t) = - 1" by simp
  then show ?thesis by (simp only: and.right_neutral)
qed

lemma demo_translate: "translate demo_sim a len ty 0 demo_flat = (Inr ((a AND NOT page_mask) OR (a AND page_mask)), demo_flat)"
  by (cases ty) (simp_all add: translate_def access_mode_def in_mprv_def demo_flat_def demo_hart_def nmie_def mstatus_read_def walk_def
      decode_vm_info_def vm_off_def s2xlate_def bindE_def return_def hart_of_def pmp_ok_def pmp_reset_def get_field_def all_ones)

theorem tlb_load_transparent_witness:
  "fst (mmu_load demo_sim 8 0x80000000 0 demo_flat) = Inr 0x200000cf"
proof -
  have t: "tlb_ok demo_sim demo_flat" by (rule fresh_tlb_ok) (simp add: mmu_of_def demo_flat_def demo_hart_def)
  have u: "uncached_load demo_sim 8 0x80000000 demo_flat = (Inr 0x200000cf, demo_flat)"
    by (simp add: uncached_load_def demo_translate bindE_def hart_of_def load_bytes_def return_def)
       (simp add: demo_sim_def demo_flat_def demo_sv39_def read_bytes_def write_bytes_def le_bytes_def upt_rec)
  show ?thesis
    using tlb_load_transparent [OF demo_map demo_still(1) t demo_still(2), of 8 "0x80000000"] u by (auto simp: access_aligned_def)
qed

theorem tlb_store_transparent_witness:
  "w_mem (snd (mmu_store demo_sim 4 0x80000010 0xcafe 0 demo_flat)) 0x80000011 = 0xca"
proof -
  have t: "tlb_ok demo_sim demo_flat" by (rule fresh_tlb_ok) (simp add: mmu_of_def demo_flat_def demo_hart_def)
  have u: "w_mem (snd (uncached_store demo_sim 4 0x80000010 0xcafe demo_flat)) 0x80000011 = 0xca"
    by (simp add: uncached_store_def demo_translate bindE_def hart_of_def store_bytes_def)
       (simp add: demo_sim_def demo_flat_def demo_sv39_def write_bytes_def le_bytes_def upt_rec)
  show ?thesis
    using tlb_store_transparent [OF demo_map demo_still(1) t demo_still(2), of 4 "0x80000010" "0xcafe"] u by (auto simp: access_aligned_def)
qed

text \<open>C39: the three tags of an entry share one datum, and a refill keeps the tags of the other kinds
  that name the same page. So when the frame of a page changes before the cache is flushed, an
  instruction fetch gives a load tag that was made for the old frame the new one: the load reads it
  whatever the page tables and the physical memory protection say about loads there.\<close>

theorem stale_load_tag:
  assumes "\<not> in_mprv (w_hart w)" "tlb_hit LOAD a (mmu_of w)" "access_aligned a len"
  shows "\<exists>e w'. refill_tlb a pa (Host_mem pa) FETCH w = (Inr e, w') \<and>
    mmu_load S len a 0 w' = (Inr (le_word (read_bytes pa len (w_mem w))), w')"
proof -
  let ?i = "tlb_index (vpn_of a)" and ?e = "\<lparr>host_offset = Host_mem (pa - a), target_offset = pa - a\<rparr>"
  have h: "tlb_tag LOAD (mmu_of w) ?i = vpn_of a" using assms(2) by (simp add: tlb_hit_def)
  obtain g where r: "refill_tlb a pa (Host_mem pa) FETCH w = (Inr ?e, upd_mmu g w)"
    and d: "tlb_data (g (mmu_of w)) ?i = ?e" and t: "tlb_tag LOAD (g (mmu_of w)) ?i = vpn_of a"
    by (rule refill_effect [OF assms(1), of a pa FETCH]) (use that h in simp)
  show ?thesis unfolding r using t d assms(3) by (simp add: mmu_load_def Let_def tlb_hit_def host_read_def)
qed

definition demo_stale :: "unit world" where
  "demo_stale = demo_flat\<lparr>w_hart := demo_hart\<lparr>mmu := mmu_init\<lparr>tlb_load_tag := (\<lambda>_. 1)\<rparr>,
     pmp := \<lparr>pmp_val = (\<lambda>_. 0x800), pmp_cfg = (\<lambda>_. 0x8c), mseccfg_val = 0, n_pmp = 1, lg_pmp_granularity = 2\<rparr>\<rparr>\<rparr>"

theorem stale_load_tag_witness:
  "fst (translate demo_sim 0x1000 8 LOAD 0 demo_stale) = Inl (Trap (access_fault LOAD False 0x1000)) \<and>
   (\<exists>e w' x. refill_tlb 0x1000 0x1000 (Host_mem 0x1000) FETCH demo_stale = (Inr e, w') \<and> mmu_load demo_sim 8 0x1000 0 w' = (Inr x, w'))"
proof
  show "fst (translate demo_sim 0x1000 8 LOAD 0 demo_stale) = Inl (Trap (access_fault LOAD False 0x1000))"
    by (simp add: translate_def access_mode_def in_mprv_def demo_stale_def demo_hart_def nmie_def mstatus_read_def walk_def
      decode_vm_info_def vm_off_def s2xlate_def bindE_def return_def hart_of_def get_field_def all_ones throw_access_exception_def throw_def
      pmp_ok_def pmp_sectors_def upt_rec match4_def tor_paddr_def tor_base_paddr_def pmp_tor_mask_def access_ok_def Let_def)
  have "\<not> in_mprv (w_hart demo_stale)" "tlb_hit LOAD 0x1000 (mmu_of demo_stale)"
    by (simp_all add: in_mprv_def demo_stale_def demo_hart_def mstatus_read_def get_field_def tlb_hit_def mmu_of_def tlb_tag_def vpn_of_def)
  from stale_load_tag [OF this, of 8 "0x1000" demo_sim]
  show "\<exists>e w' x. refill_tlb 0x1000 0x1000 (Host_mem 0x1000) FETCH demo_stale = (Inr e, w') \<and> mmu_load demo_sim 8 0x1000 0 w' = (Inr x, w')"
    by (auto simp: access_aligned_def)
qed

end
