(* ===== verification/Mmu_Reserve.thy ===== *)
theory Mmu_Reserve
  imports Mmu_Tlb
begin

text \<open>
  Load reserved and store conditional: translations leave the reservation alone, a store conditional
  that completes gives it up, and an undisturbed pair on main memory succeeds.
\<close>

subsection \<open>Translations and the reservation\<close>

lemma keeps_hart_of [intro]: "keeps_units (hart_of f)"
  by (simp add: keeps_units_def hart_of_def)

lemma keeps_on [intro]: "(\<And>w. keeps_units (F w)) \<Longrightarrow> keeps_units (\<lambda>w. F w w)"
  by (simp add: keeps_units_def)

lemma keeps_app: "keeps_units f \<Longrightarrow> tm (w_hart (snd (f w))) = tm (w_hart w)" "keeps_units f \<Longrightarrow> mmu_of (snd (f w)) = mmu_of w"
  by (simp_all add: keeps_units_def)

lemma pte_access_keeps [intro]: "keeps_units (pte_load S a addr virt ty n)" "keeps_units (pte_store S a v addr virt ty n)"
  unfolding pte_load_def pte_store_def throw_access_exception_def
  by (auto intro!: keeps_units_rules bytes_keep)

lemma update_ad_keeps [intro]: "keeps_units (update_ad S hade a pte addr virt ty n fault)"
  unfolding update_ad_def by auto

lemma s2_loop_keeps [intro]: "keeps_units (s2_loop S n vm gva gpa ty tt hlvx mxr base)"
proof (induction n arbitrary: base)
  case (Suc i)
  show ?case unfolding s2_loop.simps Let_def
    by (intro keeps_units_rules pte_access_keeps keeps_hart_of)
       (auto split: pte_step.split intro!: keeps_units_rules Suc.IH)
qed auto

lemma s2xlate_keeps [intro]: "keeps_units (s2xlate S gva gpa ty tt virt hlvx)"
  unfolding keeps_units_def s2xlate_def by (auto simp: Let_def throw_def keeps_app [OF s2_loop_keeps] split: option.split)

lemma walk_loop_keeps [intro]: "keeps_units (walk_loop S n vm a ty virt hlvx s_mode sum_on mxr base)"
proof (induction n arbitrary: base)
  case (Suc i)
  show ?case unfolding walk_loop.simps Let_def
    by (intro keeps_units_rules pte_access_keeps s2xlate_keeps keeps_hart_of)
       (auto split: pte_step.split intro!: keeps_units_rules Suc.IH)
qed auto

lemma walk_keeps [intro]: "keeps_units (walk S a ty mode virt hlvx)"
proof -
  have b: "keeps_units (bindE (s2xlate S a g ty ty virt hlvx) (\<lambda>pa. return (f pa)))" for g and f :: "reg_t \<Rightarrow> reg_t" by auto
  show ?thesis unfolding keeps_units_def walk_def
    by (auto simp: Let_def keeps_app [OF walk_loop_keeps] keeps_app [OF b] split: option.split)
qed

lemma translate_keeps [intro]: "keeps_units (translate S a len ty fl)"
proof -
  have b: "keeps_units (bindE (walk S a ty mode virt hlvx) (\<lambda>page. bindE (hart_of pmp) (\<lambda>p.
       let paddr = page OR (a AND page_mask) in
       if \<not> pmp_ok paddr len ty mode p then throw_access_exception virt a ty else return paddr)))" for mode virt hlvx
    by (intro keeps_units_rules walk_keeps keeps_hart_of) (auto simp: throw_access_exception_def Let_def)
  show ?thesis unfolding keeps_units_def translate_def by (auto simp: keeps_app [OF b] split: prod.split)
qed

text \<open>The result of a walk is the address of a page.\<close>

lemma walk_loop_aligned: "walk_loop S n vm a ty virt hlvx s_mode sum_on mxr base w = (Inr x, w') \<Longrightarrow> \<exists>q. x = q AND NOT page_mask"
proof (induction n arbitrary: base w)
  case (Suc i)
  show ?case using Suc.prems Suc.IH unfolding walk_loop.simps Let_def bindE_Inr
    by (fastforce simp: hart_of_def throw_def return_def bindE_Inr split: pte_step.splits if_splits)
qed (simp add: throw_def)

lemma walk_aligned:
  assumes w: "walk S a ty mode virt hlvx w = (Inr p, w')"
  shows "\<exists>q. p = q AND NOT page_mask"
proof -
  obtain vm where vm: "decode_vm_info (h_xlen (w_hart w)) False mode (satp_readvirt virt (w_hart w)) = Some vm"
    using w by (auto simp: walk_def Let_def split: option.splits)
  show ?thesis
  proof (cases "vm_levels vm = 0")
    case True
    then show ?thesis using w vm by (auto simp only: walk_def Let_def option.case if_True simp_thms bindE_Inr return_def prod.inject sum.inject)
  next
    case False
    then show ?thesis using w vm walk_loop_aligned by (simp only: walk_def Let_def option.case if_False) blast
  qed
qed

lemma translate_offset: "translate S a len ty fl w = (Inr pa, w') \<Longrightarrow> pa AND page_mask = a AND page_mask"
proof -
  assume "translate S a len ty fl w = (Inr pa, w')"
  then obtain p mode virt h w1 where "walk S a ty mode virt h w = (Inr p, w1)" "pa = p OR (a AND page_mask)"
    by (auto simp: translate_def bindE_Inr hart_of_def return_def throw_access_exception_def throw_def Let_def split: prod.splits if_splits)
  then obtain q where q: "pa = (q AND NOT page_mask) OR (a AND page_mask)" using walk_aligned by blast
  show ?thesis unfolding q by (rule bit_word_eqI) (auto simp only: bit_and_iff bit_or_iff bit_not_iff)
qed

subsection \<open>Store conditional\<close>

lemma misaligned_throws: "\<not> access_aligned a n \<Longrightarrow> store_slow_path S a [] n 0 False True w \<noteq> (Inr x, w')"
  by (simp add: store_slow_path_def bindE_def hart_of_def throw_def return_def)

lemma check_reservation:
  assumes "check_load_reservation S a n w = (Inr b, w')"
  obtains pa where "access_aligned a n" "pa AND page_mask = a AND page_mask" "mmu_of w' = mmu_of w"
    "tm (w_hart w') = tm (w_hart w)" "b = (load_reservation_address (mmu_of w) = pa)"
proof -
  have al: "access_aligned a n"
  proof (rule ccontr)
    assume n: "\<not> access_aligned a n"
    then show False using assms misaligned_throws [OF n, of S] by (auto simp: check_load_reservation_def bindE_Inr [of _ _ w])
  qed
  then obtain pa where t: "translate S a 1 STORE 0 w = (Inr pa, w')" "b = (load_reservation_address (mmu_of w') = pa)"
    using assms by (auto simp: check_load_reservation_def bindE_Inr hart_of_def return_def throw_def mmu_of_def split: if_splits)
  then show thesis using that [OF al translate_offset [OF t(1)]] keeps_app [OF translate_keeps, of S a 1 STORE 0 w] by simp
qed

lemma no_reservation:
  assumes "access_aligned a n" "n \<in> {4, 8}" "pa AND page_mask = a AND page_mask"
  shows "pa \<noteq> - 1"
proof
  assume "pa = - 1"
  then have "bit (a AND page_mask) 0" unfolding assms(3) [symmetric] by simp
  then have b: "bit a 0" by (simp only: bit_and_iff simp_thms)
  have "bit (a AND (of_nat n - 1)) 0" using assms(2) b by (auto simp: bit_and_iff)
  then show False using assms(1) by (simp add: access_aligned_def)
qed

lemma store_conditional_result:
  assumes "store_conditional S n a v w = (Inr b, w')" "n \<in> {4, 8}"
  shows "load_reservation_address (mmu_of w') = - 1" "load_reservation_address (mmu_of w) = - 1 \<Longrightarrow> \<not> b"
proof -
  obtain w1 where c: "check_load_reservation S a n w = (Inr b, w1)" and y: "\<exists>w2. w' = upd_mmu yield_load_reservation w2"
    using assms(1) by (auto simp: store_conditional_def bindE_Inr mmu_yield_def modify_def return_def)
  show "load_reservation_address (mmu_of w') = - 1" using y by (auto simp: yield_load_reservation_def)
  show "\<not> b" if "load_reservation_address (mmu_of w) = - 1"
    using check_reservation [OF c] no_reservation assms(2) that by metis
qed

text \<open>A store conditional that completes, successful or not, gives up the reservation, so a
  second one without a load reserved in between fails, whatever its address.\<close>

theorem sc_once:
  assumes "store_conditional S n a v w = (Inr b, w')" "store_conditional S n' a' v' w' = (Inr b', w'')"
    and "n \<in> {4, 8}" "n' \<in> {4, 8}"
  shows "\<not> b' \<and> load_reservation_address (mmu_of w'') = - 1"
  using store_conditional_result [OF assms(1,3)] store_conditional_result [OF assms(2,4)] by auto

lemma upd_upd [simp]: "upd_mmu f (upd_mmu g w) = upd_mmu (f \<circ> g) w"
  by (simp add: upd_mmu_def)

lemma upd_mem [simp]: "upd_mmu g (w\<lparr>w_mem := m\<rparr>) = (upd_mmu g w)\<lparr>w_mem := m\<rparr>"
  by (simp add: upd_mmu_def)

theorem sc_once_witness:
  "\<exists>w1 w2. store_conditional demo_sim 4 0x80000010 7 demo_flat = (Inr False, w1) \<and>
     store_conditional demo_sim 8 0x80000020 9 w1 = (Inr False, w2) \<and> load_reservation_address (mmu_of w2) = - 1"
proof -
  have r: "sim_reservable demo_sim x" for x by (simp add: demo_sim_def)
  have m2: "mmu (w_hart demo_flat) = mmu_init" by (simp add: demo_flat_def demo_hart_def)
  have u: "upd_mmu id demo_flat = demo_flat" by simp
  have f: "store_conditional demo_sim n a v (upd_mmu g demo_flat) = (Inr False, upd_mmu (yield_load_reservation \<circ> g) demo_flat)"
    if "load_reservation_address (g mmu_init) = - 1" "access_aligned a n" "((a AND NOT page_mask) OR (a AND page_mask)) \<noteq> - 1" for n a v g
    using that by (simp add: store_conditional_def check_load_reservation_def bindE_def return_def mmu_free_app [OF translate_free]
        demo_translate hart_of_def mmu_yield_def modify_def r m2)
  have 1: "store_conditional demo_sim 4 0x80000010 7 demo_flat = (Inr False, upd_mmu (yield_load_reservation \<circ> id) demo_flat)"
    using f [of id "0x80000010" 4 7] unfolding u by (simp add: access_aligned_def mmu_init_def)
  have 2: "store_conditional demo_sim 8 0x80000020 9 (upd_mmu (yield_load_reservation \<circ> id) demo_flat) =
      (Inr False, upd_mmu (yield_load_reservation \<circ> (yield_load_reservation \<circ> id)) demo_flat)"
    by (rule f) (simp_all add: access_aligned_def yield_load_reservation_def)
  show ?thesis using sc_once [OF 1 2] 1 2 by blast
qed

lemma lr_translate: "translate S a len LOAD RISCV_XLATE_LR w = translate S a len LOAD 0 w"
  by (simp add: translate_def access_mode_def)

lemma load_reserved_ram:
  assumes "unwatched (tm (w_hart w))" "access_aligned a n" "n \<in> {4, 8}"
    and "translate S a n LOAD 0 w = (Inr pa, w)" "sim_addr_to_mem S pa" "sim_reservable S pa"
  shows "load_reserved S n a w = (Inr (le_word (read_bytes pa n (w_mem w))), upd_mmu (\<lambda>m. m\<lparr>load_reservation_address := pa\<rparr>) w)"
proof -
  have l: "length (read_bytes pa n (w_mem w)) \<in> {1, 2, 4, 8}" using assms(3) by (auto simp: read_bytes_def)
  have u: "unwatched (tm (w_hart (upd_mmu g w)))" for g using assms(1) by simp
  show ?thesis using assms(2,4-6)
    by (simp add: load_reserved_def mmu_load_def Let_def load_slow_path_def bindE_def no_triggers [OF assms(1)] load_slow_path_intrapage_def
        lr_translate hart_of_def load_bytes_def return_def modify_def no_check_value [OF u l])
qed

text \<open>C16: between a load reserved and a store conditional to the same naturally aligned word of main
  memory nothing can take the reservation away, so the pair succeeds: the first returns the word, the
  second succeeds, its bytes are in memory, nothing else of memory changes, and the reservation is gone.\<close>

theorem lr_sc_pair:
  assumes "memory_map S" "still S w" "tlb_ok S w" "unwatched (tm (w_hart w))" "access_aligned a n" "n \<in> {4, 8}"
    and "translate S a n LOAD 0 w = (Inr pa, w)" "translate S a n STORE 0 w = (Inr pa, w)" "translate S a 1 STORE 0 w = (Inr pa, w)"
    and "sim_addr_to_mem S pa" "sim_reservable S pa"
  shows "\<exists>w' g. load_reserved S n a w = (Inr (le_word (read_bytes pa n (w_mem w))), w') \<and>
    store_conditional S n a v w' = (Inr True, (upd_mmu g w)\<lparr>w_mem := write_bytes pa (le_bytes n v) (w_mem w)\<rparr>) \<and>
    load_reservation_address (g (mmu_of w)) = - 1"
proof -
  let ?r = "\<lambda>m. m\<lparr>load_reservation_address := pa\<rparr>"
  let ?w = "upd_mmu ?r w"
  have m: "tlb_match ty b (?r m) = tlb_match ty b m" for ty b m by (cases ty) (simp_all add: tlb_match_def tlb_tag_def)
  have t: "translate S b k ty 0 ?w = apsnd (upd_mmu ?r) (translate S b k ty 0 w)" for b k ty by (rule mmu_free_app [OF translate_free])
  have s: "still S ?w"
    using assms(2) by (simp add: still_def pt_in_memory_def mmu_reads)
  have ok: "tlb_ok S ?w" using assms(3) by (simp add: tlb_ok_def tlb_sound_upd [OF assms(2)]) (simp add: tlb_sound_def m)
  have "uncached_store S n a v ?w = (Inr (), ?w\<lparr>w_mem := write_bytes pa (le_bytes n v) (w_mem w)\<rparr>)"
    using assms(8,10) by (simp add: uncached_store_def bindE_def t hart_of_def store_bytes_def)
  then obtain g where g: "mmu_store S n a v 0 ?w = (Inr (), upd_mmu g (?w\<lparr>w_mem := write_bytes pa (le_bytes n v) (w_mem w)\<rparr>))"
    using memory_map.store_cached [OF assms(1) s ok _ _ assms(5), of v] assms(4,6) by auto
  have "check_load_reservation S a n ?w = (Inr True, ?w)"
    using assms(5,9,11) by (simp add: check_load_reservation_def bindE_def return_def t hart_of_def)
  then have "store_conditional S n a v ?w = (Inr True, (upd_mmu (yield_load_reservation \<circ> g \<circ> ?r) w)\<lparr>w_mem := write_bytes pa (le_bytes n v) (w_mem w)\<rparr>)"
    by (simp add: store_conditional_def bindE_def g mmu_yield_def modify_def return_def comp_assoc)
  then show ?thesis using load_reserved_ram [OF assms(4,5,6,7,10,11)]
    by (intro exI conjI) (assumption, assumption, simp add: yield_load_reservation_def)
qed

theorem lr_sc_pair_witness:
  "\<exists>w' w''. load_reserved demo_sim 8 0x80000000 demo_flat = (Inr 0x200000cf, w') \<and>
     store_conditional demo_sim 8 0x80000000 5 w' = (Inr True, w'') \<and> w_mem w'' 0x80000000 = 5"
proof -
  have t: "tlb_ok demo_sim demo_flat" by (rule fresh_tlb_ok) (simp add: mmu_of_def demo_flat_def demo_hart_def)
  have tr: "translate demo_sim 0x80000000 n ty 0 demo_flat = (Inr 0x80000000, demo_flat)" for n ty
    by (simp add: demo_translate)
  have x: "le_word (read_bytes 0x80000000 8 (w_mem demo_flat)) = 0x200000cf"
    by (simp add: demo_flat_def demo_sv39_def read_bytes_def write_bytes_def le_bytes_def upt_rec)
  have y: "write_bytes 0x80000000 (le_bytes 8 5) m 0x80000000 = 5" for m
    by (simp add: write_bytes_def le_bytes_def upt_rec)
  have "access_aligned 0x80000000 8" by (simp add: access_aligned_def)
  from lr_sc_pair [OF demo_map demo_still(1) t demo_still(2) this _ tr tr tr, of 5] show ?thesis
    by (auto simp: x demo_sim_def y)
qed

end
