(* ===== verification/Insn_Mem_Exact.thy ===== *)
theory Insn_Mem_Exact
  imports Insn_Mem Mmu_Reserve
begin

text \<open>
  What the memory instructions do to main memory: bytes written are the bytes read back, and an
  atomic memory operation is one exchange of a word of memory with a register.
\<close>

subsection \<open>Bytes\<close>

lemma bit_le_word: "bit (le_word bs) j \<longleftrightarrow> j < 64 \<and> j div 8 < length bs \<and> bit (bs ! (j div 8)) (j mod 8)"
proof (induction bs arbitrary: j)
  case (Cons b bs)
  show ?case
  proof (cases "j < 8")
    case True
    then show ?thesis by (auto simp: bit_or_iff bit_ucast_iff bit_push_bit_iff)
  next
    case False
    then have d: "j div 8 = Suc ((j - 8) div 8)" "j mod 8 = (j - 8) mod 8" by (simp_all add: div_if mod_if)
    have "\<not> bit b j" using False bit_imp_le_length [of b j] by auto
    then show ?thesis using False by (auto simp: bit_or_iff bit_ucast_iff bit_push_bit_iff Cons.IH d)
  qed
qed simp

lemma le_word_bytes: "le_word (le_bytes n v) = take_bit (8 * n) v"
proof (rule bit_word_eqI)
  fix j assume "j < LENGTH(64)"
  then show "bit (le_word (le_bytes n v)) j = bit (take_bit (8 * n) v) j"
    by (auto simp: bit_le_word le_bytes_def bit_take_bit_iff bit_ucast_iff bit_drop_bit_eq less_mult_imp_div_less mult.commute [of 8]
        div_less_iff_less_mult)
qed

lemma read_written:
  assumes "length bs \<le> 2 ^ 64"
  shows "read_bytes a (length bs) (write_bytes a bs m) = bs"
proof (rule nth_equalityI)
  fix i assume "i < length (read_bytes a (length bs) (write_bytes a bs m))"
  then have i: "i < length bs" by (simp add: read_bytes_def)
  then have "take_bit 64 i = i" using assms by (intro take_bit_nat_eq_self) simp
  then show "read_bytes a (length bs) (write_bytes a bs m) ! i = bs ! i"
    using i by (simp add: read_bytes_def write_bytes_def unsigned_of_nat)
qed (simp add: read_bytes_def)

lemma read_after_write: "n \<le> 8 \<Longrightarrow> le_word (read_bytes a n (write_bytes a (le_bytes n v) m)) = take_bit (8 * n) v"
  using read_written [of "le_bytes n v" a m] by (simp add: le_bytes_def le_word_bytes [unfolded le_bytes_def])

lemma stored_bytes_loaded:
  fixes w :: "'b world"
  defines "m \<equiv> \<lambda>pa n v. write_bytes pa (le_bytes n v) (w_mem w)"
  assumes "memory_map S" "still S w" "tlb_ok S w" "unwatched (tm (w_hart w))" "n \<in> {1, 2, 4, 8}" "access_aligned a n"
    and "translate S a n STORE 0 w = (Inr pa, w)" "translate S a n LOAD 0 w = (Inr pa, w)" "sim_addr_to_mem S pa"
    and "still S (w\<lparr>w_mem := m pa n v\<rparr>)" "same_tables S w (w\<lparr>w_mem := m pa n v\<rparr>)"
  shows "\<exists>g g'. mmu_store S n a v 0 w = (Inr (), upd_mmu g (w\<lparr>w_mem := m pa n v\<rparr>)) \<and>
    mmu_load S n a 0 (upd_mmu g (w\<lparr>w_mem := m pa n v\<rparr>)) = (Inr (take_bit (8 * n) v), upd_mmu g' (w\<lparr>w_mem := m pa n v\<rparr>))"
proof -
  let ?w = "w\<lparr>w_mem := m pa n v\<rparr>"
  have "uncached_store S n a v w = (Inr (), ?w)"
    using assms(8,10) by (simp add: uncached_store_def bindE_def hart_of_def store_bytes_def m_def)
  then obtain g where st: "mmu_store S n a v 0 w = (Inr (), upd_mmu g ?w)" and ok: "tlb_ok S (upd_mmu g ?w)"
    using memory_map.store_cached [OF assms(2-7), of v] assms(11,12) by auto
  have s: "still S (upd_mmu g ?w)" using assms(11) by (simp add: still_def pt_in_memory_def mmu_reads)
  have "translate S a n LOAD 0 ?w = (Inr pa, ?w)" using assms(9,12) by (simp add: same_tables_def)
  then have "uncached_load S n a (upd_mmu g ?w) = (Inr (le_word (read_bytes pa n (m pa n v))), upd_mmu g ?w)"
    using assms(10) by (simp add: uncached_load_def bindE_def hart_of_def load_bytes_def return_def mmu_free_app [OF translate_free] del: upd_mem)
  moreover have "n \<le> 8" using assms(6) by auto
  ultimately obtain g' where "mmu_load S n a 0 (upd_mmu g ?w) = (Inr (take_bit (8 * n) v), upd_mmu g' (upd_mmu g ?w))"
    using memory_map.load_cached [OF assms(2) s ok _ assms(6,7)] assms(5) st by (auto simp: m_def read_after_write)
  then show ?thesis using st by (auto simp: upd_mmu_def)
qed

subsection \<open>Loads and stores\<close>

lemma reg_steps:
  "read_reg False i r h = (Inr (regfile_read (XPR h) r), h)"
  "write_reg False i r v h = (Inr (), h\<lparr>XPR := regfile_write True (XPR h) r v\<rparr>)"
  by (simp_all add: read_reg_def write_reg_def require_def gets_def modify_def)

text \<open>The base stores and loads with their widths; a load is signed or not.\<close>

definition base_stores :: "(nat \<times> 'b mem_insn) list" where
  "base_stores = [(1, insn_sb), (2, insn_sh), (4, insn_sw), (8, insn_sd)]"

definition base_loads :: "(nat \<times> bool \<times> 'b mem_insn) list" where
  "base_loads = [(1, True, insn_lb), (2, True, insn_lh), (4, True, insn_lw), (8, True, insn_ld),
     (1, False, insn_lbu), (2, False, insn_lhu), (4, False, insn_lwu)]"

definition extended :: "bool \<Rightarrow> nat \<Rightarrow> reg_t \<Rightarrow> reg_t" where
  "extended sg n v = (if sg then signed_take_bit (8 * n - 1) v else take_bit (8 * n) v)"

lemma extensions:
  "sext8 v = signed_take_bit 7 v" "sext16 v = signed_take_bit 15 v" "sext32 v = signed_take_bit 31 v"
  "zext32 v = take_bit 32 v"
  unfolding sext8_def sext16_def sext32_def zext32_def
  by (auto intro!: bit_word_eqI simp: bit_simps min_def)

lemma extended_take:
  "signed_take_bit 7 (take_bit 8 v) = signed_take_bit 7 (v :: reg_t)"
  "signed_take_bit 15 (take_bit 16 v) = signed_take_bit 15 (v :: reg_t)"
  "signed_take_bit 31 (take_bit 32 v) = signed_take_bit 31 (v :: reg_t)"
  "take_bit 64 (v :: reg_t) = v"
  by (auto intro!: bit_word_eqI simp: bit_simps min_def)

lemma extended_all: "signed_take_bit 63 (v :: reg_t) = v"
proof (rule bit_word_eqI)
  fix k assume "k < LENGTH(64)"
  then show "bit (signed_take_bit 63 v) k = bit v k" by (simp add: bit_signed_take_bit_iff min_absorb1)
qed

lemma base_store_app:
  assumes "(n, st) \<in> set base_stores" "x = 64 \<or> n < 8"
    and "mmu_store S n (regfile_read (XPR (w_hart w)) (rs1 i) + s_imm i) (regfile_read (XPR (w_hart w)) (rs2 i)) 0 w = (Inr (), w')"
  shows "st S x False i pc w = (Inr (next_pc x 4 pc), w')"
  using assms by (auto simp: base_stores_def insn_sb_def insn_sh_def insn_sw_def insn_sd_def mem_store_def bindE_def on_hart_def
     reg_steps return_def require_rv64_def require_def)

lemma base_load_app:
  assumes "(n, sg, ld) \<in> set base_loads" "x = 64 \<or> n < 4 \<or> n = 4 \<and> sg"
    and "mmu_load S n (regfile_read (XPR (w_hart w)) (rs1 i) + i_imm i) 0 w = (Inr (take_bit (8 * n) v), w')"
  shows "ld S x False i pc w = (Inr (next_pc x 4 pc),
    w'\<lparr>w_hart := (w_hart w')\<lparr>XPR := regfile_write True (XPR (w_hart w')) (rd i) (extended sg n v)\<rparr>\<rparr>)"
  using assms by (auto simp: base_loads_def insn_lb_def insn_lh_def insn_lw_def insn_ld_def insn_lbu_def insn_lhu_def insn_lwu_def
     mem_load_def bindE_def on_hart_def reg_steps return_def require_rv64_def require_def extended_def extensions extended_take extended_all)

text \<open>A hart with the atomic extension, a pointer to a word of memory and a negative word in its registers.\<close>

definition demo_amo :: "unit world" where
  "demo_amo = demo_flat\<lparr>w_hart := demo_hart\<lparr>csrv := (csrv demo_hart)(CSR_MISA := 1),
     XPR := (\<lambda>_. 0)(5 := 0x80000000, 6 := 0xfffffffb)\<rparr>\<rparr>"

lemma demo_amo_map:
  "still demo_sim demo_amo" "unwatched (tm (w_hart demo_amo))" "tlb_ok demo_sim demo_amo" "extension_enabled ISA_A (w_hart demo_amo)"
  "regfile_read (XPR (w_hart demo_amo)) 5 = 0x80000000" "regfile_read (XPR (w_hart demo_amo)) 6 = 0xfffffffb"
proof -
  show "tlb_ok demo_sim demo_amo" by (rule fresh_tlb_ok) (simp add: mmu_of_def demo_amo_def demo_flat_def demo_hart_def)
  show "still demo_sim demo_amo" "unwatched (tm (w_hart demo_amo))"
    by (simp_all add: still_def pt_in_memory_def demo_sim_def demo_amo_def demo_flat_def demo_hart_def hade_enabled_def henvcfg_read_def
        unwatched_def module_init_def new_trigger_def list_all_iff)
  show "extension_enabled ISA_A (w_hart demo_amo)" by (simp add: extension_enabled_def misa_extension_enabled_def demo_amo_def)
qed (simp_all add: regfile_read_def demo_amo_def)

lemma demo_amo_translate:
  "translate demo_sim a n ty 0 (demo_amo\<lparr>w_mem := m\<rparr>) = (Inr ((a AND NOT page_mask) OR (a AND page_mask)), demo_amo\<lparr>w_mem := m\<rparr>)"
  "translate demo_sim a n ty 0 demo_amo = (Inr ((a AND NOT page_mask) OR (a AND page_mask)), demo_amo)"
  by (cases ty; simp add: translate_def access_mode_def in_mprv_def demo_amo_def demo_flat_def demo_hart_def nmie_def mstatus_read_def walk_def
      decode_vm_info_def vm_off_def s2xlate_def bindE_def return_def hart_of_def pmp_ok_def pmp_reset_def get_field_def all_ones)+

text \<open>C14: a base store (\<open>sb\<close>, \<open>sh\<close>, \<open>sw\<close>, \<open>sd\<close>) followed by a base load of the same width (\<open>lb\<close>,
  \<open>lbu\<close>, \<open>lh\<close>, \<open>lhu\<close>, \<open>lw\<close>, \<open>lwu\<close>, \<open>ld\<close>) at the same effective address, naturally aligned and in
  main memory, puts the low bytes of the stored register into \<open>rd\<close>, sign extended by the signed loads
  and zero extended by the others, whatever sound entries the translation cache holds, as long as the
  store did not hit the page tables. Memory has exactly the stored bytes changed, and nothing else of
  the machine differs but \<open>rd\<close> and the translation cache. The doubleword forms and \<open>lwu\<close> need the
  64-bit machine; the hart has all thirty-two registers.\<close>

theorem store_then_load:
  fixes w :: "'b world" and i j :: insn_t and pa :: reg_t and n :: nat
  defines "R \<equiv> regfile_read (XPR (w_hart w))"
  defines "a \<equiv> R (rs1 i) + s_imm i"
  defines "m \<equiv> write_bytes pa (le_bytes n (R (rs2 i))) (w_mem w)"
  assumes "(n, st) \<in> set base_stores" "(n, sg, ld) \<in> set base_loads" "x = 64 \<or> n < 4 \<or> n = 4 \<and> sg"
    and "R (rs1 j) + i_imm j = a"
    and "memory_map S" "still S w" "tlb_ok S w" "unwatched (tm (w_hart w))" "access_aligned a n"
    and "translate S a n STORE 0 w = (Inr pa, w)" "translate S a n LOAD 0 w = (Inr pa, w)" "sim_addr_to_mem S pa"
    and "still S (w\<lparr>w_mem := m\<rparr>)" "same_tables S w (w\<lparr>w_mem := m\<rparr>)"
  shows "\<exists>w' g. st S x False i pc w = (Inr (next_pc x 4 pc), w') \<and>
    ld S x False j pc' w' = (Inr (next_pc x 4 pc'),
      w\<lparr>w_mem := m, w_hart := (w_hart w)\<lparr>mmu := g (mmu (w_hart w)),
        XPR := regfile_write True (XPR (w_hart w)) (rd j) (extended sg n (R (rs2 i)))\<rparr>\<rparr>)"
proof -
  have n: "n \<in> {1, 2, 4, 8}" using assms(4) by (auto simp: base_stores_def)
  obtain g g' where st: "mmu_store S n a (R (rs2 i)) 0 w = (Inr (), upd_mmu g (w\<lparr>w_mem := m\<rparr>))"
    and ld: "mmu_load S n a 0 (upd_mmu g (w\<lparr>w_mem := m\<rparr>)) = (Inr (take_bit (8 * n) (R (rs2 i))), upd_mmu g' (w\<lparr>w_mem := m\<rparr>))"
    using stored_bytes_loaded [OF assms(8-11) n assms(12-15), of "R (rs2 i)"] assms(16,17) unfolding m_def by blast
  have R: "regfile_read (XPR (w_hart (upd_mmu g (w\<lparr>w_mem := m\<rparr>)))) (rs1 j) + i_imm j = a"
    using assms(7) by (simp add: R_def mmu_reads)
  have "x = 64 \<or> n < 8" using assms(6) by auto
  note s = base_store_app [OF assms(4) this st [unfolded a_def R_def], of pc]
  note l = base_load_app [OF assms(5,6) ld [folded R], of pc']
  show ?thesis
    by (rule exI, rule exI [of _ g'], rule conjI [OF s], subst l) (simp add: upd_mmu_def)
qed

theorem store_then_load_witness:
  "\<exists>w' w''. insn_sw demo_sim 64 False 0x0062a023 0x1000 demo_amo = (Inr 0x1004, w') \<and>
     insn_lw demo_sim 64 False 0x0002a383 0x1004 w' = (Inr 0x1008, w'') \<and>
     regfile_read (XPR (w_hart w'')) 7 = 0xfffffffffffffffb"
proof -
  let ?m = "write_bytes 0x80000000 (le_bytes 4 0xfffffffb) (w_mem demo_amo)"
  have r: "rs1 0x0062a023 = 5" "rs2 0x0062a023 = 6" "rs1 0x0002a383 = 5" "rd 0x0002a383 = 7" "s_imm 0x0062a023 = 0" "i_imm 0x0002a383 = 0"
    by (simp_all add: rs1_def rs2_def rd_def x_bits_def s_imm_def i_imm_def xs_bits_def)
  have s: "still demo_sim (demo_amo\<lparr>w_mem := ?m\<rparr>)"
    using demo_amo_map(1) by (simp add: still_def pt_in_memory_def demo_sim_def)
  have t: "same_tables demo_sim demo_amo (demo_amo\<lparr>w_mem := ?m\<rparr>)"
    by (simp only: same_tables_def demo_amo_translate) auto
  have al: "access_aligned 0x80000000 4" "sim_addr_to_mem demo_sim 0x80000000" by (simp_all add: access_aligned_def demo_sim_def)
  have ins: "(4, insn_sw) \<in> set base_stores" "(4, True, insn_lw) \<in> set base_loads"
    by (simp_all add: base_stores_def base_loads_def)
  note T = demo_amo_translate(2) [of "0x80000000", simplified]
  show ?thesis
    using store_then_load [where S = demo_sim and w = demo_amo and n = 4 and i = "0x0062a023" and j = "0x0002a383" and pa = "0x80000000"
      and x = 64 and st = insn_sw and ld = insn_lw and sg = True and pc = "0x1000" and pc' = "0x1004"]
      ins demo_map demo_amo_map(1-3) al s t T unfolding r demo_amo_map(5,6)
    by (fastforce simp: next_pc_def sext_xlen_def regfile_read_def regfile_write_def extended_def)
qed

subsection \<open>Atomic memory operations\<close>

lemma amo_lock:
  assumes "still S w" "tlb_ok S w" "access_aligned a n" "translate S a n STORE 0 w = (Inr pa, w)"
  shows "store_slow_path S a [] n 0 False True w = (Inr (), w)"
  using assms(3,4) by (simp add: store_slow_path_def store_slow_path_intrapage_def bindE_def return_def Let_def)

lemma amo_ram:
  assumes "memory_map S" "still S w" "tlb_ok S w" "unwatched (tm (w_hart w))" "n \<in> {4, 8}" "access_aligned a n"
    and "translate S a n STORE 0 w = (Inr pa, w)" "translate S a n LOAD 0 w = (Inr pa, w)" "sim_addr_to_mem S pa"
    and f: "\<And>g lhs. f lhs (w_hart (upd_mmu g w)) = (Inr (F lhs), w_hart (upd_mmu g w))"
  defines "old \<equiv> le_word (read_bytes pa n (w_mem w))"
  shows "\<exists>g. amo S n a f w = (Inr old, (upd_mmu g w)\<lparr>w_mem := write_bytes pa (le_bytes n (F old)) (w_mem w)\<rparr>)"
proof -
  have n: "n \<in> {1, 2, 4, 8}" using assms(5) by auto
  have "uncached_load S n a w = (Inr old, w)"
    using assms(8,9) by (simp add: uncached_load_def bindE_def hart_of_def load_bytes_def return_def old_def)
  then obtain g where ld: "mmu_load S n a 0 w = (Inr old, upd_mmu g w)" and ok: "tlb_ok S (upd_mmu g w)"
    using memory_map.load_cached [OF assms(1-4) n assms(6)] by auto
  have s: "still S (upd_mmu g w)" using assms(2) by (simp add: still_def pt_in_memory_def mmu_reads)
  have "uncached_store S n a (F old) (upd_mmu g w) = (Inr (), (upd_mmu g w)\<lparr>w_mem := write_bytes pa (le_bytes n (F old)) (w_mem w)\<rparr>)"
    using assms(7,9) by (simp add: uncached_store_def bindE_def hart_of_def store_bytes_def mmu_free_app [OF translate_free])
  then obtain g' where st: "mmu_store S n a (F old) 0 (upd_mmu g w) =
      (Inr (), upd_mmu g' ((upd_mmu g w)\<lparr>w_mem := write_bytes pa (le_bytes n (F old)) (w_mem w)\<rparr>))"
    using memory_map.store_cached [OF assms(1) s ok _ n assms(6), of "F old"] assms(4) by auto
  have "on_hart (f old) (upd_mmu g w) = (Inr (F old), upd_mmu g w)"
    using f [of old g] by (simp add: on_hart_def)
  then have "amo S n a f w = (Inr old, upd_mmu g' ((upd_mmu g w)\<lparr>w_mem := write_bytes pa (le_bytes n (F old)) (w_mem w)\<rparr>))"
    by (simp add: amo_def convert_load_traps_def catchE_def bindE_def return_def amo_lock [OF assms(2,3,6,7)] ld st)
  then show ?thesis by auto
qed

text \<open>The frame that all of them share, for any operation and conversion.\<close>

lemma amo_frame_exact:
  fixes w :: "'b world" and i :: insn_t and pa :: reg_t and n :: nat
  defines "h \<equiv> w_hart w"
  defines "a \<equiv> regfile_read (XPR h) (rs1 i)" and "b \<equiv> regfile_read (XPR h) (rs2 i)"
  assumes "memory_map S" "still S w" "tlb_ok S w" "unwatched (tm h)" "n \<in> {4, 8}" "access_aligned a n"
    and "translate S a n STORE 0 w = (Inr pa, w)" "translate S a n LOAD 0 w = (Inr pa, w)" "sim_addr_to_mem S pa"
    and "extension_enabled ISA_A h" "req x i h = (Inr (), h)"
  defines "old \<equiv> le_word (read_bytes pa n (w_mem w))"
  shows "\<exists>g. amo_insn n conv req f S x False i pc w = (Inr (next_pc x 4 pc),
    w\<lparr>w_hart := h\<lparr>mmu := g (mmu h), XPR := regfile_write True (XPR h) (rd i) (conv old)\<rparr>,
      w_mem := write_bytes pa (le_bytes n (f old b)) (w_mem w)\<rparr>)"
proof -
  let ?f = "\<lambda>lhs. bindE (RS2 False i) (\<lambda>b. return (f lhs b))"
  have f: "?f lhs (w_hart (upd_mmu g w)) = (Inr (f lhs b), w_hart (upd_mmu g w))" for g lhs
    by (simp add: RS2_def bindE_def reg_steps return_def b_def h_def)
  from amo_ram [where f = ?f and F = "\<lambda>lhs. f lhs b", OF assms(4-6) assms(7) [unfolded h_def] assms(8-12) f]
  obtain g where g: "amo S n a ?f w = (Inr old, (upd_mmu g w)\<lparr>w_mem := write_bytes pa (le_bytes n (f old b)) (w_mem w)\<rparr>)"
    unfolding old_def by blast
  have "on_hart (require_extension ISA_A i) w = (Inr (), w)" "on_hart (req x i) w = (Inr (), w)" "on_hart (RS1 False i) w = (Inr a, w)"
    using assms(13,14) by (simp_all add: on_hart_def require_extension_def require_def return_def RS1_def reg_steps a_def h_def)
  then show ?thesis using g
    by (intro exI [of _ g]) (simp add: amo_insn_def bindE_def on_hart_def [of "write_reg e i r v" for e i r v] WRITE_RD_def reg_steps return_def upd_mmu_def h_def)
qed

text \<open>The nine operations on words of the width of the access, as the manual gives them.\<close>

datatype amo_op = Amo_swap | Amo_add | Amo_and | Amo_or | Amo_xor | Amo_min | Amo_max | Amo_minu | Amo_maxu

fun amo_spec :: "amo_op \<Rightarrow> 'w::len word \<Rightarrow> 'w word \<Rightarrow> 'w word" where
  "amo_spec Amo_swap a b = b"
| "amo_spec Amo_add a b = a + b"
| "amo_spec Amo_and a b = a AND b"
| "amo_spec Amo_or a b = a OR b"
| "amo_spec Amo_xor a b = a XOR b"
| "amo_spec Amo_min a b = (if sint a \<le> sint b then a else b)"
| "amo_spec Amo_max a b = (if sint b \<le> sint a then a else b)"
| "amo_spec Amo_minu a b = (if unat a \<le> unat b then a else b)"
| "amo_spec Amo_maxu a b = (if unat b \<le> unat a then a else b)"

text \<open>The eighteen instructions, those on doublewords marked \<open>True\<close>.\<close>

definition amo_insns :: "(bool \<times> amo_op \<times> 'b mem_insn) list" where
  "amo_insns =
    [(False, Amo_swap, insn_amoswap_w), (False, Amo_add, insn_amoadd_w), (False, Amo_and, insn_amoand_w),
     (False, Amo_or, insn_amoor_w), (False, Amo_xor, insn_amoxor_w), (False, Amo_min, insn_amomin_w),
     (False, Amo_max, insn_amomax_w), (False, Amo_minu, insn_amominu_w), (False, Amo_maxu, insn_amomaxu_w),
     (True, Amo_swap, insn_amoswap_d), (True, Amo_add, insn_amoadd_d), (True, Amo_and, insn_amoand_d),
     (True, Amo_or, insn_amoor_d), (True, Amo_xor, insn_amoxor_d), (True, Amo_min, insn_amomin_d),
     (True, Amo_max, insn_amomax_d), (True, Amo_minu, insn_amominu_d), (True, Amo_maxu, insn_amomaxu_d)]"

definition amo_result :: "bool \<Rightarrow> amo_op \<Rightarrow> reg_t \<Rightarrow> reg_t \<Rightarrow> reg_t" where
  "amo_result wide op a b = (if wide then amo_spec op a b else ucast (amo_spec op (ucast a :: u32) (ucast b)))"

lemma le_bytes_word: "le_bytes 4 (ucast (ucast v :: u32)) = le_bytes 4 v"
  unfolding le_bytes_def
  by (rule map_cong [OF refl]) (auto intro!: bit_word_eqI simp: bit_simps less_imp_le_nat)

lemma word_half_add: "(ucast (a + b) :: u32) = ucast a + ucast (b :: reg_t)"
  by (rule word_unat_eq_iff [THEN iffD2]) (simp add: unsigned_ucast_eq take_bit_eq_mod unat_word_ariths mod_mod_cancel mod_simps)

lemma word_halves:
  "(ucast (a AND b) :: u32) = ucast a AND ucast (b :: reg_t)" "(ucast (a OR b) :: u32) = ucast a OR ucast b"
  "(ucast (a XOR b) :: u32) = ucast a XOR ucast b"
  by (auto intro!: bit_word_eqI simp: bit_simps)

lemma word_half_of_ext: "(ucast (sext32 v) :: u32) = ucast v" "(ucast (zext32 v) :: u32) = ucast v"
  unfolding sext32_def zext32_def by (auto intro!: bit_word_eqI simp: bit_simps)

lemma half_of_word: "(ucast (ucast v :: reg_t) :: u32) = v"
  by (auto intro!: bit_word_eqI simp: bit_simps)

lemma word_half_order:
  "sext32 a <s sext32 b \<longleftrightarrow> sint (ucast a :: u32) < sint (ucast b :: u32)"
  "zext32 a < zext32 b \<longleftrightarrow> unat (ucast a :: u32) < unat (ucast b :: u32)"
proof -
  have s: "sint (sext32 v) = sint (ucast v :: u32)" for v unfolding sext32_def by (simp add: sint_up_scast is_up)
  have u: "unat (zext32 v) = unat (ucast v :: u32)" for v unfolding zext32_def by (simp add: unsigned_ucast_eq unsigned_take_bit_eq)
  show "sext32 a <s sext32 b \<longleftrightarrow> sint (ucast a :: u32) < sint (ucast b :: u32)" by (simp add: word_sless_alt s)
  show "zext32 a < zext32 b \<longleftrightarrow> unat (ucast a :: u32) < unat (ucast b :: u32)" by (simp add: word_less_nat_alt u)
qed

lemma le_bytes_halves: "(ucast u :: u32) = ucast v \<Longrightarrow> le_bytes 4 u = le_bytes 4 v"
  by (metis le_bytes_word)

text \<open>Each instruction is the frame with a function that agrees with the manual's operation in the
  bytes written.\<close>

definition amo_width :: "bool \<Rightarrow> nat" where "amo_width wide = (if wide then 8 else 4)"

definition amo_old :: "bool \<Rightarrow> reg_t \<Rightarrow> reg_t" where
  "amo_old wide v = (if wide then v else signed_take_bit 31 v)"

lemma amo_doubleword:
  "(+) = amo_spec Amo_add" "(AND) = amo_spec Amo_and" "(OR) = amo_spec Amo_or" "(XOR) = amo_spec Amo_xor"
  "(\<lambda>a b. b) = amo_spec Amo_swap" "amo_min = amo_spec Amo_min" "amo_max = amo_spec Amo_max"
  "amo_minu = amo_spec Amo_minu" "amo_maxu = amo_spec Amo_maxu"
  by (auto simp: fun_eq_iff amo_min_def amo_max_def amo_minu_def amo_maxu_def word_sless_alt word_less_nat_alt)

lemma amo_word:
  "(ucast (a + b :: reg_t) :: u32) = amo_spec Amo_add (ucast a) (ucast b)"
  "(ucast (a AND b :: reg_t) :: u32) = amo_spec Amo_and (ucast a) (ucast b)"
  "(ucast (a OR b :: reg_t) :: u32) = amo_spec Amo_or (ucast a) (ucast b)"
  "(ucast (a XOR b :: reg_t) :: u32) = amo_spec Amo_xor (ucast a) (ucast b)"
  "(ucast b :: u32) = amo_spec Amo_swap (ucast a) (ucast (b :: reg_t))"
  "(ucast (amo_min (sext32 a) (sext32 b)) :: u32) = amo_spec Amo_min (ucast a) (ucast b)"
  "(ucast (amo_max (sext32 a) (sext32 b)) :: u32) = amo_spec Amo_max (ucast a) (ucast b)"
  "(ucast (amo_minu (zext32 a) (zext32 b)) :: u32) = amo_spec Amo_minu (ucast a) (ucast b)"
  "(ucast (amo_maxu (zext32 a) (zext32 b)) :: u32) = amo_spec Amo_maxu (ucast a) (ucast b)"
  by (auto simp: amo_min_def amo_max_def amo_minu_def amo_maxu_def word_half_order word_half_of_ext word_half_add word_halves)

lemma amo_frame_word:
  assumes "insn = amo_insn 4 sext32 (\<lambda>x i. return ()) f" "\<And>a b. (ucast (f a b) :: u32) = amo_spec op (ucast a) (ucast b)"
  shows "\<exists>f req. insn = amo_insn (amo_width False) (amo_old False) req f \<and>
     (\<forall>a b. le_bytes (amo_width False) (f a b) = le_bytes (amo_width False) (amo_result False op a b)) \<and>
     (\<forall>x i h. x = 64 \<or> \<not> False \<longrightarrow> req x i h = (Inr (), h))"
proof -
  have "amo_old False = sext32" by (auto simp: fun_eq_iff amo_old_def extensions)
  moreover have "le_bytes 4 (f a b) = le_bytes 4 (amo_result False op a b)" for a b
    using assms(2) by (intro le_bytes_halves) (simp add: amo_result_def half_of_word)
  ultimately show ?thesis using assms(1)
    by (intro exI [of _ f] exI [of _ "\<lambda>x i. return ()"]) (simp add: amo_width_def return_def)
qed

lemma amo_frame_doubleword:
  assumes "insn = amo_insn 8 (\<lambda>v. v) require_rv64 (amo_spec op)"
  shows "\<exists>f req. insn = amo_insn (amo_width True) (amo_old True) req f \<and>
     (\<forall>a b. le_bytes (amo_width True) (f a b) = le_bytes (amo_width True) (amo_result True op a b)) \<and>
     (\<forall>x i h. x = 64 \<or> \<not> True \<longrightarrow> req x i h = (Inr (), h))"
proof -
  have "amo_old True = (\<lambda>v. v)" by (auto simp: fun_eq_iff amo_old_def)
  then show ?thesis using assms
    by (intro exI [of _ "amo_spec op"] exI [of _ require_rv64])
      (simp add: amo_width_def amo_result_def require_rv64_def require_def return_def)
qed

lemmas amo_insn_defs =
  insn_amoswap_w_def insn_amoadd_w_def insn_amoand_w_def insn_amoor_w_def insn_amoxor_w_def insn_amomin_w_def insn_amomax_w_def
  insn_amominu_w_def insn_amomaxu_w_def insn_amoswap_d_def insn_amoadd_d_def insn_amoand_d_def insn_amoor_d_def
  insn_amoxor_d_def insn_amomin_d_def insn_amomax_d_def insn_amominu_d_def insn_amomaxu_d_def

lemma amo_insns_word:
  assumes "(False, op, insn) \<in> set amo_insns"
  obtains f where "insn = amo_insn 4 sext32 (\<lambda>x i. return ()) f" "\<And>a b. (ucast (f a b) :: u32) = amo_spec op (ucast a) (ucast b)"
  using assms unfolding amo_insns_def amo_insn_defs list.set
  by (elim insertE emptyE; simp only: prod.inject simp_thms; elim conjE; hypsubst) (metis amo_word)+

lemma amo_insns_doubleword: "(True, op, insn) \<in> set amo_insns \<Longrightarrow> insn = amo_insn 8 (\<lambda>v. v) require_rv64 (amo_spec op)"
  unfolding amo_insns_def amo_insn_defs amo_doubleword list.set by auto

lemma amo_insn_frame:
  assumes "(wide, op, insn) \<in> set amo_insns"
  shows "\<exists>f req. insn = amo_insn (amo_width wide) (amo_old wide) req f \<and>
     (\<forall>a b. le_bytes (amo_width wide) (f a b) = le_bytes (amo_width wide) (amo_result wide op a b)) \<and>
     (\<forall>x i h. x = 64 \<or> \<not> wide \<longrightarrow> req x i h = (Inr (), h))"
proof (cases wide)
  case True
  with amo_insns_doubleword [of op insn] assms have "insn = amo_insn 8 (\<lambda>v. v) require_rv64 (amo_spec op)" by simp
  from amo_frame_doubleword [OF this] True show ?thesis by simp
next
  case False
  with assms have "(False, op, insn) \<in> set amo_insns" by simp
  then obtain f where "insn = amo_insn 4 sext32 (\<lambda>x i. return ()) f" "\<And>a b. (ucast (f a b) :: u32) = amo_spec op (ucast a) (ucast b)"
    by (rule amo_insns_word) blast
  from amo_frame_word [OF this] False show ?thesis by simp
qed

text \<open>C15: each of the eighteen atomic memory operations, on a naturally aligned word or doubleword
  of main memory that it may load and store, puts the value it found into \<open>rd\<close>, a word sign extended,
  and into memory the bytes of the manual's operation on that value and \<open>rs2\<close> at the width of the
  access, the signed minimum and maximum on signed values. It changes nothing else except entries of
  the translation cache. The doubleword forms need the 64-bit machine; the hart has all thirty-two
  registers.\<close>

theorem amo_insn_exact:
  fixes w :: "'b world" and i :: insn_t and pa :: reg_t and wide :: bool
  defines "h \<equiv> w_hart w" and "n \<equiv> amo_width wide"
  defines "a \<equiv> regfile_read (XPR h) (rs1 i)" and "b \<equiv> regfile_read (XPR h) (rs2 i)"
  defines "old \<equiv> le_word (read_bytes pa n (w_mem w))"
  assumes "(wide, op, insn) \<in> set amo_insns" "x = 64 \<or> \<not> wide" "extension_enabled ISA_A h"
    and "memory_map S" "still S w" "tlb_ok S w" "unwatched (tm h)" "access_aligned a n"
    and "translate S a n STORE 0 w = (Inr pa, w)" "translate S a n LOAD 0 w = (Inr pa, w)" "sim_addr_to_mem S pa"
  shows "\<exists>g. insn S x False i pc w = (Inr (next_pc x 4 pc),
    w\<lparr>w_hart := h\<lparr>mmu := g (mmu h), XPR := regfile_write True (XPR h) (rd i) (amo_old wide old)\<rparr>,
      w_mem := write_bytes pa (le_bytes n (amo_result wide op old b)) (w_mem w)\<rparr>)"
proof -
  obtain f req where *: "insn = amo_insn n (amo_old wide) req f"
      "\<And>a b. le_bytes n (f a b) = le_bytes n (amo_result wide op a b)" "req x i h = (Inr (), h)"
    using amo_insn_frame [OF assms(6)] assms(7) unfolding n_def by blast
  have "n \<in> {4, 8}" by (simp add: n_def amo_width_def)
  from amo_frame_exact [where S = S and w = w and n = n and i = i and pa = pa and x = x and req = req and conv = "amo_old wide" and f = f and pc = pc,
      folded h_def, folded a_def b_def old_def, OF assms(9-12) this assms(13-16) assms(8) *(3)]
  show ?thesis unfolding * .
qed

theorem amo_insn_exact_witness:
  "\<exists>w'. insn_amomin_w demo_sim 64 False 0x8062a3af 0x1000 demo_amo = (Inr 0x1004, w') \<and>
     regfile_read (XPR (w_hart w')) 7 = 0x200000cf \<and> le_word (read_bytes 0x80000000 4 (w_mem w')) = 0xfffffffb"
proof -
  have r: "rs1 0x8062a3af = 5" "rs2 0x8062a3af = 6" "rd 0x8062a3af = 7"
    by (simp_all add: rs1_def rs2_def rd_def x_bits_def)
  have al: "access_aligned 0x80000000 4" "sim_addr_to_mem demo_sim 0x80000000" by (simp_all add: access_aligned_def demo_sim_def)
  have m: "le_word (read_bytes 0x80000000 4 (w_mem demo_amo)) = 0x200000cf"
    by (simp add: demo_amo_def demo_flat_def demo_sv39_def read_bytes_def write_bytes_def le_bytes_def upt_rec)
  have ins: "(False, Amo_min, insn_amomin_w) \<in> set amo_insns" by (simp add: amo_insns_def)
  note T = demo_amo_translate(2) [of "0x80000000", simplified]
  show ?thesis
    using amo_insn_exact [where S = demo_sim and w = demo_amo and wide = False and op = Amo_min and i = "0x8062a3af" and pa = "0x80000000"
      and x = 64 and pc = "0x1000" and insn = insn_amomin_w]
      ins demo_map demo_amo_map(1-4) al T unfolding r demo_amo_map(5,6)
    by (fastforce simp: amo_width_def m next_pc_def sext_xlen_def regfile_read_def regfile_write_def amo_old_def amo_result_def read_after_write)
qed

end
