(* ===== verification/Devices.thy ===== *)
theory Devices
  imports Mmu
begin

text \<open>
  The devices of riscv/devices.cc and their like: registers accessed by bytes (the little-endian
  helpers of riscv/devices.h), the bus as an ordered map from base addresses, sparse memory, the boot ROM,
  the frame buffer and the synchronous disk, whose commands copy sectors over the bus.
\<close>

subsection \<open>Registers of a device\<close>

text \<open>\<open>T\<close> is the type of the register; \<open>None\<close> is the failed assertion on the length.\<close>

definition reg_bytes :: "'a::len word itself \<Rightarrow> nat" where
  "reg_bytes t = LENGTH('a) div 8"

definition reg_shift :: "'a::len word itself \<Rightarrow> reg_t \<Rightarrow> nat" where
  "reg_shift t addr = 8 * (unat addr mod reg_bytes t)"

fun write_reg_loop :: "reg_t \<Rightarrow> u8 list \<Rightarrow> 'a::len word \<Rightarrow> 'a word" where
  "write_reg_loop addr [] word = word"
| "write_reg_loop addr (b # bs) word = (
     let shift = reg_shift TYPE('a word) addr
     in write_reg_loop (addr + 1) bs ((word AND NOT (shl 0xFF shift)) OR shl (ucast b) shift))"

definition write_little_endian_reg :: "'a::len word \<Rightarrow> reg_t \<Rightarrow> u8 list \<Rightarrow> 'a word option" where
  "write_little_endian_reg word addr bs =
     (if length bs \<le> reg_bytes TYPE('a word) then Some (write_reg_loop addr bs word) else None)"

definition read_little_endian_reg :: "'a::len word \<Rightarrow> reg_t \<Rightarrow> nat \<Rightarrow> u8 list option" where
  "read_little_endian_reg word addr len =
     (if len \<le> reg_bytes TYPE('a word)
      then Some (map (\<lambda>i. ucast (shr word (reg_shift TYPE('a word) (addr + of_nat i)))) [0..<len]) else None)"

text \<open>The range check the devices share: no wrap-around, and inside the device.\<close>

definition in_device :: "reg_t \<Rightarrow> nat \<Rightarrow> reg_t \<Rightarrow> bool" where
  "in_device addr len size' \<longleftrightarrow> \<not> (addr + of_nat len < addr \<or> addr + of_nat len > size')"

subsection \<open>The bus\<close>

text \<open>The ordered map from base addresses to devices, in the order of its keys.\<close>

type_synonym 'd bus_t = "(reg_t \<times> 'd) list"

fun add_device :: "reg_t \<Rightarrow> 'd \<Rightarrow> 'd bus_t \<Rightarrow> 'd bus_t" where
  "add_device addr dev [] = [(addr, dev)]"
| "add_device addr dev ((a, d) # ds) =
     (if addr < a then (addr, dev) # (a, d) # ds
      else if addr = a then (addr, dev) # ds
      else (a, d) # add_device addr dev ds)"

text \<open>The step back from \<open>upper_bound\<close>: the last device whose base is not above the address.\<close>

fun find_device_from :: "(reg_t \<times> 'd) option \<Rightarrow> reg_t \<Rightarrow> 'd bus_t \<Rightarrow> (reg_t \<times> 'd) option" where
  "find_device_from prev addr [] = prev"
| "find_device_from prev addr ((a, d) # ds) = (if addr < a then prev else find_device_from (Some (a, d)) addr ds)"

definition find_device :: "reg_t \<Rightarrow> 'd bus_t \<Rightarrow> (reg_t \<times> 'd) option" where
  "find_device addr ds = find_device_from None addr ds"

subsection \<open>Memory\<close>

text \<open>A page is a function of the offset; pages appear, zeroed, when they are first touched.\<close>

record mem_t =
  sparse_memory_map :: "reg_t \<Rightarrow> (reg_t \<Rightarrow> u8) option"
  mem_sz :: reg_t

definition mem_new :: "reg_t \<Rightarrow> mem_t option" where
  "mem_new size' = (if size' = 0 \<or> size' mod PGSIZE \<noteq> 0 then None
     else Some \<lparr>sparse_memory_map = (\<lambda>_. None), mem_sz = size'\<rparr>)"

definition mem_contents :: "reg_t \<Rightarrow> mem_t \<Rightarrow> mem_t \<times> (reg_t \<Rightarrow> u8)" where
  "mem_contents addr m = (case sparse_memory_map m (shr addr PGSHIFT) of
     None \<Rightarrow> (m\<lparr>sparse_memory_map := (sparse_memory_map m)(shr addr PGSHIFT := Some (\<lambda>_. 0))\<rparr>, \<lambda>_. 0)
   | Some pg \<Rightarrow> (m, pg))"

definition mem_chunk :: "reg_t \<Rightarrow> nat \<Rightarrow> nat" where
  "mem_chunk addr len = min (4096 - unat addr mod 4096) len"

function mem_load_loop :: "reg_t \<Rightarrow> nat \<Rightarrow> mem_t \<Rightarrow> u8 list \<times> mem_t" where
  "mem_load_loop addr len m =
     (if len = 0 then ([], m)
      else let n = mem_chunk addr len;
               (m, pg) = mem_contents addr m;
               (bs, m) = mem_load_loop (addr + of_nat n) (len - n) m
           in (read_bytes (addr mod PGSIZE) n pg @ bs, m))"
  by pat_completeness auto
termination
  by (relation "measure (\<lambda>(addr, len, m). len)") (auto simp: mem_chunk_def)

function mem_store_loop :: "reg_t \<Rightarrow> u8 list \<Rightarrow> mem_t \<Rightarrow> mem_t" where
  "mem_store_loop addr bs m =
     (if bs = [] then m
      else let n = mem_chunk addr (length bs);
               (m, pg) = mem_contents addr m;
               pg = write_bytes (addr mod PGSIZE) (take n bs) pg
           in mem_store_loop (addr + of_nat n) (drop n bs)
                (m\<lparr>sparse_memory_map := (sparse_memory_map m)(shr addr PGSHIFT := Some pg)\<rparr>))"
  by pat_completeness auto
termination
  by (relation "measure (\<lambda>(addr, bs, m). length bs)") (auto simp: mem_chunk_def)

definition memdev_load :: "reg_t \<Rightarrow> nat \<Rightarrow> mem_t \<Rightarrow> u8 list option \<times> mem_t" where
  "memdev_load addr len m = (if \<not> in_device addr len (mem_sz m) then (None, m) else apfst Some (mem_load_loop addr len m))"

definition memdev_store :: "reg_t \<Rightarrow> u8 list \<Rightarrow> mem_t \<Rightarrow> bool \<times> mem_t" where
  "memdev_store addr bs m = (if \<not> in_device addr (length bs) (mem_sz m) then (False, m) else (True, mem_store_loop addr bs m))"

subsection \<open>Boot ROM and frame buffer\<close>

definition rom_load :: "u8 list \<Rightarrow> reg_t \<Rightarrow> nat \<Rightarrow> u8 list option" where
  "rom_load dat addr len = (if addr + of_nat len > of_nat (length dat) then None else Some (map (\<lambda>i. dat ! (unat addr + i)) [0..<len]))"

definition rom_store :: "u8 list \<Rightarrow> reg_t \<Rightarrow> u8 list \<Rightarrow> bool" where
  "rom_store dat addr bs = False"

record vga_t =
  pixels :: "reg_t \<Rightarrow> u8"
  fb_size :: reg_t

abbreviation (input) VGA_SIZE :: reg_t where "VGA_SIZE \<equiv> 0x200000"

definition vga_new :: "nat \<Rightarrow> nat \<Rightarrow> vga_t option" where
  "vga_new width height = (let fb = of_nat width * of_nat height * 4
     in if fb > VGA_SIZE then None else Some \<lparr>pixels = (\<lambda>_. 0), fb_size = fb\<rparr>)"

definition vga_load :: "reg_t \<Rightarrow> nat \<Rightarrow> vga_t \<Rightarrow> u8 list option" where
  "vga_load addr len v = (if addr + of_nat len > fb_size v then None else Some (read_bytes addr len (pixels v)))"

definition vga_store :: "reg_t \<Rightarrow> u8 list \<Rightarrow> vga_t \<Rightarrow> bool \<times> vga_t" where
  "vga_store addr bs v = (if addr + of_nat (length bs) > fb_size v then (False, v)
     else (True, v\<lparr>pixels := write_bytes addr bs (pixels v)\<rparr>))"

subsection \<open>The synchronous disk\<close>

text \<open>The image file is behind \<open>pread\<close> and \<open>pwrite\<close>; a negative result is \<open>Inl errno\<close>.\<close>

record 'i disk_io =
  io_pread :: "'i \<Rightarrow> nat \<Rightarrow> reg_t \<Rightarrow> u32 + u8 list"
  io_pwrite :: "'i \<Rightarrow> u8 list \<Rightarrow> reg_t \<Rightarrow> (u32 + nat) \<times> 'i"

abbreviation (input) SYNC_DISK_SIZE :: reg_t where "SYNC_DISK_SIZE \<equiv> 0x1000"
abbreviation (input) CMD_NONE :: u32 where "CMD_NONE \<equiv> 0"
abbreviation (input) CMD_READ :: u32 where "CMD_READ \<equiv> 1"
abbreviation (input) CMD_WRITE :: u32 where "CMD_WRITE \<equiv> 2"
abbreviation (input) STATUS_IDLE :: u32 where "STATUS_IDLE \<equiv> 0"
abbreviation (input) STATUS_DONE :: u32 where "STATUS_DONE \<equiv> 1"
abbreviation (input) STATUS_ERROR :: u32 where "STATUS_ERROR \<equiv> 2"
abbreviation (input) EIO :: u32 where "EIO \<equiv> 5"
abbreviation (input) EFAULT :: u32 where "EFAULT \<equiv> 14"
abbreviation (input) EINVAL :: u32 where "EINVAL \<equiv> 22"

record sync_disk_t =
  sd_cmd :: u32
  sd_status :: u32
  sd_count :: u32
  sd_reserved :: u32
  sd_lba_low :: u32
  sd_lba_high :: u32
  sd_guest_pa_low :: u32
  sd_guest_pa_high :: u32
  sd_error_code :: u32
  sd_last_result_bytes :: u32

definition sync_disk_new :: sync_disk_t where
  "sync_disk_new = \<lparr>sd_cmd = CMD_NONE, sd_status = STATUS_IDLE, sd_count = 0, sd_reserved = 0, sd_lba_low = 0, sd_lba_high = 0,
     sd_guest_pa_low = 0, sd_guest_pa_high = 0, sd_error_code = 0, sd_last_result_bytes = 0\<rparr>"

definition sd_lba :: "sync_disk_t \<Rightarrow> reg_t" where
  "sd_lba d = shl (ucast (sd_lba_high d)) 32 OR ucast (sd_lba_low d)"

definition sd_guest_pa :: "sync_disk_t \<Rightarrow> reg_t" where
  "sd_guest_pa d = shl (ucast (sd_guest_pa_high d)) 32 OR ucast (sd_guest_pa_low d)"

text \<open>The registers by offset. The outer \<open>None\<close> is a failed assertion, the inner one a refused access.\<close>

definition sd_reg :: "reg_t \<Rightarrow> sync_disk_t \<Rightarrow> u32 option" where
  "sd_reg off d =
     (if off = 0x00 then Some (sd_cmd d) else if off = 0x04 then Some (sd_status d)
      else if off = 0x08 then Some (sd_count d) else if off = 0x0c then Some (sd_reserved d)
      else if off = 0x10 then Some (sd_lba_low d) else if off = 0x14 then Some (sd_lba_high d)
      else if off = 0x18 then Some (sd_guest_pa_low d) else if off = 0x1c then Some (sd_guest_pa_high d)
      else if off = 0x20 then Some (sd_error_code d) else if off = 0x24 then Some (sd_last_result_bytes d)
      else None)"

definition disk_load :: "reg_t \<Rightarrow> nat \<Rightarrow> sync_disk_t \<Rightarrow> u8 list option option" where
  "disk_load addr len d =
     (if \<not> in_device addr len SYNC_DISK_SIZE then Some None
      else case sd_reg (addr AND NOT 0x3) d of None \<Rightarrow> Some None
         | Some r \<Rightarrow> map_option Some (read_little_endian_reg r addr len))"

definition disk_fail :: "u32 \<Rightarrow> sync_disk_t \<Rightarrow> sync_disk_t" where
  "disk_fail e d = d\<lparr>sd_status := STATUS_ERROR, sd_error_code := e, sd_last_result_bytes := 0, sd_cmd := CMD_NONE\<rparr>"

definition disk_done :: "u32 \<Rightarrow> sync_disk_t \<Rightarrow> sync_disk_t" where
  "disk_done n d = d\<lparr>sd_last_result_bytes := n, sd_status := STATUS_DONE, sd_error_code := 0, sd_cmd := CMD_NONE\<rparr>"

text \<open>A command. The bus it copies through is an argument with the rest of the platform as its state;
  the result is the disk, the image, the platform and whether the store is accepted.\<close>

type_synonym ('i, 'p) disk_result = "(bool \<times> sync_disk_t \<times> 'i \<times> 'p) option"

definition execute_command :: "'i disk_io \<Rightarrow> (reg_t \<Rightarrow> nat \<Rightarrow> 'p \<Rightarrow> u8 list option option \<times> 'p)
    \<Rightarrow> (reg_t \<Rightarrow> u8 list \<Rightarrow> 'p \<Rightarrow> bool option \<times> 'p) \<Rightarrow> sync_disk_t \<Rightarrow> 'i \<Rightarrow> 'p \<Rightarrow> ('i, 'p) disk_result" where
  "execute_command io bus_load bus_store d img p =
     (if sd_count d = 0 then Some (True, disk_done 0 d, img, p)
      else if sd_cmd d \<noteq> CMD_READ \<and> sd_cmd d \<noteq> CMD_WRITE then Some (False, disk_fail EINVAL d, img, p)
      else
        let total_bytes = unat (sd_count d) * 512; offset = sd_lba d * 512
        in if total_bytes > 4294967295 then Some (False, disk_fail EINVAL d, img, p)
        else if sd_cmd d = CMD_READ then
          (case io_pread io img total_bytes offset of
             Inl e \<Rightarrow> Some (False, disk_fail e d, img, p)
           | Inr got \<Rightarrow>
               (case bus_store (sd_guest_pa d) (got @ replicate (total_bytes - length got) 0) p of
                  (None, p) \<Rightarrow> None
                | (Some False, p) \<Rightarrow> Some (False, disk_fail EFAULT d, img, p)
                | (Some True, p) \<Rightarrow> Some (True, disk_done (of_nat total_bytes) d, img, p)))
        else
          (case bus_load (sd_guest_pa d) total_bytes p of
             (None, p) \<Rightarrow> None
           | (Some None, p) \<Rightarrow> Some (False, disk_fail EFAULT d, img, p)
           | (Some (Some bs), p) \<Rightarrow>
               (case io_pwrite io img bs offset of
                  (Inl e, img) \<Rightarrow> Some (False, disk_fail e d, img, p)
                | (Inr n, img) \<Rightarrow> if n \<noteq> total_bytes then Some (False, disk_fail EIO d, img, p)
                                  else Some (True, disk_done (of_nat total_bytes) d, img, p))))"

definition set_sd_reg :: "reg_t \<Rightarrow> u32 \<Rightarrow> sync_disk_t \<Rightarrow> sync_disk_t option" where
  "set_sd_reg off v d =
     (if off = 0x08 then Some (d\<lparr>sd_count := v\<rparr>) else if off = 0x0c then Some (d\<lparr>sd_reserved := v\<rparr>)
      else if off = 0x10 then Some (d\<lparr>sd_lba_low := v\<rparr>) else if off = 0x14 then Some (d\<lparr>sd_lba_high := v\<rparr>)
      else if off = 0x18 then Some (d\<lparr>sd_guest_pa_low := v\<rparr>) else if off = 0x1c then Some (d\<lparr>sd_guest_pa_high := v\<rparr>)
      else None)"

definition disk_store :: "'i disk_io \<Rightarrow> (reg_t \<Rightarrow> nat \<Rightarrow> 'p \<Rightarrow> u8 list option option \<times> 'p)
    \<Rightarrow> (reg_t \<Rightarrow> u8 list \<Rightarrow> 'p \<Rightarrow> bool option \<times> 'p) \<Rightarrow> reg_t \<Rightarrow> u8 list \<Rightarrow> sync_disk_t \<Rightarrow> 'i \<Rightarrow> 'p \<Rightarrow> ('i, 'p) disk_result" where
  "disk_store io bus_load bus_store addr bs d img p =
     (if \<not> in_device addr (length bs) SYNC_DISK_SIZE then Some (False, d, img, p)
      else
        let off = addr AND NOT 0x3
        in if off = 0x00 then
             (case write_little_endian_reg (sd_cmd d) addr bs of None \<Rightarrow> None
              | Some v \<Rightarrow> if v = CMD_NONE then Some (True, d\<lparr>sd_cmd := v, sd_status := STATUS_IDLE, sd_error_code := 0\<rparr>, img, p)
                          else execute_command io bus_load bus_store (d\<lparr>sd_cmd := v\<rparr>) img p)
           else if off = 0x04 then
             (case write_little_endian_reg (sd_status d) addr bs of None \<Rightarrow> None
              | Some v \<Rightarrow> Some (True, (if v = STATUS_IDLE then d\<lparr>sd_status := v, sd_error_code := 0\<rparr> else d\<lparr>sd_status := v\<rparr>), img, p))
           else case sd_reg off d of None \<Rightarrow> Some (False, d, img, p)
              | Some r \<Rightarrow>
                  (if off = 0x20 \<or> off = 0x24 then Some (False, d, img, p)
                   else case write_little_endian_reg r addr bs of None \<Rightarrow> None
                     | Some v \<Rightarrow> (case set_sd_reg off v d of None \<Rightarrow> Some (False, d, img, p) | Some d \<Rightarrow> Some (True, d, img, p))))"

subsection \<open>Interrupt lines\<close>

text \<open>The harts of the machine in the order of their identifiers, with their pending interrupts.\<close>

type_synonym hart_mips = "(nat \<times> reg_t) list"

type_synonym hart_irqs = "(nat \<times> hart_event) list"

end
