(* ===== verification/Debug_Module.thy ===== *)
theory Debug_Module
  imports Devices
begin

text \<open>
  The debug module of \<open>riscv/debug_module.cc\<close>: its memory-mapped side, through which a halted hart
  runs the debug ROM, and its debug module interface, through which the debugger halts and resumes
  harts, runs abstract commands and reads and writes the system bus. The instruction encoders are those
  of \<open>riscv/opcodes.h\<close>.
\<close>

subsection \<open>Registers of the debug module\<close>

abbreviation (input) AC_ACCESS_REGISTER_AARSIZE :: u32 where "AC_ACCESS_REGISTER_AARSIZE \<equiv> 0x700000"
abbreviation (input) AC_ACCESS_REGISTER_POSTEXEC :: u32 where "AC_ACCESS_REGISTER_POSTEXEC \<equiv> 0x40000"
abbreviation (input) AC_ACCESS_REGISTER_REGNO :: u32 where "AC_ACCESS_REGISTER_REGNO \<equiv> 0xffff"
abbreviation (input) AC_ACCESS_REGISTER_TRANSFER :: u32 where "AC_ACCESS_REGISTER_TRANSFER \<equiv> 0x20000"
abbreviation (input) AC_ACCESS_REGISTER_WRITE :: u32 where "AC_ACCESS_REGISTER_WRITE \<equiv> 0x10000"
abbreviation (input) DM_ABSTRACTAUTO :: u32 where "DM_ABSTRACTAUTO \<equiv> 0x18"
abbreviation (input) DM_ABSTRACTAUTO_AUTOEXECDATA :: u32 where "DM_ABSTRACTAUTO_AUTOEXECDATA \<equiv> 0xfff"
abbreviation (input) DM_ABSTRACTAUTO_AUTOEXECPROGBUF :: u32 where "DM_ABSTRACTAUTO_AUTOEXECPROGBUF \<equiv> 0xffff0000"
abbreviation (input) DM_ABSTRACTCS :: u32 where "DM_ABSTRACTCS \<equiv> 0x16"
abbreviation (input) DM_ABSTRACTCS_BUSY :: u32 where "DM_ABSTRACTCS_BUSY \<equiv> 0x1000"
abbreviation (input) DM_ABSTRACTCS_CMDERR :: u32 where "DM_ABSTRACTCS_CMDERR \<equiv> 0x700"
abbreviation (input) DM_ABSTRACTCS_DATACOUNT :: u32 where "DM_ABSTRACTCS_DATACOUNT \<equiv> 0xf"
abbreviation (input) DM_ABSTRACTCS_PROGBUFSIZE :: u32 where "DM_ABSTRACTCS_PROGBUFSIZE \<equiv> 0x1f000000"
abbreviation (input) DM_AUTHDATA :: u32 where "DM_AUTHDATA \<equiv> 0x30"
abbreviation (input) DM_COMMAND :: u32 where "DM_COMMAND \<equiv> 0x17"
abbreviation (input) DM_DATA0 :: u32 where "DM_DATA0 \<equiv> 0x04"
abbreviation (input) DM_DMCONTROL :: u32 where "DM_DMCONTROL \<equiv> 0x10"
abbreviation (input) DM_DMCONTROL_ACKHAVERESET :: u32 where "DM_DMCONTROL_ACKHAVERESET \<equiv> 0x10000000"
abbreviation (input) DM_DMCONTROL_DMACTIVE :: u32 where "DM_DMCONTROL_DMACTIVE \<equiv> 1"
abbreviation (input) DM_DMCONTROL_HALTREQ :: u32 where "DM_DMCONTROL_HALTREQ \<equiv> 0x80000000"
abbreviation (input) DM_DMCONTROL_HARTRESET :: u32 where "DM_DMCONTROL_HARTRESET \<equiv> 0x20000000"
abbreviation (input) DM_DMCONTROL_HARTSELHI :: u32 where "DM_DMCONTROL_HARTSELHI \<equiv> 0xffc0"
abbreviation (input) DM_DMCONTROL_HARTSELLO :: u32 where "DM_DMCONTROL_HARTSELLO \<equiv> 0x3ff0000"
abbreviation (input) DM_DMCONTROL_HARTSELLO_LENGTH :: nat where "DM_DMCONTROL_HARTSELLO_LENGTH \<equiv> 0xa"
abbreviation (input) DM_DMCONTROL_HASEL :: u32 where "DM_DMCONTROL_HASEL \<equiv> 0x4000000"
abbreviation (input) DM_DMCONTROL_NDMRESET :: u32 where "DM_DMCONTROL_NDMRESET \<equiv> 2"
abbreviation (input) DM_DMCONTROL_RESUMEREQ :: u32 where "DM_DMCONTROL_RESUMEREQ \<equiv> 0x40000000"
abbreviation (input) DM_DMCS2 :: u32 where "DM_DMCS2 \<equiv> 0x32"
abbreviation (input) DM_DMCS2_GROUP :: u32 where "DM_DMCS2_GROUP \<equiv> 0x7c"
abbreviation (input) DM_DMCS2_GROUPTYPE :: u32 where "DM_DMCS2_GROUPTYPE \<equiv> 0x800"
abbreviation (input) DM_DMCS2_HGWRITE :: u32 where "DM_DMCS2_HGWRITE \<equiv> 2"
abbreviation (input) DM_DMSTATUS :: u32 where "DM_DMSTATUS \<equiv> 0x11"
abbreviation (input) DM_DMSTATUS_ALLHALTED :: u32 where "DM_DMSTATUS_ALLHALTED \<equiv> 0x200"
abbreviation (input) DM_DMSTATUS_ALLHAVERESET :: u32 where "DM_DMSTATUS_ALLHAVERESET \<equiv> 0x80000"
abbreviation (input) DM_DMSTATUS_ALLNONEXISTENT :: u32 where "DM_DMSTATUS_ALLNONEXISTENT \<equiv> 0x8000"
abbreviation (input) DM_DMSTATUS_ALLRESUMEACK :: u32 where "DM_DMSTATUS_ALLRESUMEACK \<equiv> 0x20000"
abbreviation (input) DM_DMSTATUS_ALLRUNNING :: u32 where "DM_DMSTATUS_ALLRUNNING \<equiv> 0x800"
abbreviation (input) DM_DMSTATUS_ALLUNAVAIL :: u32 where "DM_DMSTATUS_ALLUNAVAIL \<equiv> 0x2000"
abbreviation (input) DM_DMSTATUS_ANYHALTED :: u32 where "DM_DMSTATUS_ANYHALTED \<equiv> 0x100"
abbreviation (input) DM_DMSTATUS_ANYHAVERESET :: u32 where "DM_DMSTATUS_ANYHAVERESET \<equiv> 0x40000"
abbreviation (input) DM_DMSTATUS_ANYNONEXISTENT :: u32 where "DM_DMSTATUS_ANYNONEXISTENT \<equiv> 0x4000"
abbreviation (input) DM_DMSTATUS_ANYRESUMEACK :: u32 where "DM_DMSTATUS_ANYRESUMEACK \<equiv> 0x10000"
abbreviation (input) DM_DMSTATUS_ANYRUNNING :: u32 where "DM_DMSTATUS_ANYRUNNING \<equiv> 0x400"
abbreviation (input) DM_DMSTATUS_ANYUNAVAIL :: u32 where "DM_DMSTATUS_ANYUNAVAIL \<equiv> 0x1000"
abbreviation (input) DM_DMSTATUS_AUTHBUSY :: u32 where "DM_DMSTATUS_AUTHBUSY \<equiv> 0x40"
abbreviation (input) DM_DMSTATUS_AUTHENTICATED :: u32 where "DM_DMSTATUS_AUTHENTICATED \<equiv> 0x80"
abbreviation (input) DM_DMSTATUS_IMPEBREAK :: u32 where "DM_DMSTATUS_IMPEBREAK \<equiv> 0x400000"
abbreviation (input) DM_DMSTATUS_VERSION :: u32 where "DM_DMSTATUS_VERSION \<equiv> 0xf"
abbreviation (input) DM_HARTINFO :: u32 where "DM_HARTINFO \<equiv> 0x12"
abbreviation (input) DM_HARTINFO_DATAACCESS :: u32 where "DM_HARTINFO_DATAACCESS \<equiv> 0x10000"
abbreviation (input) DM_HARTINFO_DATAADDR :: u32 where "DM_HARTINFO_DATAADDR \<equiv> 0xfff"
abbreviation (input) DM_HARTINFO_DATASIZE :: u32 where "DM_HARTINFO_DATASIZE \<equiv> 0xf000"
abbreviation (input) DM_HARTINFO_NSCRATCH :: u32 where "DM_HARTINFO_NSCRATCH \<equiv> 0xf00000"
abbreviation (input) DM_HAWINDOW :: u32 where "DM_HAWINDOW \<equiv> 0x15"
abbreviation (input) DM_HAWINDOWSEL :: u32 where "DM_HAWINDOWSEL \<equiv> 0x14"
abbreviation (input) DM_PROGBUF0 :: u32 where "DM_PROGBUF0 \<equiv> 0x20"
abbreviation (input) DM_SBADDRESS0 :: u32 where "DM_SBADDRESS0 \<equiv> 0x39"
abbreviation (input) DM_SBADDRESS1 :: u32 where "DM_SBADDRESS1 \<equiv> 0x3a"
abbreviation (input) DM_SBADDRESS2 :: u32 where "DM_SBADDRESS2 \<equiv> 0x3b"
abbreviation (input) DM_SBADDRESS3 :: u32 where "DM_SBADDRESS3 \<equiv> 0x37"
abbreviation (input) DM_SBCS :: u32 where "DM_SBCS \<equiv> 0x38"
abbreviation (input) DM_SBCS_SBACCESS :: u32 where "DM_SBCS_SBACCESS \<equiv> 0xe0000"
abbreviation (input) DM_SBCS_SBACCESS128 :: u32 where "DM_SBCS_SBACCESS128 \<equiv> 0x10"
abbreviation (input) DM_SBCS_SBACCESS16 :: u32 where "DM_SBCS_SBACCESS16 \<equiv> 2"
abbreviation (input) DM_SBCS_SBACCESS32 :: u32 where "DM_SBCS_SBACCESS32 \<equiv> 4"
abbreviation (input) DM_SBCS_SBACCESS64 :: u32 where "DM_SBCS_SBACCESS64 \<equiv> 8"
abbreviation (input) DM_SBCS_SBACCESS8 :: u32 where "DM_SBCS_SBACCESS8 \<equiv> 1"
abbreviation (input) DM_SBCS_SBASIZE :: u32 where "DM_SBCS_SBASIZE \<equiv> 0xfe0"
abbreviation (input) DM_SBCS_SBAUTOINCREMENT :: u32 where "DM_SBCS_SBAUTOINCREMENT \<equiv> 0x10000"
abbreviation (input) DM_SBCS_SBERROR :: u32 where "DM_SBCS_SBERROR \<equiv> 0x7000"
abbreviation (input) DM_SBCS_SBREADONADDR :: u32 where "DM_SBCS_SBREADONADDR \<equiv> 0x100000"
abbreviation (input) DM_SBCS_SBREADONDATA :: u32 where "DM_SBCS_SBREADONDATA \<equiv> 0x8000"
abbreviation (input) DM_SBCS_SBVERSION :: u32 where "DM_SBCS_SBVERSION \<equiv> 0xe0000000"
abbreviation (input) DM_SBDATA0 :: u32 where "DM_SBDATA0 \<equiv> 0x3c"
abbreviation (input) DM_SBDATA1 :: u32 where "DM_SBDATA1 \<equiv> 0x3d"
abbreviation (input) DM_SBDATA2 :: u32 where "DM_SBDATA2 \<equiv> 0x3e"
abbreviation (input) DM_SBDATA3 :: u32 where "DM_SBDATA3 \<equiv> 0x3f"

abbreviation (input) CMDERR_NONE :: u32 where "CMDERR_NONE \<equiv> 0"
abbreviation (input) CMDERR_BUSY :: u32 where "CMDERR_BUSY \<equiv> 1"
abbreviation (input) CMDERR_NOTSUP :: u32 where "CMDERR_NOTSUP \<equiv> 2"
abbreviation (input) CMDERR_EXCEPTION :: u32 where "CMDERR_EXCEPTION \<equiv> 3"
abbreviation (input) CMDERR_HALTRESUME :: u32 where "CMDERR_HALTRESUME \<equiv> 4"

abbreviation (input) DEBUG_ROM_HALTED :: reg_t where "DEBUG_ROM_HALTED \<equiv> 0x100"
abbreviation (input) DEBUG_ROM_GOING :: reg_t where "DEBUG_ROM_GOING \<equiv> 0x104"
abbreviation (input) DEBUG_ROM_RESUMING :: reg_t where "DEBUG_ROM_RESUMING \<equiv> 0x108"
abbreviation (input) DEBUG_ROM_EXCEPTION :: reg_t where "DEBUG_ROM_EXCEPTION \<equiv> 0x10c"
abbreviation (input) DEBUG_ROM_FLAGS :: reg_t where "DEBUG_ROM_FLAGS \<equiv> 0x400"
abbreviation (input) DEBUG_ROM_FLAG_GO :: nat where "DEBUG_ROM_FLAG_GO \<equiv> 0"
abbreviation (input) DEBUG_ROM_FLAG_RESUME :: nat where "DEBUG_ROM_FLAG_RESUME \<equiv> 1"
abbreviation (input) DEBUG_ROM_WHERETO :: reg_t where "DEBUG_ROM_WHERETO \<equiv> 0x300"
abbreviation (input) debug_data_start :: reg_t where "debug_data_start \<equiv> 0x380"
abbreviation (input) debug_abstract_size :: nat where "debug_abstract_size \<equiv> 12"
abbreviation (input) debug_datasize :: nat where "debug_datasize \<equiv> 2"
abbreviation (input) dm_secret :: u32 where "dm_secret \<equiv> 1"

definition debug_rom_raw :: "u8 list" where
  "debug_rom_raw = [
     0x6f, 0x00, 0xc0, 0x00, 0x6f, 0x00, 0x00, 0x06, 0x6f, 0x00, 0x80, 0x03, 0x0f, 0x00, 0xf0, 0x0f,
     0x73, 0x10, 0x24, 0x7b, 0x73, 0x24, 0x40, 0xf1, 0x23, 0x20, 0x80, 0x10, 0x03, 0x44, 0x04, 0x40,
     0x13, 0x74, 0x14, 0x00, 0x63, 0x14, 0x04, 0x02, 0x73, 0x24, 0x40, 0xf1, 0x03, 0x44, 0x04, 0x40,
     0x13, 0x74, 0x24, 0x00, 0x63, 0x18, 0x04, 0x02, 0x73, 0x00, 0x50, 0x10, 0x6f, 0xf0, 0x9f, 0xfd,
     0x73, 0x24, 0x20, 0x7b, 0x23, 0x26, 0x00, 0x10, 0x73, 0x00, 0x10, 0x00, 0x73, 0x24, 0x40, 0xf1,
     0x23, 0x22, 0x80, 0x10, 0x73, 0x24, 0x20, 0x7b, 0x0f, 0x00, 0xf0, 0x0f, 0x0f, 0x10, 0x00, 0x00,
     0x67, 0x00, 0x00, 0x30, 0x73, 0x24, 0x40, 0xf1, 0x23, 0x24, 0x80, 0x10, 0x73, 0x24, 0x20, 0x7b,
     0x73, 0x00, 0x20, 0x7b]"

subsection \<open>Encoding of the instructions the module generates\<close>

definition op_bits :: "u32 \<Rightarrow> nat \<Rightarrow> nat \<Rightarrow> u32" where
  "op_bits v hi lo = shr v lo AND (shl 1 (hi + 1 - lo) - 1)"

definition op_bit :: "u32 \<Rightarrow> nat \<Rightarrow> u32" where
  "op_bit v b = shr v b AND 1"

abbreviation (input) OP_ZERO :: u32 where "OP_ZERO \<equiv> 0"
abbreviation (input) OP_S0 :: u32 where "OP_S0 \<equiv> 8"

definition op_jal :: "u32 \<Rightarrow> u32 \<Rightarrow> u32" where
  "op_jal r imm = shl (op_bit imm 20) 31 OR shl (op_bits imm 10 1) 21 OR shl (op_bit imm 11) 20 OR
     shl (op_bits imm 19 12) 12 OR shl r 7 OR 0x6f"

definition op_store :: "u32 \<Rightarrow> u32 \<Rightarrow> u32 \<Rightarrow> u32 \<Rightarrow> u32" where
  "op_store mat src base off = shl (op_bits off 11 5) 25 OR shl src 20 OR shl base 15 OR shl (op_bits off 4 0) 7 OR mat"

definition op_load :: "u32 \<Rightarrow> u32 \<Rightarrow> u32 \<Rightarrow> u32 \<Rightarrow> u32" where
  "op_load mat r base off = shl (op_bits off 11 0) 20 OR shl base 15 OR shl (op_bits r 4 0) 7 OR mat"

definition op_sw :: "u32 \<Rightarrow> u32 \<Rightarrow> u32 \<Rightarrow> u32" where "op_sw = op_store 0x2023"
definition op_sd :: "u32 \<Rightarrow> u32 \<Rightarrow> u32 \<Rightarrow> u32" where "op_sd = op_store 0x3023"
definition op_lw :: "u32 \<Rightarrow> u32 \<Rightarrow> u32 \<Rightarrow> u32" where "op_lw = op_load 0x2003"
definition op_ld :: "u32 \<Rightarrow> u32 \<Rightarrow> u32 \<Rightarrow> u32" where "op_ld = op_load 0x3003"
definition op_flw :: "u32 \<Rightarrow> u32 \<Rightarrow> u32 \<Rightarrow> u32" where "op_flw = op_load 0x2007"
definition op_fld :: "u32 \<Rightarrow> u32 \<Rightarrow> u32 \<Rightarrow> u32" where "op_fld = op_load 0x3007"

definition op_fsw :: "u32 \<Rightarrow> u32 \<Rightarrow> u32 \<Rightarrow> u32" where "op_fsw src = op_store 0x2027 (op_bits src 4 0)"
definition op_fsd :: "u32 \<Rightarrow> u32 \<Rightarrow> u32 \<Rightarrow> u32" where "op_fsd src = op_store 0x3027 (op_bits src 4 0)"

definition op_csrw :: "u32 \<Rightarrow> u32 \<Rightarrow> u32" where
  "op_csrw src c = shl c 20 OR shl src 15 OR 0x1073"

definition op_csrrs :: "u32 \<Rightarrow> u32 \<Rightarrow> u32 \<Rightarrow> u32" where
  "op_csrrs r rs c = shl c 20 OR shl rs 15 OR shl r 7 OR 0x2073"

definition op_csrr :: "u32 \<Rightarrow> u32 \<Rightarrow> u32" where
  "op_csrr r c = shl c 20 OR shl r 7 OR 0x2073"

definition op_lui :: "u32 \<Rightarrow> u32 \<Rightarrow> u32" where
  "op_lui r imm = shl (op_bits imm 19 0) 12 OR shl r 7 OR 0x37"

definition op_ebreak :: u32 where "op_ebreak = 0x100073"

subsection \<open>State\<close>

record debug_module_config_t =
  progbufsize :: nat
  max_sba_data_width :: nat
  require_authentication :: bool
  abstract_rti :: nat
  support_hasel :: bool
  support_abstract_csr_access :: bool
  support_abstract_fpr_access :: bool
  support_haltgroups :: bool
  support_impebreak :: bool

record hart_debug_state_t =
  hd_halted :: bool
  hd_resumeack :: bool
  hd_havereset :: bool
  hd_haltgroup :: u8

record dmcontrol_t =
  dc_haltreq :: bool
  dc_resumereq :: bool
  dc_hasel :: bool
  dc_hartsel :: nat
  dc_hartreset :: bool
  dc_dmactive :: bool
  dc_ndmreset :: bool

record sbcs_t =
  sb_version :: u32
  sb_readonaddr :: bool
  sb_access :: u32
  sb_autoinc :: bool
  sb_readondata :: bool
  sb_error :: u32
  sb_asize :: u32
  sb_access64 :: bool
  sb_access32 :: bool
  sb_access16 :: bool
  sb_access8 :: bool

text \<open>The byte arrays are lists; the registers the constructor does not set are \<open>dm_command\<close>,
  \<open>dm_hawindowsel\<close>, \<open>dm_sbaddress\<close>, \<open>dm_sbdata\<close> and \<open>dm_completed\<close>. The fields of the status register
  that are computed when it is read are not kept.\<close>

record dm_t =
  dm_config :: debug_module_config_t
  dm_custom_base :: u32
  dm_whereto :: "u8 list"
  dm_abstract :: "u8 list"
  dm_progbuf :: "u8 list"
  dm_data :: "u8 list"
  dm_harts :: "hart_debug_state_t list"
  dm_flags :: "u8 list"
  dm_control :: dmcontrol_t
  dm_impebreak :: bool
  dm_authenticated :: bool
  dm_version :: u32
  dm_busy :: bool
  dm_datacount :: nat
  dm_cmderr :: u32
  dm_autoexecprogbuf :: u32
  dm_autoexecdata :: u32
  dm_command :: u32
  dm_hawindowsel :: u16
  dm_hart_mask :: "bool list"
  dm_sbcs :: sbcs_t
  dm_sbaddress :: "u32 list"
  dm_sbdata :: "u32 list"
  dm_challenge :: u32
  dm_completed :: bool
  dm_rti_remaining :: nat

text \<open>What the module does to a hart.\<close>

datatype dm_event = Dm_halt halt_request_t | Dm_reset

type_synonym dm_events = "(nat \<times> dm_event) list"

fun field_width_loop :: "nat \<Rightarrow> nat \<Rightarrow> nat" where
  "field_width_loop i n = (if n = 0 then i else field_width_loop (i + 1) (n div 2))"

declare field_width_loop.simps [simp del]

definition field_width :: "nat \<Rightarrow> nat" where
  "field_width n = field_width_loop 0 (n - 1)"

definition program_buffer_bytes :: "debug_module_config_t \<Rightarrow> nat" where
  "program_buffer_bytes conf = (if support_impebreak conf then 4 else 0) + 4 * progbufsize conf"

definition debug_progbuf_start :: "debug_module_config_t \<Rightarrow> reg_t" where
  "debug_progbuf_start conf = debug_data_start - of_nat (program_buffer_bytes conf)"

definition debug_abstract_start :: "debug_module_config_t \<Rightarrow> reg_t" where
  "debug_abstract_start conf = debug_progbuf_start conf - of_nat (debug_abstract_size * 4)"

definition bytes32 :: "u32 \<Rightarrow> u8 list" where
  "bytes32 v = [ucast v, ucast (shr v 8), ucast (shr v 16), ucast (shr v 24)]"

definition write32 :: "u8 list \<Rightarrow> nat \<Rightarrow> u32 \<Rightarrow> u8 list" where
  "write32 mem i v = (let b = i * 4 in mem[b := ucast v, b + 1 := ucast (shr v 8), b + 2 := ucast (shr v 16), b + 3 := ucast (shr v 24)])"

definition read32 :: "u8 list \<Rightarrow> nat \<Rightarrow> u32" where
  "read32 mem i = (let b = i * 4 in ucast (mem ! b) OR shl (ucast (mem ! (b + 1))) 8 OR shl (ucast (mem ! (b + 2))) 16 OR shl (ucast (mem ! (b + 3))) 24)"

text \<open>The constructor, on the indeterminate object \<open>d0\<close>: the hart identifiers are those of the configuration,
  in its order, and \<open>r\<close> is the next random number.\<close>

definition get_harts :: "nat list \<Rightarrow> nat list" where
  "get_harts ids = sort ids"

definition dm_reset :: "nat list \<Rightarrow> u32 \<Rightarrow> dm_t \<Rightarrow> dm_events \<times> dm_t" where
  "dm_reset ids r d = (
     let conf = dm_config d; w = max_sba_data_width conf
     in (map (\<lambda>i. (i, Dm_halt HR_NONE)) (get_harts ids),
         d\<lparr>dm_control := \<lparr>dc_haltreq = False, dc_resumereq = False, dc_hasel = False, dc_hartsel = 0, dc_hartreset = False,
               dc_dmactive = False, dc_ndmreset = False\<rparr>,
           dm_impebreak := support_impebreak conf, dm_authenticated := \<not> require_authentication conf, dm_version := 2,
           dm_busy := False, dm_cmderr := CMDERR_NONE, dm_datacount := debug_datasize,
           dm_autoexecprogbuf := 0, dm_autoexecdata := 0,
           dm_sbcs := \<lparr>sb_version = (if w > 0 then 1 else 0), sb_readonaddr = False, sb_access = 0, sb_autoinc = False,
               sb_readondata = False, sb_error = 0, sb_asize = (if w > 0 then 64 else 0), sb_access64 = (w \<ge> 64),
               sb_access32 = (w \<ge> 32), sb_access16 = (w \<ge> 16), sb_access8 = (w \<ge> 8)\<rparr>,
           dm_challenge := r\<rparr>))"

definition fresh_progbuf :: "debug_module_config_t \<Rightarrow> u8 list" where
  "fresh_progbuf conf = (let b = replicate (program_buffer_bytes conf) 0
     in if support_impebreak conf then write32 b (progbufsize conf) op_ebreak else b)"

definition dm_new :: "debug_module_config_t \<Rightarrow> nat list \<Rightarrow> u32 \<Rightarrow> dm_t \<Rightarrow> (dm_events \<times> dm_t) option" where
  "dm_new conf ids r d0 =
     (if last ids \<ge> 1024 then None
      else Some (dm_reset ids r (d0\<lparr>dm_config := conf, dm_custom_base := 0,
        dm_harts := replicate (2 ^ field_width (last ids + 1)) \<lparr>hd_halted = False, hd_resumeack = False, hd_havereset = False, hd_haltgroup = 0\<rparr>,
        dm_hart_mask := replicate (last ids + 1) False, dm_rti_remaining := 0,
        dm_flags := replicate 1024 0, dm_progbuf := fresh_progbuf conf, dm_data := replicate (debug_datasize * 4) 0,
        dm_whereto := write32 (replicate 4 0) 0 (op_jal OP_ZERO (ucast (debug_abstract_start conf - DEBUG_ROM_WHERETO))),
        dm_abstract := replicate (debug_abstract_size * 4) 0\<rparr>)))"

definition selected_hart_id :: "nat list \<Rightarrow> dm_t \<Rightarrow> nat" where
  "selected_hart_id ids d = ids ! dc_hartsel (dm_control d)"

definition selected_hart_state :: "nat list \<Rightarrow> dm_t \<Rightarrow> hart_debug_state_t" where
  "selected_hart_state ids d = dm_harts d ! selected_hart_id ids d"

definition hart_selected :: "nat list \<Rightarrow> dm_t \<Rightarrow> nat \<Rightarrow> bool" where
  "hart_selected ids d i \<longleftrightarrow> i = selected_hart_id ids d \<or> (dc_hasel (dm_control d) \<and> dm_hart_mask d ! i)"

definition upd_hart :: "nat \<Rightarrow> (hart_debug_state_t \<Rightarrow> hart_debug_state_t) \<Rightarrow> dm_t \<Rightarrow> dm_t" where
  "upd_hart i f d = d\<lparr>dm_harts := (dm_harts d)[i := f (dm_harts d ! i)]\<rparr>"

definition upd_flags :: "nat \<Rightarrow> (u8 \<Rightarrow> u8) \<Rightarrow> dm_t \<Rightarrow> dm_t" where
  "upd_flags i f d = d\<lparr>dm_flags := (dm_flags d)[i := f (dm_flags d ! i)]\<rparr>"

definition proc_reset :: "nat \<Rightarrow> dm_t \<Rightarrow> dm_t" where
  "proc_reset i = upd_hart i (\<lambda>h. h\<lparr>hd_havereset := True, hd_halted := False, hd_haltgroup := 0\<rparr>)"

subsection \<open>The side of the hart\<close>

text \<open>A range of the module's memory, and the bytes at an address of it.\<close>

definition in_range :: "reg_t \<Rightarrow> nat \<Rightarrow> reg_t \<Rightarrow> nat \<Rightarrow> bool" where
  "in_range addr len base size' \<longleftrightarrow> addr \<ge> base \<and> addr + of_nat len \<le> base + of_nat size'"

definition part_of :: "u8 list \<Rightarrow> reg_t \<Rightarrow> nat \<Rightarrow> u8 list" where
  "part_of mem off len = map (\<lambda>i. mem ! (unat off + i)) [0..<len]"

definition put_part :: "u8 list \<Rightarrow> reg_t \<Rightarrow> u8 list \<Rightarrow> u8 list" where
  "put_part mem off bs = fold (\<lambda>i mem. mem[unat off + i := bs ! i]) [0..<length bs] mem"

definition dm_load :: "reg_t \<Rightarrow> nat \<Rightarrow> dm_t \<Rightarrow> u8 list option" where
  "dm_load addr len d = (
     let conf = dm_config d
     in if in_range addr len DEBUG_ROM_ENTRY (length debug_rom_raw) then Some (part_of debug_rom_raw (addr - DEBUG_ROM_ENTRY) len)
        else if in_range addr len DEBUG_ROM_WHERETO 4 then Some (part_of (dm_whereto d) (addr - DEBUG_ROM_WHERETO) len)
        else if in_range addr len DEBUG_ROM_FLAGS 1024 then Some (part_of (dm_flags d) (addr - DEBUG_ROM_FLAGS) len)
        else if in_range addr len (debug_abstract_start conf) (debug_abstract_size * 4)
          then Some (part_of (dm_abstract d) (addr - debug_abstract_start conf) len)
        else if in_range addr len debug_data_start (debug_datasize * 4) then Some (part_of (dm_data d) (addr - debug_data_start) len)
        else if in_range addr len (debug_progbuf_start conf) (program_buffer_bytes conf)
          then Some (part_of (dm_progbuf d) (addr - debug_progbuf_start conf) len)
        else None)"

text \<open>The harts of the halt group of hart \<open>i\<close>, when it halts, are asked to halt.\<close>

definition halt_group_events :: "nat list \<Rightarrow> nat \<Rightarrow> dm_t \<Rightarrow> dm_events" where
  "halt_group_events ids i d = (
     let g = hd_haltgroup (dm_harts d ! i)
     in if g = 0 then []
        else map (\<lambda>k. (k, Dm_halt HR_GROUP))
          (filter (\<lambda>k. \<not> hd_halted (dm_harts d ! k) \<and> hd_haltgroup (dm_harts d ! k) = g) (get_harts ids)))"

text \<open>A store. The number the hart writes is not checked against the arrays it indexes; \<open>None\<close> is an index
  outside of them, and a failed assertion on the length.\<close>

definition dm_store :: "nat list \<Rightarrow> reg_t \<Rightarrow> u8 list \<Rightarrow> dm_t \<Rightarrow> bool option \<times> dm_events \<times> dm_t" where
  "dm_store ids addr bs d = (
     let len = length bs; conf = dm_config d;
         i = (if len = 4 then unat (read32 bs 0) else 0)
     in if in_range addr len debug_data_start (debug_datasize * 4)
          then (Some True, [], d\<lparr>dm_data := put_part (dm_data d) (addr - debug_data_start) bs\<rparr>)
        else if in_range addr len (debug_progbuf_start conf) (program_buffer_bytes conf)
          then (Some True, [], d\<lparr>dm_progbuf := put_part (dm_progbuf d) (addr - debug_progbuf_start conf) bs\<rparr>)
        else if addr = DEBUG_ROM_HALTED then
          (if len \<noteq> 4 \<or> i \<ge> length (dm_harts d) then (None, [], d)
           else
             let (ev, d) = (if hd_halted (dm_harts d ! i) then ([], d)
               else let d = upd_hart i (\<lambda>h. h\<lparr>hd_halted := True\<rparr>) d in (halt_group_events ids i d, d));
               d = (if selected_hart_id ids d = i \<and> (dm_flags d ! i) AND shl 1 DEBUG_ROM_FLAG_GO = 0 then d\<lparr>dm_completed := True\<rparr> else d)
             in (Some True, ev, d))
        else if addr = DEBUG_ROM_GOING then
          (if len \<noteq> 4 \<or> i \<ge> length (dm_flags d) then (None, [], d)
           else (Some True, [], upd_flags i (\<lambda>f. f AND NOT (shl 1 DEBUG_ROM_FLAG_GO)) d))
        else if addr = DEBUG_ROM_RESUMING then
          (if len \<noteq> 4 \<or> i \<ge> length (dm_harts d) then (None, [], d)
           else (Some True, [], upd_flags i (\<lambda>f. f AND NOT (shl 1 DEBUG_ROM_FLAG_RESUME))
                  (upd_hart i (\<lambda>h. h\<lparr>hd_halted := False, hd_resumeack := True\<rparr>) d)))
        else if addr = DEBUG_ROM_EXCEPTION then
          (Some True, [], if dm_cmderr d = CMDERR_NONE then d\<lparr>dm_cmderr := CMDERR_EXCEPTION\<rparr> else d)
        else (Some False, [], d))"

subsection \<open>Abstract commands\<close>

definition is_fpu_reg :: "u32 \<Rightarrow> bool" where
  "is_fpu_reg regno \<longleftrightarrow> (regno \<ge> 0x1020 \<and> regno \<le> 0x103f) \<or> regno = 1 \<or> regno = 2 \<or> regno = 3"

abbreviation (input) DM_CSR_MSTATUS :: u32 where "DM_CSR_MSTATUS \<equiv> 0x300"
abbreviation (input) DM_CSR_DSCRATCH0 :: u32 where "DM_CSR_DSCRATCH0 \<equiv> 0x7b2"
abbreviation (input) DM_CSR_DSCRATCH1 :: u32 where "DM_CSR_DSCRATCH1 \<equiv> 0x7b3"

definition fpu_prologue :: "u32 \<Rightarrow> u32 list" where
  "fpu_prologue regno = (if is_fpu_reg regno then [op_csrw OP_S0 DM_CSR_DSCRATCH0, op_csrr OP_S0 DM_CSR_MSTATUS,
     op_csrw OP_S0 DM_CSR_DSCRATCH1, op_lui OP_S0 (shr 0x6000 12), op_csrrs OP_ZERO OP_S0 DM_CSR_MSTATUS] else [])"

definition fpu_epilogue :: "u32 \<Rightarrow> u32 list" where
  "fpu_epilogue regno = (if is_fpu_reg regno then [op_csrr OP_S0 DM_CSR_DSCRATCH1, op_csrw OP_S0 DM_CSR_MSTATUS,
     op_csrr OP_S0 DM_CSR_DSCRATCH0] else [])"

text \<open>The code of a transfer up to its end, or up to where it is found unsupported (\<open>False\<close>).\<close>

definition transfer_csr :: "bool \<Rightarrow> u32 \<Rightarrow> u32 \<Rightarrow> u32 list \<times> bool" where
  "transfer_csr wr sz regno = (
     let save = (if is_fpu_reg regno then [] else [op_csrw OP_S0 DM_CSR_DSCRATCH0]);
         restore = (if is_fpu_reg regno then [] else [op_csrr OP_S0 DM_CSR_DSCRATCH0]);
         start = ucast debug_data_start
     in if wr then
          (if sz = 2 then (save @ [op_lw OP_S0 OP_ZERO start, op_csrw OP_S0 regno] @ restore, True)
           else if sz = 3 then (save @ [op_ld OP_S0 OP_ZERO start, op_csrw OP_S0 regno] @ restore, True)
           else (save, False))
        else
          (if sz = 2 then (save @ [op_csrr OP_S0 regno, op_sw OP_S0 OP_ZERO start] @ restore, True)
           else if sz = 3 then (save @ [op_csrr OP_S0 regno, op_sd OP_S0 OP_ZERO start] @ restore, True)
           else (save @ [op_csrr OP_S0 regno], False)))"

definition transfer_gpr :: "bool \<Rightarrow> u32 \<Rightarrow> u32 \<Rightarrow> u32 list \<times> bool" where
  "transfer_gpr wr sz regno = (
     let r = regno - 0x1000; start = ucast debug_data_start;
         s0 = (if regno = 0x1000 + OP_S0 \<and> wr then [op_csrw OP_S0 DM_CSR_DSCRATCH0] else [])
     in if sz = 2 then ((if wr then op_lw r OP_ZERO start else op_sw r OP_ZERO start) # s0, True)
        else if sz = 3 then ((if wr then op_ld r OP_ZERO start else op_sd r OP_ZERO start) # s0, True)
        else ([], False))"

definition transfer_fpr :: "bool \<Rightarrow> u32 \<Rightarrow> u32 \<Rightarrow> u32 list \<times> bool" where
  "transfer_fpr wr sz regno = (
     let r = regno - 0x1020; start = ucast debug_data_start
     in if sz = 2 then ([if wr then op_flw r OP_ZERO start else op_fsw r OP_ZERO start], True)
        else if sz = 3 then ([if wr then op_fld r OP_ZERO start else op_fsd r OP_ZERO start], True)
        else ([], False))"

definition transfer_code :: "debug_module_config_t \<Rightarrow> bool \<Rightarrow> u32 \<Rightarrow> u32 \<Rightarrow> u32 list \<times> bool" where
  "transfer_code conf wr sz regno = (
     let (code, ok) =
       (if regno < 0x1000 \<and> support_abstract_csr_access conf then transfer_csr wr sz regno
        else if regno \<ge> 0x1000 \<and> regno < 0x1020 then transfer_gpr wr sz regno
        else if regno \<ge> 0x1020 \<and> regno < 0x1040 \<and> support_abstract_fpr_access conf then transfer_fpr wr sz regno
        else ([], False))
     in (fpu_prologue regno @ code @ (if ok then fpu_epilogue regno else []), ok))"

definition custom_reg :: "u32 \<Rightarrow> bool" where
  "custom_reg regno \<longleftrightarrow> regno \<ge> 0xc000 \<and> regno AND 1 = 1"

definition emit :: "nat \<Rightarrow> u32 list \<Rightarrow> u8 list \<Rightarrow> u8 list" where
  "emit i ws mem = fold (\<lambda>(j, w) mem. write32 mem j w) (zip [i..<i + length ws] ws) mem"

definition access_custom :: "bool \<Rightarrow> u32 \<Rightarrow> dm_t \<Rightarrow> dm_t" where
  "access_custom wr regno d = (
     let n = regno - 0xc000; d = d\<lparr>dm_cmderr := CMDERR_NONE\<rparr>
     in if wr then d\<lparr>dm_custom_base := read32 (dm_data d) 0 - n\<rparr>
        else d\<lparr>dm_data := write32 (write32 (dm_data d) 0 (n + dm_custom_base d)) 1 0\<rparr>)"

definition start_command :: "nat list \<Rightarrow> u32 list \<Rightarrow> dm_t \<Rightarrow> dm_t" where
  "start_command ids code d = (
     let i = length code;
         fin = (if get_field (dm_command d) AC_ACCESS_REGISTER_POSTEXEC \<noteq> 0
                then op_jal OP_ZERO (ucast (debug_progbuf_start (dm_config d) - debug_abstract_start (dm_config d)) - 4 * of_nat i)
                else op_ebreak)
     in (upd_flags (selected_hart_id ids d) (\<lambda>f. f OR shl 1 DEBUG_ROM_FLAG_GO) d)
          \<lparr>dm_abstract := emit 0 (code @ [fin]) (dm_abstract d), dm_rti_remaining := abstract_rti (dm_config d),
           dm_completed := False, dm_busy := True\<rparr>)"

definition perform_abstract_command :: "nat list \<Rightarrow> dm_t \<Rightarrow> dm_t" where
  "perform_abstract_command ids d =
     (if dm_cmderr d \<noteq> CMDERR_NONE then d
      else if dm_busy d then d\<lparr>dm_cmderr := CMDERR_BUSY\<rparr>
      else if shr (dm_command d) 24 = 0 then
        (let sz = get_field (dm_command d) AC_ACCESS_REGISTER_AARSIZE;
             wr = (get_field (dm_command d) AC_ACCESS_REGISTER_WRITE \<noteq> 0);
             regno = get_field (dm_command d) AC_ACCESS_REGISTER_REGNO
         in if \<not> hd_halted (selected_hart_state ids d) then d\<lparr>dm_cmderr := CMDERR_HALTRESUME\<rparr>
            else if get_field (dm_command d) AC_ACCESS_REGISTER_TRANSFER \<noteq> 0 then
              (if custom_reg regno then access_custom wr regno d
               else let (code, ok) = transfer_code (dm_config d) wr sz regno
                    in if ok then start_command ids code d
                       else d\<lparr>dm_abstract := emit 0 code (dm_abstract d), dm_cmderr := CMDERR_NOTSUP\<rparr>)
            else start_command ids [] d)
      else d\<lparr>dm_cmderr := CMDERR_NOTSUP\<rparr>)"

definition run_test_idle :: "dm_t \<Rightarrow> dm_t" where
  "run_test_idle d = (
     let d = d\<lparr>dm_rti_remaining := dm_rti_remaining d - 1\<rparr>
     in if dm_rti_remaining d = 0 \<and> dm_busy d \<and> dm_completed d then d\<lparr>dm_busy := False\<rparr> else d)"

subsection \<open>System bus access\<close>

text \<open>The system bus as the module reaches it, through the MMU of the simulator that belongs to no hart. A
  load fault is caught; every other exception leaves the module.\<close>

datatype 'a sys_result = Sys_ok 'a | Sys_load_fault | Sys_throw

record 'p sysbus =
  sys_load :: "reg_t \<Rightarrow> nat \<Rightarrow> 'p \<Rightarrow> reg_t sys_result \<times> 'p"
  sys_store :: "reg_t \<Rightarrow> nat \<Rightarrow> reg_t \<Rightarrow> 'p \<Rightarrow> unit sys_result \<times> 'p"

definition sb_access_bits :: "dm_t \<Rightarrow> u32" where
  "sb_access_bits d = shl 8 (unat (sb_access (dm_sbcs d)))"

text \<open>The sums are of 32-bit operands, so they wrap before they are widened.\<close>

definition sb_autoincrement :: "dm_t \<Rightarrow> dm_t" where
  "sb_autoincrement d =
     (if \<not> sb_autoinc (dm_sbcs d) \<or> max_sba_data_width (dm_config d) = 0 then d
      else
        let a = dm_sbaddress d;
            value0 = ucast (a ! 0 + sb_access_bits d div 8) :: reg_t;
            carry0 = ucast (shr value0 32) :: u32;
            value1 = ucast (a ! 1 + carry0) :: reg_t;
            carry1 = ucast (shr value1 32) :: u32;
            value2 = ucast (a ! 2 + carry1) :: reg_t;
            carry2 = ucast (shr value2 32) :: u32
        in d\<lparr>dm_sbaddress := [ucast value0, ucast value1, ucast value2, a ! 3 + carry2]\<rparr>)"

definition sb_address :: "dm_t \<Rightarrow> reg_t" where
  "sb_address d = shl (ucast (dm_sbaddress d ! 1)) 32 OR ucast (dm_sbaddress d ! 0)"

definition set_sb_error :: "u32 \<Rightarrow> dm_t \<Rightarrow> dm_t" where
  "set_sb_error e d = d\<lparr>dm_sbcs := (dm_sbcs d)\<lparr>sb_error := e\<rparr>\<rparr>"

text \<open>The width of the selected access in bytes, when the configuration supports it.\<close>

definition sb_width :: "dm_t \<Rightarrow> nat option" where
  "sb_width d = (let w = max_sba_data_width (dm_config d); acc = sb_access (dm_sbcs d)
     in if acc = 0 \<and> w \<ge> 8 then Some 1 else if acc = 1 \<and> w \<ge> 16 then Some 2
        else if acc = 2 \<and> w \<ge> 32 then Some 4 else if acc = 3 \<and> w \<ge> 64 then Some 8 else None)"

definition sb_read :: "'p sysbus \<Rightarrow> dm_t \<Rightarrow> 'p \<Rightarrow> bool \<times> dm_t \<times> 'p" where
  "sb_read B d p = (case sb_width d of
     None \<Rightarrow> (True, set_sb_error 3 d, p)
   | Some n \<Rightarrow> (case sys_load B (sb_address d) n p of
       (Sys_ok v, p) \<Rightarrow> (True, d\<lparr>dm_sbdata := (if n = 8 then (dm_sbdata d)[0 := ucast v, 1 := ucast (shr v 32)]
                                            else (dm_sbdata d)[0 := ucast v])\<rparr>, p)
     | (Sys_load_fault, p) \<Rightarrow> (True, set_sb_error 2 d, p)
     | (Sys_throw, p) \<Rightarrow> (False, d, p)))"

definition sb_write :: "'p sysbus \<Rightarrow> dm_t \<Rightarrow> 'p \<Rightarrow> bool \<times> dm_t \<times> 'p" where
  "sb_write B d p = (case sb_width d of
     None \<Rightarrow> (True, set_sb_error 3 d, p)
   | Some n \<Rightarrow>
       (let v = (if n = 8 then shl (ucast (dm_sbdata d ! 1)) 32 OR ucast (dm_sbdata d ! 0) else ucast (dm_sbdata d ! 0))
        in case sys_store B (sb_address d) n v p of
             (Sys_ok _, p) \<Rightarrow> (True, d, p)
           | (_, p) \<Rightarrow> (False, d, p)))"

subsection \<open>The side of the debugger\<close>

definition dmcontrol_read :: "dm_t \<Rightarrow> u32" where
  "dmcontrol_read d = (
     let c = dm_control d;
         v = set_field 0 DM_DMCONTROL_HALTREQ (of_bool (dc_haltreq c));
         v = set_field v DM_DMCONTROL_RESUMEREQ (of_bool (dc_resumereq c));
         v = set_field v DM_DMCONTROL_HARTSELHI (of_nat (dc_hartsel c div 2 ^ DM_DMCONTROL_HARTSELLO_LENGTH));
         v = set_field v DM_DMCONTROL_HASEL (of_bool (dc_hasel c));
         v = set_field v DM_DMCONTROL_HARTSELLO (of_nat (dc_hartsel c));
         v = set_field v DM_DMCONTROL_HARTRESET (of_bool (dc_hartreset c));
         v = set_field v DM_DMCONTROL_NDMRESET (of_bool (dc_ndmreset c))
     in set_field v DM_DMCONTROL_DMACTIVE (of_bool (dc_dmactive c)))"

definition selected_harts :: "nat list \<Rightarrow> dm_t \<Rightarrow> nat list" where
  "selected_harts ids d = filter (hart_selected ids d) (get_harts ids)"

definition dmstatus_read :: "nat list \<Rightarrow> dm_t \<Rightarrow> u32" where
  "dmstatus_read ids d = (
     let hs = map ((!) (dm_harts d)) (selected_harts ids d); s = selected_hart_state ids d;
         v = set_field 0 DM_DMSTATUS_IMPEBREAK (of_bool (dm_impebreak d));
         v = set_field v DM_DMSTATUS_ALLHAVERESET (of_bool (hd_havereset s));
         v = set_field v DM_DMSTATUS_ANYHAVERESET (of_bool (hd_havereset s));
         v = set_field v DM_DMSTATUS_ALLNONEXISTENT (of_bool (hs = []));
         v = set_field v DM_DMSTATUS_ALLUNAVAIL 0;
         v = set_field v DM_DMSTATUS_ALLRUNNING (of_bool (list_all (\<lambda>h. \<not> hd_halted h) hs));
         v = set_field v DM_DMSTATUS_ALLHALTED (of_bool (list_all hd_halted hs));
         v = set_field v DM_DMSTATUS_ALLRESUMEACK (of_bool (list_all hd_resumeack hs));
         v = set_field v DM_DMSTATUS_ANYNONEXISTENT (of_bool (dc_hartsel (dm_control d) \<ge> length ids));
         v = set_field v DM_DMSTATUS_ANYUNAVAIL 0;
         v = set_field v DM_DMSTATUS_ANYRUNNING (of_bool (list_ex (\<lambda>h. \<not> hd_halted h) hs));
         v = set_field v DM_DMSTATUS_ANYHALTED (of_bool (list_ex hd_halted hs));
         v = set_field v DM_DMSTATUS_ANYRESUMEACK (of_bool (list_ex hd_resumeack hs));
         v = set_field v DM_DMSTATUS_AUTHENTICATED (of_bool (dm_authenticated d));
         v = set_field v DM_DMSTATUS_AUTHBUSY 0
     in set_field v DM_DMSTATUS_VERSION (dm_version d))"

definition abstractcs_read :: "dm_t \<Rightarrow> u32" where
  "abstractcs_read d = (
     let v = set_field 0 DM_ABSTRACTCS_CMDERR (dm_cmderr d);
         v = set_field v DM_ABSTRACTCS_BUSY (of_bool (dm_busy d));
         v = set_field v DM_ABSTRACTCS_DATACOUNT (of_nat (dm_datacount d))
     in set_field v DM_ABSTRACTCS_PROGBUFSIZE (of_nat (progbufsize (dm_config d))))"

definition hartinfo_read :: "dm_t \<Rightarrow> u32" where
  "hartinfo_read d = (
     let v = set_field 0 DM_HARTINFO_NSCRATCH 1;
         v = set_field v DM_HARTINFO_DATAACCESS 1;
         v = set_field v DM_HARTINFO_DATASIZE (of_nat (dm_datacount d))
     in set_field v DM_HARTINFO_DATAADDR (ucast debug_data_start))"

definition hawindow_read :: "nat list \<Rightarrow> dm_t \<Rightarrow> u32" where
  "hawindow_read ids d = (
     let base = unat (dm_hawindowsel d) * 32
     in fold (\<lambda>i v. if base + i < length ids \<and> dm_hart_mask d ! (ids ! (base + i)) then v OR shl 1 i else v) [0..<32] 0)"

definition sbcs_read :: "dm_t \<Rightarrow> u32" where
  "sbcs_read d = (
     let c = dm_sbcs d;
         v = set_field 0 DM_SBCS_SBVERSION (sb_version c);
         v = set_field v DM_SBCS_SBREADONADDR (of_bool (sb_readonaddr c));
         v = set_field v DM_SBCS_SBACCESS (sb_access c);
         v = set_field v DM_SBCS_SBAUTOINCREMENT (of_bool (sb_autoinc c));
         v = set_field v DM_SBCS_SBREADONDATA (of_bool (sb_readondata c));
         v = set_field v DM_SBCS_SBERROR (sb_error c);
         v = set_field v DM_SBCS_SBASIZE (sb_asize c);
         v = set_field v DM_SBCS_SBACCESS128 0;
         v = set_field v DM_SBCS_SBACCESS64 (of_bool (sb_access64 c));
         v = set_field v DM_SBCS_SBACCESS32 (of_bool (sb_access32 c));
         v = set_field v DM_SBCS_SBACCESS16 (of_bool (sb_access16 c))
     in set_field v DM_SBCS_SBACCESS8 (of_bool (sb_access8 c)))"

text \<open>The two sides of a register window: data words, program buffer words, everything else.\<close>

definition is_data_addr :: "u32 \<Rightarrow> dm_t \<Rightarrow> bool" where
  "is_data_addr addr d \<longleftrightarrow> addr \<ge> DM_DATA0 \<and> addr < DM_DATA0 + of_nat (dm_datacount d)"

definition is_progbuf_addr :: "u32 \<Rightarrow> dm_t \<Rightarrow> bool" where
  "is_progbuf_addr addr d \<longleftrightarrow> addr \<ge> DM_PROGBUF0 \<and> addr < DM_PROGBUF0 + of_nat (progbufsize (dm_config d))"

definition auto_command :: "nat list \<Rightarrow> u32 \<Rightarrow> nat \<Rightarrow> dm_t \<Rightarrow> dm_t" where
  "auto_command ids auto i d = (if \<not> dm_busy d \<and> shr auto i AND 1 \<noteq> 0 then perform_abstract_command ids d else d)"

definition data_busy :: "dm_t \<Rightarrow> dm_t" where
  "data_busy d = (if dm_busy d \<and> dm_cmderr d = CMDERR_NONE then d\<lparr>dm_cmderr := CMDERR_BUSY\<rparr> else d)"

text \<open>What a read of \<open>sbdata0\<close> does after it has its value.\<close>

definition sbdata0_read :: "'p sysbus \<Rightarrow> dm_t \<Rightarrow> 'p \<Rightarrow> bool \<times> dm_t \<times> 'p" where
  "sbdata0_read B d p =
     (if sb_error (dm_sbcs d) \<noteq> 0 then (True, d, p)
      else case (if sb_readondata (dm_sbcs d) then sb_read B d p else (True, d, p)) of
        (ok, d, p) \<Rightarrow> (ok, if ok \<and> sb_error (dm_sbcs d) = 0 then sb_autoincrement d else d, p))"

text \<open>The value, when the register exists; \<open>None\<close> outside is an exception that leaves the module.\<close>

definition dmi_read :: "'p sysbus \<Rightarrow> nat list \<Rightarrow> u32 \<Rightarrow> dm_t \<Rightarrow> 'p \<Rightarrow> u32 option option \<times> dm_t \<times> 'p" where
  "dmi_read B ids addr d p =
     (if is_data_addr addr d then
        (let i = unat (addr - DM_DATA0); v = (if dm_busy d then -1 else read32 (dm_data d) i)
         in (Some (Some v), auto_command ids (dm_autoexecdata d) i (data_busy d), p))
      else if is_progbuf_addr addr d then
        (let i = unat (addr - DM_PROGBUF0); v = (if dm_busy d then -1 else read32 (dm_progbuf d) i)
         in (Some (Some v), auto_command ids (dm_autoexecprogbuf d) i d, p))
      else if addr = DM_SBDATA0 then
        (case sbdata0_read B d p of (ok, d', p) \<Rightarrow> (if ok then Some (Some (dm_sbdata d ! 0)) else None, d', p))
      else
        (if addr = DM_DMCONTROL then Some (Some (dmcontrol_read d))
         else if addr = DM_DMSTATUS then Some (Some (dmstatus_read ids d))
         else if addr = DM_ABSTRACTCS then Some (Some (abstractcs_read d))
         else if addr = DM_ABSTRACTAUTO then
           Some (Some (set_field (set_field 0 DM_ABSTRACTAUTO_AUTOEXECPROGBUF (dm_autoexecprogbuf d))
                         DM_ABSTRACTAUTO_AUTOEXECDATA (dm_autoexecdata d)))
         else if addr = DM_COMMAND then Some (Some 0)
         else if addr = DM_HARTINFO then Some (Some (hartinfo_read d))
         else if addr = DM_HAWINDOWSEL then Some (Some (ucast (dm_hawindowsel d)))
         else if addr = DM_HAWINDOW then Some (Some (hawindow_read ids d))
         else if addr = DM_SBCS then Some (Some (sbcs_read d))
         else if addr = DM_SBADDRESS0 then Some (Some (dm_sbaddress d ! 0))
         else if addr = DM_SBADDRESS1 then Some (Some (dm_sbaddress d ! 1))
         else if addr = DM_SBADDRESS2 then Some (Some (dm_sbaddress d ! 2))
         else if addr = DM_SBADDRESS3 then Some (Some (dm_sbaddress d ! 3))
         else if addr = DM_SBDATA1 then Some (Some (dm_sbdata d ! 1))
         else if addr = DM_SBDATA2 then Some (Some (dm_sbdata d ! 2))
         else if addr = DM_SBDATA3 then Some (Some (dm_sbdata d ! 3))
         else if addr = DM_AUTHDATA then Some (Some (dm_challenge d))
         else if addr = DM_DMCS2 then Some (Some (set_field 0 DM_DMCS2_GROUP (ucast (hd_haltgroup (selected_hart_state ids d)))))
         else Some None, d, p))"

definition control_fields :: "nat list \<Rightarrow> u32 \<Rightarrow> dm_t \<Rightarrow> dm_t" where
  "control_fields ids v d = (
     let on = (\<lambda>m. get_field v m \<noteq> 0);
         sel = unat (shl (get_field v DM_DMCONTROL_HARTSELHI) DM_DMCONTROL_HARTSELLO_LENGTH OR get_field v DM_DMCONTROL_HARTSELLO)
     in d\<lparr>dm_control := \<lparr>dc_haltreq = on DM_DMCONTROL_HALTREQ, dc_resumereq = on DM_DMCONTROL_RESUMEREQ,
            dc_hasel = (support_hasel (dm_config d) \<and> on DM_DMCONTROL_HASEL), dc_hartsel = min sel (length ids - 1),
            dc_hartreset = on DM_DMCONTROL_HARTRESET, dc_dmactive = dc_dmactive (dm_control d), dc_ndmreset = on DM_DMCONTROL_NDMRESET\<rparr>\<rparr>)"

text \<open>What a write of the control register does to one selected hart.\<close>

definition control_hart :: "u32 \<Rightarrow> nat \<Rightarrow> dm_events \<times> dm_t \<Rightarrow> dm_events \<times> dm_t" where
  "control_hart v i = (\<lambda>(ev, d).
     let c = dm_control d;
         d = (if get_field v DM_DMCONTROL_ACKHAVERESET \<noteq> 0 then upd_hart i (\<lambda>h. h\<lparr>hd_havereset := False\<rparr>) d else d);
         ev = ev @ [(i, Dm_halt (if dc_haltreq c then HR_REGULAR else HR_NONE))];
         d = (if dc_resumereq c then upd_hart i (\<lambda>h. h\<lparr>hd_resumeack := False\<rparr>) (upd_flags i (\<lambda>f. f OR shl 1 DEBUG_ROM_FLAG_RESUME) d) else d)
     in if dc_hartreset c then (ev @ [(i, Dm_reset)], proc_reset i d) else (ev, d))"

definition dmcontrol_write :: "nat list \<Rightarrow> u32 \<Rightarrow> u32 \<Rightarrow> dm_t \<Rightarrow> dm_events \<times> dm_t" where
  "dmcontrol_write ids r v d = (
     let active = (get_field v DM_DMCONTROL_DMACTIVE \<noteq> 0);
         (ev, d) = (if \<not> dc_dmactive (dm_control d) \<and> active then dm_reset ids r d else ([], d));
         d = d\<lparr>dm_control := (dm_control d)\<lparr>dc_dmactive := active\<rparr>\<rparr>
     in if \<not> dm_authenticated d \<or> \<not> active then (ev, d)
        else
          let d = control_fields ids v d;
              (ev, d) = fold (control_hart v) (selected_harts ids d) (ev, d)
          in if dc_ndmreset (dm_control d)
             then (ev @ map (\<lambda>i. (i, Dm_reset)) (get_harts ids), fold proc_reset (get_harts ids) d)
             else (ev, d))"

definition hawindow_write :: "nat list \<Rightarrow> u32 \<Rightarrow> dm_t \<Rightarrow> dm_t" where
  "hawindow_write ids v d = (
     let base = unat (dm_hawindowsel d) * 32
     in fold (\<lambda>i d. if base + i < length ids
          then d\<lparr>dm_hart_mask := (dm_hart_mask d)[ids ! (base + i) := (shr v i AND 1 \<noteq> 0)]\<rparr> else d) [0..<32] d)"

definition sbcs_write :: "u32 \<Rightarrow> dm_t \<Rightarrow> dm_t" where
  "sbcs_write v d = (
     let on = (\<lambda>m. get_field v m \<noteq> 0); c = dm_sbcs d
     in d\<lparr>dm_sbcs := c\<lparr>sb_readonaddr := on DM_SBCS_SBREADONADDR, sb_access := get_field v DM_SBCS_SBACCESS,
          sb_autoinc := on DM_SBCS_SBAUTOINCREMENT, sb_readondata := on DM_SBCS_SBREADONDATA,
          sb_error := sb_error c AND NOT (get_field v DM_SBCS_SBERROR)\<rparr>\<rparr>)"

definition set_sbaddress :: "nat \<Rightarrow> u32 \<Rightarrow> dm_t \<Rightarrow> dm_t" where
  "set_sbaddress i v d = d\<lparr>dm_sbaddress := (dm_sbaddress d)[i := v]\<rparr>"

definition set_sbdata :: "nat \<Rightarrow> u32 \<Rightarrow> dm_t \<Rightarrow> dm_t" where
  "set_sbdata i v d = d\<lparr>dm_sbdata := (dm_sbdata d)[i := v]\<rparr>"

definition sbaddress0_write :: "'p sysbus \<Rightarrow> u32 \<Rightarrow> dm_t \<Rightarrow> 'p \<Rightarrow> bool \<times> dm_t \<times> 'p" where
  "sbaddress0_write B v d p = (
     let d = set_sbaddress 0 v d
     in if sb_error (dm_sbcs d) = 0 \<and> sb_readonaddr (dm_sbcs d)
        then (case sb_read B d p of (ok, d, p) \<Rightarrow> (ok, if ok then sb_autoincrement d else d, p)) else (True, d, p))"

definition sbdata0_write :: "'p sysbus \<Rightarrow> u32 \<Rightarrow> dm_t \<Rightarrow> 'p \<Rightarrow> bool \<times> dm_t \<times> 'p" where
  "sbdata0_write B v d p = (
     let d = set_sbdata 0 v d
     in if sb_error (dm_sbcs d) = 0
        then (case sb_write B d p of (ok, d, p) \<Rightarrow> (ok, if ok \<and> sb_error (dm_sbcs d) = 0 then sb_autoincrement d else d, p))
        else (True, d, p))"

definition authdata_write :: "u32 \<Rightarrow> u32 \<Rightarrow> dm_t \<Rightarrow> dm_t" where
  "authdata_write r v d =
     (if \<not> require_authentication (dm_config d) then d
      else if v = dm_challenge d + dm_secret then d\<lparr>dm_authenticated := True\<rparr>
      else d\<lparr>dm_authenticated := False, dm_challenge := r\<rparr>)"

definition dmcs2_write :: "nat list \<Rightarrow> u32 \<Rightarrow> dm_t \<Rightarrow> dm_t" where
  "dmcs2_write ids v d =
     (if support_haltgroups (dm_config d) \<and> get_field v DM_DMCS2_HGWRITE \<noteq> 0 \<and> get_field v DM_DMCS2_GROUPTYPE = 0
      then upd_hart (selected_hart_id ids d) (\<lambda>h. h\<lparr>hd_haltgroup := ucast (get_field v DM_DMCS2_GROUP)\<rparr>) d else d)"

text \<open>The writes that only change the module.\<close>

definition dm_register_write :: "nat list \<Rightarrow> u32 \<Rightarrow> u32 \<Rightarrow> u32 \<Rightarrow> dm_t \<Rightarrow> dm_t option" where
  "dm_register_write ids r addr v d =
     (if addr = DM_COMMAND then Some (perform_abstract_command ids (d\<lparr>dm_command := v\<rparr>))
      else if addr = DM_HAWINDOWSEL then Some (d\<lparr>dm_hawindowsel := ucast (v AND (shl 1 (field_width (length (dm_hart_mask d))) - 1))\<rparr>)
      else if addr = DM_HAWINDOW then Some (hawindow_write ids v d)
      else if addr = DM_ABSTRACTCS then Some (d\<lparr>dm_cmderr := dm_cmderr d AND NOT (get_field v DM_ABSTRACTCS_CMDERR)\<rparr>)
      else if addr = DM_ABSTRACTAUTO then
        Some (d\<lparr>dm_autoexecprogbuf := get_field v DM_ABSTRACTAUTO_AUTOEXECPROGBUF, dm_autoexecdata := get_field v DM_ABSTRACTAUTO_AUTOEXECDATA\<rparr>)
      else if addr = DM_SBCS then Some (sbcs_write v d)
      else if addr = DM_SBADDRESS1 then Some (set_sbaddress 1 v d)
      else if addr = DM_SBADDRESS2 then Some (set_sbaddress 2 v d)
      else if addr = DM_SBADDRESS3 then Some (set_sbaddress 3 v d)
      else if addr = DM_SBDATA1 then Some (set_sbdata 1 v d)
      else if addr = DM_SBDATA2 then Some (set_sbdata 2 v d)
      else if addr = DM_SBDATA3 then Some (set_sbdata 3 v d)
      else if addr = DM_AUTHDATA then Some (authdata_write r v d)
      else if addr = DM_DMCS2 then Some (dmcs2_write ids v d)
      else None)"

text \<open>\<open>None\<close> is an exception that leaves the module.\<close>

definition dmi_write :: "'p sysbus \<Rightarrow> nat list \<Rightarrow> u32 \<Rightarrow> u32 \<Rightarrow> u32 \<Rightarrow> dm_t \<Rightarrow> 'p \<Rightarrow> bool option \<times> dm_events \<times> dm_t \<times> 'p" where
  "dmi_write B ids r addr v d p =
     (if \<not> dm_authenticated d \<and> addr \<noteq> DM_AUTHDATA \<and> addr \<noteq> DM_DMCONTROL then (Some False, [], d, p)
      else if is_data_addr addr d then
        (let i = unat (addr - DM_DATA0);
             d = (if dm_busy d then d else d\<lparr>dm_data := write32 (dm_data d) i v\<rparr>)
         in (Some True, [], auto_command ids (dm_autoexecdata d) i (data_busy d), p))
      else if is_progbuf_addr addr d then
        (let i = unat (addr - DM_PROGBUF0);
             d = (if dm_busy d then d else d\<lparr>dm_progbuf := write32 (dm_progbuf d) i v\<rparr>)
         in (Some True, [], auto_command ids (dm_autoexecprogbuf d) i d, p))
      else if addr = DM_DMCONTROL then (case dmcontrol_write ids r v d of (ev, d) \<Rightarrow> (Some True, ev, d, p))
      else if addr = DM_SBADDRESS0 then
        (case sbaddress0_write B v d p of (ok, d, p) \<Rightarrow> (if ok then Some True else None, [], d, p))
      else if addr = DM_SBDATA0 then
        (case sbdata0_write B v d p of (ok, d, p) \<Rightarrow> (if ok then Some True else None, [], d, p))
      else case dm_register_write ids r addr v d of
          Some d \<Rightarrow> (Some True, [], d, p)
        | None \<Rightarrow> (Some False, [], d, p))"

end
