(* ===== verification/Jtag.thy ===== *)
theory Jtag
  imports Debug_Module
begin

text \<open>
  The JTAG transport of riscv/jtag_dtm.cc: the test access port state machine, its registers, and the
  debug module interface requests its data register carries.
\<close>

subsection \<open>The test access port\<close>

datatype jtag_state_t = TEST_LOGIC_RESET | RUN_TEST_IDLE | SELECT_DR_SCAN | CAPTURE_DR | SHIFT_DR | EXIT1_DR | PAUSE_DR | EXIT2_DR
  | UPDATE_DR | SELECT_IR_SCAN | CAPTURE_IR | SHIFT_IR | EXIT1_IR | PAUSE_IR | EXIT2_IR | UPDATE_IR

fun jtag_next :: "jtag_state_t \<Rightarrow> bool \<Rightarrow> jtag_state_t" where
  "jtag_next TEST_LOGIC_RESET tms = (if tms then TEST_LOGIC_RESET else RUN_TEST_IDLE)"
| "jtag_next RUN_TEST_IDLE tms = (if tms then SELECT_DR_SCAN else RUN_TEST_IDLE)"
| "jtag_next SELECT_DR_SCAN tms = (if tms then SELECT_IR_SCAN else CAPTURE_DR)"
| "jtag_next CAPTURE_DR tms = (if tms then EXIT1_DR else SHIFT_DR)"
| "jtag_next SHIFT_DR tms = (if tms then EXIT1_DR else SHIFT_DR)"
| "jtag_next EXIT1_DR tms = (if tms then UPDATE_DR else PAUSE_DR)"
| "jtag_next PAUSE_DR tms = (if tms then EXIT2_DR else PAUSE_DR)"
| "jtag_next EXIT2_DR tms = (if tms then UPDATE_DR else SHIFT_DR)"
| "jtag_next UPDATE_DR tms = (if tms then SELECT_DR_SCAN else RUN_TEST_IDLE)"
| "jtag_next SELECT_IR_SCAN tms = (if tms then TEST_LOGIC_RESET else CAPTURE_IR)"
| "jtag_next CAPTURE_IR tms = (if tms then EXIT1_IR else SHIFT_IR)"
| "jtag_next SHIFT_IR tms = (if tms then EXIT1_IR else SHIFT_IR)"
| "jtag_next EXIT1_IR tms = (if tms then UPDATE_IR else PAUSE_IR)"
| "jtag_next PAUSE_IR tms = (if tms then EXIT2_IR else PAUSE_IR)"
| "jtag_next EXIT2_IR tms = (if tms then UPDATE_IR else SHIFT_IR)"
| "jtag_next UPDATE_IR tms = (if tms then SELECT_DR_SCAN else RUN_TEST_IDLE)"

abbreviation (input) IR_IDCODE :: u32 where "IR_IDCODE \<equiv> 1"
abbreviation (input) IR_DTMCONTROL :: u32 where "IR_DTMCONTROL \<equiv> 0x10"
abbreviation (input) IR_DBUS :: u32 where "IR_DBUS \<equiv> 0x11"
abbreviation (input) IR_BYPASS :: u32 where "IR_BYPASS \<equiv> 0x1f"
abbreviation (input) DTMCONTROL_DMIRESET :: reg_t where "DTMCONTROL_DMIRESET \<equiv> 0x10000"
abbreviation (input) DTMCONTROL_DMIHARDRESET :: reg_t where "DTMCONTROL_DMIHARDRESET \<equiv> 0x20000"
abbreviation (input) DMI_OP :: reg_t where "DMI_OP \<equiv> 3"
abbreviation (input) DMI_DATA :: reg_t where "DMI_DATA \<equiv> 0x3fffffffc"
abbreviation (input) DMI_ADDRESS :: reg_t where "DMI_ADDRESS \<equiv> 0xfc00000000"
abbreviation (input) DMI_OP_STATUS_SUCCESS :: reg_t where "DMI_OP_STATUS_SUCCESS \<equiv> 0"
abbreviation (input) DMI_OP_STATUS_FAILED :: reg_t where "DMI_OP_STATUS_FAILED \<equiv> 2"
abbreviation (input) DMI_OP_STATUS_BUSY :: reg_t where "DMI_OP_STATUS_BUSY \<equiv> 3"
abbreviation (input) DMI_OP_READ :: reg_t where "DMI_OP_READ \<equiv> 1"
abbreviation (input) DMI_OP_WRITE :: reg_t where "DMI_OP_WRITE \<equiv> 2"
abbreviation (input) jtag_idcode :: reg_t where "jtag_idcode \<equiv> 0xdeadbeef"
abbreviation (input) jtag_ir_length :: nat where "jtag_ir_length \<equiv> 5"
abbreviation (input) jtag_abits :: nat where "jtag_abits \<equiv> 6"

record jtag_dtm_t =
  jt_required_rti :: nat
  jt_tck :: bool
  jt_tms :: bool
  jt_tdi :: bool
  jt_tdo :: bool
  jt_ir :: u32
  jt_dr :: reg_t
  jt_dr_length :: nat
  jt_dtmcontrol :: u32
  jt_dmi :: reg_t
  jt_bypass :: u32
  jt_rti_remaining :: nat
  jt_busy_stuck :: bool
  jt_state :: jtag_state_t

text \<open>The constructor leaves the shift registers, \<open>rti_remaining\<close> and \<open>busy_stuck\<close> of the object as it finds them.\<close>

definition jtag_new :: "nat \<Rightarrow> jtag_dtm_t \<Rightarrow> jtag_dtm_t" where
  "jtag_new rti t0 = t0\<lparr>jt_required_rti := rti, jt_tck := False, jt_tms := False, jt_tdi := False, jt_tdo := False,
     jt_dtmcontrol := shl (of_nat jtag_abits) 4 OR 1, jt_dmi := DMI_OP_STATUS_SUCCESS, jt_bypass := 0, jt_state := TEST_LOGIC_RESET\<rparr>"

definition jtag_reset :: "jtag_dtm_t \<Rightarrow> jtag_dtm_t" where
  "jtag_reset t = t\<lparr>jt_state := TEST_LOGIC_RESET, jt_busy_stuck := False, jt_rti_remaining := 0, jt_dmi := 0\<rparr>"

definition capture_dr :: "jtag_dtm_t \<Rightarrow> jtag_dtm_t" where
  "capture_dr t =
     (if jt_ir t = IR_IDCODE then t\<lparr>jt_dr := jtag_idcode, jt_dr_length := 32\<rparr>
      else if jt_ir t = IR_DTMCONTROL then t\<lparr>jt_dr := ucast (jt_dtmcontrol t), jt_dr_length := 32\<rparr>
      else if jt_ir t = IR_DBUS then
        (if jt_rti_remaining t > 0 \<or> jt_busy_stuck t then t\<lparr>jt_dr := DMI_OP_STATUS_BUSY, jt_busy_stuck := True, jt_dr_length := jtag_abits + 34\<rparr>
         else t\<lparr>jt_dr := jt_dmi t, jt_dr_length := jtag_abits + 34\<rparr>)
      else if jt_ir t = IR_BYPASS then t\<lparr>jt_dr := ucast (jt_bypass t), jt_dr_length := 1\<rparr>
      else t)"

text \<open>A scan's result drives the debug module interface; \<open>False\<close> is an exception that leaves the module.\<close>

type_synonym 'p jtag_result = "bool \<times> dm_events \<times> jtag_dtm_t \<times> dm_t \<times> 'p"

definition dmi_finish :: "bool \<Rightarrow> jtag_dtm_t \<Rightarrow> jtag_dtm_t" where
  "dmi_finish success t = t\<lparr>jt_dmi := set_field (jt_dmi t) DMI_OP (if success then DMI_OP_STATUS_SUCCESS else DMI_OP_STATUS_FAILED),
     jt_rti_remaining := jt_required_rti t\<rparr>"

definition update_dr :: "'p sysbus \<Rightarrow> nat list \<Rightarrow> u32 \<Rightarrow> jtag_dtm_t \<Rightarrow> dm_t \<Rightarrow> 'p \<Rightarrow> 'p jtag_result" where
  "update_dr B ids r t d p =
     (if jt_ir t = IR_DTMCONTROL then
        (let t = (if jt_dr t AND DTMCONTROL_DMIRESET \<noteq> 0 then t\<lparr>jt_busy_stuck := False\<rparr> else t)
         in (True, [], if jt_dr t AND DTMCONTROL_DMIHARDRESET \<noteq> 0 then jtag_reset t else t, d, p))
      else if jt_ir t = IR_BYPASS then (True, [], t\<lparr>jt_bypass := ucast (jt_dr t)\<rparr>, d, p)
      else if jt_ir t = IR_DBUS \<and> \<not> jt_busy_stuck t then
        (let dr = jt_dr t; op = get_field dr DMI_OP; addr = ucast (get_field dr DMI_ADDRESS); t = t\<lparr>jt_dmi := dr\<rparr>
         in if op = DMI_OP_READ then
              (case dmi_read B ids addr d p of
                 (Some (Some v), d, p) \<Rightarrow> (True, [], dmi_finish True (t\<lparr>jt_dmi := set_field (jt_dmi t) DMI_DATA (ucast v)\<rparr>), d, p)
               | (Some None, d, p) \<Rightarrow> (True, [], dmi_finish False t, d, p)
               | (None, d, p) \<Rightarrow> (False, [], t, d, p))
            else if op = DMI_OP_WRITE then
              (case dmi_write B ids r addr (ucast (get_field dr DMI_DATA)) d p of
                 (Some ok, ev, d, p) \<Rightarrow> (True, ev, dmi_finish ok t, d, p)
               | (None, ev, d, p) \<Rightarrow> (False, ev, t, d, p))
            else (True, [], dmi_finish True t, d, p))
      else (True, [], t, d, p))"

definition clock_high :: "jtag_dtm_t \<Rightarrow> jtag_dtm_t" where
  "clock_high t = (
     let t = (case jt_state t of
         SHIFT_DR \<Rightarrow> t\<lparr>jt_dr := shr (jt_dr t) 1 OR shl (of_bool (jt_tdi t)) (jt_dr_length t - 1)\<rparr>
       | SHIFT_IR \<Rightarrow> t\<lparr>jt_ir := shr (jt_ir t) 1 OR shl (of_bool (jt_tdi t)) (jtag_ir_length - 1)\<rparr>
       | _ \<Rightarrow> t)
     in t\<lparr>jt_state := jtag_next (jt_state t) (jt_tms t)\<rparr>)"

text \<open>What every other call does, whether or not the clock falls in it.\<close>

definition clock_low :: "'p sysbus \<Rightarrow> nat list \<Rightarrow> u32 \<Rightarrow> jtag_dtm_t \<Rightarrow> dm_t \<Rightarrow> 'p \<Rightarrow> 'p jtag_result" where
  "clock_low B ids r t d p = (case jt_state t of
     RUN_TEST_IDLE \<Rightarrow> (True, [], t\<lparr>jt_rti_remaining := jt_rti_remaining t - 1\<rparr>, run_test_idle d, p)
   | TEST_LOGIC_RESET \<Rightarrow> (True, [], t\<lparr>jt_ir := IR_IDCODE\<rparr>, d, p)
   | CAPTURE_DR \<Rightarrow> (True, [], capture_dr t, d, p)
   | SHIFT_DR \<Rightarrow> (True, [], t\<lparr>jt_tdo := (jt_dr t AND 1 \<noteq> 0)\<rparr>, d, p)
   | UPDATE_DR \<Rightarrow> update_dr B ids r t d p
   | SHIFT_IR \<Rightarrow> (True, [], t\<lparr>jt_tdo := (jt_ir t AND 1 \<noteq> 0)\<rparr>, d, p)
   | _ \<Rightarrow> (True, [], t, d, p))"

definition set_pins :: "'p sysbus \<Rightarrow> nat list \<Rightarrow> u32 \<Rightarrow> bool \<Rightarrow> bool \<Rightarrow> bool \<Rightarrow> jtag_dtm_t \<Rightarrow> dm_t \<Rightarrow> 'p \<Rightarrow> 'p jtag_result" where
  "set_pins B ids r tck tms tdi t d p =
     (case (if \<not> jt_tck t \<and> tck then (True, [], clock_high t, d, p) else clock_low B ids r t d p) of
        (ok, ev, t, d, p) \<Rightarrow> (ok, ev, if ok then t\<lparr>jt_tck := tck, jt_tms := tms, jt_tdi := tdi\<rparr> else t, d, p))"

subsection \<open>Reset and scan\<close>

text \<open>A full clock cycle of the debugger: the pins are set while the clock is low, then it rises.\<close>

definition clock_cycle :: "'p sysbus \<Rightarrow> nat list \<Rightarrow> u32 \<Rightarrow> bool \<Rightarrow> bool \<Rightarrow> jtag_dtm_t \<times> dm_t \<times> 'p \<Rightarrow> (bool \<times> jtag_dtm_t \<times> dm_t \<times> 'p) option" where
  "clock_cycle B ids r tms tdi x = (case x of (t, d, p) \<Rightarrow>
     (case set_pins B ids r False tms tdi t d p of
        (ok, ev, t, d, p) \<Rightarrow> if \<not> ok then None
          else case set_pins B ids r True tms tdi t d p of (ok, ev, t', d, p) \<Rightarrow> if ok then Some (jt_tdo t, t', d, p) else None))"

fun clock_cycles :: "'p sysbus \<Rightarrow> nat list \<Rightarrow> u32 \<Rightarrow> (bool \<times> bool) list \<Rightarrow> jtag_dtm_t \<times> dm_t \<times> 'p \<Rightarrow> (bool list \<times> jtag_dtm_t \<times> dm_t \<times> 'p) option" where
  "clock_cycles B ids r [] x = Some ([], x)"
| "clock_cycles B ids r ((tms, tdi) # ps) x = (case clock_cycle B ids r tms tdi x of
     None \<Rightarrow> None
   | Some (o1, y) \<Rightarrow> map_option (\<lambda>(os, z). (o1 # os, z)) (clock_cycles B ids r ps y))"

lemma update_dr_state:
  "update_dr B ids r t d p = (ok, ev, t', d', p') \<Longrightarrow> jt_state t' = jt_state t \<or> jt_state t' = TEST_LOGIC_RESET"
  by (auto simp: update_dr_def Let_def jtag_reset_def dmi_finish_def split: if_splits prod.splits option.splits)

lemma clock_low_state:
  "clock_low B ids r t d p = (ok, ev, t', d', p') \<Longrightarrow> jt_state t' = jt_state t \<or> jt_state t' = TEST_LOGIC_RESET"
  using update_dr_state [of B ids r t d p]
  by (cases "jt_state t") (auto simp: clock_low_def capture_dr_def split: if_splits)

lemma clock_high_state: "jt_state (clock_high t) = jtag_next (jt_state t) (jt_tms t)"
  by (cases "jt_state t") (simp_all add: clock_high_def)

lemma set_pins_low:
  "set_pins B ids r False tms tdi t d p = (True, ev, t', d', p') \<Longrightarrow>
     \<exists>t1. clock_low B ids r t d p = (True, ev, t1, d', p') \<and> t' = t1\<lparr>jt_tck := False, jt_tms := tms, jt_tdi := tdi\<rparr>"
  by (auto simp: set_pins_def split: prod.splits if_splits)

lemma set_pins_high:
  "\<not> jt_tck t \<Longrightarrow> set_pins B ids r True tms tdi t d p = (True, [], (clock_high t)\<lparr>jt_tck := True, jt_tms := tms, jt_tdi := tdi\<rparr>, d, p)"
  by (simp add: set_pins_def)

lemma cycle_steps:
  assumes "clock_cycle B ids r tms tdi (t, d, p) = Some (o1, t', d', p')"
  obtains ev t1 where "clock_low B ids r t d p = (True, ev, t1, d', p')" "o1 = jt_tdo t1"
    "t' = (clock_high (t1\<lparr>jt_tck := False, jt_tms := tms, jt_tdi := tdi\<rparr>))\<lparr>jt_tck := True, jt_tms := tms, jt_tdi := tdi\<rparr>"
proof -
  obtain ok ev t0 d0 p0 where s: "set_pins B ids r False tms tdi t d p = (ok, ev, t0, d0, p0)" using prod_cases5 by blast
  have ok using assms s by (cases ok) (simp_all add: clock_cycle_def)
  then have s1: "set_pins B ids r False tms tdi t d p = (True, ev, t0, d0, p0)" using s by simp
  obtain t1 where t1: "clock_low B ids r t d p = (True, ev, t1, d0, p0)" "t0 = t1\<lparr>jt_tck := False, jt_tms := tms, jt_tdi := tdi\<rparr>"
    using set_pins_low [OF s1] by blast
  then have "o1 = jt_tdo t1 \<and> t' = (clock_high t0)\<lparr>jt_tck := True, jt_tms := tms, jt_tdi := tdi\<rparr> \<and> d' = d0 \<and> p' = p0"
    using assms \<open>ok\<close> s set_pins_high [of t0 B ids r tms tdi d0 p0] by (simp add: clock_cycle_def)
  then show thesis using that t1 by blast
qed

lemma cycle_state:
  assumes "clock_cycle B ids r tms tdi (t, d, p) = Some (o1, t', d', p')"
  shows "jt_state t' = jtag_next (jt_state t) tms \<or> jt_state t' = jtag_next TEST_LOGIC_RESET tms"
proof -
  obtain ev t1 where "clock_low B ids r t d p = (True, ev, t1, d', p')"
    "t' = (clock_high (t1\<lparr>jt_tck := False, jt_tms := tms, jt_tdi := tdi\<rparr>))\<lparr>jt_tck := True, jt_tms := tms, jt_tdi := tdi\<rparr>"
    by (rule cycle_steps [OF assms])
  then show ?thesis using clock_low_state [of B ids r t d p True ev t1 d' p'] by (auto simp: clock_high_state)
qed

text \<open>How many cycles with the mode pin high are left before the port is reset.\<close>

fun reset_distance :: "jtag_state_t \<Rightarrow> nat" where
  "reset_distance TEST_LOGIC_RESET = 0"
| "reset_distance SELECT_IR_SCAN = 1"
| "reset_distance SELECT_DR_SCAN = 2"
| "reset_distance RUN_TEST_IDLE = 3"
| "reset_distance UPDATE_DR = 3"
| "reset_distance UPDATE_IR = 3"
| "reset_distance EXIT1_DR = 4"
| "reset_distance EXIT2_DR = 4"
| "reset_distance EXIT1_IR = 4"
| "reset_distance EXIT2_IR = 4"
| "reset_distance _ = 5"

lemma reset_closer: "reset_distance (jtag_next s True) \<le> reset_distance s - 1"
  by (cases s) simp_all

lemma cycles_reset:
  "clock_cycles B ids r (map (Pair True) bs) (t, d, p) = Some (os, t', y) \<Longrightarrow> reset_distance (jt_state t') \<le> reset_distance (jt_state t) - length bs"
proof (induction bs arbitrary: t d p os)
  case (Cons b bs)
  obtain o1 t1 d1 p1 where c: "clock_cycle B ids r True b (t, d, p) = Some (o1, t1, d1, p1)"
    using Cons.prems by (cases "clock_cycle B ids r True b (t, d, p)") auto
  have "reset_distance (jt_state t1) \<le> reset_distance (jt_state t) - 1"
    using cycle_state [OF c] reset_closer [of "jt_state t"] by auto
  moreover have "\<exists>os. clock_cycles B ids r (map (Pair True) bs) (t1, d1, p1) = Some (os, t', y)" using Cons.prems c by auto
  ultimately show ?case using Cons.IH by fastforce
qed simp

text \<open>A system bus on which no exception leaves the module.\<close>

definition no_throw :: "'p sysbus \<Rightarrow> bool" where
  "no_throw B \<longleftrightarrow> (\<forall>a n p. fst (sys_load B a n p) \<noteq> Sys_throw) \<and> (\<forall>a n v p. \<exists>u. fst (sys_store B a n v p) = Sys_ok u)"

lemma no_throw_sb:
  assumes "no_throw B"
  shows "fst (sb_read B d p)" "fst (sb_write B d p)"
proof -
  have l: "fst (sys_load B a n p) \<noteq> Sys_throw" and s: "\<exists>u. fst (sys_store B a n v p) = Sys_ok u" for a n v p
    using assms by (simp_all add: no_throw_def)
  show "fst (sb_read B d p)"
  proof (cases "sb_width d")
    case (Some n)
    then show ?thesis using l [of "sb_address d" n p] by (auto simp: sb_read_def split: prod.split sys_result.split)
  qed (simp add: sb_read_def)
  show "fst (sb_write B d p)"
  proof (cases "sb_width d")
    case (Some n)
    let ?v = "if n = 8 then shl (ucast (dm_sbdata d ! 1)) 32 OR ucast (dm_sbdata d ! 0) else ucast (dm_sbdata d ! 0) :: reg_t"
    obtain u p' where "sys_store B (sb_address d) n ?v p = (Sys_ok u, p')" using s [of "sb_address d" n ?v p] by (metis prod.collapse)
    then show ?thesis using Some by (simp add: sb_write_def Let_def)
  qed (simp add: sb_write_def)
qed

lemma no_throw_dmi:
  assumes "no_throw B"
  shows "fst (dmi_read B ids addr d p) \<noteq> None" "fst (dmi_write B ids r addr v d p) \<noteq> None"
proof -
  have "fst (sbdata0_read B d p)" using no_throw_sb(1) [OF assms, of d p] by (auto simp: sbdata0_read_def split: prod.splits)
  then obtain da pa where "sbdata0_read B d p = (True, da, pa)" by (metis prod.collapse)
  then show "fst (dmi_read B ids addr d p) \<noteq> None" by (simp add: dmi_read_def Let_def)
  have "fst (sbaddress0_write B v d p)" "fst (sbdata0_write B v d p)"
    using no_throw_sb(1) [OF assms, of "set_sbaddress 0 v d" p] no_throw_sb(2) [OF assms, of "set_sbdata 0 v d" p]
    by (auto simp: sbaddress0_write_def sbdata0_write_def Let_def split: prod.splits)
  then obtain d1 p1 d2 p2 where 1: "sbaddress0_write B v d p = (True, d1, p1)" and 2: "sbdata0_write B v d p = (True, d2, p2)"
    by (metis prod.collapse)
  obtain ev d3 where 3: "dmcontrol_write ids r v d = (ev, d3)" by fastforce
  show "fst (dmi_write B ids r addr v d p) \<noteq> None" by (simp add: dmi_write_def Let_def 1 2 3 del: not_None_eq split: option.split)
qed

lemma no_throw_low: "no_throw B \<Longrightarrow> fst (clock_low B ids r t d p)"
proof -
  assume B: "no_throw B"
  let ?a = "ucast (get_field (jt_dr t) DMI_ADDRESS) :: u32" and ?v = "ucast (get_field (jt_dr t) DMI_DATA) :: u32"
  obtain vo d1 p1 where 1: "dmi_read B ids ?a d p = (Some vo, d1, p1)"
    using no_throw_dmi(1) [OF B, of ids ?a d p] by (metis not_None_eq prod.collapse)
  obtain ok ev d2 p2 where 2: "dmi_write B ids r ?a ?v d p = (Some ok, ev, d2, p2)"
    using no_throw_dmi(2) [OF B, of ids r ?a ?v d p] by (metis not_None_eq prod.collapse)
  have "fst (update_dr B ids r t d p)"
    by (cases vo) (simp_all add: update_dr_def Let_def 1 2)
  then show ?thesis by (cases "jt_state t") (simp_all add: clock_low_def)
qed

lemma no_throw_cycle: "no_throw B \<Longrightarrow> \<exists>o1 t' d' p'. clock_cycle B ids r tms tdi (t, d, p) = Some (o1, t', d', p')"
proof -
  assume B: "no_throw B"
  obtain ev t1 d1 p1 where l: "clock_low B ids r t d p = (True, ev, t1, d1, p1)" using no_throw_low [OF B] by (metis prod.collapse)
  let ?t = "t1\<lparr>jt_tck := False, jt_tms := tms, jt_tdi := tdi\<rparr>"
  have "set_pins B ids r False tms tdi t d p = (True, ev, ?t, d1, p1)" using l by (simp add: set_pins_def)
  then show ?thesis using set_pins_high [of ?t B ids r tms tdi d1 p1] by (simp add: clock_cycle_def)
qed

lemma no_throw_cycles: "no_throw B \<Longrightarrow> \<exists>os t' y. clock_cycles B ids r ps (t, d, p) = Some (os, t', y)"
proof (induction ps arbitrary: t d p)
  case (Cons x ps)
  obtain tms tdi where x: "x = (tms, tdi)" by fastforce
  obtain o1 t1 d1 p1 where "clock_cycle B ids r tms tdi (t, d, p) = Some (o1, t1, d1, p1)" using no_throw_cycle [OF Cons.prems] by blast
  then show ?case using Cons.IH [OF Cons.prems, of t1 d1 p1] by (auto simp: x)
qed simp


text \<open>From the middle of a scan, with a system bus that answers.\<close>

definition quiet_sysbus :: "unit sysbus" where
  "quiet_sysbus = \<lparr>sys_load = (\<lambda>_ _ p. (Sys_ok 0, p)), sys_store = (\<lambda>_ _ _ p. (Sys_ok (), p))\<rparr>"

definition demo_jtag :: jtag_dtm_t where
  "demo_jtag = \<lparr>jt_required_rti = 0, jt_tck = True, jt_tms = False, jt_tdi = False, jt_tdo = False, jt_ir = IR_BYPASS, jt_dr = 5,
     jt_dr_length = 3, jt_dtmcontrol = 0x61, jt_dmi = 0, jt_bypass = 0, jt_rti_remaining = 0, jt_busy_stuck = False, jt_state = SHIFT_DR\<rparr>"


text \<open>The scan of a data register of \<open>n\<close> bits: the bits that come out are those it held, the bits that went in
  are those it holds.\<close>

definition shift_bit :: "nat \<Rightarrow> bool \<Rightarrow> reg_t \<Rightarrow> reg_t" where
  "shift_bit n b x = shr x 1 OR shl (of_bool b) (n - 1)"

lemma bit_power64: "bit (2 ^ m :: reg_t) i \<longleftrightarrow> i = m \<and> m < 64"
  by (auto simp: bit_simps)

lemma bit_shift_bit:
  "0 < n \<Longrightarrow> n \<le> 64 \<Longrightarrow> bit (shift_bit n b x) i \<longleftrightarrow> bit x (i + 1) \<or> (b \<and> i = n - 1)"
  by (cases b) (auto simp: shift_bit_def bit_or_iff bit_drop_bit_eq bit_power64 add.commute dest: bit_imp_le_length)

lemma shift_in:
  "0 < n \<Longrightarrow> n \<le> 64 \<Longrightarrow> length bs \<le> n \<Longrightarrow> \<forall>j\<ge>n. \<not> bit x j \<Longrightarrow>
     bit (fold (shift_bit n) bs x) i \<longleftrightarrow> (if i + length bs < n then bit x (i + length bs) else i < n \<and> bs ! (i + length bs - n))"
proof (induction bs arbitrary: x)
  case (Cons b bs)
  have nb: "\<forall>j\<ge>n. \<not> bit (shift_bit n b x) j" using Cons.prems by (auto simp: bit_shift_bit)
  have ih: "bit (fold (shift_bit n) bs (shift_bit n b x)) i \<longleftrightarrow>
      (if i + length bs < n then bit (shift_bit n b x) (i + length bs) else i < n \<and> bs ! (i + length bs - n))"
    using Cons.IH [OF Cons.prems(1,2) _ nb] Cons.prems(3) by simp
  consider "i + length bs + 1 < n" | "i + length bs + 1 = n" | "n < i + length bs + 1" by linarith
  then show ?case
  proof cases
    case 1
    then show ?thesis using ih Cons.prems(1,2) by (auto simp: bit_shift_bit)
  next
    case 2
    then have "\<not> bit x (i + length bs + 1)" using Cons.prems(4) by simp
    then show ?thesis using 2 ih Cons.prems(1,2) by (auto simp: bit_shift_bit)
  next
    case 3
    then have "i + length (b # bs) - n = Suc (i + length bs - n)" using Cons.prems(3) by simp
    then show ?thesis using 3 ih by simp
  qed
qed simp

lemma scan_cycle:
  assumes "jt_state t = SHIFT_DR"
  shows "clock_cycle B ids r False b (t, d, p) =
    Some (bit (jt_dr t) 0, t\<lparr>jt_tck := True, jt_tms := False, jt_tdi := b, jt_tdo := bit (jt_dr t) 0,
      jt_dr := shift_bit (jt_dr_length t) b (jt_dr t)\<rparr>, d, p)"
proof -
  have "jt_dr t AND 1 \<noteq> 0 \<longleftrightarrow> bit (jt_dr t) 0" by (simp add: and_one_eq odd_iff_mod_2_eq_one bit_0)
  then show ?thesis using assms
    by (simp add: clock_cycle_def set_pins_def clock_low_def clock_high_def shift_bit_def)
qed

lemma scan_cycles:
  "jt_state t = SHIFT_DR \<Longrightarrow> \<exists>t'. clock_cycles B ids r (map (Pair False) bs) (t, d, p) =
     Some (map (\<lambda>k. bit (fold (shift_bit (jt_dr_length t)) (take k bs) (jt_dr t)) 0) [0..<length bs], t', d, p) \<and>
     jt_state t' = SHIFT_DR \<and> jt_dr t' = fold (shift_bit (jt_dr_length t)) bs (jt_dr t) \<and> jt_dr_length t' = jt_dr_length t"
proof (induction bs arbitrary: t)
  case (Cons b bs)
  let ?t = "t\<lparr>jt_tck := True, jt_tms := False, jt_tdi := b, jt_tdo := bit (jt_dr t) 0, jt_dr := shift_bit (jt_dr_length t) b (jt_dr t)\<rparr>"
  have s: "jt_state ?t = SHIFT_DR" using Cons.prems by simp
  have m: "map (\<lambda>k. bit (fold (shift_bit (jt_dr_length t)) (take k (b # bs)) (jt_dr t)) 0) [0..<length (b # bs)] =
     bit (jt_dr t) 0 # map (\<lambda>k. bit (fold (shift_bit (jt_dr_length t)) (take k bs) (shift_bit (jt_dr_length t) b (jt_dr t))) 0) [0..<length bs]"
    by (simp add: upt_conv_Cons map_Suc_upt [symmetric] del: upt_Suc)
  show ?case using Cons.IH [OF s] scan_cycle [OF Cons.prems, of B ids r b d p] m by auto
qed simp

text \<open>C29: a full scan of a data register is exact: the bits shifted out are the bits the register held, lowest
  first, the bits shifted in are what it holds then, and neither the module nor the bus is touched.\<close>

theorem dr_scan_exact:
  assumes "jt_state t = SHIFT_DR" "jt_dr_length t = length bs" "0 < length bs" "length bs \<le> 64" "\<forall>j\<ge>length bs. \<not> bit (jt_dr t) j"
  shows "\<exists>t'. clock_cycles B ids r (map (Pair False) bs) (t, d, p) = Some (map (bit (jt_dr t)) [0..<length bs], t', d, p) \<and>
    jt_state t' = SHIFT_DR \<and> (\<forall>k. bit (jt_dr t') k \<longleftrightarrow> k < length bs \<and> bs ! k)"
proof -
  let ?n = "length bs"
  have "bit (fold (shift_bit ?n) (take k bs) (jt_dr t)) 0 = bit (jt_dr t) k" if "k < ?n" for k
    using shift_in [OF assms(3,4), of "take k bs" "jt_dr t" 0] assms(5) that by simp
  then have m: "map (\<lambda>k. bit (fold (shift_bit ?n) (take k bs) (jt_dr t)) 0) [0..<?n] = map (bit (jt_dr t)) [0..<?n]" by simp
  have "bit (fold (shift_bit ?n) bs (jt_dr t)) k \<longleftrightarrow> k < ?n \<and> bs ! k" for k
    using shift_in [OF assms(3,4) order_refl assms(5), of k] by simp
  then show ?thesis using scan_cycles [OF assms(1), of B ids r bs d p] m assms(2) by auto
qed

text \<open>A register of three bits that holds 5, into which 3 is shifted.\<close>

theorem dr_scan_exact_witness:
  "\<forall>d. \<exists>t'. clock_cycles quiet_sysbus [0] 0 (map (Pair False) [True, True, False]) (demo_jtag, d, ()) = Some ([True, False, True], t', d, ()) \<and>
     jt_dr t' = 3"
proof
  fix d
  have h: "\<forall>j\<ge>length [True, True, False]. \<not> bit (jt_dr demo_jtag) j"
    by (auto simp: demo_jtag_def bit_numeral_rec not_less_eq_eq numeral_3_eq_3 bit_1_iff split: nat.split)
  have m: "map (bit (jt_dr demo_jtag)) [0..<length [True, True, False]] = [True, False, True]" by (simp add: demo_jtag_def upt_rec)
  have s: "jt_state demo_jtag = SHIFT_DR" "jt_dr_length demo_jtag = length [True, True, False]" "0 < length [True, True, False]" "length [True, True, False] \<le> 64"
    by (simp_all add: demo_jtag_def)
  from dr_scan_exact [OF s h, of quiet_sysbus "[0]" 0 d "()"]
  obtain t' where t: "clock_cycles quiet_sysbus [0] 0 (map (Pair False) [True, True, False]) (demo_jtag, d, ()) = Some ([True, False, True], t', d, ())"
    "\<forall>k. bit (jt_dr t') k \<longleftrightarrow> k < length [True, True, False] \<and> [True, True, False] ! k" unfolding m by blast
  have "jt_dr t' = 3"
  proof (rule bit_word_eqI)
    fix k assume "k < LENGTH(64)"
    have "bit (3 :: reg_t) k \<longleftrightarrow> k = 0 \<or> k = 1" by (auto simp: bit_numeral_rec bit_1_iff split: nat.splits)
    moreover have "k < length [True, True, False] \<and> [True, True, False] ! k \<longleftrightarrow> k = 0 \<or> k = 1" by (auto simp: less_Suc_eq numeral_3_eq_3)
    ultimately show "bit (jt_dr t') k \<longleftrightarrow> bit (3 :: reg_t) k" using t(2) by simp
  qed
  then show "\<exists>t'. clock_cycles quiet_sysbus [0] 0 (map (Pair False) [True, True, False]) (demo_jtag, d, ()) = Some ([True, False, True], t', d, ()) \<and>
     jt_dr t' = 3" using t by blast
qed

end
