(* ===== verification/Execute.thy ===== *)
theory Execute
  imports Insn_Mem
begin

text \<open>
  The loop of a hart in riscv/execute.cc: bursts of instructions on the slow and on the fast path, the
  handlers of everything that ends a burst, and the steps a hart takes for the simulator. What a decoded
  instruction does is an argument.
\<close>

subsection \<open>The loop of a hart\<close>

text \<open>The simulator, the function of a decoded instruction, and the switches that force the slow path: the
  debugger's trace, the commit log and the histogram, whose own effects are output only.\<close>

record 'b exec_cfg =
  xc_sim :: "'b simif"
  xc_run :: "insn_t \<Rightarrow> reg_t \<Rightarrow> ('b, reg_t) mcomp"
  xc_debug :: bool
  xc_log_commits :: bool
  xc_histogram :: bool

definition slow_path :: "'b exec_cfg \<Rightarrow> hart \<Rightarrow> bool" where
  "slow_path c h \<longleftrightarrow> xc_debug c \<or> single_step h \<noteq> STEP_NONE \<or> debug_mode h \<or> xc_log_commits c \<or> xc_histogram c \<or> in_wfi h \<or>
     check_triggers_icount h"

text \<open>Where a burst of instructions ends: how, with how many retired, at which program counter.\<close>

type_synonym 'b burst = "(exn + unit) \<times> nat \<times> reg_t \<times> 'b world"

definition upd_hart_w :: "(hart \<Rightarrow> hart) \<Rightarrow> 'b world \<Rightarrow> 'b world" where
  "upd_hart_w f w = w\<lparr>w_hart := f (w_hart w)\<rparr>"

text \<open>\<open>advance_pc\<close> for a program counter that is not one: the burst ends.\<close>

definition serialize :: "nat \<Rightarrow> reg_t \<Rightarrow> 'b world \<Rightarrow> 'b burst" where
  "serialize instret pc w =
     (if pc = PC_SERIALIZE_BEFORE then (Inr (), instret, h_pc (w_hart w), upd_hart_w (\<lambda>h. h\<lparr>serialized := True\<rparr>) w)
      else if pc = PC_SERIALIZE_AFTER then (Inr (), instret + 1, h_pc (w_hart w), w)
      else (Inl Abort, instret, pc, w))"

subsection \<open>The slow path\<close>

definition icount_match :: "(hart, exn, unit) comp" where
  "icount_match h =
     (if \<not> serialized h \<and> check_triggers_icount h then
        bindE detect_icount (\<lambda>r. case r of None \<Rightarrow> return ()
          | Some m \<Rightarrow> if mr_timing m \<noteq> TIMING_BEFORE then throw Abort
                      else throw (Trigger_matched \<lparr>mt_operation = OPERATION_EXECUTE, mt_address = 0, mt_action = mr_action m\<rparr>)) h
      else (Inr (), h))"

text \<open>What comes before the fetch; \<open>True\<close> when a single step has ended and the burst stops.\<close>

definition step_ended :: "hart \<Rightarrow> bool" where
  "step_ended h \<longleftrightarrow> \<not> serialized h \<and> single_step h = STEP_STEPPED"

definition before_fetch :: "(hart, exn, bool) comp" where
  "before_fetch h =
     (let ended = step_ended h; h = (if ended then h\<lparr>single_step := STEP_NONE\<rparr> else h)
      in if ended \<and> \<not> debug_mode h then bindE (enter_debug_mode DCSR_CAUSE_STEP) (\<lambda>_. return True) h
         else
           let h = (if single_step h = STEP_STEPPING then h\<lparr>single_step := STEP_STEPPED\<rparr> else h)
           in bindE icount_match (\<lambda>_ h.
                if in_wfi h \<and> \<not> debug_mode h then (Inl Wait_for_interrupt, h)
                else (Inr False, h\<lparr>in_wfi := False\<rparr>)) h)"

definition fetch_run :: "'b exec_cfg \<Rightarrow> reg_t \<Rightarrow> ('b, reg_t) mcomp" where
  "fetch_run c pc = bindE (load_insn (xc_sim c) pc) (\<lambda>i. xc_run c i pc)"

text \<open>The first argument is how many instructions are left, \<open>n - instret\<close>.\<close>

fun slow_loop :: "'b exec_cfg \<Rightarrow> nat \<Rightarrow> nat \<Rightarrow> reg_t \<Rightarrow> 'b world \<Rightarrow> 'b burst" where
  "slow_loop c 0 instret pc w = (Inr (), instret, pc, w)"
| "slow_loop c (Suc left) instret pc w = (case on_hart before_fetch w of
     (Inl e, w) \<Rightarrow> (Inl e, instret, pc, w)
   | (Inr True, w) \<Rightarrow> (Inr (), instret, pc, w)
   | (Inr False, w) \<Rightarrow>
       (case fetch_run c pc w of
          (Inl e, w) \<Rightarrow> (Inl e, instret, pc, w)
        | (Inr npc, w) \<Rightarrow>
            if invalid_pc npc then serialize instret npc w
            else slow_loop c left (instret + 1) npc (upd_hart_w (\<lambda>h. h\<lparr>h_pc := npc\<rparr>) w)))"

subsection \<open>The fast path\<close>

text \<open>The two nested loops: an entry of the instruction cache is at hand, or the cache is accessed. After an
  instruction the entry its own names as next is used when it holds the next program counter.\<close>

fun fast_loop :: "'b exec_cfg \<Rightarrow> nat \<Rightarrow> nat \<Rightarrow> reg_t \<Rightarrow> icache_entry option \<Rightarrow> 'b world \<Rightarrow> 'b burst" where
  "fast_loop c 0 instret pc entry w = (Inr (), instret, pc, w)"
| "fast_loop c (Suc left) instret pc entry w =
     (case (case entry of Some e \<Rightarrow> (Inr e, w) | None \<Rightarrow> access_icache (xc_sim c) pc w) of
        (Inl ex, w) \<Rightarrow> (Inl ex, instret, pc, w)
      | (Inr e, w) \<Rightarrow>
          (case xc_run c (ic_insn e) pc w of
             (Inl ex, w) \<Rightarrow> (Inl ex, instret, pc, w)
           | (Inr npc, w) \<Rightarrow>
               let e' = icache (mmu_of w) (ic_next e)
               in if ic_tag e' \<noteq> npc \<or> left = 0 then
                    (if invalid_pc npc then serialize instret npc w
                     else fast_loop c left (instret + 1) npc None (upd_hart_w (\<lambda>h. h\<lparr>h_pc := npc\<rparr>) w))
                  else fast_loop c left (instret + 1) npc (Some e') (upd_hart_w (\<lambda>h. h\<lparr>h_pc := npc\<rparr>) w)))"

definition burst_of :: "'b exec_cfg \<Rightarrow> nat \<Rightarrow> 'b world \<Rightarrow> 'b burst" where
  "burst_of c n w = (
     let pc = h_pc (w_hart w)
     in case on_hart take_pending_interrupt w of
          (Inl e, w) \<Rightarrow> (Inl e, 0, pc, w)
        | (Inr _, w) \<Rightarrow> if slow_path c (w_hart w) then slow_loop c n 0 pc w else fast_loop c n 0 pc None w)"

subsection \<open>The handlers\<close>

definition detect_trap :: "trap_t \<Rightarrow> (hart, exn, match_result_t option) comp" where
  "detect_trap t h = (case module_detect_trap (trig_env_of h) t (tm h) of
     None \<Rightarrow> (Inl Abort, h) | Some (r, ts) \<Rightarrow> (Inr r, h\<lparr>tm := ts\<rparr>))"

definition handle_trap :: "trap_t \<Rightarrow> reg_t \<Rightarrow> (hart, exn, unit) comp" where
  "handle_trap t pc =
     bindE (take_trap t pc) (\<lambda>_.
     bindE (detect_trap t) (\<lambda>r h. case r of
       Some m \<Rightarrow> take_trigger_action (mr_action m) 0 (h_pc h) h
     | None \<Rightarrow> if single_step h = STEP_STEPPED then enter_debug_mode DCSR_CAUSE_STEP (h\<lparr>single_step := STEP_NONE\<rparr>)
               else (Inr (), h)))"

text \<open>The retired instructions, those that are left of the step afterwards, and the effect; \<open>Inl\<close> is an exception
  no handler catches.\<close>

definition handle :: "nat \<Rightarrow> 'b burst \<Rightarrow> (exn + unit) \<times> nat \<times> nat \<times> 'b world" where
  "handle n b = (case b of (r, instret, pc, w) \<Rightarrow>
     (case r of
        Inr _ \<Rightarrow> (Inr (), instret, n - instret, w)
      | Inl (Trap t) \<Rightarrow> (case on_hart (handle_trap t pc) w of (r, w) \<Rightarrow> (r, instret, 0, w))
      | Inl (Trigger_matched t) \<Rightarrow>
          (case on_hart (take_trigger_action (mt_action t) (mt_address t) pc) (upd_mmu (\<lambda>m. m\<lparr>matched_trigger := None\<rparr>) w) of
             (r, w) \<Rightarrow> (r, instret, n - instret, w))
      | Inl Trap_debug_mode \<Rightarrow> (case on_hart (enter_debug_mode DCSR_CAUSE_SWBP) w of (r, w) \<Rightarrow> (r, instret, n - instret, w))
      | Inl Wait_for_interrupt \<Rightarrow> (Inr (), instret + 1, 0, upd_hart_w (\<lambda>h. h\<lparr>in_wfi := True\<rparr>) w)
      | Inl Abort \<Rightarrow> (Inl Abort, instret, n - instret, w)))"

definition count_retired :: "nat \<Rightarrow> hart \<Rightarrow> hart" where
  "count_retired k h = wide_counter_bump CSR_MCYCLE (of_nat k) (wide_counter_bump CSR_MINSTRET (of_nat k) h)"

text \<open>One round of the outer loop: a burst, its handler, and the counters.\<close>

definition round :: "'b exec_cfg \<Rightarrow> nat \<Rightarrow> 'b world \<Rightarrow> (exn + nat) \<times> nat \<times> 'b world" where
  "round c n w = (case handle n (burst_of c n w) of
     (Inl e, k, _, w) \<Rightarrow> (Inl e, k, w)
   | (Inr _, k, left, w) \<Rightarrow> (Inr left, k, upd_hart_w (count_retired k) w))"

partial_function (option) rounds :: "'b exec_cfg \<Rightarrow> nat \<Rightarrow> 'b world \<Rightarrow> ((exn + unit) \<times> 'b world) option" where
  "rounds c n w = (if n = 0 then Some (Inr (), w)
     else case round c n w of
       (Inl e, _, w) \<Rightarrow> Some (Inl e, w)
     | (Inr left, _, w) \<Rightarrow> rounds c left w)"

definition enter_halted :: "(hart, exn, unit) comp" where
  "enter_halted h =
     (if debug_mode h then (Inr (), h)
      else case halt_request h of
        HR_REGULAR \<Rightarrow> enter_debug_mode DCSR_CAUSE_DEBUGINT h
      | HR_GROUP \<Rightarrow> enter_debug_mode DCSR_CAUSE_GROUP h
      | HR_NONE \<Rightarrow> if dcsr_halt (dcsr h) then enter_debug_mode DCSR_CAUSE_HALT h else (Inr (), h))"

definition hart_step :: "'b exec_cfg \<Rightarrow> nat \<Rightarrow> 'b world \<Rightarrow> ((exn + unit) \<times> 'b world) option" where
  "hart_step c n w = (case on_hart enter_halted w of
     (Inl e, w) \<Rightarrow> Some (Inl e, w)
   | (Inr _, w) \<Rightarrow> rounds c n w)"

end
