(* ===== verification/Execute_Exact.thy ===== *)
theory Execute_Exact
  imports Execute Mmu_Reserve
begin

text \<open>
  The fast path is the plain loop; a round stays within its quantum; a hart asleep executes nothing.
\<close>

subsection \<open>Chained entries are the entries an access finds\<close>

text \<open>Every entry of the instruction cache is empty, or for an instruction address and where that address belongs.\<close>

definition icache_wf :: "mmu_state \<Rightarrow> bool" where
  "icache_wf m \<longleftrightarrow> (\<forall>j. ic_tag (icache m j) = - 1 \<or> \<not> invalid_pc (ic_tag (icache m j)) \<and> icache_index (ic_tag (icache m j)) = j)"

text \<open>The reference: the cache is accessed before every instruction.\<close>

fun plain_loop :: "'b exec_cfg \<Rightarrow> nat \<Rightarrow> nat \<Rightarrow> reg_t \<Rightarrow> 'b world \<Rightarrow> 'b burst" where
  "plain_loop c 0 instret pc w = (Inr (), instret, pc, w)"
| "plain_loop c (Suc left) instret pc w = (case access_icache (xc_sim c) pc w of
     (Inl ex, w) \<Rightarrow> (Inl ex, instret, pc, w)
   | (Inr e, w) \<Rightarrow>
       (case xc_run c (ic_insn e) pc w of
          (Inl ex, w) \<Rightarrow> (Inl ex, instret, pc, w)
        | (Inr npc, w) \<Rightarrow>
            if invalid_pc npc then serialize instret npc w
            else plain_loop c left (instret + 1) npc (upd_hart_w (\<lambda>h. h\<lparr>h_pc := npc\<rparr>) w)))"

text \<open>What the instructions have to do: leave the cache alone or flush it, and not jump to the empty tag.\<close>

definition keeps_icache :: "'b exec_cfg \<Rightarrow> bool" where
  "keeps_icache c \<longleftrightarrow> (\<forall>i pc w npc w'. \<not> invalid_pc pc \<and> icache_wf (mmu_of w) \<and> xc_run c i pc w = (Inr npc, w') \<longrightarrow>
     icache_wf (mmu_of w') \<and> npc \<noteq> - 1)"

definition keeps_wf :: "('b, 'a) mcomp \<Rightarrow> bool" where
  "keeps_wf f \<longleftrightarrow> (\<forall>w. icache_wf (mmu_of w) \<longrightarrow> icache_wf (mmu_of (snd (f w))))"

lemma wf_bind [intro]:
  assumes f: "keeps_wf f" and k: "\<And>x. keeps_wf (k x)"
  shows "keeps_wf (bindE f k)"
  unfolding keeps_wf_def
proof (intro allI impI)
  fix w :: "'a world"
  assume "icache_wf (mmu_of w)"
  moreover obtain r w1 where r: "f w = (r, w1)" by fastforce
  ultimately have "icache_wf (mmu_of w1)" using f unfolding keeps_wf_def by (metis snd_conv)
  then show "icache_wf (mmu_of (snd (bindE f k w)))" using k unfolding keeps_wf_def bindE_def r by (simp split: sum.split)
qed

lemma wf_return [intro, simp]: "keeps_wf (return x)" "keeps_wf (throw e)" "keeps_wf (hart_of g)" "keeps_wf (\<lambda>w. (q w, w))"
  by (simp_all add: keeps_wf_def return_def throw_def hart_of_def)

lemma wf_on [intro]: "(\<And>w. keeps_wf (F w)) \<Longrightarrow> keeps_wf (\<lambda>w. F w w)"
  unfolding keeps_wf_def by blast

lemma wf_if [intro]: "keeps_wf f \<Longrightarrow> keeps_wf g \<Longrightarrow> keeps_wf (\<lambda>w. if b w then f w else g w)"
  by (simp add: keeps_wf_def)

lemma mmu_free_mmu:
  assumes "mmu_free f"
  shows "mmu_of (snd (f w)) = mmu_of w"
proof -
  have "upd_mmu (\<lambda>_. mmu_of w) w = w" by (simp add: upd_mmu_def mmu_of_def)
  then have "f w = apsnd (upd_mmu (\<lambda>_. mmu_of w)) (f w)" using mmu_free_app [OF assms, of "\<lambda>_. mmu_of w" w] by simp
  then have "mmu_of (snd (f w)) = mmu_of (upd_mmu (\<lambda>_. mmu_of w) (snd (f w)))" by (metis snd_apsnd)
  then show ?thesis by simp
qed

lemma wf_free [intro]: "mmu_free f \<Longrightarrow> keeps_wf f"
  unfolding keeps_wf_def by (simp add: mmu_free_mmu)

lemma flush_wf [simp]: "icache_wf (flush_icache m)" "icache_wf (m\<lparr>matched_trigger := t\<rparr>) = icache_wf m"
    "icache_wf (m\<lparr>fetch_temp := x\<rparr>) = icache_wf m" "icache_wf (m\<lparr>tlb_data := d\<rparr>) = icache_wf m"
  by (simp_all add: icache_wf_def flush_icache_def)

lemma tag_icache [simp]: "icache_wf (set_tlb_tag ty i t m) = icache_wf m" "icache_wf (drop_tag ty i t m) = icache_wf m"
  by (cases ty; simp add: set_tlb_tag_def drop_tag_def icache_wf_def)+

lemma wf_refill_tlb [intro]: "keeps_wf (refill_tlb va pa hp ty)"
  unfolding keeps_wf_def by (simp add: refill_tlb_def Let_def mmu_of_def upd_mmu_def split: option.split)

lemma wf_triggers [intro]: "keeps_wf (check_triggers op a d)"
  unfolding keeps_wf_def
  by (simp add: check_triggers_def Let_def mmu_of_def upd_mmu_def split: option.split prod.split timing_t.split)

lemma mmio_fetch_free [intro]: "mmu_free (mmio_fetch S a n)"
  unfolding mmio_fetch_def by (intro mmu_free_if mmu_free_const mmu_free_platform) (simp add: mmu_reads)

lemma wf_fetch_temp [intro]: "keeps_wf (modify (upd_mmu (\<lambda>m. m\<lparr>fetch_temp := x\<rparr>)))"
  by (simp add: keeps_wf_def modify_def)

lemma wf_option [intro]: "keeps_wf f \<Longrightarrow> (\<And>x. keeps_wf (g x)) \<Longrightarrow> keeps_wf (case o' of None \<Rightarrow> f | Some x \<Rightarrow> g x)"
  by (cases o') simp_all

lemma wf_ifc [intro]: "keeps_wf f \<Longrightarrow> keeps_wf g \<Longrightarrow> keeps_wf (if b then f else g)"
  by simp

lemma wf_slow [intro]: "keeps_wf (fetch_slow_path S a)"
  unfolding fetch_slow_path_def
  by (intro wf_bind wf_triggers wf_return wf_ifc wf_option wf_fetch_temp wf_refill_tlb wf_free translate_free mmio_fetch_free
      wf_on [where F = "\<lambda>w. check_triggers op a (Some (le_word (host_read off a 2 w)))" for op a off])

lemma wf_parcel [intro]: "keeps_wf (fetch_parcel S a)"
  unfolding fetch_parcel_def translate_insn_addr_def Let_def by (intro wf_bind wf_if wf_slow wf_return)

lemma wf_rest [intro]: "keeps_wf (fetch_rest S a n)"
  unfolding fetch_rest_def by (intro wf_ifc wf_bind wf_parcel wf_return)

lemma wf_guard [intro]: "keeps_wf f \<Longrightarrow> keeps_wf (\<lambda>w. case q w of None \<Rightarrow> f w | Some t \<Rightarrow> (Inl (g t), w))"
  by (simp add: keeps_wf_def split: option.split)

lemma wf_entry: "keeps_wf (fetch_entry S a)"
  unfolding fetch_entry_def Let_def by (intro wf_guard wf_bind wf_parcel wf_rest wf_return)

lemma fetch_entry_tag: "fetch_entry S a w = (Inr e, w') \<Longrightarrow> ic_tag e = a"
  by (auto simp: fetch_entry_def bindE_def return_def Let_def split: option.splits prod.splits sum.splits)

lemma access_finds:
  assumes "access_icache S pc w = (Inr e, w')" "icache_wf (mmu_of w)" "\<not> invalid_pc pc"
  shows "icache_wf (mmu_of w') \<and> ic_tag e = pc \<and> icache (mmu_of w') (icache_index pc) = e"
proof (cases "ic_tag (icache (mmu_of w) (icache_index pc)) = pc")
  case True
  then show ?thesis using assms by (auto simp: access_icache_def)
next
  case False
  then obtain w1 where f: "fetch_entry S pc w = (Inr e, w1)" and w': "w' = upd_mmu (\<lambda>m. m\<lparr>icache := (icache m)(icache_index pc := e)\<rparr>) w1"
    using assms(1) by (auto simp: access_icache_def refill_icache_def bindE_def modify_def return_def split: prod.splits sum.splits)
  have "icache_wf (mmu_of w1)" using wf_entry [of S pc] assms(2) f unfolding keeps_wf_def by (metis snd_conv)
  then show ?thesis using fetch_entry_tag [OF f] assms(3) by (simp add: w' icache_wf_def)
qed

lemma mmu_of_pc: "mmu_of (upd_hart_w (\<lambda>h. h\<lparr>h_pc := npc\<rparr>) w) = mmu_of w"
  by (simp add: mmu_of_def upd_hart_w_def)

text \<open>
  C9: The fast path of a hart follows, from one instruction to the next, the entry the last one named as its successor,
  and looks into the instruction cache only when that entry is for another address. It runs exactly as if it looked
  every time: same instructions, effects, count of retired instructions and end, also where an instruction flushes
  the cache or the burst ends on a serializing instruction.
\<close>

theorem fast_path_exact:
  assumes "keeps_icache c" "icache_wf (mmu_of w)" "\<not> invalid_pc pc"
  shows "fast_loop c left instret pc None w = plain_loop c left instret pc w"
proof -
  have "(case entry of None \<Rightarrow> True | Some e \<Rightarrow> ic_tag e = pc \<and> icache (mmu_of w) (icache_index pc) = e) \<Longrightarrow>
      fast_loop c left instret pc entry w = plain_loop c left instret pc w" for entry
    using assms(2,3)
  proof (induction left arbitrary: instret pc entry w)
    case (Suc left)
    have a: "(case entry of Some e \<Rightarrow> (Inr e, w) | None \<Rightarrow> access_icache (xc_sim c) pc w) = access_icache (xc_sim c) pc w"
      using Suc.prems(1) by (cases entry) (auto simp: access_icache_def)
    obtain r w1 where r: "access_icache (xc_sim c) pc w = (r, w1)" by fastforce
    show ?case
    proof (cases r)
      case (Inr e)
      then have e: "icache_wf (mmu_of w1)" using access_finds Suc.prems r by blast
      obtain r2 w2 where r2: "xc_run c (ic_insn e) pc w1 = (r2, w2)" by fastforce
      show ?thesis
      proof (cases r2)
        case run: (Inr npc)
        have wf: "icache_wf (mmu_of w2)" "npc \<noteq> - 1"
          using assms(1) Suc.prems(3) e r2 run unfolding keeps_icache_def by blast+
        let ?w = "upd_hart_w (\<lambda>h. h\<lparr>h_pc := npc\<rparr>) w2" and ?e = "icache (mmu_of w2) (ic_next e)"
        have again: "fast_loop c left (instret + 1) npc en ?w = plain_loop c left (instret + 1) npc ?w"
          if "\<not> invalid_pc npc" "\<And>x. en = Some x \<Longrightarrow> ic_tag x = npc \<and> icache (mmu_of w2) (icache_index npc) = x" for en
          by (rule Suc.IH) (use that wf in \<open>auto simp: mmu_of_pc split: option.split\<close>)
        have tag: "\<not> invalid_pc npc \<and> icache_index npc = ic_next e" if "ic_tag ?e = npc"
          using wf that unfolding icache_wf_def by metis
        show ?thesis
        proof (cases "ic_tag ?e \<noteq> npc \<or> left = 0")
          case True
          then show ?thesis using again [of None] by (simp add: a r r2 Inr run Let_def del: mmu_of_pc)
        next
          case False
          then show ?thesis using again [of "Some ?e"] tag by (simp add: a r r2 Inr run Let_def)
        qed
      qed (simp add: a r r2 Inr)
    qed (simp add: a r)
  qed simp
  from this [of None] show ?thesis by simp
qed

text \<open>A hart that knows two instructions: a fence that flushes, and one that does nothing.\<close>

definition demo_run :: "insn_t \<Rightarrow> reg_t \<Rightarrow> (unit, reg_t) mcomp" where
  "demo_run i pc w = (Inr (pc + 4), if i = 0x100f then upd_mmu flush_icache w else w)"

definition demo_exec :: "unit exec_cfg" where
  "demo_exec = \<lparr>xc_sim = demo_sim, xc_run = demo_run, xc_debug = False, xc_log_commits = False, xc_histogram = False\<rparr>"

theorem fast_path_exact_witness:
  "fast_loop demo_exec 5 0 0x80000000 None (upd_mmu flush_icache demo_flat) = plain_loop demo_exec 5 0 0x80000000 (upd_mmu flush_icache demo_flat)"
proof (rule fast_path_exact)
  have "pc + 4 \<noteq> - 1" if "\<not> invalid_pc pc" for pc
  proof
    assume "pc + 4 = - 1"
    then have "pc = - 1 - 4" by (metis add_diff_cancel_right')
    then show False using that by (simp add: invalid_pc_def)
  qed
  then show "keeps_icache demo_exec"
    unfolding keeps_icache_def demo_exec_def demo_run_def by auto
qed (simp_all add: invalid_pc_def)

subsection \<open>What a round does to the count of instructions\<close>

lemma serialize_bounds: "serialize instret npc w = (r, k, pc', w') \<Longrightarrow> k \<le> instret + 1 \<and> (r \<noteq> Inr () \<longrightarrow> k = instret)"
  by (auto simp: serialize_def split: if_splits)

lemma slow_bounds: "slow_loop c left instret pc w = (r, k, pc', w') \<Longrightarrow> k \<le> instret + left \<and> (r \<noteq> Inr () \<longrightarrow> k < instret + left)"
proof (induction c left instret pc w rule: slow_loop.induct)
  case (2 c left instret pc w)
  show ?case using 2 serialize_bounds by (fastforce split: prod.splits sum.splits bool.splits if_splits)
qed simp

lemma fast_bounds: "fast_loop c left instret pc entry w = (r, k, pc', w') \<Longrightarrow> k \<le> instret + left \<and> (r \<noteq> Inr () \<longrightarrow> k < instret + left)"
proof (induction left arbitrary: instret pc entry w)
  case (Suc left)
  obtain r1 w1 where r1: "(case entry of Some e \<Rightarrow> (Inr e, w) | None \<Rightarrow> access_icache (xc_sim c) pc w) = (r1, w1)" by fastforce
  show ?case
  proof (cases r1)
    case (Inr e)
    obtain r2 w2 where r2: "xc_run c (ic_insn e) pc w1 = (r2, w2)" by fastforce
    show ?thesis
    proof (cases r2)
      case run: (Inr npc)
      show ?thesis using Suc.prems Suc.IH serialize_bounds
        by (fastforce simp: r1 Inr r2 run Let_def split: if_splits)
    qed (use Suc.prems in \<open>simp add: r1 Inr r2\<close>)
  qed (use Suc.prems in \<open>simp add: r1\<close>)
qed simp

lemma burst_bounds: "0 < n \<Longrightarrow> burst_of c n w = (r, k, pc, w') \<Longrightarrow> k \<le> n \<and> (r \<noteq> Inr () \<longrightarrow> k < n)"
  using slow_bounds [of c n 0] fast_bounds [of c n 0] by (fastforce simp: burst_of_def Let_def split: prod.splits sum.splits if_splits)

lemma handle_bounds:
  "k \<le> n \<Longrightarrow> (r \<noteq> Inr () \<longrightarrow> k < n) \<Longrightarrow> handle n (r, k, pc, w) = (r', k', left, w') \<Longrightarrow> k' + left \<le> n"
  by (auto simp: handle_def split: sum.splits exn.splits prod.splits)

text \<open>
  C31: However a burst of instructions ends (complete, serialized, trapped, at a trigger, in the debugger, asleep), the
  handlers never count more instructions as retired than the hart was asked for, and what they leave of the request
  and what they count are together within it: the loop of a step never runs past its quantum.
\<close>

theorem round_bounded:
  assumes "0 < n" "round c n w = (r, k, w')"
  shows "k \<le> n \<and> (case r of Inl _ \<Rightarrow> True | Inr left \<Rightarrow> k + left \<le> n)"
proof -
  obtain br bk bpc bw where b: "burst_of c n w = (br, bk, bpc, bw)" by (metis prod.collapse)
  obtain hr hk hl hw where h: "handle n (br, bk, bpc, bw) = (hr, hk, hl, hw)" by (metis prod.collapse)
  have "hk + hl \<le> n" using handle_bounds [OF _ _ h] burst_bounds [OF assms(1) b] by blast
  then show ?thesis using assms(2) by (auto simp: round_def b h split: sum.splits)
qed

theorem round_bounded_witness:
  "\<exists>r k w'. round demo_exec 3 demo_flat = (r, k, w') \<and> k \<le> 3 \<and> (case r of Inl _ \<Rightarrow> True | Inr left \<Rightarrow> k + left \<le> 3)"
  using round_bounded [of 3 demo_exec demo_flat] by (metis (no_types, lifting) prod.collapse zero_less_numeral)

text \<open>
  C32: A hart asleep in a WFI, with no enabled interrupt pending and no trigger that counts, executes nothing when it is stepped,
  whatever the number of steps: the step returns and registers, program counter, memory and devices are as before.
  But each step counts one more instruction as retired and one more cycle, as if the WFI had been executed again.
\<close>

theorem asleep_step:
  assumes "0 < n" "in_wfi (w_hart w)" "\<not> debug_mode (w_hart w)" "single_step (w_hart w) = STEP_NONE"
    and "halt_request (w_hart w) = HR_NONE" "\<not> dcsr_halt (dcsr (w_hart w))"
    and "mip_read (w_hart w) AND mie_read (w_hart w) = 0" "\<not> check_triggers_icount (w_hart w)"
  shows "hart_step c n w = Some (Inr (), w\<lparr>w_hart := count_retired 1 (w_hart w)\<rparr>)"
proof -
  let ?h = "w_hart w"
  have e: "enter_halted ?h = (Inr (), ?h)" using assms by (simp add: enter_halted_def)
  have b: "before_fetch ?h = (Inl Wait_for_interrupt, ?h)"
    using assms by (simp add: before_fetch_def step_ended_def icount_match_def bindE_def return_def)
  obtain m where n: "n = Suc m" using assms(1) by (cases n) auto
  have "burst_of c n w = (Inl Wait_for_interrupt, 0, h_pc ?h, w)"
    using assms b by (simp add: n burst_of_def take_pending_interrupt_def take_interrupt_def on_hart_def slow_path_def Let_def)
  moreover have "upd_hart_w (\<lambda>h. h\<lparr>in_wfi := True\<rparr>) w = w" using assms(2) by (simp add: upd_hart_w_def)
  ultimately have "round c n w = (Inr 0, 1, w\<lparr>w_hart := count_retired 1 ?h\<rparr>)"
    by (simp add: round_def handle_def upd_hart_w_def)
  then show ?thesis using assms(1) e by (simp add: hart_step_def on_hart_def rounds.simps)
qed

theorem asleep_step_witness:
  "hart_step demo_exec 5000 (demo_flat\<lparr>w_hart := demo_hart\<lparr>in_wfi := True\<rparr>\<rparr>) =
     Some (Inr (), demo_flat\<lparr>w_hart := count_retired 1 (demo_hart\<lparr>in_wfi := True\<rparr>)\<rparr>)"
  using asleep_step [of 5000 "demo_flat\<lparr>w_hart := demo_hart\<lparr>in_wfi := True\<rparr>\<rparr>" demo_exec]
  by (simp add: demo_hart_def mip_read_def mie_read_def)

end
