(* ===== verification/Clint.thy ===== *)
theory Clint
  imports Devices
begin

text \<open>
  The core-local interruptor of riscv/clint.cc: the time, the timer compare registers and the software
  interrupts of the harts. Its events keep the timer interrupt of every hart exact.
\<close>

subsection \<open>Core-local interrupts\<close>

record clint_t =
  cl_freq_hz :: reg_t
  cl_real_time :: bool
  cl_mtime :: reg_t
  cl_mtimecmp :: "nat \<Rightarrow> reg_t"

abbreviation (input) CLINT_SIZE :: reg_t where "CLINT_SIZE \<equiv> 0x10000"
abbreviation (input) MSIP_BASE :: reg_t where "MSIP_BASE \<equiv> 0x0"
abbreviation (input) MTIMECMP_BASE :: reg_t where "MTIMECMP_BASE \<equiv> 0x4000"
abbreviation (input) MTIME_BASE :: reg_t where "MTIME_BASE \<equiv> 0xbff8"

text \<open>The argument \<open>now\<close> is the wall-clock time since the construction, in microseconds.\<close>

definition mtip_event :: "clint_t \<Rightarrow> nat \<Rightarrow> hart_event" where
  "mtip_event c i = Mip_write MIP_MTIP (if cl_mtime c \<ge> cl_mtimecmp c i then MIP_MTIP else 0)"

definition clint_increment :: "hart_mips \<Rightarrow> reg_t \<Rightarrow> reg_t \<Rightarrow> clint_t \<Rightarrow> hart_irqs \<times> clint_t" where
  "clint_increment harts now inc c = (
     let c = (if cl_real_time c then c\<lparr>cl_mtime := now * cl_freq_hz c div 1000000\<rparr> else c\<lparr>cl_mtime := cl_mtime c + inc\<rparr>)
     in (concat (map (\<lambda>(i, _). [(i, Time_sync (cl_mtime c)), (i, mtip_event c i)]) harts), c))"

definition clint_new :: "hart_mips \<Rightarrow> reg_t \<Rightarrow> reg_t \<Rightarrow> bool \<Rightarrow> hart_irqs \<times> clint_t" where
  "clint_new harts now freq real_time =
     clint_increment harts now 0 \<lparr>cl_freq_hz = freq, cl_real_time = real_time, cl_mtime = 0, cl_mtimecmp = (\<lambda>_. 0)\<rparr>"

text \<open>An access that is not a double word in the \<open>msip\<close> range.\<close>

definition clint_load_word :: "hart_mips \<Rightarrow> reg_t \<Rightarrow> reg_t \<Rightarrow> nat \<Rightarrow> clint_t \<Rightarrow> u8 list option option \<times> hart_irqs \<times> clint_t" where
  "clint_load_word harts now addr len c = (
     let (ev, c) = clint_increment harts now 0 c
     in if addr < MTIMECMP_BASE then
          (let i = unat ((addr - MSIP_BASE) div 4);
               res = (case map_of harts i of None \<Rightarrow> 0 | Some mip \<Rightarrow> of_bool (mip AND MIP_MSIP \<noteq> 0)) :: u32
           in (map_option Some (read_little_endian_reg res addr len), ev, c))
        else if addr < MTIME_BASE then
          (let i = unat ((addr - MTIMECMP_BASE) div 8);
               res = (if map_of harts i \<noteq> None then cl_mtimecmp c i else 0)
           in (map_option Some (read_little_endian_reg res addr len), ev, c))
        else if addr < MTIME_BASE + 8 then (map_option Some (read_little_endian_reg (cl_mtime c) addr len), ev, c)
        else if addr + of_nat len \<le> CLINT_SIZE then (Some (Some (replicate len 0)), ev, c)
        else (Some None, ev, c))"

definition clint_load :: "hart_mips \<Rightarrow> reg_t \<Rightarrow> reg_t \<Rightarrow> nat \<Rightarrow> clint_t \<Rightarrow> u8 list option option \<times> hart_irqs \<times> clint_t" where
  "clint_load harts now addr len c =
     (if len > 8 then (Some None, [], c)
      else if addr < MTIMECMP_BASE \<and> len = 8 then
        (let (ev0, c) = clint_increment harts now 0 c;
             (r, ev1, c) = clint_load_word harts now addr 4 c
         in case r of Some (Some lo) \<Rightarrow>
              (let (r', ev2, c) = clint_load_word harts now (addr + 4) 4 c
               in (map_option (map_option ((@) lo)) r', ev0 @ ev1 @ ev2, c))
            | _ \<Rightarrow> (r, ev0 @ ev1, c))
      else clint_load_word harts now addr len c)"

definition clint_store_word :: "hart_mips \<Rightarrow> reg_t \<Rightarrow> reg_t \<Rightarrow> u8 list \<Rightarrow> clint_t \<Rightarrow> bool option \<times> hart_irqs \<times> clint_t" where
  "clint_store_word harts now addr bs c = (
     let finish = (\<lambda>ev c. let (ev', c) = clint_increment harts now 0 c in (Some True, ev @ ev', c))
     in if addr < MTIMECMP_BASE then
          (if addr mod 4 = 0 then
             (case write_little_endian_reg (0 :: u32) addr bs of None \<Rightarrow> (None, [], c)
              | Some msip \<Rightarrow>
                  (let i = unat ((addr - MSIP_BASE) div 4)
                   in finish (if map_of harts i \<noteq> None then [(i, Mip_write MIP_MSIP (if msip AND 1 \<noteq> 0 then MIP_MSIP else 0))] else []) c))
           else finish [] c)
        else if addr < MTIME_BASE then
          (let i = unat ((addr - MTIMECMP_BASE) div 8)
           in if map_of harts i \<noteq> None then
                (case write_little_endian_reg (cl_mtimecmp c i) addr bs of None \<Rightarrow> (None, [], c)
                 | Some v \<Rightarrow> finish [] (c\<lparr>cl_mtimecmp := (cl_mtimecmp c)(i := v)\<rparr>))
              else finish [] c)
        else if addr < MTIME_BASE + 8 then
          (case write_little_endian_reg (cl_mtime c) addr bs of None \<Rightarrow> (None, [], c)
           | Some v \<Rightarrow> finish [] (c\<lparr>cl_mtime := v\<rparr>))
        else if addr + of_nat (length bs) \<le> CLINT_SIZE then finish [] c
        else (Some False, [], c))"

definition clint_store :: "hart_mips \<Rightarrow> reg_t \<Rightarrow> reg_t \<Rightarrow> u8 list \<Rightarrow> clint_t \<Rightarrow> bool option \<times> hart_irqs \<times> clint_t" where
  "clint_store harts now addr bs c =
     (if length bs > 8 then (Some False, [], c)
      else if addr < MTIMECMP_BASE \<and> length bs = 8 then
        (case clint_store_word harts now addr (take 4 bs) c of
           (Some True, ev, c) \<Rightarrow> (case clint_store_word harts now (addr + 4) (drop 4 bs) c of (r, ev', c) \<Rightarrow> (r, ev @ ev', c))
         | (r, ev, c) \<Rightarrow> (r, ev, c))
      else clint_store_word harts now addr bs c)"


subsection \<open>The timer interrupt lines\<close>

text \<open>The harts with the events of a device applied in order.\<close>

definition deliver :: "hart_irqs \<Rightarrow> (nat \<Rightarrow> hart) \<Rightarrow> nat \<Rightarrow> hart" where
  "deliver ev hs = fold (\<lambda>(i, e) hs. hs(i := apply_event e (hs i))) ev hs"

lemma deliver_append: "deliver (ev @ ev') hs = deliver ev' (deliver ev hs)"
  by (simp add: deliver_def)

lemma deliver_nil [simp]: "deliver [] hs = hs"
  by (simp add: deliver_def)

lemma deliver_cons: "deliver ((i, e) # ev) hs = deliver ev (hs(i := apply_event e (hs i)))"
  by (simp add: deliver_def)

lemma deliver_other: "i \<notin> fst ` set ev \<Longrightarrow> deliver ev hs i = hs i"
  by (induction ev arbitrary: hs) (auto simp: deliver_cons)

text \<open>The timer line of hart \<open>i\<close> and its copy of the time are what the timer says.\<close>

definition timer_exact :: "clint_t \<Rightarrow> nat \<Rightarrow> hart \<Rightarrow> bool" where
  "timer_exact c i h \<longleftrightarrow> csrv h CSR_MIP AND MIP_MTIP = (if cl_mtime c \<ge> cl_mtimecmp c i then MIP_MTIP else 0) \<and>
     csrv h CSR_TIME = cl_mtime c"

lemma set_mip_bits:
  "csrv (backdoor_write_with_mask m v h) CSR_MIP AND m = v AND m"
  "a \<noteq> CSR_MIP \<Longrightarrow> csrv (backdoor_write_with_mask m v h) a = csrv h a"
proof -
  have "((x AND NOT m) OR (v AND m)) AND m = v AND m" for x :: reg_t
    by (rule bit_word_eqI) (auto simp: bit_and_iff bit_or_iff bit_not_iff)
  then show "csrv (backdoor_write_with_mask m v h) CSR_MIP AND m = v AND m"
    by (simp add: backdoor_write_with_mask_def write_csrv_def)
  show "a \<noteq> CSR_MIP \<Longrightarrow> csrv (backdoor_write_with_mask m v h) a = csrv h a"
    by (simp add: backdoor_write_with_mask_def write_csrv_def)
qed

lemma sync_time: "csrv (time_sync t h) CSR_TIME = t"
  unfolding time_sync_def Let_def by (simp add: set_mip_bits(2) write_csrv_def)

lemma timer_events_exact:
  "i \<in> fst ` set harts \<Longrightarrow>
     timer_exact c i (deliver (concat (map (\<lambda>(i, _). [(i, Time_sync (cl_mtime c)), (i, mtip_event c i)]) harts)) hs i)"
proof (induction harts arbitrary: hs)
  case (Cons x harts)
  obtain k mip where x: "x = (k, mip)" by fastforce
  let ?ev = "concat (map (\<lambda>(i, _). [(i, Time_sync (cl_mtime c)), (i, mtip_event c i)]) harts)"
  show ?case
  proof (cases "i \<in> fst ` set harts")
    case True
    then show ?thesis using Cons.IH by (simp add: x deliver_cons)
  next
    case False
    then have "i \<notin> fst ` set ?ev" "i = k" using Cons.prems x by (force, force)
    then show ?thesis
      by (simp add: x deliver_cons deliver_other timer_exact_def mtip_event_def set_mip_bits sync_time)
  qed
qed simp

lemma increment_exact:
  "i \<in> fst ` set harts \<Longrightarrow> clint_increment harts now inc c = (ev, c') \<Longrightarrow> timer_exact c' i (deliver ev hs i)"
  using timer_events_exact [of i harts] by (auto simp: clint_increment_def Let_def)

lemma load_word_exact:
  assumes "i \<in> fst ` set harts" "clint_load_word harts now addr n c = (r, ev, c')"
  shows "timer_exact c' i (deliver ev hs i)"
  using assms increment_exact [OF assms(1)]
  by (auto simp: clint_load_word_def Let_def split: prod.splits if_splits)

lemma store_word_exact:
  assumes "i \<in> fst ` set harts" "clint_store_word harts now addr bs c = (Some True, ev, c')"
  shows "timer_exact c' i (deliver ev hs i)"
  using assms increment_exact [OF assms(1)]
  by (auto simp: clint_store_word_def Let_def deliver_append deliver_cons split: prod.splits if_splits option.splits)

text \<open>C23: whenever the timer unit accepts an access or counts, every hart's timer interrupt is pending
  exactly when the time has reached its compare register, and its time counter is the unit's, whatever
  was pending before and whichever register the access was to.\<close>

theorem clint_mtip_exact:
  fixes hs :: "nat \<Rightarrow> hart"
  assumes "i \<in> fst ` set harts"
    and "clint_increment harts now inc c = (ev, c') \<or> clint_store harts now addr bs c = (Some True, ev, c') \<or>
      clint_load harts now addr n c = (Some (Some dat), ev, c')"
  shows "timer_exact c' i (deliver ev hs i)"
proof -
  have s: "timer_exact c' i (deliver ev hs i)" if "clint_store harts now addr bs c = (Some True, ev, c')"
    using that store_word_exact [OF assms(1)]
    by (auto simp: clint_store_def deliver_append split: prod.splits if_splits option.splits bool.splits)
  have l: "timer_exact c' i (deliver ev hs i)" if "clint_load harts now addr n c = (Some (Some dat), ev, c')"
    using that load_word_exact [OF assms(1)]
    by (auto simp: clint_load_def Let_def deliver_append split: prod.splits if_splits option.splits)
  show ?thesis using assms(2) increment_exact [OF assms(1)] s l by blast
qed

text \<open>Two harts; storing a later compare value for hart 1 lowers its line and leaves hart 0's up.\<close>

theorem clint_mtip_exact_witness:
  "let c = \<lparr>cl_freq_hz = 10000000, cl_real_time = False, cl_mtime = 100, cl_mtimecmp = (\<lambda>_. 0)\<rparr>;
       (r, ev, c') = clint_store [(0, 0), (1, 0)] 0 0x4008 [0, 1, 0, 0] c; hs = deliver ev (\<lambda>_. demo_hart)
   in r = Some True \<and> csrv (hs 0) CSR_MIP AND MIP_MTIP = MIP_MTIP \<and> csrv (hs 1) CSR_MIP AND MIP_MTIP = 0"
proof -
  let ?c = "\<lparr>cl_freq_hz = 10000000, cl_real_time = False, cl_mtime = 100, cl_mtimecmp = (\<lambda>_. 0)\<rparr>"
  let ?s = "clint_store [(0, 0), (1, 0)] 0 0x4008 [0, 1, 0, 0] ?c"
  have s: "fst ?s = Some True" "cl_mtime (snd (snd ?s)) = 100" "cl_mtimecmp (snd (snd ?s)) = (\<lambda>_. 0)(1 := 256)"
    by (simp_all add: clint_store_def clint_store_word_def clint_increment_def write_little_endian_reg_def reg_bytes_def
        reg_shift_def Let_def fun_eq_iff)
  obtain r ev c' where e: "?s = (r, ev, c')" by (metis prod.exhaust)
  have "timer_exact c' i (deliver ev (\<lambda>_. demo_hart) i)" if "i < 2" for i
    using that s(1) e by (intro clint_mtip_exact [of i "[(0, 0), (1, 0)]", OF _ disjI2 [OF disjI1]]) (auto simp: less_2_cases_iff)
  from this [of 0] this [of 1] show ?thesis
    using s unfolding Let_def e prod.case fst_conv snd_conv by (simp add: timer_exact_def)
qed

end
