(* ===== verification/Plic.thy ===== *)
theory Plic
  imports Devices
begin

text \<open>
  The platform-level interrupt controller of riscv/plic.cc: priorities, levels, and for each context
  its enables, pending sources, threshold and claims. The controller stays well formed, and a claim takes
  the best claimable source.
\<close>

subsection \<open>External interrupts\<close>

abbreviation (input) PLIC_PRIO_BITS :: nat where "PLIC_PRIO_BITS \<equiv> 4"
abbreviation (input) PLIC_SIZE :: reg_t where "PLIC_SIZE \<equiv> 0x400000"
abbreviation (input) ENABLE_BASE :: reg_t where "ENABLE_BASE \<equiv> 0x2000"
abbreviation (input) ENABLE_PER_HART :: reg_t where "ENABLE_PER_HART \<equiv> 0x80"
abbreviation (input) CONTEXT_BASE :: reg_t where "CONTEXT_BASE \<equiv> 0x200000"
abbreviation (input) CONTEXT_PER_HART :: reg_t where "CONTEXT_PER_HART \<equiv> 0x1000"
abbreviation (input) CONTEXT_THRESHOLD :: reg_t where "CONTEXT_THRESHOLD \<equiv> 0"
abbreviation (input) CONTEXT_CLAIM :: reg_t where "CONTEXT_CLAIM \<equiv> 4"
abbreviation (input) REG_SIZE :: reg_t where "REG_SIZE \<equiv> 0x1000000"

text \<open>A target of interrupts: the machine or the supervisor mode of a hart. The words of the bit arrays
  are indexed by 32 sources, the priorities by source.\<close>

record plic_context_t =
  pc_hart :: nat
  pc_mmode :: bool
  priority_threshold :: u8
  pc_enable :: "nat \<Rightarrow> u32"
  pc_pending :: "nat \<Rightarrow> u32"
  pending_priority :: "nat \<Rightarrow> u8"
  pc_claimed :: "nat \<Rightarrow> u32"

record plic_t =
  plic_contexts :: "plic_context_t list"
  num_ids :: nat
  num_ids_word :: nat
  max_prio :: u32
  plic_priority :: "nat \<Rightarrow> u8"
  plic_level :: "nat \<Rightarrow> u32"

definition plic_context_new :: "nat \<Rightarrow> bool \<Rightarrow> plic_context_t" where
  "plic_context_new i mmode = \<lparr>pc_hart = i, pc_mmode = mmode, priority_threshold = 0, pc_enable = (\<lambda>_. 0), pc_pending = (\<lambda>_. 0),
     pending_priority = (\<lambda>_. 0), pc_claimed = (\<lambda>_. 0)\<rparr>"

text \<open>The harts with their identifier and whether they have supervisor mode.\<close>

definition plic_new :: "(nat \<times> bool) list \<Rightarrow> nat \<Rightarrow> plic_t" where
  "plic_new harts ndev = \<lparr>plic_contexts = concat (map (\<lambda>(i, s). plic_context_new i True # (if s then [plic_context_new i False] else [])) harts),
     num_ids = ndev + 1, num_ids_word = (ndev + 1 + 31) div 32, max_prio = 15, plic_priority = (\<lambda>_. 0), plic_level = (\<lambda>_. 0)\<rparr>"

definition id_mask :: "nat \<Rightarrow> u32" where
  "id_mask i = shl 1 (i mod 32)"

text \<open>The loops of \<open>context_best_pending\<close>: over the words, skipping empty ones, and over the bits.\<close>

fun best_in_word :: "plic_t \<Rightarrow> plic_context_t \<Rightarrow> nat \<Rightarrow> nat list \<Rightarrow> nat \<times> u8 \<Rightarrow> nat \<times> u8" where
  "best_in_word p c i [] best = best"
| "best_in_word p c i (j # js) (best_id, best_prio) = (
     let k = i * 32 + j
     in if num_ids p \<le> k \<or> pc_pending c i AND shl 1 j = 0 \<or> pc_claimed c i AND shl 1 j \<noteq> 0
        then best_in_word p c i js (best_id, best_prio)
        else if best_id = 0 \<or> best_prio < pending_priority c k then best_in_word p c i js (k, pending_priority c k)
        else best_in_word p c i js (best_id, best_prio))"

fun best_in_words :: "plic_t \<Rightarrow> plic_context_t \<Rightarrow> nat list \<Rightarrow> nat \<times> u8 \<Rightarrow> nat \<times> u8" where
  "best_in_words p c [] best = best"
| "best_in_words p c (i # is) best =
     (if pc_pending c i = 0 then best_in_words p c is best else best_in_words p c is (best_in_word p c i [0..<32] best))"

definition context_best_pending :: "plic_t \<Rightarrow> plic_context_t \<Rightarrow> nat" where
  "context_best_pending p c = fst (best_in_words p c [0..<num_ids_word p] (0, 0))"

definition context_update :: "plic_t \<Rightarrow> plic_context_t \<Rightarrow> nat \<times> hart_event" where
  "context_update p c = (
     let msk = (if pc_mmode c then MIP_MEIP else MIP_SEIP)
     in (pc_hart c, Mip_write msk (if context_best_pending p c \<noteq> 0 then msk else 0)))"

definition context_claim :: "plic_t \<Rightarrow> plic_context_t \<Rightarrow> nat \<times> plic_context_t" where
  "context_claim p c = (
     let best = context_best_pending p c; w = best div 32
     in (best, if best \<noteq> 0 then c\<lparr>pc_claimed := (pc_claimed c)(w := pc_claimed c w OR id_mask best)\<rparr> else c))"

definition priority_read :: "reg_t \<Rightarrow> plic_t \<Rightarrow> u32" where
  "priority_read offset p = (let i = unat (shr offset 2) in if i > 0 \<and> i < num_ids p then ucast (plic_priority p i) else 0)"

definition priority_write :: "reg_t \<Rightarrow> u32 \<Rightarrow> plic_t \<Rightarrow> plic_t" where
  "priority_write offset val p = (
     let i = unat (shr offset 2)
     in if i > 0 \<and> i < num_ids p then p\<lparr>plic_priority := (plic_priority p)(i := ucast (val AND (2 ^ PLIC_PRIO_BITS - 1)))\<rparr> else p)"

definition context_enable_read :: "plic_t \<Rightarrow> plic_context_t \<Rightarrow> reg_t \<Rightarrow> u32" where
  "context_enable_read p c offset = (let w = unat (shr offset 2) in if w < num_ids_word p then pc_enable c w else 0)"

fun enable_bits :: "plic_t \<Rightarrow> nat \<Rightarrow> u32 \<Rightarrow> u32 \<Rightarrow> nat list \<Rightarrow> plic_context_t \<Rightarrow> plic_context_t" where
  "enable_bits p w xor_val new_val [] c = c"
| "enable_bits p w xor_val new_val (i # is) c = (
     let k = w * 32 + i; m = shl 1 i
     in enable_bits p w xor_val new_val is
       (if xor_val AND m = 0 then c
        else if new_val AND m \<noteq> 0 \<and> plic_level p w AND m \<noteq> 0 then
          c\<lparr>pc_pending := (pc_pending c)(w := pc_pending c w OR m), pending_priority := (pending_priority c)(k := plic_priority p k)\<rparr>
        else if new_val AND m = 0 then
          c\<lparr>pc_pending := (pc_pending c)(w := pc_pending c w AND NOT m), pending_priority := (pending_priority c)(k := 0),
            pc_claimed := (pc_claimed c)(w := pc_claimed c w AND NOT m)\<rparr>
        else c))"

definition context_enable_write :: "plic_t \<Rightarrow> plic_context_t \<Rightarrow> reg_t \<Rightarrow> u32 \<Rightarrow> (nat \<times> hart_event) list \<times> plic_context_t" where
  "context_enable_write p c offset val = (
     let w = unat (shr offset 2)
     in if w \<ge> num_ids_word p then ([], c)
        else
          let old_val = pc_enable c w;
              new_val = (if w = 0 then val AND NOT 1 else val);
              c = enable_bits p w (old_val XOR new_val) new_val [0..<32] (c\<lparr>pc_enable := (pc_enable c)(w := new_val)\<rparr>)
          in ([context_update p c], c))"

definition context_read :: "plic_t \<Rightarrow> plic_context_t \<Rightarrow> reg_t \<Rightarrow> u32 \<times> (nat \<times> hart_event) list \<times> plic_context_t" where
  "context_read p c offset =
     (if offset = CONTEXT_THRESHOLD then (ucast (priority_threshold c), [], c)
      else if offset = CONTEXT_CLAIM then (let (best, c) = context_claim p c in (of_nat best, [context_update p c], c))
      else (0, [], c))"

definition context_write :: "plic_t \<Rightarrow> plic_context_t \<Rightarrow> reg_t \<Rightarrow> u32 \<Rightarrow> bool \<times> (nat \<times> hart_event) list \<times> plic_context_t" where
  "context_write p c offset val =
     (if offset = CONTEXT_THRESHOLD then
        (let v = val AND (2 ^ PLIC_PRIO_BITS - 1)
         in if v \<le> max_prio p then (let c = c\<lparr>priority_threshold := ucast v\<rparr> in (True, [context_update p c], c)) else (False, [], c))
      else if offset = CONTEXT_CLAIM then
        (let w = unat val div 32; m = id_mask (unat val)
         in if unat val < num_ids p \<and> pc_enable c w AND m \<noteq> 0
            then (let c = c\<lparr>pc_claimed := (pc_claimed c)(w := pc_claimed c w AND NOT m)\<rparr> in (True, [context_update p c], c))
            else (True, [], c))
      else (False, [], c))"

text \<open>Only the first context that enables the source is updated: the loop ends there.\<close>

fun level_contexts :: "plic_t \<Rightarrow> nat \<Rightarrow> bool \<Rightarrow> plic_context_t list \<Rightarrow> (nat \<times> hart_event) list \<times> plic_context_t list" where
  "level_contexts p i lvl [] = ([], [])"
| "level_contexts p i lvl (c # cs) = (
     let w = i div 32; m = id_mask i
     in if pc_enable c w AND m \<noteq> 0 then
          (let c = (if lvl then c\<lparr>pc_pending := (pc_pending c)(w := pc_pending c w OR m),
                              pending_priority := (pending_priority c)(i := plic_priority p i)\<rparr>
                    else c\<lparr>pc_pending := (pc_pending c)(w := pc_pending c w AND NOT m), pending_priority := (pending_priority c)(i := 0),
                           pc_claimed := (pc_claimed c)(w := pc_claimed c w AND NOT m)\<rparr>)
           in ([context_update p c], c # cs))
        else apsnd ((#) c) (level_contexts p i lvl cs))"

definition set_interrupt_level :: "nat \<Rightarrow> bool \<Rightarrow> plic_t \<Rightarrow> hart_irqs \<times> plic_t" where
  "set_interrupt_level i lvl p =
     (if i = 0 \<or> num_ids p \<le> i then ([], p)
      else
        let w = i div 32;
            p = p\<lparr>plic_level := (plic_level p)(w := (if lvl then plic_level p w OR id_mask i else plic_level p w AND NOT (id_mask i)))\<rparr>;
            (ev, cs) = level_contexts p i lvl (plic_contexts p)
        in (ev, p\<lparr>plic_contexts := cs\<rparr>))"

definition plic_load_word :: "reg_t \<Rightarrow> plic_t \<Rightarrow> u8 list option option \<times> hart_irqs \<times> plic_t" where
  "plic_load_word addr p = (
     let rd = (\<lambda>a v. map_option Some (read_little_endian_reg (v :: u32) a 4))
     in if addr < ENABLE_BASE then (rd addr (priority_read addr p), [], p)
        else if addr < CONTEXT_BASE then
          (let cntx = (addr - ENABLE_BASE) div ENABLE_PER_HART; a = addr - (cntx * ENABLE_PER_HART + ENABLE_BASE)
           in if unat cntx < length (plic_contexts p)
              then (rd a (context_enable_read p (plic_contexts p ! unat cntx) a), [], p) else (Some None, [], p))
        else if addr < REG_SIZE then
          (let cntx = (addr - CONTEXT_BASE) div CONTEXT_PER_HART; a = addr - (cntx * CONTEXT_PER_HART + CONTEXT_BASE)
           in if unat cntx < length (plic_contexts p)
              then (let (v, ev, c) = context_read p (plic_contexts p ! unat cntx) a
                    in (rd a v, ev, p\<lparr>plic_contexts := (plic_contexts p)[unat cntx := c]\<rparr>))
              else (Some None, [], p))
        else (Some None, [], p))"

definition plic_load :: "reg_t \<Rightarrow> nat \<Rightarrow> plic_t \<Rightarrow> u8 list option option \<times> hart_irqs \<times> plic_t" where
  "plic_load addr len p =
     (if len = 4 then plic_load_word addr p
      else if len = 8 then
        (case plic_load_word addr p of
           (Some (Some lo), ev, p) \<Rightarrow> (case plic_load_word (addr + 4) p of (r, ev', p) \<Rightarrow> (map_option (map_option ((@) lo)) r, ev @ ev', p))
         | r \<Rightarrow> r)
      else (Some None, [], p))"

definition plic_store_word :: "reg_t \<Rightarrow> u8 list \<Rightarrow> plic_t \<Rightarrow> bool option \<times> hart_irqs \<times> plic_t" where
  "plic_store_word addr bs p = (case write_little_endian_reg (0 :: u32) addr bs of None \<Rightarrow> (None, [], p)
   | Some val \<Rightarrow>
     (if addr < ENABLE_BASE then (Some True, [], priority_write addr val p)
      else if addr < CONTEXT_BASE then
        (let cntx = (addr - ENABLE_BASE) div ENABLE_PER_HART; a = addr - (cntx * ENABLE_PER_HART + ENABLE_BASE)
         in if unat cntx < length (plic_contexts p)
            then (let (ev, c) = context_enable_write p (plic_contexts p ! unat cntx) a val
                  in (Some True, ev, p\<lparr>plic_contexts := (plic_contexts p)[unat cntx := c]\<rparr>))
            else (Some False, [], p))
      else if addr < REG_SIZE then
        (let cntx = (addr - CONTEXT_BASE) div CONTEXT_PER_HART; a = addr - (cntx * CONTEXT_PER_HART + CONTEXT_BASE)
         in if unat cntx < length (plic_contexts p)
            then (let (ok, ev, c) = context_write p (plic_contexts p ! unat cntx) a val
                  in (Some ok, ev, p\<lparr>plic_contexts := (plic_contexts p)[unat cntx := c]\<rparr>))
            else (Some False, [], p))
      else (Some False, [], p)))"

definition plic_store :: "reg_t \<Rightarrow> u8 list \<Rightarrow> plic_t \<Rightarrow> bool option \<times> hart_irqs \<times> plic_t" where
  "plic_store addr bs p =
     (if length bs = 4 then plic_store_word addr bs p
      else if length bs = 8 then
        (case plic_store_word addr (take 4 bs) p of
           (Some True, ev, p) \<Rightarrow> (case plic_store_word (addr + 4) (drop 4 bs) p of (r, ev', p) \<Rightarrow> (r, ev @ ev', p))
         | r \<Rightarrow> r)
      else (Some False, [], p))"

subsection \<open>The choice of the interrupt\<close>

text \<open>The sources a context can claim: pending for it and not claimed.\<close>

definition claimable :: "plic_t \<Rightarrow> plic_context_t \<Rightarrow> nat \<Rightarrow> bool" where
  "claimable p c k \<longleftrightarrow> k < num_ids p \<and> pc_pending c (k div 32) AND id_mask k \<noteq> 0 \<and> pc_claimed c (k div 32) AND id_mask k = 0"

definition best_step :: "plic_t \<Rightarrow> plic_context_t \<Rightarrow> nat \<Rightarrow> nat \<times> u8 \<Rightarrow> nat \<times> u8" where
  "best_step p c k best = (if claimable p c k \<and> (fst best = 0 \<or> snd best < pending_priority c k) then (k, pending_priority c k) else best)"

lemma best_in_word_fold:
  "\<forall>j\<in>set js. j < 32 \<Longrightarrow> best_in_word p c i js best = fold (best_step p c) (map (\<lambda>j. i * 32 + j) js) best"
  by (induction p c i js best rule: best_in_word.induct) (auto simp: best_step_def claimable_def id_mask_def Let_def)

lemma best_in_words_fold:
  "best_in_words p c is best = fold (best_step p c) (concat (map (\<lambda>i. map (\<lambda>j. i * 32 + j) [0..<32]) is)) best"
proof (induction "is" arbitrary: best)
  case (Cons i "is")
  have "fold (best_step p c) (map (\<lambda>j. i * 32 + j) js) best = best" if "pc_pending c i = 0" "\<forall>j\<in>set js. j < 32" for js
    using that by (induction js) (auto simp: best_step_def claimable_def)
  from this [of "[0..<32]"] show ?case
    by (simp add: Cons best_in_word_fold del: upt_rec_numeral upt.simps)
qed simp

lemma ids_of_words: "concat (map (\<lambda>i. map (\<lambda>j. i * 32 + j) [0..<32]) [0..<n]) = [0..<32 * n]"
proof (induction n)
  case (Suc n)
  have "map (\<lambda>j. n * 32 + j) [0..<32] = [32 * n..<32 * n + 32]"
    by (rule nth_equalityI) (simp_all add: mult.commute del: upt_rec_numeral upt.simps)
  then have "concat (map (\<lambda>i. map (\<lambda>j. i * 32 + j) [0..<32]) [0..<Suc n]) = [0..<32 * n] @ [32 * n..<32 * n + 32]"
    by (simp only: upt_Suc_append [OF le0] map_append concat_append Suc list.map concat.simps append_Nil2)
  also have "\<dots> = [0..<32 * Suc n]" using upt_add_eq_append [of 0 "32 * n" 32] by (simp only: le0 mult_Suc_right add.commute)
  finally show ?case .
qed simp

definition best_among :: "plic_t \<Rightarrow> plic_context_t \<Rightarrow> nat \<Rightarrow> nat \<Rightarrow> bool" where
  "best_among p c m b \<longleftrightarrow> (b \<noteq> 0 \<longrightarrow> claimable p c b) \<and>
     (\<forall>k. 0 < k \<and> k < m \<and> claimable p c k \<longrightarrow> b \<noteq> 0 \<and>
        (pending_priority c k < pending_priority c b \<or> pending_priority c k = pending_priority c b \<and> b \<le> k))"

lemma best_fold:
  "fold (best_step p c) [0..<m] (0, 0) = (b, q) \<Longrightarrow> best_among p c m b \<and> (b \<noteq> 0 \<longrightarrow> b < m \<and> q = pending_priority c b)"
proof (induction m arbitrary: b q)
  case (Suc m)
  obtain b' q' where f: "fold (best_step p c) [0..<m] (0, 0) = (b', q')" by fastforce
  have s: "(b, q) = best_step p c m (b', q')" using Suc.prems f by simp
  note ih = Suc.IH [OF f]
  show ?case
  proof (cases "claimable p c m \<and> (b' = 0 \<or> q' < pending_priority c m)")
    case True
    then have "b = m" "q = pending_priority c m" using s by (simp_all add: best_step_def)
    then show ?thesis using ih True
      by (auto simp: best_among_def less_Suc_eq intro: less_trans)
  next
    case False
    then have "b = b'" "q = q'" using s by (simp_all add: best_step_def split: if_splits)
    then show ?thesis using ih False by (auto simp: best_among_def less_Suc_eq not_less order_le_less)
  qed
qed (simp add: best_among_def)

lemma best_exact:
  assumes "num_ids p \<le> 32 * num_ids_word p"
  shows "best_among p c (num_ids p) (context_best_pending p c)"
proof -
  let ?f = "fold (best_step p c) [0..<32 * num_ids_word p] (0, 0)"
  have "best_among p c (32 * num_ids_word p) (fst ?f)" using best_fold [of p c _ "fst ?f" "snd ?f"] by simp
  then show ?thesis using assms
    unfolding context_best_pending_def best_in_words_fold ids_of_words best_among_def by auto
qed

subsection \<open>Well-formed controllers\<close>

text \<open>The enabled sources are in the words by bits; nothing pends for or is claimed by a context that
  does not enable it; the priorities and the threshold fit their four bits.\<close>

definition context_wf :: "plic_context_t \<Rightarrow> bool" where
  "context_wf c \<longleftrightarrow> priority_threshold c \<le> 15 \<and> \<not> bit (pc_enable c 0) 0 \<and>
     (\<forall>w n. bit (pc_pending c w) n \<or> bit (pc_claimed c w) n \<longrightarrow> bit (pc_enable c w) n) \<and>
     (\<forall>k. pending_priority c k \<le> 15)"

definition plic_wf :: "plic_t \<Rightarrow> bool" where
  "plic_wf p \<longleftrightarrow> num_ids_word p = (num_ids p + 31) div 32 \<and> max_prio p = 15 \<and> (\<forall>k. plic_priority p k \<le> 15) \<and>
     (\<forall>c\<in>set (plic_contexts p). context_wf c)"

lemmas u32_eq = bit_eq_iff [where 'a = "32 word"]

lemma prio_bits: "ucast (v AND 0xF :: u32) \<le> (15 :: u8)"
proof -
  have "unat (v AND 0xF) \<le> 15" using word_and_le1 [of v "0xF"] by (simp add: word_le_nat_alt)
  then have "unat (ucast (v AND 0xF) :: u8) \<le> 15" by (simp add: unsigned_ucast_eq take_bit_nat_eq_self)
  then show ?thesis by (simp add: word_le_nat_alt)
qed

lemma bit_shl_one: "bit (2 ^ i :: u32) n \<longleftrightarrow> n = i \<and> i < 32"
  by (auto simp: bit_simps)

lemma and_shl_one: "i < 32 \<Longrightarrow> x AND 2 ^ i = (0 :: u32) \<longleftrightarrow> \<not> bit x i"
  by (auto simp: u32_eq bit_and_iff bit_shl_one)

lemma bit_id_mask: "bit (id_mask i) n \<longleftrightarrow> n = i mod 32"
  by (simp add: id_mask_def bit_shl_one)

lemma id_mask_nonzero [simp]: "id_mask i \<noteq> 0"
  using bit_id_mask [of i "i mod 32"] by auto

lemma and_id_mask: "x AND id_mask i = 0 \<longleftrightarrow> \<not> bit x (i mod 32)"
  by (simp add: id_mask_def and_shl_one)

lemmas word_bits = bit_and_iff bit_or_iff bit_not_iff bit_id_mask bit_shl_one

lemma best_claimable:
  "plic_wf p \<Longrightarrow> context_best_pending p c \<noteq> 0 \<Longrightarrow> claimable p c (context_best_pending p c)"
  using best_exact [of p c] by (auto simp: best_among_def plic_wf_def)

lemma claim_wf: "plic_wf p \<Longrightarrow> context_wf c \<Longrightarrow> context_wf (snd (context_claim p c))"
  using best_claimable [of p c]
  by (auto simp: context_claim_def context_wf_def Let_def word_bits claimable_def and_id_mask)

lemma enable_bits_wf:
  assumes "\<forall>k. plic_priority p k \<le> 15" "\<forall>i\<in>set is. i < 32"
    and "priority_threshold c \<le> 15" "\<not> bit (pc_enable c 0) 0" "\<forall>k. pending_priority c k \<le> 15" "pc_enable c w = new"
    and "\<forall>v n. v \<noteq> w \<and> (bit (pc_pending c v) n \<or> bit (pc_claimed c v) n) \<longrightarrow> bit (pc_enable c v) n"
    and "\<forall>n. (bit (pc_pending c w) n \<or> bit (pc_claimed c w) n) \<and> \<not> bit new n \<longrightarrow> n \<in> set is \<and> bit x n"
  shows "context_wf (enable_bits p w x new is c)"
  using assms
proof (induction p w x new "is" c rule: enable_bits.induct)
  case (1 p w x new c)
  have "bit (pc_pending c v) n \<or> bit (pc_claimed c v) n \<Longrightarrow> bit (pc_enable c v) n" for v n
    using 1(6-8) by (cases "v = w") auto
  then show ?case using 1 by (auto simp: context_wf_def)
next
  case (2 p w x new i "is" c)
  have i: "i < 32" using 2(3) by simp
  show ?case
    unfolding enable_bits.simps Let_def and_shl_one [OF i] if_not_P
    by (rule 2(1) [OF refl refl, unfolded and_shl_one [OF i]]) (use 2(2-) i in \<open>auto simp: word_bits and_shl_one\<close>)
qed

lemma enable_write_wf:
  assumes "plic_wf p" "context_wf c"
  shows "context_wf (snd (context_enable_write p c off val))"
proof (cases "unat (shr off 2) < num_ids_word p")
  case True
  let ?w = "unat (shr off 2)" and ?new = "if unat (shr off 2) = 0 then val AND NOT 1 else val"
  have "context_wf (enable_bits p ?w (pc_enable c ?w XOR ?new) ?new [0..<32] (c\<lparr>pc_enable := (pc_enable c)(?w := ?new)\<rparr>))"
    by (rule enable_bits_wf)
      (use assms in \<open>auto simp: plic_wf_def context_wf_def bit_and_iff bit_not_iff bit_xor_iff bit_1_iff dest: bit_imp_le_length\<close>)
  then show ?thesis using True by (simp add: context_enable_write_def Let_def del: upt_rec_numeral)
qed (use assms in \<open>simp add: context_enable_write_def\<close>)

lemma context_read_wf: "plic_wf p \<Longrightarrow> context_wf c \<Longrightarrow> context_wf (snd (snd (context_read p c off)))"
  using claim_wf [of p c] by (auto simp: context_read_def Let_def split: prod.splits)

lemma context_write_wf:
  assumes "plic_wf p" "context_wf c"
  shows "context_wf (snd (snd (context_write p c off val)))"
  using assms prio_bits [of val] by (auto simp: context_write_def context_wf_def Let_def word_bits)

lemma level_contexts_wf:
  "plic_wf p \<Longrightarrow> \<forall>c\<in>set cs. context_wf c \<Longrightarrow> \<forall>c\<in>set (snd (level_contexts p i lvl cs)). context_wf c"
proof (induction cs)
  case (Cons c cs)
  have "context_wf c" using Cons by simp
  then have "context_wf (c\<lparr>pc_pending := (pc_pending c)(w := pc_pending c w OR id_mask i), pending_priority := (pending_priority c)(i := plic_priority p i)\<rparr>)"
    if "pc_enable c w AND id_mask i \<noteq> 0" for w
    using that Cons.prems by (auto simp: context_wf_def plic_wf_def word_bits and_id_mask)
  moreover have "context_wf (c\<lparr>pc_pending := (pc_pending c)(w := pc_pending c w AND NOT (id_mask i)), pending_priority := (pending_priority c)(i := 0),
     pc_claimed := (pc_claimed c)(w := pc_claimed c w AND NOT (id_mask i))\<rparr>)" for w
    using \<open>context_wf c\<close> by (auto simp: context_wf_def word_bits)
  ultimately show ?case using Cons by (auto simp: Let_def)
qed simp

lemma plic_wf_update:
  "plic_wf p \<Longrightarrow> context_wf c \<Longrightarrow> plic_wf (p\<lparr>plic_contexts := (plic_contexts p)[k := c]\<rparr>)"
  by (auto simp: plic_wf_def dest: set_update_subset_insert [THEN subsetD])

lemma nth_context_wf: "plic_wf p \<Longrightarrow> k < length (plic_contexts p) \<Longrightarrow> context_wf (plic_contexts p ! k)"
  by (simp add: plic_wf_def)

lemma plic_load_word_wf: "plic_wf p \<Longrightarrow> plic_wf (snd (snd (plic_load_word a p)))"
  by (auto simp: plic_load_word_def Let_def context_read_wf nth_context_wf plic_wf_update split: prod.splits)
    (metis context_read_wf nth_context_wf plic_wf_update snd_conv)

lemma priority_write_wf: "plic_wf p \<Longrightarrow> plic_wf (priority_write a v p)"
  using prio_bits [of v] by (auto simp: priority_write_def plic_wf_def Let_def)

lemma plic_store_word_wf: "plic_wf p \<Longrightarrow> plic_wf (snd (snd (plic_store_word a bs p)))"
  by (auto simp: plic_store_word_def Let_def priority_write_wf split: prod.splits option.splits)
    (metis context_write_wf enable_write_wf nth_context_wf plic_wf_update snd_conv)+

lemma word_access_wf:
  "plic_load_word a p = (r, ev, p') \<Longrightarrow> plic_wf p \<Longrightarrow> plic_wf p'"
  "plic_store_word a bs p = (r', ev, p') \<Longrightarrow> plic_wf p \<Longrightarrow> plic_wf p'"
  using plic_load_word_wf [of p a] plic_store_word_wf [of p a bs] by simp_all

text \<open>C21: a controller built for at most 1023 sources is well formed, and every load, store and change of an
  input line keeps it so: its priorities and thresholds stay in four bits, source 0 is never enabled, and
  a context never has an interrupt pending or claimed that it does not enable.\<close>

theorem plic_stays_wf:
  "plic_wf (plic_new harts ndev) \<and>
   (plic_wf p \<longrightarrow> plic_wf (snd (snd (plic_load a n p))) \<and> plic_wf (snd (snd (plic_store a bs p))) \<and>
      plic_wf (snd (set_interrupt_level i lvl p)))"
proof -
  have "plic_wf (plic_new harts ndev)"
    by (auto simp: plic_wf_def plic_new_def context_wf_def plic_context_new_def split: if_splits)
  moreover have "plic_wf (snd (snd (plic_load a n p)))" if "plic_wf p"
    using that by (auto simp: plic_load_def dest: word_access_wf split: prod.splits option.splits)
  moreover have "plic_wf (snd (snd (plic_store a bs p)))" if "plic_wf p"
    using that by (auto simp: plic_store_def dest: word_access_wf split: prod.splits option.splits bool.splits)
  moreover have "plic_wf (snd (set_interrupt_level i lvl p))" if "plic_wf p"
  proof -
    have w: "plic_wf (p\<lparr>plic_level := l\<rparr>)" for l using that by (simp add: plic_wf_def)
    show ?thesis using level_contexts_wf [OF w] that
      by (auto simp: set_interrupt_level_def Let_def plic_wf_def split: prod.splits) (metis snd_conv)+
  qed
  ultimately show ?thesis by blast
qed

text \<open>Enabling sources 4 and 5 of a new controller for context 1, the supervisor mode of hart 0.\<close>

theorem plic_stays_wf_witness:
  "plic_wf (snd (snd (plic_store 0x2080 [0x30, 0, 0, 0] (plic_new [(0, True)] 31))))"
  using plic_stays_wf [of "[(0, True)]" 31 "plic_new [(0, True)] 31" "0x2080" _ "[0x30, 0, 0, 0]"] by blast

text \<open>C22: a claim answers with the claimable source of highest priority, of these the one with the lowest
  number, and with 0 when there is none; the same context is not offered that source again, until the
  source is completed, which brings the context back to what it was.\<close>

theorem plic_claim_exact:
  assumes "plic_wf p" "context_wf c" "context_claim p c = (b, c')"
  shows "(b = 0 \<longrightarrow> (\<forall>k. 0 < k \<longrightarrow> \<not> claimable p c k) \<and> c' = c) \<and>
    (b \<noteq> 0 \<longrightarrow> claimable p c b \<and>
       (\<forall>k. 0 < k \<and> claimable p c k \<longrightarrow> pending_priority c k < pending_priority c b \<or>
          pending_priority c k = pending_priority c b \<and> b \<le> k) \<and>
       fst (context_claim p c') \<noteq> b \<and>
       (num_ids p \<le> 1024 \<longrightarrow> context_write p c' CONTEXT_CLAIM (of_nat b) = (True, [context_update p c], c)))"
proof -
  have n: "num_ids p \<le> 32 * num_ids_word p" using assms(1) by (auto simp: plic_wf_def)
  have b: "b = context_best_pending p c" using assms(3) by (auto simp: context_claim_def Let_def)
  note best = best_exact [OF n, of c, folded b, unfolded best_among_def]
  have k: "claimable p c k \<Longrightarrow> k < num_ids p" for k by (simp add: claimable_def)
  show ?thesis
  proof (cases "b = 0")
    case True
    then show ?thesis using best k b assms(3) by (auto simp: context_claim_def Let_def)
  next
    case False
    have c: "c' = c\<lparr>pc_claimed := (pc_claimed c)(b div 32 := pc_claimed c (b div 32) OR id_mask b)\<rparr>"
      using assms(3) False b by (auto simp: context_claim_def Let_def)
    have cb: "claimable p c b" using best False by blast
    have "\<not> claimable p c' b" by (simp add: claimable_def c and_id_mask word_bits)
    then have again: "fst (context_claim p c') \<noteq> b"
      using best_exact [OF n, of c'] False by (auto simp: context_claim_def Let_def best_among_def)
    have "context_write p c' CONTEXT_CLAIM (of_nat b) = (True, [context_update p c], c)" if "num_ids p \<le> 1024"
    proof -
      have lt: "b < num_ids p" and off: "\<not> bit (pc_claimed c (b div 32)) (b mod 32)" and on: "bit (pc_enable c (b div 32)) (b mod 32)"
        using cb assms(2) by (auto simp: claimable_def and_id_mask context_wf_def)
      have u: "unat (of_nat b :: u32) = b"
        using lt that by (simp add: unsigned_of_nat take_bit_nat_eq_self)
      have "(pc_claimed c (b div 32) OR id_mask b) AND NOT (id_mask b) = pc_claimed c (b div 32)"
        using off by (auto simp: u32_eq word_bits)
      then have "c'\<lparr>pc_claimed := (pc_claimed c')(b div 32 := pc_claimed c' (b div 32) AND NOT (id_mask b))\<rparr> = c"
        by (simp add: c)
      then show ?thesis using lt on by (simp add: context_write_def u Let_def and_id_mask) (simp add: c)
    qed
    then show ?thesis using False best k cb again by auto
  qed
qed

text \<open>Sources 4 and 5 pend with the same priority, 6 with a lower one: 4 is claimed, then 5.\<close>

definition demo_context :: plic_context_t where
  "demo_context = (plic_context_new 0 True)\<lparr>pc_enable := (\<lambda>_. 0)(0 := 0x70), pc_pending := (\<lambda>_. 0)(0 := 0x70),
     pending_priority := (\<lambda>_. 0)(4 := 3, 5 := 3, 6 := 1)\<rparr>"

lemma demo_context_wf: "context_wf demo_context"
  by (auto simp: context_wf_def demo_context_def plic_context_new_def bit_numeral_rec)

theorem plic_claim_exact_witness:
  "let p = plic_new [(0, True)] 31; (b, c) = context_claim p demo_context
   in b = 4 \<and> fst (context_claim p c) \<noteq> 4 \<and> snd (snd (context_write p c CONTEXT_CLAIM 4)) = demo_context"
proof -
  let ?p = "plic_new [(0, True)] 31"
  have p: "plic_wf ?p" "num_ids ?p \<le> 1024" "num_ids_word ?p = 1" "num_ids ?p = 32"
    by (auto simp: plic_wf_def plic_new_def context_wf_def plic_context_new_def)
  have best: "context_best_pending ?p demo_context = 4"
    by (simp add: context_best_pending_def p demo_context_def plic_context_new_def Let_def upt_rec)
  obtain c where c: "context_claim ?p demo_context = (4, c)" using best by (simp add: context_claim_def Let_def)
  show ?thesis
    using plic_claim_exact [OF p(1) demo_context_wf c] p(2) by (simp add: Let_def c)
qed

end
