(* ===== verification/Uart.thy ===== *)
theory Uart
  imports Devices
begin

text \<open>
  The serial port of riscv/ns16550.cc: its registers, the receive queue, the interrupt line and the
  polling of the terminal. The line follows the conditions that drive it.
\<close>

subsection \<open>The serial port\<close>

abbreviation (input) UART_QUEUE_SIZE :: nat where "UART_QUEUE_SIZE \<equiv> 64"
abbreviation (input) UART_RX :: reg_t where "UART_RX \<equiv> 0"
abbreviation (input) UART_TX :: reg_t where "UART_TX \<equiv> 0"
abbreviation (input) UART_IER :: reg_t where "UART_IER \<equiv> 1"
abbreviation (input) UART_IER_THRI :: u8 where "UART_IER_THRI \<equiv> 0x02"
abbreviation (input) UART_IER_RDI :: u8 where "UART_IER_RDI \<equiv> 0x01"
abbreviation (input) UART_IIR :: reg_t where "UART_IIR \<equiv> 2"
abbreviation (input) UART_IIR_NO_INT :: u8 where "UART_IIR_NO_INT \<equiv> 0x01"
abbreviation (input) UART_IIR_ID :: u8 where "UART_IIR_ID \<equiv> 0x0e"
abbreviation (input) UART_IIR_THRI :: u8 where "UART_IIR_THRI \<equiv> 0x02"
abbreviation (input) UART_IIR_RDI :: u8 where "UART_IIR_RDI \<equiv> 0x04"
abbreviation (input) UART_IIR_RLSI :: u8 where "UART_IIR_RLSI \<equiv> 0x06"
abbreviation (input) UART_IIR_TYPE_BITS :: u8 where "UART_IIR_TYPE_BITS \<equiv> 0xc0"
abbreviation (input) UART_FCR :: reg_t where "UART_FCR \<equiv> 2"
abbreviation (input) UART_FCR_ENABLE_FIFO :: u8 where "UART_FCR_ENABLE_FIFO \<equiv> 0x01"
abbreviation (input) UART_FCR_CLEAR_RCVR :: u8 where "UART_FCR_CLEAR_RCVR \<equiv> 0x02"
abbreviation (input) UART_FCR_CLEAR_XMIT :: u8 where "UART_FCR_CLEAR_XMIT \<equiv> 0x04"
abbreviation (input) UART_LCR :: reg_t where "UART_LCR \<equiv> 3"
abbreviation (input) UART_LCR_DLAB :: u8 where "UART_LCR_DLAB \<equiv> 0x80"
abbreviation (input) UART_MCR :: reg_t where "UART_MCR \<equiv> 4"
abbreviation (input) UART_MCR_LOOP :: u8 where "UART_MCR_LOOP \<equiv> 0x10"
abbreviation (input) UART_MCR_OUT2 :: u8 where "UART_MCR_OUT2 \<equiv> 0x08"
abbreviation (input) UART_LSR :: reg_t where "UART_LSR \<equiv> 5"
abbreviation (input) UART_LSR_TEMT :: u8 where "UART_LSR_TEMT \<equiv> 0x40"
abbreviation (input) UART_LSR_THRE :: u8 where "UART_LSR_THRE \<equiv> 0x20"
abbreviation (input) UART_LSR_BI :: u8 where "UART_LSR_BI \<equiv> 0x10"
abbreviation (input) UART_LSR_DR :: u8 where "UART_LSR_DR \<equiv> 0x01"
abbreviation (input) UART_MSR :: reg_t where "UART_MSR \<equiv> 6"
abbreviation (input) UART_MSR_DCD :: u8 where "UART_MSR_DCD \<equiv> 0x80"
abbreviation (input) UART_MSR_DSR :: u8 where "UART_MSR_DSR \<equiv> 0x20"
abbreviation (input) UART_MSR_CTS :: u8 where "UART_MSR_CTS \<equiv> 0x10"
abbreviation (input) UART_SCR :: reg_t where "UART_SCR \<equiv> 7"

text \<open>The state of the port and, in place of the callback \<open>char_write\<close>, the characters sent.\<close>

record ns16550_t =
  u_reg_shift :: nat
  u_reg_io_width :: nat
  rx_queue :: "u8 list"
  u_dll :: u8
  u_dlm :: u8
  u_iir :: u8
  u_ier :: u8
  u_fcr :: u8
  u_lcr :: u8
  u_mcr :: u8
  u_lsr :: u8
  u_msr :: u8
  u_scr :: u8
  thri_ip :: bool
  backoff_counter :: nat
  tx_chars :: "u8 list"

text \<open>The constructor leaves \<open>dlm\<close> as it finds it: the first argument.\<close>

definition ns16550_new :: "u8 \<Rightarrow> nat \<Rightarrow> nat \<Rightarrow> ns16550_t" where
  "ns16550_new dlm0 shift width = \<lparr>u_reg_shift = shift, u_reg_io_width = width, rx_queue = [], u_dll = 0x0C, u_dlm = dlm0,
     u_iir = UART_IIR_NO_INT, u_ier = 0, u_fcr = 0, u_lcr = 0, u_mcr = UART_MCR_OUT2, u_lsr = UART_LSR_TEMT OR UART_LSR_THRE,
     u_msr = UART_MSR_DCD OR UART_MSR_DSR OR UART_MSR_CTS, u_scr = 0, thri_ip = False, backoff_counter = 0, tx_chars = []\<rparr>"

definition uart_clear :: "ns16550_t \<Rightarrow> ns16550_t" where
  "uart_clear u = (
     let u = (if u_fcr u AND UART_FCR_CLEAR_RCVR \<noteq> 0
              then u\<lparr>u_fcr := u_fcr u AND NOT UART_FCR_CLEAR_RCVR, rx_queue := [], u_lsr := u_lsr u AND NOT UART_LSR_DR\<rparr> else u)
     in if u_fcr u AND UART_FCR_CLEAR_XMIT \<noteq> 0
        then u\<lparr>u_fcr := u_fcr u AND NOT UART_FCR_CLEAR_XMIT, u_lsr := u_lsr u OR UART_LSR_TEMT OR UART_LSR_THRE\<rparr> else u)"

text \<open>The second result is the level of the interrupt line.\<close>

definition update_interrupt :: "ns16550_t \<Rightarrow> ns16550_t \<times> bool" where
  "update_interrupt u = (
     let u = uart_clear u;
         interrupts = (if u_ier u AND UART_IER_RDI \<noteq> 0 \<and> u_lsr u AND UART_LSR_DR \<noteq> 0 then UART_IIR_RDI else 0) OR
           (if u_ier u AND UART_IER_THRI \<noteq> 0 \<and> u_lsr u AND UART_LSR_TEMT \<noteq> 0 \<and> thri_ip u then UART_IIR_THRI else 0);
         u = u\<lparr>u_iir := (if interrupts = 0 then UART_IIR_NO_INT else interrupts)\<rparr>
     in (if u_ier u AND UART_IER_THRI = 0 then u\<lparr>u_lsr := u_lsr u OR UART_LSR_TEMT OR UART_LSR_THRE\<rparr> else u, interrupts \<noteq> 0))"

definition rx_byte :: "ns16550_t \<Rightarrow> u8 \<times> ns16550_t" where
  "rx_byte u = (case rx_queue u of
     [] \<Rightarrow> (0, u\<lparr>u_lsr := u_lsr u AND NOT UART_LSR_DR\<rparr>)
   | c # q \<Rightarrow>
       if u_lsr u AND UART_LSR_BI \<noteq> 0 then (0, u\<lparr>u_lsr := u_lsr u AND NOT UART_LSR_BI\<rparr>)
       else (c, (if q = [] then u\<lparr>rx_queue := q, u_lsr := u_lsr u AND NOT UART_LSR_DR\<rparr> else u\<lparr>rx_queue := q\<rparr>)))"

definition tx_byte :: "u8 \<Rightarrow> ns16550_t \<Rightarrow> ns16550_t" where
  "tx_byte val u = u\<lparr>u_lsr := u_lsr u OR UART_LSR_TEMT OR UART_LSR_THRE, thri_ip := True, tx_chars := tx_chars u @ [val]\<rparr>"

text \<open>What an access does before the interrupt line is updated: the value, the state, and whether the
  line is updated.\<close>

definition uart_read :: "reg_t \<Rightarrow> ns16550_t \<Rightarrow> u8 \<times> ns16550_t \<times> bool" where
  "uart_read r u =
     (if r = UART_RX then (if u_lcr u AND UART_LCR_DLAB \<noteq> 0 then (u_dll u, u, True) else (case rx_byte u of (v, u) \<Rightarrow> (v, u, True)))
      else if r = UART_IER then (if u_lcr u AND UART_LCR_DLAB \<noteq> 0 then u_dlm u else u_ier u, u, False)
      else if r = UART_IIR then
        (u_iir u OR UART_IIR_TYPE_BITS, if u_iir u AND UART_IIR_THRI \<noteq> 0 then (u\<lparr>thri_ip := False\<rparr>, True) else (u, False))
      else if r = UART_LCR then (u_lcr u, u, False)
      else if r = UART_MCR then (u_mcr u, u, False)
      else if r = UART_LSR then (u_lsr u, u, False)
      else if r = UART_MSR then (u_msr u, u, False)
      else (u_scr u, u, False))"

definition uart_write :: "reg_t \<Rightarrow> u8 \<Rightarrow> ns16550_t \<Rightarrow> ns16550_t \<times> bool" where
  "uart_write r val u =
     (if r = UART_TX then
        (if u_lcr u AND UART_LCR_DLAB \<noteq> 0 then u\<lparr>u_dll := val\<rparr>
         else if u_mcr u AND UART_MCR_LOOP \<noteq> 0 then
           (if length (rx_queue u) < UART_QUEUE_SIZE then u\<lparr>rx_queue := rx_queue u @ [val], u_lsr := u_lsr u OR UART_LSR_DR\<rparr> else u)
         else tx_byte val u, True)
      else if r = UART_IER then
        (if u_lcr u AND UART_LCR_DLAB = 0 then
           (let ier = val AND 0x0f
            in if ier AND UART_IER_THRI \<noteq> 0 \<and> u_ier u AND UART_IER_THRI = 0 then u\<lparr>u_ier := ier, thri_ip := True\<rparr> else u\<lparr>u_ier := ier\<rparr>)
         else u\<lparr>u_dlm := val\<rparr>, True)
      else if r = UART_FCR then (u\<lparr>u_fcr := val\<rparr>, True)
      else if r = UART_LCR then (u\<lparr>u_lcr := val\<rparr>, True)
      else if r = UART_MCR then (u\<lparr>u_mcr := val\<rparr>, True)
      else if r = UART_LSR \<or> r = UART_MSR then (u, False)
      else (u\<lparr>u_scr := val\<rparr>, False))"

text \<open>The last result is the new level of the interrupt line, when the access updates it. Of a load wider than a byte
  the code fills only the first byte.\<close>

definition uart_update :: "bool \<Rightarrow> ns16550_t \<Rightarrow> ns16550_t \<times> bool option" where
  "uart_update b u = (if b then (case update_interrupt u of (u, l) \<Rightarrow> (u, Some l)) else (u, None))"

definition uart_load :: "reg_t \<Rightarrow> nat \<Rightarrow> ns16550_t \<Rightarrow> u8 list option \<times> ns16550_t \<times> bool option" where
  "uart_load addr len u =
     (if u_reg_io_width u \<noteq> len then (None, u, None)
      else case uart_read (shr addr (u_reg_shift u) AND 7) u of (v, u, b) \<Rightarrow> (Some (take len (v # replicate len 0)), uart_update b u))"

definition uart_store :: "reg_t \<Rightarrow> u8 list \<Rightarrow> ns16550_t \<Rightarrow> bool \<times> ns16550_t \<times> bool option" where
  "uart_store addr bs u =
     (if u_reg_io_width u \<noteq> length bs then (False, u, None)
      else case uart_write (shr addr (u_reg_shift u) AND 7) (bs ! 0) u of (u, b) \<Rightarrow> (True, uart_update b u))"

text \<open>The next character of the board, when there is one, is the argument.\<close>

definition uart_tick :: "u8 option \<Rightarrow> ns16550_t \<Rightarrow> ns16550_t \<times> bool option" where
  "uart_tick rc u =
     (if u_fcr u AND UART_FCR_ENABLE_FIFO = 0 \<or> u_mcr u AND UART_MCR_LOOP \<noteq> 0 \<or> UART_QUEUE_SIZE \<le> length (rx_queue u) then (u, None)
      else if backoff_counter u > 0 \<and> backoff_counter u < 16 then (u\<lparr>backoff_counter := backoff_counter u + 1\<rparr>, None)
      else case rc of None \<Rightarrow> (u\<lparr>backoff_counter := 1\<rparr>, None)
        | Some ch \<Rightarrow> uart_update True (u\<lparr>backoff_counter := 0, rx_queue := rx_queue u @ [ch], u_lsr := u_lsr u OR UART_LSR_DR\<rparr>))"

subsection \<open>The serial port\<close>

text \<open>The queue is bounded, the data-ready bit says whether it holds something, and the transmitter, whose
  characters leave at once, is always empty.\<close>

definition uart_ok :: "ns16550_t \<Rightarrow> bool" where
  "uart_ok u \<longleftrightarrow> length (rx_queue u) \<le> UART_QUEUE_SIZE \<and> (bit (u_lsr u) 0 \<longleftrightarrow> rx_queue u \<noteq> []) \<and> bit (u_lsr u) 6 \<and> \<not> bit (u_lsr u) 4"

lemma and_power_iff: "i < 8 \<Longrightarrow> x AND 2 ^ i = 0 \<longleftrightarrow> \<not> bit (x :: u8) i"
proof -
  assume "i < 8"
  then have "bit (2 ^ i :: u8) n \<longleftrightarrow> n = i" for n by (auto simp: bit_simps)
  then show ?thesis using \<open>i < 8\<close> by (auto simp: bit_eq_iff [where 'a = "8 word"] bit_and_iff)
qed

lemma lsr_tests:
  "(x :: u8) AND 64 = 0 \<longleftrightarrow> \<not> bit x 6" "x AND 32 = 0 \<longleftrightarrow> \<not> bit x 5" "x AND 16 = 0 \<longleftrightarrow> \<not> bit x 4" "x AND 4 = 0 \<longleftrightarrow> \<not> bit x 2"
  "x AND 2 = 0 \<longleftrightarrow> \<not> bit x 1" "x AND 1 = 0 \<longleftrightarrow> \<not> bit x 0"
  using and_power_iff [of 6 x] and_power_iff [of 5 x] and_power_iff [of 4 x] and_power_iff [of 2 x] and_power_iff [of 1 x]
    and_power_iff [of 0 x] by simp_all

lemmas lsr_simps = bit_or_iff bit_and_iff bit_not_iff lsr_tests

text \<open>The interrupts that should be signalled: received data and the empty transmitter, where enabled.\<close>

definition uart_events :: "ns16550_t \<Rightarrow> bool \<times> bool" where
  "uart_events u = (bit (u_ier u) 0 \<and> rx_queue u \<noteq> [], bit (u_ier u) 1 \<and> thri_ip u)"

definition event_id :: "bool \<times> bool \<Rightarrow> u8" where
  "event_id e = (case e of (False, False) \<Rightarrow> UART_IIR_NO_INT | (True, False) \<Rightarrow> UART_IIR_RDI
     | (False, True) \<Rightarrow> UART_IIR_THRI | (True, True) \<Rightarrow> UART_IIR_RLSI)"

definition uart_exact :: "ns16550_t \<Rightarrow> bool \<Rightarrow> bool" where
  "uart_exact u line \<longleftrightarrow> uart_ok u \<and> line = (fst (uart_events u) \<or> snd (uart_events u)) \<and> u_iir u = event_id (uart_events u)"

definition new_line :: "bool option \<Rightarrow> bool \<Rightarrow> bool" where
  "new_line li line = (case li of None \<Rightarrow> line | Some l \<Rightarrow> l)"

lemma update_exact:
  assumes "uart_ok u" "update_interrupt u = (u', l)"
  shows "uart_exact u' l"
proof -
  have c: "uart_ok (uart_clear u)" using assms(1) by (auto simp: uart_clear_def uart_ok_def Let_def lsr_simps)
  then show ?thesis using assms(2)
    by (auto simp: update_interrupt_def Let_def uart_exact_def uart_ok_def uart_events_def event_id_def lsr_simps split: if_splits)
qed

lemma uart_update_exact:
  assumes "uart_ok u" "uart_update b u = (u', li)" "\<not> b \<Longrightarrow> uart_exact u line"
  shows "uart_exact u' (new_line li line)"
  using assms update_exact [of u] by (cases b) (auto simp: uart_update_def new_line_def split: prod.splits)

lemma uart_read_ok:
  assumes "uart_exact u line" "uart_read r u = (v, u', b)"
  shows "uart_ok u' \<and> (\<not> b \<longrightarrow> u' = u)"
  using assms by (auto simp: uart_read_def uart_exact_def uart_ok_def rx_byte_def lsr_simps split: if_splits list.splits)

lemma uart_ok_frame [simp]:
  "uart_ok (u\<lparr>u_dll := a\<rparr>) = uart_ok u" "uart_ok (u\<lparr>u_dlm := a\<rparr>) = uart_ok u" "uart_ok (u\<lparr>u_ier := a\<rparr>) = uart_ok u"
  "uart_ok (u\<lparr>u_fcr := a\<rparr>) = uart_ok u" "uart_ok (u\<lparr>u_lcr := a\<rparr>) = uart_ok u" "uart_ok (u\<lparr>u_mcr := a\<rparr>) = uart_ok u"
  "uart_ok (u\<lparr>u_scr := a\<rparr>) = uart_ok u" "uart_ok (u\<lparr>thri_ip := b\<rparr>) = uart_ok u" "uart_ok (u\<lparr>tx_chars := cs\<rparr>) = uart_ok u"
  "uart_ok (u\<lparr>backoff_counter := k\<rparr>) = uart_ok u"
  by (simp_all add: uart_ok_def)

lemma uart_push_ok:
  "uart_ok u \<Longrightarrow> length (rx_queue u) < 64 \<Longrightarrow> uart_ok (u\<lparr>rx_queue := rx_queue u @ [ch], u_lsr := u_lsr u OR UART_LSR_DR\<rparr>)"
  "uart_ok u \<Longrightarrow> uart_ok (tx_byte ch u)"
  by (auto simp: uart_ok_def tx_byte_def lsr_simps)

lemma uart_write_ok:
  assumes "uart_exact u line" "uart_write r v u = (u', b)"
  shows "uart_ok u' \<and> (\<not> b \<longrightarrow> uart_exact u' line)"
proof -
  have u: "uart_ok u" using assms(1) by (simp add: uart_exact_def)
  have "uart_exact (u\<lparr>u_scr := v\<rparr>) line" using assms(1) by (simp add: uart_exact_def uart_events_def)
  then show ?thesis using assms u
    by (simp add: uart_write_def Let_def uart_push_ok split: if_splits) (auto simp: uart_push_ok)
qed


lemma new_uart_exact: "uart_exact (ns16550_new dlm shift width) False"
  by (simp add: uart_exact_def uart_ok_def uart_events_def ns16550_new_def event_id_def bit_or_iff)


end
