(* ===== verification/Devices_Mem.thy ===== *)
theory Devices_Mem
  imports Devices
begin

text \<open>
  The sparse memory refines a flat array of bytes, and the bus finds the device with the greatest
  base address not above the one accessed.
\<close>

subsection \<open>The memory device is a flat array\<close>

definition mem_view :: "mem_t \<Rightarrow> reg_t \<Rightarrow> u8" where
  "mem_view m a = (case sparse_memory_map m (shr a PGSHIFT) of None \<Rightarrow> 0 | Some pg \<Rightarrow> pg (a mod PGSIZE))"

lemma page_step:
  assumes "unat (a :: reg_t) mod 4096 + k < 4096"
  shows "shr (a + of_nat k) PGSHIFT = shr a PGSHIFT" "(a + of_nat k) mod PGSIZE = a mod PGSIZE + of_nat k"
    "unat (a + of_nat k) mod 4096 = unat a mod 4096 + k"
proof -
  define q where "q = unat a div 4096"
  have a: "unat a = 4096 * q + unat a mod 4096" by (simp add: q_def)
  have "unat a < 2 ^ 64" using unsigned_less [of a] by simp
  then have "q < 2 ^ 52" unfolding q_def by (simp add: div_less_iff_less_mult)
  then have lt: "unat a + k < 2 ^ 64" using a assms by simp
  have tk: "take_bit 64 k = k" using assms by (intro take_bit_nat_eq_self) simp
  have u: "unat (a + of_nat k) = unat a + k"
    using lt by (simp add: unat_word_ariths unsigned_of_nat tk)
  define r where "r = unat a mod 4096 + k"
  have r: "r < 4096" "unat a + k = r + 4096 * q" using assms a by (simp_all only: r_def)
  then have d: "(unat a + k) div 4096 = unat a div 4096" "(unat a + k) mod 4096 = unat a mod 4096 + k"
    unfolding r(2) q_def [symmetric] r_def [symmetric] by simp_all
  show "unat (a + of_nat k) mod 4096 = unat a mod 4096 + k" using u d by simp
  have s: "unat (shr x PGSHIFT) = unat x div 4096" for x :: reg_t
    by (simp add: drop_bit_eq_div unat_div)
  show "shr (a + of_nat k) PGSHIFT = shr a PGSHIFT"
    by (rule word_unat_eq_iff [THEN iffD2]) (simp only: s u d)
  have "unat (a mod PGSIZE + of_nat k) = unat a mod 4096 + k"
    using assms by (simp add: unat_word_ariths unat_mod unsigned_of_nat tk)
  then show "(a + of_nat k) mod PGSIZE = a mod PGSIZE + of_nat k"
    by (intro word_unat_eq_iff [THEN iffD2]) (simp add: unat_mod u d)
qed


lemma mem_contents_view:
  assumes "mem_contents a m = (m', pg)"
  shows "mem_view m' = mem_view m" "shr b PGSHIFT = shr a PGSHIFT \<Longrightarrow> pg (b mod PGSIZE) = mem_view m b"
    "sparse_memory_map m' (shr a PGSHIFT) = Some pg" "mem_sz m' = mem_sz m"
  using assms by (auto simp: mem_contents_def mem_view_def fun_eq_iff split: option.splits if_splits)

lemma chunk_bounds: "mem_chunk a len \<le> len" "unat a mod 4096 + mem_chunk a len \<le> 4096" "len \<noteq> 0 \<Longrightarrow> mem_chunk a len \<noteq> 0"
  by (auto simp: mem_chunk_def)

lemma read_bytes_append: "read_bytes a n f @ read_bytes (a + of_nat n) k f = read_bytes a (n + k) f"
  by (rule nth_equalityI) (auto simp: read_bytes_def nth_append add.assoc of_nat_diff)

lemma read_chunk:
  assumes "mem_contents a m = (m', pg)" "unat a mod 4096 + n \<le> 4096"
  shows "read_bytes (a mod PGSIZE) n pg = read_bytes a n (mem_view m)"
proof -
  have "pg (a mod PGSIZE + of_nat k) = mem_view m (a + of_nat k)" if "k < n" for k
    using mem_contents_view(2) [OF assms(1) page_step(1) [of a k]] page_step(2) [of a k] assms(2) that by simp
  then show ?thesis by (simp add: read_bytes_def)
qed

lemma mem_load_loop_view:
  "mem_load_loop a len m = (bs, m') \<Longrightarrow> bs = read_bytes a len (mem_view m) \<and> mem_view m' = mem_view m \<and> mem_sz m' = mem_sz m"
proof (induction a len m arbitrary: bs m' rule: mem_load_loop.induct)
  case (1 a len m)
  show ?case
  proof (cases "len = 0")
    case True
    then show ?thesis using 1(2) by (simp add: read_bytes_def)
  next
    case False
    let ?n = "mem_chunk a len"
    obtain m1 pg where c: "mem_contents a m = (m1, pg)" by fastforce
    obtain bs2 m2 where l: "mem_load_loop (a + of_nat ?n) (len - ?n) m1 = (bs2, m2)" by fastforce
    have "bs = read_bytes (a mod PGSIZE) ?n pg @ bs2" "m' = m2"
      using 1(2) False by (simp_all add: c l Let_def del: mem_load_loop.simps) (simp_all add: mem_load_loop.simps [of a len] c l Let_def del: mem_load_loop.simps)
    then show ?thesis
      using 1(1) [OF False refl refl c [symmetric] l] mem_contents_view(1,4) [OF c] read_chunk [OF c chunk_bounds(2)]
        read_bytes_append [of a ?n "mem_view m" "len - ?n"] chunk_bounds(1) [of a len] by simp
  qed
qed

lemma same_page_diff: "shr x PGSHIFT = shr a PGSHIFT \<Longrightarrow> x mod PGSIZE - a mod PGSIZE = x - (a :: reg_t)"
proof -
  assume s: "shr x PGSHIFT = shr a PGSHIFT"
  have d: "y = (y div PGSIZE) * PGSIZE + y mod PGSIZE" for y :: reg_t by (rule div_mult_mod_eq [symmetric])
  have "x div PGSIZE = a div PGSIZE" using s by (simp add: drop_bit_eq_div)
  then show ?thesis using d [of x] d [of a] by (metis add_diff_cancel_left)
qed

lemma unat_nat: "k < 2 ^ 64 \<Longrightarrow> unat (of_nat k :: reg_t) = k"
proof -
  assume "k < 2 ^ 64"
  then have "take_bit 64 k = k" by (rule take_bit_nat_eq_self)
  then show ?thesis by (simp add: unsigned_of_nat)
qed

lemma write_bytes_append:
  assumes "n \<le> length bs" "length bs \<le> 2 ^ 64"
  shows "write_bytes (a + of_nat n) (drop n bs) (write_bytes a (take n bs) f) = write_bytes a bs f"
proof
  fix x
  let ?k = "unat (x - a)"
  have k: "x = a + of_nat ?k" by simp
  have lt: "?k < 2 ^ 64" using unsigned_less [of "x - a"] by simp
  show "write_bytes (a + of_nat n) (drop n bs) (write_bytes a (take n bs) f) x = write_bytes a bs f x"
  proof (cases "?k < n")
    case True
    have "unat (x - (a + of_nat n)) = ?k + 2 ^ 64 - n"
    proof -
      have nn: "n < 2 ^ 64 \<or> n = 2 ^ 64" using assms by auto
      have "x - (a + of_nat n) = of_nat (?k + 2 ^ 64 - n)"
        using True nn lt by (subst (1) k) (auto simp: of_nat_diff)
      moreover have "?k + 2 ^ 64 - n < 2 ^ 64" using True lt by simp
      then have "unat (of_nat (?k + 2 ^ 64 - n) :: reg_t) = ?k + 2 ^ 64 - n"
        by (rule unat_nat)
      ultimately show ?thesis by simp
    qed
    moreover have "\<not> ?k + 2 ^ 64 - n < length bs - n" using assms lt by linarith
    ultimately show ?thesis using True assms(1) by (simp add: write_bytes_def)
  next
    case False
    then have "x - (a + of_nat n) = of_nat (?k - n)" by (subst (1) k) (simp add: of_nat_diff)
    moreover have "unat (of_nat (?k - n) :: reg_t) = ?k - n"
      by (rule unat_nat [OF le_less_trans [OF diff_le_self lt]])
    ultimately have "unat (x - (a + of_nat n)) = ?k - n" by simp
    then show ?thesis using False assms(1) by (simp add: write_bytes_def less_diff_conv)
  qed
qed

lemma store_chunk:
  assumes "mem_contents a m = (m', pg)" "unat a mod 4096 + length bs \<le> 4096"
  shows "mem_view (m'\<lparr>sparse_memory_map := (sparse_memory_map m')(shr a PGSHIFT := Some (write_bytes (a mod PGSIZE) bs pg))\<rparr>) =
    write_bytes a bs (mem_view m)"
proof
  fix x
  let ?m = "m'\<lparr>sparse_memory_map := (sparse_memory_map m')(shr a PGSHIFT := Some (write_bytes (a mod PGSIZE) bs pg))\<rparr>"
  show "mem_view ?m x = write_bytes a bs (mem_view m) x"
  proof (cases "shr x PGSHIFT = shr a PGSHIFT")
    case True
    have "mem_view ?m x = write_bytes (a mod PGSIZE) bs pg (x mod PGSIZE)" using True by (simp add: mem_view_def)
    also have "\<dots> = write_bytes a bs (mem_view m) x"
      using same_page_diff [OF True] mem_contents_view(2) [OF assms(1) True] by (simp only: write_bytes_def)
    finally show ?thesis .
  next
    case False
    have "\<not> unat (x - a) < length bs"
    proof
      assume l: "unat (x - a) < length bs"
      then have "shr (a + of_nat (unat (x - a))) PGSHIFT = shr a PGSHIFT" using assms(2) by (intro page_step(1)) simp
      then show False using False by simp
    qed
    moreover have "mem_view ?m x = mem_view m' x" using False by (simp add: mem_view_def)
    ultimately show ?thesis using mem_contents_view(1) [OF assms(1)] by (simp add: write_bytes_def)
  qed
qed

lemma mem_store_loop_view:
  "length bs \<le> 2 ^ 64 \<Longrightarrow> mem_view (mem_store_loop a bs m) = write_bytes a bs (mem_view m) \<and> mem_sz (mem_store_loop a bs m) = mem_sz m"
proof (induction a bs m rule: mem_store_loop.induct)
  case (1 a bs m)
  show ?case
  proof (cases "bs = []")
    case True
    then show ?thesis by (simp add: write_bytes_def)
  next
    case False
    let ?n = "mem_chunk a (length bs)"
    obtain m1 pg where c: "mem_contents a m = (m1, pg)" by fastforce
    let ?m = "m1\<lparr>sparse_memory_map := (sparse_memory_map m1)(shr a PGSHIFT := Some (write_bytes (a mod PGSIZE) (take ?n bs) pg))\<rparr>"
    have e: "mem_store_loop a bs m = mem_store_loop (a + of_nat ?n) (drop ?n bs) ?m"
      using False by (subst mem_store_loop.simps) (simp add: c Let_def del: mem_store_loop.simps)
    have v: "mem_view ?m = write_bytes a (take ?n bs) (mem_view m)"
      by (rule store_chunk [OF c]) (use chunk_bounds(1,2) [of a "length bs"] in simp)
    show ?thesis
      using 1(1) [OF False refl c [symmetric] refl refl] 1(2) mem_contents_view(4) [OF c] chunk_bounds(1) [of a "length bs"]
      by (simp add: e v write_bytes_append del: mem_store_loop.simps)
  qed
qed

text \<open>C25: the sparse, demand-allocated pages of a memory behave as one flat array of bytes: a load in
  range returns the bytes of the array and leaves it as it was, a store in range changes exactly its
  bytes, across page boundaries, and an access out of range is refused.\<close>

theorem mem_refines_array:
  fixes a :: reg_t and n :: nat and bs :: "u8 list" and m :: mem_t
  assumes "length bs < 2 ^ 64"
  shows "fst (memdev_load a n m) = (if in_device a n (mem_sz m) then Some (read_bytes a n (mem_view m)) else None) \<and>
    mem_view (snd (memdev_load a n m)) = mem_view m \<and>
    fst (memdev_store a bs m) = in_device a (length bs) (mem_sz m) \<and>
    mem_view (snd (memdev_store a bs m)) = (if in_device a (length bs) (mem_sz m) then write_bytes a bs (mem_view m) else mem_view m)"
  using mem_load_loop_view [of a n m] mem_store_loop_view [of bs a m] assms
  by (cases "mem_load_loop a n m") (simp add: memdev_load_def memdev_store_def del: mem_load_loop.simps mem_store_loop.simps)

text \<open>Eight bytes across the boundary of two fresh pages.\<close>

theorem mem_refines_array_witness:
  "let m = \<lparr>sparse_memory_map = (\<lambda>_. None), mem_sz = 0x2000\<rparr>; m' = snd (memdev_store 0xffc [1, 2, 3, 4, 5, 6, 7, 8] m)
   in fst (memdev_load 0xffe 4 m') = Some [3, 4, 5, 6]"
proof -
  let ?m = "\<lparr>sparse_memory_map = (\<lambda>_. None), mem_sz = 0x2000\<rparr>"
  let ?bs = "[1, 2, 3, 4, 5, 6, 7, 8] :: u8 list"
  have st: "mem_view (snd (memdev_store 0xffc ?bs ?m)) = write_bytes 0xffc ?bs (mem_view ?m)"
    using mem_refines_array [of ?bs "0xffc" 4 ?m] by (simp add: in_device_def)
  have sz: "mem_sz (snd (memdev_store 0xffc ?bs ?m)) = 0x2000"
    using mem_store_loop_view [of ?bs "0xffc" ?m] by (simp add: memdev_store_def in_device_def del: mem_store_loop.simps)
  show ?thesis
    using mem_refines_array [of ?bs "0xffe" 4 "snd (memdev_store 0xffc ?bs ?m)"] st sz
    by (simp add: in_device_def Let_def read_bytes_def write_bytes_def upt_rec)
qed

subsection \<open>The bus\<close>

definition bus_sorted :: "'d bus_t \<Rightarrow> bool" where
  "bus_sorted ds = sorted_wrt (\<lambda>x y. fst x < fst y) ds"

lemma add_device_set: "set (add_device a d ds) \<subseteq> insert (a, d) (set ds)"
  by (induction a d ds rule: add_device.induct) auto

lemma add_device_sorted: "bus_sorted ds \<Longrightarrow> bus_sorted (add_device a d ds)"
proof (induction ds)
  case (Cons x ds)
  obtain b e where x: "x = (b, e)" by fastforce
  consider "a < b" | "a = b" | "b < a" by (meson linorder_less_linear)
  then show ?case
  proof cases
    case 1
    then show ?thesis using Cons.prems x by (auto simp: bus_sorted_def intro: less_trans)
  next
    case 3
    then have "\<forall>y\<in>set (add_device a d ds). b < fst y" using Cons.prems x add_device_set [of a d ds] by (auto simp: bus_sorted_def)
    then show ?thesis using 3 Cons x by (auto simp: bus_sorted_def)
  qed (use Cons.prems x in \<open>auto simp: bus_sorted_def\<close>)
qed (simp add: bus_sorted_def)

lemma find_device_from_some:
  "bus_sorted ds \<Longrightarrow> find_device_from prev a ds = Some y \<Longrightarrow>
     (y \<in> set ds \<and> fst y \<le> a \<and> (\<forall>x\<in>set ds. fst x \<le> a \<longrightarrow> fst x \<le> fst y)) \<or> (prev = Some y \<and> (\<forall>x\<in>set ds. a < fst x))"
proof (induction prev a ds rule: find_device_from.induct)
  case (2 prev a b d ds)
  have less: "\<forall>x\<in>set ds. b < fst x" using 2(2) unfolding bus_sorted_def sorted_wrt.simps fst_conv by blast
  show ?case
  proof (cases "a < b")
    case True
    then have "\<forall>x\<in>set ds. a < fst x" using less by (meson less_trans)
    then show ?thesis using True 2(3) by simp
  next
    case False
    have "bus_sorted ds" using 2(2) by (simp add: bus_sorted_def)
    from 2(1) [OF False this] 2(3) False
    consider "y \<in> set ds" "fst y \<le> a" "\<forall>x\<in>set ds. fst x \<le> a \<longrightarrow> fst x \<le> fst y" | "y = (b, d)" "\<forall>x\<in>set ds. a < fst x" by auto
    then show ?thesis
    proof cases
      case 1
      then show ?thesis using less by (auto intro: less_imp_le)
    next
      case 2
      then show ?thesis using False by (auto simp: not_less dest: leD)
    qed
  qed
qed simp

lemma find_device_from_none:
  "bus_sorted ds \<Longrightarrow> find_device_from prev a ds = None \<longleftrightarrow> prev = None \<and> (\<forall>x\<in>set ds. a < fst x)"
proof (induction prev a ds rule: find_device_from.induct)
  case (2 prev a b d ds)
  show ?case
  proof (cases "a < b")
    case True
    then have "\<forall>x\<in>set ds. a < fst x" using 2(2) unfolding bus_sorted_def sorted_wrt.simps fst_conv by (meson less_trans)
    then show ?thesis using True by simp
  next
    case False
    then show ?thesis using 2(1) [OF False] 2(2) by (simp add: bus_sorted_def)
  qed
qed simp

lemma find_device_iff:
  assumes "bus_sorted ds"
  shows "find_device a ds = Some (b, d) \<longleftrightarrow> (b, d) \<in> set ds \<and> b \<le> a \<and> (\<forall>x\<in>set ds. fst x \<le> a \<longrightarrow> fst x \<le> b)"
proof
  show "find_device a ds = Some (b, d) \<Longrightarrow> (b, d) \<in> set ds \<and> b \<le> a \<and> (\<forall>x\<in>set ds. fst x \<le> a \<longrightarrow> fst x \<le> b)"
    using find_device_from_some [OF assms, of None a "(b, d)"] by (auto simp: find_device_def)
  assume r: "(b, d) \<in> set ds \<and> b \<le> a \<and> (\<forall>x\<in>set ds. fst x \<le> a \<longrightarrow> fst x \<le> b)"
  then obtain y where y: "find_device a ds = Some y"
    using find_device_from_none [OF assms, of None a] by (cases "find_device a ds") (auto simp: find_device_def not_less [symmetric])
  then have "y \<in> set ds" "fst y \<le> a" "\<forall>x\<in>set ds. fst x \<le> a \<longrightarrow> fst x \<le> fst y"
    using find_device_from_some [OF assms, of None a y] by (auto simp: find_device_def)
  then have "fst y = b" using r by (metis antisym fst_conv)
  moreover have "x = z" if "x \<in> set ds" "z \<in> set ds" "fst x = fst z" for x z
    using assms that unfolding bus_sorted_def by (induction ds) auto
  ultimately have "y = (b, d)" using r \<open>y \<in> set ds\<close> by (metis fst_conv)
  then show "find_device a ds = Some (b, d)" using y by simp
qed

end
