(* ===== verification/Sim_Bus.thy ===== *)
theory Sim_Bus
  imports Clint Plic Uart Debug_Module Devices_Mem Mmu_Tlb
begin

text \<open>
  The memory map of the simulator (riscv/sim.cc): the devices a configuration puts on the bus, the loads
  and stores of the harts and of the disk that go through it, and the interface it offers to the memory
  management unit, whose laws the default configuration meets.
\<close>

subsection \<open>The devices of the machine\<close>

text \<open>What is on the bus: the boot ROM, a memory of a size, the devices of the simulator, the debug module, and
  plugins, which are not part of the simulator and are functions of the configuration.\<close>

datatype device = Rom_dev | Mem_dev reg_t | Clint_dev | Plic_dev | Uart_dev | Disk_dev | Vga_dev | Debug_dev | Plugin_dev nat

record 'q plugins =
  plugin_load :: "nat \<Rightarrow> reg_t \<Rightarrow> nat \<Rightarrow> 'q \<Rightarrow> (nat \<Rightarrow> u8) option \<times> 'q"
  plugin_store :: "nat \<Rightarrow> reg_t \<Rightarrow> u8 list \<Rightarrow> 'q \<Rightarrow> bool \<times> 'q"

record ('i, 'q) sim_cfg =
  sc_bus :: "device bus_t"
  sc_io :: "'i disk_io"
  sc_plugins :: "'q plugins"
  sc_hartids :: "nat list"

text \<open>The state of the machine but for the hart that runs and the memory: the harts by identifier (the entry of
  the one that runs is stale), the wall clock, the devices, the disk image and the plugins.\<close>

record ('i, 'q) sim_bus =
  sb_cur :: nat
  sb_harts :: "(nat \<times> hart) list"
  sb_now :: reg_t
  sb_rom :: "u8 list"
  sb_clint :: clint_t
  sb_plic :: plic_t
  sb_uart :: ns16550_t
  sb_disk :: sync_disk_t
  sb_vga :: vga_t
  sb_dm :: dm_t
  sb_image :: 'i
  sb_plugins :: 'q

type_synonym ('i, 'q) sim_platform = "('i, 'q) sim_bus platform"

text \<open>The events of an access: those of the running hart are the result, the others are applied.\<close>

definition hart_events :: "nat \<Rightarrow> hart_irqs \<Rightarrow> irqs" where
  "hart_events i ev = map snd (filter (\<lambda>e. fst e = i) ev)"

definition dispatch :: "hart_irqs \<Rightarrow> ('i, 'q) sim_bus \<Rightarrow> irqs \<times> ('i, 'q) sim_bus" where
  "dispatch ev b = (hart_events (sb_cur b) ev,
     b\<lparr>sb_harts := map (\<lambda>(i, h). (i, if i = sb_cur b then h else raise_irqs (hart_events i ev) h)) (sb_harts b)\<rparr>)"

definition current_mips :: "reg_t \<Rightarrow> ('i, 'q) sim_bus \<Rightarrow> hart_mips" where
  "current_mips mip b = map (\<lambda>(i, h). (i, if i = sb_cur b then mip else mip_read h)) (sb_harts b)"

abbreviation (input) NS16550_INTERRUPT_ID :: nat where "NS16550_INTERRUPT_ID \<equiv> 10"

text \<open>The interrupt line of the serial port goes to the interrupt controller.\<close>

definition uart_line :: "bool option \<Rightarrow> plic_t \<Rightarrow> hart_irqs \<times> plic_t" where
  "uart_line li p = (case li of None \<Rightarrow> ([], p) | Some l \<Rightarrow> set_interrupt_level NS16550_INTERRUPT_ID l p)"

definition dm_irqs :: "dm_events \<Rightarrow> hart_irqs" where
  "dm_irqs ev = concat (map (\<lambda>(i, e). case e of Dm_halt r \<Rightarrow> [(i, Halt_write r)] | Dm_reset \<Rightarrow> []) ev)"

subsection \<open>Loads and stores on the bus\<close>

type_synonym ('i, 'q) bus_read = "u8 list option option \<times> irqs \<times> ('i, 'q) sim_platform"
type_synonym ('i, 'q) bus_write = "bool option \<times> irqs \<times> ('i, 'q) sim_platform"

definition finish_access :: "'a \<Rightarrow> hart_irqs \<Rightarrow> (reg_t \<Rightarrow> u8) \<Rightarrow> ('i, 'q) sim_bus \<Rightarrow> 'a \<times> irqs \<times> ('i, 'q) sim_platform" where
  "finish_access r ev m b = (case dispatch ev b of (is, b) \<Rightarrow> (r, is, m, b))"

text \<open>A memory is the part of the flat memory from its base: \<open>mem_refines_array\<close>.\<close>

fun device_load :: "('i, 'q) sim_cfg \<Rightarrow> device \<Rightarrow> reg_t \<Rightarrow> reg_t \<Rightarrow> nat \<Rightarrow> reg_t \<Rightarrow> ('i, 'q) sim_platform \<Rightarrow> ('i, 'q) bus_read" where
  "device_load c (Mem_dev sz) base off len mip (m, b) =
     (Some (if in_device off len sz then Some (read_bytes (base + off) len m) else None), [], m, b)"
| "device_load c Rom_dev base off len mip (m, b) = (Some (rom_load (sb_rom b) off len), [], m, b)"
| "device_load c Clint_dev base off len mip (m, b) =
     (case clint_load (current_mips mip b) (sb_now b) off len (sb_clint b) of (r, ev, cl) \<Rightarrow> finish_access r ev m (b\<lparr>sb_clint := cl\<rparr>))"
| "device_load c Plic_dev base off len mip (m, b) =
     (case plic_load off len (sb_plic b) of (r, ev, pl) \<Rightarrow> finish_access r ev m (b\<lparr>sb_plic := pl\<rparr>))"
| "device_load c Uart_dev base off len mip (m, b) =
     (case uart_load off len (sb_uart b) of (r, u, li) \<Rightarrow>
        (case uart_line li (sb_plic b) of (ev, pl) \<Rightarrow> finish_access (Some r) ev m (b\<lparr>sb_uart := u, sb_plic := pl\<rparr>)))"
| "device_load c Disk_dev base off len mip (m, b) = (disk_load off len (sb_disk b), [], m, b)"
| "device_load c Vga_dev base off len mip (m, b) = (Some (vga_load off len (sb_vga b)), [], m, b)"
| "device_load c Debug_dev base off len mip (m, b) = (Some (dm_load off len (sb_dm b)), [], m, b)"
| "device_load c (Plugin_dev k) base off len mip (m, b) =
     (case plugin_load (sc_plugins c) k off len (sb_plugins b) of (f, q) \<Rightarrow>
        (Some (map_option (\<lambda>f. map f [0..<len]) f), [], m, b\<lparr>sb_plugins := q\<rparr>))"

definition bus_load :: "('i, 'q) sim_cfg \<Rightarrow> reg_t \<Rightarrow> nat \<Rightarrow> reg_t \<Rightarrow> ('i, 'q) sim_platform \<Rightarrow> ('i, 'q) bus_read" where
  "bus_load c addr len mip p = (case find_device addr (sc_bus c) of
     None \<Rightarrow> (Some None, [], p)
   | Some (base, dev) \<Rightarrow> device_load c dev base (addr - base) len mip p)"

text \<open>A store, but for the command the disk runs. The disk copies whole sectors, which are wider than its own
  registers: copied to itself, they are refused or fail its assertion before any command could start.\<close>

fun plain_store :: "('i, 'q) sim_cfg \<Rightarrow> device \<Rightarrow> reg_t \<Rightarrow> reg_t \<Rightarrow> u8 list \<Rightarrow> reg_t \<Rightarrow> ('i, 'q) sim_platform \<Rightarrow> ('i, 'q) bus_write" where
  "plain_store c (Mem_dev sz) base off bs mip (m, b) =
     (if in_device off (length bs) sz then (Some True, [], write_bytes (base + off) bs m, b) else (Some False, [], m, b))"
| "plain_store c Rom_dev base off bs mip (m, b) = (Some (rom_store (sb_rom b) off bs), [], m, b)"
| "plain_store c Clint_dev base off bs mip (m, b) =
     (case clint_store (current_mips mip b) (sb_now b) off bs (sb_clint b) of (r, ev, cl) \<Rightarrow> finish_access r ev m (b\<lparr>sb_clint := cl\<rparr>))"
| "plain_store c Plic_dev base off bs mip (m, b) =
     (case plic_store off bs (sb_plic b) of (r, ev, pl) \<Rightarrow> finish_access r ev m (b\<lparr>sb_plic := pl\<rparr>))"
| "plain_store c Uart_dev base off bs mip (m, b) =
     (case uart_store off bs (sb_uart b) of (r, u, li) \<Rightarrow>
        (case uart_line li (sb_plic b) of (ev, pl) \<Rightarrow> finish_access (Some r) ev m (b\<lparr>sb_uart := u, sb_plic := pl\<rparr>)))"
| "plain_store c Disk_dev base off bs mip (m, b) =
     (case disk_store (sc_io c) (\<lambda>_ _ p. (None, p)) (\<lambda>_ _ p. (None, p)) off bs (sb_disk b) (sb_image b) () of
        None \<Rightarrow> (None, [], m, b)
      | Some (r, d, img, _) \<Rightarrow> (Some r, [], m, b\<lparr>sb_disk := d, sb_image := img\<rparr>))"
| "plain_store c Vga_dev base off bs mip (m, b) = (case vga_store off bs (sb_vga b) of (r, v) \<Rightarrow> (Some r, [], m, b\<lparr>sb_vga := v\<rparr>))"
| "plain_store c Debug_dev base off bs mip (m, b) =
     (case dm_store (sc_hartids c) off bs (sb_dm b) of (r, ev, d) \<Rightarrow> finish_access r (dm_irqs ev) m (b\<lparr>sb_dm := d\<rparr>))"
| "plain_store c (Plugin_dev k) base off bs mip (m, b) =
     (case plugin_store (sc_plugins c) k off bs (sb_plugins b) of (r, q) \<Rightarrow> (Some r, [], m, b\<lparr>sb_plugins := q\<rparr>))"

text \<open>The bus as the disk sees it: the events of its accesses are collected. No device into which a sector
  fits looks at the pending interrupts.\<close>

type_synonym ('i, 'q) dma_state = "irqs \<times> ('i, 'q) sim_platform"

definition dma_load :: "('i, 'q) sim_cfg \<Rightarrow> reg_t \<Rightarrow> reg_t \<Rightarrow> nat \<Rightarrow> ('i, 'q) dma_state \<Rightarrow> u8 list option option \<times> ('i, 'q) dma_state" where
  "dma_load c mip addr len = (\<lambda>(is, p). case bus_load c addr len mip p of (r, is', p) \<Rightarrow> (r, is @ is', p))"

definition dma_store :: "('i, 'q) sim_cfg \<Rightarrow> reg_t \<Rightarrow> reg_t \<Rightarrow> u8 list \<Rightarrow> ('i, 'q) dma_state \<Rightarrow> bool option \<times> ('i, 'q) dma_state" where
  "dma_store c mip addr bs = (\<lambda>(is, p). case find_device addr (sc_bus c) of
     None \<Rightarrow> (Some False, is, p)
   | Some (base, dev) \<Rightarrow> (case plain_store c dev base (addr - base) bs mip p of (r, is', p) \<Rightarrow> (r, is @ is', p)))"

definition device_store :: "('i, 'q) sim_cfg \<Rightarrow> device \<Rightarrow> reg_t \<Rightarrow> reg_t \<Rightarrow> u8 list \<Rightarrow> reg_t \<Rightarrow> ('i, 'q) sim_platform \<Rightarrow> ('i, 'q) bus_write" where
  "device_store c dev base off bs mip p =
     (if dev \<noteq> Disk_dev then plain_store c dev base off bs mip p
      else case disk_store (sc_io c) (dma_load c mip) (dma_store c mip) off bs (sb_disk (snd p)) (sb_image (snd p)) ([], p) of
        None \<Rightarrow> (None, [], p)
      | Some (r, d, img, is, m, b) \<Rightarrow> (Some r, is, m, b\<lparr>sb_disk := d, sb_image := img\<rparr>))"

definition bus_store :: "('i, 'q) sim_cfg \<Rightarrow> reg_t \<Rightarrow> u8 list \<Rightarrow> reg_t \<Rightarrow> ('i, 'q) sim_platform \<Rightarrow> ('i, 'q) bus_write" where
  "bus_store c addr bs mip p = (case find_device addr (sc_bus c) of
     None \<Rightarrow> (Some False, [], p)
   | Some (base, dev) \<Rightarrow> device_store c dev base (addr - base) bs mip p)"

subsection \<open>The interface to the harts\<close>

definition paddr_ok :: "reg_t \<Rightarrow> bool" where
  "paddr_ok addr \<longleftrightarrow> shr addr MAX_PADDR_BITS = 0"

definition paddr_range_ok :: "reg_t \<Rightarrow> nat \<Rightarrow> bool" where
  "paddr_range_ok paddr len \<longleftrightarrow> \<not> (paddr + of_nat len < paddr \<or> \<not> paddr_ok (paddr + of_nat len - 1))"

definition addr_to_mem :: "device bus_t \<Rightarrow> reg_t \<Rightarrow> bool" where
  "addr_to_mem bus paddr \<longleftrightarrow> paddr_ok paddr \<and>
     (case find_device paddr bus of Some (base, Mem_dev sz) \<Rightarrow> paddr - base < sz | _ \<Rightarrow> False)"

definition machine_mmio_load :: "('i, 'q) sim_cfg \<Rightarrow> reg_t \<Rightarrow> nat \<Rightarrow> reg_t \<Rightarrow> ('i, 'q) sim_platform \<Rightarrow> ('i, 'q) bus_read" where
  "machine_mmio_load c paddr len mip p = (if paddr_range_ok paddr len then bus_load c paddr len mip p else (Some None, [], p))"

definition machine_mmio_store :: "('i, 'q) sim_cfg \<Rightarrow> reg_t \<Rightarrow> u8 list \<Rightarrow> reg_t \<Rightarrow> ('i, 'q) sim_platform \<Rightarrow> ('i, 'q) bus_write" where
  "machine_mmio_store c paddr bs mip p =
     (if paddr_range_ok paddr (length bs) then bus_store c paddr bs mip p else (Some False, [], p))"

definition machine_if :: "('i, 'q) sim_cfg \<Rightarrow> ('i, 'q) sim_bus simif" where
  "machine_if c = \<lparr>sim_addr_to_mem = addr_to_mem (sc_bus c), sim_reservable = addr_to_mem (sc_bus c),
     sim_mmio_fetch = machine_mmio_load c, sim_mmio_load = machine_mmio_load c, sim_mmio_store = machine_mmio_store c\<rparr>"

subsection \<open>The devices of a configuration\<close>

abbreviation (input) CLINT_BASE :: reg_t where "CLINT_BASE \<equiv> 0x02000000"
abbreviation (input) PLIC_BASE :: reg_t where "PLIC_BASE \<equiv> 0x0c000000"
abbreviation (input) NS16550_BASE :: reg_t where "NS16550_BASE \<equiv> 0x10000000"
abbreviation (input) SYNC_DISK_BASE :: reg_t where "SYNC_DISK_BASE \<equiv> 0x10001000"
abbreviation (input) VGA_BASE :: reg_t where "VGA_BASE \<equiv> 0x21000000"
abbreviation (input) DRAM_BASE :: reg_t where "DRAM_BASE \<equiv> 0x80000000"
abbreviation (input) DRAM_SIZE :: reg_t where "DRAM_SIZE \<equiv> 0x10000000"

definition add_devices :: "(reg_t \<times> 'd) list \<Rightarrow> 'd bus_t \<Rightarrow> 'd bus_t" where
  "add_devices ds bus = fold (\<lambda>(a, d). add_device a d) ds bus"

text \<open>The bus in the order the constructor fills it, and the boot ROM last; the interrupt controllers and the
  serial port are at the addresses the device tree gives.\<close>

definition machine_bus :: "(reg_t \<times> reg_t) list \<Rightarrow> (reg_t \<times> nat) list \<Rightarrow> bool \<Rightarrow> reg_t \<Rightarrow> reg_t \<Rightarrow> reg_t \<Rightarrow> device bus_t" where
  "machine_bus mems plugs fsimg clint plic uart =
     add_devices (map (\<lambda>(a, sz). (a, Mem_dev sz)) mems @ map (\<lambda>(a, k). (a, Plugin_dev k)) plugs
       @ (if fsimg then [(SYNC_DISK_BASE, Disk_dev)] else [])
       @ [(DEBUG_START, Debug_dev), (clint, Clint_dev), (plic, Plic_dev), (uart, Uart_dev), (VGA_BASE, Vga_dev),
          (DEFAULT_RSTVEC, Rom_dev)]) []"

definition default_bus :: "device bus_t" where
  "default_bus = machine_bus [(DRAM_BASE, DRAM_SIZE)] [] True CLINT_BASE PLIC_BASE NS16550_BASE"

definition default_cfg :: "'i disk_io \<Rightarrow> 'q plugins \<Rightarrow> nat list \<Rightarrow> ('i, 'q) sim_cfg" where
  "default_cfg io q ids = \<lparr>sc_bus = default_bus, sc_io = io, sc_plugins = q, sc_hartids = ids\<rparr>"

subsection \<open>What the memory management unit relies on\<close>

text \<open>Bases and sizes are whole pages; the constructor of a memory refuses another size.\<close>

definition whole_pages :: "reg_t \<Rightarrow> bool" where
  "whole_pages a \<longleftrightarrow> a mod PGSIZE = 0"

definition paged_bus :: "device bus_t \<Rightarrow> bool" where
  "paged_bus ds \<longleftrightarrow> list_all (\<lambda>(a, d). whole_pages a \<and> (case d of Mem_dev sz \<Rightarrow> whole_pages sz | _ \<Rightarrow> True)) ds"

lemma unat_vpn: "unat (vpn_of x) = unat x div 4096"
  by (simp only: vpn_of_def unat_drop_bit_eq) (simp add: drop_bit_eq_div)

lemma whole_unat: "whole_pages a \<longleftrightarrow> (\<exists>k. unat a = 4096 * k)"
proof -
  have "whole_pages a \<longleftrightarrow> unat a mod 4096 = 0" by (simp add: whole_pages_def unat_eq_0 [symmetric] unat_mod)
  then show ?thesis by auto
qed

lemma below_page: "n < 4096 * k \<longleftrightarrow> n div 4096 < (k :: nat)"
  by (simp add: div_less_iff_less_mult mult.commute)

lemma same_side:
  assumes "whole_pages a" "vpn_of x = vpn_of y"
  shows "x < a \<longleftrightarrow> y < a"
proof -
  obtain k where k: "unat a = 4096 * k" using assms whole_unat by blast
  have "unat x div 4096 = unat y div 4096" using arg_cong [OF assms(2), of unat] by (simp add: unat_vpn)
  then show ?thesis unfolding word_less_nat_alt k below_page by simp
qed

lemma same_offset_side:
  assumes "whole_pages a" "whole_pages sz" "vpn_of x = vpn_of y" "a \<le> x" "a \<le> y"
  shows "x - a < sz \<longleftrightarrow> y - a < sz"
proof -
  obtain k where k: "unat a = 4096 * k" using assms whole_unat by blast
  obtain s where s: "unat sz = 4096 * s" using assms whole_unat by blast
  have v: "unat x div 4096 = unat y div 4096" using arg_cong [OF assms(3), of unat] by (simp add: unat_vpn)
  have le: "unat a \<le> unat x" "unat a \<le> unat y" using assms(4,5) by (simp_all add: word_le_nat_alt)
  then have "unat (x - a) = unat x - 4096 * k" "unat (y - a) = unat y - 4096 * k"
    using k by (simp_all add: unat_sub assms(4,5))
  then have "unat (x - a) < 4096 * s \<longleftrightarrow> unat x < 4096 * (s + k)" "unat (y - a) < 4096 * s \<longleftrightarrow> unat y < 4096 * (s + k)"
    using le k by auto
  then show ?thesis unfolding word_less_nat_alt s using v by (metis below_page)
qed

lemma find_same:
  "list_all (\<lambda>(a, d). whole_pages a) ds \<Longrightarrow> vpn_of x = vpn_of y \<Longrightarrow> find_device_from prev x ds = find_device_from prev y ds"
  by (induction prev x ds rule: find_device_from.induct) (auto dest: same_side)

lemma find_from_mem: "find_device_from prev x ds = Some r \<Longrightarrow> prev = Some r \<or> (r \<in> set ds \<and> fst r \<le> x)"
  by (induction prev x ds rule: find_device_from.induct) (auto split: if_splits)

lemma addr_to_mem_page:
  assumes b: "paged_bus ds" and v: "vpn_of x = vpn_of y"
  shows "addr_to_mem ds x = addr_to_mem ds y"
proof -
  have p: "paddr_ok x = paddr_ok y"
  proof -
    have "shr x 56 = shr (vpn_of x) 44" "shr y 56 = shr (vpn_of y) 44" by (simp_all add: vpn_of_def)
    then show ?thesis using v by (simp add: paddr_ok_def)
  qed
  have f: "find_device x ds = find_device y ds" unfolding find_device_def
    by (rule find_same [OF _ v]) (use b in \<open>auto simp: paged_bus_def list_all_iff\<close>)
  show ?thesis
  proof (cases "find_device y ds")
    case (Some r)
    obtain a d where r: "r = (a, d)" by fastforce
    have m: "(a, d) \<in> set ds" "a \<le> y" using find_from_mem [of None y ds r] Some r by (auto simp: find_device_def)
    have "a \<le> x" using find_from_mem [of None x ds r] f Some r by (auto simp: find_device_def)
    moreover have "whole_pages a" "\<And>sz. d = Mem_dev sz \<Longrightarrow> whole_pages sz" using b m(1) by (auto simp: paged_bus_def list_all_iff)
    ultimately show ?thesis using f Some r p m(2) same_offset_side [OF _ _ v] by (auto simp: addr_to_mem_def split: device.splits)
  qed (use f p in \<open>simp add: addr_to_mem_def\<close>)
qed

lemma read_reg_length: "read_little_endian_reg w a n = Some bs \<Longrightarrow> length bs = n"
  by (auto simp: read_little_endian_reg_def split: if_splits)

lemma clint_word_length: "clint_load_word hs now a n c = (Some (Some bs), ev, c') \<Longrightarrow> length bs = n"
  by (auto simp: clint_load_word_def Let_def dest: read_reg_length split: if_splits prod.splits)

lemma clint_load_length: "clint_load hs now a n c = (Some (Some bs), ev, c') \<Longrightarrow> length bs = n"
  by (auto simp: clint_load_def Let_def clint_word_length split: if_splits prod.splits option.splits dest!: clint_word_length)

lemma plic_word_length: "plic_load_word a p = (Some (Some bs), ev, p') \<Longrightarrow> length bs = 4"
  by (auto simp: plic_load_word_def Let_def dest: read_reg_length split: if_splits prod.splits)

lemma plic_load_length: "plic_load a n p = (Some (Some bs), ev, p') \<Longrightarrow> length bs = n"
  by (auto simp: plic_load_def split: if_splits prod.splits option.splits dest!: plic_word_length)

lemma uart_load_length: "uart_load a n u = (Some bs, r) \<Longrightarrow> length bs = n"
  by (auto simp: uart_load_def split: if_splits prod.splits)

lemma dm_load_length: "dm_load a n d = Some bs \<Longrightarrow> length bs = n"
  by (auto simp: dm_load_def Let_def part_of_def split: if_splits)

lemma disk_load_length: "disk_load a n d = Some (Some bs) \<Longrightarrow> length bs = n"
  by (auto simp: disk_load_def dest: read_reg_length split: if_splits option.splits)

lemma device_load_length: "device_load c dev base off n mip (m, b) = (Some (Some bs), is, p') \<Longrightarrow> length bs = n"
  by (cases dev) (auto simp: finish_access_def rom_load_def vga_load_def read_bytes_def
      dest: clint_load_length plic_load_length uart_load_length dm_load_length disk_load_length split: if_splits prod.splits)

lemma machine_load_length: "machine_mmio_load c a n mip p = (Some (Some bs), is, p') \<Longrightarrow> length bs = n"
  by (cases p) (auto simp: machine_mmio_load_def bus_load_def dest: device_load_length split: if_splits option.splits prod.splits)

lemma machine_memory_map:
  assumes "paged_bus (sc_bus c)"
  shows "memory_map (machine_if c)"
proof (rule memory_map.intro)
  show "sim_addr_to_mem (machine_if c) x = sim_addr_to_mem (machine_if c) y" if "vpn_of x = vpn_of y" for x y
    using addr_to_mem_page [OF assms that] by (simp add: machine_if_def)
  show "length bs = n" if "sim_mmio_load (machine_if c) a n mip p = (Some (Some bs), is, p')" for a n mip p bs "is" p'
    by (rule machine_load_length [of c a n mip p bs "is" p']) (use that in \<open>simp add: machine_if_def\<close>)
qed

lemma default_bus_paged: "paged_bus default_bus"
  by (code_simp)

interpretation machine: memory_map "machine_if (default_cfg io q ids)" for io q ids
  by (rule machine_memory_map) (simp add: default_cfg_def default_bus_paged)

end
