(* ===== verification/Debug_Inv.thy ===== *)
theory Debug_Inv
  imports Debug_Module
begin

text \<open>
  The well-formedness of the debug module is an invariant of every operation.
\<close>

subsection \<open>Well-formed modules\<close>

text \<open>The arrays have the sizes they are declared with, the selected hart is one of the configuration, and
  every hart has its entry.\<close>

definition harts_ok :: "nat list \<Rightarrow> bool" where
  "harts_ok ids \<longleftrightarrow> ids \<noteq> [] \<and> sorted ids \<and> last ids < 1024"

definition dm_wf :: "nat list \<Rightarrow> dm_t \<Rightarrow> bool" where
  "dm_wf ids d \<longleftrightarrow> length (dm_abstract d) = debug_abstract_size * 4 \<and> length (dm_data d) = debug_datasize * 4 \<and>
     length (dm_progbuf d) = program_buffer_bytes (dm_config d) \<and> length (dm_whereto d) = 4 \<and> length (dm_flags d) = 1024 \<and>
     length (dm_sbaddress d) = 4 \<and> length (dm_sbdata d) = 4 \<and> dm_datacount d = debug_datasize \<and>
     dc_hartsel (dm_control d) < length ids \<and> (\<forall>i\<in>set ids. i < length (dm_harts d) \<and> i < length (dm_hart_mask d) \<and> i < 1024)"

lemma list_lengths [simp]:
  "length (write32 m i v) = length m" "length (emit i ws m) = length m" "length (put_part m off bs) = length m"
proof -
  show w: "length (write32 m i v) = length m" for m i v by (simp add: write32_def Let_def)
  have "length (fold (\<lambda>(j, w) mem. write32 mem j w) xs m) = length m" for xs
    by (induction xs arbitrary: m) (auto simp: w)
  then show "length (emit i ws m) = length m" by (simp add: emit_def)
  have "length (fold (\<lambda>i mem. mem[unat off + i := bs ! i]) is m) = length m" for "is"
    by (induction "is" arbitrary: m) auto
  then show "length (put_part m off bs) = length m" by (simp add: put_part_def)
qed

lemma wf_updates [simp]:
  "dm_wf ids (upd_hart i f d) = dm_wf ids d" "dm_wf ids (upd_flags i g d) = dm_wf ids d" "dm_wf ids (proc_reset i d) = dm_wf ids d"
  "dm_wf ids (d\<lparr>dm_cmderr := c\<rparr>) = dm_wf ids d" "dm_wf ids (d\<lparr>dm_completed := b\<rparr>) = dm_wf ids d"
  "dm_wf ids (d\<lparr>dm_busy := b\<rparr>) = dm_wf ids d" "dm_wf ids (d\<lparr>dm_command := v\<rparr>) = dm_wf ids d"
  "dm_wf ids (d\<lparr>dm_hawindowsel := w\<rparr>) = dm_wf ids d" "dm_wf ids (d\<lparr>dm_autoexecprogbuf := v\<rparr>) = dm_wf ids d"
  "dm_wf ids (d\<lparr>dm_autoexecdata := v\<rparr>) = dm_wf ids d" "dm_wf ids (d\<lparr>dm_sbcs := s\<rparr>) = dm_wf ids d"
  "dm_wf ids (d\<lparr>dm_challenge := v\<rparr>) = dm_wf ids d" "dm_wf ids (d\<lparr>dm_authenticated := b\<rparr>) = dm_wf ids d"
  "dm_wf ids (d\<lparr>dm_custom_base := v\<rparr>) = dm_wf ids d" "dm_wf ids (d\<lparr>dm_rti_remaining := n\<rparr>) = dm_wf ids d"
  by (simp_all add: dm_wf_def upd_hart_def upd_flags_def proc_reset_def)

lemma wf_arrays [simp]:
  "dm_wf ids d \<Longrightarrow> dm_wf ids (d\<lparr>dm_data := write32 (dm_data d) i v\<rparr>)" "dm_wf ids d \<Longrightarrow> dm_wf ids (d\<lparr>dm_data := put_part (dm_data d) off bs\<rparr>)"
  "dm_wf ids d \<Longrightarrow> dm_wf ids (d\<lparr>dm_data := write32 (write32 (dm_data d) i v) j w\<rparr>)"
  "dm_wf ids d \<Longrightarrow> dm_wf ids (d\<lparr>dm_progbuf := write32 (dm_progbuf d) i v\<rparr>)" "dm_wf ids d \<Longrightarrow> dm_wf ids (d\<lparr>dm_progbuf := put_part (dm_progbuf d) off bs\<rparr>)"
  "dm_wf ids d \<Longrightarrow> dm_wf ids (d\<lparr>dm_abstract := emit i ws (dm_abstract d)\<rparr>)"
  "dm_wf ids d \<Longrightarrow> dm_wf ids (set_sbaddress i v d)" "dm_wf ids d \<Longrightarrow> dm_wf ids (set_sbdata i v d)" "dm_wf ids (set_sb_error v d) = dm_wf ids d"
  "dm_wf ids d \<Longrightarrow> dm_wf ids (sb_autoincrement d)"
  by (simp_all add: dm_wf_def set_sbaddress_def set_sbdata_def set_sb_error_def sb_autoincrement_def Let_def)

lemma dm_store_wf: "dm_wf ids d \<Longrightarrow> dm_wf ids (snd (snd (dm_store ids addr bs d)))"
  by (simp add: dm_store_def Let_def)

lemma perform_wf: "dm_wf ids d \<Longrightarrow> dm_wf ids (perform_abstract_command ids d)"
proof -
  assume d: "dm_wf ids d"
  have 1: "dm_wf ids (start_command ids code d)" for code
  proof -
    let ?d = "upd_flags (selected_hart_id ids d) (\<lambda>f. f OR shl 1 DEBUG_ROM_FLAG_GO) d"
    have "dm_wf ids (?d\<lparr>dm_abstract := emit 0 ws (dm_abstract ?d)\<rparr>)" for ws
      using d by (intro wf_arrays) simp
    moreover have "dm_abstract ?d = dm_abstract d" by (simp add: upd_flags_def)
    ultimately show ?thesis by (simp add: start_command_def Let_def)
  qed
  have 2: "dm_wf ids (access_custom wr regno d)" for wr regno
    using wf_arrays(3) [of ids "d\<lparr>dm_cmderr := 0\<rparr>"] d by (simp add: access_custom_def Let_def)
  show ?thesis
    using 1 2 d by (simp add: perform_abstract_command_def Let_def split: prod.splits)
qed

lemma auto_wf: "dm_wf ids d \<Longrightarrow> dm_wf ids (auto_command ids a i d)" "dm_wf ids (data_busy d) = dm_wf ids d"
  by (simp_all add: auto_command_def data_busy_def perform_wf)

lemma sb_read_wf: "sb_read B d p = (ok, d', p') \<Longrightarrow> dm_wf ids d \<Longrightarrow> dm_wf ids d'"
  by (auto simp: sb_read_def dm_wf_def set_sb_error_def split: option.splits prod.splits sys_result.splits)

lemma sb_write_wf: "sb_write B d p = (ok, d', p') \<Longrightarrow> dm_wf ids d \<Longrightarrow> dm_wf ids d'"
  by (auto simp: sb_write_def Let_def split: option.splits prod.splits sys_result.splits)

lemma dmi_read_wf: "dm_wf ids d \<Longrightarrow> dm_wf ids (fst (snd (dmi_read B ids addr d p)))"
  by (auto simp: dmi_read_def Let_def auto_wf sbdata0_read_def dest: sb_read_wf split: prod.splits if_splits)

lemma control_hart_wf: "dm_wf ids (snd x) \<Longrightarrow> dm_wf ids (snd (fold (control_hart v) is x))"
  by (induction "is" arbitrary: x) (auto simp: control_hart_def Let_def split: prod.splits)

lemma dm_reset_wf: "dm_wf ids d \<Longrightarrow> dm_wf ids (snd (dm_reset ids r d))"
  by (auto simp: dm_reset_def dm_wf_def Let_def)

lemma proc_resets_wf [simp]: "dm_wf ids (fold proc_reset is d) = dm_wf ids d"
  by (induction "is" arbitrary: d) auto

lemma control_fields_wf: "dm_wf ids d \<Longrightarrow> dm_wf ids (control_fields ids v d)"
  by (auto simp: control_fields_def dm_wf_def Let_def min_def)

lemma dmcontrol_wf: "dm_wf ids d \<Longrightarrow> dm_wf ids (snd (dmcontrol_write ids r v d))"
proof -
  assume d: "dm_wf ids d"
  have a: "dm_wf ids (d\<lparr>dm_control := (dm_control d)\<lparr>dc_dmactive := b\<rparr>\<rparr>) = dm_wf ids d" for d b by (simp add: dm_wf_def)
  show ?thesis
    using d dm_reset_wf [OF d, of r] control_hart_wf control_fields_wf
    by (auto simp: dmcontrol_write_def Let_def a split: prod.splits) (metis a control_fields_wf control_hart_wf snd_conv)+
qed

lemma hawindow_wf: "dm_wf ids d \<Longrightarrow> dm_wf ids (hawindow_write ids v d)"
proof -
  have "dm_wf ids d \<Longrightarrow> dm_wf ids (fold (\<lambda>i d. if b + i < length ids
          then d\<lparr>dm_hart_mask := (dm_hart_mask d)[ids ! (b + i) := (shr v i AND 1 \<noteq> 0)]\<rparr> else d) is d)" for b "is"
    by (induction "is" arbitrary: d) (auto simp: dm_wf_def)
  then show "dm_wf ids d \<Longrightarrow> dm_wf ids (hawindow_write ids v d)" by (simp add: hawindow_write_def Let_def)
qed

lemma register_write_wf: "dm_register_write ids r addr v d = Some d' \<Longrightarrow> dm_wf ids d \<Longrightarrow> dm_wf ids d'"
  by (auto simp: dm_register_write_def perform_wf hawindow_wf sbcs_write_def authdata_write_def dmcs2_write_def Let_def split: if_splits)

lemma sb_regs_wf:
  assumes "dm_wf ids d"
  shows "sbaddress0_write B v d p = (ok, d', p') \<Longrightarrow> dm_wf ids d'" "sbdata0_write B v d p = (ok', d', p') \<Longrightarrow> dm_wf ids d'"
proof -
  have 1: "dm_wf ids (set_sbaddress 0 v d)" "dm_wf ids (set_sbdata 0 v d)" using assms by simp_all
  show "sbaddress0_write B v d p = (ok, d', p') \<Longrightarrow> dm_wf ids d'" "sbdata0_write B v d p = (ok', d', p') \<Longrightarrow> dm_wf ids d'"
    by (auto simp: sbaddress0_write_def sbdata0_write_def Let_def assms dest: sb_read_wf [OF _ 1(1)] sb_write_wf [OF _ 1(2)] split: prod.splits if_splits)
qed

lemma dmi_write_wf: "dm_wf ids d \<Longrightarrow> dm_wf ids (fst (snd (snd (dmi_write B ids r addr v d p))))"
proof -
  assume d: "dm_wf ids d"
  obtain ev c where c: "dmcontrol_write ids r v d = (ev, c)" by fastforce
  obtain oka da pa where a: "sbaddress0_write B v d p = (oka, da, pa)" using prod_cases3 by blast
  obtain okd dd pd where s: "sbdata0_write B v d p = (okd, dd, pd)" using prod_cases3 by blast
  have "dm_wf ids c" "dm_wf ids da" "dm_wf ids dd"
    using dmcontrol_wf [OF d, of r v] c sb_regs_wf [OF d] a s by auto
  moreover have "dm_register_write ids r a v d = Some d' \<Longrightarrow> dm_wf ids d'" for a d' using register_write_wf d by blast
  ultimately show ?thesis using d
    by (simp add: dmi_write_def c a s Let_def auto_wf split: option.split)
qed

lemma field_width_bound: "(n + 1) * 2 ^ i \<le> 2 ^ field_width_loop i n"
proof (induction i n rule: field_width_loop.induct)
  case (1 i n)
  show ?case
  proof (cases "n = 0")
    case False
    have "n + 1 \<le> 2 * (n div 2 + 1)" by presburger
    then have "(n + 1) * 2 ^ i \<le> (2 * (n div 2 + 1)) * 2 ^ i" by (rule mult_le_mono1)
    also have "\<dots> = (n div 2 + 1) * 2 ^ (i + 1)" by (simp only: power_add power_one_right mult.commute mult.left_commute)
    also have "\<dots> \<le> 2 ^ field_width_loop (i + 1) (n div 2)" by (rule 1 [OF False])
    finally show ?thesis using False by (simp add: field_width_loop.simps [of i n])
  qed (simp add: field_width_loop.simps)
qed

lemma dm_new_wf:
  assumes "harts_ok ids" "length (dm_sbaddress d0) = 4" "length (dm_sbdata d0) = 4" "dm_new conf ids r d0 = Some (ev, d)"
  shows "dm_wf ids d"
proof -
  have le: "i \<le> last ids" if "i \<in> set ids" for i
    using assms(1) that by (metis harts_ok_def in_set_conv_nth last_conv_nth le_add_diff_inverse2 less_Suc_eq_le
        diff_less length_greater_0_conv sorted_nth_mono zero_less_one Suc_pred' Suc_eq_plus1)
  have w: "last ids + 1 \<le> 2 ^ field_width (last ids + 1)"
    using field_width_bound [of "last ids" 0] by (simp add: field_width_def)
  have "i < 2 ^ field_width (last ids + 1)" if "i \<in> set ids" for i using le [OF that] w by linarith
  then show ?thesis
    using assms le by (auto simp: dm_new_def dm_reset_def dm_wf_def harts_ok_def fresh_progbuf_def Let_def less_Suc_eq_le intro: le_less_trans split: if_splits)
qed


end
