(* ===== verification/Debug_Exec.thy ===== *)
theory Debug_Exec
  imports Debug_Inv
begin

text \<open>
  The code the debug module generates for abstract commands, and what a running command protects.
\<close>

definition load_word_ok :: "u32 \<Rightarrow> nat \<Rightarrow> u32 \<Rightarrow> bool" where
  "load_word_ok mat r w \<longleftrightarrow> w AND 0x707f = mat \<and> rd (ucast w) = r \<and> rs1 (ucast w) = 0 \<and> i_imm (ucast w) = debug_data_start"

definition store_word_ok :: "u32 \<Rightarrow> nat \<Rightarrow> u32 \<Rightarrow> bool" where
  "store_word_ok mat r w \<longleftrightarrow> w AND 0x707f = mat \<and> rs2 (ucast w) = r \<and> rs1 (ucast w) = 0 \<and> s_imm (ucast w) = debug_data_start"

lemmas op_defs = load_word_ok_def store_word_ok_def op_lw_def op_ld_def op_sw_def op_sd_def op_load_def op_store_def op_bits_def
  rd_def rs1_def rs2_def i_imm_def s_imm_def x_bits_def xs_bits_def

lemma transfer_words:
  "list_all (\<lambda>r. load_word_ok 0x2003 r (op_lw (of_nat r) 0 0x380)) [0..<32]"
  "list_all (\<lambda>r. load_word_ok 0x3003 r (op_ld (of_nat r) 0 0x380)) [0..<32]"
  "list_all (\<lambda>r. store_word_ok 0x2023 r (op_sw (of_nat r) 0 0x380)) [0..<32]"
  "list_all (\<lambda>r. store_word_ok 0x3023 r (op_sd (of_nat r) 0 0x380)) [0..<32]"
  by (simp_all add: upt_rec op_defs)

lemma gpr_regno:
  assumes "r < 32" defines "k \<equiv> 0x1000 + of_nat r :: u32"
  shows "\<not> is_fpu_reg k" "k \<ge> 0x1000" "k < 0x1020" "k - 0x1000 = of_nat r" "\<not> k < 0x1000" "k = 0x1008 \<longleftrightarrow> r = 8"
proof -
  have u: "unat k = 0x1000 + r" using assms by (simp add: unat_word_ariths unsigned_of_nat take_bit_nat_eq_self)
  show "k \<ge> 0x1000" "k < 0x1020" "\<not> k < 0x1000" using u assms(1) by (simp_all add: word_le_nat_alt word_less_nat_alt)
  show "k = 0x1008 \<longleftrightarrow> r = 8" by (simp add: word_unat_eq_iff u)
  show "k - 0x1000 = of_nat r" by (simp add: k_def)
  have "\<not> k \<ge> 0x1020" "k \<noteq> 1" "k \<noteq> 2" "k \<noteq> 3" using u assms(1) by (simp_all add: word_le_nat_alt word_unat_eq_iff)
  then show "\<not> is_fpu_reg k" by (simp add: is_fpu_reg_def)
qed

lemma code_length: "length (fst (transfer_code conf wr sz regno)) \<le> 11"
  by (auto simp: transfer_code_def transfer_csr_def transfer_gpr_def transfer_fpr_def fpu_prologue_def fpu_epilogue_def Let_def)

definition transfer_insn_ok :: "bool \<Rightarrow> u32 \<Rightarrow> nat \<Rightarrow> u32 \<Rightarrow> bool" where
  "transfer_insn_ok wr sz r w \<longleftrightarrow>
     (if wr then load_word_ok (if sz = 2 then 0x2003 else 0x3003) r w else store_word_ok (if sz = 2 then 0x2023 else 0x3023) r w)"


text \<open>Writing \<open>s0\<close> (register 0x1008) with a double word.\<close>

definition demo_dm_config :: debug_module_config_t where
  "demo_dm_config = \<lparr>progbufsize = 2, max_sba_data_width = 0, require_authentication = False, abstract_rti = 0, support_hasel = True,
     support_abstract_csr_access = True, support_abstract_fpr_access = True, support_haltgroups = True, support_impebreak = True\<rparr>"


subsection \<open>A running command\<close>

text \<open>What a debugger must not disturb while a command runs.\<close>

definition command_state :: "dm_t \<Rightarrow> u8 list \<times> u8 list \<times> u8 list \<times> u8 list \<times> bool \<times> bool" where
  "command_state d = (dm_abstract d, dm_progbuf d, dm_data d, dm_flags d, dm_busy d, dm_completed d)"

lemma command_frame [simp]:
  "command_state (d\<lparr>dm_cmderr := c\<rparr>) = command_state d" "command_state (d\<lparr>dm_command := v\<rparr>) = command_state d"
  "command_state (d\<lparr>dm_sbcs := s\<rparr>) = command_state d" "command_state (d\<lparr>dm_hawindowsel := w\<rparr>) = command_state d"
  "command_state (d\<lparr>dm_autoexecprogbuf := v\<rparr>) = command_state d" "command_state (d\<lparr>dm_autoexecdata := v\<rparr>) = command_state d"
  "command_state (d\<lparr>dm_authenticated := b\<rparr>) = command_state d" "command_state (d\<lparr>dm_challenge := v\<rparr>) = command_state d"
  "command_state (d\<lparr>dm_hart_mask := ms\<rparr>) = command_state d" "command_state (upd_hart i f d) = command_state d"
  "command_state (set_sbaddress i v d) = command_state d" "command_state (set_sbdata i v d) = command_state d"
  "command_state (set_sb_error v d) = command_state d" "command_state (sb_autoincrement d) = command_state d"
  "command_state (data_busy d) = command_state d" "dm_busy (data_busy d) = dm_busy d"
  by (simp_all add: command_state_def upd_hart_def set_sbaddress_def set_sbdata_def set_sb_error_def sb_autoincrement_def data_busy_def Let_def)

lemma perform_busy: "dm_busy d \<Longrightarrow> command_state (perform_abstract_command ids d) = command_state d"
  by (simp add: perform_abstract_command_def)

lemma auto_busy: "dm_busy d \<Longrightarrow> auto_command ids a i d = d"
  by (simp add: auto_command_def)

lemma sb_access_frame:
  "sb_read B d p = (ok, d', p') \<Longrightarrow> command_state d' = command_state d"
  "sb_write B d p = (ok, d', p') \<Longrightarrow> command_state d' = command_state d"
  by (auto simp: sb_read_def sb_write_def Let_def command_state_def set_sb_error_def split: option.splits prod.splits sys_result.splits)

lemma dmi_read_frame: "dm_busy d \<Longrightarrow> command_state (fst (snd (dmi_read B ids addr d p))) = command_state d"
  by (auto simp: dmi_read_def Let_def auto_busy sbdata0_read_def dest: sb_access_frame split: prod.splits if_splits)

lemma hawindow_frame: "command_state (hawindow_write ids v d) = command_state d"
proof -
  have "command_state (fold (\<lambda>i d. if b + i < length ids
          then d\<lparr>dm_hart_mask := (dm_hart_mask d)[ids ! (b + i) := (shr v i AND 1 \<noteq> 0)]\<rparr> else d) is d) = command_state d" for b "is"
    by (induction "is" arbitrary: d) auto
  then show ?thesis by (simp add: hawindow_write_def Let_def)
qed

lemma register_write_frame:
  "dm_busy d \<Longrightarrow> dm_register_write ids r addr v d = Some d' \<Longrightarrow> command_state d' = command_state d"
  by (auto simp: dm_register_write_def hawindow_frame perform_busy sbcs_write_def authdata_write_def dmcs2_write_def Let_def split: if_splits)

lemma sb_regs_frame:
  "sbaddress0_write B v d p = (ok, d', p') \<Longrightarrow> command_state d' = command_state d"
  "sbdata0_write B v d p = (ok', d', p') \<Longrightarrow> command_state d' = command_state d"
  by (auto simp: sbaddress0_write_def sbdata0_write_def Let_def dest: sb_access_frame split: prod.splits if_splits)

lemma dmi_write_frame:
  assumes "dm_busy d" "addr \<noteq> DM_DMCONTROL"
  shows "command_state (fst (snd (snd (dmi_write B ids r addr v d p)))) = command_state d"
proof -
  obtain oka da pa where a: "sbaddress0_write B v d p = (oka, da, pa)" using prod_cases3 by blast
  obtain okd dd pd where s: "sbdata0_write B v d p = (okd, dd, pd)" using prod_cases3 by blast
  have "dm_register_write ids r a v d = Some d' \<Longrightarrow> command_state d' = command_state d" for a d'
    using register_write_frame [OF assms(1)] by blast
  then show ?thesis using assms sb_regs_frame(1) [OF a] sb_regs_frame(2) [OF s]
    by (simp add: dmi_write_def a s Let_def auto_busy split: option.split)
qed


text \<open>Reading and writing data register 0 while a command runs.\<close>

definition demo_dm :: dm_t where
  "demo_dm = snd (dm_reset [0] 0 \<lparr>dm_config = demo_dm_config, dm_custom_base = 0, dm_whereto = replicate 4 0, dm_abstract = replicate 48 0,
     dm_progbuf = replicate 12 0, dm_data = replicate 8 0, dm_harts = [\<lparr>hd_halted = True, hd_resumeack = False, hd_havereset = False, hd_haltgroup = 0\<rparr>],
     dm_flags = replicate 1024 0, dm_control = \<lparr>dc_haltreq = False, dc_resumereq = False, dc_hasel = False, dc_hartsel = 0, dc_hartreset = False,
       dc_dmactive = False, dc_ndmreset = False\<rparr>, dm_impebreak = False, dm_authenticated = False, dm_version = 0, dm_busy = False,
     dm_datacount = 0, dm_cmderr = 0, dm_autoexecprogbuf = 0, dm_autoexecdata = 0, dm_command = 0, dm_hawindowsel = 0, dm_hart_mask = [False],
     dm_sbcs = \<lparr>sb_version = 0, sb_readonaddr = False, sb_access = 0, sb_autoinc = False, sb_readondata = False, sb_error = 0, sb_asize = 0,
       sb_access64 = False, sb_access32 = False, sb_access16 = False, sb_access8 = False\<rparr>,
     dm_sbaddress = replicate 4 0, dm_sbdata = replicate 4 0, dm_challenge = 0, dm_completed = False, dm_rti_remaining = 0\<rparr>)"

definition no_sysbus :: "unit sysbus" where
  "no_sysbus = \<lparr>sys_load = (\<lambda>_ _ p. (Sys_load_fault, p)), sys_store = (\<lambda>_ _ _ p. (Sys_throw, p))\<rparr>"



end
