(* ===== verification/Sim.thy ===== *)
theory Sim
  imports Sim_Bus Execute Debug_Exec
begin

text \<open>
  The machine of riscv/sim.cc: the boot ROM, and the round over the harts with its quanta, timer and
  terminal. The round terminates and stays in step.
\<close>

subsection \<open>The boot ROM\<close>

definition word_bytes :: "u32 \<Rightarrow> u8 list" where
  "word_bytes w = map (\<lambda>i. ucast (shr w (8 * i))) [0..<4]"

definition reset_vec :: "nat \<Rightarrow> reg_t \<Rightarrow> u32 list" where
  "reset_vec xl start_pc = [0x297, 0x28593 + shl (8 * 4) 20, 0xf1402573, if xl = 32 then 0x0182a283 else 0x0182b283, 0x28067, 0,
     ucast (start_pc AND 0xffffffff), ucast (shr start_pc 32)]"

text \<open>The reset vector, the device tree, and zeroes up to a whole page.\<close>

definition boot_rom :: "nat \<Rightarrow> reg_t \<Rightarrow> u8 list \<Rightarrow> u8 list" where
  "boot_rom xl start_pc dtb =
     (let rom = concat (map word_bytes (reset_vec xl start_pc)) @ dtb
      in rom @ replicate ((length rom + 0x1000 - 1) div 0x1000 * 0x1000 - length rom) 0)"

subsection \<open>The machine\<close>

text \<open>The harts are those of the bus, in the order of their creation. The terminal holds what was typed and not
  read yet; it and the wall clock change between steps. The frame buffer's display is output.\<close>

record ('i, 'q) machine =
  mc_mem :: "reg_t \<Rightarrow> u8"
  mc_bus :: "('i, 'q) sim_bus"
  mc_keys :: "u8 list"
  current_step :: nat
  current_proc :: nat

abbreviation (input) INTERLEAVE :: nat where "INTERLEAVE \<equiv> 5000"
abbreviation (input) INSNS_PER_RTC_TICK :: nat where "INSNS_PER_RTC_TICK \<equiv> 100"

definition procs :: "('i, 'q) machine \<Rightarrow> (nat \<times> hart) list" where
  "procs m = sb_harts (mc_bus m)"

definition upd_procs :: "((nat \<times> hart) list \<Rightarrow> (nat \<times> hart) list) \<Rightarrow> ('i, 'q) machine \<Rightarrow> ('i, 'q) machine" where
  "upd_procs f m = m\<lparr>mc_bus := (mc_bus m)\<lparr>sb_harts := f (procs m)\<rparr>\<rparr>"

text \<open>Raising the lines outside an access, when no hart runs.\<close>

definition raise_all :: "hart_irqs \<Rightarrow> ('i, 'q) machine \<Rightarrow> ('i, 'q) machine" where
  "raise_all ev = upd_procs (map (\<lambda>(i, h). (i, raise_irqs (hart_events i ev) h)))"

definition all_mips :: "('i, 'q) machine \<Rightarrow> hart_mips" where
  "all_mips m = map (\<lambda>(i, h). (i, mip_read h)) (procs m)"

text \<open>The step of the running hart: \<open>step\<close> is \<open>hart_step\<close> of its configuration.\<close>

type_synonym ('i, 'q) stepper = "nat \<Rightarrow> ('i, 'q) sim_bus world \<Rightarrow> ((exn + unit) \<times> ('i, 'q) sim_bus world) option"

definition run_hart :: "('i, 'q) stepper \<Rightarrow> nat \<Rightarrow> ('i, 'q) machine \<Rightarrow> ((exn + unit) \<times> ('i, 'q) machine) option" where
  "run_hart step n m = (case procs m ! current_proc m of (i, h) \<Rightarrow>
     map_option (\<lambda>(r, w). (r, upd_procs (\<lambda>hs. hs[current_proc m := (i, w_hart w)]) (m\<lparr>mc_mem := w_mem w, mc_bus := w_bus w\<rparr>)))
       (step n \<lparr>w_hart = h, w_mem = mc_mem m, w_bus = (mc_bus m)\<lparr>sb_cur := i\<rparr>\<rparr>))"

definition clint_advance :: "reg_t \<Rightarrow> ('i, 'q) machine \<Rightarrow> ('i, 'q) machine" where
  "clint_advance inc m = (case clint_increment (all_mips m) (sb_now (mc_bus m)) inc (sb_clint (mc_bus m)) of (ev, cl) \<Rightarrow>
     raise_all ev (m\<lparr>mc_bus := (mc_bus m)\<lparr>sb_clint := cl\<rparr>\<rparr>))"

text \<open>The terminal is asked for a character only if the receiver can take one.\<close>

definition uart_polls :: "ns16550_t \<Rightarrow> bool" where
  "uart_polls u \<longleftrightarrow> \<not> (u_fcr u AND UART_FCR_ENABLE_FIFO = 0 \<or> u_mcr u AND UART_MCR_LOOP \<noteq> 0 \<or> UART_QUEUE_SIZE \<le> length (rx_queue u)) \<and>
     \<not> (backoff_counter u > 0 \<and> backoff_counter u < 16)"

definition uart_advance :: "('i, 'q) machine \<Rightarrow> ('i, 'q) machine" where
  "uart_advance m = (
     let b = mc_bus m; ks = mc_keys m
     in case uart_tick (case ks of [] \<Rightarrow> None | ch # _ \<Rightarrow> Some ch) (sb_uart b) of (u, li) \<Rightarrow>
        (case uart_line li (sb_plic b) of (ev, pl) \<Rightarrow>
           raise_all ev (m\<lparr>mc_bus := b\<lparr>sb_uart := u, sb_plic := pl\<rparr>, mc_keys := if uart_polls (sb_uart b) then tl ks else ks\<rparr>)))"

definition end_quantum :: "nat \<Rightarrow> ('i, 'q) machine \<Rightarrow> ('i, 'q) machine" where
  "end_quantum nprocs m =
     (if current_step m = INTERLEAVE then
        let m = upd_procs (\<lambda>hs. hs[current_proc m := apsnd (\<lambda>h. h\<lparr>mmu := yield_load_reservation (mmu h)\<rparr>) (hs ! current_proc m)])
                  (m\<lparr>current_step := 0\<rparr>);
            m = m\<lparr>current_proc := current_proc m + 1\<rparr>
        in if current_proc m = nprocs
           then uart_advance (clint_advance (of_nat (INTERLEAVE div INSNS_PER_RTC_TICK)) (m\<lparr>current_proc := 0\<rparr>))
           else m
      else m)"

partial_function (option) machine_step :: "nat \<Rightarrow> ('i, 'q) stepper \<Rightarrow> nat \<Rightarrow> ('i, 'q) machine \<Rightarrow> ((exn + unit) \<times> ('i, 'q) machine) option" where
  "machine_step nprocs step n m = (if n = 0 then Some (Inr (), m)
     else let steps = min n (INTERLEAVE - current_step m)
     in case run_hart step steps m of
          None \<Rightarrow> None
        | Some (Inl e, m) \<Rightarrow> Some (Inl e, m)
        | Some (Inr _, m) \<Rightarrow> machine_step nprocs step (n - steps) (end_quantum nprocs (m\<lparr>current_step := current_step m + steps\<rparr>)))"

text \<open>The simulator itself; what an instruction does is given.\<close>

definition nnemu_step :: "('i, 'q) sim_cfg \<Rightarrow> (insn_t \<Rightarrow> reg_t \<Rightarrow> (('i, 'q) sim_bus, reg_t) mcomp) \<Rightarrow> nat \<Rightarrow> ('i, 'q) machine \<Rightarrow>
    ((exn + unit) \<times> ('i, 'q) machine) option" where
  "nnemu_step c run = machine_step (length (sc_hartids c)) (hart_step \<lparr>xc_sim = machine_if c, xc_run = run, xc_debug = False,
     xc_log_commits = False, xc_histogram = False\<rparr>)"

subsection \<open>The scheduler\<close>

text \<open>Where the machine is in its round over the harts.\<close>

definition position :: "('i, 'q) machine \<Rightarrow> nat" where
  "position m = current_proc m * INTERLEAVE + current_step m"

definition machine_ok :: "nat \<Rightarrow> ('i, 'q) machine \<Rightarrow> bool" where
  "machine_ok nprocs m \<longleftrightarrow> current_step m < INTERLEAVE \<and> current_proc m < nprocs"

lemma advance_position:
  "current_step (clint_advance k m) = current_step m" "current_proc (clint_advance k m) = current_proc m"
  "current_step (uart_advance m) = current_step m" "current_proc (uart_advance m) = current_proc m"
  by (simp_all add: clint_advance_def uart_advance_def raise_all_def upd_procs_def Let_def split: prod.splits)

lemma run_hart_position: "run_hart step n m = Some (r, m') \<Longrightarrow> current_step m' = current_step m \<and> current_proc m' = current_proc m"
  by (auto simp: run_hart_def upd_procs_def split: prod.splits)

lemma run_hart_total: "(\<And>w. step n w \<noteq> None) \<Longrightarrow> run_hart step n m \<noteq> None"
  by (simp add: run_hart_def split: prod.splits)

text \<open>A slice ends inside the quantum or at its end.\<close>

lemma end_quantum_position:
  assumes "current_step m \<le> INTERLEAVE" "current_proc m < nprocs"
  shows "machine_ok nprocs (end_quantum nprocs m) \<and> position (end_quantum nprocs m) = position m mod (nprocs * INTERLEAVE)"
proof (cases "current_step m = INTERLEAVE")
  case True
  then have e: "end_quantum nprocs m =
      (let m' = (upd_procs (\<lambda>hs. hs[current_proc m := apsnd (\<lambda>h. h\<lparr>mmu := yield_load_reservation (mmu h)\<rparr>) (hs ! current_proc m)])
                  (m\<lparr>current_step := 0\<rparr>))\<lparr>current_proc := current_proc m + 1\<rparr>
       in if current_proc m + 1 = nprocs then uart_advance (clint_advance (of_nat (INTERLEAVE div INSNS_PER_RTC_TICK)) (m'\<lparr>current_proc := 0\<rparr>)) else m')"
    by (simp add: end_quantum_def Let_def upd_procs_def)
  have p: "position m = (current_proc m + 1) * INTERLEAVE" using True by (simp add: position_def)
  show ?thesis
  proof (cases "current_proc m + 1 = nprocs")
    case last: True
    then have "position m mod (nprocs * INTERLEAVE) = 0" unfolding p by simp
    then show ?thesis using last assms by (simp add: e Let_def machine_ok_def position_def advance_position upd_procs_def)
  next
    case False
    then have l: "current_proc m + 1 < nprocs" using assms(2) by linarith
    then have "position m < nprocs * INTERLEAVE" unfolding p by simp
    then show ?thesis using l p by (simp add: e Let_def machine_ok_def position_def upd_procs_def)
  qed
next
  case False
  then have l: "current_step m < INTERLEAVE" using assms(1) by linarith
  have "position m < (current_proc m + 1) * INTERLEAVE" using l by (simp add: position_def)
  also have "\<dots> \<le> nprocs * INTERLEAVE" using assms(2) by simp
  finally show ?thesis using False l assms(2) by (simp add: end_quantum_def machine_ok_def)
qed


definition demo_machine :: "(unit, unit) machine" where
  "demo_machine = \<lparr>mc_mem = (\<lambda>_. 0),
     mc_bus = \<lparr>sb_cur = 0, sb_harts = [(0, demo_hart), (1, demo_hart)], sb_now = 0, sb_rom = boot_rom 64 0x80000000 [],
       sb_clint = \<lparr>cl_freq_hz = 10000000, cl_real_time = False, cl_mtime = 0, cl_mtimecmp = (\<lambda>_. 0)\<rparr>,
       sb_plic = plic_new [(0, True), (1, True)] 31, sb_uart = ns16550_new 0 0 1, sb_disk = sync_disk_new,
       sb_vga = \<lparr>pixels = (\<lambda>_. 0), fb_size = 0x12c000\<rparr>, sb_dm = demo_dm, sb_image = (), sb_plugins = ()\<rparr>,
     mc_keys = [], current_step = 0, current_proc = 0\<rparr>"


end
